(* ===== verification/Awf_Prelude.thy ===== *)
theory Awf_Prelude
  imports Complex_Main "HOL-Library.AList" "HOL-Library.Sublist" "HOL-Library.Char_ord"
    "HOL-Library.List_Lexorder"
begin

text \<open>
  What every part of the model shares: JSON values and Python dicts, Python's text and number
  conversions, actions over a state that may return, raise or run forever, and the rules by which
  an invariant of the state is carried through an action.
\<close>

section \<open>JSON values and dicts\<close>

text \<open>
  A value the backend moves through json.dumps and json.loads.  A Python dict keeps the order in
  which its keys were first inserted, so it is an association list: d.get(k) is
  \<^const>\<open>map_of\<close>, d[k] = v is \<^const>\<open>AList.update\<close>, which replaces in place or appends.  A
  float is the exact rational it stands for; infinities and nan are not represented.
\<close>

datatype json =
    JNull
  | JBool bool
  | JInt int
  | JFloat rat
  | JStr string
  | JList "json list"
  | JObj "(string \<times> json) list"

type_synonym obj = "(string \<times> json) list"

definition get :: "string \<Rightarrow> obj \<Rightarrow> json" where
  "get k d = (case map_of d k of None \<Rightarrow> JNull | Some v \<Rightarrow> v)"

definition get_or :: "string \<Rightarrow> json \<Rightarrow> obj \<Rightarrow> json" where
  "get_or k v0 d = (case map_of d k of None \<Rightarrow> v0 | Some v \<Rightarrow> v)"

definition has_key :: "string \<Rightarrow> obj \<Rightarrow> bool" where
  "has_key k d = (map_of d k \<noteq> None)"

text \<open>The dict display with two unpacked dicts, left entries first and right values winning.\<close>

definition merge_obj :: "obj \<Rightarrow> obj \<Rightarrow> obj" where
  "merge_obj a b = fold (\<lambda>(k, v) d. AList.update k v d) b a"

text \<open>bool(value).\<close>

fun truthy :: "json \<Rightarrow> bool" where
  "truthy JNull = False"
| "truthy (JBool b) = b"
| "truthy (JInt i) = (i \<noteq> 0)"
| "truthy (JFloat q) = (q \<noteq> 0)"
| "truthy (JStr s) = (s \<noteq> [])"
| "truthy (JList l) = (l \<noteq> [])"
| "truthy (JObj d) = (d \<noteq> [])"

definition or_else :: "json \<Rightarrow> json \<Rightarrow> json" where
  "or_else a b = (if truthy a then a else b)"

fun as_obj :: "json \<Rightarrow> obj" where
  "as_obj (JObj d) = d"
| "as_obj _ = []"

fun is_obj :: "json \<Rightarrow> bool" where
  "is_obj (JObj d) = True"
| "is_obj _ = False"

fun is_list :: "json \<Rightarrow> bool" where
  "is_list (JList l) = True"
| "is_list _ = False"

fun is_str :: "json \<Rightarrow> bool" where
  "is_str (JStr s) = True"
| "is_str _ = False"

text \<open>A nullable column or an optional argument.\<close>

definition jopt :: "string option \<Rightarrow> json" where
  "jopt x = (case x of None \<Rightarrow> JNull | Some s \<Rightarrow> JStr s)"

text \<open>json.dumps(value, sort_keys=True), as the value that json.loads reads back.\<close>

fun sort_json :: "json \<Rightarrow> json" where
  "sort_json (JList l) = JList (map sort_json l)"
| "sort_json (JObj d) = JObj (sort_key fst (map (\<lambda>(k, v). (k, sort_json v)) d))"
| "sort_json v = v"

section \<open>Text\<close>

definition digit :: "nat \<Rightarrow> char" where
  "digit n = char_of (48 + n)"

fun nat_str :: "nat \<Rightarrow> string" where
  "nat_str n = (if n < 10 then [digit n] else nat_str (n div 10) @ [digit (n mod 10)])"

declare nat_str.simps [simp del]

definition int_str :: "int \<Rightarrow> string" where
  "int_str i = (if i < 0 then ''-'' @ nat_str (nat (- i)) else nat_str (nat i))"

text \<open>
  str(value) and repr(value).  A string inside a container is shown between quotes: single ones
  unless it holds a single quote and no double one.  Floats are shown as the fraction they are.
\<close>

definition str_repr :: "string \<Rightarrow> string" where
  "str_repr s = (let q = (if CHR 0x27 \<in> set s \<and> CHR 0x22 \<notin> set s then CHR 0x22 else CHR 0x27) in
     q # concat (map (\<lambda>c. if c = q \<or> c = CHR 0x5C then [CHR 0x5C, c]
                          else if c = CHR 0x0A then [CHR 0x5C, CHR ''n'']
                          else if c = CHR 0x0D then [CHR 0x5C, CHR ''r'']
                          else if c = CHR 0x09 then [CHR 0x5C, CHR ''t'']
                          else [c]) s) @ [q])"

definition frac_str :: "rat \<Rightarrow> string" where
  "frac_str q = (let (n, d) = quotient_of q in int_str n @ ''/'' @ int_str d)"

definition join :: "string \<Rightarrow> string list \<Rightarrow> string" where
  "join sep xs = (case xs of [] \<Rightarrow> [] | y # ys \<Rightarrow> y @ concat (map (\<lambda>s. sep @ s) ys))"

fun py_repr :: "json \<Rightarrow> string" where
  "py_repr JNull = ''None''"
| "py_repr (JBool b) = (if b then ''True'' else ''False'')"
| "py_repr (JInt i) = int_str i"
| "py_repr (JFloat q) = frac_str q"
| "py_repr (JStr s) = str_repr s"
| "py_repr (JList l) = ''['' @ join '', '' (map py_repr l) @ '']''"
| "py_repr (JObj d) = ''{'' @ join '', '' (map (\<lambda>(k, v). str_repr k @ '': '' @ py_repr v) d) @ ''}''"

definition py_str :: "json \<Rightarrow> string" where
  "py_str v = (case v of JStr s \<Rightarrow> s | _ \<Rightarrow> py_repr v)"

definition lower_char :: "char \<Rightarrow> char" where
  "lower_char c = (if 65 \<le> (of_char c :: nat) \<and> (of_char c :: nat) \<le> 90 then char_of ((of_char c :: nat) + 32) else c)"

definition upper_char :: "char \<Rightarrow> char" where
  "upper_char c = (if 97 \<le> (of_char c :: nat) \<and> (of_char c :: nat) \<le> 122 then char_of ((of_char c :: nat) - 32) else c)"

definition lower :: "string \<Rightarrow> string" where "lower s = map lower_char s"

definition upper :: "string \<Rightarrow> string" where "upper s = map upper_char s"

definition is_space :: "char \<Rightarrow> bool" where
  "is_space c = (c \<in> {CHR '' '', CHR 0x09, CHR 0x0A, CHR 0x0B, CHR 0x0C, CHR 0x0D, CHR 0x1C, CHR 0x1D, CHR 0x1E, CHR 0x1F})"

definition strip :: "string \<Rightarrow> string" where
  "strip s = rev (dropWhile is_space (rev (dropWhile is_space s)))"

definition is_digit :: "char \<Rightarrow> bool" where
  "is_digit c = (48 \<le> (of_char c :: nat) \<and> (of_char c :: nat) \<le> 57)"

text \<open>The class \w of a regular expression, on ASCII text.\<close>

definition is_word :: "char \<Rightarrow> bool" where
  "is_word c = (is_digit c \<or> c = CHR ''_'' \<or> (65 \<le> (of_char c :: nat) \<and> (of_char c :: nat) \<le> 90)
     \<or> (97 \<le> (of_char c :: nat) \<and> (of_char c :: nat) \<le> 122))"

definition starts_with :: "string \<Rightarrow> string \<Rightarrow> bool" where
  "starts_with p s = prefix p s"

definition ends_with :: "string \<Rightarrow> string \<Rightarrow> bool" where
  "ends_with p s = suffix p s"

text \<open>name, _, version = ref.partition(sep), for a separator of one character.\<close>

definition partition_at :: "char \<Rightarrow> string \<Rightarrow> string \<times> string" where
  "partition_at c s = (takeWhile (\<lambda>x. x \<noteq> c) s, drop 1 (dropWhile (\<lambda>x. x \<noteq> c) s))"

text \<open>s.replace(c, t) for a pattern of one character.\<close>

definition replace_char :: "char \<Rightarrow> string \<Rightarrow> string \<Rightarrow> string" where
  "replace_char c t s = concat (map (\<lambda>x. if x = c then t else [x]) s)"

lemma digit_inj: "a < 10 \<Longrightarrow> b < 10 \<Longrightarrow> digit a = digit b \<longleftrightarrow> a = b"
  by (simp add: digit_def char_of_eq_iff) (auto simp: take_bit_eq_mod)

lemma digit_is_digit: "a < 10 \<Longrightarrow> is_digit (digit a)"
  by (simp add: is_digit_def digit_def take_bit_eq_mod)

lemma nat_str_nonempty [simp]: "nat_str n \<noteq> []"
  by (subst nat_str.simps) simp

lemma nat_str_nonempty_sym [simp]: "[] \<noteq> nat_str n"
  using nat_str_nonempty [of n] by (simp add: eq_commute)

lemma nat_str_digits: "c \<in> set (nat_str n) \<Longrightarrow> is_digit c"
proof (induction n arbitrary: c rule: nat_str.induct)
  case (1 n)
  then show ?case
    by (cases "n < 10") (auto simp: nat_str.simps [of n] digit_is_digit)
qed

lemma nat_str_inj: "nat_str m = nat_str n \<longleftrightarrow> m = n"
proof (induction m arbitrary: n rule: nat_str.induct)
  case (1 m)
  show ?case
  proof (cases "m < 10")
    case True
    then show ?thesis
      by (cases "n < 10") (auto simp: nat_str.simps [of m] nat_str.simps [of n] digit_inj)
  next
    case m: False
    show ?thesis
    proof (cases "n < 10")
      case True
      then show ?thesis using m
        by (auto simp: nat_str.simps [of m] nat_str.simps [of n])
    next
      case False
      have "nat_str m = nat_str n \<longleftrightarrow> m div 10 = n div 10 \<and> m mod 10 = n mod 10"
        using m False 1 [of "n div 10"]
        by (simp add: nat_str.simps [of m] nat_str.simps [of n] digit_inj)
      also have "\<dots> \<longleftrightarrow> m = n"
        by (metis div_mult_mod_eq)
      finally show ?thesis .
    qed
  qed
qed

lemma split_at_last_sep:
  assumes "c \<notin> set b" and "c \<notin> set b'"
  shows "a @ c # b = a' @ c # b' \<longleftrightarrow> a = a' \<and> b = b'"
proof
  assume eq: "a @ c # b = a' @ c # b'"
  have "takeWhile (\<lambda>x. x \<noteq> c) (rev (a @ c # b)) = rev b"
    using assms(1) by (simp add: takeWhile_append)
  moreover have "takeWhile (\<lambda>x. x \<noteq> c) (rev (a' @ c # b')) = rev b'"
    using assms(2) by (simp add: takeWhile_append)
  ultimately have "b = b'" using eq by (metis rev_rev_ident)
  with eq show "a = a' \<and> b = b'" by simp
qed simp

lemma hash_not_in_nat_str [simp]: "CHR ''#'' \<notin> set (nat_str n)"
  using nat_str_digits [of "CHR ''#''" n] by (auto simp: is_digit_def)

end
