(* ===== verification/Awf_Action.thy ===== *)
theory Awf_Action
  imports Awf_Prelude
begin

text \<open>
  Python code as actions: a function of the state that gives a result and the state after it.  An
  exception keeps the effects made before it was raised.  \<open>Div\<close> is the result of a run that never
  ends (or needs more fuel than it was given); no handler catches it.
\<close>

section \<open>Exceptions and results\<close>

text \<open>An exception: its class, its text, and its failure_class attribute if it has one.\<close>

datatype exc = Exc (exc_type: string) (exc_text: string) (exc_class: "string option")

datatype 'a res = Val 'a | Exn exc | Div

type_synonym ('w, 'a) act = "'w \<Rightarrow> 'a res \<times> 'w"

definition ret :: "'a \<Rightarrow> ('w, 'a) act" where
  "ret a = (\<lambda>w. (Val a, w))"

definition raise :: "exc \<Rightarrow> ('w, 'a) act" where
  "raise e = (\<lambda>w. (Exn e, w))"

definition throw :: "string \<Rightarrow> string \<Rightarrow> ('w, 'a) act" where
  "throw cls msg = raise (Exc cls msg None)"

definition throw_class :: "string \<Rightarrow> string \<Rightarrow> string \<Rightarrow> ('w, 'a) act" where
  "throw_class cls msg fc = raise (Exc cls msg (Some fc))"

definition diverge :: "('w, 'a) act" where
  "diverge = (\<lambda>w. (Div, w))"

definition bindE :: "('w, 'a) act \<Rightarrow> ('a \<Rightarrow> ('w, 'b) act) \<Rightarrow> ('w, 'b) act" where
  "bindE m f = (\<lambda>w. case m w of
      (Val a, w') \<Rightarrow> f a w'
    | (Exn e, w') \<Rightarrow> (Exn e, w')
    | (Div, w') \<Rightarrow> (Div, w'))"

definition seqE :: "('w, 'a) act \<Rightarrow> ('w, 'b) act \<Rightarrow> ('w, 'b) act" where
  "seqE m n = bindE m (\<lambda>_. n)"

text \<open>try: m, with the exception as a value for the except clause that follows.\<close>

definition attempt :: "('w, 'a) act \<Rightarrow> ('w, exc + 'a) act" where
  "attempt m = (\<lambda>w. case m w of
      (Val a, w') \<Rightarrow> (Val (Inr a), w')
    | (Exn e, w') \<Rightarrow> (Val (Inl e), w')
    | (Div, w') \<Rightarrow> (Div, w'))"

definition catchE :: "('w, 'a) act \<Rightarrow> (exc \<Rightarrow> ('w, 'a) act) \<Rightarrow> ('w, 'a) act" where
  "catchE m h = bindE (attempt m) (\<lambda>r. case r of Inl e \<Rightarrow> h e | Inr a \<Rightarrow> ret a)"

definition finallyE :: "('w, 'a) act \<Rightarrow> ('w, unit) act \<Rightarrow> ('w, 'a) act" where
  "finallyE m c = bindE (attempt m) (\<lambda>r. seqE c (case r of Inl e \<Rightarrow> raise e | Inr a \<Rightarrow> ret a))"

definition gets :: "('w \<Rightarrow> 'a) \<Rightarrow> ('w, 'a) act" where
  "gets f = (\<lambda>w. (Val (f w), w))"

definition modify :: "('w \<Rightarrow> 'w) \<Rightarrow> ('w, unit) act" where
  "modify f = (\<lambda>w. (Val (), f w))"

definition whenE :: "bool \<Rightarrow> ('w, unit) act \<Rightarrow> ('w, unit) act" where
  "whenE b m = (if b then m else ret ())"

definition demand :: "exc \<Rightarrow> 'a option \<Rightarrow> ('w, 'a) act" where
  "demand e x = (case x of None \<Rightarrow> raise e | Some a \<Rightarrow> ret a)"

text \<open>The loops for x in xs: f(x), as a statement, as a list comprehension and with a state.\<close>

primrec forE :: "('a \<Rightarrow> ('w, unit) act) \<Rightarrow> 'a list \<Rightarrow> ('w, unit) act" where
  "forE f [] = ret ()"
| "forE f (x # xs) = seqE (f x) (forE f xs)"

primrec mapE :: "('a \<Rightarrow> ('w, 'b) act) \<Rightarrow> 'a list \<Rightarrow> ('w, 'b list) act" where
  "mapE f [] = ret []"
| "mapE f (x # xs) = bindE (f x) (\<lambda>y. bindE (mapE f xs) (\<lambda>ys. ret (y # ys)))"

primrec foldE :: "('a \<Rightarrow> 's \<Rightarrow> ('w, 's) act) \<Rightarrow> 'a list \<Rightarrow> 's \<Rightarrow> ('w, 's) act" where
  "foldE f [] s = ret s"
| "foldE f (x # xs) s = bindE (f x s) (foldE f xs)"

section \<open>Carrying an invariant through an action\<close>

text \<open>
  \<open>carries I m\<close>: whatever m does, raise included, a state with I is left in a state with I.
  \<open>halts m\<close>: m never runs forever.  The rules below take an action apart along its structure; the
  rule of each operation of the model joins the collection of its kind.
\<close>

definition carries :: "('w \<Rightarrow> bool) \<Rightarrow> ('w, 'a) act \<Rightarrow> bool" where
  "carries I m = (\<forall>w. I w \<longrightarrow> I (snd (m w)))"

definition halts :: "('w, 'a) act \<Rightarrow> bool" where
  "halts m = (\<forall>w. fst (m w) \<noteq> Div)"

named_theorems carry
named_theorems halt
named_theorems run

lemmas act_defs = ret_def raise_def throw_def throw_class_def diverge_def bindE_def seqE_def
  attempt_def catchE_def finallyE_def gets_def modify_def whenE_def demand_def

lemma carriesI: "(\<And>w. I w \<Longrightarrow> I (snd (m w))) \<Longrightarrow> carries I m"
  by (simp add: carries_def)

lemma carriesD: "carries I m \<Longrightarrow> I w \<Longrightarrow> I (snd (m w))"
  by (simp add: carries_def)

lemma carries_ret [carry]: "carries I (ret a)"
  by (simp add: carries_def ret_def)

lemma carries_raise [carry]: "carries I (raise e)"
  by (simp add: carries_def raise_def)

lemma carries_throw [carry]: "carries I (throw c t)"
  by (simp add: throw_def carries_raise)

lemma carries_throw_class [carry]: "carries I (throw_class c t f)"
  by (simp add: throw_class_def carries_raise)

lemma carries_diverge [carry]: "carries I diverge"
  by (simp add: carries_def diverge_def)

lemma carries_gets [carry]: "carries I (gets f)"
  by (simp add: carries_def gets_def)

lemma carries_modify: "(\<And>w. I w \<Longrightarrow> I (f w)) \<Longrightarrow> carries I (modify f)"
  by (simp add: carries_def modify_def)

lemma carries_bind [carry]:
  assumes "carries I m" and "\<And>a. carries I (f a)"
  shows "carries I (bindE m f)"
proof (rule carriesI)
  fix w assume "I w"
  then have "I (snd (m w))" using assms(1) by (rule carriesD [rotated])
  then show "I (snd (bindE m f w))"
    using assms(2) by (auto simp: bindE_def carries_def split: prod.split res.split)
qed

lemma carries_seq [carry]: "carries I m \<Longrightarrow> carries I n \<Longrightarrow> carries I (seqE m n)"
  unfolding seqE_def by (intro carries_bind)

lemma carries_attempt [carry]: "carries I m \<Longrightarrow> carries I (attempt m)"
  by (auto simp: carries_def attempt_def split: prod.split res.split)

lemma carries_if [carry]:
  "(b \<Longrightarrow> carries I m) \<Longrightarrow> (\<not> b \<Longrightarrow> carries I n) \<Longrightarrow> carries I (if b then m else n)"
  by simp

lemma carries_when [carry]: "(b \<Longrightarrow> carries I m) \<Longrightarrow> carries I (whenE b m)"
  unfolding whenE_def by (intro carry)

lemma carries_option [carry]:
  "(x = None \<Longrightarrow> carries I m) \<Longrightarrow> (\<And>a. x = Some a \<Longrightarrow> carries I (f a)) \<Longrightarrow>
   carries I (case x of None \<Rightarrow> m | Some a \<Rightarrow> f a)"
  by (simp split: option.split)

lemma carries_sum [carry]:
  "(\<And>a. x = Inl a \<Longrightarrow> carries I (f a)) \<Longrightarrow> (\<And>b. x = Inr b \<Longrightarrow> carries I (g b)) \<Longrightarrow>
   carries I (case x of Inl a \<Rightarrow> f a | Inr b \<Rightarrow> g b)"
  by (simp split: sum.split)

lemma carries_prod [carry]:
  "(\<And>a b. x = (a, b) \<Longrightarrow> carries I (f a b)) \<Longrightarrow> carries I (case x of (a, b) \<Rightarrow> f a b)"
  by (simp split: prod.split)

lemma carries_list [carry]:
  "(x = [] \<Longrightarrow> carries I m) \<Longrightarrow> (\<And>a b. x = a # b \<Longrightarrow> carries I (f a b)) \<Longrightarrow>
   carries I (case x of [] \<Rightarrow> m | a # b \<Rightarrow> f a b)"
  by (simp split: list.split)

lemma carries_json [carry]:
  "carries I a \<Longrightarrow> (\<And>x. carries I (b x)) \<Longrightarrow> (\<And>x. carries I (c x)) \<Longrightarrow> (\<And>x. carries I (d x)) \<Longrightarrow>
   (\<And>x. carries I (e x)) \<Longrightarrow> (\<And>x. carries I (f x)) \<Longrightarrow> (\<And>x. carries I (g x)) \<Longrightarrow>
   carries I (case_json a b c d e f g v)"
  by (simp split: json.split)

lemma carries_let [carry]: "(\<And>x. x = v \<Longrightarrow> carries I (f x)) \<Longrightarrow> carries I (Let v f)"
  by (simp add: Let_def)

lemma carries_demand [carry]: "carries I (demand e x)"
  unfolding demand_def by (intro carry)

lemma carries_catch [carry]:
  "carries I m \<Longrightarrow> (\<And>e. carries I (h e)) \<Longrightarrow> carries I (catchE m h)"
  unfolding catchE_def by (intro carry)

lemma carries_finally [carry]: "carries I m \<Longrightarrow> carries I c \<Longrightarrow> carries I (finallyE m c)"
  unfolding finallyE_def by (intro carry)

lemma carries_for [carry]: "(\<And>x. x \<in> set xs \<Longrightarrow> carries I (f x)) \<Longrightarrow> carries I (forE f xs)"
  by (induction xs) (simp_all add: carries_ret carries_seq)

lemma carries_map [carry]: "(\<And>x. x \<in> set xs \<Longrightarrow> carries I (f x)) \<Longrightarrow> carries I (mapE f xs)"
  by (induction xs) (simp_all add: carries_ret carries_bind)

lemma carries_fold [carry]:
  "(\<And>x s. x \<in> set xs \<Longrightarrow> carries I (f x s)) \<Longrightarrow> carries I (foldE f xs s)"
  by (induction xs arbitrary: s) (simp_all add: carries_ret carries_bind)

section \<open>Never running forever\<close>

lemma haltsI: "(\<And>w. fst (m w) \<noteq> Div) \<Longrightarrow> halts m"
  by (simp add: halts_def)

lemma halts_basic [halt]:
  "halts (ret a)" "halts (raise e)" "halts (throw c t)" "halts (throw_class c t g)"
  "halts (gets h)" "halts (modify k)"
  by (simp_all add: halts_def act_defs)

lemma halts_bind [halt]: "halts m \<Longrightarrow> (\<And>a. halts (f a)) \<Longrightarrow> halts (bindE m f)"
  by (auto simp: halts_def bindE_def split: prod.split res.split) (metis fst_conv)

lemma halts_seq [halt]: "halts m \<Longrightarrow> halts n \<Longrightarrow> halts (seqE m n)"
  unfolding seqE_def by (intro halt)

lemma halts_attempt [halt]: "halts m \<Longrightarrow> halts (attempt m)"
  by (auto simp: halts_def attempt_def split: prod.split res.split) (metis fst_conv)

lemma halts_if [halt]: "(b \<Longrightarrow> halts m) \<Longrightarrow> (\<not> b \<Longrightarrow> halts n) \<Longrightarrow> halts (if b then m else n)"
  by simp

lemma halts_when [halt]: "(b \<Longrightarrow> halts m) \<Longrightarrow> halts (whenE b m)"
  unfolding whenE_def by (intro halt)

lemma halts_option [halt]:
  "(x = None \<Longrightarrow> halts m) \<Longrightarrow> (\<And>a. x = Some a \<Longrightarrow> halts (f a)) \<Longrightarrow>
   halts (case x of None \<Rightarrow> m | Some a \<Rightarrow> f a)"
  by (simp split: option.split)

lemma halts_sum [halt]:
  "(\<And>a. x = Inl a \<Longrightarrow> halts (f a)) \<Longrightarrow> (\<And>b. x = Inr b \<Longrightarrow> halts (g b)) \<Longrightarrow>
   halts (case x of Inl a \<Rightarrow> f a | Inr b \<Rightarrow> g b)"
  by (simp split: sum.split)

lemma halts_prod [halt]:
  "(\<And>a b. x = (a, b) \<Longrightarrow> halts (f a b)) \<Longrightarrow> halts (case x of (a, b) \<Rightarrow> f a b)"
  by (simp split: prod.split)

lemma halts_let [halt]: "(\<And>x. x = v \<Longrightarrow> halts (f x)) \<Longrightarrow> halts (Let v f)"
  by (simp add: Let_def)

lemma halts_demand [halt]: "halts (demand e x)"
  unfolding demand_def by (intro halt)

section \<open>Running an action\<close>

lemma run_simps [run]:
  "ret a w = (Val a, w)"
  "raise e w = (Exn e, w)"
  "throw c t w = (Exn (Exc c t None), w)"
  "throw_class c t g w = (Exn (Exc c t (Some g)), w)"
  "gets h w = (Val (h w), w)"
  "modify k w = (Val (), k w)"
  "whenE True m w = m w"
  "whenE False m w = (Val (), w)"
  "demand e None w = (Exn e, w)"
  "demand e (Some a) w = (Val a, w)"
  by (simp_all add: act_defs)

lemma run_bind [run]:
  "m w = (Val a, w') \<Longrightarrow> bindE m f w = f a w'"
  "m w = (Exn e, w') \<Longrightarrow> bindE m f w = (Exn e, w')"
  "m w = (Div, w') \<Longrightarrow> bindE m f w = (Div, w')"
  by (simp_all add: bindE_def)

lemma run_seq [run]:
  "m w = (Val a, w') \<Longrightarrow> seqE m n w = n w'"
  "m w = (Exn e, w') \<Longrightarrow> seqE m n w = (Exn e, w')"
  "m w = (Div, w') \<Longrightarrow> seqE m n w = (Div, w')"
  by (simp_all add: seqE_def bindE_def)

lemma run_attempt [run]:
  "m w = (Val a, w') \<Longrightarrow> attempt m w = (Val (Inr a), w')"
  "m w = (Exn e, w') \<Longrightarrow> attempt m w = (Val (Inl e), w')"
  "m w = (Div, w') \<Longrightarrow> attempt m w = (Div, w')"
  by (simp_all add: attempt_def)

lemma run_catch [run]:
  "m w = (Val a, w') \<Longrightarrow> catchE m h w = (Val a, w')"
  "m w = (Exn e, w') \<Longrightarrow> catchE m h w = h e w'"
  "m w = (Div, w') \<Longrightarrow> catchE m h w = (Div, w')"
  by (simp_all add: catchE_def bindE_def attempt_def ret_def)

lemma seqE_assoc: "seqE a (seqE b c) = seqE (seqE a b) c"
  by (auto simp: seqE_def bindE_def fun_eq_iff split: prod.split res.split)

text \<open>How an action that sequences two others can have ended.\<close>

lemma bind_cases:
  assumes "bindE m f w = (r, w')"
  obtains (val) a w1 where "m w = (Val a, w1)" "f a w1 = (r, w')"
    | (exn) e where "m w = (Exn e, w')" "r = Exn e"
    | (div) "m w = (Div, w')" "r = Div"
  using assms by (auto simp: bindE_def split: prod.splits res.splits)

section \<open>Having returned a value\<close>

named_theorems vals

lemma bind_Val [vals]:
  "bindE m f w = (Val b, w') \<longleftrightarrow> (\<exists>a w1. m w = (Val a, w1) \<and> f a w1 = (Val b, w'))"
  by (auto simp: bindE_def split: prod.splits res.splits)

lemma seq_Val [vals]:
  "seqE m n w = (Val b, w') \<longleftrightarrow> (\<exists>a w1. m w = (Val a, w1) \<and> n w1 = (Val b, w'))"
  by (simp add: seqE_def bind_Val)

lemma basic_Val [vals]:
  "ret a w = (Val b, w') \<longleftrightarrow> b = a \<and> w' = w"
  "raise e w = (Val b, w') \<longleftrightarrow> False"
  "throw c t w = (Val b, w') \<longleftrightarrow> False"
  "throw_class c t g w = (Val b, w') \<longleftrightarrow> False"
  "diverge w = (Val b, w') \<longleftrightarrow> False"
  "gets h w = (Val x, w') \<longleftrightarrow> x = h w \<and> w' = w"
  "modify k w = (Val u, w') \<longleftrightarrow> w' = k w"
  "demand e y w = (Val x, w') \<longleftrightarrow> y = Some x \<and> w' = w"
  by (auto simp: act_defs split: option.splits)

lemma attempt_Val [vals]:
  "attempt m w = (Val r, w') \<longleftrightarrow>
     (\<exists>a. r = Inr a \<and> m w = (Val a, w')) \<or> (\<exists>e. r = Inl e \<and> m w = (Exn e, w'))"
  by (auto simp: attempt_def split: prod.splits res.splits)

lemma case_prod_Val [vals]:
  "case_prod f p w = (Val x, w') \<longleftrightarrow> (\<exists>a b. p = (a, b) \<and> f a b w = (Val x, w'))"
  by (simp split: prod.split)

lemma case_sum_Val [vals]:
  "(case s of Inl a \<Rightarrow> f a | Inr b \<Rightarrow> g b) w = (Val x, w') \<longleftrightarrow>
     (\<exists>a. s = Inl a \<and> f a w = (Val x, w')) \<or> (\<exists>b. s = Inr b \<and> g b w = (Val x, w'))"
  by (simp split: sum.split)

lemma if_Val [vals]:
  "(if b then m else n) w = (Val x, w') \<longleftrightarrow> (if b then m w = (Val x, w') else n w = (Val x, w'))"
  by simp

end
