(* ===== verification/Awf_Store.thy ===== *)
theory Awf_Store
  imports Awf_Action
begin

text \<open>
  The SQLite database of db/schema.py: one record per table, the state of the program, the
  statements the code runs on it with the errors SQLite gives (primary keys, foreign keys with
  PRAGMA foreign_keys = ON as in db/connection.py, CHECK constraints), and the relation
  \<open>kept\<close> that says which rows every operation must leave alone.

  A TEXT column that always holds json.dumps of a value holds the value itself.  Rows are kept in
  the order of their insertion.
\<close>

section \<open>Rows\<close>

datatype run_status =
    CREATED | VALIDATING | QUEUED | RUN_RUNNING | RUN_WAITING_INPUT | RUN_WAITING_APPROVAL
  | RUN_SUCCEEDED | RUN_FAILED | CANCELING | RUN_CANCELED

record run_row =
  r_id :: string
  r_workflow :: string
  r_status :: run_status
  r_input :: json
  r_output :: "json option"
  r_budget :: json
  r_created :: string
  r_updated :: string

datatype step_status =
    PENDING | READY | RUNNING | WAITING_INPUT | WAITING_APPROVAL
  | RETRY_WAIT | SUCCEEDED | FAILED | SKIPPED | CANCELED

record step_row =
  s_id :: string
  s_run :: string
  s_node :: string
  s_attempt :: nat
  s_status :: step_status
  s_input :: json
  s_output :: "json option"
  s_fclass :: "string option"
  s_started :: string
  s_ended :: "string option"

definition failure_classes :: "string list" where
  "failure_classes = [''TRANSIENT'', ''TIMEOUT'', ''INVALID_INPUT'', ''POLICY_DENIED'',
     ''APPROVAL_REJECTED'', ''TOOL_ERROR'', ''SANDBOX_VIOLATION'', ''NONDETERMINISTIC_OUTPUT'',
     ''INTEGRITY_FAILURE'', ''UNKNOWN_SIDE_EFFECT'', ''INTERNAL'']"

definition fclass_check :: "string option \<Rightarrow> bool" where
  "fclass_check c = (case c of None \<Rightarrow> True | Some x \<Rightarrow> x \<in> set failure_classes)"

record event_row =
  e_id :: string
  e_run :: string
  e_step :: "string option"
  e_attempt :: "nat option"
  e_prior :: "string option"
  e_new :: string
  e_time :: string
  e_actor :: string
  e_reason :: string
  e_payload :: json

datatype artifact_type =
  CANDIDATE | PLAN | PATCH | REPORT | TEST_RESULT | FINDING | VERDICT

record artifact_row =
  f_id :: string
  f_run :: string
  f_step :: string
  f_sha :: string
  f_path :: string
  f_media :: string
  f_type :: artifact_type
  f_complete :: bool
  f_created :: string

datatype approval_status = Pending | Approved | Rejected | Expired

record approval_row =
  a_id :: string
  a_run :: string
  a_step :: string
  a_digest :: string
  a_status :: approval_status
  a_reason :: "string option"
  a_requested :: string
  a_decided :: "string option"
  a_risk :: "string option"

definition risk_classes :: "string list" where
  "risk_classes = [''R0'', ''R1'', ''R2'', ''R3'']"

definition risk_check :: "string option \<Rightarrow> bool" where
  "risk_check r = (case r of None \<Rightarrow> True | Some x \<Rightarrow> x \<in> set risk_classes)"

record index_row =
  x_kind :: string
  x_name :: string
  x_version :: string
  x_digest :: string
  x_source :: string
  x_path :: string
  x_trust :: "string option"
  x_indexed :: string

datatype proposal_status = P_DRAFT | P_PUBLISHED | P_REJECTED

record proposal_row =
  p_id :: string
  p_kind :: string
  p_name :: string
  p_version :: string
  p_status :: proposal_status
  p_digest :: string
  p_path :: string
  p_summary :: string
  p_created :: string
  p_updated :: string
  p_decided :: "string option"
  p_published :: "string option"
  p_reason :: "string option"

record proposal_event_row =
  pe_id :: string
  pe_proposal :: string
  pe_type :: string
  pe_time :: string
  pe_actor :: string
  pe_payload :: json

datatype improvement_status =
  I_DRAFT | READY_FOR_REVIEW | I_APPROVED | I_MERGED | I_REJECTED | ABANDONED

record improvement_row =
  i_id :: string
  i_run :: string
  i_repo :: string
  i_branch :: string
  i_base :: string
  i_cbranch :: string
  i_ccommit :: string
  i_diff :: string
  i_patch :: string
  i_status :: improvement_status
  i_summary :: string
  i_paths :: "(string \<times> string \<times> string) list"
  i_verdict :: "string option"
  i_validation :: "string list"
  i_merge :: "string option"
  i_created :: string
  i_updated :: string
  i_decided :: "string option"
  i_closed :: "string option"

record improvement_event_row =
  ie_id :: string
  ie_improvement :: string
  ie_type :: string
  ie_time :: string
  ie_actor :: string
  ie_payload :: json

datatype session_status = S_ACTIVE | S_SUMMARIZED | S_EXPIRED

record session_row =
  n_id :: string
  n_title :: "string option"
  n_status :: session_status
  n_summary :: "string option"
  n_created :: string
  n_updated :: string
  n_expires :: "string option"

record entry_row =
  y_id :: string
  y_session :: string
  y_role :: string
  y_content :: json
  y_summary :: "string option"
  y_created :: string

record secret_row =
  q_name :: string
  q_cipher :: string
  q_created :: string
  q_updated :: string

section \<open>The state\<close>

text \<open>
  \<open>clock\<close> and \<open>uuids\<close> are the readings that utc_now_rfc3339 and uuid7 will give, with the
  number of readings taken; \<open>ext\<close> is what lies outside the database: the file system, git, the
  agents, the network.
\<close>

record 'x world =
  runs :: "run_row list"
  steps :: "step_row list"
  events :: "event_row list"
  artifacts :: "artifact_row list"
  approvals :: "approval_row list"
  reg_index :: "index_row list"
  proposals :: "proposal_row list"
  proposal_events :: "proposal_event_row list"
  improvements :: "improvement_row list"
  improvement_events :: "improvement_event_row list"
  sessions :: "session_row list"
  entries :: "entry_row list"
  secrets :: "secret_row list"
  clock :: "nat \<Rightarrow> string"
  now_ix :: nat
  uuids :: "nat \<Rightarrow> string"
  uuid_ix :: nat
  ext :: 'x

type_synonym ('x, 'a) op = "('x world, 'a) act"

definition utc_now_rfc3339 :: "('x, string) op" where
  "utc_now_rfc3339 = (\<lambda>w. (Val (clock w (now_ix w)), w\<lparr>now_ix := Suc (now_ix w)\<rparr>))"

definition uuid7 :: "('x, string) op" where
  "uuid7 = (\<lambda>w. (Val (uuids w (uuid_ix w)), w\<lparr>uuid_ix := Suc (uuid_ix w)\<rparr>))"

text \<open>An action of the outside world, which cannot touch the database.\<close>

definition outside :: "('x \<Rightarrow> 'a res \<times> 'x) \<Rightarrow> ('x, 'a) op" where
  "outside f = (\<lambda>w. let (r, x) = f (ext w) in (r, w\<lparr>ext := x\<rparr>))"

lemma outside_Val [vals]:
  "outside f w = (Val a, w') \<longleftrightarrow> (\<exists>x. f (ext w) = (Val a, x) \<and> w' = w\<lparr>ext := x\<rparr>)"
  by (auto simp: outside_def Let_def split: prod.splits)

definition run_ids :: "'x world \<Rightarrow> string set" where
  "run_ids w = r_id ` set (runs w)"

definition step_ids :: "'x world \<Rightarrow> string set" where
  "step_ids w = s_id ` set (steps w)"

definition integrity :: "string \<Rightarrow> ('x, 'a) op" where
  "integrity msg = throw ''IntegrityError'' msg"

definition pk_failed :: string where "pk_failed = ''UNIQUE constraint failed''"

definition fk_failed :: string where "fk_failed = ''FOREIGN KEY constraint failed''"

definition check_failed :: string where "check_failed = ''CHECK constraint failed''"

section \<open>Statements\<close>

definition insert_run :: "run_row \<Rightarrow> ('x, unit) op" where
  "insert_run r = (\<lambda>w. if r_id r \<in> run_ids w then integrity pk_failed w
     else (Val (), w\<lparr>runs := runs w @ [r]\<rparr>))"

definition update_runs :: "string \<Rightarrow> (run_row \<Rightarrow> run_row) \<Rightarrow> ('x, unit) op" where
  "update_runs i f = modify (\<lambda>w. w\<lparr>runs := map (\<lambda>r. if r_id r = i then f r else r) (runs w)\<rparr>)"

text \<open>INSERT OR IGNORE INTO steps: a row whose key exists is dropped, a dangling run is an error.\<close>

definition insert_step :: "step_row \<Rightarrow> ('x, unit) op" where
  "insert_step s = (\<lambda>w. if s_id s \<in> step_ids w then (Val (), w)
     else if s_run s \<notin> run_ids w then integrity fk_failed w
     else (Val (), w\<lparr>steps := steps w @ [s]\<rparr>))"

definition find_step :: "string \<Rightarrow> ('x, step_row option) op" where
  "find_step i = gets (\<lambda>w. find (\<lambda>s. s_id s = i) (steps w))"

text \<open>UPDATE steps SET ... WHERE step_id = i, where the new failure_class must pass its CHECK.\<close>

definition update_step :: "string \<Rightarrow> (step_row \<Rightarrow> step_row) \<Rightarrow> ('x, unit) op" where
  "update_step i f = (\<lambda>w.
     if list_all (\<lambda>s. s_id s = i \<longrightarrow> fclass_check (s_fclass (f s))) (steps w)
     then (Val (), w\<lparr>steps := map (\<lambda>s. if s_id s = i then f s else s) (steps w)\<rparr>)
     else integrity check_failed w)"

text \<open>The rows that reference a step: events, artifacts and approvals.\<close>

definition step_referenced :: "'x world \<Rightarrow> string \<Rightarrow> bool" where
  "step_referenced w i = (Some i \<in> e_step ` set (events w) \<or> i \<in> f_step ` set (artifacts w)
     \<or> i \<in> a_step ` set (approvals w))"

definition delete_steps :: "(step_row \<Rightarrow> bool) \<Rightarrow> ('x, unit) op" where
  "delete_steps P = (\<lambda>w.
     if list_ex (\<lambda>s. P s \<and> step_referenced w (s_id s)) (steps w) then integrity fk_failed w
     else (Val (), w\<lparr>steps := filter (\<lambda>s. \<not> P s) (steps w)\<rparr>))"

definition step_known :: "string option \<Rightarrow> 'x world \<Rightarrow> bool" where
  "step_known s w = (case s of None \<Rightarrow> True | Some i \<Rightarrow> i \<in> step_ids w)"

definition insert_event :: "event_row \<Rightarrow> ('x, unit) op" where
  "insert_event e = (\<lambda>w.
     if e_id e \<in> e_id ` set (events w) then integrity pk_failed w
     else if e_run e \<notin> run_ids w \<or> \<not> step_known (e_step e) w then integrity fk_failed w
     else (Val (), w\<lparr>events := events w @ [e]\<rparr>))"

definition insert_artifact :: "artifact_row \<Rightarrow> ('x, unit) op" where
  "insert_artifact a = (\<lambda>w.
     if f_id a \<in> f_id ` set (artifacts w) then integrity pk_failed w
     else if f_run a \<notin> run_ids w \<or> f_step a \<notin> step_ids w then integrity fk_failed w
     else (Val (), w\<lparr>artifacts := artifacts w @ [a]\<rparr>))"

definition insert_approval :: "approval_row \<Rightarrow> ('x, unit) op" where
  "insert_approval a = (\<lambda>w.
     if \<not> risk_check (a_risk a) then integrity check_failed w
     else if a_id a \<in> a_id ` set (approvals w) then integrity pk_failed w
     else if a_run a \<notin> run_ids w \<or> a_step a \<notin> step_ids w then integrity fk_failed w
     else (Val (), w\<lparr>approvals := approvals w @ [a]\<rparr>))"

definition find_approval :: "(approval_row \<Rightarrow> bool) \<Rightarrow> ('x, approval_row option) op" where
  "find_approval P = gets (\<lambda>w. find P (approvals w))"

definition update_approval :: "string \<Rightarrow> (approval_row \<Rightarrow> approval_row) \<Rightarrow> ('x, unit) op" where
  "update_approval i f =
     modify (\<lambda>w. w\<lparr>approvals := map (\<lambda>a. if a_id a = i then f a else a) (approvals w)\<rparr>)"

section \<open>Integrity, and what every operation keeps\<close>

definition db_ok :: "'x world \<Rightarrow> bool" where
  "db_ok w = (distinct (map r_id (runs w)) \<and> distinct (map s_id (steps w)) \<and>
     distinct (map e_id (events w)) \<and> distinct (map f_id (artifacts w)) \<and>
     distinct (map a_id (approvals w)) \<and>
     (\<forall>s \<in> set (steps w). s_run s \<in> run_ids w \<and> fclass_check (s_fclass s)) \<and>
     (\<forall>e \<in> set (events w). e_run e \<in> run_ids w \<and> (\<forall>i. e_step e = Some i \<longrightarrow> i \<in> step_ids w)) \<and>
     (\<forall>f \<in> set (artifacts w). f_run f \<in> run_ids w \<and> f_step f \<in> step_ids w) \<and>
     (\<forall>a \<in> set (approvals w). a_run a \<in> run_ids w \<and> a_step a \<in> step_ids w \<and> risk_check (a_risk a)))"

text \<open>What never changes in a run's or an approval's row.\<close>

definition run_key :: "run_row \<Rightarrow> string \<times> string \<times> json" where
  "run_key r = (r_id r, r_workflow r, r_input r)"

definition approval_key :: "approval_row \<Rightarrow> string \<times> string \<times> string \<times> string \<times> string option" where
  "approval_key a = (a_id a, a_run a, a_step a, a_digest a, a_risk a)"

definition done_steps :: "'x world \<Rightarrow> step_row set" where
  "done_steps w = {s \<in> set (steps w). s_status s = SUCCEEDED}"

definition decided :: "'x world \<Rightarrow> approval_row set" where
  "decided w = {a \<in> set (approvals w). a_status a \<noteq> Pending}"

text \<open>
  \<open>kept w0 w\<close>: the database of w is consistent, and what w0 had put on record is still there: runs
  and approvals keep their identity and their order, the log of events and the list of artifacts
  were only extended, a step that had SUCCEEDED and an approval that was decided are unchanged.
\<close>

definition kept :: "'x world \<Rightarrow> 'x world \<Rightarrow> bool" where
  "kept w0 w = (db_ok w \<and>
     prefix (map run_key (runs w0)) (map run_key (runs w)) \<and>
     prefix (map approval_key (approvals w0)) (map approval_key (approvals w)) \<and>
     prefix (events w0) (events w) \<and> prefix (artifacts w0) (artifacts w) \<and>
     done_steps w0 \<subseteq> set (steps w) \<and> decided w0 \<subseteq> set (approvals w))"

section \<open>The statements keep what is on record\<close>

lemma keptD:
  assumes "kept w0 w"
  shows "db_ok w" "prefix (events w0) (events w)" "prefix (artifacts w0) (artifacts w)"
    "done_steps w0 \<subseteq> set (steps w)" "decided w0 \<subseteq> set (approvals w)"
    "prefix (map run_key (runs w0)) (map run_key (runs w))"
    "prefix (map approval_key (approvals w0)) (map approval_key (approvals w))"
  using assms by (simp_all add: kept_def)

lemma kept_refl: "db_ok w \<Longrightarrow> kept w w"
  by (auto simp: kept_def done_steps_def decided_def)

lemma done_steps_mono:
  "done_steps w0 \<subseteq> set (steps w) \<Longrightarrow> done_steps w0 \<subseteq> done_steps w"
  by (auto simp: done_steps_def)

lemma decided_mono: "decided w0 \<subseteq> set (approvals w) \<Longrightarrow> decided w0 \<subseteq> decided w"
  by (auto simp: decided_def)

lemma kept_trans: "kept w0 w1 \<Longrightarrow> kept w1 w2 \<Longrightarrow> kept w0 w2"
  unfolding kept_def using done_steps_mono [of w0 w1] decided_mono [of w0 w1]
  by (auto intro: prefix_order.trans)

lemma run_ids_key: "run_ids w = fst ` set (map run_key (runs w))"
  by (auto simp: run_ids_def run_key_def image_image)

lemma kept_run_ids: "kept w0 w \<Longrightarrow> run_ids w0 \<subseteq> run_ids w"
  unfolding run_ids_key using keptD(6) [of w0 w] set_mono_prefix by blast

text \<open>An action that leaves these tables alone.\<close>

definition same_tables :: "'x world \<Rightarrow> 'x world \<Rightarrow> bool" where
  "same_tables w w' = (runs w' = runs w \<and> steps w' = steps w \<and> events w' = events w \<and>
     artifacts w' = artifacts w \<and> approvals w' = approvals w)"

lemma kept_same: "same_tables w w' \<Longrightarrow> kept w0 w \<Longrightarrow> kept w0 w'"
  unfolding same_tables_def kept_def db_ok_def run_ids_def step_ids_def by simp

lemma carries_same: "(\<And>w. same_tables w (snd (m w))) \<Longrightarrow> carries (kept w0) m"
  using kept_same unfolding carries_def by blast

lemma carries_now [carry]: "carries (kept w0) utc_now_rfc3339"
  by (rule carries_same) (simp add: utc_now_rfc3339_def same_tables_def)

lemma carries_uuid [carry]: "carries (kept w0) uuid7"
  by (rule carries_same) (simp add: uuid7_def same_tables_def)

lemma carries_outside [carry]: "carries (kept w0) (outside f)"
  by (rule carries_same) (simp add: outside_def same_tables_def split: prod.split)

lemma carries_integrity [carry]: "carries I (integrity m)"
  unfolding integrity_def by (rule carries_throw)

lemma carries_find_step [carry]: "carries I (find_step i)"
  unfolding find_step_def by (rule carries_gets)

lemma carries_find_approval [carry]: "carries I (find_approval P)"
  unfolding find_approval_def by (rule carries_gets)

lemma snd_integrity [simp]: "snd (integrity m w) = w"
  by (simp add: integrity_def throw_def raise_def)

lemma ids_simps [simp]:
  "run_ids (w\<lparr>steps := a\<rparr>) = run_ids w" "run_ids (w\<lparr>events := b\<rparr>) = run_ids w"
  "run_ids (w\<lparr>artifacts := c\<rparr>) = run_ids w" "run_ids (w\<lparr>approvals := d\<rparr>) = run_ids w"
  "run_ids (w\<lparr>runs := runs w @ [r]\<rparr>) = insert (r_id r) (run_ids w)"
  "step_ids (w\<lparr>runs := e\<rparr>) = step_ids w" "step_ids (w\<lparr>events := b\<rparr>) = step_ids w"
  "step_ids (w\<lparr>artifacts := c\<rparr>) = step_ids w" "step_ids (w\<lparr>approvals := d\<rparr>) = step_ids w"
  "step_ids (w\<lparr>steps := steps w @ [s]\<rparr>) = insert (s_id s) (step_ids w)"
  by (auto simp: run_ids_def step_ids_def)

lemma carries_insert_run [carry]: "carries (kept w0) (insert_run r)"
proof (rule carriesI)
  fix w assume k: "kept w0 w"
  have "r_id r \<notin> run_ids w \<Longrightarrow> r_id r \<notin> r_id ` set (runs w)"
    by (simp add: run_ids_def)
  then show "kept w0 (snd (insert_run r w))"
    using k by (simp add: insert_run_def kept_def db_ok_def)
qed

lemma map_update_id:
  "(\<And>x. k (f x) = k x) \<Longrightarrow> map k (map (\<lambda>x. if P x then f x else x) xs) = map k xs"
  by simp

lemma carries_update_runs:
  assumes "\<And>r. run_key (f r) = run_key r"
  shows "carries (kept w0) (update_runs i f)"
proof (unfold update_runs_def, rule carries_modify)
  fix w assume k: "kept w0 w"
  let ?w = "w\<lparr>runs := map (\<lambda>r. if r_id r = i then f r else r) (runs w)\<rparr>"
  have key: "map run_key (runs ?w) = map run_key (runs w)"
    using map_update_id [of run_key f "\<lambda>r. r_id r = i"] assms by simp
  have fst_key: "map r_id rs = map fst (map run_key rs)" for rs
    by (simp add: run_key_def)
  have dist: "map r_id (runs ?w) = map r_id (runs w)"
    unfolding fst_key key ..
  have "run_ids ?w = run_ids w"
    unfolding run_ids_key using key by simp
  moreover have "distinct (map r_id (runs ?w))"
    using keptD(1) [OF k] dist by (metis db_ok_def)
  ultimately have "db_ok ?w"
    using keptD(1) [OF k] unfolding db_ok_def by (simp del: map_map)
  then show "kept w0 ?w" using k key
    unfolding kept_def by (simp del: map_map)
qed

lemma carries_insert_step [carry]:
  assumes "fclass_check (s_fclass s)"
  shows "carries (kept w0) (insert_step s)"
proof (rule carriesI)
  fix w assume k: "kept w0 w"
  have "s_id s \<notin> step_ids w \<Longrightarrow> s_id s \<notin> s_id ` set (steps w)"
    by (simp add: step_ids_def)
  then show "kept w0 (snd (insert_step s w))"
    using k assms by (auto simp: insert_step_def kept_def db_ok_def)
qed

lemma carries_update_step:
  assumes id: "\<And>s. s_id (f s) = s_id s" and run: "\<And>s. s_run (f s) = s_run s"
    and free: "i \<notin> s_id ` done_steps w0"
  shows "carries (kept w0) (update_step i f)"
proof (rule carriesI)
  fix w assume k: "kept w0 w"
  show "kept w0 (snd (update_step i f w))"
  proof (cases "list_all (\<lambda>s. s_id s = i \<longrightarrow> fclass_check (s_fclass (f s))) (steps w)")
    case False
    then show ?thesis using k by (simp add: update_step_def)
  next
    case True
    let ?w = "w\<lparr>steps := map (\<lambda>s. if s_id s = i then f s else s) (steps w)\<rparr>"
    have dist: "map s_id (steps ?w) = map s_id (steps w)"
      using map_update_id [of s_id f "\<lambda>s. s_id s = i" "steps w"] id by simp
    have ids: "step_ids ?w = step_ids w"
      unfolding step_ids_def using dist by (metis set_map)
    have "\<forall>s \<in> set (steps ?w). s_run s \<in> run_ids w \<and> fclass_check (s_fclass s)"
      using keptD(1) [OF k] True by (auto simp: db_ok_def run list_all_iff)
    moreover have "distinct (map s_id (steps ?w))"
      using keptD(1) [OF k] dist by (metis db_ok_def)
    ultimately have "db_ok ?w"
      using keptD(1) [OF k] unfolding db_ok_def ids by (simp del: map_map)
    moreover have "done_steps w0 \<subseteq> set (steps ?w)"
      using keptD(4) [OF k] free by (auto simp: image_iff)
    ultimately have "kept w0 ?w" using k by (simp add: kept_def)
    then show ?thesis using True by (simp add: update_step_def)
  qed
qed

lemma carries_delete_steps:
  assumes "\<And>s. s \<in> done_steps w0 \<Longrightarrow> \<not> P s"
  shows "carries (kept w0) (delete_steps P)"
proof (rule carriesI)
  fix w assume k: "kept w0 w"
  show "kept w0 (snd (delete_steps P w))"
  proof (cases "list_ex (\<lambda>s. P s \<and> step_referenced w (s_id s)) (steps w)")
    case True
    then show ?thesis using k by (simp add: delete_steps_def)
  next
    case False
    let ?w = "w\<lparr>steps := filter (\<lambda>s. \<not> P s) (steps w)\<rparr>"
    have still: "i \<in> step_ids ?w" if "i \<in> step_ids w" "step_referenced w i" for i
      using that False by (auto simp: step_ids_def list_ex_iff)
    have "Some i \<in> e_step ` set (events w) \<Longrightarrow> i \<in> step_ids w \<Longrightarrow> i \<in> step_ids ?w"
      "i \<in> f_step ` set (artifacts w) \<Longrightarrow> i \<in> step_ids w \<Longrightarrow> i \<in> step_ids ?w"
      "i \<in> a_step ` set (approvals w) \<Longrightarrow> i \<in> step_ids w \<Longrightarrow> i \<in> step_ids ?w" for i
      using still [of i] by (simp_all add: step_referenced_def)
    then have refs: "\<forall>e \<in> set (events w). \<forall>i. e_step e = Some i \<longrightarrow> i \<in> step_ids ?w"
      "\<forall>f \<in> set (artifacts w). f_step f \<in> step_ids ?w"
      "\<forall>a \<in> set (approvals w). a_step a \<in> step_ids ?w"
      using keptD(1) [OF k] unfolding db_ok_def by (metis image_eqI)+
    have "db_ok ?w"
      using keptD(1) [OF k] refs by (simp add: db_ok_def distinct_map_filter)
    moreover have "done_steps w0 \<subseteq> set (steps ?w)"
      using keptD(4) [OF k] assms by auto
    ultimately have "kept w0 ?w" using k by (simp add: kept_def)
    then show ?thesis using False by (simp add: delete_steps_def)
  qed
qed

lemma carries_insert_event [carry]: "carries (kept w0) (insert_event e)"
  by (rule carriesI) (simp add: insert_event_def kept_def db_ok_def step_known_def split: option.splits)

lemma carries_insert_artifact [carry]: "carries (kept w0) (insert_artifact a)"
  by (rule carriesI) (simp add: insert_artifact_def kept_def db_ok_def)

lemma carries_insert_approval [carry]: "carries (kept w0) (insert_approval a)"
proof (rule carriesI)
  fix w assume k: "kept w0 w"
  then show "kept w0 (snd (insert_approval a w))"
    by (auto simp: insert_approval_def kept_def db_ok_def)
qed

lemma carries_update_approval:
  assumes key: "\<And>a. approval_key (f a) = approval_key a" and free: "i \<notin> a_id ` decided w0"
  shows "carries (kept w0) (update_approval i f)"
proof (unfold update_approval_def, rule carries_modify)
  fix w assume k: "kept w0 w"
  let ?w = "w\<lparr>approvals := map (\<lambda>a. if a_id a = i then f a else a) (approvals w)\<rparr>"
  have fields: "a_id (f a) = a_id a" "a_run (f a) = a_run a" "a_step (f a) = a_step a"
    "a_risk (f a) = a_risk a" for a
    using key [of a] by (simp_all add: approval_key_def)
  have keys: "map approval_key (approvals ?w) = map approval_key (approvals w)"
    using map_update_id [of approval_key f "\<lambda>a. a_id a = i"] key by simp
  have ids: "map a_id (approvals ?w) = map a_id (approvals w)"
    using map_update_id [of a_id f "\<lambda>a. a_id a = i"] fields(1) by simp
  have "\<forall>a \<in> set (approvals ?w). a_run a \<in> run_ids w \<and> a_step a \<in> step_ids w \<and> risk_check (a_risk a)"
    using keptD(1) [OF k] by (auto simp: db_ok_def fields)
  moreover have "distinct (map a_id (approvals ?w))"
    using keptD(1) [OF k] ids by (metis db_ok_def)
  ultimately have "db_ok ?w"
    using keptD(1) [OF k] unfolding db_ok_def by (simp del: map_map)
  moreover have "decided w0 \<subseteq> set (approvals ?w)"
    using keptD(5) [OF k] free by (auto simp: image_iff)
  ultimately show "kept w0 ?w" using k keys unfolding kept_def by (simp del: map_map)
qed

text \<open>The other tables.\<close>

lemma carries_other_tables [carry]:
  "carries (kept w0) (modify (\<lambda>w. w\<lparr>reg_index := f1 w\<rparr>))"
  "carries (kept w0) (modify (\<lambda>w. w\<lparr>proposals := f2 w\<rparr>))"
  "carries (kept w0) (modify (\<lambda>w. w\<lparr>proposal_events := f3 w\<rparr>))"
  "carries (kept w0) (modify (\<lambda>w. w\<lparr>improvements := f4 w\<rparr>))"
  "carries (kept w0) (modify (\<lambda>w. w\<lparr>improvement_events := f5 w\<rparr>))"
  "carries (kept w0) (modify (\<lambda>w. w\<lparr>sessions := f6 w\<rparr>))"
  "carries (kept w0) (modify (\<lambda>w. w\<lparr>entries := f7 w\<rparr>))"
  by (rule carries_same, simp add: modify_def same_tables_def)+

section \<open>The statements end\<close>

lemma halts_statements [halt]:
  "halts utc_now_rfc3339" "halts uuid7" "halts (insert_run r)" "halts (update_runs i f)"
  "halts (insert_step s)" "halts (find_step i)" "halts (update_step i g)" "halts (delete_steps P)"
  "halts (insert_event e)" "halts (insert_artifact a)" "halts (insert_approval b)"
  "halts (find_approval Q)" "halts (update_approval i h)"
  by (simp_all add: halts_def utc_now_rfc3339_def uuid7_def insert_run_def update_runs_def
      insert_step_def find_step_def update_step_def delete_steps_def insert_event_def
      insert_artifact_def insert_approval_def find_approval_def update_approval_def integrity_def
      act_defs)

end
