(* ===== verification/Awf_Run.thy ===== *)
theory Awf_Run
  imports Awf_Store
begin

text \<open>
  Runs and Steps: the event writer (events/writer.py), creation (engine/run.py), durable execution
  of a Step (engine/executor.py), the recovery scan (engine/recovery.py) and the artifact store
  (artifacts.py).
\<close>

section \<open>Definitions\<close>

definition write_event ::
  "string \<Rightarrow> string \<Rightarrow> string \<Rightarrow> string \<Rightarrow> string option \<Rightarrow> nat option \<Rightarrow> string option \<Rightarrow> json \<Rightarrow> ('x, string) op" where
  "write_event run_id new_status actor reason_code step_id attempt_no prior_status payload =
     bindE uuid7 (\<lambda>event_id.
     bindE utc_now_rfc3339 (\<lambda>now.
     seqE (insert_event \<lparr>e_id = event_id, e_run = run_id, e_step = step_id, e_attempt = attempt_no,
             e_prior = prior_status, e_new = new_status, e_time = now, e_actor = actor,
             e_reason = reason_code, e_payload = payload\<rparr>)
       (ret event_id)))"

text \<open>The calls of the code leave attempt and prior_status at their defaults.\<close>

definition log_event ::
  "string \<Rightarrow> string option \<Rightarrow> string \<Rightarrow> string \<Rightarrow> string \<Rightarrow> json \<Rightarrow> ('x, unit) op" where
  "log_event run_id step_id new_status actor reason_code payload =
     seqE (write_event run_id new_status actor reason_code step_id None None payload) (ret ())"

definition create_run :: "string \<Rightarrow> string \<Rightarrow> json \<Rightarrow> ('x, unit) op" where
  "create_run run_id workflow_ref input =
     bindE utc_now_rfc3339 (\<lambda>now.
     seqE (insert_run \<lparr>r_id = run_id, r_workflow = workflow_ref, r_status = CREATED, r_input = input,
             r_output = None, r_budget = JObj [], r_created = now, r_updated = now\<rparr>)
       (log_event run_id None ''CREATED'' ''engine'' ''run_created'' (JObj [])))"

definition create_step :: "string \<Rightarrow> string \<Rightarrow> string \<Rightarrow> nat \<Rightarrow> ('x, unit) op" where
  "create_step step_id run_id node_id attempt_no =
     bindE utc_now_rfc3339 (\<lambda>now.
       insert_step \<lparr>s_id = step_id, s_run = run_id, s_node = node_id, s_attempt = attempt_no,
         s_status = PENDING, s_input = JObj [], s_output = None, s_fclass = None,
         s_started = now, s_ended = None\<rparr>)"

text \<open>UPDATE runs SET status = ..., updated_at = now WHERE run_id = ...\<close>

definition set_run_status :: "string \<Rightarrow> run_status \<Rightarrow> ('x, unit) op" where
  "set_run_status run_id status =
     bindE utc_now_rfc3339 (\<lambda>now. update_runs run_id (\<lambda>r. r\<lparr>r_status := status, r_updated := now\<rparr>))"

definition none_type :: exc where
  "none_type = Exc ''TypeError'' ''NoneType object is not subscriptable'' None"

definition loads :: "json option \<Rightarrow> ('x, json) op" where
  "loads v = (case v of None \<Rightarrow> throw ''TypeError'' ''the JSON object must be str, bytes or bytearray, not NoneType''
     | Some j \<Rightarrow> ret j)"

text \<open>getattr(exc, "failure_class", "INTERNAL")\<close>

definition failure_class :: "exc \<Rightarrow> string" where
  "failure_class e = (case exc_class e of None \<Rightarrow> ''INTERNAL'' | Some c \<Rightarrow> c)"

definition step_succeeded :: "string \<Rightarrow> json \<Rightarrow> ('x, unit) op" where
  "step_succeeded step_id output =
     bindE utc_now_rfc3339 (\<lambda>now. update_step step_id
       (\<lambda>s. s\<lparr>s_status := SUCCEEDED, s_output := Some output, s_ended := Some now\<rparr>))"

definition step_failed :: "string \<Rightarrow> string \<Rightarrow> ('x, unit) op" where
  "step_failed step_id cls =
     bindE utc_now_rfc3339 (\<lambda>now. update_step step_id
       (\<lambda>s. s\<lparr>s_status := FAILED, s_fclass := Some cls, s_ended := Some now\<rparr>))"

definition step_running :: "string \<Rightarrow> ('x, unit) op" where
  "step_running step_id =
     bindE utc_now_rfc3339 (\<lambda>now. update_step step_id (\<lambda>s. s\<lparr>s_status := RUNNING, s_started := now\<rparr>))"

definition run_step :: "string \<Rightarrow> string \<Rightarrow> (obj \<Rightarrow> ('x, json) op) \<Rightarrow> obj \<Rightarrow> ('x, json) op" where
  "run_step step_id run_id fn input =
     bindE (bindE (find_step step_id) (demand none_type)) (\<lambda>row.
     if s_status row = SUCCEEDED then loads (s_output row)
     else
       seqE (step_running step_id) (
       seqE (log_event run_id (Some step_id) ''RUNNING'' ''engine'' ''step_started'' (JObj [])) (
       bindE (attempt (fn input)) (\<lambda>r. case r of
           Inl e \<Rightarrow>
             seqE (step_failed step_id (failure_class e)) (
             seqE (log_event run_id (Some step_id) ''FAILED'' ''engine'' (lower (failure_class e))
                     (JObj [(''error'', JStr (exc_text e))]))
               (raise e))
         | Inr output \<Rightarrow>
             seqE (step_succeeded step_id output) (
             seqE (log_event run_id (Some step_id) ''SUCCEEDED'' ''engine'' ''step_completed'' output)
               (ret output))))))"

definition run_workflow :: "string \<Rightarrow> (string \<times> (obj \<Rightarrow> ('x, json) op) \<times> obj) list \<Rightarrow> ('x, unit) op" where
  "run_workflow run_id xs =
     seqE (set_run_status run_id RUN_RUNNING) (
     seqE (forE (\<lambda>(step_id, fn, input). seqE (run_step step_id run_id fn input) (ret ())) xs) (
     seqE (set_run_status run_id RUN_SUCCEEDED)
       (log_event run_id None ''SUCCEEDED'' ''engine'' ''run_completed'' (JObj []))))"

definition terminal_run_statuses :: "run_status list" where
  "terminal_run_statuses = [RUN_SUCCEEDED, RUN_FAILED, RUN_CANCELED]"

definition scan_incomplete_runs :: "('x, string list) op" where
  "scan_incomplete_runs =
     gets (\<lambda>w. map r_id (filter (\<lambda>r. r_status r \<notin> set terminal_run_statuses) (runs w)))"

definition reset_interrupted_node_steps :: "string \<Rightarrow> ('x, unit) op" where
  "reset_interrupted_node_steps run_id =
     bindE (gets (\<lambda>w. map s_node (filter (\<lambda>s. s_run s = run_id \<and> s_status s = SUCCEEDED) (steps w)))) (\<lambda>succeeded_nodes.
     bindE (gets (\<lambda>w. remdups (map s_node (filter (\<lambda>s. s_run s = run_id) (steps w))))) (\<lambda>node_rows.
     seqE (forE (\<lambda>node_id. whenE (node_id \<notin> set succeeded_nodes)
             (delete_steps (\<lambda>s. s_run s = run_id \<and> s_node s = node_id))) node_rows)
       (delete_steps (\<lambda>s. s_run s = run_id \<and> s_status s \<in> {RUNNING, RETRY_WAIT}))))"

text \<open>
  The artifact store: \<open>sha\<close> is hashlib's digest in hex, \<open>put\<close> the write of a file.  A payload is
  the value whose JSON text is hashed.
\<close>

definition write_content_addressed ::
  "('p \<Rightarrow> string) \<Rightarrow> (string \<Rightarrow> 'p \<Rightarrow> 'x \<Rightarrow> unit res \<times> 'x) \<Rightarrow> 'p \<Rightarrow> ('x, string \<times> string) op" where
  "write_content_addressed sha put payload =
     (let digest = sha payload; relative_path = take 2 digest @ ''/'' @ digest in
      seqE (outside (put relative_path payload)) (ret (digest, relative_path)))"

definition insert_artifact_row ::
  "string \<Rightarrow> string \<Rightarrow> string \<Rightarrow> string \<Rightarrow> string \<Rightarrow> artifact_type \<Rightarrow> ('x, string) op" where
  "insert_artifact_row run_id step_id sha256 relative_path media artifact_type =
     bindE uuid7 (\<lambda>artifact_id.
     bindE utc_now_rfc3339 (\<lambda>now.
     seqE (insert_artifact \<lparr>f_id = artifact_id, f_run = run_id, f_step = step_id, f_sha = sha256,
             f_path = relative_path, f_media = media, f_type = artifact_type, f_complete = True,
             f_created = now\<rparr>)
       (ret artifact_id)))"

definition write_artifact ::
  "('p \<Rightarrow> string) \<Rightarrow> (string \<Rightarrow> 'p \<Rightarrow> 'x \<Rightarrow> unit res \<times> 'x) \<Rightarrow> string \<Rightarrow> string \<Rightarrow> 'p \<Rightarrow> string \<Rightarrow> artifact_type
    \<Rightarrow> ('x, string) op" where
  "write_artifact sha put run_id step_id payload media artifact_type =
     bindE (write_content_addressed sha put payload) (\<lambda>(digest, relative_path).
       insert_artifact_row run_id step_id digest relative_path media artifact_type)"

section \<open>What the operations keep\<close>

lemma carries_write_event [carry]: "carries (kept w0) (write_event r n a c s t p d)"
  unfolding write_event_def by (intro carry)

lemma carries_log_event [carry]: "carries (kept w0) (log_event r s n a c d)"
  unfolding log_event_def by (intro carry)

lemma carries_create_run [carry]: "carries (kept w0) (create_run r f i)"
  unfolding create_run_def by (intro carry)

lemma carries_create_step [carry]: "carries (kept w0) (create_step s r n a)"
  unfolding create_step_def by (intro carry) (simp add: fclass_check_def)

lemma carries_set_run_status [carry]: "carries (kept w0) (set_run_status r s)"
  unfolding set_run_status_def by (intro carry carries_update_runs) (simp add: run_key_def)

lemma carries_loads [carry]: "carries I (loads v)"
  unfolding loads_def by (intro carry)

lemma carries_step_marks:
  assumes "i \<notin> s_id ` done_steps w0"
  shows "carries (kept w0) (step_succeeded i out)" "carries (kept w0) (step_failed i c)"
    "carries (kept w0) (step_running i)"
  unfolding step_succeeded_def step_failed_def step_running_def
  by (intro carry carries_update_step; simp add: assms)+

lemma carries_artifact [carry]:
  "carries (kept w0) (insert_artifact_row r s h p m t)"
  "carries (kept w0) (write_content_addressed sha put payload)"
  "carries (kept w0) (write_artifact sha put r s payload m t)"
  unfolding insert_artifact_row_def write_content_addressed_def write_artifact_def
  by (intro carry)+

text \<open>
  The row an operation reads by its key is the row on record, so an operation that returns early
  on a SUCCEEDED row may do what it likes to the others.
\<close>

lemma find_step_Some:
  assumes "find (\<lambda>s. s_id s = i) xs = Some s"
  shows "s \<in> set xs" "s_id s = i"
  using assms by (auto simp: find_Some_iff)

lemma db_ok_step_unique:
  "db_ok w \<Longrightarrow> s \<in> set (steps w) \<Longrightarrow> s' \<in> set (steps w) \<Longrightarrow> s_id s = s_id s' \<Longrightarrow> s = s'"
  unfolding db_ok_def by (meson distinct_map inj_on_eq_iff)

lemma carries_if_succeeded:
  assumes "\<And>s. carries (kept w0) (a s)"
    and "\<And>s. i \<notin> s_id ` done_steps w0 \<Longrightarrow> carries (kept w0) (b s)"
  shows "carries (kept w0) (bindE (bindE (find_step i) (demand e))
           (\<lambda>s. if s_status s = SUCCEEDED then a s else b s))"
proof (rule carriesI)
  fix w assume k: "kept w0 w"
  show "kept w0 (snd (bindE (bindE (find_step i) (demand e))
           (\<lambda>s. if s_status s = SUCCEEDED then a s else b s) w))"
  proof (cases "find (\<lambda>s. s_id s = i) (steps w)")
    case None
    then show ?thesis using k
      by (simp add: bindE_def find_step_def gets_def demand_def raise_def)
  next
    case (Some s)
    note s = find_step_Some [OF Some]
    have "i \<notin> s_id ` done_steps w0" if "s_status s \<noteq> SUCCEEDED"
      using that s keptD(4) [OF k] db_ok_step_unique [OF keptD(1) [OF k]]
      by (auto simp: done_steps_def)
    then show ?thesis
      using Some k assms(1) [of s, THEN carriesD, of w] assms(2) [of s, THEN carriesD, of w]
      by (auto simp: bindE_def find_step_def gets_def demand_def ret_def)
  qed
qed

lemma carries_run_step [carry]:
  assumes "\<And>p. carries (kept w0) (fn p)"
  shows "carries (kept w0) (run_step i r fn p)"
  unfolding run_step_def
  by (intro carries_if_succeeded carry carries_step_marks assms)

lemma carries_run_workflow [carry]:
  "(\<And>i fn p q. (i, fn, p) \<in> set xs \<Longrightarrow> carries (kept w0) (fn q)) \<Longrightarrow> carries (kept w0) (run_workflow r xs)"
  unfolding run_workflow_def by (intro carry) auto

lemma carries_scan [carry]: "carries I scan_incomplete_runs"
  unfolding scan_incomplete_runs_def by (rule carries_gets)

lemma bind_gets [simp]: "bindE (gets f) g w = g (f w) w"
  by (simp add: bindE_def gets_def)

lemma carries_reset [carry]: "carries (kept w0) (reset_interrupted_node_steps r)"
proof (rule carriesI)
  fix w assume k: "kept w0 w"
  let ?done = "map s_node (filter (\<lambda>s. s_run s = r \<and> s_status s = SUCCEEDED) (steps w))"
  have "s \<in> done_steps w0 \<Longrightarrow> s_run s = r \<Longrightarrow> s_node s \<in> set ?done" for s
    using keptD(4) [OF k] by (auto simp: done_steps_def)
  then have "carries (kept w0) (seqE (forE (\<lambda>n. whenE (n \<notin> set ?done)
      (delete_steps (\<lambda>s. s_run s = r \<and> s_node s = n))) ns)
      (delete_steps (\<lambda>s. s_run s = r \<and> s_status s \<in> {RUNNING, RETRY_WAIT})))" for ns
    by (intro carry carries_delete_steps) (auto simp: done_steps_def)
  then show "kept w0 (snd (reset_interrupted_node_steps r w))"
    using k unfolding reset_interrupted_node_steps_def bind_gets by (rule carriesD)
qed

section \<open>Running the event writer\<close>

text \<open>
  The identifiers still to come differ from those in use and from each other: what uuid7 is relied
  on for.
\<close>

definition used_ids :: "'x world \<Rightarrow> string set" where
  "used_ids w = run_ids w \<union> e_id ` set (events w) \<union> f_id ` set (artifacts w) \<union> a_id ` set (approvals w)"

definition fresh :: "'x world \<Rightarrow> bool" where
  "fresh w = (inj (uuids w) \<and> (\<forall>k \<ge> uuid_ix w. uuids w k \<notin> used_ids w))"

definition logged ::
  "string \<Rightarrow> string option \<Rightarrow> string \<Rightarrow> string \<Rightarrow> string \<Rightarrow> json \<Rightarrow> 'x world \<Rightarrow> 'x world" where
  "logged r s n a c d w = w\<lparr>uuid_ix := Suc (uuid_ix w), now_ix := Suc (now_ix w),
     events := events w @ [\<lparr>e_id = uuids w (uuid_ix w), e_run = r, e_step = s, e_attempt = None,
       e_prior = None, e_new = n, e_time = clock w (now_ix w), e_actor = a, e_reason = c, e_payload = d\<rparr>]\<rparr>"

lemma log_event_eq:
  "log_event r s n a c d w =
     (if uuids w (uuid_ix w) \<in> e_id ` set (events w)
        then (Exn (Exc ''IntegrityError'' pk_failed None), w\<lparr>uuid_ix := Suc (uuid_ix w), now_ix := Suc (now_ix w)\<rparr>)
      else if r \<notin> run_ids w \<or> \<not> step_known s w
        then (Exn (Exc ''IntegrityError'' fk_failed None), w\<lparr>uuid_ix := Suc (uuid_ix w), now_ix := Suc (now_ix w)\<rparr>)
      else (Val (), logged r s n a c d w))"
  by (simp add: log_event_def write_event_def uuid7_def utc_now_rfc3339_def insert_event_def
      logged_def integrity_def step_known_def run_ids_def step_ids_def act_defs split: option.split)

lemma logged_simps [simp]:
  "runs (logged r s n a c d w) = runs w" "steps (logged r s n a c d w) = steps w"
  "artifacts (logged r s n a c d w) = artifacts w" "approvals (logged r s n a c d w) = approvals w"
  "run_ids (logged r s n a c d w) = run_ids w" "step_ids (logged r s n a c d w) = step_ids w"
  "ext (logged r s n a c d w) = ext w" "uuids (logged r s n a c d w) = uuids w"
  "uuid_ix (logged r s n a c d w) = Suc (uuid_ix w)"
  by (simp_all add: logged_def run_ids_def step_ids_def)

lemma log_event_fresh:
  assumes "fresh w" "r \<in> run_ids w" "step_known s w"
  shows "log_event r s n a c d w = (Val (), logged r s n a c d w)" "fresh (logged r s n a c d w)"
proof -
  have inj: "inj (uuids w)" and new: "\<And>k. uuid_ix w \<le> k \<Longrightarrow> uuids w k \<notin> used_ids w"
    using assms(1) by (auto simp: fresh_def)
  show "log_event r s n a c d w = (Val (), logged r s n a c d w)"
    using new [of "uuid_ix w"] assms(2,3) by (simp add: log_event_eq used_ids_def)
  have "used_ids (logged r s n a c d w) = insert (uuids w (uuid_ix w)) (used_ids w)"
    by (auto simp: used_ids_def logged_def run_ids_def)
  moreover have "uuids w k \<noteq> uuids w (uuid_ix w)" if "Suc (uuid_ix w) \<le> k" for k
    using that inj by (metis injD not_less_eq_eq order_refl)
  ultimately show "fresh (logged r s n a c d w)"
    using inj new by (auto simp: fresh_def)
qed

lemma log_event_Val:
  assumes "log_event r s n a c d w = (Val u, w')"
  shows "w' = logged r s n a c d w" "step_known s w" "r \<in> run_ids w"
  using assms by (auto simp: log_event_eq split: if_splits)

section \<open>Durable execution of a Step\<close>

lemma find_update:
  assumes "\<And>s. s_id (f s) = s_id s"
  shows "find (\<lambda>s. s_id s = i) (map (\<lambda>s. if s_id s = i then f s else s) xs)
           = map_option f (find (\<lambda>s. s_id s = i) xs)"
  using assms by (induction xs) auto

lemma find_None_iff_ids: "find (\<lambda>s. s_id s = i) (steps w) = None \<longleftrightarrow> i \<notin> step_ids w"
  by (auto simp: find_None_iff step_ids_def)

lemma update_step_Val:
  "update_step i f w = (Val u, w') \<Longrightarrow> w' = w\<lparr>steps := map (\<lambda>s. if s_id s = i then f s else s) (steps w)\<rparr>"
  by (auto simp: update_step_def integrity_def throw_def raise_def split: if_splits)

text \<open>The row that a step_id finds, which is what run_step and the node executors read.\<close>

definition row_of :: "string \<Rightarrow> 'x world \<Rightarrow> step_row option" where
  "row_of i w = find (\<lambda>s. s_id s = i) (steps w)"

lemma row_of_logged [simp]: "row_of i (logged r s n a c d w) = row_of i w"
  by (simp add: row_of_def)

lemma row_of_in: "row_of i w = Some s \<Longrightarrow> s \<in> set (steps w) \<and> s_id s = i"
  by (auto simp: row_of_def dest: find_step_Some)

lemma row_of_None: "row_of i w = None \<longleftrightarrow> i \<notin> step_ids w"
  by (simp add: row_of_def find_None_iff_ids)

lemma step_succeeded_Val:
  assumes "step_succeeded i v w = (Val u, w')" and "row_of i w = Some s"
  shows "\<exists>t. row_of i w' = Some (s\<lparr>s_status := SUCCEEDED, s_output := Some v, s_ended := Some t\<rparr>)"
  using assms unfolding step_succeeded_def
  by (auto simp: row_of_def utc_now_rfc3339_def bindE_def find_update dest!: update_step_Val)

lemma step_failed_Val:
  assumes "step_failed i c w = (Val u, w')" and "row_of i w = Some s"
  shows "\<exists>t. row_of i w' = Some (s\<lparr>s_status := FAILED, s_fclass := Some c, s_ended := Some t\<rparr>)"
  using assms unfolding step_failed_def
  by (auto simp: row_of_def utc_now_rfc3339_def bindE_def find_update dest!: update_step_Val)

definition same_but_steps :: "'x world \<Rightarrow> 'x world \<Rightarrow> bool" where
  "same_but_steps w w' = (step_ids w' = step_ids w \<and> runs w' = runs w \<and> events w' = events w \<and>
     artifacts w' = artifacts w \<and> approvals w' = approvals w \<and> uuid_ix w' = uuid_ix w \<and>
     uuids w' = uuids w \<and> ext w' = ext w)"

lemma update_step_frame:
  assumes "update_step i f w = (x, w')" and "\<And>s. s_id (f s) = s_id s"
  shows "same_but_steps w w'"
proof (cases "list_all (\<lambda>s. s_id s = i \<longrightarrow> fclass_check (s_fclass (f s))) (steps w)")
  case False
  then show ?thesis using assms(1)
    by (simp add: update_step_def integrity_def throw_def raise_def same_but_steps_def)
next
  case True
  then have "w' = w\<lparr>steps := map (\<lambda>s. if s_id s = i then f s else s) (steps w)\<rparr>"
    using assms(1) by (simp add: update_step_def)
  moreover have "s_id ` set (map (\<lambda>s. if s_id s = i then f s else s) (steps w)) = s_id ` set (steps w)"
    using arg_cong [OF map_update_id [of s_id f "\<lambda>s. s_id s = i" "steps w", OF assms(2)], of set]
    by (simp only: set_map)
  ultimately show ?thesis by (simp add: same_but_steps_def step_ids_def)
qed

lemma same_but_steps_now:
  "same_but_steps (w\<lparr>now_ix := k\<rparr>) w' \<longleftrightarrow> same_but_steps w w'"
  by (simp add: same_but_steps_def step_ids_def)

lemma step_marks_frame:
  "step_succeeded i v w = (x, w') \<Longrightarrow> same_but_steps w w'"
  "step_failed i c w = (x, w') \<Longrightarrow> same_but_steps w w'"
  "step_running i w = (x, w') \<Longrightarrow> same_but_steps w w'"
  unfolding step_succeeded_def step_failed_def step_running_def
  by (auto simp: utc_now_rfc3339_def bindE_def same_but_steps_now dest: update_step_frame)

text \<open>What run_step does, unfolded once, by the row it finds.\<close>

lemma run_step_cases:
  "run_step i r fn p w = (case row_of i w of
      None \<Rightarrow> (Exn none_type, w)
    | Some s \<Rightarrow> if s_status s = SUCCEEDED then loads (s_output s) w
      else seqE (step_running i) (
       seqE (log_event r (Some i) ''RUNNING'' ''engine'' ''step_started'' (JObj [])) (
       bindE (attempt (fn p)) (\<lambda>x. case x of
           Inl e \<Rightarrow>
             seqE (step_failed i (failure_class e)) (
             seqE (log_event r (Some i) ''FAILED'' ''engine'' (lower (failure_class e))
                     (JObj [(''error'', JStr (exc_text e))]))
               (raise e))
         | Inr output \<Rightarrow>
             seqE (step_succeeded i output) (
             seqE (log_event r (Some i) ''SUCCEEDED'' ''engine'' ''step_completed'' output)
               (ret output))))) w)"
  by (simp add: run_step_def row_of_def find_step_def demand_def bindE_def gets_def ret_def raise_def
      split: option.split)

lemma run_step_value_stored:
  assumes "run_step i r fn p w = (Val v, w')"
  shows "\<exists>s. row_of i w' = Some s \<and> s_status s = SUCCEEDED \<and> s_output s = Some v"
proof (cases "row_of i w")
  case None
  then show ?thesis using assms by (simp add: run_step_cases)
next
  case row: (Some s)
  show ?thesis
  proof (cases "s_status s = SUCCEEDED")
    case True
    then show ?thesis using assms row
      by (auto simp: run_step_cases loads_def throw_def raise_def ret_def split: option.splits)
  next
    case False
    from assms row False obtain w1 w2 w3 x where
      started: "seqE (step_running i) (log_event r (Some i) ''RUNNING'' ''engine'' ''step_started'' (JObj [])) w = (Val (), w1)"
      and body: "fn p w1 = (x, w2)"
      and x: "x = Val v" and mark: "step_succeeded i v w2 = (Val (), w3)"
      and log: "log_event r (Some i) ''SUCCEEDED'' ''engine'' ''step_completed'' v w3 = (Val (), w')"
      by (auto simp: run_step_cases seqE_def bindE_def attempt_def ret_def raise_def
          split: prod.splits res.splits)
    have "i \<in> step_ids w3"
      using log_event_Val(2) [OF log] by (simp add: step_known_def)
    then have "i \<in> step_ids w2"
      using step_marks_frame(1) [OF mark] by (simp add: same_but_steps_def)
    then obtain s2 where "row_of i w2 = Some s2"
      using row_of_None by (metis option.exhaust)
    with step_succeeded_Val [OF mark] show ?thesis
      using log_event_Val(1) [OF log] by auto
  qed
qed

text \<open>A database with one run and the given steps, for the concrete instances below.\<close>

definition blank_world :: "'x \<Rightarrow> 'x world" where
  "blank_world x = \<lparr>runs = [], steps = [], events = [], artifacts = [], approvals = [], reg_index = [],
     proposals = [], proposal_events = [], improvements = [], improvement_events = [], sessions = [],
     entries = [], secrets = [], clock = (\<lambda>_. ''2026-01-01T00:00:00Z''), now_ix = 0, uuids = (\<lambda>n. ''id-'' @ nat_str n),
     uuid_ix = 0, ext = x\<rparr>"

definition run_row_of :: "string \<Rightarrow> run_status \<Rightarrow> run_row" where
  "run_row_of i st = \<lparr>r_id = i, r_workflow = ''wf@1.0.0'', r_status = st, r_input = JObj [],
     r_output = None, r_budget = JObj [], r_created = ''t0'', r_updated = ''t0''\<rparr>"

definition step_row_of :: "string \<Rightarrow> string \<Rightarrow> string \<Rightarrow> step_status \<Rightarrow> step_row" where
  "step_row_of i r n st = \<lparr>s_id = i, s_run = r, s_node = n, s_attempt = 1, s_status = st,
     s_input = JObj [], s_output = (if st = SUCCEEDED then Some (JObj []) else None),
     s_fclass = None, s_started = ''t0'', s_ended = None\<rparr>"

definition one_run :: "'x \<Rightarrow> step_row list \<Rightarrow> 'x world" where
  "one_run x ss = blank_world x\<lparr>runs := [run_row_of ''run'' RUN_RUNNING], steps := ss\<rparr>"

lemma fresh_one_run: "fresh (one_run x ss)"
  by (auto simp: fresh_def one_run_def blank_world_def used_ids_def run_ids_def run_row_of_def
      inj_def nat_str_inj)

text \<open>
  C1. Durability of a Step: once run_step has returned a value for a step_id, running that step_id
  again, with any other function and payload, returns the same value and changes nothing at all, so
  the function is not called a second time.
\<close>

theorem run_step_durable:
  assumes "run_step i r f p w = (Val v, w')"
  shows "run_step i r' g q w' = (Val v, w')"
  using run_step_value_stored [OF assms] by (auto simp: run_step_cases loads_def ret_def)

theorem run_step_durable_witness:
  "\<exists>w'. run_step ''run:a#1'' ''run'' (\<lambda>_. ret (JBool True)) [] (one_run () [step_row_of ''run:a#1'' ''run'' ''a'' PENDING])
        = (Val (JBool True), w') \<and>
     run_step ''run:a#1'' ''run'' (\<lambda>_. throw ''RuntimeError'' ''called again'') [] w' = (Val (JBool True), w')"
proof -
  let ?w = "one_run () [step_row_of ''run:a#1'' ''run'' ''a'' PENDING]"
  let ?r = "run_step ''run:a#1'' ''run'' (\<lambda>_. ret (JBool True)) [] ?w"
  have "fst ?r = Val (JBool True)" by code_simp
  then have "?r = (Val (JBool True), snd ?r)" by (metis prod.collapse)
  from this run_step_durable [OF this] show ?thesis by blast
qed

definition started :: "string \<Rightarrow> string \<Rightarrow> 'x world \<Rightarrow> 'x world" where
  "started i r w = snd (seqE (step_running i)
     (log_event r (Some i) ''RUNNING'' ''engine'' ''step_started'' (JObj [])) w)"

lemma update_step_ok:
  assumes "\<And>s. fclass_check (s_fclass s) \<Longrightarrow> fclass_check (s_fclass (f s))"
    and "\<forall>s \<in> set (steps w). fclass_check (s_fclass s)"
  shows "update_step i f w = (Val (), w\<lparr>steps := map (\<lambda>s. if s_id s = i then f s else s) (steps w)\<rparr>)"
  using assms by (simp add: update_step_def list_all_iff)

lemma db_ok_fclass: "db_ok w \<Longrightarrow> \<forall>s \<in> set (steps w). fclass_check (s_fclass s)"
  by (simp add: db_ok_def)

lemma fresh_frame: "same_but_steps w w' \<Longrightarrow> fresh w' \<longleftrightarrow> fresh w"
  by (simp add: fresh_def used_ids_def same_but_steps_def run_ids_def)

lemma step_failed_ok:
  assumes "\<forall>s \<in> set (steps w). fclass_check (s_fclass s)" "c \<in> set failure_classes"
  obtains w' where "step_failed i c w = (Val (), w')"
  using update_step_ok [of "\<lambda>s. s\<lparr>s_status := FAILED, s_fclass := Some c, s_ended := Some (clock w (now_ix w))\<rparr>"
      "w\<lparr>now_ix := Suc (now_ix w)\<rparr>" i] assms
  by (simp add: step_failed_def utc_now_rfc3339_def bindE_def fclass_check_def)

lemma step_running_ok:
  assumes "\<forall>s \<in> set (steps w). fclass_check (s_fclass s)"
  obtains w' where "step_running i w = (Val (), w')"
  using update_step_ok [of "\<lambda>s. s\<lparr>s_status := RUNNING, s_started := clock w (now_ix w)\<rparr>"
      "w\<lparr>now_ix := Suc (now_ix w)\<rparr>" i] assms
  by (simp add: step_running_def utc_now_rfc3339_def bindE_def)

lemma started_ok:
  assumes "db_ok w" "fresh w" "r \<in> run_ids w" "i \<in> step_ids w"
  shows "seqE (step_running i) (log_event r (Some i) ''RUNNING'' ''engine'' ''step_started'' (JObj [])) w
           = (Val (), started i r w)"
    and "fresh (started i r w)" "r \<in> run_ids (started i r w)" "i \<in> step_ids (started i r w)"
    and "ext (started i r w) = ext w"
proof -
  obtain w1 where w1: "step_running i w = (Val (), w1)"
    using step_running_ok [OF db_ok_fclass [OF assms(1)]] by blast
  have facts: "fresh w1" "r \<in> run_ids w1" "step_known (Some i) w1" "ext w1 = ext w"
    using step_marks_frame(3) [OF w1] fresh_frame [of w w1] assms(2-4)
    by (simp_all add: same_but_steps_def run_ids_def step_known_def)
  note log = log_event_fresh [OF facts(1-3)]
  show run: "seqE (step_running i) (log_event r (Some i) ''RUNNING'' ''engine'' ''step_started'' (JObj [])) w
           = (Val (), started i r w)"
    using log(1) w1 by (simp add: started_def seqE_def bindE_def)
  have "started i r w = logged r (Some i) ''RUNNING'' ''engine'' ''step_started'' (JObj []) w1"
    using log(1) w1 by (simp add: started_def seqE_def bindE_def)
  then show "fresh (started i r w)" "r \<in> run_ids (started i r w)" "i \<in> step_ids (started i r w)"
    "ext (started i r w) = ext w"
    using log(2) facts by (simp_all add: step_known_def)
qed

lemma started_db_ok:
  assumes "db_ok w" "row_of i w = Some s" "s_status s \<noteq> SUCCEEDED"
  shows "db_ok (started i r w)"
proof -
  have "i \<notin> s_id ` done_steps w"
    using assms db_ok_step_unique [OF assms(1)] row_of_in [OF assms(2)] by (auto simp: done_steps_def)
  then have "carries (kept w) (seqE (step_running i)
      (log_event r (Some i) ''RUNNING'' ''engine'' ''step_started'' (JObj [])))"
    by (intro carry carries_step_marks)
  then show ?thesis
    using kept_refl [OF assms(1)] unfolding started_def by (metis carriesD keptD(1))
qed

text \<open>
  C32. A failing Step is recorded before its exception goes on: if the function of a pending Step
  raises and leaves the database usable, then run_step raises the very same exception, the Step is
  FAILED with the exception's failure class (INTERNAL if it has none), never left RUNNING, and the
  last event of the log says so.
\<close>

theorem run_step_failure_recorded:
  assumes "row_of i w = Some s" "s_status s \<noteq> SUCCEEDED" "db_ok w" "fresh w" "r \<in> run_ids w"
    and fn: "fn p (started i r w) = (Exn e, w2)"
    and after: "db_ok w2" "fresh w2" "r \<in> run_ids w2" "i \<in> step_ids w2"
    and cls: "failure_class e \<in> set failure_classes"
  shows "\<exists>w' s'. run_step i r fn p w = (Exn e, w') \<and> row_of i w' = Some s' \<and> s_status s' = FAILED \<and>
     s_fclass s' = Some (failure_class e) \<and> e_step (last (events w')) = Some i \<and>
     e_new (last (events w')) = ''FAILED'' \<and> e_reason (last (events w')) = lower (failure_class e)"
proof -
  have "i \<in> step_ids w" using row_of_in [OF assms(1)] by (auto simp: step_ids_def)
  from started_ok(1) [OF assms(3,4,5) this]
  have start: "seqE (seqE (step_running i)
      (log_event r (Some i) ''RUNNING'' ''engine'' ''step_started'' (JObj []))) n w = n (started i r w)" for n
    by (simp add: seqE_def bindE_def)
  obtain w3 where w3: "step_failed i (failure_class e) w2 = (Val (), w3)"
    using step_failed_ok [OF db_ok_fclass [OF after(1)] cls] by blast
  obtain s2 where "row_of i w2 = Some s2"
    using after(4) row_of_None by (metis option.exhaust)
  with step_failed_Val [OF w3] obtain s3 where s3: "row_of i w3 = Some s3" "s_status s3 = FAILED"
    "s_fclass s3 = Some (failure_class e)" by fastforce
  have "fresh w3" "r \<in> run_ids w3" "step_known (Some i) w3"
    using step_marks_frame(2) [OF w3] fresh_frame [of w2 w3] after
    by (simp_all add: same_but_steps_def run_ids_def step_known_def)
  note log = log_event_fresh(1) [OF this]
  have "run_step i r fn p w = (Exn e, logged r (Some i) ''FAILED'' ''engine'' (lower (failure_class e))
          (JObj [(''error'', JStr (exc_text e))]) w3)"
    using assms(1,2)
    apply (simp only: run_step_cases option.case if_False seqE_assoc start)
    apply (simp only: seqE_assoc [symmetric])
    by (simp add: seqE_def bindE_def w3 log run_attempt(2) [where m = "fn p", OF fn] raise_def)
  then show ?thesis using s3 by (simp add: logged_def row_of_def)
qed

theorem run_step_failure_recorded_witness:
  "\<exists>w' s'. run_step ''run:a#1'' ''run'' (\<lambda>_. throw_class ''StepFailure'' ''boom'' ''TIMEOUT'') []
        (one_run () [step_row_of ''run:a#1'' ''run'' ''a'' PENDING]) =
      (Exn (Exc ''StepFailure'' ''boom'' (Some ''TIMEOUT'')), w') \<and>
    row_of ''run:a#1'' w' = Some s' \<and> s_status s' = FAILED \<and> s_fclass s' = Some ''TIMEOUT'' \<and>
    e_step (last (events w')) = Some ''run:a#1'' \<and> e_new (last (events w')) = ''FAILED'' \<and>
    e_reason (last (events w')) = ''timeout''"
proof -
  let ?s = "step_row_of ''run:a#1'' ''run'' ''a'' PENDING"
  let ?w = "one_run () [?s]"
  let ?e = "Exc ''StepFailure'' ''boom'' (Some ''TIMEOUT'')"
  have row: "row_of ''run:a#1'' ?w = Some ?s" "s_status ?s \<noteq> SUCCEEDED"
    and mem: "''run'' \<in> run_ids ?w" "''run:a#1'' \<in> step_ids ?w"
    by (simp_all add: row_of_def one_run_def step_row_of_def run_ids_def step_ids_def run_row_of_def)
  have ok: "db_ok ?w"
    by (simp add: db_ok_def one_run_def blank_world_def run_row_of_def step_row_of_def run_ids_def
        fclass_check_def)
  note st = started_ok [OF ok fresh_one_run mem]
  have "failure_class ?e = ''TIMEOUT''" "lower ''TIMEOUT'' = ''timeout''"
    by code_simp+
  then show ?thesis
    using run_step_failure_recorded [OF row ok fresh_one_run mem(1), where fn = "\<lambda>_. throw_class ''StepFailure'' ''boom'' ''TIMEOUT''"
        and p = "[]" and e = ?e and ?w2.0 = "started ''run:a#1'' ''run'' ?w"]
      started_db_ok [OF ok row] st(2-4)
    by (simp add: run failure_classes_def)
qed

section \<open>Recovery\<close>

definition doomed :: "string \<Rightarrow> 'x world \<Rightarrow> step_row \<Rightarrow> bool" where
  "doomed r w s = (s_run s = r \<and>
     (s_status s \<in> {RUNNING, RETRY_WAIT} \<or>
      \<not> (\<exists>t \<in> set (steps w). s_run t = r \<and> s_node t = s_node s \<and> s_status t = SUCCEEDED)))"

lemma delete_steps_eq:
  "delete_steps P w =
     (if \<exists>s \<in> set (steps w). P s \<and> step_referenced w (s_id s)
      then (Exn (Exc ''IntegrityError'' fk_failed None), w)
      else (Val (), w\<lparr>steps := filter (\<lambda>s. \<not> P s) (steps w)\<rparr>))"
  by (auto simp: delete_steps_def list_ex_iff integrity_def throw_def raise_def)

lemma step_referenced_steps [simp]: "step_referenced (w\<lparr>steps := ss\<rparr>) i = step_referenced w i"
  by (simp add: step_referenced_def)

definition del_node :: "string \<Rightarrow> string set \<Rightarrow> string \<Rightarrow> ('x, unit) op" where
  "del_node r D n = whenE (n \<notin> D) (delete_steps (\<lambda>s. s_run s = r \<and> s_node s = n))"

lemma del_node_eq:
  "del_node r D n w =
     (if n \<in> D then (Val (), w)
      else if \<exists>s \<in> set (steps w). s_run s = r \<and> s_node s = n \<and> step_referenced w (s_id s)
        then (Exn (Exc ''IntegrityError'' fk_failed None), w)
      else (Val (), w\<lparr>steps := filter (\<lambda>s. \<not> (s_run s = r \<and> s_node s = n)) (steps w)\<rparr>))"
  by (simp add: del_node_def whenE_def delete_steps_eq ret_def conj_assoc)

lemma delete_nodes_eq:
  assumes "\<not> (\<exists>s \<in> set (steps w). s_run s = r \<and> s_node s \<in> set ns \<and> s_node s \<notin> D \<and> step_referenced w (s_id s))"
  shows "forE (del_node r D) ns w =
     (Val (), w\<lparr>steps := filter (\<lambda>s. \<not> (s_run s = r \<and> s_node s \<in> set ns \<and> s_node s \<notin> D)) (steps w)\<rparr>)"
  using assms
proof (induction ns arbitrary: w)
  case Nil
  then show ?case by (simp add: ret_def)
next
  case (Cons n ns)
  show ?case
  proof (cases "n \<in> D")
    case True
    have "filter (\<lambda>s. \<not> (s_run s = r \<and> s_node s \<in> set (n # ns) \<and> s_node s \<notin> D)) (steps w) =
      filter (\<lambda>s. \<not> (s_run s = r \<and> s_node s \<in> set ns \<and> s_node s \<notin> D)) (steps w)"
      using True by (intro filter_cong) auto
    moreover have "forE (del_node r D) (n # ns) w = forE (del_node r D) ns w"
      using True by (simp add: seqE_def bindE_def del_node_eq)
    moreover have "forE (del_node r D) ns w =
      (Val (), w\<lparr>steps := filter (\<lambda>s. \<not> (s_run s = r \<and> s_node s \<in> set ns \<and> s_node s \<notin> D)) (steps w)\<rparr>)"
      using Cons.prems by (intro Cons.IH) auto
    ultimately show ?thesis by (simp only:)
  next
    case False
    let ?w = "w\<lparr>steps := filter (\<lambda>s. \<not> (s_run s = r \<and> s_node s = n)) (steps w)\<rparr>"
    have "forE (del_node r D) (n # ns) w = forE (del_node r D) ns ?w"
      using Cons.prems False by (auto simp: del_node_eq seqE_def bindE_def)
    moreover have "forE (del_node r D) ns ?w =
      (Val (), ?w\<lparr>steps := filter (\<lambda>s. \<not> (s_run s = r \<and> s_node s \<in> set ns \<and> s_node s \<notin> D)) (steps ?w)\<rparr>)"
      using Cons.prems by (intro Cons.IH) auto
    moreover have "filter (\<lambda>s. \<not> (s_run s = r \<and> s_node s \<in> set ns \<and> s_node s \<notin> D)) (steps ?w) =
      filter (\<lambda>s. \<not> (s_run s = r \<and> s_node s \<in> set (n # ns) \<and> s_node s \<notin> D)) (steps w)"
      using False by (auto intro: filter_cong)
    ultimately show ?thesis by simp
  qed
qed

lemma delete_nodes_exn:
  assumes "s \<in> set (steps w)" "s_run s = r" "s_node s \<in> set ns" "s_node s \<notin> D" "step_referenced w (s_id s)"
  shows "fst (forE (del_node r D) ns w) = Exn (Exc ''IntegrityError'' fk_failed None)"
  using assms
proof (induction ns arbitrary: w)
  case (Cons n ns)
  let ?w = "w\<lparr>steps := filter (\<lambda>s. \<not> (s_run s = r \<and> s_node s = n)) (steps w)\<rparr>"
  consider "n \<in> D" | "n \<notin> D" "\<exists>t \<in> set (steps w). s_run t = r \<and> s_node t = n \<and> step_referenced w (s_id t)"
    | "n \<notin> D" "\<not> (\<exists>t \<in> set (steps w). s_run t = r \<and> s_node t = n \<and> step_referenced w (s_id t))"
    by blast
  then show ?case
  proof cases
    case 1
    then show ?thesis using Cons by (auto simp: seqE_def bindE_def del_node_eq)
  next
    case 2
    then show ?thesis by (simp add: seqE_def bindE_def del_node_eq)
  next
    case 3
    then have "fst (forE (del_node r D) ns ?w) = Exn (Exc ''IntegrityError'' fk_failed None)"
      using Cons.prems by (intro Cons.IH) auto
    moreover have "forE (del_node r D) (n # ns) w = forE (del_node r D) ns ?w"
      using 3 by (auto simp: seqE_def bindE_def del_node_eq [of r D n w])
    ultimately show ?thesis by (simp only:)
  qed
qed simp

lemma reset_eq:
  "reset_interrupted_node_steps r w =
     (let D = {s_node t |t. t \<in> set (steps w) \<and> s_run t = r \<and> s_status t = SUCCEEDED} in
      seqE (forE (del_node r D) (remdups (map s_node (filter (\<lambda>s. s_run s = r) (steps w)))))
        (delete_steps (\<lambda>s. s_run s = r \<and> s_status s \<in> {RUNNING, RETRY_WAIT})) w)"
proof -
  have "set (map s_node (filter (\<lambda>s. s_run s = r \<and> s_status s = SUCCEEDED) (steps w))) =
    {s_node t |t. t \<in> set (steps w) \<and> s_run t = r \<and> s_status t = SUCCEEDED}"
    by auto
  then show ?thesis
    unfolding reset_interrupted_node_steps_def bind_gets Let_def del_node_def by simp
qed

lemma reset_effect:
  "if \<exists>s \<in> set (steps w). doomed r w s \<and> step_referenced w (s_id s)
   then fst (reset_interrupted_node_steps r w) = Exn (Exc ''IntegrityError'' fk_failed None)
   else reset_interrupted_node_steps r w = (Val (), w\<lparr>steps := filter (\<lambda>s. \<not> doomed r w s) (steps w)\<rparr>)"
proof -
  define D where "D = {s_node t |t. t \<in> set (steps w) \<and> s_run t = r \<and> s_status t = SUCCEEDED}"
  define ns where "ns = remdups (map s_node (filter (\<lambda>s. s_run s = r) (steps w)))"
  define P where "P = (\<lambda>s :: step_row. s_run s = r \<and> s_node s \<in> set ns \<and> s_node s \<notin> D)"
  define Q where "Q = (\<lambda>s :: step_row. s_run s = r \<and> s_status s \<in> {RUNNING, RETRY_WAIT})"
  have eq: "reset_interrupted_node_steps r w = seqE (forE (del_node r D) ns) (delete_steps Q) w"
    by (simp add: reset_eq D_def ns_def Q_def Let_def)
  have doomed: "s \<in> set (steps w) \<Longrightarrow> doomed r w s \<longleftrightarrow> P s \<or> Q s" for s
    by (auto simp: doomed_def P_def Q_def D_def ns_def)
  show ?thesis
  proof (cases "\<exists>s \<in> set (steps w). P s \<and> step_referenced w (s_id s)")
    case True
    then have "fst (forE (del_node r D) ns w) = Exn (Exc ''IntegrityError'' fk_failed None)"
      using delete_nodes_exn [of _ w r ns D] by (auto simp: P_def)
    then have "fst (reset_interrupted_node_steps r w) = Exn (Exc ''IntegrityError'' fk_failed None)"
      unfolding eq by (cases "forE (del_node r D) ns w") (simp add: seqE_def bindE_def)
    then show ?thesis using True doomed by auto
  next
    case False
    let ?w = "w\<lparr>steps := filter (\<lambda>s. \<not> P s) (steps w)\<rparr>"
    have "forE (del_node r D) ns w = (Val (), ?w)"
      using delete_nodes_eq [of w r ns D] False by (auto simp: P_def)
    then have "reset_interrupted_node_steps r w = delete_steps Q ?w"
      unfolding eq by (simp add: seqE_def bindE_def)
    moreover have "(\<exists>s \<in> set (steps ?w). Q s \<and> step_referenced ?w (s_id s)) \<longleftrightarrow>
        (\<exists>s \<in> set (steps w). doomed r w s \<and> step_referenced w (s_id s))"
      using False doomed by auto
    moreover have "filter (\<lambda>s. \<not> Q s) (steps ?w) = filter (\<lambda>s. \<not> doomed r w s) (steps w)"
      using doomed by (auto intro: filter_cong)
    ultimately show ?thesis
      unfolding delete_steps_eq by simp
  qed
qed

text \<open>
  C33. What the recovery reset does, exactly: the Steps of the run it means to purge are those whose
  node has no SUCCEEDED Step, and those in RUNNING or RETRY_WAIT.  If none of them is referenced by
  an event, an artifact or an approval they are deleted and nothing else changes; if any is, the
  reset raises IntegrityError.
\<close>

theorem reset_exact:
  "if \<exists>s \<in> set (steps w). doomed r w s \<and> step_referenced w (s_id s)
   then fst (reset_interrupted_node_steps r w) = Exn (Exc ''IntegrityError'' fk_failed None)
   else reset_interrupted_node_steps r w = (Val (), w\<lparr>steps := filter (\<lambda>s. \<not> doomed r w s) (steps w)\<rparr>)"
  by (rule reset_effect)

text \<open>A run that crashed inside a Step: its RUNNING row is referenced by its step_started event.\<close>

theorem reset_exact_witness:
  "\<exists>w :: unit world. step_referenced w ''run:a#1'' \<and> row_of ''run:a#1'' w \<noteq> None \<and>
     fst (reset_interrupted_node_steps ''run'' w) = Exn (Exc ''IntegrityError'' fk_failed None)"
proof -
  let ?w = "started ''run:a#1'' ''run'' (one_run () [step_row_of ''run:a#1'' ''run'' ''a'' PENDING])"
  have here: "step_referenced ?w ''run:a#1'' \<and> row_of ''run:a#1'' ?w \<noteq> None"
    by code_simp
  have crashed: "\<exists>s \<in> set (steps ?w). doomed ''run'' ?w s \<and> step_referenced ?w (s_id s)"
    by code_simp
  have "fst (reset_interrupted_node_steps ''run'' ?w) = Exn (Exc ''IntegrityError'' fk_failed None)"
    using reset_exact [of ?w "''run''"] unfolding if_P [OF crashed] .
  with here show ?thesis by blast
qed

end
