(* ===== verification/Awf_Workflow.thy ===== *)
theory Awf_Workflow
  imports Awf_Run
begin

text \<open>
  The Workflow Definition contract (workflow/definition.py, workflow/nodes.py): parsing with its
  errors, the retry policy of a node; and the two template renderers (workflow/io_schema.py,
  workflow/engine.py).  jsonschema and YAML are parameters: a schema check is a function that gives
  the text of its error, if any.
\<close>

section \<open>Errors as values\<close>

type_synonym 'a result = "exc + 'a"

definition fail :: "string \<Rightarrow> string \<Rightarrow> 'a result" where
  "fail cls msg = Inl (Exc cls msg None)"

definition andThen :: "'a result \<Rightarrow> ('a \<Rightarrow> 'b result) \<Rightarrow> 'b result" where
  "andThen r f = (case r of Inl e \<Rightarrow> Inl e | Inr a \<Rightarrow> f a)"

text \<open>d[k] on a dict\<close>

definition item :: "string \<Rightarrow> obj \<Rightarrow> json result" where
  "item k d = (case map_of d k of None \<Rightarrow> fail ''KeyError'' (str_repr k) | Some v \<Rightarrow> Inr v)"

definition liftR :: "'a result \<Rightarrow> ('w, 'a) act" where
  "liftR r = (case r of Inl e \<Rightarrow> raise e | Inr a \<Rightarrow> ret a)"

primrec mapR :: "('a \<Rightarrow> 'b result) \<Rightarrow> 'a list \<Rightarrow> 'b list result" where
  "mapR f [] = Inr []"
| "mapR f (x # xs) = andThen (f x) (\<lambda>y. andThen (mapR f xs) (\<lambda>ys. Inr (y # ys)))"

lemma carries_liftR [carry]: "carries I (liftR r)"
  unfolding liftR_def by (intro carry)

lemma halts_liftR [halt]: "halts (liftR r)"
  unfolding liftR_def by (intro halt)

lemma halts_liftR_bind [halt]:
  "(\<And>a. r = Inr a \<Longrightarrow> halts (f a)) \<Longrightarrow> halts (bindE (liftR r) f)"
  by (cases r) (simp_all add: halts_def liftR_def bindE_def raise_def ret_def)

lemma liftR_Val [vals]: "liftR r w = (Val a, w') \<longleftrightarrow> r = Inr a \<and> w' = w"
  by (auto simp: liftR_def raise_def ret_def split: sum.splits)

lemma andThen_Inr [simp]: "andThen r f = Inr b \<longleftrightarrow> (\<exists>a. r = Inr a \<and> f a = Inr b)"
  by (cases r) (simp_all add: andThen_def)

lemma mapR_Inr_length: "mapR f xs = Inr ys \<Longrightarrow> length ys = length xs"
  by (induction xs arbitrary: ys) auto

lemma mapR_Inr: "mapR f xs = Inr ys \<Longrightarrow> x \<in> set xs \<Longrightarrow> \<exists>y \<in> set ys. f x = Inr y"
  by (induction xs arbitrary: ys) auto

section \<open>Nodes (workflow/nodes.py)\<close>

definition node_types :: "string list" where
  "node_types = [''activity'', ''agent'', ''approval'', ''gate'', ''subworkflow'', ''map'', ''loop'', ''handoff'']"

definition required_fields_by_type :: "string \<Rightarrow> string list" where
  "required_fields_by_type t =
     (if t = ''activity'' then [''function'']
      else if t = ''subworkflow'' then [''workflowRef'']
      else if t = ''map'' then [''maxItems'', ''maxConcurrency'', ''workflowRef'', ''items'']
      else if t = ''loop'' then [''maxIterations'', ''workflowRef'']
      else if t = ''handoff'' then [''initiatingAgent'', ''receivingAgent'', ''payloadSchema'', ''maxHops'']
      else [])"

text \<open>"id" not in node, for a node that need not be a dict.\<close>

fun lacks_id :: "json \<Rightarrow> bool result" where
  "lacks_id (JObj d) = Inr (\<not> has_key ''id'' d)"
| "lacks_id (JStr s) = Inr (\<not> sublist ''id'' s)"
| "lacks_id (JList l) = Inr (JStr ''id'' \<notin> set l)"
| "lacks_id _ = fail ''TypeError'' ''argument is not iterable''"

definition is_node_type :: "json \<Rightarrow> bool" where
  "is_node_type t = (t \<in> set (map JStr node_types))"

definition validate_node :: "json \<Rightarrow> unit result" where
  "validate_node node = andThen (lacks_id node) (\<lambda>missing.
     if missing then fail ''NodeValidationError'' ''node missing required field id''
     else case node of
       JObj d \<Rightarrow>
         (case map_of d ''type'' of
            None \<Rightarrow> fail ''NodeValidationError'' (''node '' @ py_repr (get ''id'' d) @ '': missing required field type'')
          | Some t \<Rightarrow>
              if \<not> is_node_type t then fail ''NodeValidationError'' (''node '' @ py_repr (get ''id'' d) @ '': unknown type '' @ py_repr t)
              else (case find (\<lambda>f. \<not> has_key f d) (required_fields_by_type (py_str t)) of
                  Some f \<Rightarrow> fail ''NodeValidationError'' (''node '' @ py_repr (get ''id'' d) @ '': missing required field '' @ f)
                | None \<Rightarrow> Inr ()))
     | _ \<Rightarrow> fail ''TypeError'' ''indices must be integers'')"

section \<open>Definitions (workflow/definition.py)\<close>

record workflow =
  wf_api :: json
  wf_kind :: json
  wf_name :: json
  wf_version :: json
  wf_digest :: json
  wf_input_schema :: json
  wf_output_schema :: json
  wf_budgets :: json
  wf_nodes :: "obj list"
  wf_outputs :: json

definition wf_ref :: "workflow \<Rightarrow> string" where
  "wf_ref flow = py_str (wf_name flow) @ ''@'' @ py_str (wf_version flow)"

definition wf_node :: "workflow \<Rightarrow> json \<Rightarrow> obj result" where
  "wf_node flow node_id =
     (case find (\<lambda>n. get ''id'' n = node_id) (wf_nodes flow) of
        Some n \<Rightarrow> Inr n
      | None \<Rightarrow> fail ''WorkflowValidationError'' (''no node with id '' @ py_repr node_id))"

definition is_hashable :: "json \<Rightarrow> bool" where
  "is_hashable v = (\<not> is_list v \<and> \<not> is_obj v)"

definition as_dict :: "json \<Rightarrow> obj result" where
  "as_dict v = (case v of JObj d \<Rightarrow> Inr d | _ \<Rightarrow> fail ''TypeError'' ''object is not a mapping'')"

definition as_array :: "json \<Rightarrow> json list result" where
  "as_array v = (case v of JList l \<Rightarrow> Inr l | _ \<Rightarrow> fail ''TypeError'' ''object is not a list'')"

text \<open>\<open>schema_error\<close> is jsonschema's verdict on raw against the workflow SCHEMA.\<close>

definition parse_workflow :: "(json \<Rightarrow> string option) \<Rightarrow> obj \<Rightarrow> workflow result" where
  "parse_workflow schema_error raw =
     (case schema_error (JObj raw) of
        Some msg \<Rightarrow> fail ''WorkflowValidationError'' msg
      | None \<Rightarrow>
     andThen (andThen (item ''metadata'' raw) as_dict) (\<lambda>metadata.
     andThen (andThen (item ''spec'' raw) as_dict) (\<lambda>spec.
     andThen (item ''name'' metadata) (\<lambda>name.
     andThen (item ''version'' metadata) (\<lambda>version.
     andThen (item ''digest'' metadata) (\<lambda>digest.
     andThen (andThen (item ''nodes'' spec) as_array) (\<lambda>nodes.
     andThen (mapR (\<lambda>n. case validate_node n of
                  Inl e \<Rightarrow> if exc_type e = ''NodeValidationError''
                           then fail ''WorkflowValidationError'' (exc_text e) else Inl e
                | Inr u \<Rightarrow> Inr u) nodes) (\<lambda>_.
     (let ids = map (\<lambda>n. get ''id'' (as_obj n)) nodes in
      if \<not> list_all is_hashable ids then fail ''TypeError'' ''unhashable type''
      else if \<not> distinct ids then fail ''WorkflowValidationError'' ''spec.nodes contains duplicate node ids''
      else
     andThen (item ''apiVersion'' raw) (\<lambda>api.
     andThen (item ''kind'' raw) (\<lambda>kind.
     andThen (item ''inputSchema'' spec) (\<lambda>ins.
     andThen (item ''outputSchema'' spec) (\<lambda>outs.
     andThen (item ''budgets'' spec) (\<lambda>budgets.
     andThen (item ''outputs'' spec) (\<lambda>outputs.
       Inr \<lparr>wf_api = api, wf_kind = kind, wf_name = name, wf_version = version, wf_digest = digest,
            wf_input_schema = ins, wf_output_schema = outs, wf_budgets = budgets,
            wf_nodes = map as_obj nodes, wf_outputs = outputs\<rparr>)))))))))))))))"

text \<open>The file's YAML value, and the names of its directory and of the file without its suffix.\<close>

definition validate_registry_identity :: "json \<Rightarrow> json \<Rightarrow> string \<Rightarrow> string \<Rightarrow> string \<Rightarrow> string \<Rightarrow> unit result" where
  "validate_registry_identity name version parent stem ctxt error =
     (if name \<noteq> JStr parent
      then fail error (ctxt @ '' name '' @ py_repr name @ '' does not match its registry directory '' @ str_repr parent)
      else if version \<noteq> JStr stem
      then fail error (ctxt @ '' version '' @ py_repr version @ '' does not match its file name '' @ str_repr stem)
      else Inr ())"

definition load_workflow :: "(json \<Rightarrow> string option) \<Rightarrow> json \<Rightarrow> string \<Rightarrow> string \<Rightarrow> workflow result" where
  "load_workflow schema_error yaml parent stem =
     (case yaml of
        JObj raw \<Rightarrow>
          andThen (parse_workflow schema_error raw) (\<lambda>flow.
          andThen (validate_registry_identity (wf_name flow) (wf_version flow) parent stem ''workflow'' ''WorkflowValidationError'') (\<lambda>_.
          Inr flow))
      | _ \<Rightarrow> fail ''WorkflowValidationError'' ''workflow must be a YAML mapping'')"

section \<open>Retry policies\<close>

text \<open>int(text): blanks around, one sign, digits with single underscores between them.\<close>

fun digits_val :: "string \<Rightarrow> bool \<Rightarrow> nat \<Rightarrow> nat option" where
  "digits_val [] prev acc = (if prev then Some acc else None)"
| "digits_val (c # cs) prev acc =
     (if is_digit c then digits_val cs True (10 * acc + (of_char c - 48))
      else if c = CHR ''_'' \<and> prev then digits_val cs False acc
      else None)"

definition signed :: "string \<Rightarrow> (string \<Rightarrow> 'a option) \<Rightarrow> ('a \<Rightarrow> 'a) \<Rightarrow> 'a option" where
  "signed s f neg = (case s of
       [] \<Rightarrow> f []
     | c # cs \<Rightarrow> if c = CHR ''-'' then map_option neg (f cs) else if c = CHR ''+'' then f cs else f s)"

definition parse_int :: "string \<Rightarrow> int option" where
  "parse_int s = signed (strip s) (\<lambda>t. map_option int (digits_val t False 0)) uminus"

text \<open>float(text) for finite decimal notation.\<close>

definition parse_decimal :: "string \<Rightarrow> rat option" where
  "parse_decimal s =
     (let mant = takeWhile (\<lambda>c. c \<noteq> CHR ''e'' \<and> c \<noteq> CHR ''E'') s;
          ex = drop (length mant) s;
          whole = takeWhile (\<lambda>c. c \<noteq> CHR ''.'') mant;
          frac = drop (Suc (length whole)) mant;
          part = (\<lambda>t. if t = [] then Some 0 else digits_val t False 0);
          scale = (case ex of [] \<Rightarrow> Some 0 | _ # t \<Rightarrow> signed t (\<lambda>u. map_option int (digits_val u False 0)) uminus)
      in if whole = [] \<and> frac = [] then None
         else case (part whole, part frac, scale) of
           (Some a, Some b, Some k) \<Rightarrow>
             let m = of_nat a + of_nat b / 10 ^ length (filter is_digit frac) in
             Some (if 0 \<le> k then m * 10 ^ nat k else m / 10 ^ nat (- k))
         | _ \<Rightarrow> None)"

definition parse_float :: "string \<Rightarrow> rat option" where
  "parse_float s = signed (strip s) parse_decimal uminus"

text \<open>int(value) and float(value), None where they raise TypeError or ValueError.\<close>

definition truncate_rat :: "rat \<Rightarrow> int" where
  "truncate_rat q = (if q < 0 then - \<lfloor>- q\<rfloor> else \<lfloor>q\<rfloor>)"

definition py_int :: "json \<Rightarrow> int option" where
  "py_int v = (case v of
       JBool b \<Rightarrow> Some (if b then 1 else 0) | JInt i \<Rightarrow> Some i | JFloat q \<Rightarrow> Some (truncate_rat q)
     | JStr s \<Rightarrow> parse_int s | _ \<Rightarrow> None)"

definition py_float :: "json \<Rightarrow> rat option" where
  "py_float v = (case v of
       JBool b \<Rightarrow> Some (if b then 1 else 0) | JInt i \<Rightarrow> Some (of_int i) | JFloat q \<Rightarrow> Some q
     | JStr s \<Rightarrow> parse_float s | _ \<Rightarrow> None)"

record retry_policy =
  max_retries :: int
  retry_on :: "string list"
  backoff_seconds :: rat
  backoff_factor :: rat
  jitter :: bool

definition default_retry_classes :: "string list" where
  "default_retry_classes = [''TRANSIENT'', ''TIMEOUT'']"

text \<open>node_retry.get(a) if it is not None, else budgets.get(b, default)\<close>

definition retry_field :: "obj \<Rightarrow> obj \<Rightarrow> string \<Rightarrow> string \<Rightarrow> json \<Rightarrow> json" where
  "retry_field node_retry budgets a b v0 =
     (if get a node_retry = JNull then get_or b v0 budgets else get a node_retry)"

definition or_dict :: "json \<Rightarrow> obj result" where
  "or_dict v = (if \<not> truthy v then Inr [] else case v of
       JObj d \<Rightarrow> Inr d | _ \<Rightarrow> fail ''AttributeError'' ''object has no attribute get'')"

definition resolve_retry_policy :: "workflow \<Rightarrow> obj \<Rightarrow> retry_policy result" where
  "resolve_retry_policy flow node =
     andThen (or_dict (wf_budgets flow)) (\<lambda>budgets.
     andThen (or_dict (get ''retry'' node)) (\<lambda>node_retry.
     (let retries = (case py_int (retry_field node_retry budgets ''max_retries'' ''maxRetries'' (JInt 0)) of
            Some i \<Rightarrow> i | None \<Rightarrow> 0);
          classes = (case retry_field node_retry budgets ''retry_on'' ''retryOn'' (JList (map JStr default_retry_classes)) of
            JList l \<Rightarrow> map py_str l | _ \<Rightarrow> default_retry_classes);
          seconds = (case py_float (retry_field node_retry budgets ''backoff_seconds'' ''backoffSeconds'' (JFloat 1)) of
            Some q \<Rightarrow> q | None \<Rightarrow> 1);
          factor = (case py_float (retry_field node_retry budgets ''backoff_factor'' ''backoffFactor'' (JFloat 2)) of
            Some q \<Rightarrow> q | None \<Rightarrow> 2);
          jit = truthy (retry_field node_retry budgets ''jitter'' ''jitter'' (JBool True))
      in Inr \<lparr>max_retries = max 0 retries, retry_on = classes, backoff_seconds = max 0 seconds,
              backoff_factor = max 1 factor, jitter = jit\<rparr>)))"

section \<open>Templates\<close>

text \<open>
  The prefix of a text that matches \<open>\{\{\s*<kind>\.(\w+)\s*\}\}\<close>: the name in it and the rest of
  the text.  The classes \s and \w are disjoint, so the greedy match is the only one.
\<close>

definition drop_prefix :: "string \<Rightarrow> string \<Rightarrow> string option" where
  "drop_prefix p s = (if prefix p s then Some (drop (length p) s) else None)"

definition match_template :: "string \<Rightarrow> string \<Rightarrow> (string \<times> string) option" where
  "match_template kind s =
     Option.bind (drop_prefix ''{{'' s) (\<lambda>s1.
     Option.bind (drop_prefix (kind @ ''.'') (dropWhile is_space s1)) (\<lambda>s2.
     let name = takeWhile is_word s2 in
     if name = [] then None
     else Option.bind (drop_prefix ''}}'' (dropWhile is_space (drop (length name) s2))) (\<lambda>s3.
     Some (name, s3))))"

text \<open>_TEMPLATE_RE.match: the whole text, up to one newline at its end.\<close>

definition engine_template :: "string \<Rightarrow> string option" where
  "engine_template s = (case match_template ''engine'' s of
       Some (name, rest) \<Rightarrow> if rest = [] \<or> rest = [CHR 0x0A] then Some name else None
     | None \<Rightarrow> None)"

definition render_outputs :: "obj \<Rightarrow> obj \<Rightarrow> obj" where
  "render_outputs spec ctxt = map (\<lambda>(key, template). (key, case template of
       JStr s \<Rightarrow> (case engine_template s of Some name \<Rightarrow> get name ctxt | None \<Rightarrow> template)
     | _ \<Rightarrow> template)) spec"

lemma match_template_shorter: "match_template kind s = Some (n, r) \<Longrightarrow> length r < length s"
proof -
  assume "match_template kind s = Some (n, r)"
  then obtain s1 s2 where p: "prefix ''{{'' s" "s1 = drop 2 s"
    and "s2 = drop (length (kind @ ''.'')) (dropWhile is_space s1)"
    and r: "r = drop 2 (dropWhile is_space (drop (length n) s2))"
    by (auto simp: match_template_def drop_prefix_def Let_def numeral_2_eq_2
        split: if_splits Option.bind_splits)
  then have "length r \<le> length s1"
    by (auto intro!: order.trans [OF length_dropWhile_le] diff_le_self order.trans [OF diff_le_self])
  moreover have "length s1 < length s" using p by (auto simp: prefix_def)
  ultimately show ?thesis by simp
qed

text \<open>_INPUT_TEMPLATE_RE.sub, from left to right.\<close>

function render_input_templates :: "string \<Rightarrow> obj \<Rightarrow> string" where
  "render_input_templates [] d = []"
| "render_input_templates (c # cs) d =
     (case match_template ''input'' (c # cs) of
        Some (name, rest) \<Rightarrow> py_str (get_or name (JStr []) d) @ render_input_templates rest d
      | None \<Rightarrow> c # render_input_templates cs d)"
  by pat_completeness auto
termination
  by (relation "measure (\<lambda>(s, d). length s)") (auto dest: match_template_shorter)

fun render_input_templates_in_value :: "json \<Rightarrow> obj \<Rightarrow> json" where
  "render_input_templates_in_value (JStr s) d = JStr (render_input_templates s d)"
| "render_input_templates_in_value (JList l) d = JList (map (\<lambda>v. render_input_templates_in_value v d) l)"
| "render_input_templates_in_value (JObj o1) d = JObj (map (\<lambda>(k, v). (k, render_input_templates_in_value v d)) o1)"
| "render_input_templates_in_value v d = v"

text \<open>_NON_WORD_RE.sub("_", text).strip("_")\<close>

function squash :: "string \<Rightarrow> string" where
  "squash [] = []"
| "squash (c # cs) = (if is_word c then c # squash cs else CHR ''_'' # squash (dropWhile (\<lambda>x. \<not> is_word x) cs))"
  by pat_completeness auto
termination
  by (relation "measure length") (auto simp: le_imp_less_Suc length_dropWhile_le)

definition strip_char :: "char \<Rightarrow> string \<Rightarrow> string" where
  "strip_char c s = rev (dropWhile (\<lambda>x. x = c) (rev (dropWhile (\<lambda>x. x = c) s)))"

definition engine_context_key :: "string \<Rightarrow> string \<Rightarrow> string" where
  "engine_context_key node_id output_key =
     strip_char (CHR ''_'') (squash node_id) @ ''_'' @ strip_char (CHR ''_'') (squash output_key)"

section \<open>What parsing guarantees\<close>

definition well_formed_node :: "obj \<Rightarrow> bool" where
  "well_formed_node n = (has_key ''id'' n \<and> is_node_type (get ''type'' n) \<and>
     (\<forall>f \<in> set (required_fields_by_type (py_str (get ''type'' n))). has_key f n))"

definition well_formed :: "workflow \<Rightarrow> bool" where
  "well_formed flow = (distinct (map (get ''id'') (wf_nodes flow)) \<and> (\<forall>n \<in> set (wf_nodes flow). well_formed_node n))"

lemma fail_simps [simp]: "fail c t \<noteq> Inr x" "Inr x \<noteq> fail c t"
  by (simp_all add: fail_def)

lemma validate_node_Inr:
  "validate_node n = Inr u \<Longrightarrow> \<exists>d. n = JObj d \<and> well_formed_node d"
  by (cases n)
    (auto simp: validate_node_def well_formed_node_def get_def find_None_iff has_key_def
      split: if_splits option.splits)

lemma parse_workflow_nodes:
  assumes "parse_workflow schema_error raw = Inr flow"
  obtains nodes where "wf_nodes flow = map as_obj nodes" "distinct (map (\<lambda>n. get ''id'' (as_obj n)) nodes)"
    "\<And>n. n \<in> set nodes \<Longrightarrow> \<exists>u. validate_node n = Inr u"
proof -
  from assms obtain nodes us where
    us: "mapR (\<lambda>n. case validate_node n of
                  Inl e \<Rightarrow> if exc_type e = ''NodeValidationError''
                           then fail ''WorkflowValidationError'' (exc_text e) else Inl e
                | Inr u \<Rightarrow> Inr u) nodes = Inr us"
    and rest: "wf_nodes flow = map as_obj nodes" "distinct (map (\<lambda>n. get ''id'' (as_obj n)) nodes)"
    by (auto simp: parse_workflow_def Let_def split: option.splits if_splits)
  have "\<exists>u. validate_node n = Inr u" if "n \<in> set nodes" for n
    using mapR_Inr [OF us that] by (auto split: sum.splits if_splits)
  with rest that show ?thesis by blast
qed

text \<open>
  C14. A parsed workflow is well formed: its node ids are distinct, every node is a dict with an id,
  one of the eight types and the fields its type requires; so looking a node up by its id finds it.
\<close>

theorem parse_workflow_well_formed:
  assumes "parse_workflow schema_error raw = Inr flow"
  shows "well_formed flow \<and> (\<forall>n \<in> set (wf_nodes flow). wf_node flow (get ''id'' n) = Inr n)"
proof -
  obtain nodes where nodes: "wf_nodes flow = map as_obj nodes"
      "distinct (map (\<lambda>n. get ''id'' (as_obj n)) nodes)"
    and valid: "\<And>n. n \<in> set nodes \<Longrightarrow> \<exists>u. validate_node n = Inr u"
    using parse_workflow_nodes [OF assms] by blast
  have dist: "distinct (map (get ''id'') (wf_nodes flow))"
    using nodes by (simp add: comp_def)
  have "well_formed_node m" if "m \<in> set (wf_nodes flow)" for m
    using that nodes(1) valid validate_node_Inr by fastforce
  moreover have "wf_node flow (get ''id'' m) = Inr m" if m: "m \<in> set (wf_nodes flow)" for m
  proof (cases "find (\<lambda>n. get ''id'' n = get ''id'' m) (wf_nodes flow)")
    case None
    then show ?thesis using m by (auto simp: find_None_iff)
  next
    case (Some n)
    then have "n \<in> set (wf_nodes flow)" "get ''id'' n = get ''id'' m"
      by (auto simp: find_Some_iff)
    with dist m have "n = m" by (meson distinct_map inj_on_eq_iff)
    with Some show ?thesis by (simp add: wf_node_def)
  qed
  ultimately show ?thesis using dist by (simp add: well_formed_def)
qed

text \<open>A workflow of two nodes, as the YAML value it is read from.\<close>

definition demo_raw :: obj where
  "demo_raw = [(''apiVersion'', JStr ''awf/v1''), (''kind'', JStr ''Workflow''),
     (''metadata'', JObj [(''name'', JStr ''demo''), (''version'', JStr ''1.0.0''), (''digest'', JStr ''d'')]),
     (''spec'', JObj [(''inputSchema'', JObj []), (''outputSchema'', JObj []), (''budgets'', JObj []),
        (''nodes'', JList [JObj [(''id'', JStr ''build''), (''type'', JStr ''activity''), (''function'', JStr ''noop''), (''next'', JStr ''ok'')],
                           JObj [(''id'', JStr ''ok''), (''type'', JStr ''approval'')]]),
        (''outputs'', JObj [])])]"

theorem parse_workflow_well_formed_witness:
  "\<exists>flow. parse_workflow (\<lambda>_. None) demo_raw = Inr flow \<and> length (wf_nodes flow) = 2 \<and> well_formed flow \<and>
     (\<forall>n \<in> set (wf_nodes flow). wf_node flow (get ''id'' n) = Inr n)"
proof -
  have "\<exists>flow. parse_workflow (\<lambda>_. None) demo_raw = Inr flow \<and> length (wf_nodes flow) = 2"
    by (simp add: parse_workflow_def demo_raw_def item_def andThen_def as_dict_def as_array_def
        validate_node_def has_key_def is_node_type_def node_types_def required_fields_by_type_def
        py_str_def get_def is_hashable_def)
  with parse_workflow_well_formed show ?thesis by metis
qed

section \<open>What the retry policy guarantees\<close>

text \<open>base_delay = policy.backoff_seconds * (policy.backoff_factor ** retries_attempted)\<close>

definition base_delay :: "retry_policy \<Rightarrow> nat \<Rightarrow> rat" where
  "base_delay p k = backoff_seconds p * backoff_factor p ^ k"

text \<open>
  Whatever a node and the budgets declare, numbers or not, a resolved retry policy allows a
  number of retries that is not negative, and its delays are not negative and never shrink from one
  retry to the next.  Resolution only fails when a truthy retry or budgets field is not a dict.
\<close>

theorem retry_policy_bounds:
  "case resolve_retry_policy flow node of
     Inr p \<Rightarrow> 0 \<le> max_retries p \<and> 0 \<le> base_delay p k \<and> base_delay p k \<le> base_delay p (Suc k)
   | Inl e \<Rightarrow> exc_type e = ''AttributeError'' \<and>
       (truthy (wf_budgets flow) \<and> \<not> is_obj (wf_budgets flow) \<or> truthy (get ''retry'' node) \<and> \<not> is_obj (get ''retry'' node))"
proof -
  have or_dict: "case or_dict v of Inr d \<Rightarrow> True
      | Inl e \<Rightarrow> exc_type e = ''AttributeError'' \<and> truthy v \<and> \<not> is_obj v" for v
    by (cases v) (auto simp: or_dict_def fail_def)
  have grow: "a * b ^ k \<le> a * b ^ Suc k" "0 \<le> a * b ^ k" if "0 \<le> a" "1 \<le> b" for a b :: rat
    using that by (auto intro!: mult_left_mono mult_nonneg_nonneg power_increasing)
  show ?thesis
    using or_dict [of "wf_budgets flow"] or_dict [of "get ''retry'' node"]
    by (auto simp: resolve_retry_policy_def andThen_def Let_def base_delay_def split: sum.splits
        intro!: grow simp del: power_Suc)
qed

end
