(* ===== verification/Awf_Guard.thy ===== *)
theory Awf_Guard
  imports Awf_Workflow
begin

text \<open>
  Capability Records (registry/capability_record.py) and the Capability Guard
  (guard/capability_guard.py): the pure decision and the authorization that logs it.
\<close>

section \<open>Capability Records\<close>

record identity =
  id_type :: string
  id_provider :: string
  id_name :: string
  id_version :: string

record effects =
  operation :: string
  reversible :: bool
  idempotent :: bool
  external_side_effect :: bool

record capability =
  identity :: identity
  schema_input :: string
  schema_output :: string
  effects :: effects
  risk_class :: string
  approval :: string
  constraints :: obj

definition cap_ref :: "capability \<Rightarrow> string" where
  "cap_ref c = id_name (identity c) @ ''@'' @ id_version (identity c)"

definition as_text :: "json \<Rightarrow> string result" where
  "as_text v = (case v of JStr s \<Rightarrow> Inr s | _ \<Rightarrow> fail ''TypeError'' ''not a string'')"

definition as_bool :: "json \<Rightarrow> bool result" where
  "as_bool v = (case v of JBool b \<Rightarrow> Inr b | _ \<Rightarrow> fail ''TypeError'' ''not a boolean'')"

definition text_item :: "string \<Rightarrow> obj \<Rightarrow> string result" where
  "text_item k d = andThen (item k d) as_text"

definition bool_item :: "string \<Rightarrow> obj \<Rightarrow> bool result" where
  "bool_item k d = andThen (item k d) as_bool"

definition machine_names :: "string list" where
  "machine_names = [''fs_read'', ''fs_write'', ''fs_delete'', ''command_run'', ''network_fetch'']"

definition cap_error :: "string \<Rightarrow> 'a result" where
  "cap_error msg = fail ''CapabilityRecordValidationError'' msg"

text \<open>value.get(k) on a value that must be a dict, and int(value).\<close>

definition get_attr :: "json \<Rightarrow> obj result" where
  "get_attr v = (case v of JObj d \<Rightarrow> Inr d | _ \<Rightarrow> fail ''AttributeError'' ''object has no attribute get'')"

definition int_of :: "json \<Rightarrow> int result" where
  "int_of v = (case py_int v of Some i \<Rightarrow> Inr i | None \<Rightarrow> fail ''ValueError'' ''invalid literal for int()'')"

definition validate_constraints :: "identity \<Rightarrow> effects \<Rightarrow> string \<Rightarrow> json \<Rightarrow> unit result" where
  "validate_constraints ident eff risk cs = (case cs of
     JObj d \<Rightarrow>
       if id_type ident \<noteq> ''activity'' \<or> id_name ident \<notin> set machine_names then Inr ()
       else (case filter (\<lambda>n. has_key n d) [''filesystem'', ''command'', ''network''] of
         [family] \<Rightarrow>
           if starts_with ''fs_'' (id_name ident) \<and> family \<noteq> ''filesystem''
             then cap_error (id_name ident @ '': requires filesystem constraints'')
           else if id_name ident = ''command_run'' \<and> family \<noteq> ''command''
             then cap_error ''command_run: requires command constraints''
           else if id_name ident = ''network_fetch'' \<and> family \<noteq> ''network''
             then cap_error ''network_fetch: requires network constraints''
           else if risk = ''R0'' \<and> operation eff \<noteq> ''read''
             then cap_error ''R0 machine capabilities must be read-only''
           else if family = ''network'' then
             andThen (get_attr (get family d)) (\<lambda>nc.
             if \<not> truthy (get ''allowedMethods'' nc) then cap_error ''network constraints require allowedMethods''
             else if \<not> is_list (get ''allowedHosts'' nc) \<or> \<not> truthy (get ''allowedHosts'' nc)
               then cap_error ''network constraints require non-empty allowedHosts''
             else Inr ())
           else if family = ''command'' then
             andThen (get_attr (get family d)) (\<lambda>cc.
             andThen (int_of (get_or ''timeoutSeconds'' (JInt 0) cc)) (\<lambda>t.
             if t < 1 then cap_error ''command constraints require positive timeoutSeconds'' else Inr ()))
           else Inr ()
       | _ \<Rightarrow> cap_error (id_name ident @ '': exactly one machine constraint family is required''))
   | _ \<Rightarrow> cap_error ''constraints must be a mapping'')"

definition parse_capability_record :: "(json \<Rightarrow> string option) \<Rightarrow> obj \<Rightarrow> capability result" where
  "parse_capability_record schema_error raw =
     (case schema_error (JObj raw) of Some msg \<Rightarrow> cap_error msg | None \<Rightarrow>
     andThen (andThen (item ''identity'' raw) as_dict) (\<lambda>idr.
     andThen (andThen (item ''schema'' raw) as_dict) (\<lambda>sr.
     andThen (andThen (item ''effects'' raw) as_dict) (\<lambda>er.
     andThen (text_item ''type'' idr) (\<lambda>ty.
     andThen (text_item ''provider'' idr) (\<lambda>pv.
     andThen (text_item ''name'' idr) (\<lambda>nm.
     andThen (text_item ''version'' idr) (\<lambda>vs.
     andThen (text_item ''operation'' er) (\<lambda>op.
     andThen (bool_item ''reversible'' er) (\<lambda>rv.
     andThen (bool_item ''idempotent'' er) (\<lambda>idem.
     andThen (bool_item ''external_side_effect'' er) (\<lambda>ex.
     (let ident = \<lparr>id_type = ty, id_provider = pv, id_name = nm, id_version = vs\<rparr>;
          eff = \<lparr>operation = op, reversible = rv, idempotent = idem, external_side_effect = ex\<rparr>;
          cs = get_or ''constraints'' (JObj []) raw in
     andThen (text_item ''risk_class'' raw) (\<lambda>risk.
     andThen (validate_constraints ident eff risk cs) (\<lambda>_.
     andThen (text_item ''input'' sr) (\<lambda>si.
     andThen (text_item ''output'' sr) (\<lambda>so.
     andThen (text_item ''approval'' raw) (\<lambda>ap.
       Inr \<lparr>identity = ident, schema_input = si, schema_output = so, effects = eff, risk_class = risk,
            approval = ap, constraints = as_obj cs\<rparr>))))))))))))))))))"

definition load_capability_record :: "(json \<Rightarrow> string option) \<Rightarrow> json \<Rightarrow> string \<Rightarrow> string \<Rightarrow> capability result" where
  "load_capability_record schema_error yaml parent stem = (case yaml of
     JObj raw \<Rightarrow>
       andThen (parse_capability_record schema_error raw) (\<lambda>c.
       andThen (validate_registry_identity (JStr (id_name (identity c))) (JStr (id_version (identity c)))
                  parent stem ''capability record'' ''CapabilityRecordValidationError'') (\<lambda>_. Inr c))
   | _ \<Rightarrow> cap_error ''capability record must be a YAML mapping'')"

section \<open>The Guard\<close>

datatype decision = ALLOW | DENY | APPROVAL_REQUIRED

definition decision_value :: "decision \<Rightarrow> string" where
  "decision_value d = (case d of ALLOW \<Rightarrow> ''allow'' | DENY \<Rightarrow> ''deny'' | APPROVAL_REQUIRED \<Rightarrow> ''approval_required'')"

definition roles :: "string list" where
  "roles = [''builder'', ''verifier'', ''adversary'']"

definition write_operations :: "string list" where
  "write_operations = [''create'', ''update'', ''delete'']"

definition evaluate :: "capability \<Rightarrow> string list \<Rightarrow> string option \<Rightarrow> (decision \<times> string) result" where
  "evaluate cap allowlist role =
     (if cap_ref cap \<notin> set allowlist then Inr (DENY, ''not_in_agent_allowlist'')
      else if role \<noteq> None \<and> the role \<notin> set roles then fail ''ValueError'' (''role '' @ the role @ '' not in ROLES'')
      else let is_write = operation (effects cap) \<in> set write_operations in
        if role = Some ''verifier'' \<and> is_write \<and> risk_class cap \<noteq> ''R0''
          then Inr (DENY, ''policy_denied_verifier_write_above_r0'')
        else if role = Some ''adversary'' \<and> is_write
          then Inr (DENY, ''policy_denied_adversary_altering_capability'')
        else if risk_class cap = ''R3'' then Inr (DENY, ''prohibited_risk_class'')
        else if risk_class cap = ''R0'' then Inr (ALLOW, ''autoallow_r0'')
        else if approval cap = ''never'' then Inr (ALLOW, ''approval_never'')
        else Inr (APPROVAL_REQUIRED, ''approval_'' @ replace_char (CHR ''-'') ''_'' (approval cap)))"

definition authorize ::
  "capability \<Rightarrow> string list \<Rightarrow> string \<Rightarrow> string \<Rightarrow> string option \<Rightarrow> string option \<Rightarrow> obj \<Rightarrow> ('x, decision) op" where
  "authorize cap allowlist run_id actor step_id role payload_extra =
     bindE (liftR (evaluate cap allowlist role)) (\<lambda>(decision, reason_code).
     let payload = [(''capability_ref'', JStr (cap_ref cap)), (''risk_class'', JStr (risk_class cap)), (''role'', jopt role)] in
     seqE (log_event run_id step_id (decision_value decision) actor reason_code
             (sort_json (JObj (merge_obj payload payload_extra))))
       (ret decision))"

lemma carries_authorize [carry]: "carries (kept w0) (authorize c l r a s o1 p)"
  unfolding authorize_def by (intro carry)

lemma halts_write_event [halt]: "halts (write_event r n a c s t p d)" "halts (log_event r1 s1 n1 a1 c1 d1)"
  unfolding log_event_def write_event_def by (intro halt)+

lemma halts_authorize [halt]: "halts (authorize c l r a s o1 p)"
  unfolding authorize_def by (intro halt)

section \<open>The Guard's policy\<close>

text \<open>
  The policy of Section 9.2 as a specification: what is forbidden to a role whatever the approval,
  and what an allowed capability still needs.
\<close>

definition forbidden :: "capability \<Rightarrow> string list \<Rightarrow> string option \<Rightarrow> bool" where
  "forbidden cap allowlist role =
     (cap_ref cap \<notin> set allowlist \<or> risk_class cap = ''R3'' \<or>
      operation (effects cap) \<in> set write_operations \<and>
        (role = Some ''adversary'' \<or> role = Some ''verifier'' \<and> risk_class cap \<noteq> ''R0''))"

definition needs_no_approval :: "capability \<Rightarrow> bool" where
  "needs_no_approval cap = (risk_class cap = ''R0'' \<or> approval cap = ''never'')"

definition policy :: "capability \<Rightarrow> string list \<Rightarrow> string option \<Rightarrow> decision" where
  "policy cap allowlist role =
     (if forbidden cap allowlist role then DENY
      else if needs_no_approval cap then ALLOW else APPROVAL_REQUIRED)"

text \<open>
  C2. The Guard implements its policy and nothing else: for a role it knows (or none), evaluate
  decides exactly what the policy says; the only error is an unknown role, and even then a
  capability outside the allowlist is denied first.
\<close>

theorem evaluate_refines_policy:
  "map_sum exc_type fst (evaluate cap allowlist role) =
     (if cap_ref cap \<in> set allowlist \<and> role \<notin> insert None (Some ` set roles) then Inl ''ValueError''
      else Inr (policy cap allowlist role))"
  by (cases role)
    (auto simp: evaluate_def policy_def forbidden_def needs_no_approval_def fail_def roles_def Let_def)

text \<open>
  No authorization without a record: when authorize returns a decision, that decision is the
  Guard's, and the event log has grown by exactly one event, of this run and step, that states it.
\<close>

theorem authorize_logged:
  assumes "authorize cap allowlist r actor s role extra w = (Val d, w')"
  shows "\<exists>reason e. evaluate cap allowlist role = Inr (d, reason) \<and> events w' = events w @ [e] \<and>
     e_run e = r \<and> e_step e = s \<and> e_new e = decision_value d \<and> e_actor e = actor \<and> e_reason e = reason \<and>
     steps w' = steps w \<and> runs w' = runs w \<and> approvals w' = approvals w"
proof -
  obtain d' reason where ev: "evaluate cap allowlist role = Inr (d', reason)"
    using assms by (cases "evaluate cap allowlist role")
      (auto simp: authorize_def liftR_def bindE_def raise_def)
  let ?p = "sort_json (JObj (merge_obj [(''capability_ref'', JStr (cap_ref cap)),
       (''risk_class'', JStr (risk_class cap)), (''role'', jopt role)] extra))"
  have log: "log_event r s (decision_value d') actor reason ?p w = (Val (), w')" "d' = d"
    using assms ev by (auto simp: authorize_def liftR_def bindE_def seqE_def ret_def Let_def
        split: prod.splits res.splits)
  from log_event_Val(1) [OF log(1)] log(2) ev show ?thesis
    by (auto simp: logged_def)
qed

definition demo_capability :: "string \<Rightarrow> string \<Rightarrow> string \<Rightarrow> obj \<Rightarrow> capability" where
  "demo_capability name risk appr cs = \<lparr>identity = \<lparr>id_type = ''activity'', id_provider = ''awf'', id_name = name, id_version = ''1.0.0''\<rparr>,
     schema_input = '''', schema_output = '''',
     effects = \<lparr>operation = ''update'', reversible = True, idempotent = False, external_side_effect = False\<rparr>,
     risk_class = risk, approval = appr, constraints = cs\<rparr>"

theorem authorize_logged_witness:
  "\<exists>w' reason e. authorize (demo_capability ''fs_write'' ''R2'' ''per-invocation'' []) [''fs_write@1.0.0''] ''run'' ''awf''
        (Some ''run:a#1'') None [] (one_run () [step_row_of ''run:a#1'' ''run'' ''a'' RUNNING]) = (Val APPROVAL_REQUIRED, w') \<and>
     events w' = [e] \<and> e_reason e = reason \<and> e_new e = ''approval_required''"
proof -
  let ?w = "one_run () [step_row_of ''run:a#1'' ''run'' ''a'' RUNNING]"
  let ?r = "authorize (demo_capability ''fs_write'' ''R2'' ''per-invocation'' []) [''fs_write@1.0.0''] ''run'' ''awf''
        (Some ''run:a#1'') None [] ?w"
  have "fst ?r = Val APPROVAL_REQUIRED" by code_simp
  then have "?r = (Val APPROVAL_REQUIRED, snd ?r)" by (metis prod.collapse)
  moreover from this have "\<exists>e. events (snd ?r) = events ?w @ [e] \<and> e_new e = decision_value APPROVAL_REQUIRED"
    using authorize_logged by blast
  moreover have "events ?w = []" by (simp add: one_run_def blank_world_def)
  ultimately show ?thesis by (auto simp: decision_value_def)
qed

end
