(* ===== verification/Awf_Secrets.thy ===== *)
theory Awf_Secrets
  imports Awf_Workflow
begin

text \<open>
  The secret store (secrets/store.py).  Fernet is a parameter: a cipher whose encryption draws on the
  outside world (its time and its random bytes) and whose decryption may fail.  A key that Fernet
  rejects makes both fail.
\<close>

section \<open>Definitions\<close>

record 'x cipher =
  encrypt :: "string \<Rightarrow> string \<Rightarrow> 'x \<Rightarrow> string res \<times> 'x"
  decrypt :: "string \<Rightarrow> string \<Rightarrow> string result"

text \<open>What Fernet documents: a token decrypts, under the key it was made with, to its plaintext.\<close>

definition decrypts_its_tokens :: "'x cipher \<Rightarrow> bool" where
  "decrypts_its_tokens C = (\<forall>k p x c x'. encrypt C k p x = (Val c, x') \<longrightarrow> decrypt C k c = Inr p)"

definition reseal :: "string \<Rightarrow> string \<Rightarrow> string \<Rightarrow> secret_row list \<Rightarrow> secret_row list" where
  "reseal name ciphertext now rows =
     map (\<lambda>r. if q_name r = name then r\<lparr>q_cipher := ciphertext, q_updated := now\<rparr> else r) rows"

text \<open>INSERT ... ON CONFLICT(name) DO UPDATE: a known name keeps its created_at.\<close>

definition put_secret :: "string \<Rightarrow> string \<Rightarrow> string \<Rightarrow> secret_row list \<Rightarrow> secret_row list" where
  "put_secret name ciphertext now rows =
     (if name \<in> q_name ` set rows
      then reseal name ciphertext now rows
      else rows @ [\<lparr>q_name = name, q_cipher = ciphertext, q_created = now, q_updated = now\<rparr>])"

definition set_secret :: "'x cipher \<Rightarrow> string \<Rightarrow> string \<Rightarrow> string \<Rightarrow> ('x, unit) op" where
  "set_secret C name plaintext key =
     bindE (outside (encrypt C key plaintext)) (\<lambda>ciphertext.
     bindE utc_now_rfc3339 (\<lambda>now.
       modify (\<lambda>w. w\<lparr>secrets := put_secret name ciphertext now (secrets w)\<rparr>)))"

definition secret_row_of :: "string \<Rightarrow> secret_row list \<Rightarrow> secret_row option" where
  "secret_row_of name rows = find (\<lambda>r. q_name r = name) rows"

text \<open>SecretNotFoundError is a KeyError, whose text is the repr of the name.\<close>

definition open_secret :: "'x cipher \<Rightarrow> string \<Rightarrow> string \<Rightarrow> secret_row list \<Rightarrow> string result" where
  "open_secret C name key rows = (case secret_row_of name rows of
       None \<Rightarrow> fail ''SecretNotFoundError'' (str_repr name)
     | Some r \<Rightarrow> decrypt C key (q_cipher r))"

definition get_secret :: "'x cipher \<Rightarrow> string \<Rightarrow> string \<Rightarrow> ('x, string) op" where
  "get_secret C name key = bindE (gets secrets) (\<lambda>rows. liftR (open_secret C name key rows))"

definition list_secret_names :: "('x, string list) op" where
  "list_secret_names = gets (\<lambda>w. sort (map q_name (secrets w)))"

definition rotate_row :: "'x cipher \<Rightarrow> string \<Rightarrow> string \<Rightarrow> string \<Rightarrow> secret_row \<Rightarrow> ('x, unit) op" where
  "rotate_row C old_key new_key now r =
     bindE (liftR (decrypt C old_key (q_cipher r))) (\<lambda>plaintext.
     bindE (outside (encrypt C new_key plaintext)) (\<lambda>ciphertext.
       modify (\<lambda>w. w\<lparr>secrets := reseal (q_name r) ciphertext now (secrets w)\<rparr>)))"

text \<open>The rows are changed in one transaction, which an exception rolls back.\<close>

definition rotate_key :: "'x cipher \<Rightarrow> string \<Rightarrow> string \<Rightarrow> ('x, unit) op" where
  "rotate_key C old_key new_key =
     bindE (gets secrets) (\<lambda>rows.
     bindE utc_now_rfc3339 (\<lambda>now.
       catchE (forE (rotate_row C old_key new_key now) rows)
         (\<lambda>e. seqE (modify (\<lambda>w. w\<lparr>secrets := rows\<rparr>)) (raise e))))"

section \<open>What the store keeps\<close>

lemma carries_secrets_update [carry]: "carries (kept w0) (modify (\<lambda>w. w\<lparr>secrets := f w\<rparr>))"
  by (rule carries_same) (simp add: modify_def same_tables_def)

lemma carries_secrets [carry]:
  "carries (kept w0) (set_secret C n p k)" "carries (kept w0) (get_secret C n k)"
  "carries (kept w0) (rotate_key C k k')"
  unfolding set_secret_def get_secret_def rotate_key_def rotate_row_def by (intro carry)+

lemma get_secret_eq: "get_secret C n k w = (case open_secret C n k (secrets w) of Inr s \<Rightarrow> (Val s, w) | Inl e \<Rightarrow> (Exn e, w))"
  by (simp add: get_secret_def bindE_def gets_def liftR_def raise_def ret_def split: sum.split)

lemma row_of_name: "secret_row_of n rows = Some r \<Longrightarrow> r \<in> set rows \<and> q_name r = n"
  by (auto simp: secret_row_of_def find_Some_iff)

lemma row_of_none: "secret_row_of n rows = None \<longleftrightarrow> n \<notin> q_name ` set rows"
  by (auto simp: secret_row_of_def find_None_iff)

lemma names_reseal [simp]: "map q_name (reseal n c now rows) = map q_name rows"
  by (simp add: reseal_def)

lemma row_of_reseal:
  "secret_row_of m (reseal n c now rows) =
     map_option (\<lambda>r. if m = n then r\<lparr>q_cipher := c, q_updated := now\<rparr> else r) (secret_row_of m rows)"
  by (induction rows) (auto simp: secret_row_of_def reseal_def)

lemma row_of_put_other: "m \<noteq> n \<Longrightarrow> secret_row_of m (put_secret n c now rows) = secret_row_of m rows"
proof -
  assume "m \<noteq> n"
  then have "secret_row_of m (rows @ [\<lparr>q_name = n, q_cipher = c, q_created = now, q_updated = now\<rparr>]) = secret_row_of m rows"
    by (induction rows) (simp_all add: secret_row_of_def)
  with \<open>m \<noteq> n\<close> show ?thesis
    by (cases "secret_row_of m rows") (simp_all add: put_secret_def row_of_reseal)
qed

lemma row_of_put: "\<exists>r. secret_row_of n (put_secret n c now rows) = Some r \<and> q_cipher r = c"
proof (cases "secret_row_of n rows")
  case None
  then have "secret_row_of n (rows @ [\<lparr>q_name = n, q_cipher = c, q_created = now, q_updated = now\<rparr>]) =
      Some \<lparr>q_name = n, q_cipher = c, q_created = now, q_updated = now\<rparr>"
    by (induction rows) (simp_all add: secret_row_of_def split: if_splits)
  with None show ?thesis by (simp add: put_secret_def row_of_none)
next
  case (Some r)
  then have "n \<in> q_name ` set rows" using row_of_none [of n rows] by auto
  with Some show ?thesis by (simp add: put_secret_def row_of_reseal)
qed

section \<open>Round trips\<close>

text \<open>
  C16. A secret that was set is read back: after set_secret, get_secret under the same key gives the
  plaintext, and every other secret opens, under any key, as it did before.
\<close>

theorem secret_round_trip:
  assumes "decrypts_its_tokens C" and "set_secret C n p k w = (Val u, w')"
  shows "get_secret C n k w' = (Val p, w') \<and>
    (\<forall>m j. m \<noteq> n \<longrightarrow> open_secret C m j (secrets w') = open_secret C m j (secrets w))"
proof -
  obtain c x now where enc: "encrypt C k p (ext w) = (Val c, x)"
    and sec: "secrets w' = put_secret n c now (secrets w)"
    using assms(2) by (auto simp: set_secret_def bind_Val outside_Val utc_now_rfc3339_def modify_def)
  have "decrypt C k c = Inr p" using assms(1) enc unfolding decrypts_its_tokens_def by blast
  then have "open_secret C n k (secrets w') = Inr p"
    using row_of_put [of n c now "secrets w"] by (auto simp: sec open_secret_def)
  then show ?thesis by (simp add: get_secret_eq sec open_secret_def row_of_put_other)
qed

lemma rotate_row_Val:
  assumes "rotate_row C old new now r w = (Val u, w')"
  shows "\<exists>p c x. decrypt C old (q_cipher r) = Inr p \<and> encrypt C new p (ext w) = (Val c, x) \<and>
    secrets w' = reseal (q_name r) c now (secrets w)"
  using assms by (auto simp: rotate_row_def bind_Val outside_Val liftR_Val modify_def)

lemma rotate_rows_Val:
  assumes "decrypts_its_tokens C"
  shows "forE (rotate_row C old new now) rs w = (Val u, w') \<Longrightarrow> distinct (map q_name rs) \<Longrightarrow>
    map q_name (secrets w') = map q_name (secrets w) \<and>
    (\<forall>m. m \<notin> q_name ` set rs \<longrightarrow> secret_row_of m (secrets w') = secret_row_of m (secrets w)) \<and>
    (\<forall>r \<in> set rs. q_name r \<in> q_name ` set (secrets w) \<longrightarrow>
       open_secret C (q_name r) new (secrets w') = decrypt C old (q_cipher r) \<and> (\<exists>p. decrypt C old (q_cipher r) = Inr p))"
proof (induction rs arbitrary: w)
  case Nil
  then show ?case by (simp add: ret_def)
next
  case (Cons r rs)
  obtain v w1 where one: "rotate_row C old new now r w = (Val v, w1)" "forE (rotate_row C old new now) rs w1 = (Val u, w')"
    using Cons.prems(1) by (auto simp: seq_Val)
  obtain p c x where r: "decrypt C old (q_cipher r) = Inr p" "encrypt C new p (ext w) = (Val c, x)"
      "secrets w1 = reseal (q_name r) c now (secrets w)"
    using rotate_row_Val [OF one(1)] by blast
  have new: "decrypt C new c = Inr p" using assms r(2) unfolding decrypts_its_tokens_def by blast
  have names: "map q_name (secrets w1) = map q_name (secrets w)" by (simp add: r(3))
  have out: "q_name r \<notin> q_name ` set rs" using Cons.prems(2) by simp
  note IH = Cons.IH [OF one(2)]
  have sets: "q_name ` set (secrets w1) = q_name ` set (secrets w)" using names by (metis set_map)
  have "secret_row_of (q_name r) (secrets w') = secret_row_of (q_name r) (secrets w1)"
    using IH Cons.prems(2) out by simp
  then have "open_secret C (q_name r) new (secrets w') = Inr p" if "q_name r \<in> q_name ` set (secrets w)"
    using that row_of_none [of "q_name r" "secrets w"] new
    by (auto simp: open_secret_def r(3) row_of_reseal)
  with IH Cons.prems(2) names sets r(1) show ?case
    by (auto simp: r(3) row_of_reseal option.map_ident)
qed

text \<open>The round trip on a store of two secrets, with a cipher that numbers its tokens.\<close>

definition demo_cipher :: "nat cipher" where
  "demo_cipher = \<lparr>encrypt = (\<lambda>k p n. (Val (k @ CHR ''.'' # p), Suc n)),
     decrypt = (\<lambda>k c. if take (Suc (length k)) c = k @ ''.'' then Inr (drop (Suc (length k)) c) else fail ''InvalidToken'' [])\<rparr>"

lemma demo_cipher_law: "decrypts_its_tokens demo_cipher"
  by (simp add: decrypts_its_tokens_def demo_cipher_def)

definition sealed :: "string \<Rightarrow> string \<Rightarrow> secret_row" where
  "sealed n c = \<lparr>q_name = n, q_cipher = c, q_created = ''t0'', q_updated = ''t0''\<rparr>"

definition two_secrets :: "nat world" where
  "two_secrets = blank_world 0\<lparr>secrets := [sealed ''a'' ''old.one'', sealed ''b'' ''old.two'']\<rparr>"

theorem secret_round_trip_witness:
  "\<exists>w'. fst (set_secret demo_cipher ''b'' ''three'' ''old'' two_secrets) = Val () \<and>
     w' = snd (set_secret demo_cipher ''b'' ''three'' ''old'' two_secrets) \<and>
     get_secret demo_cipher ''b'' ''old'' w' = (Val ''three'', w') \<and>
     open_secret demo_cipher ''a'' ''old'' (secrets w') = open_secret demo_cipher ''a'' ''old'' (secrets two_secrets)"
proof -
  obtain w' where run: "set_secret demo_cipher ''b'' ''three'' ''old'' two_secrets = (Val (), w')"
    by (simp add: set_secret_def bindE_def outside_def demo_cipher_def utc_now_rfc3339_def modify_def)
  then show ?thesis
    using secret_round_trip [OF demo_cipher_law run] by simp
qed

lemma rotate_key_Val:
  assumes "decrypts_its_tokens C" "distinct (map q_name (secrets w))" "rotate_key C old new w = (Val u, w')"
  shows "map q_name (secrets w') = map q_name (secrets w)" "open_secret C n new (secrets w') = open_secret C n old (secrets w)"
proof -
  let ?w1 = "w\<lparr>now_ix := Suc (now_ix w)\<rparr>"
  have run: "forE (rotate_row C old new (clock w (now_ix w))) (secrets w) ?w1 = (Val u, w')"
    using assms(3) unfolding rotate_key_def
    by (auto simp: bind_Val gets_def utc_now_rfc3339_def catchE_def attempt_Val case_sum_Val seq_Val basic_Val)
  have one: "secrets ?w1 = secrets w" by simp
  note rows = rotate_rows_Val [OF assms(1) run assms(2)]
  with one show "map q_name (secrets w') = map q_name (secrets w)" by simp
  show "open_secret C n new (secrets w') = open_secret C n old (secrets w)"
  proof (cases "secret_row_of n (secrets w)")
    case None
    then have "secret_row_of n (secrets w') = None" using rows row_of_none by (metis one set_map)
    with None show ?thesis by (simp add: open_secret_def)
  next
    case (Some r)
    with rows one row_of_name [OF Some] show ?thesis by (auto simp: open_secret_def)
  qed
qed

lemma rotate_key_Exn: "rotate_key C old new w = (Exn e, w') \<Longrightarrow> secrets w' = secrets w"
  by (auto simp: rotate_key_def bindE_def gets_def utc_now_rfc3339_def catchE_def attempt_def seqE_def modify_def
      raise_def ret_def split: prod.splits res.splits)

text \<open>
  C15. Rotation is all or nothing: after rotate_key every secret opens under the new key exactly as it
  opened under the old one, with the same names in the same order; and when rotate_key raises, the
  table is what it was.
\<close>

theorem rotation_all_or_nothing:
  assumes "decrypts_its_tokens C" and "distinct (map q_name (secrets w))"
  shows "case rotate_key C old new w of
      (Val u, w') \<Rightarrow> map q_name (secrets w') = map q_name (secrets w) \<and>
        (\<forall>n. open_secret C n new (secrets w') = open_secret C n old (secrets w))
    | (Exn e, w') \<Rightarrow> secrets w' = secrets w
    | (Div, w') \<Rightarrow> True"
  using rotate_key_Val [OF assms] rotate_key_Exn by (auto split: prod.split res.split)

theorem rotation_all_or_nothing_witness:
  "\<exists>w'. rotate_key demo_cipher ''old'' ''new'' two_secrets = (Val (), w') \<and>
     (\<forall>n. open_secret demo_cipher n ''new'' (secrets w') = open_secret demo_cipher n ''old'' (secrets two_secrets))"
proof -
  have "fst (rotate_key demo_cipher ''old'' ''new'' two_secrets) = Val ()" by code_simp
  then obtain w' where "rotate_key demo_cipher ''old'' ''new'' two_secrets = (Val (), w')"
    by (metis prod.collapse)
  moreover have "distinct (map q_name (secrets two_secrets))"
    by (simp add: two_secrets_def sealed_def)
  ultimately show ?thesis
    using rotation_all_or_nothing [OF demo_cipher_law, of two_secrets "''new''" "''old''"] by auto
qed

end
