(* ===== verification/Awf_Gateway.thy ===== *)
theory Awf_Gateway
  imports Awf_Guard Awf_Secrets
begin

text \<open>
  The parts of a URL that Python's urlparse gives, Model Profiles (registry/model_profile.py) and
  the Model Gateway (gateway/client.py), where litellm, the secrets store and the two completion
  capability files are parameters.
\<close>

section \<open>URLs\<close>

definition is_alpha :: "char \<Rightarrow> bool" where
  "is_alpha c = (65 \<le> (of_char c :: nat) \<and> (of_char c :: nat) \<le> 90 \<or> 97 \<le> (of_char c :: nat) \<and> (of_char c :: nat) \<le> 122)"

definition is_scheme_char :: "char \<Rightarrow> bool" where
  "is_scheme_char c = (is_alpha c \<or> is_digit c \<or> c \<in> {CHR ''+'', CHR ''-'', CHR ''.''})"

text \<open>Leading blanks and control characters go, and tabs and line breaks anywhere.\<close>

definition clean_url :: "string \<Rightarrow> string" where
  "clean_url s = filter (\<lambda>c. c \<notin> {CHR 0x09, CHR 0x0A, CHR 0x0D}) (dropWhile (\<lambda>c. (of_char c :: nat) \<le> 32) s)"

definition split_scheme :: "string \<Rightarrow> string \<times> string" where
  "split_scheme s =
     (let pre = takeWhile (\<lambda>c. c \<noteq> CHR '':'') s in
      if pre \<noteq> [] \<and> length pre < length s \<and> is_alpha (hd pre) \<and> list_all is_scheme_char pre
      then (lower pre, drop (Suc (length pre)) s) else ([], s))"

definition url_scheme :: "string \<Rightarrow> string" where
  "url_scheme url = fst (split_scheme (clean_url url))"

definition url_netloc :: "string \<Rightarrow> string" where
  "url_netloc url = (case drop_prefix ''//'' (snd (split_scheme (clean_url url))) of
       None \<Rightarrow> []
     | Some r \<Rightarrow> takeWhile (\<lambda>c. c \<notin> {CHR ''/'', CHR ''?'', CHR ''#''}) r)"

definition url_hostname :: "string \<Rightarrow> string option" where
  "url_hostname url =
     (let hostinfo = rev (takeWhile (\<lambda>c. c \<noteq> CHR ''@'') (rev (url_netloc url)));
          after = drop 1 (dropWhile (\<lambda>c. c \<noteq> CHR ''['') hostinfo);
          host = (if CHR ''['' \<in> set hostinfo then takeWhile (\<lambda>c. c \<noteq> CHR '']'') after
                  else takeWhile (\<lambda>c. c \<noteq> CHR '':'') hostinfo)
      in if host = [] then None else Some (lower host))"

section \<open>Model Profiles\<close>

record candidate =
  provider :: string
  model :: string
  priority :: int
  enabled :: bool
  api_base :: "string option"
  api_key_secret_name :: "string option"

record model_profile =
  mp_name :: string
  mp_version :: string
  mp_purpose :: string
  mp_local_only :: bool
  mp_candidates :: "candidate list"
  mp_fallback_mode :: string
  mp_max_input_tokens :: int
  mp_max_output_tokens :: int

definition litellm_model :: "candidate \<Rightarrow> string" where
  "litellm_model c = provider c @ ''/'' @ model c"

definition enabled_candidates_by_priority :: "model_profile \<Rightarrow> candidate list" where
  "enabled_candidates_by_priority p = sort_key priority (filter enabled (mp_candidates p))"

section \<open>The gateway\<close>

definition llm_complete_ref :: string where
  "llm_complete_ref = ''llm_complete@1.0.0''"

definition gateway_error :: "string \<Rightarrow> ('w, 'a) act" where
  "gateway_error msg = throw ''GatewayError'' msg"

definition is_loopback_api_base :: "string option \<Rightarrow> bool" where
  "is_loopback_api_base base = (case base of None \<Rightarrow> False
     | Some b \<Rightarrow> b \<noteq> [] \<and> (case url_hostname b of None \<Rightarrow> False
         | Some h \<Rightarrow> h \<in> set [''127.0.0.1'', ''::1'', ''localhost'']))"

definition is_local_candidate :: "candidate \<Rightarrow> bool" where
  "is_local_candidate c = (provider c = ''ollama'' \<or> is_loopback_api_base (api_base c))"

text \<open>
  \<open>completion_capability\<close> reads the record file of llm_complete (local) or hosted_llm_complete,
  \<open>litellm\<close> runs a completion, \<open>secret\<close> reads a secret with a key.
\<close>

record 'x gateway =
  completion_capability :: "bool \<Rightarrow> capability result"
  litellm :: "obj \<Rightarrow> 'x \<Rightarrow> json res \<times> 'x"
  keys :: "'x cipher"

definition resolve_api_key :: "'x gateway \<Rightarrow> candidate \<Rightarrow> bool \<Rightarrow> string option \<Rightarrow> ('x, string option) op" where
  "resolve_api_key gw c has_conn secret_key = (case api_key_secret_name c of
       None \<Rightarrow> ret None
     | Some name \<Rightarrow> (case secret_key of
           Some key \<Rightarrow>
             if has_conn then bindE (get_secret (keys gw) name key) (\<lambda>s. ret (Some s))
             else gateway_error (''candidate '' @ litellm_model c @ '' requires secret '' @ name)
         | None \<Rightarrow> gateway_error (''candidate '' @ litellm_model c @ '' requires secret '' @ name)))"

definition authorize_completion_call ::
  "'x gateway \<Rightarrow> candidate \<Rightarrow> bool \<Rightarrow> string option \<Rightarrow> string option \<Rightarrow> string \<Rightarrow> string list option \<Rightarrow> ('x, unit) op" where
  "authorize_completion_call gw c has_conn run_id step_id actor allowlist =
     (if \<not> has_conn then
        (if is_local_candidate c then ret ()
         else gateway_error ''remote model completion requires a database connection and AWF run context'')
      else if run_id = None \<or> run_id = Some [] then
        (if is_local_candidate c then ret ()
         else gateway_error ''remote model completion requires run_id for Capability Guard authorization'')
      else
        bindE (liftR (completion_capability gw (is_local_candidate c))) (\<lambda>cap.
        bindE (authorize cap
                 (case allowlist of Some (a # l) \<Rightarrow> a # l | _ \<Rightarrow> [llm_complete_ref])
                 (the run_id) actor step_id None
                 [(''provider'', JStr (provider c)), (''model'', JStr (model c)),
                  (''api_base'', jopt (api_base c)), (''loopback'', JBool (is_loopback_api_base (api_base c)))]) (\<lambda>decision.
        if decision \<noteq> ALLOW
        then gateway_error (''model completion blocked by Capability Guard: '' @ decision_value decision)
        else ret ())))"

definition passthrough_keys :: "string list" where
  "passthrough_keys = [''temperature'', ''top_p'', ''top_k'', ''stop'', ''presence_penalty'', ''frequency_penalty'']"

definition generation_kwarg :: "int \<Rightarrow> string \<times> json \<Rightarrow> obj \<Rightarrow> obj result" where
  "generation_kwarg cap_tokens kv kwargs = (case kv of (key, value) \<Rightarrow>
     if key = ''max_tokens'' then
       andThen (int_of value) (\<lambda>i. Inr (AList.update ''max_tokens'' (JInt (min i cap_tokens)) kwargs))
     else if key \<in> set passthrough_keys then Inr (AList.update key value kwargs)
     else if key = ''repeat_penalty'' then Inr (AList.update ''frequency_penalty'' value kwargs)
     else Inr kwargs)"

primrec foldR :: "('a \<Rightarrow> 's \<Rightarrow> 's result) \<Rightarrow> 'a list \<Rightarrow> 's \<Rightarrow> 's result" where
  "foldR f [] s = Inr s"
| "foldR f (x # xs) s = andThen (f x s) (foldR f xs)"

definition base_kwargs :: "model_profile \<Rightarrow> candidate \<Rightarrow> string option \<Rightarrow> obj" where
  "base_kwargs p c api_key =
     [(''model'', JStr (litellm_model c)), (''messages'', JNull), (''max_tokens'', JInt (mp_max_output_tokens p))] @
     (case api_base c of Some (x # b) \<Rightarrow> [(''api_base'', JStr (x # b))] | _ \<Rightarrow> []) @
     (case api_key of Some (x # k) \<Rightarrow> [(''api_key'', JStr (x # k))]
      | _ \<Rightarrow> if provider c = ''openai'' \<and> is_loopback_api_base (api_base c)
             then [(''api_key'', JStr ''local-dev'')] else [])"

definition candidate_kwargs :: "model_profile \<Rightarrow> candidate \<Rightarrow> string option \<Rightarrow> obj \<Rightarrow> obj result" where
  "candidate_kwargs p c api_key generation =
     foldR (generation_kwarg (mp_max_output_tokens p)) generation (base_kwargs p c api_key)"

text \<open>What a call of the gateway is made with.\<close>

record call_context =
  has_conn :: bool
  secret_key :: "string option"
  ctx_run :: "string option"
  ctx_step :: "string option"
  ctx_actor :: string
  ctx_allowlist :: "string list option"

primrec complete_from ::
  "'x gateway \<Rightarrow> call_context \<Rightarrow> model_profile \<Rightarrow> json \<Rightarrow> obj \<Rightarrow> candidate list \<Rightarrow> string \<Rightarrow> ('x, json) op" where
  "complete_from gw cc p messages generation [] last_error =
     gateway_error (''all candidates failed: '' @ last_error)"
| "complete_from gw cc p messages generation (c # cs) last_error =
     seqE (authorize_completion_call gw c (has_conn cc) (ctx_run cc) (ctx_step cc) (ctx_actor cc) (ctx_allowlist cc)) (
     bindE (resolve_api_key gw c (has_conn cc) (secret_key cc)) (\<lambda>api_key.
     bindE (liftR (candidate_kwargs p c api_key generation)) (\<lambda>kwargs.
     bindE (attempt (outside (litellm gw (AList.update ''messages'' messages kwargs)))) (\<lambda>r. case r of
         Inr content \<Rightarrow> ret content
       | Inl e \<Rightarrow> if mp_fallback_mode p \<noteq> ''ordered'' then raise e
                  else complete_from gw cc p messages generation cs (exc_text e)))))"

definition complete ::
  "'x gateway \<Rightarrow> call_context \<Rightarrow> model_profile \<Rightarrow> json \<Rightarrow> obj \<Rightarrow> ('x, json) op" where
  "complete gw cc p messages generation =
     (if enabled_candidates_by_priority p = [] then gateway_error ''model profile has no enabled candidates''
      else complete_from gw cc p messages generation (enabled_candidates_by_priority p) ''None'')"

lemma carries_gateway_error [carry]: "carries I (gateway_error m)"
  unfolding gateway_error_def by (rule carries_throw)

lemma carries_complete_from [carry]: "carries (kept w0) (complete_from gw cc p ms g cs e)"
  by (induction cs arbitrary: e)
    (auto simp: resolve_api_key_def authorize_completion_call_def intro!: carry split: option.split)

lemma carries_complete [carry]: "carries (kept w0) (complete gw cc p ms g)"
  unfolding complete_def by (intro carry)

section \<open>What the gateway guarantees\<close>

lemma foldR_invariant:
  assumes "foldR f xs s = Inr s'" "P s" "\<And>x s s'. f x s = Inr s' \<Longrightarrow> P s \<Longrightarrow> P s'"
  shows "P s'"
  using assms by (induction xs arbitrary: s) auto

text \<open>
  No token limit of a profile can be raised by a caller: whatever generation settings are
  passed, the max_tokens sent to the model is at most the profile's own limit.
\<close>

theorem max_tokens_capped:
  assumes "candidate_kwargs p c api_key generation = Inr kwargs"
  shows "\<exists>n. get ''max_tokens'' kwargs = JInt n \<and> n \<le> mp_max_output_tokens p"
proof -
  let ?P = "\<lambda>d. \<exists>n. get ''max_tokens'' d = JInt n \<and> n \<le> mp_max_output_tokens p"
  have step: "?P d'" if "generation_kwarg (mp_max_output_tokens p) kv d = Inr d'" "?P d" for kv d d'
    using that by (cases kv) (auto simp: generation_kwarg_def get_def update_conv passthrough_keys_def split: if_splits)
  have "get ''max_tokens'' (base_kwargs p c api_key) = JInt (mp_max_output_tokens p)"
    by (simp add: base_kwargs_def get_def)
  then have base: "?P (base_kwargs p c api_key)" by simp
  show ?thesis
    using assms unfolding candidate_kwargs_def by (rule foldR_invariant) (use base step in auto)
qed

definition demo_profile :: "candidate list \<Rightarrow> model_profile" where
  "demo_profile cs = \<lparr>mp_name = ''judge'', mp_version = ''1.0.0'', mp_purpose = ''judge'', mp_local_only = True,
     mp_candidates = cs, mp_fallback_mode = ''ordered'', mp_max_input_tokens = 100, mp_max_output_tokens = 50\<rparr>"

definition demo_candidate :: "string \<Rightarrow> string option \<Rightarrow> candidate" where
  "demo_candidate prov base = \<lparr>provider = prov, model = ''m'', priority = 1, enabled = True, api_base = base,
     api_key_secret_name = None\<rparr>"

definition demo_gateway :: "nat gateway" where
  "demo_gateway = \<lparr>completion_capability = (\<lambda>near. Inr (if near then demo_capability ''llm_complete'' ''R1'' ''never'' []
        else demo_capability ''hosted_llm_complete'' ''R2'' ''per-invocation'' [])),
     litellm = (\<lambda>_ x. (Val (JStr ''PASS: fine''), Suc x)), keys = demo_cipher\<rparr>"

definition demo_context :: call_context where
  "demo_context = \<lparr>has_conn = True, secret_key = None, ctx_run = Some ''run'', ctx_step = None,
     ctx_actor = ''verifier'', ctx_allowlist = None\<rparr>"

theorem max_tokens_capped_witness:
  "\<exists>kwargs. candidate_kwargs (demo_profile []) (demo_candidate ''ollama'' None) None
       [(''max_tokens'', JInt 4096), (''top_p'', JInt 1)] = Inr kwargs \<and>
     (\<exists>n. get ''max_tokens'' kwargs = JInt n \<and> n \<le> 50)"
proof -
  have "\<exists>kwargs. candidate_kwargs (demo_profile []) (demo_candidate ''ollama'' None) None
      [(''max_tokens'', JInt 4096), (''top_p'', JInt 1)] = Inr kwargs"
    by (simp add: candidate_kwargs_def generation_kwarg_def andThen_def int_of_def py_int_def
        passthrough_keys_def demo_candidate_def base_kwargs_def)
  moreover have "mp_max_output_tokens (demo_profile []) = 50" by (simp add: demo_profile_def)
  ultimately show ?thesis using max_tokens_capped by metis
qed

text \<open>
  A hosted model is out of reach without an explicit allowlist: for a candidate that is not
  local, and whose published capability is not llm_complete itself, the gateway with its default
  allowlist raises before the outside world is touched, whatever approval the capability declares.
\<close>

theorem hosted_completion_denied:
  assumes "\<not> is_local_candidate c"
    and "completion_capability gw False = Inr cap" "cap_ref cap \<noteq> llm_complete_ref"
    and "ctx_allowlist cc = None \<or> ctx_allowlist cc = Some []"
  shows "\<exists>e w'. complete_from gw cc p messages g (c # cs) err w = (Exn e, w') \<and> ext w' = ext w"
proof -
  have deny: "\<exists>e w'. authorize_completion_call gw c h r s a (ctx_allowlist cc) w = (Exn e, w') \<and> ext w' = ext w" for h r s a
  proof -
    have "evaluate cap [llm_complete_ref] None = Inr (DENY, ''not_in_agent_allowlist'')"
      using assms(3) by (simp add: evaluate_def)
    moreover have "(case ctx_allowlist cc of Some (a # l) \<Rightarrow> a # l | _ \<Rightarrow> [llm_complete_ref]) = [llm_complete_ref]"
      using assms(4) by auto
    ultimately show ?thesis
      using assms(1,2)
      by (auto simp: authorize_completion_call_def gateway_error_def throw_def raise_def bindE_def liftR_def
          ret_def authorize_def Let_def seqE_def log_event_eq)
  qed
  obtain e w' where "authorize_completion_call gw c (has_conn cc) (ctx_run cc) (ctx_step cc) (ctx_actor cc)
      (ctx_allowlist cc) w = (Exn e, w')" "ext w' = ext w"
    using deny by blast
  then show ?thesis by (simp add: seqE_def bindE_def)
qed

theorem hosted_completion_denied_witness:
  "\<exists>e w'. complete_from demo_gateway demo_context (demo_profile []) JNull []
      [demo_candidate ''openai'' (Some ''https://api.example.com/v1'')] [] (one_run 0 []) = (Exn e, w') \<and> ext w' = 0"
proof -
  let ?cap = "demo_capability ''hosted_llm_complete'' ''R2'' ''per-invocation'' []"
  have "\<not> is_local_candidate (demo_candidate ''openai'' (Some ''https://api.example.com/v1''))" by code_simp
  moreover have "completion_capability demo_gateway False = Inr ?cap"
    by (simp add: demo_gateway_def)
  moreover have "cap_ref ?cap \<noteq> llm_complete_ref" by code_simp
  moreover have "ctx_allowlist demo_context = None \<or> ctx_allowlist demo_context = Some []"
    by (simp add: demo_context_def)
  moreover have "ext (one_run (0 :: nat) []) = 0"
    by (simp add: one_run_def blank_world_def)
  ultimately show ?thesis
    using hosted_completion_denied [of "demo_candidate ''openai'' (Some ''https://api.example.com/v1'')" demo_gateway ?cap demo_context]
    by metis
qed

end
