(* ===== verification/Awf_Approval.thy ===== *)
theory Awf_Approval
  imports Awf_Gates
begin

text \<open>
  Approvals: the voice policy (approval_policy.py, gates/voice_approval.py), the approval node
  (workflow/approval.py) and the operator's decisions (ops/approval.py).  \<open>sha\<close> is hashlib's SHA-256
  of a value's JSON text, in hex.
\<close>

section \<open>Voice\<close>

definition high_risk_classes :: "string list" where
  "high_risk_classes = [''R2'', ''R3'']"

record voice_decision =
  vd_decided :: bool
  vd_needs_screen :: bool

definition decide_voice_acknowledgement :: "string \<Rightarrow> bool \<Rightarrow> voice_decision" where
  "decide_voice_acknowledgement risk voice_confirmed =
     (if risk \<in> set high_risk_classes then \<lparr>vd_decided = False, vd_needs_screen = True\<rparr>
      else \<lparr>vd_decided = voice_confirmed, vd_needs_screen = False\<rparr>)"

definition voice_dict :: "voice_decision \<Rightarrow> obj" where
  "voice_dict d = [(''decided'', JBool (vd_decided d)),
     (''requires_on_screen_confirmation'', JBool (vd_needs_screen d)), (''channel'', JStr ''voice'')]"

definition approval_status_str :: "approval_status \<Rightarrow> string" where
  "approval_status_str s = (case s of Pending \<Rightarrow> ''pending'' | Approved \<Rightarrow> ''approved''
     | Rejected \<Rightarrow> ''rejected'' | Expired \<Rightarrow> ''expired'')"

text \<open>UPDATE approvals SET status = ?, reason = ?, decided_at = now WHERE approval_id = ?\<close>

definition set_approval :: "string \<Rightarrow> approval_status \<Rightarrow> string option \<Rightarrow> ('x, unit) op" where
  "set_approval approval_id status reason =
     bindE utc_now_rfc3339 (\<lambda>now.
       update_approval approval_id (\<lambda>a. a\<lparr>a_status := status, a_reason := reason, a_decided := Some now\<rparr>))"

definition decision_dict :: "string \<Rightarrow> approval_status \<Rightarrow> string option \<Rightarrow> obj" where
  "decision_dict approval_id status reason = [(''approval_id'', JStr approval_id),
     (''status'', JStr (approval_status_str status)), (''reason'', jopt reason)]"

definition attempt_voice_approval :: "string \<Rightarrow> string \<Rightarrow> bool \<Rightarrow> ('x, obj) op" where
  "attempt_voice_approval approval_id risk voice_confirmed =
     (let decision = decide_voice_acknowledgement risk voice_confirmed in
      if \<not> vd_decided decision then ret (voice_dict decision)
      else bindE (find_approval (\<lambda>a. a_id a = approval_id)) (\<lambda>row. case row of
          None \<Rightarrow> throw ''ValueError'' (''no such approval: '' @ approval_id)
        | Some a \<Rightarrow>
            if a_status a \<noteq> Pending
            then throw ''ValueError'' (''approval '' @ approval_id @ '' is not pending (status='' @ approval_status_str (a_status a) @ '')'')
            else seqE (set_approval approval_id Approved None)
                   (ret (merge_obj (voice_dict decision) (decision_dict approval_id Approved None)))))"

section \<open>The approval node\<close>

definition approval_action_digest :: "(json \<Rightarrow> string) \<Rightarrow> string \<Rightarrow> obj \<Rightarrow> string result" where
  "approval_action_digest sha run_id node =
     andThen (item ''id'' node) (\<lambda>node_id.
       Inr (''sha256:'' @ sha (sort_json (JObj [(''run_id'', JStr run_id), (''node_id'', node_id),
              (''action'', get_or ''action'' node_id node)]))))"

text \<open>A JSON value as an SQL parameter of a TEXT column.\<close>

definition sql_text :: "json \<Rightarrow> string option result" where
  "sql_text v = (case v of JNull \<Rightarrow> Inr None | JList l \<Rightarrow> fail ''ProgrammingError'' ''type list is not supported''
     | JObj d \<Rightarrow> fail ''ProgrammingError'' ''type dict is not supported'' | _ \<Rightarrow> Inr (Some (py_str v)))"

definition waiting :: "string \<Rightarrow> json" where
  "waiting approval_id = JObj [(''waiting_input'', JBool True), (''approval_id'', JStr approval_id)]"

text \<open>Steps and runs that wait for an approval, as the code marks them with one timestamp.\<close>

definition mark_waiting :: "string \<Rightarrow> string \<Rightarrow> string \<Rightarrow> ('x, unit) op" where
  "mark_waiting run_id step_id now =
     seqE (update_step step_id (\<lambda>s. s\<lparr>s_status := WAITING_APPROVAL, s_started := now\<rparr>))
       (update_runs run_id (\<lambda>r. r\<lparr>r_status := RUN_WAITING_APPROVAL, r_updated := now\<rparr>))"

definition pending_approval :: "string \<Rightarrow> string \<Rightarrow> string \<Rightarrow> string \<Rightarrow> string \<Rightarrow> string option \<Rightarrow> approval_row" where
  "pending_approval i run_id step_id digest now risk = \<lparr>a_id = i, a_run = run_id, a_step = step_id,
     a_digest = digest, a_status = Pending, a_reason = None, a_requested = now, a_decided = None, a_risk = risk\<rparr>"

definition approval_executor :: "(json \<Rightarrow> string) \<Rightarrow> string \<Rightarrow> string \<Rightarrow> obj \<Rightarrow> ('x, json) op" where
  "approval_executor sha run_id step_id node =
     bindE (bindE (find_step step_id) (demand none_type)) (\<lambda>step_row.
     if s_status step_row = SUCCEEDED then loads (s_output step_row)
     else
       bindE (find_approval (\<lambda>a. a_step a = step_id)) (\<lambda>row. case row of
         None \<Rightarrow>
           bindE uuid7 (\<lambda>approval_id.
           bindE utc_now_rfc3339 (\<lambda>now.
           bindE (liftR (approval_action_digest sha run_id node)) (\<lambda>digest.
           bindE (liftR (sql_text (get ''riskClass'' node))) (\<lambda>risk.
           seqE (insert_approval (pending_approval approval_id run_id step_id digest now risk)) (
           seqE (mark_waiting run_id step_id now) (
           seqE (log_event run_id (Some step_id) ''WAITING_APPROVAL'' ''engine'' ''approval_requested''
                   (JObj [(''approval_id'', JStr approval_id)]))
             (ret (waiting approval_id))))))))
       | Some a \<Rightarrow>
           if a_status a = Pending then ret (waiting (a_id a))
           else if a_status a = Rejected then
             seqE (step_failed step_id ''APPROVAL_REJECTED'') (
             seqE (log_event run_id (Some step_id) ''FAILED'' ''engine'' ''approval_rejected''
                     (JObj [(''approval_id'', JStr (a_id a))]))
               (throw_class ''ApprovalRejectedError'' (''approval '' @ a_id a @ '' was rejected'') ''APPROVAL_REJECTED''))
           else
             let output = JObj [(''approved'', JBool True), (''approval_id'', JStr (a_id a))] in
             seqE (step_succeeded step_id output) (
             seqE (log_event run_id (Some step_id) ''SUCCEEDED'' ''engine'' ''approval_granted'' output)
               (ret output))))"

section \<open>The operator's decisions\<close>

definition core_op_error :: "string \<Rightarrow> ('w, 'a) act" where
  "core_op_error msg = throw ''CoreOpError'' msg"

definition decide_approval :: "string \<Rightarrow> approval_status \<Rightarrow> string option \<Rightarrow> ('x, obj) op" where
  "decide_approval approval_id status reason =
     bindE (find_approval (\<lambda>a. a_id a = approval_id)) (\<lambda>row. case row of
         None \<Rightarrow> core_op_error (''no such approval: '' @ approval_id)
       | Some a \<Rightarrow>
           if a_status a \<noteq> Pending
           then core_op_error (''approval '' @ approval_id @ '' is not pending (status='' @ approval_status_str (a_status a) @ '')'')
           else seqE (set_approval approval_id status reason) (ret (decision_dict approval_id status reason)))"

definition some_text :: "string option \<Rightarrow> string option \<Rightarrow> string option" where
  "some_text a b = (case a of Some (c # s) \<Rightarrow> Some (c # s) | _ \<Rightarrow> b)"

definition op_approval_approve :: "string \<Rightarrow> string \<Rightarrow> string option \<Rightarrow> ('x, obj) op" where
  "op_approval_approve approval_id channel risk =
     (if channel = ''voice'' then
        bindE (find_approval (\<lambda>a. a_id a = approval_id)) (\<lambda>row. case row of
            None \<Rightarrow> core_op_error (''no such approval: '' @ approval_id)
          | Some a \<Rightarrow>
              if risk \<noteq> None \<and> a_risk a \<noteq> None \<and> risk \<noteq> a_risk a
              then core_op_error (''risk_class='' @ str_repr (the risk) @ '' does not match this approval's real risk_class=''
                     @ str_repr (the (a_risk a))
                     @ ''- a caller may not claim a different risk class than the one recorded when this approval was requested'')
              else
                let effective = (case some_text risk (some_text (a_risk a) (Some ''R2'')) of Some r \<Rightarrow> r | None \<Rightarrow> ''R2'');
                    decision = decide_voice_acknowledgement effective True in
                if \<not> vd_decided decision
                then ret [(''approval_id'', JStr approval_id), (''status'', JStr ''pending''),
                          (''requires_on_screen_confirmation'', JBool True)]
                else bindE (decide_approval approval_id Approved None) (\<lambda>result.
                       ret (merge_obj (voice_dict decision) result)))
      else decide_approval approval_id Approved None)"

definition op_approval_reject :: "string \<Rightarrow> string \<Rightarrow> ('x, obj) op" where
  "op_approval_reject approval_id reason = decide_approval approval_id Rejected (Some reason)"

section \<open>What these operations keep\<close>

lemma carries_mark_waiting:
  assumes "s \<notin> s_id ` done_steps w0"
  shows "carries (kept w0) (mark_waiting r s t)"
  unfolding mark_waiting_def
  by (intro carry carries_update_step carries_update_runs assms) (simp_all add: run_key_def)

lemma carries_approval_executor [carry]: "carries (kept w0) (approval_executor sha r s n)"
  unfolding approval_executor_def
  by (intro carries_if_succeeded carry carries_step_marks carries_mark_waiting)

lemma carries_core_op_error [carry]: "carries I (core_op_error m)"
  unfolding core_op_error_def by (rule carries_throw)

text \<open>A decision is only written over a pending row.\<close>

lemma db_ok_approval_unique:
  "db_ok w \<Longrightarrow> a \<in> set (approvals w) \<Longrightarrow> b \<in> set (approvals w) \<Longrightarrow> a_id a = a_id b \<Longrightarrow> a = b"
  unfolding db_ok_def by (meson distinct_map inj_on_eq_iff)

lemma carries_set_approval:
  assumes "i \<notin> a_id ` decided w0"
  shows "carries (kept w0) (set_approval i st why)"
  unfolding set_approval_def
  by (intro carry carries_update_approval assms) (simp add: approval_key_def)

lemma carries_pending:
  assumes "\<And>m. carries (kept w0) (err m)" "\<And>a. carries (kept w0) (busy a)"
    and "i \<notin> a_id ` decided w0 \<Longrightarrow> carries (kept w0) m"
  shows "carries (kept w0) (bindE (find_approval (\<lambda>a. a_id a = i)) (\<lambda>row. case row of
           None \<Rightarrow> err i | Some a \<Rightarrow> if a_status a \<noteq> Pending then busy a else m))"
proof (rule carriesI)
  fix w assume k: "kept w0 w"
  show "kept w0 (snd (bindE (find_approval (\<lambda>a. a_id a = i)) (\<lambda>row. case row of
           None \<Rightarrow> err i | Some a \<Rightarrow> if a_status a \<noteq> Pending then busy a else m) w))"
  proof (cases "find (\<lambda>a. a_id a = i) (approvals w)")
    case None
    then show ?thesis using carriesD [OF assms(1) k] by (simp add: find_approval_def)
  next
    case (Some a)
    then have a: "a \<in> set (approvals w)" "a_id a = i" by (auto simp: find_Some_iff)
    have "i \<notin> a_id ` decided w0" if "a_status a = Pending"
      using that a keptD(5) [OF k] db_ok_approval_unique [OF keptD(1) [OF k]]
      by (auto simp: decided_def)
    then show ?thesis
      using Some k assms(2) [THEN carriesD] assms(3) [THEN carriesD]
      by (auto simp: find_approval_def)
  qed
qed

lemma carries_decide_approval [carry]: "carries (kept w0) (decide_approval i st why)"
  unfolding decide_approval_def
  by (intro carries_pending carry carries_set_approval)

lemma carries_op_approval [carry]:
  "carries (kept w0) (op_approval_approve i c r)" "carries (kept w0) (op_approval_reject i why)"
  "carries (kept w0) (attempt_voice_approval i rk b)"
  unfolding op_approval_approve_def op_approval_reject_def attempt_voice_approval_def Let_def
  by (intro carries_pending carry carries_set_approval)+

section \<open>What an approval node does\<close>

lemma step_failed_run:
  assumes "db_ok w" "c \<in> set failure_classes" "row_of i w = Some s"
  shows "\<exists>w1 t. step_failed i c w = (Val (), w1) \<and> same_but_steps w w1 \<and>
     row_of i w1 = Some (s\<lparr>s_status := FAILED, s_fclass := Some c, s_ended := Some t\<rparr>)"
proof -
  obtain w1 where w1: "step_failed i c w = (Val (), w1)"
    using step_failed_ok [OF db_ok_fclass [OF assms(1)] assms(2)] by blast
  with step_failed_Val [OF w1 assms(3)] step_marks_frame(2) [OF w1] show ?thesis by blast
qed

lemma step_succeeded_run:
  assumes "db_ok w" "row_of i w = Some s"
  shows "\<exists>w1 t. step_succeeded i v w = (Val (), w1) \<and> same_but_steps w w1 \<and>
     row_of i w1 = Some (s\<lparr>s_status := SUCCEEDED, s_output := Some v, s_ended := Some t\<rparr>)"
proof -
  obtain w1 where w1: "step_succeeded i v w = (Val (), w1)"
    using update_step_ok [of "\<lambda>s. s\<lparr>s_status := SUCCEEDED, s_output := Some v, s_ended := Some (clock w (now_ix w))\<rparr>"
      "w\<lparr>now_ix := Suc (now_ix w)\<rparr>" i] db_ok_fclass [OF assms(1)]
    by (simp add: step_succeeded_def utc_now_rfc3339_def bindE_def)
  with step_succeeded_Val [OF w1 assms(2)] step_marks_frame(1) [OF w1] show ?thesis by blast
qed

lemma log_after_mark:
  assumes "same_but_steps w w1" "fresh w" "r \<in> run_ids w" "row_of i w = Some s"
  shows "log_event r (Some i) n a c d w1 = (Val (), logged r (Some i) n a c d w1)"
proof (rule log_event_fresh(1))
  show "fresh w1" using fresh_frame assms by blast
  show "r \<in> run_ids w1" using assms by (simp add: same_but_steps_def run_ids_def)
  show "step_known (Some i) w1"
    using assms row_of_in [OF assms(4)] by (auto simp: same_but_steps_def step_known_def step_ids_def)
qed

lemma approval_executor_decided:
  assumes "row_of i w = Some s" "s_status s \<noteq> SUCCEEDED" "find (\<lambda>a. a_step a = i) (approvals w) = Some a"
  shows "approval_executor sha r i node w =
    (if a_status a = Pending then ret (waiting (a_id a))
     else if a_status a = Rejected then
       seqE (step_failed i ''APPROVAL_REJECTED'') (
       seqE (log_event r (Some i) ''FAILED'' ''engine'' ''approval_rejected'' (JObj [(''approval_id'', JStr (a_id a))]))
         (throw_class ''ApprovalRejectedError'' (''approval '' @ a_id a @ '' was rejected'') ''APPROVAL_REJECTED''))
     else
       let output = JObj [(''approved'', JBool True), (''approval_id'', JStr (a_id a))] in
       seqE (step_succeeded i output) (
       seqE (log_event r (Some i) ''SUCCEEDED'' ''engine'' ''approval_granted'' output) (ret output))) w"
  using assms by (simp add: approval_executor_def row_of_def find_step_def find_approval_def demand_def bindE_def gets_def ret_def)

text \<open>
  An approval node follows the recorded decision and nothing else.  With an approval on record
  for its unfinished Step: while it is pending the node reports that it waits and changes nothing;
  once rejected it raises APPROVAL_REJECTED and leaves the Step FAILED with that class; otherwise
  it returns approved and leaves the Step SUCCEEDED with that output.  It never writes a decision.
\<close>

theorem approval_executor_follows_decision:
  assumes "row_of i w = Some s" "s_status s \<noteq> SUCCEEDED" "db_ok w" "fresh w" "r \<in> run_ids w"
    and "find (\<lambda>a. a_step a = i) (approvals w) = Some a"
  shows "\<exists>x w' s'. approval_executor sha r i node w = (x, w') \<and> row_of i w' = Some s' \<and> approvals w' = approvals w \<and>
     (case a_status a of
        Pending \<Rightarrow> x = Val (waiting (a_id a)) \<and> w' = w
      | Rejected \<Rightarrow> (\<exists>msg. x = Exn (Exc ''ApprovalRejectedError'' msg (Some ''APPROVAL_REJECTED''))) \<and>
          s_status s' = FAILED \<and> s_fclass s' = Some ''APPROVAL_REJECTED''
      | _ \<Rightarrow> x = Val (JObj [(''approved'', JBool True), (''approval_id'', JStr (a_id a))]) \<and>
          s_status s' = SUCCEEDED \<and> s_output s' = Some (JObj [(''approved'', JBool True), (''approval_id'', JStr (a_id a))]))"
proof -
  note ex = approval_executor_decided [OF assms(1,2,6)]
  let ?out = "JObj [(''approved'', JBool True), (''approval_id'', JStr (a_id a))]"
  consider "a_status a = Pending" | "a_status a = Rejected" | "a_status a \<noteq> Pending" "a_status a \<noteq> Rejected"
    by blast
  then show ?thesis
  proof cases
    case 1
    then show ?thesis using ex assms(1) by (simp add: ret_def)
  next
    case 2
    have "''APPROVAL_REJECTED'' \<in> set failure_classes" by (simp add: failure_classes_def)
    from step_failed_run [OF assms(3) this assms(1)] obtain w1 t where
      w1: "step_failed i ''APPROVAL_REJECTED'' w = (Val (), w1)" "same_but_steps w w1"
        "row_of i w1 = Some (s\<lparr>s_status := FAILED, s_fclass := Some ''APPROVAL_REJECTED'', s_ended := Some t\<rparr>)"
      by blast
    then show ?thesis
      using 2 ex log_after_mark [OF w1(2) assms(4,5,1)]
      by (simp add: seqE_def bindE_def throw_class_def raise_def same_but_steps_def)
  next
    case 3
    from step_succeeded_run [OF assms(3,1), where v = ?out] obtain w1 t where
      w1: "step_succeeded i ?out w = (Val (), w1)" "same_but_steps w w1"
        "row_of i w1 = Some (s\<lparr>s_status := SUCCEEDED, s_output := Some ?out, s_ended := Some t\<rparr>)"
      by blast
    then show ?thesis
      using 3 ex log_after_mark [OF w1(2) assms(4,5,1)]
      by (cases "a_status a") (simp_all add: seqE_def bindE_def ret_def Let_def same_but_steps_def)
  qed
qed

definition approval_world :: "approval_status \<Rightarrow> string option \<Rightarrow> unit world" where
  "approval_world st risk = one_run () [step_row_of ''run:ok#1'' ''run'' ''ok'' WAITING_APPROVAL]
     \<lparr>approvals := [(pending_approval ''ap'' ''run'' ''run:ok#1'' ''sha256:d'' ''t0'' risk)\<lparr>a_status := st\<rparr>]\<rparr>"

lemma approval_world_ok:
  "db_ok (approval_world st (Some ''R2''))" "db_ok (approval_world st None)"
  "fresh (approval_world st risk)" "''run'' \<in> run_ids (approval_world st risk)"
  "row_of ''run:ok#1'' (approval_world st risk) = Some (step_row_of ''run:ok#1'' ''run'' ''ok'' WAITING_APPROVAL)"
  "find (\<lambda>a. a_step a = ''run:ok#1'') (approvals (approval_world st risk)) =
     Some ((pending_approval ''ap'' ''run'' ''run:ok#1'' ''sha256:d'' ''t0'' risk)\<lparr>a_status := st\<rparr>)"
  by (auto simp: approval_world_def one_run_def blank_world_def db_ok_def fresh_def used_ids_def run_ids_def
      step_ids_def run_row_of_def step_row_of_def pending_approval_def row_of_def fclass_check_def
      risk_check_def risk_classes_def inj_def nat_str_inj)

theorem approval_executor_follows_decision_witness:
  "\<exists>x w' s'. approval_executor (\<lambda>_. ''d'') ''run'' ''run:ok#1'' [(''id'', JStr ''ok'')] (approval_world Rejected (Some ''R2'')) = (x, w') \<and>
     row_of ''run:ok#1'' w' = Some s' \<and> s_status s' = FAILED \<and> s_fclass s' = Some ''APPROVAL_REJECTED''"
proof -
  have "s_status (step_row_of ''run:ok#1'' ''run'' ''ok'' WAITING_APPROVAL) \<noteq> SUCCEEDED"
    by (simp add: step_row_of_def)
  from approval_executor_follows_decision [where w = "approval_world Rejected (Some ''R2'')",
      OF approval_world_ok(5) this approval_world_ok(1,3,4,6)]
  show ?thesis by fastforce
qed

section \<open>What the operator's decisions do\<close>

lemma set_approval_eq:
  "set_approval i st why w = (Val (), w\<lparr>now_ix := Suc (now_ix w),
     approvals := map (\<lambda>a. if a_id a = i then a\<lparr>a_status := st, a_reason := why, a_decided := Some (clock w (now_ix w))\<rparr> else a) (approvals w)\<rparr>)"
  by (simp add: set_approval_def utc_now_rfc3339_def bindE_def update_approval_def modify_def)

definition approval_of :: "string \<Rightarrow> 'x world \<Rightarrow> approval_row option" where
  "approval_of i w = find (\<lambda>a. a_id a = i) (approvals w)"

lemma find_update_approval:
  assumes "\<And>a. a_id (f a) = a_id a"
  shows "find (\<lambda>a. a_id a = i) (map (\<lambda>a. if a_id a = i then f a else a) xs)
           = map_option f (find (\<lambda>a. a_id a = i) xs)"
  using assms by (induction xs) auto

lemma decide_approval_eq:
  "decide_approval i st why w = (case approval_of i w of
       None \<Rightarrow> core_op_error (''no such approval: '' @ i) w
     | Some a \<Rightarrow> if a_status a \<noteq> Pending
         then core_op_error (''approval '' @ i @ '' is not pending (status='' @ approval_status_str (a_status a) @ '')'') w
         else (Val (decision_dict i st why), snd (set_approval i st why w)))"
  by (simp add: decide_approval_def find_approval_def approval_of_def seqE_def bindE_def ret_def gets_def
      set_approval_eq split: option.split)

text \<open>
  C12. A decision is taken once.  If approving or rejecting returns, the approval was pending, its
  row now holds that decision, and from then on every further decision, by any channel, raises
  CoreOpError or ValueError and changes nothing.
\<close>

theorem decision_is_final:
  assumes "decide_approval i st why w = (Val d, w')" and "st \<noteq> Pending"
  shows "\<exists>a a'. approval_of i w = Some a \<and> a_status a = Pending \<and> approval_of i w' = Some a' \<and> a_status a' = st \<and>
     approval_key a' = approval_key a \<and>
     (\<exists>e. decide_approval i st2 why2 w' = (Exn e, w') \<and> exc_type e = ''CoreOpError'') \<and>
     (\<exists>e. attempt_voice_approval i ''R0'' True w' = (Exn e, w') \<and> exc_type e = ''ValueError'')"
proof -
  from assms(1) obtain a where a: "approval_of i w = Some a" "a_status a = Pending"
    and w': "w' = snd (set_approval i st why w)"
    by (auto simp: decide_approval_eq core_op_error_def vals split: option.splits if_splits)
  let ?a' = "a\<lparr>a_status := st, a_reason := why, a_decided := Some (clock w (now_ix w))\<rparr>"
  have a': "approval_of i w' = Some ?a'"
    using a(1) find_update_approval [of "\<lambda>a. a\<lparr>a_status := st, a_reason := why, a_decided := Some (clock w (now_ix w))\<rparr>" i "approvals w"]
    by (simp add: w' approval_of_def set_approval_eq)
  moreover have "\<exists>e. attempt_voice_approval i ''R0'' True w' = (Exn e, w') \<and> exc_type e = ''ValueError''"
    using a' assms(2)
    by (simp add: attempt_voice_approval_def decide_voice_acknowledgement_def high_risk_classes_def
        find_approval_def approval_of_def throw_def raise_def)
  ultimately show ?thesis using a assms(2)
    by (simp add: decide_approval_eq core_op_error_def throw_def raise_def approval_key_def)
qed

theorem decision_is_final_witness:
  "\<exists>d w'. op_approval_reject ''ap'' ''too risky'' (approval_world Pending (Some ''R2'')) = (Val d, w') \<and>
     (\<exists>e. decide_approval ''ap'' Approved None w' = (Exn e, w') \<and> exc_type e = ''CoreOpError'')"
proof -
  let ?r = "op_approval_reject ''ap'' ''too risky'' (approval_world Pending (Some ''R2''))"
  have "?r = (Val (decision_dict ''ap'' Rejected (Some ''too risky'')), snd ?r)"
    by (simp add: op_approval_reject_def decide_approval_eq approval_of_def approval_world_def pending_approval_def)
  with decision_is_final [of "''ap''" Rejected "Some ''too risky''"] show ?thesis
    unfolding op_approval_reject_def by blast
qed

text \<open>
  C35. Voice never grants a high-risk approval: for an approval whose recorded risk class is R2 or
  R3, approving it by voice leaves the whole state unchanged, whatever class the caller claims; and
  with a recorded class, a caller that claims another one is refused.
\<close>

theorem voice_never_grants_high_risk:
  assumes "approval_of i w = Some a" "a_risk a = Some r" "r \<in> set high_risk_classes"
  shows "snd (op_approval_approve i ''voice'' claimed w) = w \<and>
     (claimed \<noteq> None \<and> claimed \<noteq> Some r \<longrightarrow>
        (\<exists>e. fst (op_approval_approve i ''voice'' claimed w) = Exn e \<and> exc_type e = ''CoreOpError''))"
proof (cases "claimed = None \<or> claimed = Some r")
  case True
  then have "some_text claimed (some_text (Some r) (Some ''R2'')) = Some r"
    using assms(3) by (auto simp: some_text_def high_risk_classes_def)
  then show ?thesis using True assms
    by (auto simp: op_approval_approve_def find_approval_def approval_of_def
        decide_voice_acknowledgement_def ret_def)
next
  case False
  then show ?thesis using assms
    by (auto simp: op_approval_approve_def find_approval_def approval_of_def core_op_error_def throw_def raise_def)
qed

theorem voice_never_grants_high_risk_witness:
  "snd (op_approval_approve ''ap'' ''voice'' None (approval_world Pending (Some ''R2''))) = approval_world Pending (Some ''R2'')"
  using voice_never_grants_high_risk [of "''ap''" "approval_world Pending (Some ''R2'')" _ "''R2''" None]
  by (simp add: approval_of_def approval_world_def pending_approval_def high_risk_classes_def)

text \<open>
  The gap in the voice rule: the comments of op_approval_approve say that an approval whose
  node declared no risk class is treated as R2, yet a pending one is granted by voice as soon as
  the caller itself claims a class other than R2 and R3.  attempt_voice_approval does not read the
  recorded class at all, so it grants even a recorded R2 or R3.
\<close>

theorem voice_grants_on_claimed_class:
  assumes "approval_of i w = Some a" "a_status a = Pending"
    and "claimed \<noteq> []" "claimed \<notin> set high_risk_classes"
  shows "(a_risk a = None \<longrightarrow>
      (\<exists>d w' a'. op_approval_approve i ''voice'' (Some claimed) w = (Val d, w') \<and> approval_of i w' = Some a' \<and> a_status a' = Approved)) \<and>
    (\<exists>d w' a'. attempt_voice_approval i claimed True w = (Val d, w') \<and> approval_of i w' = Some a' \<and> a_status a' = Approved)"
proof -
  let ?w = "snd (set_approval i Approved None w)"
  have a': "\<exists>a'. approval_of i ?w = Some a' \<and> a_status a' = Approved"
    using assms(1) find_update_approval [of "\<lambda>a. a\<lparr>a_status := Approved, a_reason := None, a_decided := Some (clock w (now_ix w))\<rparr>" i "approvals w"]
    by (simp add: approval_of_def set_approval_eq)
  have vote: "decide_voice_acknowledgement claimed True = \<lparr>vd_decided = True, vd_needs_screen = False\<rparr>"
    using assms(4) by (simp add: decide_voice_acknowledgement_def)
  have "\<exists>d w' a'. op_approval_approve i ''voice'' (Some claimed) w = (Val d, w') \<and> approval_of i w' = Some a' \<and> a_status a' = Approved"
    if "a_risk a = None"
    using that a' vote assms decide_approval_eq [of i Approved None w]
    by (cases claimed) (simp_all add: op_approval_approve_def find_approval_def some_text_def bindE_def ret_def
        gets_def approval_of_def [symmetric])
  moreover have "\<exists>d w' a'. attempt_voice_approval i claimed True w = (Val d, w') \<and> approval_of i w' = Some a' \<and> a_status a' = Approved"
    using a' vote assms(1,2)
    by (simp add: attempt_voice_approval_def find_approval_def approval_of_def set_approval_eq seqE_def bindE_def
        ret_def gets_def)
  ultimately show ?thesis by blast
qed

theorem voice_grants_on_claimed_class_witness:
  "\<exists>d w' a'. attempt_voice_approval ''ap'' ''R0'' True (approval_world Pending (Some ''R2'')) = (Val d, w') \<and>
     approval_of ''ap'' w' = Some a' \<and> a_status a' = Approved"
proof -
  have "approval_of ''ap'' (approval_world Pending (Some ''R2'')) = Some (pending_approval ''ap'' ''run'' ''run:ok#1'' ''sha256:d'' ''t0'' (Some ''R2''))"
    "a_status (pending_approval ''ap'' ''run'' ''run:ok#1'' ''sha256:d'' ''t0'' (Some ''R2'')) = Pending"
    "''R0'' \<noteq> []" "''R0'' \<notin> set high_risk_classes"
    by (simp_all add: approval_of_def approval_world_def pending_approval_def high_risk_classes_def)
  from voice_grants_on_claimed_class [OF this] show ?thesis by blast
qed

end
