(* ===== verification/Awf_Engine.thy ===== *)
theory Awf_Engine
  imports Awf_Approval
begin

text \<open>
  The workflow engine (workflow/engine.py): the walk over a workflow's nodes with its retries, its
  repair budget and its end.  The node executors are given; random.uniform, time.sleep and
  jsonschema's verdict on an output are parameters.  One turn of the outer loop is \<open>engine_step\<close>;
  the loop itself has fuel, and runs out of it only with the result \<open>Div\<close>.
\<close>

section \<open>Definitions\<close>

type_synonym 'x executor = "string \<Rightarrow> string \<Rightarrow> obj \<Rightarrow> ('x, json) op"

record 'x engine =
  executors :: "string \<Rightarrow> 'x executor option"
  uniform :: "rat \<Rightarrow> rat \<Rightarrow> 'x \<Rightarrow> rat res \<times> 'x"
  sleep :: "rat \<Rightarrow> 'x \<Rightarrow> unit res \<times> 'x"
  output_error :: "json \<Rightarrow> json \<Rightarrow> string option"

definition executable_node_types :: "string list" where
  "executable_node_types = [''activity'', ''agent'', ''gate'', ''handoff'', ''approval'', ''subworkflow'', ''map'', ''loop'']"

definition self_stepping_node_types :: "string list" where
  "self_stepping_node_types = [''handoff'', ''loop'']"

definition engine_error :: "string \<Rightarrow> ('w, 'a) act" where
  "engine_error msg = throw ''WorkflowEngineError'' msg"

definition mark_run_failed :: "string \<Rightarrow> string \<Rightarrow> ('x, unit) op" where
  "mark_run_failed run_id reason_code =
     seqE (set_run_status run_id RUN_FAILED)
       (log_event run_id None ''FAILED'' ''engine'' reason_code (JObj []))"

definition step_id_of :: "string \<Rightarrow> json \<Rightarrow> nat \<Rightarrow> string" where
  "step_id_of run_id node_id attempt_no = run_id @ '':'' @ py_str node_id @ ''#'' @ nat_str attempt_no"

definition count_of :: "json \<Rightarrow> (json \<times> nat) list \<Rightarrow> nat" where
  "count_of k counts = (case map_of counts k of None \<Rightarrow> 0 | Some n \<Rightarrow> n)"

definition retry_delay :: "'x engine \<Rightarrow> retry_policy \<Rightarrow> nat \<Rightarrow> ('x, rat) op" where
  "retry_delay E pol k =
     (let b = base_delay pol k in
      if jitter pol \<and> b > 0 then outside (uniform E (1 / 2 * b) (3 / 2 * b)) else ret b)"

definition retry_event :: "json \<Rightarrow> nat \<Rightarrow> string \<Rightarrow> rat \<Rightarrow> nat \<Rightarrow> int \<Rightarrow> json" where
  "retry_event node_id attempt_no cls delay retries limit = JObj
     [(''node_id'', node_id), (''failed_attempt'', JInt (int attempt_no)), (''next_attempt'', JInt (int (Suc attempt_no))),
      (''failure_class'', JStr cls), (''backoff_seconds'', JFloat delay), (''retries_attempted'', JInt (int retries)),
      (''max_retries'', JInt limit)]"

definition insert_retry_step :: "string \<Rightarrow> string \<Rightarrow> string \<Rightarrow> nat \<Rightarrow> ('x, unit) op" where
  "insert_retry_step step_id run_id node_id attempt_no =
     bindE utc_now_rfc3339 (\<lambda>now.
       insert_step \<lparr>s_id = step_id, s_run = run_id, s_node = node_id, s_attempt = attempt_no,
         s_status = RETRY_WAIT, s_input = JObj [], s_output = None, s_fclass = None,
         s_started = now, s_ended = None\<rparr>)"

text \<open>
  The inner loop: \<open>left\<close> is max_retries - retries_attempted.  The result is the last exception or
  the output, with the attempt counts.
\<close>

primrec attempt_node ::
  "'x engine \<Rightarrow> string \<Rightarrow> retry_policy \<Rightarrow> json \<Rightarrow> string \<Rightarrow> obj \<Rightarrow> 'x executor \<Rightarrow> nat \<Rightarrow> nat \<Rightarrow> (json \<times> nat) list
    \<Rightarrow> ('x, (exc + json) \<times> (json \<times> nat) list) op" where
  "attempt_node E run_id pol node_id ty node ex 0 retries counts =
     (let attempt_no = Suc (count_of node_id counts);
          counts' = AList.update node_id attempt_no counts;
          step_id = step_id_of run_id node_id attempt_no in
      seqE (whenE (ty \<notin> set self_stepping_node_types) (create_step step_id run_id (py_str node_id) attempt_no)) (
      bindE (attempt (ex run_id step_id node)) (\<lambda>r. ret (r, counts'))))"
| "attempt_node E run_id pol node_id ty node ex (Suc left) retries counts =
     (let attempt_no = Suc (count_of node_id counts);
          counts' = AList.update node_id attempt_no counts;
          step_id = step_id_of run_id node_id attempt_no in
      seqE (whenE (ty \<notin> set self_stepping_node_types) (create_step step_id run_id (py_str node_id) attempt_no)) (
      bindE (attempt (ex run_id step_id node)) (\<lambda>r. case r of
          Inr output \<Rightarrow> ret (Inr output, counts')
        | Inl e \<Rightarrow>
            if failure_class e \<in> set (retry_on pol) then
              bindE (retry_delay E pol retries) (\<lambda>delay.
              seqE (log_event run_id (Some step_id) ''RETRY_WAIT'' ''engine'' ''step_retry_scheduled''
                      (retry_event node_id attempt_no (failure_class e) delay (Suc retries) (max_retries pol))) (
              seqE (whenE (ty \<notin> set self_stepping_node_types)
                      (insert_retry_step (step_id_of run_id node_id (Suc attempt_no)) run_id (py_str node_id) (Suc attempt_no))) (
              seqE (whenE (delay > 0) (outside (sleep E delay)))
                (attempt_node E run_id pol node_id ty node ex left (Suc retries) counts'))))
            else ret (Inl e, counts'))))"

text \<open>What the outer loop carries along.\<close>

record loop_state =
  l_current :: json
  l_repairs :: nat
  l_hops :: json
  l_verdict :: json
  l_context :: obj
  l_counts :: "(json \<times> nat) list"

text \<open>repairs_used >= max_repairs\<close>

definition at_least :: "nat \<Rightarrow> json \<Rightarrow> bool result" where
  "at_least n v = (case v of
       JInt m \<Rightarrow> Inr (int n \<ge> m) | JBool b \<Rightarrow> Inr (int n \<ge> (if b then 1 else 0)) | JFloat q \<Rightarrow> Inr (of_nat n \<ge> q)
     | _ \<Rightarrow> fail ''TypeError'' ''comparison not supported'')"

text \<open>"hops_used" in output, output["hops_used"] and output.get for an output that is no dict.\<close>

definition not_a_dict :: "json \<Rightarrow> exc" where
  "not_a_dict v = (case v of
       JStr s \<Rightarrow> if sublist ''hops_used'' s then Exc ''TypeError'' ''string indices must be integers'' None
                 else Exc ''AttributeError'' ''object has no attribute get'' None
     | JList l \<Rightarrow> if JStr ''hops_used'' \<in> set l then Exc ''TypeError'' ''list indices must be integers'' None
                  else Exc ''AttributeError'' ''object has no attribute get'' None
     | _ \<Rightarrow> Exc ''TypeError'' ''argument is not iterable'' None)"

definition add_context :: "json \<Rightarrow> obj \<Rightarrow> obj \<Rightarrow> obj" where
  "add_context node_id output ctxt =
     fold (\<lambda>(k, v) d. AList.update (engine_context_key (py_str node_id) k) v d) output ctxt"

text \<open>After a node's output: the next state of the loop, or the result of the run.\<close>

definition after_gate :: "string \<Rightarrow> json \<Rightarrow> loop_state \<Rightarrow> obj \<Rightarrow> obj \<Rightarrow> ('x, loop_state + obj) op" where
  "after_gate run_id max_repairs st node output =
     (if truthy (get ''passed'' output) then
        ret (Inl (st\<lparr>l_verdict := get ''verdict_artifact_id'' output, l_current := get ''next'' node\<rparr>))
      else
        let terminal = truthy (get_or ''terminal_failure'' (JBool False) output) in
        bindE (if terminal then ret True else liftR (at_least (l_repairs st) max_repairs)) (\<lambda>stop.
        if stop then
          seqE (mark_run_failed run_id (if terminal then ''gate_terminal_failure'' else ''gate_repair_budget_exhausted''))
            (ret (Inr [(''status'', JStr ''FAILED''), (''repairs_used'', JInt (int (l_repairs st))),
                       (''verdict_artifact_id'', get ''verdict_artifact_id'' output)]))
        else if get ''onFail'' node = JNull
          then engine_error (''gate node '' @ py_repr (get ''id'' node) @ '' failed with no onFail target'')
        else ret (Inl (st\<lparr>l_repairs := Suc (l_repairs st), l_current := get ''onFail'' node\<rparr>))))"

definition after_node :: "string \<Rightarrow> json \<Rightarrow> loop_state \<Rightarrow> obj \<Rightarrow> string \<Rightarrow> json \<Rightarrow> ('x, loop_state + obj) op" where
  "after_node run_id max_repairs st node ty output = (case output of
     JObj d \<Rightarrow>
       if d \<noteq> [] \<and> \<not> is_str (l_current st) then throw ''TypeError'' ''expected string or bytes-like object''
       else
         let st1 = st\<lparr>l_hops := (if has_key ''hops_used'' d then get ''hops_used'' d else l_hops st),
                      l_context := add_context (l_current st) d (l_context st)\<rparr> in
         if truthy (get ''waiting_input'' d) then
           ret (Inr (merge_obj [(''status'', JStr ''WAITING_INPUT''), (''repairs_used'', JInt (int (l_repairs st)))] d))
         else if ty = ''gate'' then after_gate run_id max_repairs st1 node d
         else ret (Inl (st1\<lparr>l_current := get ''next'' node\<rparr>))
   | _ \<Rightarrow> raise (not_a_dict output))"

definition engine_step :: "'x engine \<Rightarrow> string \<Rightarrow> workflow \<Rightarrow> json \<Rightarrow> loop_state \<Rightarrow> ('x, loop_state + obj) op" where
  "engine_step E run_id flow max_repairs st =
     bindE (liftR (wf_node flow (l_current st))) (\<lambda>node.
     bindE (liftR (item ''type'' node)) (\<lambda>ty.
     if ty \<notin> set (map JStr executable_node_types)
     then engine_error (''node '' @ py_repr (l_current st) @ '' (type='' @ py_str ty @ '') has no execution semantics yet'')
     else (case executors E (py_str ty) of
         None \<Rightarrow> engine_error (''no executor registered for node type '' @ py_repr ty)
       | Some ex \<Rightarrow>
           bindE (liftR (resolve_retry_policy flow node)) (\<lambda>pol.
           bindE (attempt_node E run_id pol (l_current st) (py_str ty) node ex (nat (max_retries pol)) 0 (l_counts st)) (\<lambda>(r, counts).
           case r of
             Inl e \<Rightarrow>
               seqE (mark_run_failed run_id (''step_failed:'' @ exc_text e))
                 (ret (Inr [(''status'', JStr ''FAILED''), (''repairs_used'', JInt (int (l_repairs st))),
                            (''error'', JStr (exc_text e))]))
           | Inr output \<Rightarrow> after_node run_id max_repairs (st\<lparr>l_counts := counts\<rparr>) node (py_str ty) output)))))"

definition finish :: "'x engine \<Rightarrow> string \<Rightarrow> workflow \<Rightarrow> loop_state \<Rightarrow> ('x, obj) op" where
  "finish E run_id flow st =
     (let ctxt = merge_obj [(''repairs_used'', JInt (int (l_repairs st))), (''hops_used'', l_hops st),
                            (''verdict_artifact_id'', l_verdict st)] (l_context st) in
      bindE (liftR (get_attr (wf_outputs flow))) (\<lambda>spec.
      let rendered = render_outputs spec ctxt in
      case output_error E (wf_output_schema flow) (JObj rendered) of
        Some msg \<Rightarrow>
          seqE (mark_run_failed run_id (''output_schema_invalid:'' @ msg))
            (ret [(''status'', JStr ''FAILED''), (''repairs_used'', JInt (int (l_repairs st))), (''error'', JStr msg)])
      | None \<Rightarrow>
          seqE (set_run_status run_id RUN_SUCCEEDED) (
          seqE (log_event run_id None ''SUCCEEDED'' ''engine'' ''run_completed'' (JObj []))
            (ret [(''status'', JStr ''SUCCEEDED''), (''repairs_used'', JInt (int (l_repairs st))),
                  (''verdict_artifact_id'', l_verdict st), (''outputs'', JObj rendered)]))))"

primrec engine_loop :: "'x engine \<Rightarrow> string \<Rightarrow> workflow \<Rightarrow> json \<Rightarrow> nat \<Rightarrow> loop_state \<Rightarrow> ('x, obj) op" where
  "engine_loop E run_id flow max_repairs 0 st = diverge"
| "engine_loop E run_id flow max_repairs (Suc fuel) st =
     (if l_current st = JNull then finish E run_id flow st
      else bindE (engine_step E run_id flow max_repairs st) (\<lambda>r. case r of
          Inl st' \<Rightarrow> engine_loop E run_id flow max_repairs fuel st'
        | Inr result \<Rightarrow> ret result))"

definition run_workflow_definition :: "'x engine \<Rightarrow> nat \<Rightarrow> string \<Rightarrow> workflow \<Rightarrow> ('x, obj) op" where
  "run_workflow_definition E fuel run_id flow =
     bindE (liftR (get_attr (wf_budgets flow))) (\<lambda>budgets.
     seqE (set_run_status run_id RUN_RUNNING) (
     bindE (case wf_nodes flow of [] \<Rightarrow> throw ''IndexError'' ''tuple index out of range''
            | n # _ \<Rightarrow> liftR (item ''id'' n)) (\<lambda>first.
       engine_loop E run_id flow (get_or ''maxRepairIterations'' (JInt 3) budgets) fuel
         \<lparr>l_current = first, l_repairs = 0, l_hops = JInt 0, l_verdict = JNull, l_context = [], l_counts = []\<rparr>)))"

section \<open>The executors' contract\<close>

lemma carries_engine_error [carry]: "carries I (engine_error m)"
  unfolding engine_error_def by (rule carries_throw)

lemma carries_mark_run_failed [carry]: "carries (kept w0) (mark_run_failed r c)"
  unfolding mark_run_failed_def by (intro carry)

lemma carries_insert_retry_step [carry]: "carries (kept w0) (insert_retry_step s r n k)"
  unfolding insert_retry_step_def by (intro carry) (simp add: fclass_check_def)

lemma carries_retry_delay [carry]: "carries (kept w0) (retry_delay E p k)"
  unfolding retry_delay_def by (intro carry)

lemma carries_after_node [carry]: "carries (kept w0) (after_node r m st n ty out)"
  unfolding after_node_def after_gate_def by (intro carry)

lemma carries_finish [carry]: "carries (kept w0) (finish E r flow st)"
  unfolding finish_def by (intro carry)

text \<open>
  The engine relies on its executors for one law: an executor leaves on record what was on record.
  Under it the engine as a whole does.
\<close>

locale recording_executors =
  fixes E :: "'x engine"
  assumes executor_kept: "executors E ty = Some ex \<Longrightarrow> carries (kept w0) (ex r s n)"
begin

lemma attempt_node_kept:
  assumes "executors E t = Some ex"
  shows "carries (kept w0) (attempt_node E r p i ty n ex left k counts)"
  using executor_kept [OF assms]
  by (induction left arbitrary: k counts) (auto intro!: carry simp only: attempt_node.simps Let_def)

lemma engine_step_kept: "carries (kept w0) (engine_step E r flow m st)"
  unfolding engine_step_def by (intro carry attempt_node_kept)

lemma engine_loop_kept: "carries (kept w0) (engine_loop E r flow m fuel st)"
  by (induction fuel arbitrary: st) (auto intro!: carry engine_step_kept)

lemma run_kept: "carries (kept w0) (run_workflow_definition E fuel r flow)"
  unfolding run_workflow_definition_def by (intro carry engine_loop_kept)

end

text \<open>A second law, for termination: the executors and the outside world it calls always return.\<close>

definition halting :: "'x engine \<Rightarrow> bool" where
  "halting E = ((\<forall>ty ex r s n. executors E ty = Some ex \<longrightarrow> halts (ex r s n)) \<and>
     (\<forall>a b x. fst (uniform E a b x) \<noteq> Div) \<and> (\<forall>q x. fst (sleep E q x) \<noteq> Div))"

lemma haltingD:
  assumes "halting E"
  shows "executors E ty = Some ex \<Longrightarrow> halts (ex r s n)" "fst (uniform E a b x) \<noteq> Div" "fst (sleep E q x) \<noteq> Div"
  using assms by (simp_all add: halting_def)

lemma halts_outside: "(\<And>x. fst (f x) \<noteq> Div) \<Longrightarrow> halts (outside f)"
  by (simp add: halts_def outside_def split: prod.split) (metis fst_conv)

lemma attempt_node_halts:
  assumes "halting E" "executors E t = Some ex"
  shows "halts (attempt_node E r p i ty n ex left k counts)"
proof -
  have "halts (create_step a b c d)" "halts (insert_retry_step a b c d)" for a b c d
    unfolding create_step_def insert_retry_step_def by (intro halt)+
  moreover have "halts (retry_delay E p k)" for k
    unfolding retry_delay_def by (intro halt halts_outside haltingD [OF assms(1)])
  moreover have "halts (outside (sleep E d))" for d
    by (intro halts_outside haltingD [OF assms(1)])
  ultimately show ?thesis
    using haltingD(1) [OF assms]
    by (induction left arbitrary: k counts) (auto intro!: halt simp only: attempt_node.simps Let_def)
qed

lemma run_marks_halt: "halts (set_run_status r st)" "halts (mark_run_failed r c)"
  unfolding mark_run_failed_def set_run_status_def by (intro halt)+

lemma after_node_halts: "halts (after_node r m st n ty out)"
  unfolding after_node_def after_gate_def engine_error_def
  by (cases out; simp only: json.case Let_def; intro halt run_marks_halt)

lemma engine_step_halts: "halting E \<Longrightarrow> halts (engine_step E r flow m st)"
  unfolding engine_step_def engine_error_def
  by (intro halt attempt_node_halts after_node_halts run_marks_halt)

lemma finish_halts: "halts (finish E r flow st)"
  unfolding finish_def Let_def by (intro halt run_marks_halt)

section \<open>Identities of attempts\<close>

text \<open>
  Within a run no two attempts share a step_id: the id determines the attempt number and the
  node's text, so create_step never mistakes one attempt for another.
\<close>

theorem step_id_injective:
  "step_id_of r n a = step_id_of r n' a' \<longleftrightarrow> py_str n = py_str n' \<and> a = a'"
proof -
  have "step_id_of r n a = step_id_of r n' a' \<longleftrightarrow>
      py_str n @ CHR ''#'' # nat_str a = py_str n' @ CHR ''#'' # nat_str a'"
    by (simp add: step_id_of_def)
  also have "\<dots> \<longleftrightarrow> py_str n = py_str n' \<and> nat_str a = nat_str a'"
    by (rule split_at_last_sep) simp_all
  finally show ?thesis by (simp add: nat_str_inj)
qed

section \<open>What one turn of the loop does\<close>

lemma wf_node_Inr: "wf_node flow i = Inr n \<Longrightarrow> n \<in> set (wf_nodes flow) \<and> get ''id'' n = i"
  by (auto simp: wf_node_def find_Some_iff split: option.splits)

lemma after_gate_Inl:
  assumes "after_gate r (JInt m) st node d w = (Val (Inl st'), w')"
  shows "(l_repairs st' = l_repairs st \<and> l_current st' = get ''next'' node) \<or>
    (l_repairs st' = Suc (l_repairs st) \<and> int (l_repairs st) < m \<and> l_current st' \<noteq> JNull)"
  using assms unfolding after_gate_def engine_error_def
  by (auto simp: vals at_least_def Let_def split: if_splits)

lemma after_node_Inl:
  assumes "after_node r (JInt m) st node ty out w = (Val (Inl st'), w')"
  shows "(l_repairs st' = l_repairs st \<and> l_current st' = get ''next'' node) \<or>
    (l_repairs st' = Suc (l_repairs st) \<and> int (l_repairs st) < m \<and> l_current st' \<noteq> JNull)"
  using assms after_gate_Inl unfolding after_node_def
  by (auto simp: vals Let_def split: json.splits if_splits) fastforce+

lemma engine_step_Inl:
  assumes "engine_step E r flow (JInt m) st w = (Val (Inl st'), w')"
  obtains node where "node \<in> set (wf_nodes flow)" "get ''id'' node = l_current st"
    "(l_repairs st' = l_repairs st \<and> l_current st' = get ''next'' node) \<or>
     (l_repairs st' = Suc (l_repairs st) \<and> int (l_repairs st) < m \<and> l_current st' \<noteq> JNull)"
proof -
  from assms obtain node ty counts out w1 where node: "wf_node flow (l_current st) = Inr node"
    and after: "after_node r (JInt m) (st\<lparr>l_counts := counts\<rparr>) node ty out w1 = (Val (Inl st'), w')"
    unfolding engine_step_def engine_error_def
    by (auto simp: vals split: option.splits sum.splits if_splits)
  show ?thesis
    using that [of node] wf_node_Inr [OF node] after_node_Inl [OF after] by simp
qed

section \<open>Termination\<close>

text \<open>A rank that falls along every \<open>next\<close> edge: the success edges have no cycle.\<close>

definition ranked :: "workflow \<Rightarrow> (json \<Rightarrow> nat) \<Rightarrow> nat \<Rightarrow> bool" where
  "ranked flow rank B = (\<forall>n \<in> set (wf_nodes flow). rank (get ''id'' n) \<le> B \<and>
     (get ''next'' n = JNull \<or> rank (get ''next'' n) < rank (get ''id'' n)))"

definition potential :: "workflow \<Rightarrow> (json \<Rightarrow> nat) \<Rightarrow> nat \<Rightarrow> int \<Rightarrow> loop_state \<Rightarrow> nat" where
  "potential flow rank B m st = (nat m - l_repairs st) * (B + 2) +
     (if l_current st \<in> get ''id'' ` set (wf_nodes flow) \<and> l_current st \<noteq> JNull then Suc (rank (l_current st)) else 0)"

lemma potential_falls:
  assumes "ranked flow rank B" "engine_step E r flow (JInt m) st w = (Val (Inl st'), w')" "l_current st \<noteq> JNull"
  shows "potential flow rank B m st' < potential flow rank B m st"
proof -
  from engine_step_Inl [OF assms(2)] obtain node where node: "node \<in> set (wf_nodes flow)" "get ''id'' node = l_current st"
    and step: "(l_repairs st' = l_repairs st \<and> l_current st' = get ''next'' node) \<or>
     (l_repairs st' = Suc (l_repairs st) \<and> int (l_repairs st) < m \<and> l_current st' \<noteq> JNull)"
    by blast
  have cur: "potential flow rank B m st = (nat m - l_repairs st) * (B + 2) + Suc (rank (l_current st))"
    using imageI [OF node(1), of "get ''id''"] node(2) assms(3) by (simp add: potential_def)
  have le: "rank i \<le> B" if "i \<in> get ''id'' ` set (wf_nodes flow)" for i
    using that assms(1) by (auto simp: ranked_def)
  from step show ?thesis
  proof
    assume s: "l_repairs st' = l_repairs st \<and> l_current st' = get ''next'' node"
    have "get ''next'' node = JNull \<or> rank (get ''next'' node) < rank (l_current st)"
      using assms(1) node by (auto simp: ranked_def)
    then show ?thesis unfolding cur using s by (auto simp: potential_def)
  next
    assume s: "l_repairs st' = Suc (l_repairs st) \<and> int (l_repairs st) < m \<and> l_current st' \<noteq> JNull"
    then have "nat m - l_repairs st = Suc (nat m - Suc (l_repairs st))" by linarith
    moreover have "potential flow rank B m st' \<le> (nat m - Suc (l_repairs st)) * (B + 2) + Suc B"
      using s le [of "l_current st'"] by (auto simp: potential_def)
    ultimately show ?thesis unfolding cur by (simp only: mult_Suc)
  qed
qed

lemma engine_loop_halts:
  assumes "halting E" "ranked flow rank B" "potential flow rank B m st < fuel"
  shows "halts (engine_loop E r flow (JInt m) fuel st)"
  using assms(3)
proof (induction fuel arbitrary: st)
  case (Suc fuel)
  show ?case
  proof (cases "l_current st = JNull")
    case True
    then show ?thesis by (simp add: finish_halts)
  next
    case False
    show ?thesis
    proof (rule haltsI)
      fix w
      obtain x w1 where step: "engine_step E r flow (JInt m) st w = (x, w1)" by fastforce
      have "x \<noteq> Div" using engine_step_halts [OF assms(1), of r flow "JInt m" st] step by (auto simp: halts_def dest: spec [of _ w])
      moreover have "halts (engine_loop E r flow (JInt m) fuel st')" if "x = Val (Inl st')" for st'
        using Suc potential_falls [OF assms(2) step [unfolded that] False] by simp
      ultimately show "fst (engine_loop E r flow (JInt m) (Suc fuel) st w) \<noteq> Div"
        using False step by (cases x) (auto simp: bindE_def ret_def halts_def split: sum.split)
    qed
  qed
qed simp

lemma run_halts:
  assumes "halting E" "ranked flow rank B" "get_or ''maxRepairIterations'' (JInt 3) (as_obj (wf_budgets flow)) = JInt m"
    and "(nat m + 1) * (B + 2) < fuel"
  shows "halts (run_workflow_definition E fuel r flow)"
proof -
  have "potential flow rank B m st < fuel" if "l_repairs st = 0" for st
    using assms(2,4) that by (auto simp: potential_def ranked_def intro: le_less_trans)
  then have "halts (engine_loop E r flow (get_or ''maxRepairIterations'' (JInt 3) b) fuel
      \<lparr>l_current = i, l_repairs = 0, l_hops = JInt 0, l_verdict = JNull, l_context = [], l_counts = []\<rparr>)"
    if "get_attr (wf_budgets flow) = Inr b" for b i
    using that assms(3) engine_loop_halts [OF assms(1,2)]
    by (cases "wf_budgets flow") (simp_all add: get_attr_def)
  moreover have "halts (case wf_nodes flow of [] \<Rightarrow> throw ''IndexError'' t | n # _ \<Rightarrow> liftR (item ''id'' n))" for t
    by (cases "wf_nodes flow") (simp_all add: halts_basic halts_liftR)
  ultimately show ?thesis
    unfolding run_workflow_definition_def
    by (intro halts_liftR_bind halts_seq halts_bind run_marks_halt)
qed

text \<open>
  C7. The engine ends.  If no chain of \<open>next\<close> edges is a cycle (a rank bounded by B falls along
  them), the budget of repairs is an integer m and the executors and the outside world return, then
  a run returns, whatever the executors answer: at most (m + 1) * (B + 2) turns of the loop are
  needed, a gate's \<open>onFail\<close> edges being cut off by the repair budget.
\<close>

theorem engine_terminates:
  assumes "ranked flow rank B"
    and "get_or ''maxRepairIterations'' (JInt 3) (as_obj (wf_budgets flow)) = JInt m"
    and "(nat m + 1) * (B + 2) < fuel"
    and "\<And>ty ex r s n w. executors E ty = Some ex \<Longrightarrow> fst (ex r s n w) \<noteq> Div"
    and "\<And>a b x. fst (uniform E a b x) \<noteq> Div" "\<And>q x. fst (sleep E q x) \<noteq> Div"
  shows "fst (run_workflow_definition E fuel r flow w) \<noteq> Div"
proof -
  have "halting E"
    using assms(4-6) by (auto simp: halting_def halts_def)
  from run_halts [OF this assms(1-3)] show ?thesis by (simp add: halts_def)
qed

text \<open>A workflow that builds, checks and repairs, and the engine over executors that only answer.\<close>

definition demo_flow :: workflow where
  "demo_flow = \<lparr>wf_api = JStr ''awf/v1'', wf_kind = JStr ''Workflow'', wf_name = JStr ''demo'', wf_version = JStr ''1.0.0'',
     wf_digest = JStr ''d'', wf_input_schema = JObj [], wf_output_schema = JObj [],
     wf_budgets = JObj [(''maxRepairIterations'', JInt 2)],
     wf_nodes = [[(''id'', JStr ''build''), (''type'', JStr ''activity''), (''function'', JStr ''noop''), (''next'', JStr ''check'')],
                 [(''id'', JStr ''check''), (''type'', JStr ''gate''), (''onFail'', JStr ''build'')]],
     wf_outputs = JObj [(''repairs'', JStr ''{{ engine.repairs_used }}'')]\<rparr>"

definition answering :: "(string \<Rightarrow> json) \<Rightarrow> nat engine" where
  "answering f = \<lparr>executors = (\<lambda>ty. Some (\<lambda>_ _ _. ret (f ty))), uniform = (\<lambda>a _ x. (Val a, x)),
     sleep = (\<lambda>_ x. (Val (), Suc x)), output_error = (\<lambda>_ _. None)\<rparr>"

definition no_pass :: "nat engine" where
  "no_pass = answering (\<lambda>ty. if ty = ''gate'' then JObj [(''passed'', JBool False)] else JObj [])"

theorem engine_terminates_witness:
  "fst (run_workflow_definition no_pass 10 ''run'' demo_flow (one_run 0 [])) \<noteq> Div"
proof -
  let ?rank = "\<lambda>i. if i = JStr ''build'' then 1 else (0 :: nat)"
  have ranks: "ranked demo_flow ?rank 1"
    by (simp add: ranked_def demo_flow_def get_def)
  have budget: "get_or ''maxRepairIterations'' (JInt 3) (as_obj (wf_budgets demo_flow)) = JInt 2"
    by (simp add: demo_flow_def get_or_def)
  have fuel: "(nat 2 + 1) * (1 + 2) < (10 :: nat)" by simp
  show ?thesis
    by (rule engine_terminates [OF ranks budget fuel]) (auto simp: no_pass_def answering_def ret_def)
qed

definition cycle_flow :: workflow where
  "cycle_flow = demo_flow\<lparr>wf_nodes :=
     [[(''id'', JStr ''a''), (''type'', JStr ''activity''), (''function'', JStr ''noop''), (''next'', JStr ''b'')],
      [(''id'', JStr ''b''), (''type'', JStr ''activity''), (''function'', JStr ''noop''), (''next'', JStr ''a'')]]\<rparr>"

lemma create_step_ok:
  assumes "r \<in> run_ids w"
  shows "\<exists>w'. create_step i r n k w = (Val (), w') \<and> run_ids w' = run_ids w"
  using assms by (auto simp: create_step_def utc_now_rfc3339_def bindE_def insert_step_def run_ids_def step_ids_def)

lemma cycle_policy:
  "n \<in> set (wf_nodes cycle_flow) \<Longrightarrow> \<exists>p. resolve_retry_policy cycle_flow n = Inr p \<and> max_retries p = 0"
  by (auto simp: cycle_flow_def demo_flow_def resolve_retry_policy_def or_dict_def get_def andThen_def
      retry_field_def get_or_def py_int_def Let_def)

lemma cycle_step:
  assumes "r \<in> run_ids w" "l_current st \<in> {JStr ''a'', JStr ''b''}"
  shows "\<exists>st' w'. engine_step (answering (\<lambda>_. JObj [])) r cycle_flow m st w = (Val (Inl st'), w') \<and>
    r \<in> run_ids w' \<and> l_current st' \<in> {JStr ''a'', JStr ''b''}"
proof -
  obtain node where node: "wf_node cycle_flow (l_current st) = Inr node" "item ''type'' node = Inr (JStr ''activity'')"
      "node \<in> set (wf_nodes cycle_flow)" "get ''next'' node \<in> {JStr ''a'', JStr ''b''}"
    using assms(2) by (auto simp: wf_node_def cycle_flow_def get_def item_def)
  obtain p where p: "resolve_retry_policy cycle_flow node = Inr p" "max_retries p = 0"
    using cycle_policy [OF node(3)] by blast
  let ?k = "Suc (count_of (l_current st) (l_counts st))"
  obtain w' where w': "create_step (step_id_of r (l_current st) ?k) r (py_str (l_current st)) ?k w = (Val (), w')"
      "run_ids w' = run_ids w"
    using create_step_ok [OF assms(1)] by blast
  show ?thesis
    using node p w' assms(1)
    by (auto simp: engine_step_def liftR_def bindE_def ret_def executable_node_types_def answering_def py_str_def
        self_stepping_node_types_def whenE_def seqE_def attempt_def after_node_def Let_def get_def)
qed


section \<open>What a run reports is what is on record\<close>

definition run_recorded :: "string \<Rightarrow> run_status \<Rightarrow> string \<Rightarrow> 'x world \<Rightarrow> bool" where
  "run_recorded r st new w = (list_all (\<lambda>row. r_id row = r \<longrightarrow> r_status row = st) (runs w) \<and> events w \<noteq> [] \<and>
     e_run (last (events w)) = r \<and> e_step (last (events w)) = None \<and> e_new (last (events w)) = new)"

lemma set_run_status_eq:
  "set_run_status r st w = (Val (), w\<lparr>now_ix := Suc (now_ix w),
     runs := map (\<lambda>row. if r_id row = r then row\<lparr>r_status := st, r_updated := clock w (now_ix w)\<rparr> else row) (runs w)\<rparr>)"
  by (simp add: set_run_status_def utc_now_rfc3339_def bindE_def update_runs_def modify_def)

lemma set_run_status_runs:
  assumes "set_run_status r st w = (Val u, w')"
  shows "list_all (\<lambda>row. r_id row = r \<longrightarrow> r_status row = st) (runs w')"
proof -
  have "runs w' = map (\<lambda>row. if r_id row = r then row\<lparr>r_status := st, r_updated := clock w (now_ix w)\<rparr> else row) (runs w)"
    using assms by (auto simp: set_run_status_eq)
  then show ?thesis by (simp only: list.pred_map) (simp add: list_all_iff)
qed

lemma status_and_event:
  assumes "set_run_status r st w = (Val u, w1)" "log_event r None new a c d w1 = (Val v, w')"
  shows "run_recorded r st new w'"
  using set_run_status_runs [OF assms(1)] log_event_Val(1) [OF assms(2)]
  by (simp add: run_recorded_def) (simp add: logged_def)

lemma mark_run_failed_recorded: "mark_run_failed r c w = (Val u, w') \<Longrightarrow> run_recorded r RUN_FAILED ''FAILED'' w'"
  unfolding mark_run_failed_def seq_Val using status_and_event by blast

text \<open>What may be said of a result: it waits, or it succeeded or failed and the run row says so.\<close>

definition result_recorded :: "string \<Rightarrow> int \<Rightarrow> obj \<Rightarrow> 'x world \<Rightarrow> bool" where
  "result_recorded r m d w = (has_key ''waiting_input'' d \<or>
     (\<exists>k. get ''repairs_used'' d = JInt k \<and> 0 \<le> k \<and> k \<le> max 0 m) \<and>
     (get ''status'' d = JStr ''SUCCEEDED'' \<and> run_recorded r RUN_SUCCEEDED ''SUCCEEDED'' w \<or>
      get ''status'' d = JStr ''FAILED'' \<and> run_recorded r RUN_FAILED ''FAILED'' w))"

lemma has_key_merge: "has_key k b \<Longrightarrow> has_key k (merge_obj a b)"
proof -
  have "has_key k (fold (\<lambda>(k, v) d. AList.update k v d) b d)" if "has_key k d \<or> has_key k b" for d
    using that by (induction b arbitrary: d) (auto simp: has_key_def update_conv split: if_splits)
  then show "has_key k b \<Longrightarrow> has_key k (merge_obj a b)" by (simp add: merge_obj_def)
qed

lemma get_truthy_key: "truthy (get k d) \<Longrightarrow> has_key k d"
  by (auto simp: get_def has_key_def split: option.splits)

lemma finish_recorded:
  assumes "finish E r flow st w = (Val d, w')" "l_repairs st \<le> nat m"
  shows "result_recorded r m d w'"
proof -
  from assms(1) obtain spec where x: "(let rendered = render_outputs spec (merge_obj [(''repairs_used'', JInt (int (l_repairs st))), (''hops_used'', l_hops st),
                            (''verdict_artifact_id'', l_verdict st)] (l_context st)) in
      case output_error E (wf_output_schema flow) (JObj rendered) of
        Some msg \<Rightarrow>
          seqE (mark_run_failed r (''output_schema_invalid:'' @ msg))
            (ret [(''status'', JStr ''FAILED''), (''repairs_used'', JInt (int (l_repairs st))), (''error'', JStr msg)])
      | None \<Rightarrow>
          seqE (set_run_status r RUN_SUCCEEDED) (
          seqE (log_event r None ''SUCCEEDED'' ''engine'' ''run_completed'' (JObj []))
            (ret [(''status'', JStr ''SUCCEEDED''), (''repairs_used'', JInt (int (l_repairs st))),
                  (''verdict_artifact_id'', l_verdict st), (''outputs'', JObj rendered)]))) w = (Val d, w')"
    unfolding finish_def Let_def bind_Val liftR_Val by blast
  have k: "0 \<le> int (l_repairs st) \<and> int (l_repairs st) \<le> max 0 m" using assms(2) by linarith
  show ?thesis
    using x k unfolding Let_def
    by (auto simp: vals result_recorded_def get_def dest: mark_run_failed_recorded status_and_event split: option.splits)
qed

lemma engine_step_Inr:
  assumes "engine_step E r flow (JInt m) st w = (Val (Inr d), w')" "l_repairs st \<le> nat m"
  shows "result_recorded r m d w'"
proof -
  have gate: "result_recorded r m d w2" if "after_gate r (JInt m) st1 node out w1 = (Val (Inr d), w2)" "l_repairs st1 \<le> nat m"
    for st1 node out w1 w2
    using that unfolding after_gate_def engine_error_def
    by (auto simp: vals Let_def result_recorded_def get_def dest!: mark_run_failed_recorded split: if_splits)
  have node: "result_recorded r m d w2" if "after_node r (JInt m) st1 node ty out w1 = (Val (Inr d), w2)" "l_repairs st1 \<le> nat m"
    for st1 node ty out w1 w2
    using that unfolding after_node_def
    by (auto simp: vals Let_def result_recorded_def [of _ _ "merge_obj _ _"] has_key_merge get_truthy_key
        dest!: gate split: json.splits if_splits)
  from assms obtain n ty counts x w1 where
    "(\<exists>e. x = Inl e \<and> seqE (mark_run_failed r (''step_failed:'' @ exc_text e))
        (ret (Inr [(''status'', JStr ''FAILED''), (''repairs_used'', JInt (int (l_repairs st))), (''error'', JStr (exc_text e))])) w1 = (Val (Inr d :: loop_state + obj), w')) \<or>
     (\<exists>out. x = Inr out \<and> after_node r (JInt m) (st\<lparr>l_counts := counts\<rparr>) n ty out w1 = (Val (Inr d), w'))"
    unfolding engine_step_def engine_error_def
    by (auto simp: vals split: option.splits if_splits) blast+
  then show ?thesis
  proof (elim disjE exE conjE)
    fix e assume "seqE (mark_run_failed r (''step_failed:'' @ exc_text e))
        (ret (Inr [(''status'', JStr ''FAILED''), (''repairs_used'', JInt (int (l_repairs st))), (''error'', JStr (exc_text e))])) w1 = (Val (Inr d :: loop_state + obj), w')"
    then show ?thesis
      using assms(2) by (auto simp: vals result_recorded_def get_def dest: mark_run_failed_recorded)
  next
    fix out assume "after_node r (JInt m) (st\<lparr>l_counts := counts\<rparr>) n ty out w1 = (Val (Inr d), w')"
    then show ?thesis by (rule node) (simp add: assms(2))
  qed
qed

lemma engine_loop_recorded:
  assumes "engine_loop E r flow (JInt m) fuel st w = (Val d, w')" "l_repairs st \<le> nat m"
  shows "result_recorded r m d w'"
  using assms
proof (induction fuel arbitrary: st w)
  case (Suc fuel)
  show ?case
  proof (cases "l_current st = JNull")
    case True
    then show ?thesis using Suc.prems finish_recorded by auto
  next
    case False
    from Suc.prems(1) False obtain x w1 where x: "engine_step E r flow (JInt m) st w = (Val x, w1)"
      and rest: "(case x of Inl st' \<Rightarrow> engine_loop E r flow (JInt m) fuel st' | Inr result \<Rightarrow> ret result) w1 = (Val d, w')"
      by (auto simp: bind_Val)
    show ?thesis
    proof (cases x)
      case (Inl st')
      have "l_repairs st' \<le> nat m"
        using engine_step_Inl [OF x [unfolded Inl]] Suc.prems(2) by (metis Suc_leI nat_less_iff of_nat_less_iff zless_nat_eq_int_zless)
      then show ?thesis using rest Inl Suc.IH by simp
    next
      case (Inr res)
      then show ?thesis using rest x engine_step_Inr Suc.prems(2) by (auto simp: ret_def)
    qed
  qed
qed (simp add: diverge_def)

lemma run_definition_recorded:
  assumes "run_workflow_definition E fuel r flow w = (Val d, w')"
    and "get_or ''maxRepairIterations'' (JInt 3) (as_obj (wf_budgets flow)) = JInt m"
    and "\<not> has_key ''waiting_input'' d"
  shows "(\<exists>k. get ''repairs_used'' d = JInt k \<and> 0 \<le> k \<and> k \<le> max 0 m) \<and>
     (get ''status'' d = JStr ''SUCCEEDED'' \<and> run_recorded r RUN_SUCCEEDED ''SUCCEEDED'' w' \<or>
      get ''status'' d = JStr ''FAILED'' \<and> run_recorded r RUN_FAILED ''FAILED'' w')"
proof -
  from assms(1) obtain b st w1 where "get_attr (wf_budgets flow) = Inr b" "l_repairs st = 0"
    "engine_loop E r flow (get_or ''maxRepairIterations'' (JInt 3) b) fuel st w1 = (Val d, w')"
    unfolding run_workflow_definition_def by (auto simp: vals) (metis loop_state.select_convs(2))
  moreover from this(1) have "as_obj (wf_budgets flow) = b"
    by (auto simp: get_attr_def split: json.splits)
  ultimately show ?thesis
    using assms(2,3) engine_loop_recorded [of E r flow m fuel st w1 d w'] by (simp add: result_recorded_def)
qed



section \<open>Retries of nodes that step themselves\<close>

text \<open>
  A retry policy cannot work on a handoff or loop node.  These nodes get no Step of their own,
  but the retry branch logs its event under their step_id: when such a node fails with a class its
  policy retries, and no row of that step_id exists, the engine raises IntegrityError out of the
  retry instead of trying again.
\<close>

theorem self_stepping_retry_breaks:
  assumes "ty \<in> set self_stepping_node_types" "failure_class e \<in> set (retry_on p)" "jitter p = False"
    and "ex r (step_id_of r i (Suc (count_of i counts))) node w = (Exn e, w1)"
    and "step_id_of r i (Suc (count_of i counts)) \<notin> step_ids w1"
  shows "\<exists>msg w'. attempt_node E r p i ty node ex (Suc left) k counts w = (Exn (Exc ''IntegrityError'' msg None), w')"
  using assms
  by (simp add: seqE_def bindE_def whenE_def ret_def attempt_def retry_delay_def Let_def log_event_eq step_known_def)

theorem self_stepping_retry_breaks_witness:
  "\<exists>msg w'. attempt_node no_pass ''run'' \<lparr>max_retries = 3, retry_on = [''TOOL_ERROR''], backoff_seconds = 1, backoff_factor = 2, jitter = False\<rparr>
      (JStr ''h'') ''handoff'' [] (\<lambda>_ _ _. throw_class ''HandoffError'' ''agent did not write'' ''TOOL_ERROR'') 3 0 [] (one_run 0 [])
    = (Exn (Exc ''IntegrityError'' msg None), w')"
proof -
  let ?p = "\<lparr>max_retries = 3, retry_on = [''TOOL_ERROR''], backoff_seconds = 1, backoff_factor = 2, jitter = False\<rparr>"
  let ?e = "Exc ''HandoffError'' ''agent did not write'' (Some ''TOOL_ERROR'')"
  show ?thesis
    unfolding numeral_3_eq_3
    by (rule self_stepping_retry_breaks [where e = ?e and ?w1.0 = "one_run (0 :: nat) []"])
      (simp_all add: self_stepping_node_types_def failure_class_def run step_ids_def one_run_def)
qed

end
