(* ===== verification/Awf_Machine.thy ===== *)
theory Awf_Machine
  imports Awf_Approval
begin

text \<open>
  Governed machine activities (machine/): the path, command and URL policies, the normalized action
  and its digest, the approval bridge, and the execution of an activity.  Paths are POSIX paths.
  The file system, subprocesses, HTTP, text codecs, json.dumps as bytes and SHA-256 are parameters.
\<close>

section \<open>Paths and patterns\<close>

text \<open>Whether a path is absolute, and its components.\<close>

type_synonym path = "bool \<times> string list"

function split_on :: "char \<Rightarrow> string \<Rightarrow> string list" where
  "split_on c s = (case dropWhile (\<lambda>x. x \<noteq> c) s of
       [] \<Rightarrow> [takeWhile (\<lambda>x. x \<noteq> c) s]
     | _ # r \<Rightarrow> takeWhile (\<lambda>x. x \<noteq> c) s # split_on c r)"
  by pat_completeness auto
termination
proof (relation "measure (\<lambda>(c, s). length s)", simp)
  fix c s x r assume "dropWhile (\<lambda>y. y \<noteq> c) s = x # r"
  then have "length (x # r) \<le> length s" by (metis length_dropWhile_le)
  then show "((c, r), (c, s)) \<in> measure (\<lambda>(c, s). length s)" by simp
qed

declare split_on.simps [simp del]

definition parse_path :: "string \<Rightarrow> path" where
  "parse_path s = (prefix ''/'' s, filter (\<lambda>p. p \<noteq> [] \<and> p \<noteq> ''.'') (split_on (CHR ''/'') s))"

definition join_path :: "path \<Rightarrow> path \<Rightarrow> path" where
  "join_path a b = (if fst b then b else (fst a, snd a @ snd b))"

definition as_posix :: "path \<Rightarrow> string" where
  "as_posix p = (if fst p then CHR ''/'' # join ''/'' (snd p) else if snd p = [] then ''.'' else join ''/'' (snd p))"

definition is_relative_to :: "path \<Rightarrow> path \<Rightarrow> bool" where
  "is_relative_to p base = (fst p = fst base \<and> prefix (snd base) (snd p))"

definition path_name :: "path \<Rightarrow> string" where
  "path_name p = (if snd p = [] then [] else last (snd p))"

text \<open>fnmatch.fnmatch: *, ?, [seq] and [!seq]; an unclosed bracket stands for itself.\<close>

definition bracket :: "string \<Rightarrow> (bool \<times> string \<times> string) option" where
  "bracket p =
     (let neg = (p \<noteq> [] \<and> hd p = CHR ''!''); q = (if neg then tl p else p);
          n = (if q \<noteq> [] \<and> hd q = CHR '']'' then 1 else 0);
          body = take n q @ takeWhile (\<lambda>c. c \<noteq> CHR '']'') (drop n q); rest = drop (length body) q
      in case rest of [] \<Rightarrow> None | _ # r \<Rightarrow> Some (neg, body, r))"

fun in_class :: "char \<Rightarrow> string \<Rightarrow> bool" where
  "in_class c (a # d # b # cs) =
     (if d = CHR ''-'' then ((of_char a :: nat) \<le> of_char c \<and> (of_char c :: nat) \<le> of_char b) \<or> in_class c cs
      else c = a \<or> in_class c (d # b # cs))"
| "in_class c (a # cs) = (c = a \<or> in_class c cs)"
| "in_class c [] = False"

lemma bracket_shorter: "bracket p = Some (b, x, r) \<Longrightarrow> length r < length p"
proof -
  assume b: "bracket p = Some (b, x, r)"
  obtain q k y where "drop k q = y # r" "length q \<le> length p"
  proof -
    have "length (if p \<noteq> [] \<and> hd p = CHR ''!'' then tl p else p) \<le> length p" by simp
    with b that show ?thesis
      unfolding bracket_def Let_def by (simp split: list.splits)
  qed
  then show ?thesis by (metis Suc_le_eq length_Cons length_drop le_trans diff_le_self)
qed

function fnmatch :: "string \<Rightarrow> string \<Rightarrow> bool" where
  "fnmatch s [] = (s = [])"
| "fnmatch s (p # ps) =
     (if p = CHR ''*'' then fnmatch s ps \<or> (case s of [] \<Rightarrow> False | _ # t \<Rightarrow> fnmatch t (p # ps))
      else case s of
        [] \<Rightarrow> False
      | c # t \<Rightarrow>
          if p = CHR ''?'' then fnmatch t ps
          else if p = CHR ''['' then
            (case bracket ps of None \<Rightarrow> c = p \<and> fnmatch t ps
             | Some (neg, body, rest) \<Rightarrow> (in_class c body \<noteq> neg) \<and> fnmatch t rest)
          else c = p \<and> fnmatch t ps)"
  by pat_completeness auto
termination
  by (relation "measure (\<lambda>(s, p). length s + length p)") (auto dest: bracket_shorter)

definition matches_any :: "string \<Rightarrow> string list \<Rightarrow> bool" where
  "matches_any p patterns = list_ex (fnmatch p) patterns"

section \<open>The outside world\<close>

record 'x machine =
  worktree :: path
  scratch_of :: "string \<Rightarrow> path"
  resolve :: "bool \<Rightarrow> path \<Rightarrow> 'x \<Rightarrow> path res \<times> 'x"
  is_symlink :: "path \<Rightarrow> 'x \<Rightarrow> bool res \<times> 'x"
  read_bytes :: "path \<Rightarrow> 'x \<Rightarrow> string res \<times> 'x"
  write_replace :: "path \<Rightarrow> string \<Rightarrow> 'x \<Rightarrow> unit res \<times> 'x"
  move_to_trash :: "path \<Rightarrow> path \<Rightarrow> 'x \<Rightarrow> unit res \<times> 'x"
  encode :: "string \<Rightarrow> string \<Rightarrow> string result"
  decode :: "string \<Rightarrow> string \<Rightarrow> string result"
  python_argv :: "string list \<Rightarrow> string list"
  subprocess :: "string list \<Rightarrow> path \<Rightarrow> int \<Rightarrow> 'x \<Rightarrow> (int \<times> string \<times> string) res \<times> 'x"
  http_open :: "string \<Rightarrow> string \<Rightarrow> int \<Rightarrow> int \<Rightarrow> (string \<Rightarrow> unit result) \<Rightarrow> 'x
    \<Rightarrow> (string \<times> int \<times> string option \<times> string) res \<times> 'x"
  private_address :: "string \<Rightarrow> bool"
  dumps :: "json \<Rightarrow> string"
  sha256 :: "string \<Rightarrow> string"
  store_file :: "string \<Rightarrow> string \<Rightarrow> 'x \<Rightarrow> unit res \<times> 'x"

section \<open>Policy (machine/policy.py)\<close>

definition policy_error :: "string \<Rightarrow> 'a result" where
  "policy_error msg = fail ''MachinePolicyError'' msg"

definition denied_relative_globs :: "string list" where
  "denied_relative_globs = [''.env'', ''data/awf_db/**'', ''data/registry/capabilities/**'']"

definition constraint_family :: "obj \<Rightarrow> string \<Rightarrow> obj result" where
  "constraint_family cs family = (case get family cs of
       JObj d \<Rightarrow> Inr d | _ \<Rightarrow> policy_error (''capability constraints must include '' @ str_repr family))"

definition texts :: "json \<Rightarrow> string list result" where
  "texts v = andThen (as_array v) (mapR as_text)"

definition root_path :: "'x machine \<Rightarrow> string \<Rightarrow> string \<Rightarrow> ('x, path) op" where
  "root_path M run_id base =
     (if base = ''worktree'' then outside (resolve M False (worktree M))
      else if base = ''scratch'' then outside (resolve M False (scratch_of M run_id))
      else if fst (parse_path base) then outside (resolve M False (parse_path base))
      else liftR (policy_error (''unsupported root '' @ str_repr base)))"

text \<open>candidate.relative_to(worktree.resolve()) when it is below it, else the path itself.\<close>

definition display_path :: "path \<Rightarrow> path \<Rightarrow> string" where
  "display_path cand wt =
     (if is_relative_to cand wt then as_posix (False, drop (length (snd wt)) (snd cand)) else as_posix cand)"

definition check_globs :: "string \<Rightarrow> obj \<Rightarrow> unit result" where
  "check_globs shown cs =
     andThen (texts (get_or ''deniedGlobs'' (JList []) cs)) (\<lambda>extra.
     if matches_any shown (denied_relative_globs @ extra) then policy_error (''path denied by policy: '' @ shown)
     else if truthy (get ''allowedGlobs'' cs) then
       andThen (texts (get ''allowedGlobs'' cs)) (\<lambda>allowed.
       if matches_any shown allowed then Inr () else policy_error (''path not allowed by glob policy: '' @ shown))
     else Inr ())"

definition resolve_allowed_path :: "'x machine \<Rightarrow> string \<Rightarrow> string \<Rightarrow> obj \<Rightarrow> bool \<Rightarrow> ('x, path) op" where
  "resolve_allowed_path M run_id relative_or_absolute cs must_exist =
     bindE (liftR (texts (get_or ''allowedRoots'' (JList [JStr ''worktree'', JStr ''scratch'']) cs))) (\<lambda>roots.
     bindE (mapE (root_path M run_id) roots) (\<lambda>root_paths.
     let raw = join_path (worktree M) (parse_path relative_or_absolute) in
     bindE (if truthy (get_or ''followSymlinks'' (JBool False) cs) then ret False else outside (is_symlink M raw)) (\<lambda>link.
     if link then liftR (policy_error (''symlink traversal denied: '' @ relative_or_absolute))
     else
       bindE (outside (resolve M must_exist raw)) (\<lambda>cand.
       if \<not> list_ex (is_relative_to cand) root_paths
       then liftR (policy_error (''path outside allowed roots: '' @ relative_or_absolute))
       else
         bindE (outside (resolve M False (worktree M))) (\<lambda>wt.
         seqE (liftR (check_globs (display_path cand wt) cs)) (ret cand))))))"

definition argv_matches :: "string list \<Rightarrow> string list \<Rightarrow> bool" where
  "argv_matches args pattern = (length args = length pattern \<and> list_all2 fnmatch args pattern)"

definition metacharacters :: "string list" where
  "metacharacters = [''|'', ''&&'', ''||'', '';'', ''>'', ''<'']"

definition validate_command :: "'x machine \<Rightarrow> string list \<Rightarrow> path \<Rightarrow> obj \<Rightarrow> ('x, unit) op" where
  "validate_command M argv cwd cs =
     (if argv = [] then liftR (policy_error ''command argv must not be empty'')
      else if list_ex (\<lambda>it. list_ex (\<lambda>t. sublist t it) metacharacters) argv
        then liftR (policy_error ''shell metacharacters require an explicit shell capability'')
      else if truthy (get ''executable'' cs) \<and> JStr (hd argv) \<noteq> get ''executable'' cs
        then liftR (policy_error (''executable '' @ str_repr (hd argv) @ '' does not match policy ''))
      else
        seqE (if truthy (get ''allowedArgs'' cs) then
                bindE (liftR (andThen (as_array (get ''allowedArgs'' cs)) (mapR texts))) (\<lambda>patterns.
                if list_ex (argv_matches (tl argv)) patterns then ret ()
                else liftR (policy_error ''argv not allowed by policy''))
              else ret ()) (
        seqE (if get_or ''cwdRoot'' (JStr ''worktree'') cs = JStr ''worktree'' then
                bindE (outside (resolve M False cwd)) (\<lambda>c.
                bindE (outside (resolve M False (worktree M))) (\<lambda>wt.
                if is_relative_to c wt then ret () else liftR (policy_error ''command cwd outside worktree'')))
              else ret ()) (
        bindE (liftR (int_of (get_or ''timeoutSeconds'' (JInt 0) cs))) (\<lambda>t.
        if t < 1 then liftR (policy_error ''command timeoutSeconds must be positive'') else ret ()))))"

definition host_allowed :: "string \<Rightarrow> string list \<Rightarrow> bool" where
  "host_allowed host allowed_hosts =
     list_ex (\<lambda>a. starts_with ''*.'' a \<and> ends_with (tl a) host \<or> host = a) allowed_hosts"

definition validate_url :: "'x machine \<Rightarrow> string \<Rightarrow> string \<Rightarrow> obj \<Rightarrow> unit result" where
  "validate_url M url http_method cs = (case url_hostname url of
       None \<Rightarrow> policy_error (''unsupported URL: '' @ url)
     | Some host \<Rightarrow>
         if url_scheme url \<notin> set [''http'', ''https''] then policy_error (''unsupported URL: '' @ url)
         else
           andThen (texts (get_or ''allowedMethods'' (JList [JStr ''GET'', JStr ''HEAD'']) cs)) (\<lambda>methods.
           if upper http_method \<notin> set methods then policy_error (''method '' @ str_repr http_method @ '' is not allowed'')
           else
             andThen (texts (get_or ''allowedHosts'' (JList []) cs)) (\<lambda>hosts.
             if \<not> host_allowed host hosts then policy_error (''host '' @ str_repr host @ '' is not allowed'')
             else if \<not> truthy (get_or ''allowPrivateRanges'' (JBool False) cs) \<and> private_address M host
               then policy_error (''private network host '' @ str_repr host @ '' is denied'')
             else
               andThen (int_of (get_or ''maxResponseBytes'' (JInt 0) cs)) (\<lambda>n.
               if n < 1 then policy_error ''network maxResponseBytes must be positive'' else Inr ()))))"

section \<open>Actions (machine/action.py)\<close>

record machine_action =
  ma_kind :: string
  ma_run :: string
  ma_step :: string
  ma_node :: json
  ma_operation :: string
  ma_capability :: string
  ma_risk :: string
  ma_approval :: string
  ma_target :: obj
  ma_body :: "string option"

definition action_dict :: "machine_action \<Rightarrow> obj" where
  "action_dict a = filter (\<lambda>(k, v). v \<noteq> JNull)
     [(''kind'', JStr (ma_kind a)), (''run_id'', JStr (ma_run a)), (''step_id'', JStr (ma_step a)),
      (''node_id'', ma_node a), (''operation'', JStr (ma_operation a)), (''capability_ref'', JStr (ma_capability a)),
      (''risk_class'', JStr (ma_risk a)), (''approval'', JStr (ma_approval a)), (''target'', JObj (ma_target a)),
      (''body_digest'', jopt (ma_body a)), (''metadata'', JObj [])]"

definition content_digest :: "'x machine \<Rightarrow> string \<Rightarrow> string" where
  "content_digest M data = ''sha256:'' @ sha256 M data"

definition action_digest :: "'x machine \<Rightarrow> machine_action \<Rightarrow> string" where
  "action_digest M a = content_digest M (dumps M (sort_json (JObj (action_dict a))))"

section \<open>The approval bridge (machine/approvals.py)\<close>

definition denied :: "string \<Rightarrow> ('w, 'a) act" where
  "denied msg = throw_class ''MachinePolicyDenied'' msg ''POLICY_DENIED''"

definition machine_action_event :: "'x machine \<Rightarrow> machine_action \<Rightarrow> string \<Rightarrow> string \<Rightarrow> string option \<Rightarrow> ('x, unit) op" where
  "machine_action_event M a reason_code actor approval_id =
     log_event (ma_run a) (Some (ma_step a)) reason_code actor reason_code
       (sort_json (JObj ([(''machine_action'', JObj (action_dict a)), (''machine_action_digest'', JStr (action_digest M a))]
          @ (case approval_id of None \<Rightarrow> [] | Some i \<Rightarrow> [(''approval_id'', JStr i)]))))"

text \<open>The machine activities' own events have the default actor.\<close>

definition machine_event :: "'x machine \<Rightarrow> machine_action \<Rightarrow> string \<Rightarrow> string option \<Rightarrow> ('x, unit) op" where
  "machine_event M a reason_code approval_id = machine_action_event M a reason_code ''awf'' approval_id"

definition record_executed :: "'x machine \<Rightarrow> machine_action \<Rightarrow> json \<Rightarrow> ('x, unit) op" where
  "record_executed M a output =
     log_event (ma_run a) (Some (ma_step a)) ''machine_action_executed'' ''awf'' ''machine_action_executed''
       (sort_json (JObj [(''machine_action'', JObj (action_dict a)), (''machine_action_digest'', JStr (action_digest M a)),
          (''output'', output)]))"

definition ensure_pending_approval :: "'x machine \<Rightarrow> machine_action \<Rightarrow> ('x, json) op" where
  "ensure_pending_approval M a =
     bindE (find_approval (\<lambda>p. a_step p = ma_step a)) (\<lambda>row. case row of
         Some p \<Rightarrow>
           if a_digest p \<noteq> action_digest M a
           then denied ''pending approval digest does not match current machine action''
           else ret (waiting (a_id p))
       | None \<Rightarrow>
           bindE uuid7 (\<lambda>approval_id.
           bindE utc_now_rfc3339 (\<lambda>now.
           seqE (insert_approval (pending_approval approval_id (ma_run a) (ma_step a) (action_digest M a) now (Some (ma_risk a)))) (
           seqE (mark_waiting (ma_run a) (ma_step a) now) (
           seqE (machine_event M a ''machine_action_waiting_approval'' (Some approval_id))
             (ret (waiting approval_id)))))))"

text \<open>None stands for the code's None: go on and execute.\<close>

definition authorize_machine_action :: "'x machine \<Rightarrow> capability \<Rightarrow> machine_action \<Rightarrow> ('x, json option) op" where
  "authorize_machine_action M cap a =
     bindE (authorize cap [cap_ref cap] (ma_run a) ''awf'' (Some (ma_step a)) None []) (\<lambda>decision. case decision of
         DENY \<Rightarrow> seqE (machine_event M a ''machine_action_denied'' None)
                   (denied (''blocked by Capability Guard: '' @ decision_value decision))
       | ALLOW \<Rightarrow> seqE (machine_event M a ''machine_action_allowed'' None) (ret None)
       | APPROVAL_REQUIRED \<Rightarrow> bindE (ensure_pending_approval M a) (\<lambda>v. ret (Some v)))"

definition approved_or_waiting :: "'x machine \<Rightarrow> machine_action \<Rightarrow> ('x, json option) op" where
  "approved_or_waiting M a =
     bindE (find_approval (\<lambda>p. a_step p = ma_step a)) (\<lambda>row. case row of
         None \<Rightarrow> ret None
       | Some p \<Rightarrow>
           if a_digest p \<noteq> action_digest M a
             then denied ''approved action digest does not match current machine action''
           else if a_status p = Pending then ret (Some (waiting (a_id p)))
           else if a_status p = Rejected then
             seqE (machine_event M a ''machine_action_denied'' (Some (a_id p)))
               (throw_class ''MachineApprovalRejected'' (''approval '' @ a_id p @ '' was rejected'') ''APPROVAL_REJECTED'')
           else ret None)"

section \<open>Activities (machine/activities.py)\<close>

definition machine_activity_error :: "string \<Rightarrow> string \<Rightarrow> ('w, 'a) act" where
  "machine_activity_error msg cls = throw_class ''MachineActivityError'' msg cls"

definition str_arg :: "json \<Rightarrow> ('w, string) act" where
  "str_arg v = liftR (as_text v)"

definition make_action :: "string \<Rightarrow> string \<Rightarrow> string \<Rightarrow> obj \<Rightarrow> capability \<Rightarrow> obj \<Rightarrow> string option \<Rightarrow> machine_action result" where
  "make_action kind run_id step_id node cap target body =
     andThen (item ''id'' node) (\<lambda>node_id.
       Inr \<lparr>ma_kind = kind, ma_run = run_id, ma_step = step_id, ma_node = node_id, ma_operation = operation (effects cap),
            ma_capability = cap_ref cap, ma_risk = risk_class cap, ma_approval = approval cap, ma_target = target,
            ma_body = body\<rparr>)"

definition cwd_constraints :: "obj \<Rightarrow> obj" where
  "cwd_constraints cs = [(''allowedRoots'', JList [get_or ''cwdRoot'' (JStr ''worktree'') cs])]"

definition utf8 :: "'x machine \<Rightarrow> string \<Rightarrow> string result" where
  "utf8 M s = encode M ''utf-8'' s"

definition fs_action :: "'x machine \<Rightarrow> string \<Rightarrow> string \<Rightarrow> obj \<Rightarrow> capability \<Rightarrow> obj \<Rightarrow> string \<Rightarrow> ('x, machine_action) op" where
  "fs_action M run_id step_id node cap args kind =
     bindE (liftR (constraint_family (constraints cap) ''filesystem'')) (\<lambda>cs.
     bindE (liftR (text_item ''path'' args)) (\<lambda>p.
     bindE (resolve_allowed_path M run_id p cs (kind \<in> set [''fs_read'', ''fs_delete''])) (\<lambda>path.
     bindE (if kind = ''fs_write'' then
              bindE (str_arg (get_or ''content'' (JStr []) args)) (\<lambda>c.
              bindE (liftR (utf8 M c)) (\<lambda>b. ret (Some (content_digest M b))))
            else ret None) (\<lambda>body.
       liftR (make_action kind run_id step_id node cap [(''path'', JStr (as_posix path))] body)))))"

definition command_action :: "'x machine \<Rightarrow> string \<Rightarrow> string \<Rightarrow> obj \<Rightarrow> capability \<Rightarrow> obj \<Rightarrow> ('x, machine_action) op" where
  "command_action M run_id step_id node cap args =
     bindE (liftR (constraint_family (constraints cap) ''command'')) (\<lambda>cs.
     bindE (liftR (andThen (item ''argv'' args) texts)) (\<lambda>argv.
     bindE (str_arg (get_or ''cwd'' (JStr ''.'') args)) (\<lambda>c.
     bindE (resolve_allowed_path M run_id c (cwd_constraints cs) True) (\<lambda>cwd.
     seqE (validate_command M argv cwd cs)
       (liftR (make_action ''command_run'' run_id step_id node cap
          [(''argv'', JList (map JStr argv)), (''cwd'', JStr (as_posix cwd))] None))))))"

definition http_method :: "obj \<Rightarrow> ('w, string) act" where
  "http_method args = bindE (str_arg (get_or ''method'' (JStr ''GET'') args)) (\<lambda>m. ret (upper m))"

definition network_action :: "'x machine \<Rightarrow> string \<Rightarrow> string \<Rightarrow> obj \<Rightarrow> capability \<Rightarrow> obj \<Rightarrow> ('x, machine_action) op" where
  "network_action M run_id step_id node cap args =
     bindE (liftR (constraint_family (constraints cap) ''network'')) (\<lambda>cs.
     bindE (http_method args) (\<lambda>verb.
     bindE (liftR (text_item ''url'' args)) (\<lambda>url.
     seqE (liftR (validate_url M url verb cs)) (
     bindE (if truthy (get ''body'' args) then
              bindE (str_arg (get ''body'' args)) (\<lambda>c.
              bindE (liftR (utf8 M c)) (\<lambda>b. ret (Some (content_digest M b))))
            else ret None) (\<lambda>body.
       liftR (make_action ''network_fetch'' run_id step_id node cap [(''method'', JStr verb), (''url'', JStr url)] body))))))"

definition build_action :: "'x machine \<Rightarrow> string \<Rightarrow> string \<Rightarrow> obj \<Rightarrow> capability \<Rightarrow> obj \<Rightarrow> ('x, machine_action) op" where
  "build_action M run_id step_id node cap args =
     bindE (liftR (text_item ''function'' node)) (\<lambda>kind.
     if starts_with ''fs_'' kind then fs_action M run_id step_id node cap args kind
     else if kind = ''command_run'' then command_action M run_id step_id node cap args
     else if kind = ''network_fetch'' then network_action M run_id step_id node cap args
     else liftR (policy_error (''unsupported machine activity: '' @ kind)))"

text \<open>int(args.get("maxBytes", constraints.get("maxBytes", 262144)))\<close>

definition byte_limit :: "obj \<Rightarrow> obj \<Rightarrow> int result" where
  "byte_limit args cs = int_of (get_or ''maxBytes'' (get_or ''maxBytes'' (JInt 262144) cs) args)"

definition fs_read :: "'x machine \<Rightarrow> string \<Rightarrow> obj \<Rightarrow> capability \<Rightarrow> ('x, json) op" where
  "fs_read M run_id args cap =
     bindE (liftR (constraint_family (constraints cap) ''filesystem'')) (\<lambda>cs.
     bindE (liftR (text_item ''path'' args)) (\<lambda>p.
     bindE (resolve_allowed_path M run_id p cs True) (\<lambda>path.
     bindE (liftR (byte_limit args cs)) (\<lambda>max_bytes.
     bindE (outside (read_bytes M path)) (\<lambda>data.
     if int (length data) > max_bytes
     then machine_activity_error (''file exceeds maxBytes ('' @ nat_str (length data) @ '' > '' @ int_str max_bytes @ '')'') ''POLICY_DENIED''
     else
       bindE (str_arg (get_or ''encoding'' (JStr ''utf-8'') args)) (\<lambda>enc.
       bindE (liftR (decode M enc data)) (\<lambda>text.
         ret (JObj [(''path'', JStr (as_posix path)), (''sha256'', JStr (content_digest M data)), (''content'', JStr text)]))))))))"

definition fs_write :: "'x machine \<Rightarrow> string \<Rightarrow> obj \<Rightarrow> capability \<Rightarrow> ('x, json) op" where
  "fs_write M run_id args cap =
     bindE (liftR (constraint_family (constraints cap) ''filesystem'')) (\<lambda>cs.
     bindE (liftR (text_item ''path'' args)) (\<lambda>p.
     bindE (resolve_allowed_path M run_id p cs False) (\<lambda>path.
     bindE (str_arg (get_or ''content'' (JStr []) args)) (\<lambda>content.
     bindE (str_arg (get_or ''encoding'' (JStr ''utf-8'') args)) (\<lambda>enc.
     bindE (liftR (encode M enc content)) (\<lambda>data.
     bindE (liftR (byte_limit args cs)) (\<lambda>max_bytes.
     if int (length data) > max_bytes
     then machine_activity_error (''content exceeds maxBytes ('' @ nat_str (length data) @ '' > '' @ int_str max_bytes @ '')'') ''POLICY_DENIED''
     else
       seqE (outside (write_replace M path data))
         (ret (JObj [(''path'', JStr (as_posix path)), (''sha256'', JStr (content_digest M data)),
                     (''bytes'', JInt (int (length data)))]))))))))) "

text \<open>target = worktree / ".awf-trash" / f"{content_digest(str(path))[7:19]}-{path.name}"\<close>

definition fs_delete :: "'x machine \<Rightarrow> string \<Rightarrow> obj \<Rightarrow> capability \<Rightarrow> ('x, json) op" where
  "fs_delete M run_id args cap =
     bindE (liftR (constraint_family (constraints cap) ''filesystem'')) (\<lambda>cs.
     bindE (liftR (text_item ''path'' args)) (\<lambda>p.
     bindE (resolve_allowed_path M run_id p cs True) (\<lambda>path.
     bindE (liftR (utf8 M (as_posix path))) (\<lambda>b.
     let name = take 12 (drop 7 (content_digest M b)) @ ''-'' @ path_name path;
         target = join_path (worktree M) (False, [''.awf-trash'', name]) in
     seqE (outside (move_to_trash M path target))
       (ret (JObj [(''path'', JStr (as_posix path)), (''trash_path'', JStr (as_posix target)), (''reversible'', JBool True)]))))))"

definition command_run :: "'x machine \<Rightarrow> string \<Rightarrow> string \<Rightarrow> obj \<Rightarrow> capability \<Rightarrow> ('x, json) op" where
  "command_run M run_id step_id args cap =
     bindE (liftR (constraint_family (constraints cap) ''command'')) (\<lambda>cs.
     bindE (liftR (andThen (item ''argv'' args) texts)) (\<lambda>argv.
     bindE (str_arg (get_or ''cwd'' (JStr ''.'') args)) (\<lambda>c.
     bindE (resolve_allowed_path M run_id c (cwd_constraints cs) True) (\<lambda>cwd.
     seqE (validate_command M argv cwd cs) (
     bindE (liftR (andThen (item ''timeoutSeconds'' cs) int_of)) (\<lambda>timeout.
     bindE (attempt (outside (subprocess M (python_argv M argv) cwd timeout))) (\<lambda>r. case r of
         Inl e \<Rightarrow>
           if exc_type e = ''TimeoutExpired''
           then machine_activity_error (''command timed out after '' @ int_str timeout @ ''s'') ''TIMEOUT''
           else raise e
       | Inr (code, stdout, stderr) \<Rightarrow>
           bindE (liftR (utf8 M stdout)) (\<lambda>ob.
           bindE (liftR (utf8 M stderr)) (\<lambda>eb.
           bindE (liftR (int_of (get_or ''maxOutputBytes'' (JInt 65536) cs))) (\<lambda>max_output.
           if int (length ob + length eb) > max_output then
             bindE (write_artifact (sha256 M) (store_file M) run_id step_id
                      (dumps M (JObj [(''stdout'', JStr stdout), (''stderr'', JStr stderr)])) ''application/json'' REPORT) (\<lambda>i.
               ret (JObj [(''returncode'', JInt code), (''output_artifact_id'', JStr i), (''output_truncated'', JBool True)]))
           else ret (JObj [(''returncode'', JInt code), (''stdout'', JStr stdout), (''stderr'', JStr stderr)]))))))))))) "

text \<open>
  http_open url method timeout limit check: opens the URL, checking every redirect target, and reads
  at most limit bytes; it gives the final URL, the status, the content type and the bytes read.
\<close>

definition network_fetch :: "'x machine \<Rightarrow> string \<Rightarrow> string \<Rightarrow> obj \<Rightarrow> capability \<Rightarrow> ('x, json) op" where
  "network_fetch M run_id step_id args cap =
     bindE (liftR (constraint_family (constraints cap) ''network'')) (\<lambda>cs.
     bindE (http_method args) (\<lambda>verb.
     bindE (liftR (text_item ''url'' args)) (\<lambda>url.
     seqE (liftR (validate_url M url verb cs)) (
     bindE (liftR (int_of (get_or ''timeoutSeconds'' (JInt 30) cs))) (\<lambda>timeout.
     bindE (liftR (andThen (item ''maxResponseBytes'' cs) int_of)) (\<lambda>max_bytes.
     bindE (attempt (outside (http_open M url verb timeout (max_bytes + 1) (\<lambda>u. validate_url M u verb cs)))) (\<lambda>r. case r of
         Inl e \<Rightarrow>
           if exc_type e \<in> set [''HTTPError'', ''URLError''] then machine_activity_error (exc_text e) ''TOOL_ERROR'' else raise e
       | Inr (final_url, status, ctype, body) \<Rightarrow>
           seqE (liftR (validate_url M final_url verb cs)) (
           if int (length body) > max_bytes then machine_activity_error ''response exceeds maxResponseBytes'' ''POLICY_DENIED''
           else
             let output = [(''url'', JStr url), (''final_url'', JStr final_url), (''status'', JInt status),
                           (''content_type'', jopt ctype), (''bytes'', JInt (int (length body))),
                           (''body_digest'', JStr (content_digest M body))] in
             if truthy (get_or ''retainBodyAsArtifact'' (JBool False) cs) then
               bindE (write_artifact (sha256 M) (store_file M) run_id step_id body
                        (case ctype of Some (x # t) \<Rightarrow> x # t | _ \<Rightarrow> ''application/octet-stream'') REPORT) (\<lambda>i.
                 ret (JObj (output @ [(''artifact_id'', JStr i)])))
             else ret (JObj output)))))))))"

definition execute :: "'x machine \<Rightarrow> string \<Rightarrow> string \<Rightarrow> string \<Rightarrow> obj \<Rightarrow> capability \<Rightarrow> ('x, json) op" where
  "execute M run_id step_id kind args cap =
     (if kind = ''fs_read'' then fs_read M run_id args cap
      else if kind = ''fs_write'' then fs_write M run_id args cap
      else if kind = ''fs_delete'' then fs_delete M run_id args cap
      else if kind = ''command_run'' then command_run M run_id step_id args cap
      else if kind = ''network_fetch'' then network_fetch M run_id step_id args cap
      else liftR (policy_error (''unsupported machine activity: '' @ kind)))"

text \<open>_mark_failed: one UPDATE of the step, one of the run.\<close>

definition mark_failed :: "string \<Rightarrow> string \<Rightarrow> exc \<Rightarrow> ('x, unit) op" where
  "mark_failed run_id step_id e = seqE (step_failed step_id (failure_class e)) (set_run_status run_id RUN_FAILED)"

text \<open>The body of the try block, over what it executes.\<close>

definition machine_body ::
  "'x machine \<Rightarrow> string \<Rightarrow> string \<Rightarrow> obj \<Rightarrow> capability \<Rightarrow> obj \<Rightarrow> step_status \<Rightarrow> (string \<Rightarrow> ('x, json) op) \<Rightarrow> ('x, json) op" where
  "machine_body M run_id step_id node cap args status exec =
     bindE (build_action M run_id step_id node cap args) (\<lambda>a.
     bindE (approved_or_waiting M a) (\<lambda>w1. case w1 of
         Some v \<Rightarrow> ret v
       | None \<Rightarrow>
           bindE (if status \<noteq> WAITING_APPROVAL then authorize_machine_action M cap a else ret None) (\<lambda>w2. case w2 of
               Some v \<Rightarrow> ret v
             | None \<Rightarrow>
                 seqE (step_running step_id) (
                 bindE (liftR (text_item ''function'' node)) (\<lambda>kind.
                 bindE (exec kind) (\<lambda>output.
                 seqE (step_succeeded step_id output) (
                 seqE (record_executed M a output) (ret output))))))))"

definition run_machine_activity_with ::
  "'x machine \<Rightarrow> string \<Rightarrow> string \<Rightarrow> obj \<Rightarrow> capability \<Rightarrow> (string \<Rightarrow> ('x, json) op) \<Rightarrow> ('x, json) op" where
  "run_machine_activity_with M run_id step_id node cap exec =
     bindE (bindE (find_step step_id) (demand none_type)) (\<lambda>row.
     if s_status row = SUCCEEDED then loads (s_output row)
     else
       catchE (machine_body M run_id step_id node cap (as_obj (get_or ''args'' (JObj []) node)) (s_status row) exec)
         (\<lambda>e. seqE (mark_failed run_id step_id e) (raise e)))"

definition run_machine_activity :: "'x machine \<Rightarrow> string \<Rightarrow> string \<Rightarrow> obj \<Rightarrow> capability \<Rightarrow> ('x, json) op" where
  "run_machine_activity M run_id step_id node cap =
     run_machine_activity_with M run_id step_id node cap
       (\<lambda>kind. execute M run_id step_id kind (as_obj (get_or ''args'' (JObj []) node)) cap)"

section \<open>What machine activities keep\<close>

lemma carries_policy [carry]:
  "carries (kept w0) (root_path M r b)" "carries (kept w0) (resolve_allowed_path M r p cs e)"
  "carries (kept w0) (validate_command M argv cwd cs)"
proof -
  show root: "carries (kept w0) (root_path M r b)" for b
    unfolding root_path_def by (intro carry)
  show "carries (kept w0) (resolve_allowed_path M r p cs e)"
    unfolding resolve_allowed_path_def by (intro carry root)
  show "carries (kept w0) (validate_command M argv cwd cs)"
    unfolding validate_command_def by (intro carry)
qed

lemma carries_str_arg [carry]: "carries I (str_arg v)" "carries I (http_method args)"
  "carries I (machine_activity_error m c)" "carries I (denied m)"
  unfolding str_arg_def http_method_def machine_activity_error_def denied_def by (intro carry)+

lemma carries_build_action [carry]: "carries (kept w0) (build_action M r s n c a)"
  unfolding build_action_def fs_action_def command_action_def network_action_def by (intro carry)

lemma carries_machine_event [carry]:
  "carries (kept w0) (machine_event M a c i)" "carries (kept w0) (machine_action_event M a c actor i)"
  "carries (kept w0) (record_executed M a out)"
  unfolding machine_event_def machine_action_event_def record_executed_def by (intro carry)+

lemma carries_approved_or_waiting [carry]: "carries (kept w0) (approved_or_waiting M a)"
  unfolding approved_or_waiting_def by (intro carry)

lemma carries_decision [carry]:
  "carries I a \<Longrightarrow> carries I b \<Longrightarrow> carries I c \<Longrightarrow> carries I (case d of ALLOW \<Rightarrow> a | DENY \<Rightarrow> b | APPROVAL_REQUIRED \<Rightarrow> c)"
  by (cases d) simp_all

lemma carries_authorize_machine_action:
  assumes "ma_step a \<notin> s_id ` done_steps w0"
  shows "carries (kept w0) (authorize_machine_action M cap a)"
  unfolding authorize_machine_action_def ensure_pending_approval_def
  by (intro carry carries_mark_waiting assms)

lemma carries_execute [carry]: "carries (kept w0) (execute M r s k a c)"
  unfolding execute_def fs_read_def fs_write_def fs_delete_def command_run_def network_fetch_def
  by (intro carry)

lemma make_action_Inr:
  "make_action k r s n c t b = Inr a \<Longrightarrow> ma_step a = s \<and> ma_run a = r \<and> ma_capability a = cap_ref c"
  by (auto simp: make_action_def andThen_def split: sum.splits)

lemma make_action_Val:
  "liftR (make_action k r s n c t b) w = (Val a, w') \<Longrightarrow> ma_step a = s \<and> ma_run a = r \<and> ma_capability a = cap_ref c"
  by (auto simp: liftR_Val dest: make_action_Inr)

lemma policy_error_Val: "liftR (policy_error m) w \<noteq> (Val a, w')"
  by (simp add: policy_error_def fail_def liftR_Val)

lemma fs_action_Val: "fs_action M r s n c args k w = (Val a, w') \<Longrightarrow> ma_step a = s \<and> ma_run a = r \<and> ma_capability a = cap_ref c"
  unfolding fs_action_def bind_Val seq_Val by (elim exE conjE) (drule make_action_Val, simp)

lemma command_action_Val: "command_action M r s n c args w = (Val a, w') \<Longrightarrow> ma_step a = s \<and> ma_run a = r \<and> ma_capability a = cap_ref c"
  unfolding command_action_def bind_Val seq_Val by (elim exE conjE) (drule make_action_Val, simp)

lemma network_action_Val: "network_action M r s n c args w = (Val a, w') \<Longrightarrow> ma_step a = s \<and> ma_run a = r \<and> ma_capability a = cap_ref c"
  unfolding network_action_def bind_Val seq_Val by (elim exE conjE) (drule make_action_Val, simp)

lemma build_action_Val:
  "build_action M r s n c args w = (Val a, w') \<Longrightarrow> ma_step a = s \<and> ma_run a = r \<and> ma_capability a = cap_ref c"
  unfolding build_action_def bind_Val
  by (elim exE conjE) (simp add: fs_action_Val command_action_Val network_action_Val policy_error_Val split: if_splits)

lemma carries_bind_val:
  assumes "carries I m" "\<And>w a w'. m w = (Val a, w') \<Longrightarrow> carries I (f a)"
  shows "carries I (bindE m f)"
proof (rule carriesI)
  fix w assume I: "I w"
  show "I (snd (bindE m f w))"
    using carriesD [OF assms(1) I] assms(2) [THEN carriesD]
    by (cases "m w"; cases "fst (m w)") (auto simp: bindE_def)
qed

lemma carries_machine_body:
  assumes "s \<notin> s_id ` done_steps w0" "\<And>k. carries (kept w0) (exec k)"
  shows "carries (kept w0) (machine_body M r s n c args st exec)"
  unfolding machine_body_def
proof (rule carries_bind_val [OF carries_build_action])
  fix w a w' assume "build_action M r s n c args w = (Val a, w')"
  then have new: "ma_step a \<notin> s_id ` done_steps w0" using assms(1) by (simp add: build_action_Val)
  show "carries (kept w0) (bindE (approved_or_waiting M a) (\<lambda>w1. case w1 of
         Some v \<Rightarrow> ret v
       | None \<Rightarrow>
           bindE (if st \<noteq> WAITING_APPROVAL then authorize_machine_action M c a else ret None) (\<lambda>w2. case w2 of
               Some v \<Rightarrow> ret v
             | None \<Rightarrow>
                 seqE (step_running s) (
                 bindE (liftR (text_item ''function'' n)) (\<lambda>kind.
                 bindE (exec kind) (\<lambda>output.
                 seqE (step_succeeded s output) (
                 seqE (record_executed M a output) (ret output))))))))"
    by (intro carry carries_step_marks assms carries_authorize_machine_action new)
qed

lemma carries_machine_activity_with:
  assumes "\<And>k. carries (kept w0) (exec k)"
  shows "carries (kept w0) (run_machine_activity_with M r s n c exec)"
  unfolding run_machine_activity_with_def mark_failed_def
  by (intro carries_if_succeeded carry carries_machine_body carries_step_marks assms)

lemma carries_machine_activity [carry]: "carries (kept w0) (run_machine_activity M r s n c)"
  unfolding run_machine_activity_def by (intro carries_machine_activity_with carries_execute)

section \<open>Clearance of an action\<close>

lemma carries_same_outside [carry]: "carries (same_tables w0) (outside f)"
  by (rule carriesI) (simp add: outside_def same_tables_def split: prod.split)

lemma same_root: "carries (same_tables w0) (root_path M r b)"
  unfolding root_path_def by (intro carry)

lemma same_allowed: "carries (same_tables w0) (resolve_allowed_path M r p cs e)"
  unfolding resolve_allowed_path_def by (intro carry same_root)

lemma same_command: "carries (same_tables w0) (validate_command M argv cwd cs)"
  unfolding validate_command_def by (intro carry)

lemma build_action_same:
  assumes "build_action M r s n c args w = (x, w')"
  shows "same_tables w w'"
proof -
  have "carries (same_tables w) (build_action M r s n c args)"
    unfolding build_action_def fs_action_def command_action_def network_action_def
    by (intro carry same_allowed same_command)
  from carriesD [OF this, of w] assms show ?thesis by (simp add: same_tables_def)
qed

lemma bind_cong:
  assumes "\<And>a w1. m w = (Val a, w1) \<Longrightarrow> f a w1 = g a w1"
  shows "bindE m f w = bindE m g w"
  using assms by (auto simp: bindE_def split: prod.split res.split)

lemma catch_cong: "m w = m' w \<Longrightarrow> catchE m h w = catchE m' h w"
  by (simp add: catchE_def bindE_def attempt_def)

lemma approved_or_waiting_None:
  assumes "approved_or_waiting M a w = (Val None, w')"
  shows "w' = w \<and> (\<forall>p. find (\<lambda>p. a_step p = ma_step a) (approvals w) = Some p \<longrightarrow>
      a_digest p = action_digest M a \<and> a_status p \<notin> {Pending, Rejected})"
proof (cases "find (\<lambda>p. a_step p = ma_step a) (approvals w)")
  case None
  with assms show ?thesis by (simp add: approved_or_waiting_def find_approval_def bindE_def gets_def ret_def)
next
  case (Some p)
  with assms show ?thesis
    by (simp add: approved_or_waiting_def find_approval_def bind_Val basic_Val seq_Val denied_def split: if_splits)
qed

lemma authorize_decision:
  assumes "authorize cap allowlist r actor s role extra w = (Val d, w')"
  shows "\<exists>reason. evaluate cap allowlist role = Inr (d, reason)"
  using assms by (auto simp: authorize_def bind_Val liftR_Val seq_Val basic_Val case_prod_Val Let_def)

lemma evaluate_own: "evaluate cap [cap_ref cap] None = Inr (d, reason) \<Longrightarrow> policy cap [cap_ref cap] None = d"
  by (auto simp: evaluate_def policy_def forbidden_def needs_no_approval_def Let_def split: if_splits)

lemma authorize_machine_action_None:
  assumes "authorize_machine_action M cap a w = (Val None, w')"
  shows "policy cap [cap_ref cap] None = ALLOW"
proof -
  obtain d w1 where d: "authorize cap [cap_ref cap] (ma_run a) ''awf'' (Some (ma_step a)) None [] w = (Val d, w1)"
      "(case d of DENY \<Rightarrow> seqE (machine_event M a ''machine_action_denied'' None)
                   (denied (''blocked by Capability Guard: '' @ decision_value d))
       | ALLOW \<Rightarrow> seqE (machine_event M a ''machine_action_allowed'' None) (ret None)
       | APPROVAL_REQUIRED \<Rightarrow> bindE (ensure_pending_approval M a) (\<lambda>v. ret (Some v))) w1 = (Val None, w')"
    using assms unfolding authorize_machine_action_def bind_Val by blast
  have "d = ALLOW" using d(2) by (cases d) (simp_all add: seq_Val bind_Val basic_Val denied_def)
  with authorize_decision [OF d(1)] evaluate_own show ?thesis by blast
qed

text \<open>
  What clears a built action for execution: no approval row of its Step contradicts it, and either the
  Step already waits for an approval or the Guard's policy allows the capability outright.
\<close>

definition machine_cleared :: "'x machine \<Rightarrow> capability \<Rightarrow> machine_action \<Rightarrow> step_status \<Rightarrow> approval_row option \<Rightarrow> bool" where
  "machine_cleared M cap a status row =
     ((case row of None \<Rightarrow> True | Some p \<Rightarrow> a_digest p = action_digest M a \<and> a_status p \<notin> {Pending, Rejected}) \<and>
      (status = WAITING_APPROVAL \<or> policy cap [cap_ref cap] None = ALLOW))"

lemma machine_body_uncleared:
  assumes "\<And>a w1. build_action M r s n c args w = (Val a, w1) \<Longrightarrow>
      \<not> machine_cleared M c a st (find (\<lambda>p. a_step p = s) (approvals w))"
  shows "machine_body M r s n c args st exec w = machine_body M r s n c args st exec' w"
  unfolding machine_body_def
proof (rule bind_cong, rule bind_cong)
  fix a w1 v1 w2
  assume a: "build_action M r s n c args w = (Val a, w1)" and v: "approved_or_waiting M a w1 = (Val v1, w2)"
  from a have apps: "approvals w1 = approvals w" "ma_step a = s"
    using build_action_same [OF a] build_action_Val [OF a] by (simp_all add: same_tables_def)
  let ?k = "\<lambda>f w2'. case w2' of Some v \<Rightarrow> ret v
       | None \<Rightarrow> seqE (step_running s) (bindE (liftR (text_item ''function'' n)) (\<lambda>kind.
                 bindE (f kind) (\<lambda>output. seqE (step_succeeded s output) (seqE (record_executed M a output) (ret output)))))"
  show "(case v1 of Some v \<Rightarrow> ret v
       | None \<Rightarrow> bindE (if st \<noteq> WAITING_APPROVAL then authorize_machine_action M c a else ret None) (?k exec)) w2 =
     (case v1 of Some v \<Rightarrow> ret v
       | None \<Rightarrow> bindE (if st \<noteq> WAITING_APPROVAL then authorize_machine_action M c a else ret None) (?k exec')) w2"
  proof (cases v1)
    case None
    have "st \<noteq> WAITING_APPROVAL" "policy c [cap_ref c] None \<noteq> ALLOW"
      using assms [OF a] approved_or_waiting_None [OF v [unfolded None]] apps
      by (auto simp: machine_cleared_def split: option.splits)
    then have "bindE (if st \<noteq> WAITING_APPROVAL then authorize_machine_action M c a else ret None) (?k exec) w2 =
        bindE (if st \<noteq> WAITING_APPROVAL then authorize_machine_action M c a else ret None) (?k exec') w2"
      by (intro bind_cong) (auto dest: authorize_machine_action_None split: option.split)
    with None show ?thesis by simp
  qed simp
qed

section \<open>Confinement of paths\<close>

lemma mapE_Val:
  "mapE f xs w = (Val ys, w') \<Longrightarrow> y \<in> set ys \<Longrightarrow> \<exists>x\<in>set xs. \<exists>w1 w2. f x w1 = (Val y, w2)"
proof (induction xs arbitrary: ys w w')
  case Nil
  then show ?case by (simp add: basic_Val)
next
  case (Cons x xs)
  then obtain z w1 zs w2 where z: "f x w = (Val z, w1)" and zs: "mapE f xs w1 = (Val zs, w2)" and "ys = z # zs"
    by (auto simp: bind_Val basic_Val)
  with Cons(3) have "y = z \<or> y \<in> set zs" by auto
  with z Cons(1) [OF zs] show ?case by auto
qed

text \<open>
  A file system that stays put while a policy is checked: resolving a path always gives its canonical
  form; and the path a root of the policy stands for.
\<close>

definition static_paths :: "'x machine \<Rightarrow> (path \<Rightarrow> path) \<Rightarrow> bool" where
  "static_paths M canon = (\<forall>e p x q x'. resolve M e p x = (Val q, x') \<longrightarrow> q = canon p)"

definition root_base :: "'x machine \<Rightarrow> string \<Rightarrow> string \<Rightarrow> path" where
  "root_base M run_id b = (if b = ''worktree'' then worktree M else if b = ''scratch'' then scratch_of M run_id else parse_path b)"

lemma static_resolve: "static_paths M canon \<Longrightarrow> outside (resolve M e p) w = (Val q, w') \<Longrightarrow> q = canon p"
  unfolding static_paths_def outside_Val by blast

lemma root_path_Val: "static_paths M canon \<Longrightarrow> root_path M r b w = (Val q, w') \<Longrightarrow> q = canon (root_base M r b)"
  by (auto simp: root_path_def root_base_def policy_error_Val dest: static_resolve split: if_splits)

lemma check_globs_Inr:
  assumes "check_globs shown cs = Inr u"
  shows "\<not> matches_any shown denied_relative_globs"
    "texts (get_or ''deniedGlobs'' (JList []) cs) = Inr extra \<Longrightarrow> \<not> matches_any shown extra"
    "truthy (get ''allowedGlobs'' cs) \<Longrightarrow> \<exists>allowed. texts (get ''allowedGlobs'' cs) = Inr allowed \<and> matches_any shown allowed"
  using assms
  by (auto simp: check_globs_def andThen_def policy_error_def fail_def matches_any_def split: sum.splits if_splits)

lemma resolve_allowed_path_Val:
  assumes "static_paths M canon" "resolve_allowed_path M r p cs me w = (Val q, w')"
  obtains roots b where "texts (get_or ''allowedRoots'' (JList [JStr ''worktree'', JStr ''scratch'']) cs) = Inr roots"
    "b \<in> set roots" "is_relative_to q (canon (root_base M r b))"
    "q = canon (join_path (worktree M) (parse_path p))"
    "check_globs (display_path q (canon (worktree M))) cs = Inr ()"
proof -
  obtain roots rps w1 link w2 w3 where
    roots: "texts (get_or ''allowedRoots'' (JList [JStr ''worktree'', JStr ''scratch'']) cs) = Inr roots"
    and rps: "mapE (root_path M r) roots w = (Val rps, w1)"
    and rest: "(if link then liftR (policy_error (''symlink traversal denied: '' @ p))
     else
       bindE (outside (resolve M me (join_path (worktree M) (parse_path p)))) (\<lambda>cand.
       if \<not> list_ex (is_relative_to cand) rps
       then liftR (policy_error (''path outside allowed roots: '' @ p))
       else
         bindE (outside (resolve M False (worktree M))) (\<lambda>wt.
         seqE (liftR (check_globs (display_path cand wt) cs)) (ret cand)))) w2 = (Val q, w')"
    using assms(2) unfolding resolve_allowed_path_def bind_Val Let_def liftR_Val by blast
  have link: "\<not> link" using rest by (auto simp: policy_error_Val)
  with rest obtain w4 where cand: "outside (resolve M me (join_path (worktree M) (parse_path p))) w2 = (Val q, w4)"
    and some: "list_ex (is_relative_to q) rps"
    and glob: "\<exists>wt w5. outside (resolve M False (worktree M)) w4 = (Val wt, w5) \<and> check_globs (display_path q wt) cs = Inr ()"
    by (auto simp: bind_Val seq_Val basic_Val liftR_Val policy_error_def fail_def split: if_splits)
  from some obtain rp where "rp \<in> set rps" "is_relative_to q rp" by (auto simp: list_ex_iff)
  with mapE_Val [OF rps] root_path_Val [OF assms(1)] obtain b where "b \<in> set roots" "is_relative_to q (canon (root_base M r b))"
    by metis
  with that roots static_resolve [OF assms(1) cand] glob static_resolve [OF assms(1)] show ?thesis by metis
qed
section \<open>Properties\<close>


definition demo_machine :: "unit machine" where
  "demo_machine = \<lparr>worktree = (True, [''wt'']), scratch_of = (\<lambda>r. (True, [''scratch'', r])),
     resolve = (\<lambda>e p x. (Val p, x)), is_symlink = (\<lambda>p x. (Val False, x)),
     read_bytes = (\<lambda>p x. (Val ''0123456789abcdef'', x)), write_replace = (\<lambda>p d x. (Val (), x)),
     move_to_trash = (\<lambda>p t x. (Val (), x)), encode = (\<lambda>e s. Inr s), decode = (\<lambda>e s. Inr s),
     python_argv = (\<lambda>a. a), subprocess = (\<lambda>a c t x. (Val (0, [], []), x)),
     http_open = (\<lambda>u m t l f x. (Val (u, 200, None, []), x)), private_address = (\<lambda>h. False),
     dumps = (\<lambda>j. ''json''), sha256 = (\<lambda>s. s), store_file = (\<lambda>n d x. (Val (), x))\<rparr>"

definition demo_read_node :: obj where
  "demo_read_node = [(''id'', JStr ''a''), (''function'', JStr ''fs_read''), (''args'', JObj [(''path'', JStr ''x.txt'')])]"

definition demo_fs_capability :: capability where
  "demo_fs_capability = demo_capability ''fs_read'' ''R0'' ''never'' [(''filesystem'', JObj [(''maxBytes'', JInt 10)])]"


text \<open>
  C37. Paths are confined.  While the file system stays put, a path the policy lets through is the
  canonical form of the requested path, lies inside one of the allowed roots, and, shown relative to
  the worktree, matches none of the built-in denied patterns nor the capability's own, and matches
  the capability's allowed patterns if it has any.
\<close>

theorem allowed_path_confined:
  assumes "static_paths M canon"
    and "resolve_allowed_path M r p cs must_exist w = (Val q, w')"
  shows "q = canon (join_path (worktree M) (parse_path p)) \<and>
    (\<exists>roots b. texts (get_or ''allowedRoots'' (JList [JStr ''worktree'', JStr ''scratch'']) cs) = Inr roots \<and>
       b \<in> set roots \<and> is_relative_to q (canon (root_base M r b))) \<and>
    (let shown = display_path q (canon (worktree M)) in
       \<not> matches_any shown denied_relative_globs \<and>
       (\<forall>extra. texts (get_or ''deniedGlobs'' (JList []) cs) = Inr extra \<longrightarrow> \<not> matches_any shown extra) \<and>
       (truthy (get ''allowedGlobs'' cs) \<longrightarrow>
          (\<exists>allowed. texts (get ''allowedGlobs'' cs) = Inr allowed \<and> matches_any shown allowed)))"
proof -
  obtain roots b where *: "texts (get_or ''allowedRoots'' (JList [JStr ''worktree'', JStr ''scratch'']) cs) = Inr roots"
      "b \<in> set roots" "is_relative_to q (canon (root_base M r b))"
      "q = canon (join_path (worktree M) (parse_path p))"
    and globs: "check_globs (display_path q (canon (worktree M))) cs = Inr ()"
    by (rule resolve_allowed_path_Val [OF assms])
  show ?thesis
    unfolding Let_def using * check_globs_Inr [OF globs] by blast
qed

theorem allowed_path_confined_witness:
  "\<not> matches_any (display_path (True, [''wt'', ''src'', ''a.py'']) (True, [''wt''])) denied_relative_globs \<and>
   is_relative_to (True, [''wt'', ''src'', ''a.py'']) (True, [''wt''])"
proof -
  let ?cs = "[(''allowedRoots'', JList [JStr ''worktree''])]"
  let ?r = "resolve_allowed_path demo_machine ''run'' ''src/./a.py'' ?cs True (one_run () [])"
  have static: "static_paths demo_machine (\<lambda>p. p)" by (simp add: static_paths_def demo_machine_def)
  have "fst ?r = Val (True, [''wt'', ''src'', ''a.py''])" by code_simp
  then have r: "?r = (Val (True, [''wt'', ''src'', ''a.py'']), snd ?r)" by (metis prod.collapse)
  have roots: "texts (get_or ''allowedRoots'' (JList [JStr ''worktree'', JStr ''scratch'']) ?cs) = Inr [''worktree'']"
    by code_simp
  have wt: "worktree demo_machine = (True, [''wt''])" by (simp add: demo_machine_def)
  note c = allowed_path_confined [OF static r, unfolded roots Let_def wt]
  from c have "\<not> matches_any (display_path (True, [''wt'', ''src'', ''a.py'']) (True, [''wt''])) denied_relative_globs"
    by blast
  moreover from c have "is_relative_to (True, [''wt'', ''src'', ''a.py'']) (True, [''wt''])"
    by (auto simp: root_base_def wt)
  ultimately show ?thesis by blast
qed

text \<open>
  The built-in denied patterns protect only the worktree.  They are matched against the path
  relative to the worktree, so for every absolute path outside it none of them ever matches: where a
  capability allows such a root, the repository's own .env, database and capability records are
  within reach.
\<close>

theorem denied_globs_cover_only_the_worktree:
  assumes "fst q" "\<not> is_relative_to q wt"
  shows "check_globs (display_path q wt) [] = Inr ()"
proof -
  have "as_posix q = CHR ''/'' # join ''/'' (snd q)" using assms(1) by (simp add: as_posix_def)
  moreover have "\<not> matches_any (CHR ''/'' # t) denied_relative_globs" for t
    by (simp add: matches_any_def denied_relative_globs_def)
  ultimately show ?thesis using assms(2) by (simp add: check_globs_def display_path_def texts_def andThen_def get_or_def get_def as_array_def)
qed

theorem denied_globs_cover_only_the_worktree_witness:
  "check_globs (display_path (True, [''repo'', ''.env'']) (True, [''repo'', ''worktrees'', ''run''])) [] = Inr () \<and>
   check_globs (display_path (True, [''repo'', ''.env'']) (True, [''repo''])) [] \<noteq> Inr ()"
proof -
  have "check_globs (display_path (True, [''repo'', ''.env'']) (True, [''repo''])) [] =
      Inl (Exc ''MachinePolicyError'' ''path denied by policy: .env'' None)" by code_simp
  moreover have "check_globs (display_path (True, [''repo'', ''.env'']) (True, [''repo'', ''worktrees'', ''run''])) [] = Inr ()"
    by (rule denied_globs_cover_only_the_worktree) (simp_all add: is_relative_to_def prefix_def)
  ultimately show ?thesis by simp
qed

text \<open>
  The node's own maxBytes takes the place of the capability's: a file of 16 bytes is read under a
  capability that allows 10.
\<close>

lemma args_override_max_bytes:
  "byte_limit ((''maxBytes'', JInt n) # args) cs = Inr n"
  "\<exists>out. fst (fs_read demo_machine ''run'' [(''path'', JStr ''x.txt''), (''maxBytes'', JInt 99)] demo_fs_capability (one_run () [])) =
     Val (JObj out) \<and> get ''content'' out = JStr ''0123456789abcdef''"
proof -
  show "byte_limit ((''maxBytes'', JInt n) # args) cs = Inr n"
    by (simp add: byte_limit_def get_or_def get_def int_of_def py_int_def)
  have "fst (fs_read demo_machine ''run'' [(''path'', JStr ''x.txt''), (''maxBytes'', JInt 99)] demo_fs_capability (one_run () [])) =
     Val (JObj [(''path'', JStr ''/wt/x.txt''), (''sha256'', JStr ''sha256:0123456789abcdef''), (''content'', JStr ''0123456789abcdef'')])"
    by code_simp
  then show "\<exists>out. fst (fs_read demo_machine ''run'' [(''path'', JStr ''x.txt''), (''maxBytes'', JInt 99)] demo_fs_capability (one_run () [])) =
     Val (JObj out) \<and> get ''content'' out = JStr ''0123456789abcdef''" by (simp add: get_def)
qed

end
