(* ===== verification/Awf_Registry.thy ===== *)
theory Awf_Registry
  imports Awf_Engine Awf_Machine
begin

text \<open>
  The registry (registry/): kinds and their layout, versions and their order, resolution across the
  data and config roots with its integrity check, the index table, and the objects the run machinery
  loads from it (agent manifests, skills, MCP servers, model profiles).  The file system, YAML,
  jsonschema and SHA-256 are parameters.  The connection an operation is given and the database of
  its repository are the same database.
\<close>

section \<open>Paths and lines\<close>

definition sub_path :: "path \<Rightarrow> string \<Rightarrow> path" where
  "sub_path p s = join_path p (parse_path s)"

definition path_parent :: "path \<Rightarrow> path" where
  "path_parent p = (fst p, butlast (snd p))"

definition name_stem :: "string \<Rightarrow> string" where
  "name_stem name =
     (let suffix = length (takeWhile (\<lambda>c. c \<noteq> CHR ''.'') (rev name)); i = length name - Suc suffix in
      if 0 < i \<and> 0 < suffix then take i name else name)"

definition path_stem :: "path \<Rightarrow> string" where
  "path_stem p = name_stem (path_name p)"

definition is_line_break :: "char \<Rightarrow> bool" where
  "is_line_break c = (c \<in> set [CHR 0x0A, CHR 0x0B, CHR 0x0C, CHR 0x0D, CHR 0x1C, CHR 0x1D, CHR 0x1E, CHR 0x85])"

text \<open>text.splitlines(), with the line read so far.\<close>

fun lines_from :: "string \<Rightarrow> string \<Rightarrow> string list" where
  "lines_from acc [] = (if acc = [] then [] else [acc])"
| "lines_from acc [c] = (if is_line_break c then [acc] else [acc @ [c]])"
| "lines_from acc (c # d # s) =
     (if c = CHR 0x0D \<and> d = CHR 0x0A then acc # lines_from [] s
      else if is_line_break c then acc # lines_from [] (d # s)
      else lines_from (acc @ [c]) (d # s))"

definition splitlines :: "string \<Rightarrow> string list" where
  "splitlines s = lines_from [] s"

section \<open>Kinds (registry/kinds.py)\<close>

datatype layout = Yaml | Markdown | Directory

record registry_kind =
  k_key :: string
  k_layout :: layout
  k_data_only :: bool

definition kinds :: "registry_kind list" where
  "kinds = map (\<lambda>(k, l). \<lparr>k_key = k, k_layout = l, k_data_only = False\<rparr>)
     [(''workflows'', Yaml), (''agents'', Markdown), (''capabilities'', Yaml), (''mcp'', Yaml), (''skills'', Directory),
      (''voice-profiles'', Yaml), (''model-profiles'', Yaml), (''personas'', Yaml), (''memory-profiles'', Yaml),
      (''semantic-memories'', Yaml), (''hardware-voice-manifests'', Yaml), (''llm-servers'', Yaml)]"

definition by_key :: "string \<Rightarrow> registry_kind result" where
  "by_key key = (case find (\<lambda>k. k_key k = key) kinds of
       Some k \<Rightarrow> Inr k
     | None \<Rightarrow> fail ''UnknownRegistryKindError''
         (''unknown registry kind '' @ str_repr key @ '' - valid kinds: '' @ join '', '' (sort (map k_key kinds))))"

definition object_path :: "path \<Rightarrow> registry_kind \<Rightarrow> string \<Rightarrow> path" where
  "object_path dir kind version = (case k_layout kind of
       Directory \<Rightarrow> join_path (sub_path dir version) (False, [''SKILL.md''])
     | Markdown \<Rightarrow> sub_path dir (version @ ''.md'')
     | Yaml \<Rightarrow> sub_path dir (version @ ''.yaml''))"

section \<open>The outside world\<close>

text \<open>
  \<open>list_dir\<close> gives the names in a directory, None for what is no directory; \<open>tree_files\<close> the paths
  below a directory of the regular files in it.
\<close>

record 'x files =
  repo :: path
  list_dir :: "path \<Rightarrow> 'x \<Rightarrow> string list option res \<times> 'x"
  file_exists :: "path \<Rightarrow> 'x \<Rightarrow> bool res \<times> 'x"
  read_text :: "path \<Rightarrow> 'x \<Rightarrow> string res \<times> 'x"
  file_bytes :: "path \<Rightarrow> 'x \<Rightarrow> string res \<times> 'x"
  tree_files :: "path \<Rightarrow> 'x \<Rightarrow> string list list res \<times> 'x"
  yaml_load :: "string \<Rightarrow> json result"
  hex_sha256 :: "string \<Rightarrow> string"
  schema_check :: "string \<Rightarrow> json \<Rightarrow> string option"

definition config_root :: "'x files \<Rightarrow> path" where
  "config_root F = sub_path (repo F) ''config/app_registry''"

definition data_root :: "'x files \<Rightarrow> path" where
  "data_root F = sub_path (repo F) ''data/registry''"

text \<open>Whether SKILL.md is there, for each name of a directory; all the names a registry kind calls versions.\<close>

definition has_skill_md :: "'x files \<Rightarrow> path \<Rightarrow> string \<Rightarrow> ('x, string list) op" where
  "has_skill_md F dir n =
     bindE (outside (file_exists F (join_path dir (False, [n, ''SKILL.md''])))) (\<lambda>b. ret (if b then [n] else []))"

definition version_names :: "'x files \<Rightarrow> path \<Rightarrow> registry_kind \<Rightarrow> string list \<Rightarrow> ('x, string list) op" where
  "version_names F dir kind names = (case k_layout kind of
       Directory \<Rightarrow> bindE (mapE (has_skill_md F dir) names) (\<lambda>found. ret (sort (concat found)))
     | Markdown \<Rightarrow> ret (sort (map name_stem (filter (ends_with ''.md'') names)))
     | Yaml \<Rightarrow> ret (sort (map name_stem (filter (ends_with ''.yaml'') names))))"

section \<open>Versions\<close>

text \<open>_version_key: (0, text) for a version that is no sequence of integers, (1, numbers) for one that is.\<close>

datatype version_key = Named string | Numbered "int list"

instantiation version_key :: linorder
begin

definition less_eq_version_key :: "version_key \<Rightarrow> version_key \<Rightarrow> bool" where
  "less_eq_version_key a b = (case (a, b) of
       (Named s, Named t) \<Rightarrow> s \<le> t
     | (Named s, Numbered n) \<Rightarrow> True
     | (Numbered m, Named t) \<Rightarrow> False
     | (Numbered m, Numbered n) \<Rightarrow> m \<le> n)"

definition less_version_key :: "version_key \<Rightarrow> version_key \<Rightarrow> bool" where
  "less_version_key a b = (a \<le> b \<and> \<not> b \<le> (a :: version_key))"

instance
  by standard (auto simp: less_eq_version_key_def less_version_key_def split: version_key.splits)

end

definition version_key :: "string \<Rightarrow> version_key" where
  "version_key v = (case those (map parse_int (split_on (CHR ''.'') v)) of
       Some ns \<Rightarrow> Numbered ns | None \<Rightarrow> Named v)"

text \<open>max(versions, key=_version_key): the first of the greatest.\<close>

fun max_version :: "string \<Rightarrow> string list \<Rightarrow> string" where
  "max_version best [] = best"
| "max_version best (v # vs) = max_version (if version_key best < version_key v then v else best) vs"

definition not_found :: "string \<Rightarrow> ('w, 'a) act" where
  "not_found msg = throw ''RegistryObjectNotFoundError'' msg"

text \<open>The versions below a root, None when there is no such directory.\<close>

definition versions_below :: "'x files \<Rightarrow> path \<Rightarrow> registry_kind \<Rightarrow> ('x, string list) op" where
  "versions_below F dir kind =
     bindE (outside (list_dir F dir)) (\<lambda>r. case r of None \<Rightarrow> ret [] | Some names \<Rightarrow> version_names F dir kind names)"

definition latest_version :: "'x files \<Rightarrow> string \<Rightarrow> string \<Rightarrow> ('x, string) op" where
  "latest_version F kind name =
     bindE (liftR (by_key kind)) (\<lambda>k.
     bindE (versions_below F (sub_path (sub_path (data_root F) kind) name) k) (\<lambda>vs. case vs of
         v # r \<Rightarrow> ret (max_version v r)
       | [] \<Rightarrow>
           bindE (if k_data_only k then ret [] else versions_below F (sub_path (sub_path (config_root F) kind) name) k) (\<lambda>us. case us of
               v # r \<Rightarrow> ret (max_version v r)
             | [] \<Rightarrow> not_found (''no '' @ kind @ ''/'' @ name @ '' under data/registry or config/app_registry''))))"

section \<open>Digests and the index (registry/index.py)\<close>

definition nl :: string where
  "nl = [CHR 0x0A]"

definition directory_digest :: "'x files \<Rightarrow> path \<Rightarrow> ('x, string) op" where
  "directory_digest F dir =
     bindE (outside (tree_files F dir)) (\<lambda>names.
     bindE (mapE (\<lambda>n. bindE (outside (file_bytes F (join_path dir (False, n)))) (\<lambda>b.
         ret (join ''/'' n @ '':'' @ hex_sha256 F b @ nl))) (sort names)) (\<lambda>lines.
       ret (hex_sha256 F (concat lines))))"

definition compute_digest :: "'x files \<Rightarrow> path \<Rightarrow> registry_kind \<Rightarrow> ('x, string) op" where
  "compute_digest F p kind =
     (if k_layout kind = Directory then directory_digest F (path_parent p)
      else bindE (outside (file_bytes F p)) (\<lambda>b. ret (hex_sha256 F b)))"

definition is_row :: "string \<Rightarrow> string \<Rightarrow> string \<Rightarrow> index_row \<Rightarrow> bool" where
  "is_row kind name version x = (x_kind x = kind \<and> x_name x = name \<and> x_version x = version)"

definition index_row :: "string \<Rightarrow> string \<Rightarrow> string \<Rightarrow> ('x, index_row option) op" where
  "index_row kind name version = gets (\<lambda>w. find (is_row kind name version) (reg_index w))"

definition trust_statuses :: "string list" where
  "trust_statuses = [''local'', ''trusted'', ''quarantined'', ''blocked'']"

definition set_trust_status :: "string \<Rightarrow> string \<Rightarrow> string \<Rightarrow> string \<Rightarrow> ('x, index_row option) op" where
  "set_trust_status kind name version status =
     bindE (index_row kind name version) (\<lambda>row.
     if row \<noteq> None \<and> status \<notin> set trust_statuses then integrity ''CHECK constraint failed: registry_index''
     else
       seqE (modify (\<lambda>w. w\<lparr>reg_index := map (\<lambda>x. if is_row kind name version x then x\<lparr>x_trust := Some status\<rparr> else x) (reg_index w)\<rparr>))
         (index_row kind name version))"

definition default_trust :: "string \<Rightarrow> string" where
  "default_trust source = (if source = ''config'' then ''trusted'' else ''local'')"

text \<open>INSERT ... ON CONFLICT DO UPDATE, which leaves trust_status alone.\<close>

definition upsert_rows :: "string \<Rightarrow> string \<Rightarrow> string \<Rightarrow> string \<Rightarrow> string \<Rightarrow> string \<Rightarrow> string \<Rightarrow> index_row list \<Rightarrow> index_row list" where
  "upsert_rows kind name version digest source shown now xs =
     (if list_ex (is_row kind name version) xs
      then map (\<lambda>x. if is_row kind name version x
              then x\<lparr>x_digest := digest, x_source := source, x_path := shown, x_indexed := now\<rparr> else x) xs
      else xs @ [\<lparr>x_kind = kind, x_name = name, x_version = version, x_digest = digest, x_source = source,
             x_path = shown, x_trust = Some (default_trust source), x_indexed = now\<rparr>])"

definition upsert_index :: "string \<Rightarrow> string \<Rightarrow> string \<Rightarrow> string \<Rightarrow> string \<Rightarrow> string \<Rightarrow> ('x, unit) op" where
  "upsert_index kind name version digest source shown =
     bindE utc_now_rfc3339 (\<lambda>now.
       modify (\<lambda>w. w\<lparr>reg_index := upsert_rows kind name version digest source shown now (reg_index w)\<rparr>))"

text \<open>path.relative_to(repo_root).as_posix()\<close>

definition shown_path :: "'x files \<Rightarrow> path \<Rightarrow> string" where
  "shown_path F p = as_posix (False, drop (length (snd (repo F))) (snd p))"

definition index_object :: "'x files \<Rightarrow> registry_kind \<Rightarrow> string \<Rightarrow> path \<Rightarrow> string \<Rightarrow> string \<Rightarrow> ('x, unit) op" where
  "index_object F kind source name_dir name version =
     (let p = object_path name_dir kind version in
      bindE (compute_digest F p kind) (\<lambda>digest.
        upsert_index (k_key kind) name version digest source (shown_path F p)))"

text \<open>One name of a root's kind: what is no directory is passed over.\<close>

definition index_name :: "'x files \<Rightarrow> registry_kind \<Rightarrow> string \<Rightarrow> path \<Rightarrow> string \<Rightarrow> ('x, nat) op" where
  "index_name F kind source kind_dir name =
     (let name_dir = join_path kind_dir (False, [name]) in
      bindE (versions_below F name_dir kind) (\<lambda>vs.
        seqE (forE (index_object F kind source name_dir name) vs) (ret (length vs))))"

definition index_root :: "'x files \<Rightarrow> registry_kind \<Rightarrow> string \<times> path \<Rightarrow> ('x, nat) op" where
  "index_root F kind = (\<lambda>(source, dir).
     if source = ''config'' \<and> k_data_only kind then ret 0
     else
       let kind_dir = sub_path dir (k_key kind) in
       bindE (outside (list_dir F kind_dir)) (\<lambda>r. case r of
           None \<Rightarrow> ret 0
         | Some names \<Rightarrow> bindE (mapE (index_name F kind source kind_dir) (sort names)) (\<lambda>ns. ret (sum_list ns))))"

definition reindex :: "'x files \<Rightarrow> ('x, (string \<times> nat list) list) op" where
  "reindex F = mapE (\<lambda>kind.
     bindE (mapE (index_root F kind) [(''config'', config_root F), (''data'', data_root F)]) (\<lambda>ns. ret (k_key kind, ns))) kinds"

section \<open>Resolution (registry/resolve.py)\<close>

definition verify_object :: "'x files \<Rightarrow> path \<Rightarrow> registry_kind \<Rightarrow> string \<Rightarrow> string \<Rightarrow> ('x, path) op" where
  "verify_object F p kind name version =
     bindE (index_row (k_key kind) name version) (\<lambda>row. case row of
         None \<Rightarrow> ret p
       | Some x \<Rightarrow>
           let ref = k_key kind @ ''/'' @ name @ ''@'' @ version in
           if x_trust x = Some ''blocked'' then throw ''RegistryBlockedError'' (ref @ '' is blocked'')
           else bindE (compute_digest F p kind) (\<lambda>actual.
             if actual \<noteq> x_digest x
             then throw ''RegistryIntegrityError'' (ref @ '': digest mismatch - indexed '' @ x_digest x @ '', actual '' @ actual @
                    '', path '' @ as_posix p)
             else ret p))"

definition found_in :: "'x files \<Rightarrow> path \<Rightarrow> registry_kind \<Rightarrow> string \<Rightarrow> string \<Rightarrow> string \<Rightarrow> ('x, path \<times> string) op" where
  "found_in F dir kind name version source =
     (let p = object_path dir kind version in
      bindE (outside (file_exists F p)) (\<lambda>there.
      if \<not> there then not_found (k_key kind @ ''/'' @ name @ ''@'' @ version @ '' not found in '' @
           (if source = ''data'' then ''data/registry (name is present there, so config/app_registry is not consulted)''
            else ''config/app_registry''))
      else bindE (verify_object F p kind name version) (\<lambda>q. ret (q, source))))"

definition resolve_registry_object :: "'x files \<Rightarrow> string \<Rightarrow> string \<Rightarrow> string \<Rightarrow> ('x, path \<times> string) op" where
  "resolve_registry_object F key name version =
     bindE (liftR (by_key key)) (\<lambda>kind.
     let data_dir = sub_path (sub_path (data_root F) key) name;
         config_dir = sub_path (sub_path (config_root F) key) name in
     bindE (versions_below F data_dir kind) (\<lambda>vs.
     if list_ex (\<lambda>v. v \<noteq> []) vs then found_in F data_dir kind name version ''data''
     else
       bindE (if k_data_only kind then ret None else outside (list_dir F config_dir)) (\<lambda>r. case r of
           Some (n # ns) \<Rightarrow> found_in F config_dir kind name version ''config''
         | _ \<Rightarrow> not_found (''no registry object for '' @ key @ ''/'' @ name @ '' under data/registry or config/app_registry''))))"

section \<open>What the registry keeps\<close>

lemma carries_not_found [carry]: "carries I (not_found m)"
  unfolding not_found_def by (rule carries_throw)

lemma carries_index_row [carry]: "carries I (index_row k n v)"
  unfolding index_row_def by (rule carries_gets)

lemma carries_versions [carry]: "carries (kept w0) (versions_below F d k)"
proof -
  have "carries (kept w0) (version_names F d k ns)" for ns
    unfolding version_names_def has_skill_md_def by (cases "k_layout k") (simp_all, (intro carry)+)
  then show ?thesis unfolding versions_below_def by (intro carry)
qed

lemma carries_latest [carry]: "carries (kept w0) (latest_version F k n)"
  unfolding latest_version_def by (intro carry)

lemma carries_digest [carry]: "carries (kept w0) (compute_digest F p k)" "carries (kept w0) (directory_digest F p)"
  unfolding compute_digest_def directory_digest_def by (intro carry)+

lemma carries_found_in [carry]: "carries (kept w0) (found_in F d k n v s)"
  unfolding found_in_def verify_object_def by (intro carry)

lemma carries_resolve [carry]: "carries (kept w0) (resolve_registry_object F k n v)"
  unfolding resolve_registry_object_def by (intro carry)

lemma carries_set_trust [carry]: "carries (kept w0) (set_trust_status k n v s)"
  unfolding set_trust_status_def by (intro carry)

lemma carries_reindex [carry]: "carries (kept w0) (reindex F)"
  unfolding reindex_def index_root_def index_name_def index_object_def upsert_index_def
  by (intro carry)

section \<open>The index keeps its keys and its trust decisions\<close>

definition row_key :: "index_row \<Rightarrow> string \<times> string \<times> string" where
  "row_key x = (x_kind x, x_name x, x_version x)"

text \<open>The rows there were are still there, in their order and with their trust; no key occurs twice.\<close>

definition trust_kept :: "'x world \<Rightarrow> 'x world \<Rightarrow> bool" where
  "trust_kept w0 w = (distinct (map row_key (reg_index w)) \<and>
     prefix (map (\<lambda>x. (row_key x, x_trust x)) (reg_index w0)) (map (\<lambda>x. (row_key x, x_trust x)) (reg_index w)))"

lemma trust_kept_same: "reg_index w' = reg_index w \<Longrightarrow> trust_kept w0 w \<Longrightarrow> trust_kept w0 w'"
  by (simp add: trust_kept_def)

lemma trust_outside [carry]: "carries (trust_kept w0) (outside f)"
  by (rule carriesI) (auto simp: outside_def split: prod.split elim: trust_kept_same [rotated])

lemma upsert_keeps:
  assumes "distinct (map row_key xs)" "ys = upsert_rows k n v d s p t xs"
  shows "distinct (map row_key ys)"
    "prefix (map (\<lambda>x. (row_key x, x_trust x)) xs) (map (\<lambda>x. (row_key x, x_trust x)) ys)"
proof -
  let ?f = "\<lambda>x. if is_row k n v x then x\<lparr>x_digest := d, x_source := s, x_path := p, x_indexed := t\<rparr> else x"
  have f: "row_key (?f x) = row_key x" "x_trust (?f x) = x_trust x" for x
    by (simp_all add: row_key_def)
  have keys: "map row_key (map ?f xs) = map row_key xs"
    and rows: "map (\<lambda>x. (row_key x, x_trust x)) (map ?f xs) = map (\<lambda>x. (row_key x, x_trust x)) xs"
    unfolding map_map comp_def f by simp_all
  have new: "(k, n, v) \<notin> set (map row_key xs)" if "\<not> list_ex (is_row k n v) xs"
    using that by (auto simp: list_ex_iff is_row_def row_key_def)
  show "distinct (map row_key ys)"
    using assms(1) keys new unfolding assms(2) upsert_rows_def by (simp add: row_key_def del: map_map)
  show "prefix (map (\<lambda>x. (row_key x, x_trust x)) xs) (map (\<lambda>x. (row_key x, x_trust x)) ys)"
    using rows unfolding assms(2) upsert_rows_def by (simp del: map_map)
qed

lemma trust_upsert [carry]: "carries (trust_kept w0) (upsert_index k n v d s p)"
proof (rule carriesI)
  fix w assume w: "trust_kept w0 w"
  then show "trust_kept w0 (snd (upsert_index k n v d s p w))"
    using upsert_keeps [OF _ refl, of "reg_index w" k n v d s p "clock w (now_ix w)"]
    by (auto simp: trust_kept_def upsert_index_def bindE_def utc_now_rfc3339_def modify_def dest: prefix_order.trans)
qed

lemma trust_reindex: "carries (trust_kept w0) (reindex F)"
proof -
  have versions: "carries (trust_kept w0) (versions_below F d k)" for d k
  proof -
    have "carries (trust_kept w0) (version_names F d k ns)" for ns
      unfolding version_names_def has_skill_md_def by (cases "k_layout k") (simp_all, (intro carry)+)
    then show ?thesis unfolding versions_below_def by (intro carry)
  qed
  have digest: "carries (trust_kept w0) (compute_digest F p k)" for p k
    unfolding compute_digest_def directory_digest_def by (intro carry)
  show ?thesis
    unfolding reindex_def index_root_def index_name_def index_object_def
    by (intro carry versions digest)
qed

section \<open>Objects\<close>

text \<open>split_frontmatter (registry/schema.py): the YAML block between two --- lines, and the text after it.\<close>

definition split_frontmatter :: "(string \<Rightarrow> json result) \<Rightarrow> string \<Rightarrow> string \<Rightarrow> string \<Rightarrow> (obj \<times> string) result" where
  "split_frontmatter yaml label error text = (case splitlines text of
       [] \<Rightarrow> fail error (label @ '' must start with a --- YAML frontmatter block'')
     | l # ls \<Rightarrow>
         if strip l \<noteq> ''---'' then fail error (label @ '' must start with a --- YAML frontmatter block'')
         else let block = takeWhile (\<lambda>x. x \<noteq> ''---'') ls; rest = drop (length block) ls in
           if rest = [] then fail error (label @ '' frontmatter has no closing ---'')
           else andThen (yaml (join nl block)) (\<lambda>v.
             let front = (if truthy v then v else JObj []) in
             case front of
               JObj d \<Rightarrow> Inr (d, strip (join nl (tl rest)))
             | _ \<Rightarrow> fail error (label @ '' frontmatter must be a YAML mapping'')))"

definition checked :: "(json \<Rightarrow> string option) \<Rightarrow> string \<Rightarrow> obj \<Rightarrow> unit result" where
  "checked schema error raw = (case schema (JObj raw) of Some msg \<Rightarrow> fail error msg | None \<Rightarrow> Inr ())"

text \<open>raw.get(key) for a key the schema lets hold only a text; a list of texts, [] when absent.\<close>

definition opt_text :: "string \<Rightarrow> obj \<Rightarrow> string option result" where
  "opt_text k d = (case get k d of JNull \<Rightarrow> Inr None | v \<Rightarrow> andThen (as_text v) (\<lambda>s. Inr (Some s)))"

definition text_list :: "string \<Rightarrow> obj \<Rightarrow> string list result" where
  "text_list k d = texts (get_or k (JList []) d)"

subsection \<open>Agent manifests (registry/agent_manifest.py)\<close>

record skill_ref =
  sr_ref :: string
  sr_share :: bool

record agent_manifest =
  am_name :: string
  am_version :: string
  am_description :: string
  am_adapter :: string
  am_capabilities :: "string list"
  am_role :: "string option"
  am_mcp :: "string list"
  am_skills :: "skill_ref list"
  am_voice :: "string option"
  am_persona :: "string option"
  am_model_profile :: "string option"
  am_instructions :: string

definition manifest_error :: string where
  "manifest_error = ''AgentManifestValidationError''"

definition parse_skill_ref :: "json \<Rightarrow> skill_ref result" where
  "parse_skill_ref v = (case v of
       JStr s \<Rightarrow> Inr \<lparr>sr_ref = s, sr_share = False\<rparr>
     | JObj d \<Rightarrow> andThen (text_item ''ref'' d) (\<lambda>r. Inr \<lparr>sr_ref = r, sr_share = truthy (get_or ''share'' (JBool False) d)\<rparr>)
     | _ \<Rightarrow> fail manifest_error (''skills entry must be a string or a mapping, got '' @ py_repr v))"

definition parse_agent_manifest :: "(json \<Rightarrow> string option) \<Rightarrow> obj \<Rightarrow> string \<Rightarrow> agent_manifest result" where
  "parse_agent_manifest schema raw instructions =
     andThen (checked schema manifest_error raw) (\<lambda>_.
     andThen (text_item ''name'' raw) (\<lambda>name.
     andThen (text_item ''version'' raw) (\<lambda>version.
     andThen (text_item ''description'' raw) (\<lambda>descr.
     andThen (text_item ''adapter'' raw) (\<lambda>adapter.
     andThen (text_list ''capabilities'' raw) (\<lambda>caps.
     andThen (opt_text ''role'' raw) (\<lambda>rl.
     andThen (text_list ''mcp'' raw) (\<lambda>mcp.
     andThen (andThen (as_array (get_or ''skills'' (JList []) raw)) (mapR parse_skill_ref)) (\<lambda>skills.
     andThen (opt_text ''voice'' raw) (\<lambda>voice.
     andThen (opt_text ''persona'' raw) (\<lambda>persona.
     andThen (opt_text ''modelProfile'' raw) (\<lambda>mp.
       Inr \<lparr>am_name = name, am_version = version, am_description = descr, am_adapter = adapter, am_capabilities = caps,
            am_role = rl, am_mcp = mcp, am_skills = skills, am_voice = voice, am_persona = persona,
            am_model_profile = mp, am_instructions = instructions\<rparr>))))))))))))"

text \<open>The directory and the stem of an object's file, for validate_registry_identity.\<close>

definition check_identity :: "string \<Rightarrow> string \<Rightarrow> path \<Rightarrow> string \<Rightarrow> string \<Rightarrow> unit result" where
  "check_identity name version p ctxt error =
     validate_registry_identity (JStr name) (JStr version) (path_name (path_parent p)) (path_stem p) ctxt error"

definition load_agent_manifest :: "'x files \<Rightarrow> path \<Rightarrow> ('x, agent_manifest) op" where
  "load_agent_manifest F p =
     bindE (outside (read_text F p)) (\<lambda>text. liftR (
       andThen (split_frontmatter (yaml_load F) ''agent manifest'' manifest_error text) (\<lambda>(front, body).
       andThen (parse_agent_manifest (schema_check F ''agents'') front body) (\<lambda>m.
       andThen (check_identity (am_name m) (am_version m) p ''agent manifest'' manifest_error) (\<lambda>_. Inr m)))))"

subsection \<open>Skills (registry/skill.py)\<close>

record skill =
  sk_name :: string
  sk_description :: string
  sk_body :: string
  sk_license :: json
  sk_compatibility :: json
  sk_metadata :: json
  sk_allowed_tools :: json
  sk_version :: string

definition parse_skill :: "(json \<Rightarrow> string option) \<Rightarrow> obj \<Rightarrow> string \<Rightarrow> string \<Rightarrow> skill result" where
  "parse_skill schema raw body version =
     andThen (checked schema ''SkillValidationError'' raw) (\<lambda>_.
     andThen (text_item ''name'' raw) (\<lambda>name.
     andThen (text_item ''description'' raw) (\<lambda>descr.
       Inr \<lparr>sk_name = name, sk_description = descr, sk_body = body, sk_license = get ''license'' raw,
            sk_compatibility = get ''compatibility'' raw, sk_metadata = get_or ''metadata'' (JObj []) raw,
            sk_allowed_tools = get ''allowed-tools'' raw, sk_version = version\<rparr>)))"

definition load_skill :: "'x files \<Rightarrow> path \<Rightarrow> ('x, skill) op" where
  "load_skill F p =
     bindE (outside (read_text F p)) (\<lambda>text. liftR (
       andThen (split_frontmatter (yaml_load F) ''SKILL.md'' ''SkillValidationError'' text) (\<lambda>(front, body).
       andThen (parse_skill (schema_check F ''skills'') front body (path_name (path_parent p))) (\<lambda>s.
       let dir = path_name (path_parent (path_parent p)) in
       if sk_name s \<noteq> dir
       then fail ''SkillValidationError'' (''SKILL.md name '' @ str_repr (sk_name s) @ '' does not match its registry directory '' @ str_repr dir)
       else Inr s))))"

subsection \<open>MCP servers (registry/mcp_server.py)\<close>

record mcp_server =
  ms_name :: string
  ms_version :: string
  ms_type :: string
  ms_command :: json
  ms_args :: "string list"
  ms_url :: json
  ms_env :: obj
  ms_env_secrets :: obj
  ms_headers :: obj
  ms_header_secrets :: obj
  ms_startup_timeout :: int
  ms_tool_timeout :: int
  ms_tools :: "string list"
  ms_resources :: "string list"
  ms_prompts :: "string list"

definition dict_or_empty :: "string \<Rightarrow> obj \<Rightarrow> obj result" where
  "dict_or_empty k d = as_dict (get_or k (JObj []) d)"

definition parse_mcp_server :: "(json \<Rightarrow> string option) \<Rightarrow> obj \<Rightarrow> mcp_server result" where
  "parse_mcp_server schema raw =
     andThen (checked schema ''McpServerValidationError'' raw) (\<lambda>_.
     andThen (text_item ''name'' raw) (\<lambda>name.
     andThen (text_item ''version'' raw) (\<lambda>version.
     andThen (text_item ''type'' raw) (\<lambda>ty.
     andThen (text_list ''args'' raw) (\<lambda>args.
     andThen (dict_or_empty ''env'' raw) (\<lambda>env.
     andThen (dict_or_empty ''env_secrets'' raw) (\<lambda>envs.
     andThen (dict_or_empty ''headers'' raw) (\<lambda>hs.
     andThen (dict_or_empty ''header_secrets'' raw) (\<lambda>hss.
     andThen (int_of (get_or ''startup_timeout_sec'' (JInt 10) raw)) (\<lambda>st.
     andThen (int_of (get_or ''tool_timeout_sec'' (JInt 60) raw)) (\<lambda>tt.
     andThen (text_list ''tools'' raw) (\<lambda>tools.
     andThen (text_list ''resources'' raw) (\<lambda>res.
     andThen (text_list ''prompts'' raw) (\<lambda>prompts.
       Inr \<lparr>ms_name = name, ms_version = version, ms_type = ty, ms_command = get ''command'' raw, ms_args = args,
            ms_url = get ''url'' raw, ms_env = env, ms_env_secrets = envs, ms_headers = hs, ms_header_secrets = hss,
            ms_startup_timeout = st, ms_tool_timeout = tt, ms_tools = tools, ms_resources = res,
            ms_prompts = prompts\<rparr>))))))))))))))"

definition load_mcp_server :: "'x files \<Rightarrow> path \<Rightarrow> ('x, mcp_server) op" where
  "load_mcp_server F p =
     bindE (outside (read_text F p)) (\<lambda>text. liftR (
       andThen (yaml_load F text) (\<lambda>v. case v of
           JObj raw \<Rightarrow>
             andThen (parse_mcp_server (schema_check F ''mcp'') raw) (\<lambda>m.
             andThen (check_identity (ms_name m) (ms_version m) p ''mcp server'' ''McpServerValidationError'') (\<lambda>_. Inr m))
         | _ \<Rightarrow> fail ''McpServerValidationError'' (as_posix p @ '': mcp server must be a YAML mapping''))))"

subsection \<open>Model profiles, capability records and workflows in the registry\<close>

definition profile_error :: string where
  "profile_error = ''ModelProfileValidationError''"

definition int_item :: "string \<Rightarrow> obj \<Rightarrow> int result" where
  "int_item k d = andThen (item k d) (\<lambda>v. case v of JInt i \<Rightarrow> Inr i | _ \<Rightarrow> fail ''TypeError'' ''not an integer'')"

definition parse_candidate :: "json \<Rightarrow> candidate result" where
  "parse_candidate v =
     andThen (as_dict v) (\<lambda>c.
     andThen (text_item ''provider'' c) (\<lambda>pv.
     andThen (text_item ''model'' c) (\<lambda>md.
     andThen (int_item ''priority'' c) (\<lambda>prio.
     andThen (bool_item ''enabled'' c) (\<lambda>en.
     andThen (opt_text ''api_base'' c) (\<lambda>base.
     andThen (opt_text ''api_key_secret_name'' c) (\<lambda>key.
       Inr \<lparr>provider = pv, model = md, priority = prio, enabled = en, api_base = base, api_key_secret_name = key\<rparr>)))))))"

definition parse_model_profile :: "(json \<Rightarrow> string option) \<Rightarrow> obj \<Rightarrow> model_profile result" where
  "parse_model_profile schema raw =
     andThen (checked schema profile_error raw) (\<lambda>_.
     andThen (andThen (item ''privacy'' raw) as_dict) (\<lambda>priv.
     andThen (andThen (item ''candidates'' raw) as_array) (\<lambda>cands.
     andThen (andThen (item ''fallback'' raw) as_dict) (\<lambda>fb.
     andThen (andThen (item ''limits'' raw) as_dict) (\<lambda>lim.
     andThen (bool_item ''local_only'' priv) (\<lambda>local.
     andThen (mapR parse_candidate cands) (\<lambda>cs.
     andThen (text_item ''mode'' fb) (\<lambda>mode.
     andThen (int_item ''max_input_tokens_per_call'' lim) (\<lambda>mi.
     andThen (int_item ''max_output_tokens_per_call'' lim) (\<lambda>mo.
     andThen (text_item ''name'' raw) (\<lambda>name.
     andThen (text_item ''version'' raw) (\<lambda>version.
     andThen (text_item ''purpose'' raw) (\<lambda>purpose.
       Inr \<lparr>mp_name = name, mp_version = version, mp_purpose = purpose, mp_local_only = local, mp_candidates = cs,
            mp_fallback_mode = mode, mp_max_input_tokens = mi, mp_max_output_tokens = mo\<rparr>)))))))))))))"

definition load_model_profile :: "'x files \<Rightarrow> path \<Rightarrow> ('x, model_profile) op" where
  "load_model_profile F p =
     bindE (outside (read_text F p)) (\<lambda>text. liftR (
       andThen (yaml_load F text) (\<lambda>v. case v of
           JObj raw \<Rightarrow>
             andThen (parse_model_profile (schema_check F ''model-profiles'') raw) (\<lambda>m.
             andThen (check_identity (mp_name m) (mp_version m) p ''model profile'' profile_error) (\<lambda>_. Inr m))
         | _ \<Rightarrow> fail profile_error (as_posix p @ '': model profile must be a YAML mapping''))))"

definition load_capability_at :: "'x files \<Rightarrow> path \<Rightarrow> ('x, capability) op" where
  "load_capability_at F p =
     bindE (outside (read_text F p)) (\<lambda>text. liftR (
       andThen (yaml_load F text) (\<lambda>v.
         load_capability_record (schema_check F ''capabilities'') v (path_name (path_parent p)) (path_stem p))))"

definition load_workflow_at :: "'x files \<Rightarrow> path \<Rightarrow> ('x, workflow) op" where
  "load_workflow_at F p =
     bindE (outside (read_text F p)) (\<lambda>text. liftR (
       andThen (yaml_load F text) (\<lambda>v.
         load_workflow (schema_check F ''workflows'') v (path_name (path_parent p)) (path_stem p))))"

lemma carries_loads_at [carry]:
  "carries (kept w0) (load_agent_manifest F p)" "carries (kept w0) (load_skill F p)"
  "carries (kept w0) (load_mcp_server F p)" "carries (kept w0) (load_model_profile F p)"
  "carries (kept w0) (load_capability_at F p)" "carries (kept w0) (load_workflow_at F p)"
  unfolding load_agent_manifest_def load_skill_def load_mcp_server_def load_model_profile_def
    load_capability_at_def load_workflow_at_def
  by (intro carry)+

section \<open>Resolution, step by step\<close>

lemma by_key_Inr: "by_key key = Inr k \<Longrightarrow> k_key k = key"
  by (auto simp: by_key_def fail_def find_Some_iff split: option.splits)

lemma index_outside [carry]: "carries (\<lambda>w. reg_index w = R) (outside f)"
  by (rule carriesI) (simp add: outside_def split: prod.split)

lemma index_versions: "carries (\<lambda>w. reg_index w = R) (versions_below F d k)"
proof -
  have "carries (\<lambda>w. reg_index w = R) (version_names F d k ns)" for ns
    unfolding version_names_def has_skill_md_def by (cases "k_layout k") (simp_all, (intro carry)+)
  then show ?thesis unfolding versions_below_def by (intro carry)
qed

definition verified :: "'x files \<Rightarrow> path \<Rightarrow> registry_kind \<Rightarrow> index_row option \<Rightarrow> bool" where
  "verified F p kind row = (case row of None \<Rightarrow> True
     | Some x \<Rightarrow> x_trust x \<noteq> Some ''blocked'' \<and> (\<exists>w1 w2. compute_digest F p kind w1 = (Val (x_digest x), w2)))"

lemma verify_object_Val:
  assumes "verify_object F p kind name version w = (Val q, w')"
  shows "q = p \<and> verified F p kind (find (is_row (k_key kind) name version) (reg_index w))"
proof (cases "find (is_row (k_key kind) name version) (reg_index w)")
  case None
  with assms show ?thesis by (simp add: verify_object_def index_row_def bindE_def gets_def ret_def verified_def)
next
  case (Some x)
  with assms have "x_trust x \<noteq> Some ''blocked''" "q = p"
    and "\<exists>w2. compute_digest F p kind w = (Val (x_digest x), w2)"
    by (auto simp: verify_object_def index_row_def bind_Val basic_Val Let_def split: if_splits)
  then show ?thesis by (auto simp: verified_def Some)
qed

lemma found_in_Val:
  assumes "found_in F dir kind name version src w = (Val (p, s), w')"
  shows "s = src \<and> p = object_path dir kind version \<and>
    verified F p kind (find (is_row (k_key kind) name version) (reg_index w))"
proof -
  from assms obtain there w1 where there: "outside (file_exists F (object_path dir kind version)) w = (Val there, w1)"
    and rest: "(if \<not> there then not_found (k_key kind @ ''/'' @ name @ ''@'' @ version @ '' not found in '' @
           (if src = ''data'' then ''data/registry (name is present there, so config/app_registry is not consulted)''
            else ''config/app_registry''))
      else bindE (verify_object F (object_path dir kind version) kind name version) (\<lambda>q. ret (q, src))) w1 = (Val (p, s), w')"
    unfolding found_in_def Let_def bind_Val by blast
  have "reg_index w1 = reg_index w" using there by (auto simp: outside_Val)
  moreover from rest obtain q w2 where "verify_object F (object_path dir kind version) kind name version w1 = (Val q, w2)"
      "p = q" "s = src"
    by (auto simp: not_found_def bind_Val basic_Val split: if_splits)
  ultimately show ?thesis using verify_object_Val by metis
qed

section \<open>Properties\<close>

text \<open>
  C11. What resolution returns.  The object comes from the data root if and only if some version of
  its name is there, and from the config root otherwise; the path is the kind's path for exactly the
  requested version; and if the index has a row for it, the row is not blocked and the content has
  the indexed digest.
\<close>

theorem resolution_verified:
  assumes "resolve_registry_object F key name version w = (Val (p, src), w')"
  shows "\<exists>kind vs w1. by_key key = Inr kind \<and>
     versions_below F (sub_path (sub_path (data_root F) key) name) kind w = (Val vs, w1) \<and>
     src = (if list_ex (\<lambda>v. v \<noteq> []) vs then ''data'' else ''config'') \<and>
     p = object_path (sub_path (sub_path (if src = ''data'' then data_root F else config_root F) key) name) kind version \<and>
     verified F p kind (find (is_row key name version) (reg_index w))"
proof -
  let ?d = "sub_path (sub_path (data_root F) key) name"
  let ?c = "sub_path (sub_path (config_root F) key) name"
  from assms obtain kind vs w1 where kind: "by_key key = Inr kind"
    and vs: "versions_below F ?d kind w = (Val vs, w1)"
    and rest: "(if list_ex (\<lambda>v. v \<noteq> []) vs then found_in F ?d kind name version ''data''
     else bindE (if k_data_only kind then ret None else outside (list_dir F ?c)) (\<lambda>r. case r of
           Some (n # ns) \<Rightarrow> found_in F ?c kind name version ''config''
         | _ \<Rightarrow> not_found (''no registry object for '' @ key @ ''/'' @ name @ '' under data/registry or config/app_registry''))) w1
       = (Val (p, src), w')"
    unfolding resolve_registry_object_def Let_def bind_Val liftR_Val by blast
  have same: "reg_index w1 = reg_index w"
    using carriesD [OF index_versions refl, of F ?d kind w] vs by simp
  note key = by_key_Inr [OF kind]
  show ?thesis
  proof (cases "list_ex (\<lambda>v. v \<noteq> []) vs")
    case True
    then have "found_in F ?d kind name version ''data'' w1 = (Val (p, src), w')" using rest by simp
    from found_in_Val [OF this] show ?thesis using kind vs True same key by auto
  next
    case False
    then obtain r w2 where r: "(if k_data_only kind then ret None else outside (list_dir F ?c)) w1 = (Val r, w2)"
      and found: "(case r of
           Some (n # ns) \<Rightarrow> found_in F ?c kind name version ''config''
         | _ \<Rightarrow> not_found (''no registry object for '' @ key @ ''/'' @ name @ '' under data/registry or config/app_registry'')) w2 = (Val (p, src), w')"
      using rest unfolding if_not_P [OF False] bind_Val by blast
    have "reg_index w2 = reg_index w1" using r by (auto simp: basic_Val outside_Val split: if_splits)
    moreover have "found_in F ?c kind name version ''config'' w2 = (Val (p, src), w')"
      using found by (auto simp: not_found_def basic_Val split: option.splits list.splits)
    ultimately show ?thesis using found_in_Val kind vs False same key by fastforce
  qed
qed

text \<open>A small repository: two versions of a capability, a name with none in data, and a YAML that names it.\<close>

definition demo_files :: "unit files" where
  "demo_files = \<lparr>repo = (True, [''r'']),
     list_dir = (\<lambda>p x. (Val (if snd p = [''r'', ''data'', ''registry'', ''capabilities'', ''echo'']
        then Some [''1.9.0.yaml'', ''draft.yaml'', ''1.10.0.yaml'', ''notes.txt''] else None), x)),
     file_exists = (\<lambda>p x. (Val True, x)), read_text = (\<lambda>p x. (Val ''text'', x)), file_bytes = (\<lambda>p x. (Val ''bytes'', x)),
     tree_files = (\<lambda>p x. (Val [[''SKILL.md'']], x)), yaml_load = (\<lambda>s. Inr JNull), hex_sha256 = (\<lambda>s. s),
     schema_check = (\<lambda>k v. None)\<rparr>"

definition demo_index :: "string \<Rightarrow> unit world" where
  "demo_index trust = (one_run () [])\<lparr>reg_index := [\<lparr>x_kind = ''capabilities'', x_name = ''echo'', x_version = ''1.9.0'',
     x_digest = ''bytes'', x_source = ''data'', x_path = ''data/registry/capabilities/echo/1.9.0.yaml'',
     x_trust = Some trust, x_indexed = ''t''\<rparr>]\<rparr>"

theorem resolution_verified_witness:
  "fst (resolve_registry_object demo_files ''capabilities'' ''echo'' ''1.9.0'' (demo_index ''local'')) =
     Val (object_path (True, [''r'', ''data'', ''registry'', ''capabilities'', ''echo'']) \<lparr>k_key = ''capabilities'', k_layout = Yaml, k_data_only = False\<rparr> ''1.9.0'', ''data'') \<and>
   (\<exists>kind p. verified demo_files p kind (find (is_row ''capabilities'' ''echo'' ''1.9.0'') (reg_index (demo_index ''local''))))"
proof
  let ?r = "resolve_registry_object demo_files ''capabilities'' ''echo'' ''1.9.0'' (demo_index ''local'')"
  let ?p = "(True, [''r'', ''data'', ''registry'', ''capabilities'', ''echo'', ''1.9.0.yaml''])"
  have path: "object_path (True, [''r'', ''data'', ''registry'', ''capabilities'', ''echo'']) \<lparr>k_key = ''capabilities'', k_layout = Yaml, k_data_only = False\<rparr> ''1.9.0'' = ?p"
    by code_simp
  have r: "fst ?r = Val (?p, ''data'')" by code_simp
  then have "?r = (Val (?p, ''data''), snd ?r)" by (metis prod.collapse)
  from resolution_verified [OF this]
  show "\<exists>kind p. verified demo_files p kind (find (is_row ''capabilities'' ''echo'' ''1.9.0'') (reg_index (demo_index ''local'')))"
    by blast
  from r path show "fst ?r = Val (object_path (True, [''r'', ''data'', ''registry'', ''capabilities'', ''echo'']) \<lparr>k_key = ''capabilities'', k_layout = Yaml, k_data_only = False\<rparr> ''1.9.0'', ''data'')"
    by simp
qed

text \<open>
  A rebuild of the index never undoes an operator's decision: however reindex ends, the rows
  there were are still there, in the same order and with the same trust_status, and no key occurs
  twice.
\<close>

theorem reindex_keeps_trust:
  assumes "distinct (map row_key (reg_index w))"
  shows "trust_kept w (snd (reindex F w))"
  using carriesD [OF trust_reindex, of w w] assms by (simp add: trust_kept_def)

theorem reindex_keeps_trust_witness:
  "trust_kept (demo_index ''blocked'') (snd (reindex demo_files (demo_index ''blocked'')))"
  by (rule reindex_keeps_trust) (simp add: demo_index_def row_key_def)

lemma max_version_greatest:
  "max_version b vs \<in> set (b # vs) \<and> (\<forall>v \<in> set (b # vs). version_key v \<le> version_key (max_version b vs))"
proof (induction vs arbitrary: b)
  case (Cons v vs)
  let ?c = "if version_key b < version_key v then v else b"
  have "version_key b \<le> version_key ?c" "version_key v \<le> version_key ?c" by auto
  then show ?case using Cons.IH [of ?c] by (auto intro: order_trans split: if_splits)
qed simp

text \<open>
  The latest version is the greatest one of the root that decides: when the data root has
  versions of the name, latest_version is one of them and no other is greater, numbers being compared
  as numbers and any named version coming before every numbered one.
\<close>

theorem latest_version_greatest:
  assumes "by_key key = Inr kind"
    and "versions_below F (sub_path (sub_path (data_root F) key) name) kind w = (Val vs, w1)" "vs \<noteq> []"
  shows "\<exists>v. latest_version F key name w = (Val v, w1) \<and> v \<in> set vs \<and> (\<forall>u \<in> set vs. version_key u \<le> version_key v)"
proof -
  obtain u us where vs: "vs = u # us" using assms(3) by (cases vs) auto
  have "latest_version F key name w = (Val (max_version u us), w1)"
    using assms(1,2) vs by (simp add: latest_version_def liftR_def bindE_def ret_def)
  then show ?thesis using max_version_greatest [of u us] vs by blast
qed

theorem latest_version_greatest_witness:
  "fst (latest_version demo_files ''capabilities'' ''echo'' (one_run () [])) = Val ''1.10.0'' \<and>
   version_key ''1.9.0'' \<le> version_key ''1.10.0'' \<and> version_key ''draft'' \<le> version_key ''1.10.0''"
proof -
  let ?k = "\<lparr>k_key = ''capabilities'', k_layout = Yaml, k_data_only = False\<rparr>"
  let ?v = "versions_below demo_files (sub_path (sub_path (data_root demo_files) ''capabilities'') ''echo'') ?k (one_run () [])"
  have k: "by_key ''capabilities'' = Inr ?k" by code_simp
  have "fst ?v = Val [''1.10.0'', ''1.9.0'', ''draft'']" by code_simp
  then have v: "?v = (Val [''1.10.0'', ''1.9.0'', ''draft''], snd ?v)" by (metis prod.collapse)
  from latest_version_greatest [OF k v] obtain u where u: "latest_version demo_files ''capabilities'' ''echo'' (one_run () []) = (Val u, snd ?v)"
      "version_key ''1.9.0'' \<le> version_key u" "version_key ''draft'' \<le> version_key u"
    by auto
  moreover have "fst (latest_version demo_files ''capabilities'' ''echo'' (one_run () [])) = Val ''1.10.0''" by code_simp
  ultimately show ?thesis by simp
qed

end
