(* ===== verification/Awf_Prompt.thy ===== *)
theory Awf_Prompt
  imports Awf_Registry
begin

text \<open>
  What a model is told: prompt envelopes and their two renderings (cognition/envelope.py and
  render.py), personas and their compilation (registry/persona.py), and the configuration an adapter
  gets for its MCP servers (mcp/render.py).
\<close>

section \<open>Envelopes\<close>

record segment =
  sg_authority :: string
  sg_content :: string
  sg_trusted :: bool
  sg_text :: string

definition authorities :: "string list" where
  "authorities = [''application'', ''persona'', ''contract'', ''session'', ''memory'', ''retrieval'', ''skill'', ''tool'', ''user'']"

definition content_types :: "string list" where
  "content_types = [''instruction'', ''style'', ''context'', ''result'', ''input'', ''contract'']"

definition system_authorities :: "string list" where
  "system_authorities = [''application'', ''persona'', ''contract'']"

definition PromptSegment :: "string \<Rightarrow> string \<Rightarrow> bool \<Rightarrow> string \<Rightarrow> segment result" where
  "PromptSegment authority content trusted text =
     (if authority \<notin> set authorities then fail ''ValueError'' (''unknown prompt authority '' @ str_repr authority)
      else if content \<notin> set content_types then fail ''ValueError'' (''unknown prompt content type '' @ str_repr content)
      else Inr \<lparr>sg_authority = authority, sg_content = content, sg_trusted = trusted, sg_text = text\<rparr>)"

record envelope =
  en_segments :: "segment list"
  en_examples :: "obj list"
  en_generation :: obj

section \<open>Rendering\<close>

definition blank_line :: string where
  "blank_line = [CHR 0x0A, CHR 0x0A]"

definition header_of :: "segment \<Rightarrow> string" where
  "header_of s = ''['' @ sg_authority s @ ''/'' @ sg_content s @ (if sg_trusted s then '''' else '', untrusted'') @ '']''"

definition render_segment :: "segment \<Rightarrow> string" where
  "render_segment s = header_of s @ nl @ strip (sg_text s)"

definition spoken :: "segment \<Rightarrow> bool" where
  "spoken s = (strip (sg_text s) \<noteq> [])"

definition render_flat :: "envelope \<Rightarrow> string" where
  "render_flat e = join blank_line (map render_segment (filter spoken (en_segments e)))"

definition is_system :: "segment \<Rightarrow> bool" where
  "is_system s = (sg_trusted s \<and> sg_authority s \<in> set system_authorities)"

record chat_prompt =
  cp_system :: string
  cp_user :: string
  cp_messages :: "obj list"
  cp_generation :: obj

definition chat_message :: "string \<Rightarrow> string \<Rightarrow> obj" where
  "chat_message speaker content = [(''role'', JStr speaker), (''content'', JStr content)]"

definition render_chat :: "envelope \<Rightarrow> chat_prompt" where
  "render_chat e =
     (let shown = filter spoken (en_segments e);
          system = join blank_line (map render_segment (filter is_system shown));
          user = join blank_line (map render_segment (filter (\<lambda>s. \<not> is_system s) shown)) in
      \<lparr>cp_system = system, cp_user = user,
       cp_messages = (if system = [] then [] else [chat_message ''system'' system]) @ en_examples e
         @ (if user = [] then [] else [chat_message ''user'' user]),
       cp_generation = en_generation e\<rparr>)"

section \<open>Personas (registry/persona.py)\<close>

definition persona_allowed :: "string list" where
  "persona_allowed = [''name'', ''version'', ''display_name'', ''description'', ''locale'', ''system'', ''style'', ''traits'',
     ''examples'', ''generation'', ''enabled'']"

definition persona_prohibited :: "string list" where
  "persona_prohibited = [''capabilities'', ''tool_permissions'', ''tool_policy'', ''routing_policy'', ''model_routing'',
     ''model_profile'', ''mcp'', ''skills'', ''memory_policy'', ''memory_permissions'', ''safety_overrides'', ''hidden_instructions'']"

definition warmth_instructions :: "(string \<times> string) list" where
  "warmth_instructions =
     [(''none'', ''Use direct helpfulness with no extra warmth.''),
      (''low'', ''Keep warmth minimal and practical.''),
      (''medium'', ''Use a calm, friendly tone without extra reassurance.''),
      (''high'', ''Use clearly warm and supportive phrasing without overstating certainty.''),
      (''strong'', ''Use strongly warm and encouraging phrasing while staying truthful.'')]"

definition assertiveness_instructions :: "(string \<times> string) list" where
  "assertiveness_instructions =
     [(''none'', ''Avoid recommendations unless one is requested.''),
      (''low'', ''Offer suggestions gently and avoid sounding commanding.''),
      (''medium'', ''Give clear recommendations while allowing uncertainty.''),
      (''high'', ''State the recommended path plainly when evidence supports it.''),
      (''strong'', ''Be decisive and action-oriented when the answer is clear.'')]"

definition detail_instructions :: "(string \<times> string) list" where
  "detail_instructions =
     [(''none'', ''Keep detail to the minimum needed for the answer.''),
      (''low'', ''Keep details sparse and action-focused.''),
      (''medium'', ''Include enough detail to explain the answer.''),
      (''high'', ''Add useful context and tradeoffs when they help.''),
      (''strong'', ''Provide fuller context, tradeoffs, and reasoning when useful.'')]"

definition humor_instructions :: "(string \<times> string) list" where
  "humor_instructions =
     [(''none'', ''Use no humor.''),
      (''light'', ''Use light humor rarely and only when natural.''),
      (''medium'', ''Use occasional light humor on low-risk topics; omit it when the answer carries risk.''),
      (''high'', ''Use humor readily on low-risk topics; skip it for analysis, troubleshooting, and reliability details.''),
      (''dry'', ''Use at most one dry aside when it sharpens the answer; never force it.'')]"

record persona =
  pr_name :: string
  pr_version :: string
  pr_display :: string
  pr_description :: string
  pr_locale :: string
  pr_system :: string
  pr_max_words :: int
  pr_structure :: string
  pr_do :: "string list"
  pr_avoid :: "string list"
  pr_warmth :: string
  pr_assertiveness :: string
  pr_detail :: string
  pr_humor :: string
  pr_examples :: "(string \<times> string) list"
  pr_generation :: obj
  pr_enabled :: bool

record compiled_persona =
  cm_ref :: string
  cm_system :: string
  cm_examples :: "obj list"
  cm_generation :: obj

definition persona_error :: "string \<Rightarrow> 'a result" where
  "persona_error msg = fail ''PersonaValidationError'' msg"

definition parse_example :: "json \<Rightarrow> (string \<times> string) result" where
  "parse_example v = andThen (as_dict v) (\<lambda>d. andThen (text_item ''user'' d) (\<lambda>u.
     andThen (text_item ''assistant'' d) (\<lambda>a. Inr (u, a))))"

definition parse_persona :: "(json \<Rightarrow> string option) \<Rightarrow> obj \<Rightarrow> persona result" where
  "parse_persona schema raw =
     (let prohibited = sort (filter (\<lambda>k. k \<in> set persona_prohibited) (map fst raw));
          unknown = sort (filter (\<lambda>k. k \<notin> set persona_allowed) (map fst raw)) in
      if prohibited \<noteq> [] then persona_error (''persona contains prohibited authority fields: '' @ join '', '' prohibited)
      else if unknown \<noteq> [] then persona_error (''persona contains unknown fields: '' @ join '', '' unknown)
      else
     andThen (checked schema ''PersonaValidationError'' raw) (\<lambda>_.
     andThen (andThen (item ''style'' raw) as_dict) (\<lambda>style.
     andThen (andThen (item ''traits'' raw) as_dict) (\<lambda>traits.
     andThen (andThen (andThen (item ''examples'' raw) as_array) (mapR parse_example)) (\<lambda>examples.
     andThen (text_item ''name'' raw) (\<lambda>name.
     andThen (text_item ''version'' raw) (\<lambda>version.
     andThen (text_item ''display_name'' raw) (\<lambda>display.
     andThen (text_item ''description'' raw) (\<lambda>descr.
     andThen (text_item ''locale'' raw) (\<lambda>locl.
     andThen (text_item ''system'' raw) (\<lambda>system.
     andThen (int_item ''max_words_default'' style) (\<lambda>words.
     andThen (text_item ''structure'' style) (\<lambda>struct.
     andThen (andThen (item ''do'' style) texts) (\<lambda>dos.
     andThen (andThen (item ''avoid'' style) texts) (\<lambda>avoids.
     andThen (text_item ''warmth'' traits) (\<lambda>warmth.
     andThen (text_item ''assertiveness'' traits) (\<lambda>assertive.
     andThen (text_item ''detail'' traits) (\<lambda>detail.
     andThen (text_item ''humor'' traits) (\<lambda>humor.
     andThen (andThen (item ''generation'' raw) as_dict) (\<lambda>generation.
       Inr \<lparr>pr_name = name, pr_version = version, pr_display = display, pr_description = descr, pr_locale = locl,
            pr_system = system, pr_max_words = words, pr_structure = struct, pr_do = dos, pr_avoid = avoids,
            pr_warmth = warmth, pr_assertiveness = assertive, pr_detail = detail, pr_humor = humor,
            pr_examples = examples, pr_generation = generation,
            pr_enabled = truthy (get_or ''enabled'' (JBool True) raw)\<rparr>))))))))))))))))))))"

definition load_persona :: "'x files \<Rightarrow> path \<Rightarrow> ('x, persona) op" where
  "load_persona F p =
     bindE (outside (read_text F p)) (\<lambda>text. liftR (
       andThen (yaml_load F text) (\<lambda>v. case v of
           JObj raw \<Rightarrow>
             andThen (parse_persona (schema_check F ''personas'') raw) (\<lambda>m.
             andThen (check_identity (pr_name m) (pr_version m) p ''persona'' ''PersonaValidationError'') (\<lambda>_. Inr m))
         | _ \<Rightarrow> persona_error (as_posix p @ '': persona must be a YAML mapping''))))"

text \<open>INSTRUCTIONS[level], a KeyError for an unknown level.\<close>

definition level_text :: "(string \<times> string) list \<Rightarrow> string \<Rightarrow> string result" where
  "level_text table level = (case map_of table level of None \<Rightarrow> fail ''KeyError'' (str_repr level) | Some t \<Rightarrow> Inr t)"

definition bullets :: "string \<Rightarrow> string list \<Rightarrow> string" where
  "bullets title xs = join nl (title # map (\<lambda>x. ''- '' @ x) xs)"

definition persona_ref :: "persona \<Rightarrow> string" where
  "persona_ref p = pr_name p @ ''@'' @ pr_version p"

definition compile_persona :: "persona \<Rightarrow> compiled_persona result" where
  "compile_persona p =
     andThen (level_text warmth_instructions (pr_warmth p)) (\<lambda>warmth.
     andThen (level_text assertiveness_instructions (pr_assertiveness p)) (\<lambda>assertive.
     andThen (level_text detail_instructions (pr_detail p)) (\<lambda>detail.
     andThen (level_text humor_instructions (pr_humor p)) (\<lambda>humor.
     let blocks =
       [strip (pr_system p),
        bullets ''Response contract:''
          [''Default maximum answer length: '' @ int_str (pr_max_words p) @ '' words unless more detail is requested.'',
           ''Structure: '' @ pr_structure p],
        bullets ''Behavior traits:''
          [''Warmth: '' @ warmth, ''Assertiveness: '' @ assertive, ''Detail: '' @ detail, ''Humor: '' @ humor],
        bullets ''Do:'' (pr_do p),
        bullets ''Avoid:'' (pr_avoid p),
        ''Persona constraints do not override capability, routing, memory, or safety policy.''] in
     Inr \<lparr>cm_ref = persona_ref p, cm_system = join blank_line (filter (\<lambda>b. b \<noteq> []) blocks),
          cm_examples = concat (map (\<lambda>(u, a). [chat_message ''user'' u, chat_message ''assistant'' a]) (pr_examples p)),
          cm_generation = pr_generation p\<rparr>))))"

section \<open>MCP configurations (mcp/render.py)\<close>

record rendered_mcp =
  rm_path :: "string option"
  rm_contents :: json
  rm_extra_args :: "string list"
  rm_env :: "(string \<times> string) list"
  rm_home_files :: "(string \<times> string) list"
  rm_home_copies :: "string list"

definition secret_env_var_name :: "string \<Rightarrow> string \<Rightarrow> string" where
  "secret_env_var_name server key =
     ''AWF_MCP_'' @ replace_char (CHR ''-'') ''_'' (upper server) @ ''_'' @ replace_char (CHR ''-'') ''_'' (upper key)"

text \<open>resolved_secrets[secret_name]\<close>

definition secret_of :: "(string \<times> string) list \<Rightarrow> json \<Rightarrow> string result" where
  "secret_of plain name = (case name of
       JStr n \<Rightarrow> (case map_of plain n of Some s \<Rightarrow> Inr s | None \<Rightarrow> fail ''KeyError'' (str_repr n))
     | _ \<Rightarrow> fail ''KeyError'' (py_repr name))"

definition overlay_entry :: "mcp_server \<Rightarrow> (string \<times> string) list \<Rightarrow> string \<times> json \<Rightarrow> (string \<times> string) list \<Rightarrow> (string \<times> string) list result" where
  "overlay_entry m plain = (\<lambda>(key, name) env.
     andThen (secret_of plain name) (\<lambda>s. Inr (AList.update (secret_env_var_name (ms_name m) key) s env)))"

definition env_overlay_for :: "mcp_server list \<Rightarrow> (string \<times> string) list \<Rightarrow> (string \<times> string) list result" where
  "env_overlay_for servers plain =
     foldR (\<lambda>m env. foldR (overlay_entry m plain) (ms_env_secrets m @ ms_header_secrets m) env) servers []"

definition secret_placeholder :: "mcp_server \<Rightarrow> string \<Rightarrow> json" where
  "secret_placeholder m key = JStr (''${'' @ secret_env_var_name (ms_name m) key @ ''}'')"

definition with_placeholders :: "mcp_server \<Rightarrow> obj \<Rightarrow> obj \<Rightarrow> obj" where
  "with_placeholders m shown hidden = fold (\<lambda>(k, v) d. AList.update k (secret_placeholder m k) d) hidden shown"

definition copilot_entry :: "mcp_server \<Rightarrow> obj" where
  "copilot_entry m =
     (if ms_type m = ''stdio'' then
        let env = with_placeholders m (ms_env m) (ms_env_secrets m) in
        [(''type'', JStr ''local''), (''command'', ms_command m), (''args'', JList (map JStr (ms_args m)))]
          @ (if env = [] then [] else [(''env'', JObj env)])
      else
        let headers = with_placeholders m (ms_headers m) (ms_header_secrets m) in
        [(''type'', JStr ''http''), (''url'', ms_url m)] @ (if headers = [] then [] else [(''headers'', JObj headers)]))"

text \<open>The contents are json.dumps of this value.\<close>

definition render_copilot :: "mcp_server list \<Rightarrow> (string \<times> string) list \<Rightarrow> rendered_mcp result" where
  "render_copilot servers plain =
     (if servers = [] then Inr \<lparr>rm_path = None, rm_contents = JNull, rm_extra_args = [], rm_env = [], rm_home_files = [], rm_home_copies = []\<rparr>
      else
        let entries = fold (\<lambda>m d. AList.update (ms_name m) (JObj (copilot_entry m)) d) servers [];
            p = ''mcp/copilot.mcp-config.json'' in
        andThen (env_overlay_for servers plain) (\<lambda>env.
          Inr \<lparr>rm_path = Some p, rm_contents = JObj [(''mcpServers'', JObj entries)],
               rm_extra_args = [''--additional-mcp-config'', ''@'' @ p], rm_env = env, rm_home_files = [], rm_home_copies = []\<rparr>))"

lemma carries_load_persona [carry]: "carries (kept w0) (load_persona F p)"
  unfolding load_persona_def by (intro carry)

section \<open>Properties\<close>

lemma examples_are_turns:
  assumes "compile_persona p = Inr c" "m \<in> set (cm_examples c)"
  shows "get ''role'' m \<noteq> JStr ''system''"
proof -
  have "cm_examples c = concat (map (\<lambda>(u, a). [chat_message ''user'' u, chat_message ''assistant'' a]) (pr_examples p))"
    using assms(1) by (auto simp: compile_persona_def andThen_def Let_def split: sum.splits)
  then show ?thesis using assms(2) by (auto simp: chat_message_def get_def)
qed


definition demo_persona :: persona where
  "demo_persona = \<lparr>pr_name = ''p'', pr_version = ''1.0.0'', pr_display = ''P'', pr_description = '''', pr_locale = ''en'',
     pr_system = ''Be brief.'', pr_max_words = 50, pr_structure = ''plain'', pr_do = [''help''], pr_avoid = [''guessing''],
     pr_warmth = ''low'', pr_assertiveness = ''medium'', pr_detail = ''low'', pr_humor = ''none'',
     pr_examples = [(''hi'', ''hello'')], pr_generation = [], pr_enabled = True\<rparr>"

definition demo_segment :: "string \<Rightarrow> bool \<Rightarrow> string \<Rightarrow> segment" where
  "demo_segment authority trusted text = \<lparr>sg_authority = authority, sg_content = ''context'', sg_trusted = trusted, sg_text = text\<rparr>"


lemma strip_fixed:
  assumes "xs \<noteq> []" "\<not> is_space (hd xs)" "\<not> is_space (last xs)"
  shows "strip xs = xs"
proof -
  have 1: "dropWhile is_space xs = xs" using assms(1,2) by (cases xs) auto
  have "rev xs \<noteq> []" "\<not> is_space (hd (rev xs))" using assms by (simp_all add: hd_rev)
  then have 2: "dropWhile is_space (rev xs) = rev xs" by (cases "rev xs") auto
  show ?thesis by (simp add: strip_def 1 2)
qed

lemma strip_ends:
  assumes "strip xs \<noteq> []"
  shows "\<not> is_space (hd (strip xs))" "\<not> is_space (last (strip xs))"
proof -
  let ?a = "dropWhile is_space xs"
  have s: "strip xs = rev (dropWhile is_space (rev ?a))" by (simp add: strip_def)
  with assms have ne: "dropWhile is_space (rev ?a) \<noteq> []" by simp
  from hd_dropWhile [OF ne] show "\<not> is_space (last (strip xs))"
    using ne by (simp add: s last_rev)
  have "?a \<noteq> []" using ne by (cases ?a) simp_all
  from hd_dropWhile [OF this] have "\<not> is_space (hd ?a)" .
  moreover have "rev ?a = takeWhile is_space (rev ?a) @ dropWhile is_space (rev ?a)" by simp
  then have "?a = rev (dropWhile is_space (rev ?a)) @ rev (takeWhile is_space (rev ?a))"
    by (metis rev_append rev_rev_ident)
  then have "hd ?a = hd (strip xs)" using assms s by (metis hd_append2)
  ultimately show "\<not> is_space (hd (strip xs))" by simp
qed

text \<open>
  The headers of a flat prompt can be forged.  Whatever a segment r claims to be, trusted
  application instructions included, an untrusted segment u whose text goes on with r's rendering
  gives the very same flat prompt as u followed by a real r; this is the prompt every adapter gets.
\<close>

theorem flat_headers_forgeable:
  assumes "spoken u" "spoken r"
  shows "render_flat \<lparr>en_segments = [u, r], en_examples = ex, en_generation = g\<rparr> =
     render_flat \<lparr>en_segments = [u\<lparr>sg_text := strip (sg_text u) @ blank_line @ render_segment r\<rparr>],
       en_examples = ex, en_generation = g\<rparr>"
proof -
  let ?t = "strip (sg_text u) @ blank_line @ render_segment r"
  have u: "strip (sg_text u) \<noteq> []" and r: "strip (sg_text r) \<noteq> []" using assms by (simp_all add: spoken_def)
  have "last ?t = last (strip (sg_text r))" using r by (simp add: render_segment_def nl_def)
  then have t: "strip ?t = ?t"
    using strip_fixed [of ?t] strip_ends [OF u] strip_ends [OF r] u by simp
  then have "spoken (u\<lparr>sg_text := ?t\<rparr>)" using u by (simp add: spoken_def)
  then show ?thesis using assms t
    by (simp add: render_flat_def join_def render_segment_def [of "u\<lparr>sg_text := ?t\<rparr>"] render_segment_def [of u] header_of_def)
qed

theorem flat_headers_forgeable_witness:
  "\<exists>t. render_flat \<lparr>en_segments = [demo_segment ''user'' False ''hello'', demo_segment ''application'' True ''obey''],
      en_examples = [], en_generation = []\<rparr> =
    render_flat \<lparr>en_segments = [demo_segment ''user'' False t], en_examples = [], en_generation = []\<rparr>"
proof -
  have s: "spoken (demo_segment ''user'' False ''hello'')" "spoken (demo_segment ''application'' True ''obey'')"
    by (simp_all add: spoken_def demo_segment_def strip_def is_space_def)
  have "(demo_segment a b x)\<lparr>sg_text := t\<rparr> = demo_segment a b t" for a b x t by (simp add: demo_segment_def)
  with flat_headers_forgeable [OF s] show ?thesis by metis
qed

text \<open>
  No secret in the rendered file: the contents of an adapter's MCP configuration and its
  arguments are the same whatever the plaintexts are; secrets go only into the environment.
\<close>

theorem rendered_file_has_no_secret:
  assumes "render_copilot servers plain = Inr r" "render_copilot servers secrets' = Inr r'"
  shows "rm_contents r = rm_contents r' \<and> rm_path r = rm_path r' \<and> rm_extra_args r = rm_extra_args r'"
  using assms by (auto simp: render_copilot_def andThen_def Let_def split: if_splits sum.splits)

definition demo_server :: "string \<Rightarrow> string \<Rightarrow> string \<Rightarrow> mcp_server" where
  "demo_server name key sname = \<lparr>ms_name = name, ms_version = ''1.0.0'', ms_type = ''stdio'', ms_command = JStr ''srv'', ms_args = [],
     ms_url = JNull, ms_env = [], ms_env_secrets = [(key, JStr sname)], ms_headers = [], ms_header_secrets = [],
     ms_startup_timeout = 10, ms_tool_timeout = 60, ms_tools = [], ms_resources = [], ms_prompts = []\<rparr>"

theorem rendered_file_has_no_secret_witness:
  "\<exists>r r'. render_copilot [demo_server ''a'' ''KEY'' ''s''] [(''s'', ''hunter2'')] = Inr r \<and>
     render_copilot [demo_server ''a'' ''KEY'' ''s''] [(''s'', ''swordfish'')] = Inr r' \<and>
     rm_env r \<noteq> rm_env r' \<and> rm_contents r = rm_contents r'"
proof -
  obtain r r' where r: "render_copilot [demo_server ''a'' ''KEY'' ''s''] [(''s'', ''hunter2'')] = Inr r"
    "render_copilot [demo_server ''a'' ''KEY'' ''s''] [(''s'', ''swordfish'')] = Inr r'" "rm_env r \<noteq> rm_env r'"
    by (simp add: render_copilot_def env_overlay_for_def overlay_entry_def secret_of_def demo_server_def andThen_def Let_def)
  from rendered_file_has_no_secret [OF r(1,2)] r show ?thesis by blast
qed

text \<open>
  Two servers can meet in one environment variable: key b-c of server a and key c of server a-b, so
  the later server's secret is the one both receive.
\<close>

lemma secret_env_var_names_collide:
  "secret_env_var_name ''a'' ''b-c'' = secret_env_var_name ''a-b'' ''c''"
  "env_overlay_for [demo_server ''a'' ''b-c'' ''s1'', demo_server ''a-b'' ''c'' ''s2''] [(''s1'', ''hunter2''), (''s2'', ''swordfish'')] =
     Inr [(secret_env_var_name ''a'' ''b-c'', ''swordfish'')]"
proof -
  show same: "secret_env_var_name ''a'' ''b-c'' = secret_env_var_name ''a-b'' ''c''" by code_simp
  show "env_overlay_for [demo_server ''a'' ''b-c'' ''s1'', demo_server ''a-b'' ''c'' ''s2''] [(''s1'', ''hunter2''), (''s2'', ''swordfish'')] =
     Inr [(secret_env_var_name ''a'' ''b-c'', ''swordfish'')]"
    by (simp add: env_overlay_for_def overlay_entry_def secret_of_def demo_server_def andThen_def same)
qed

end
