(* ===== verification/Awf_Memory.thy ===== *)
theory Awf_Memory
  imports Awf_Prompt
begin

text \<open>
  Memory (memory/): memory profiles and semantic memories in the registry, their search, the search
  of the event log, the context a prompt gets from both under a token budget, and the store of active
  sessions.  A float is the fraction it stands for; \<open>md_dumps\<close> is json.dumps with sort_keys, and
  \<open>in_hours\<close> the formatted time some hours from now.
\<close>

record 'x memory_env =
  me_files :: "'x files"
  md_dumps :: "json \<Rightarrow> string"
  in_hours :: "int \<Rightarrow> 'x \<Rightarrow> string res \<times> 'x"

section \<open>Profiles and memories\<close>

record memory_profile =
  mf_name :: string
  mf_version :: string
  mf_enabled :: bool
  mf_max_class :: string
  mf_max_items :: int
  mf_max_tokens :: int
  mf_episodic :: bool
  mf_semantic :: bool
  mf_min_confidence :: rat
  mf_ttl_hours :: int
  mf_explicit_publish :: bool
  mf_embedding :: bool

definition number_of :: "json \<Rightarrow> rat result" where
  "number_of v = (case v of JInt i \<Rightarrow> Inr (of_int i) | JFloat q \<Rightarrow> Inr q | JBool b \<Rightarrow> Inr (if b then 1 else 0)
     | _ \<Rightarrow> fail ''TypeError'' ''not a number'')"

definition dict_item :: "string \<Rightarrow> obj \<Rightarrow> obj result" where
  "dict_item k d = andThen (item k d) as_dict"

definition parse_memory_profile :: "(json \<Rightarrow> string option) \<Rightarrow> obj \<Rightarrow> memory_profile result" where
  "parse_memory_profile schema raw =
     andThen (checked schema ''MemoryProfileValidationError'' raw) (\<lambda>_.
     andThen (dict_item ''metadata'' raw) (\<lambda>meta.
     andThen (dict_item ''spec'' raw) (\<lambda>spec.
     andThen (dict_item ''retrieval'' spec) (\<lambda>r.
     andThen (dict_item ''retention'' spec) (\<lambda>t.
     andThen (int_item ''maxItems'' r) (\<lambda>items.
     andThen (int_item ''maxTokens'' r) (\<lambda>tokens.
     andThen (bool_item ''includeEpisodic'' r) (\<lambda>epi.
     andThen (bool_item ''includeSemantic'' r) (\<lambda>sem.
     andThen (andThen (item ''minConfidence'' r) number_of) (\<lambda>conf.
     andThen (case get ''embedding'' spec of JNull \<Rightarrow> Inr False
              | v \<Rightarrow> andThen (as_dict v) (\<lambda>e. andThen (text_item ''version'' e) (\<lambda>_. bool_item ''enabled'' e))) (\<lambda>emb.
     andThen (text_item ''name'' meta) (\<lambda>name.
     andThen (text_item ''version'' meta) (\<lambda>version.
     andThen (bool_item ''enabled'' spec) (\<lambda>en.
     andThen (text_item ''maximum_data_class'' spec) (\<lambda>cls.
     andThen (int_item ''activeSessionTtlHours'' t) (\<lambda>ttl.
     andThen (bool_item ''requireExplicitSemanticPublish'' t) (\<lambda>pub.
       Inr \<lparr>mf_name = name, mf_version = version, mf_enabled = en, mf_max_class = cls, mf_max_items = items,
            mf_max_tokens = tokens, mf_episodic = epi, mf_semantic = sem, mf_min_confidence = conf, mf_ttl_hours = ttl,
            mf_explicit_publish = pub, mf_embedding = emb\<rparr>)))))))))))))))))"

definition load_yaml_object ::
  "'x files \<Rightarrow> path \<Rightarrow> string \<Rightarrow> string \<Rightarrow> (obj \<Rightarrow> 'a result) \<Rightarrow> ('a \<Rightarrow> string \<times> string) \<Rightarrow> ('x, 'a) op" where
  "load_yaml_object F p ctxt error parse name_version =
     bindE (outside (read_text F p)) (\<lambda>text. liftR (
       andThen (yaml_load F text) (\<lambda>v. case v of
           JObj raw \<Rightarrow>
             andThen (parse raw) (\<lambda>m.
             andThen (check_identity (fst (name_version m)) (snd (name_version m)) p ctxt error) (\<lambda>_. Inr m))
         | _ \<Rightarrow> fail error (as_posix p @ '': '' @ ctxt @ '' must be a YAML mapping''))))"

definition load_memory_profile :: "'x files \<Rightarrow> path \<Rightarrow> ('x, memory_profile) op" where
  "load_memory_profile F p =
     load_yaml_object F p ''memory profile'' ''MemoryProfileValidationError''
       (parse_memory_profile (schema_check F ''memory-profiles'')) (\<lambda>m. (mf_name m, mf_version m))"

record semantic_memory =
  sm_api :: json
  sm_kind :: json
  sm_name :: string
  sm_version :: string
  sm_digest :: json
  sm_subject :: string
  sm_predicate :: string
  sm_value :: string
  sm_type :: string
  sm_scope :: string
  sm_confidence :: json
  sm_class :: string
  sm_provenance :: obj
  sm_validity :: obj
  sm_correction :: obj
  sm_pinned :: json
  sm_enabled :: bool

definition memory_error :: "string \<Rightarrow> 'a result" where
  "memory_error msg = fail ''SemanticMemoryValidationError'' msg"

definition reject_secret_like :: "string \<Rightarrow> unit result" where
  "reject_secret_like v =
     (let l = lower v in
      if sublist ''secret'' l \<or> sublist ''api_key'' l \<or> sublist ''api-key'' l \<or> sublist ''sk-'' v
      then memory_error ''semantic memory value appears to contain a secret'' else Inr ())"

text \<open>The dataclasses of provenance, validity and correction as dicts of their fields.\<close>

definition provenance_dict :: "obj \<Rightarrow> obj result" where
  "provenance_dict p =
     andThen (item ''sourceType'' p) (\<lambda>ty. andThen (item ''sourceRef'' p) (\<lambda>rf. andThen (item ''observedAt'' p) (\<lambda>ob.
       Inr [(''source_type'', ty), (''source_ref'', rf), (''artifact_id'', get ''artifactId'' p), (''run_id'', get ''runId'' p),
            (''event_id'', get ''eventId'' p), (''observed_at'', ob)])))"

definition validity_dict :: "obj \<Rightarrow> obj result" where
  "validity_dict v = andThen (item ''validFrom'' v) (\<lambda>f.
     Inr [(''valid_from'', f), (''valid_until'', get ''validUntil'' v)])"

definition correction_dict :: "obj \<Rightarrow> obj" where
  "correction_dict c = [(''supersedes'', get ''supersedes'' c), (''corrected_by'', get ''correctedBy'' c),
     (''correction_reason'', get ''correctionReason'' c)]"

definition parse_semantic_memory :: "(json \<Rightarrow> string option) \<Rightarrow> obj \<Rightarrow> semantic_memory result" where
  "parse_semantic_memory schema raw =
     andThen (checked schema ''SemanticMemoryValidationError'' raw) (\<lambda>_.
     andThen (dict_item ''metadata'' raw) (\<lambda>meta.
     andThen (dict_item ''spec'' raw) (\<lambda>spec.
     andThen (dict_item ''provenance'' spec) (\<lambda>praw.
     andThen (dict_item ''validity'' spec) (\<lambda>vraw.
     andThen (dict_item ''correction'' spec) (\<lambda>craw.
     andThen (text_item ''value'' spec) (\<lambda>v.
     andThen (reject_secret_like v) (\<lambda>_.
     andThen (provenance_dict praw) (\<lambda>prov.
     if \<not> list_ex (\<lambda>k. truthy (get k prov)) [''source_ref'', ''artifact_id'', ''run_id'', ''event_id'']
     then memory_error ''semantic memory provenance must identify a source''
     else
     andThen (item ''apiVersion'' raw) (\<lambda>api.
     andThen (item ''kind'' raw) (\<lambda>kind.
     andThen (text_item ''name'' meta) (\<lambda>name.
     andThen (text_item ''version'' meta) (\<lambda>version.
     andThen (item ''digest'' meta) (\<lambda>digest.
     andThen (text_item ''subject'' spec) (\<lambda>subject.
     andThen (text_item ''predicate'' spec) (\<lambda>pred.
     andThen (text_item ''memoryType'' spec) (\<lambda>ty.
     andThen (text_item ''scope'' spec) (\<lambda>scope.
     andThen (item ''confidence'' spec) (\<lambda>conf.
     andThen (text_item ''data_classification'' spec) (\<lambda>cls.
     andThen (validity_dict vraw) (\<lambda>validity.
     andThen (item ''pinned'' spec) (\<lambda>pinned.
     andThen (bool_item ''enabled'' spec) (\<lambda>en.
       Inr \<lparr>sm_api = api, sm_kind = kind, sm_name = name, sm_version = version, sm_digest = digest, sm_subject = subject,
            sm_predicate = pred, sm_value = v, sm_type = ty, sm_scope = scope, sm_confidence = conf, sm_class = cls,
            sm_provenance = prov, sm_validity = validity, sm_correction = correction_dict craw, sm_pinned = pinned,
            sm_enabled = en\<rparr>)))))))))))))))))))))))"

definition load_semantic_memory :: "'x files \<Rightarrow> path \<Rightarrow> ('x, semantic_memory) op" where
  "load_semantic_memory F p =
     load_yaml_object F p ''semantic memory'' ''SemanticMemoryValidationError''
       (parse_semantic_memory (schema_check F ''semantic-memories'')) (\<lambda>m. (sm_name m, sm_version m))"

definition semantic_ref :: "semantic_memory \<Rightarrow> string" where
  "semantic_ref m = sm_name m @ ''@'' @ sm_version m"

text \<open>dataclasses.asdict\<close>

definition semantic_dict :: "semantic_memory \<Rightarrow> obj" where
  "semantic_dict m =
     [(''api_version'', sm_api m), (''kind'', sm_kind m),
      (''metadata'', JObj [(''name'', JStr (sm_name m)), (''version'', JStr (sm_version m)), (''digest'', sm_digest m)]),
      (''subject'', JStr (sm_subject m)), (''predicate'', JStr (sm_predicate m)), (''value'', JStr (sm_value m)),
      (''memory_type'', JStr (sm_type m)), (''scope'', JStr (sm_scope m)), (''confidence'', sm_confidence m),
      (''data_classification'', JStr (sm_class m)), (''provenance'', JObj (sm_provenance m)),
      (''validity'', JObj (sm_validity m)), (''correction'', JObj (sm_correction m)), (''pinned'', sm_pinned m),
      (''enabled'', JBool (sm_enabled m))]"

section \<open>Semantic search (memory/semantic.py)\<close>

definition data_class_rank :: "string \<Rightarrow> nat result" where
  "data_class_rank c =
     (if c = ''public'' then Inr 0 else if c = ''internal'' then Inr 1 else if c = ''confidential'' then Inr 2
      else fail ''KeyError'' (str_repr c))"

text \<open>text.split(): the words of a text, from the one read so far.\<close>

fun words_from :: "string \<Rightarrow> string \<Rightarrow> string list" where
  "words_from acc [] = (if acc = [] then [] else [acc])"
| "words_from acc (c # s) =
     (if is_space c then (if acc = [] then words_from [] s else acc # words_from [] s) else words_from (acc @ [c]) s)"

definition score :: "string \<Rightarrow> semantic_memory \<Rightarrow> rat" where
  "score query m =
     (let haystack = lower (join '' '' [sm_name m, sm_subject m, sm_predicate m, sm_value m, sm_type m, sm_scope m,
                                       py_str (get ''source_ref'' (sm_provenance m))]);
          terms = words_from [] (lower query) in
      if terms = [] then 1
      else of_nat (length (filter (\<lambda>t. sublist t haystack) terms)) / of_nat (length terms))"

definition load_profile_ref :: "'x files \<Rightarrow> string \<Rightarrow> ('x, memory_profile) op" where
  "load_profile_ref F rf =
     (let (name, version) = partition_at (CHR ''@'') rf in
      if CHR ''@'' \<notin> set rf \<or> name = [] \<or> version = []
      then throw ''ValueError'' (''profile must be '' @ str_repr ''<name>@<version>'' @ '', got '' @ str_repr rf)
      else bindE (resolve_registry_object F ''memory-profiles'' name version) (\<lambda>(p, _). load_memory_profile F p))"

definition semantic_kind :: registry_kind where
  "semantic_kind = \<lparr>k_key = ''semantic-memories'', k_layout = Yaml, k_data_only = False\<rparr>"

text \<open>_iter_memory_paths: the objects of a root, without the names listed as the other root's.\<close>

definition paths_of_name :: "'x files \<Rightarrow> string \<Rightarrow> path \<Rightarrow> string \<Rightarrow> ('x, (string \<times> path) list) op" where
  "paths_of_name F source kind_dir name =
     (let dir = join_path kind_dir (False, [name]) in
      bindE (versions_below F dir semantic_kind) (\<lambda>vs. ret (map (\<lambda>v. (source, object_path dir semantic_kind v)) vs)))"

definition paths_of_root :: "'x files \<Rightarrow> string list \<Rightarrow> string \<times> path \<Rightarrow> ('x, (string \<times> path) list) op" where
  "paths_of_root F hidden = (\<lambda>(source, root_dir).
     let kind_dir = join_path root_dir (False, [''semantic-memories'']) in
     bindE (outside (list_dir F kind_dir)) (\<lambda>r. case r of
         None \<Rightarrow> ret []
       | Some names \<Rightarrow>
           bindE (mapE (paths_of_name F source kind_dir)
                    (filter (\<lambda>n. source = ''data'' \<or> n \<notin> set hidden) (sort names))) (\<lambda>ps. ret (concat ps))))"

definition directories_in :: "'x files \<Rightarrow> path \<Rightarrow> ('x, string list) op" where
  "directories_in F dir =
     bindE (outside (list_dir F dir)) (\<lambda>r. case r of
         None \<Rightarrow> ret []
       | Some names \<Rightarrow>
           bindE (mapE (\<lambda>n. bindE (outside (list_dir F (join_path dir (False, [n])))) (\<lambda>d. ret (if d = None then [] else [n]))) names)
             (\<lambda>ns. ret (concat ns)))"

definition iter_memory_paths :: "'x files \<Rightarrow> ('x, (string \<times> path) list) op" where
  "iter_memory_paths F =
     bindE (directories_in F (join_path (data_root F) (False, [''semantic-memories'']))) (\<lambda>data_names.
     bindE (mapE (paths_of_root F data_names) [(''data'', data_root F), (''config'', config_root F)]) (\<lambda>ps. ret (concat ps)))"

record found_memory =
  fm_score :: rat
  fm_confidence :: rat
  fm_ref :: string
  fm_dict :: obj

definition found_dict :: "semantic_memory \<Rightarrow> string \<Rightarrow> index_row option \<Rightarrow> rat \<Rightarrow> obj" where
  "found_dict m source row sc =
     [(''kind'', JStr ''semantic-memories''), (''name'', JStr (sm_name m)), (''version'', JStr (sm_version m)),
      (''ref'', JStr (semantic_ref m)), (''source'', JStr source),
      (''digest'', jopt (map_option x_digest row)), (''trust_status'', jopt (Option.bind row x_trust)),
      (''score'', JFloat sc), (''confidence'', sm_confidence m), (''object'', JObj (semantic_dict m))]"

definition search_memory ::
  "'x files \<Rightarrow> string \<Rightarrow> memory_profile \<Rightarrow> nat \<Rightarrow> string \<times> path \<Rightarrow> ('x, found_memory list) op" where
  "search_memory F query prof max_rank = (\<lambda>(source, p).
     bindE (load_semantic_memory F p) (\<lambda>m.
     bindE (if sm_enabled m then liftR (number_of (sm_confidence m)) else ret 0) (\<lambda>conf.
     if \<not> sm_enabled m \<or> conf < mf_min_confidence prof then ret []
     else
       bindE (liftR (data_class_rank (sm_class m))) (\<lambda>rank.
       if rank > max_rank then ret []
       else
         bindE (index_row ''semantic-memories'' (sm_name m) (sm_version m)) (\<lambda>row.
         if Option.bind row x_trust = Some ''blocked'' then ret []
         else
           let sc = score query m in
           if query \<noteq> [] \<and> sc = 0 then ret []
           else ret [\<lparr>fm_score = sc, fm_confidence = conf, fm_ref = semantic_ref m, fm_dict = found_dict m source row sc\<rparr>])))))"

text \<open>results.sort(key=(score, confidence, ref), reverse=True), which keeps the order of equals.\<close>

definition ranked_memories :: "found_memory list \<Rightarrow> found_memory list" where
  "ranked_memories ms =
     rev (sort_key fm_score (sort_key fm_confidence (sort_key fm_ref (rev ms))))"

text \<open>results[: max_items]\<close>

definition upto_items :: "int \<Rightarrow> 'a list \<Rightarrow> 'a list" where
  "upto_items n xs = (if 0 \<le> n then take (nat n) xs else take (length xs - nat (- n)) xs)"

definition search_semantic_memories :: "'x files \<Rightarrow> string \<Rightarrow> string \<Rightarrow> ('x, obj list) op" where
  "search_semantic_memories F query profile_ref =
     bindE (load_profile_ref F profile_ref) (\<lambda>prof.
     if \<not> mf_enabled prof \<or> \<not> mf_semantic prof then ret []
     else
       bindE (liftR (data_class_rank (mf_max_class prof))) (\<lambda>max_rank.
       bindE (iter_memory_paths F) (\<lambda>ps.
       bindE (mapE (search_memory F query prof max_rank) ps) (\<lambda>found.
         ret (map fm_dict (upto_items (mf_max_items prof) (ranked_memories (concat found))))))))"

section \<open>Episodic search (memory/episodic.py)\<close>

text \<open>SQL LIKE: a percent sign matches any text, an underscore any character, letters in either case.\<close>

fun like :: "string \<Rightarrow> string \<Rightarrow> bool" where
  "like [] s = (s = [])"
| "like (p # ps) s =
     (if p = CHR ''%'' then like ps s \<or> (case s of [] \<Rightarrow> False | _ # t \<Rightarrow> like (p # ps) t)
      else (case s of [] \<Rightarrow> False | c # t \<Rightarrow> (p = CHR ''_'' \<or> lower_char p = lower_char c) \<and> like ps t))"

definition event_dict :: "(json \<Rightarrow> string) \<Rightarrow> event_row \<Rightarrow> string option \<Rightarrow> string option \<Rightarrow> obj" where
  "event_dict dumps_of e flow_ref node =
     [(''event_id'', JStr (e_id e)), (''run_id'', JStr (e_run e)), (''step_id'', jopt (e_step e)),
      (''attempt'', (case e_attempt e of None \<Rightarrow> JNull | Some n \<Rightarrow> JInt (int n))), (''prior_status'', jopt (e_prior e)),
      (''new_status'', JStr (e_new e)), (''occurred_at'', JStr (e_time e)), (''actor'', JStr (e_actor e)),
      (''reason_code'', JStr (e_reason e)), (''payload_json'', JStr (dumps_of (e_payload e))),
      (''workflow_ref'', jopt flow_ref), (''node_id'', jopt node), (''source'', JStr ''events''), (''score'', JFloat 1)]"

definition event_matches :: "(json \<Rightarrow> string) \<Rightarrow> string \<Rightarrow> event_row \<Rightarrow> string option \<Rightarrow> string option \<Rightarrow> bool" where
  "event_matches dumps_of pat e flow_ref node =
     (like pat (e_reason e) \<or> like pat (e_actor e) \<or> like pat (dumps_of (e_payload e)) \<or>
      (case flow_ref of None \<Rightarrow> False | Some r \<Rightarrow> like pat r) \<or> (case node of None \<Rightarrow> False | Some n \<Rightarrow> like pat n))"

definition latest_first :: "event_row list \<Rightarrow> event_row list" where
  "latest_first es = rev (sort_key e_time (sort_key e_id es))"

definition search_events :: "(json \<Rightarrow> string) \<Rightarrow> string \<Rightarrow> string option \<Rightarrow> nat \<Rightarrow> ('x, obj list) op" where
  "search_events dumps_of query run_id limit = gets (\<lambda>w.
     let cleaned = strip query;
         flow_of = (\<lambda>e. map_option r_workflow (find (\<lambda>r. r_id r = e_run e) (runs w)));
         node_of = (\<lambda>e. Option.bind (e_step e) (\<lambda>s. map_option s_node (find (\<lambda>x. s_id x = s) (steps w))));
         mine = (\<lambda>e. run_id = None \<or> run_id = Some (e_run e));
         hit = (\<lambda>e. mine e \<and> (cleaned = [] \<or>
                  event_matches dumps_of (CHR ''%'' # cleaned @ ''%'') e (flow_of e) (node_of e))) in
     map (\<lambda>e. event_dict dumps_of e (flow_of e) (node_of e)) (take limit (latest_first (filter hit (events w)))))"

section \<open>Context under a budget (memory/context.py)\<close>

definition estimated_tokens :: "string \<Rightarrow> int" where
  "estimated_tokens s = max 1 ((int (length s) + 3) div 4)"

definition text_or :: "json \<Rightarrow> json \<Rightarrow> json" where
  "text_or a b = (if truthy a then a else b)"

definition semantic_line :: "(json \<Rightarrow> string) \<Rightarrow> obj \<Rightarrow> string" where
  "semantic_line dumps_of r =
     (let label = text_or (get ''ref'' r) (text_or (get ''name'' r) (JStr ''semantic memory''));
          d = as_obj (get ''object'' r);
          part = (\<lambda>k. py_str (get_or k (JStr []) d));
          plain = strip (part ''subject'' @ '' '' @ part ''predicate'' @ '' '' @ part ''value'');
          body = (if plain = [] then dumps_of (JObj r) else plain);
          pre = py_str label @ '': '' @ body in
      if get ''confidence'' r = JNull then pre else pre @ '' (confidence='' @ py_str (get ''confidence'' r) @ '')'')"

definition event_line :: "(json \<Rightarrow> string) \<Rightarrow> obj \<Rightarrow> string" where
  "event_line dumps_of r =
     (let actor = text_or (get ''actor'' r) (text_or (get ''role'' r) (text_or (get ''reason_code'' r) (JStr ''event'')));
          text = text_or (get ''summary'' r) (text_or (get ''content'' r) (text_or (get ''payload'' r) (get ''payload_json'' r))) in
      py_str actor @ '': '' @
      (case text of JNull \<Rightarrow> dumps_of (JObj r) | JStr s \<Rightarrow> s | _ \<Rightarrow> dumps_of text))"

text \<open>_append_budgeted: a text that does not fit is passed over.\<close>

definition append_budgeted :: "string \<Rightarrow> string \<Rightarrow> segment list \<times> int \<Rightarrow> segment list \<times> int" where
  "append_budgeted authority text = (\<lambda>(segs, remaining).
     if estimated_tokens text > remaining then (segs, remaining)
     else (segs @ [\<lparr>sg_authority = authority, sg_content = ''context'', sg_trusted = False, sg_text = text\<rparr>],
           remaining - estimated_tokens text))"

text \<open>The loop over the semantic results, which stops at max_items segments.\<close>

fun add_semantic :: "(json \<Rightarrow> string) \<Rightarrow> int \<Rightarrow> obj list \<Rightarrow> segment list \<times> int \<Rightarrow> segment list \<times> int" where
  "add_semantic dumps_of max_items [] acc = acc"
| "add_semantic dumps_of max_items (r # rs) acc =
     (if int (length (fst acc)) \<ge> max_items then acc
      else add_semantic dumps_of max_items rs (append_budgeted ''memory'' (semantic_line dumps_of r) acc))"

definition add_events :: "(json \<Rightarrow> string) \<Rightarrow> obj list \<Rightarrow> segment list \<times> int \<Rightarrow> segment list \<times> int" where
  "add_events dumps_of rs acc = fold (\<lambda>r. append_budgeted ''retrieval'' (event_line dumps_of r)) rs acc"

definition memory_segments :: "'x memory_env \<Rightarrow> memory_profile \<Rightarrow> string \<Rightarrow> string \<Rightarrow> ('x, segment list) op" where
  "memory_segments M prof query profile_ref =
     bindE (if mf_semantic prof
            then bindE (search_semantic_memories (me_files M) query profile_ref) (\<lambda>rs.
                   ret (add_semantic (md_dumps M) (mf_max_items prof) rs ([], mf_max_tokens prof)))
            else ret ([], mf_max_tokens prof)) (\<lambda>acc.
     if mf_episodic prof \<and> int (length (fst acc)) < mf_max_items prof then
       bindE (search_events (md_dumps M) query None (nat (mf_max_items prof - int (length (fst acc))))) (\<lambda>rs.
         ret (fst (add_events (md_dumps M) rs acc)))
     else ret (fst acc))"

definition retrieve_memory_context :: "'x memory_env \<Rightarrow> string \<Rightarrow> string \<Rightarrow> ('x, segment list) op" where
  "retrieve_memory_context M query profile_ref =
     (let (name, version) = partition_at (CHR ''@'') profile_ref in
      bindE (resolve_registry_object (me_files M) ''memory-profiles'' name version) (\<lambda>(p, _).
      bindE (load_memory_profile (me_files M) p) (\<lambda>prof. memory_segments M prof query profile_ref)))"

section \<open>Sessions (memory/sessions.py)\<close>

definition session_error :: "string \<Rightarrow> ('w, 'a) act" where
  "session_error msg = throw ''SessionError'' msg"

definition find_session :: "string \<Rightarrow> ('x, session_row option) op" where
  "find_session i = gets (\<lambda>w. find (\<lambda>s. n_id s = i) (sessions w))"

definition update_session :: "string \<Rightarrow> (session_row \<Rightarrow> session_row) \<Rightarrow> ('x, unit) op" where
  "update_session i f = modify (\<lambda>w. w\<lparr>sessions := map (\<lambda>s. if n_id s = i then f s else s) (sessions w)\<rparr>)"

definition insert_session :: "session_row \<Rightarrow> ('x, unit) op" where
  "insert_session s =
     bindE (find_session (n_id s)) (\<lambda>old.
     if old \<noteq> None then integrity ''UNIQUE constraint failed: active_sessions.session_id''
     else modify (\<lambda>w. w\<lparr>sessions := sessions w @ [s]\<rparr>))"

definition entry_roles :: "string list" where
  "entry_roles = [''operator'', ''assistant'', ''system'', ''tool'']"

definition insert_entry :: "entry_row \<Rightarrow> ('x, unit) op" where
  "insert_entry y =
     bindE (gets (\<lambda>w. list_ex (\<lambda>x. y_id x = y_id y) (entries w))) (\<lambda>clash.
     bindE (find_session (y_session y)) (\<lambda>s.
     if y_role y \<notin> set entry_roles then integrity ''CHECK constraint failed: role''
     else if clash then integrity ''UNIQUE constraint failed: active_session_entries.entry_id''
     else if s = None then integrity ''FOREIGN KEY constraint failed''
     else modify (\<lambda>w. w\<lparr>entries := entries w @ [y]\<rparr>)))"

definition past :: "string \<Rightarrow> session_row \<Rightarrow> bool" where
  "past now s = (case n_expires s of Some (c # t) \<Rightarrow> c # t \<le> now | _ \<Rightarrow> False)"

text \<open>show_session: an active session past its time is first set to expired.\<close>

definition expire_if_past :: "string \<Rightarrow> ('x, session_row) op" where
  "expire_if_past session_id =
     bindE (find_session session_id) (\<lambda>row. case row of
         None \<Rightarrow> session_error (''no such session: '' @ session_id)
       | Some s \<Rightarrow>
           bindE utc_now_rfc3339 (\<lambda>now.
           if n_status s = S_ACTIVE \<and> past now s then
             seqE (update_session session_id (\<lambda>x. x\<lparr>n_status := S_EXPIRED, n_updated := now\<rparr>))
               (bindE (find_session session_id) (demand none_type))
           else ret s))"

definition entries_of :: "string \<Rightarrow> 'x world \<Rightarrow> entry_row list" where
  "entries_of session_id w = sort_key y_created (sort_key y_id (filter (\<lambda>y. y_session y = session_id) (entries w)))"

definition show_session :: "string \<Rightarrow> ('x, session_row \<times> entry_row list) op" where
  "show_session session_id =
     bindE (expire_if_past session_id) (\<lambda>s. bindE (gets (entries_of session_id)) (\<lambda>ys. ret (s, ys)))"

definition start_session ::
  "'x memory_env \<Rightarrow> string option \<Rightarrow> string option \<Rightarrow> int option \<Rightarrow> ('x, session_row \<times> entry_row list) op" where
  "start_session M title expires_at ttl_hours =
     bindE uuid7 (\<lambda>session_id.
     bindE utc_now_rfc3339 (\<lambda>now.
     bindE (case (expires_at, ttl_hours) of
              (None, Some h) \<Rightarrow> bindE (outside (in_hours M h)) (\<lambda>t. ret (Some t))
            | _ \<Rightarrow> ret expires_at) (\<lambda>ends.
     seqE (insert_session \<lparr>n_id = session_id, n_title = title, n_status = S_ACTIVE, n_summary = None,
             n_created = now, n_updated = now, n_expires = ends\<rparr>)
       (show_session session_id))))"

definition append_entry :: "string \<Rightarrow> string \<Rightarrow> json \<Rightarrow> string option \<Rightarrow> ('x, session_row \<times> entry_row list) op" where
  "append_entry session_id entry_role content summary =
     bindE (find_session session_id) (\<lambda>row. case row of
         None \<Rightarrow> session_error (''no such session: '' @ session_id)
       | Some s \<Rightarrow>
           bindE utc_now_rfc3339 (\<lambda>now.
           if n_status s = S_EXPIRED \<or> past now s then
             seqE (whenE (n_status s \<noteq> S_EXPIRED) (update_session session_id (\<lambda>x. x\<lparr>n_status := S_EXPIRED, n_updated := now\<rparr>)))
               (session_error (''session '' @ session_id @ '' is expired''))
           else
             bindE uuid7 (\<lambda>entry_id.
             seqE (insert_entry \<lparr>y_id = entry_id, y_session = session_id, y_role = entry_role,
                     y_content = sort_json content, y_summary = summary, y_created = now\<rparr>) (
             seqE (update_session session_id (\<lambda>x. x\<lparr>n_updated := now\<rparr>))
               (show_session session_id)))))"

definition entry_summary :: "'x memory_env \<Rightarrow> entry_row \<Rightarrow> string" where
  "entry_summary M y = y_role y @ '': '' @ (case y_summary y of Some (c # t) \<Rightarrow> c # t | _ \<Rightarrow> md_dumps M (y_content y))"

definition summarize_session :: "'x memory_env \<Rightarrow> string \<Rightarrow> string option \<Rightarrow> ('x, session_row \<times> entry_row list) op" where
  "summarize_session M session_id summary =
     bindE (show_session session_id) (\<lambda>(s, ys).
     let text = (case summary of Some t \<Rightarrow> t | None \<Rightarrow> join nl (map (entry_summary M) ys)) in
     bindE utc_now_rfc3339 (\<lambda>now.
     seqE (update_session session_id (\<lambda>x. x\<lparr>n_status := S_SUMMARIZED, n_summary := Some text, n_updated := now\<rparr>))
       (show_session session_id)))"

section \<open>What memory keeps\<close>

lemma carries_load_yaml_object [carry]: "carries (kept w0) (load_yaml_object F p c e g h)"
  unfolding load_yaml_object_def by (intro carry)

lemma carries_memory_loads [carry]:
  "carries (kept w0) (load_memory_profile F p)" "carries (kept w0) (load_semantic_memory F p)"
  "carries (kept w0) (load_profile_ref F r)"
  unfolding load_memory_profile_def load_semantic_memory_def load_profile_ref_def by (intro carry)+

lemma carries_search_semantic [carry]: "carries (kept w0) (search_semantic_memories F q r)"
  unfolding search_semantic_memories_def iter_memory_paths_def directories_in_def paths_of_root_def paths_of_name_def
    search_memory_def Let_def
  by (intro carry)

lemma carries_memory_context [carry]: "carries (kept w0) (retrieve_memory_context M q r)"
  unfolding retrieve_memory_context_def memory_segments_def search_events_def by (intro carry)

lemma carries_sessions [carry]:
  "carries (kept w0) (show_session i)" "carries (kept w0) (start_session M t e h)"
  "carries (kept w0) (append_entry i r c s)" "carries (kept w0) (summarize_session M i s)"
proof -
  have show_: "carries (kept w0) (show_session i)" for i
    unfolding show_session_def expire_if_past_def find_session_def update_session_def session_error_def by (intro carry)
  then show "carries (kept w0) (show_session i)" .
  show "carries (kept w0) (start_session M t e h)"
    unfolding start_session_def insert_session_def find_session_def by (intro carry show_)
  show "carries (kept w0) (append_entry i r c s)"
    unfolding append_entry_def insert_entry_def find_session_def update_session_def session_error_def by (intro carry show_)
  show "carries (kept w0) (summarize_session M i s)"
    unfolding summarize_session_def update_session_def by (intro carry show_)
qed

section \<open>The budget\<close>

definition token_sum :: "segment list \<Rightarrow> int" where
  "token_sum segs = sum_list (map (\<lambda>s. estimated_tokens (sg_text s)) segs)"

text \<open>What the accumulator of the loops satisfies: what is used and what remains make up the budget.\<close>

definition in_budget :: "int \<Rightarrow> segment list \<times> int \<Rightarrow> bool" where
  "in_budget budget acc = (token_sum (fst acc) + snd acc = budget \<and> (fst acc \<noteq> [] \<longrightarrow> 0 \<le> snd acc) \<and>
     list_all (\<lambda>s. \<not> sg_trusted s \<and> sg_authority s \<in> set [''memory'', ''retrieval'']) (fst acc))"

lemma in_budget_append:
  assumes "in_budget b acc" "authority \<in> set [''memory'', ''retrieval'']"
  shows "in_budget b (append_budgeted authority text acc)"
    "length (fst (append_budgeted authority text acc)) \<le> Suc (length (fst acc))"
  using assms by (cases acc; simp add: in_budget_def append_budgeted_def token_sum_def)+

lemma in_budget_semantic:
  assumes "in_budget b acc" "int (length (fst acc)) \<le> max 0 n"
  shows "in_budget b (add_semantic d n rs acc) \<and> int (length (fst (add_semantic d n rs acc))) \<le> max 0 n"
  using assms
proof (induction rs arbitrary: acc)
  case (Cons r rs)
  let ?acc = "append_budgeted ''memory'' (semantic_line d r) acc"
  show ?case
  proof (cases "int (length (fst acc)) \<ge> n")
    case False
    then have "int (length (fst ?acc)) \<le> max 0 n" "in_budget b ?acc"
      using in_budget_append [OF Cons.prems(1), of "''memory''" "semantic_line d r"] by auto
    from Cons.IH [OF this(2,1)] False show ?thesis by simp
  qed (use Cons.prems in simp)
qed simp

lemma in_budget_events:
  assumes "in_budget b acc"
  shows "in_budget b (add_events d rs acc) \<and> length (fst (add_events d rs acc)) \<le> length (fst acc) + length rs"
  using assms
proof (induction rs arbitrary: acc)
  case (Cons r rs)
  let ?acc = "append_budgeted ''retrieval'' (event_line d r) acc"
  have "in_budget b ?acc" "length (fst ?acc) \<le> Suc (length (fst acc))"
    using in_budget_append [OF Cons.prems] by auto
  with Cons.IH [of ?acc] show ?case by (simp add: add_events_def)
qed (simp add: add_events_def)

section \<open>The life of a session\<close>

text \<open>One change of a session's status.  An expired session can be summarized, which hides that it expired.\<close>

inductive session_moves :: "session_status \<Rightarrow> session_status \<Rightarrow> bool" where
  expire: "session_moves S_ACTIVE S_EXPIRED"
| close: "session_moves s S_SUMMARIZED"
| expire_closed: "session_moves S_SUMMARIZED S_EXPIRED"

inductive_cases session_moves_to_active: "session_moves s S_ACTIVE"

lemma never_active_again: "session_moves\<^sup>*\<^sup>* s t \<Longrightarrow> s \<noteq> S_ACTIVE \<Longrightarrow> t \<noteq> S_ACTIVE"
  by (induction rule: rtranclp_induct) (auto elim: session_moves_to_active)

definition moved :: "session_row \<Rightarrow> session_row \<Rightarrow> bool" where
  "moved a b = (n_id b = n_id a \<and> n_created b = n_created a \<and> n_expires b = n_expires a \<and> session_moves\<^sup>*\<^sup>* (n_status a) (n_status b))"

definition sessions_evolve :: "'x world \<Rightarrow> 'x world \<Rightarrow> bool" where
  "sessions_evolve w0 w = list_all2 moved (sessions w0) (take (length (sessions w0)) (sessions w))"

lemma moved_refl: "moved a a"
  by (simp add: moved_def)

lemma sessions_evolve_refl: "sessions_evolve w w"
  by (simp add: sessions_evolve_def list_all2_same moved_refl)

lemma evolve_same: "sessions w' = sessions w \<Longrightarrow> sessions_evolve w0 w \<Longrightarrow> sessions_evolve w0 w'"
  by (simp add: sessions_evolve_def)

lemma evolve_outside [carry]: "carries (sessions_evolve w0) (outside f)"
  by (rule carriesI) (auto simp: outside_def split: prod.split elim: evolve_same [rotated])

lemma evolve_clock [carry]: "carries (sessions_evolve w0) utc_now_rfc3339" "carries (sessions_evolve w0) uuid7"
  by (rule carriesI, auto simp: utc_now_rfc3339_def uuid7_def elim: evolve_same [rotated])+

lemma evolve_find [carry]: "carries I (find_session i)"
  unfolding find_session_def by (rule carries_gets)

lemma evolve_update:
  assumes "\<And>s. n_id (f s) = n_id s" "\<And>s. n_created (f s) = n_created s" "\<And>s. n_expires (f s) = n_expires s"
    and "\<And>s. session_moves\<^sup>*\<^sup>* (n_status s) (n_status (f s))"
  shows "carries (sessions_evolve w0) (update_session i f)"
  unfolding update_session_def
proof (rule carries_modify)
  fix w assume w: "sessions_evolve w0 w"
  let ?g = "\<lambda>s. if n_id s = i then f s else s"
  have step: "moved a (?g b)" if "moved a b" for a b
    using that assms rtranclp_trans [of session_moves "n_status a" "n_status b" "n_status (f b)"] by (auto simp: moved_def)
  have "list_all2 moved (sessions w0) (map ?g (take (length (sessions w0)) (sessions w)))"
    using w unfolding sessions_evolve_def list_all2_map2
    by (rule list_all2_mono) (rule step)
  then show "sessions_evolve w0 (w\<lparr>sessions := map ?g (sessions w)\<rparr>)"
    by (simp add: sessions_evolve_def take_map)
qed

lemma to_expired: "session_moves\<^sup>*\<^sup>* s S_EXPIRED" "session_moves\<^sup>*\<^sup>* s S_SUMMARIZED"
proof -
  show "session_moves\<^sup>*\<^sup>* s S_SUMMARIZED" by (rule r_into_rtranclp) (rule close)
  show "session_moves\<^sup>*\<^sup>* s S_EXPIRED"
    by (cases s) (auto intro: r_into_rtranclp session_moves.intros)
qed

lemma evolve_updates [carry]:
  "carries (sessions_evolve w0) (update_session i (\<lambda>x. x\<lparr>n_status := S_EXPIRED, n_updated := t\<rparr>))"
  "carries (sessions_evolve w0) (update_session i (\<lambda>x. x\<lparr>n_status := S_SUMMARIZED, n_summary := q, n_updated := t\<rparr>))"
  "carries (sessions_evolve w0) (update_session i (\<lambda>x. x\<lparr>n_updated := t\<rparr>))"
  by (intro evolve_update; simp add: to_expired)+

lemma evolve_insert_session [carry]: "carries (sessions_evolve w0) (insert_session s)"
proof -
  have "carries (sessions_evolve w0) (modify (\<lambda>w. w\<lparr>sessions := sessions w @ [s]\<rparr>))"
  proof (rule carries_modify)
    fix w assume w: "sessions_evolve w0 w"
    then have "length (sessions w0) \<le> length (sessions w)"
      using list_all2_lengthD by (fastforce simp: sessions_evolve_def)
    with w show "sessions_evolve w0 (w\<lparr>sessions := sessions w @ [s]\<rparr>)" by (simp add: sessions_evolve_def)
  qed
  then show ?thesis unfolding insert_session_def by (intro carry)
qed

lemma evolve_insert_entry [carry]: "carries (sessions_evolve w0) (insert_entry y)"
proof -
  have "carries (sessions_evolve w0) (modify (\<lambda>w. w\<lparr>entries := entries w @ [y]\<rparr>))"
    by (rule carries_modify) (auto elim: evolve_same [rotated])
  then show ?thesis unfolding insert_entry_def by (intro carry)
qed

lemma evolve_ops:
  "carries (sessions_evolve w0) (show_session i)" "carries (sessions_evolve w0) (start_session M t e h)"
  "carries (sessions_evolve w0) (append_entry i r c s)" "carries (sessions_evolve w0) (summarize_session M i s)"
proof -
  have show_: "carries (sessions_evolve w0) (show_session i)" for i
    unfolding show_session_def expire_if_past_def session_error_def by (intro carry)
  then show "carries (sessions_evolve w0) (show_session i)" .
  show "carries (sessions_evolve w0) (start_session M t e h)"
    unfolding start_session_def by (intro carry show_)
  show "carries (sessions_evolve w0) (append_entry i r c s)"
    unfolding append_entry_def session_error_def by (intro carry show_)
  show "carries (sessions_evolve w0) (summarize_session M i s)"
    unfolding summarize_session_def by (intro carry show_)
qed

section \<open>Properties\<close>


definition demo_memory :: "unit memory_env" where
  "demo_memory = \<lparr>me_files = demo_files, md_dumps = (\<lambda>j. ''{}''), in_hours = (\<lambda>h x. (Val ''9'', x))\<rparr>"

definition demo_memory_profile :: memory_profile where
  "demo_memory_profile = \<lparr>mf_name = ''default'', mf_version = ''1.0.0'', mf_enabled = True, mf_max_class = ''internal'', mf_max_items = 2,
     mf_max_tokens = 4, mf_episodic = True, mf_semantic = False, mf_min_confidence = 0, mf_ttl_hours = 1,
     mf_explicit_publish = True, mf_embedding = False\<rparr>"

definition demo_events :: "unit world" where
  "demo_events = (one_run () [])\<lparr>events := map (\<lambda>i. \<lparr>e_id = i, e_run = ''run'', e_step = None, e_attempt = None, e_prior = None,
     e_new = ''FAILED'', e_time = i, e_actor = ''awf'', e_reason = ''step_failed'', e_payload = JObj []\<rparr>) [''1'', ''2'', ''3'']\<rparr>"


text \<open>
  No session comes back to life: however a session operation ends, the sessions there were are
  still there with their ids, creation and expiry times, and one that was not active is not active.
\<close>

theorem sessions_never_revive:
  assumes "op \<in> {show_session i, start_session M title ends ttl, append_entry i speaker content summary, summarize_session M i summary}"
    and "k < length (sessions w)" "n_status (sessions w ! k) \<noteq> S_ACTIVE"
  shows "k < length (sessions (snd (op w))) \<and> n_id (sessions (snd (op w)) ! k) = n_id (sessions w ! k) \<and>
    n_expires (sessions (snd (op w)) ! k) = n_expires (sessions w ! k) \<and> n_status (sessions (snd (op w)) ! k) \<noteq> S_ACTIVE"
proof -
  have "carries (sessions_evolve w) op" using assms(1) evolve_ops by blast
  from carriesD [OF this sessions_evolve_refl]
  have ev: "list_all2 moved (sessions w) (take (length (sessions w)) (sessions (snd (op w))))"
    by (simp add: sessions_evolve_def)
  from list_all2_lengthD [OF ev] have len: "length (sessions w) \<le> length (sessions (snd (op w)))" by simp
  from list_all2_nthD [OF ev assms(2)] have "moved (sessions w ! k) (sessions (snd (op w)) ! k)"
    using assms(2) by simp
  then show ?thesis using assms(2,3) len never_active_again by (auto simp: moved_def)
qed

text \<open>
  Nothing is appended after the end: an entry is accepted only while its session is not expired
  and, by the reading of the clock the operation takes, not past its time.
\<close>

theorem append_only_before_expiry:
  assumes "append_entry i speaker content summary w = (Val out, w')"
  shows "\<exists>s. find (\<lambda>s. n_id s = i) (sessions w) = Some s \<and> n_status s \<noteq> S_EXPIRED \<and> \<not> past (clock w (now_ix w)) s"
proof (cases "find (\<lambda>s. n_id s = i) (sessions w)")
  case None
  with assms show ?thesis by (simp add: append_entry_def find_session_def bind_Val basic_Val session_error_def)
next
  case (Some s)
  show ?thesis
  proof (rule ccontr)
    assume "\<nexists>s. find (\<lambda>s. n_id s = i) (sessions w) = Some s \<and> n_status s \<noteq> S_EXPIRED \<and> \<not> past (clock w (now_ix w)) s"
    with Some have "n_status s = S_EXPIRED \<or> past (clock w (now_ix w)) s" by blast
    with assms Some show False
      by (auto simp: append_entry_def find_session_def bind_Val seq_Val basic_Val session_error_def utc_now_rfc3339_def split: if_splits)
  qed
qed

definition demo_session :: "session_status \<Rightarrow> unit world" where
  "demo_session st = (one_run () [])\<lparr>sessions := [\<lparr>n_id = ''s'', n_title = None, n_status = st, n_summary = None,
     n_created = ''0'', n_updated = ''0'', n_expires = None\<rparr>]\<rparr>"

theorem sessions_never_revive_witness:
  "n_status (hd (sessions (snd (summarize_session demo_memory ''s'' (Some ''done'') (demo_session S_EXPIRED))))) \<noteq> S_ACTIVE"
proof -
  let ?w = "demo_session S_EXPIRED"
  let ?w' = "snd (summarize_session demo_memory ''s'' (Some ''done'') ?w)"
  have "0 < length (sessions ?w')" "n_status (sessions ?w' ! 0) \<noteq> S_ACTIVE"
    using sessions_never_revive [where op = "summarize_session demo_memory ''s'' (Some ''done'')" and k = 0 and w = ?w
        and M = demo_memory and i = "''s''" and summary = "Some ''done''"]
    by (simp_all add: demo_session_def)
  then show ?thesis by (simp add: hd_conv_nth)
qed

theorem append_only_before_expiry_witness:
  "\<exists>s. find (\<lambda>s. n_id s = ''s'') (sessions (demo_session S_ACTIVE)) = Some s \<and> n_status s \<noteq> S_EXPIRED"
proof -
  let ?r = "append_entry ''s'' ''operator'' (JObj []) None (demo_session S_ACTIVE)"
  have "(case fst ?r of Val x \<Rightarrow> True | _ \<Rightarrow> False)" by code_simp
  then obtain x where "?r = (Val x, snd ?r)" by (cases "fst ?r") (auto simp: prod_eq_iff)
  from append_only_before_expiry [OF this] show ?thesis by blast
qed

text \<open>Summarizing an expired session does not leave it expired.\<close>

lemma summarize_overwrites_expired:
  "n_status (hd (sessions (snd (summarize_session demo_memory ''s'' (Some ''done'') (demo_session S_EXPIRED))))) = S_SUMMARIZED"
  by code_simp

end
