(* ===== verification/Awf_Isolation.thy ===== *)
theory Awf_Isolation
  imports Awf_Memory
begin

text \<open>
  Where a run works: its git worktree and scratch directory (isolation/), the .env file (envfile.py),
  and the contract of agent adapters (adapters/base.py).  git and the file operations are parameters.
\<close>

section \<open>The host\<close>

text \<open>
  \<open>git\<close> runs git with its arguments in a directory and gives its return code, stdout and stderr.
  \<open>make_dir\<close> is mkdir with parents and exist_ok, \<open>remove_tree\<close> is rmtree with ignore_errors,
  \<open>delete_tree\<close> is rmtree, \<open>symlink link target\<close> makes a link, \<open>restrict_mode\<close> is chmod(0o600).
\<close>

record 'x host =
  git :: "string list \<Rightarrow> path \<Rightarrow> 'x \<Rightarrow> (int \<times> string \<times> string) res \<times> 'x"
  make_dir :: "path \<Rightarrow> 'x \<Rightarrow> unit res \<times> 'x"
  remove_tree :: "path \<Rightarrow> 'x \<Rightarrow> unit res \<times> 'x"
  write_text :: "path \<Rightarrow> string \<Rightarrow> 'x \<Rightarrow> unit res \<times> 'x"
  write_bytes :: "path \<Rightarrow> string \<Rightarrow> 'x \<Rightarrow> unit res \<times> 'x"
  delete_tree :: "path \<Rightarrow> 'x \<Rightarrow> unit res \<times> 'x"
  copy_tree :: "path \<Rightarrow> path \<Rightarrow> 'x \<Rightarrow> unit res \<times> 'x"
  symlink :: "path \<Rightarrow> path \<Rightarrow> 'x \<Rightarrow> unit res \<times> 'x"
  restrict_mode :: "path \<Rightarrow> 'x \<Rightarrow> unit res \<times> 'x"
  is_dir :: "path \<Rightarrow> 'x \<Rightarrow> bool res \<times> 'x"
  is_file :: "path \<Rightarrow> 'x \<Rightarrow> bool res \<times> 'x"
  home_dir :: path

section \<open>Worktrees (isolation/worktree.py)\<close>

definition run_git :: "'x host \<Rightarrow> string list \<Rightarrow> path \<Rightarrow> ('x, string) act" where
  "run_git H args cwd =
     bindE (git H args cwd) (\<lambda>(code, out, err).
     if code \<noteq> 0 then throw ''WorktreeError'' (''git '' @ join '' '' args @ '' failed: '' @ strip err) else ret out)"

definition branch_name :: "string \<Rightarrow> string" where
  "branch_name run_id = ''awf/run/'' @ run_id"

definition worktree_path :: "path \<Rightarrow> string \<Rightarrow> path" where
  "worktree_path repo_root run_id = sub_path (sub_path repo_root ''cache/worktrees'') run_id"

definition create_worktree :: "'x host \<Rightarrow> path \<Rightarrow> string \<Rightarrow> string \<Rightarrow> ('x, path) act" where
  "create_worktree H repo_root run_id base_ref =
     (let p = worktree_path repo_root run_id in
      seqE (run_git H [''worktree'', ''add'', ''-b'', branch_name run_id, as_posix p, base_ref] repo_root) (ret p))"

definition commit_all_changes :: "'x host \<Rightarrow> path \<Rightarrow> string \<Rightarrow> ('x, string option) act" where
  "commit_all_changes H wt message =
     seqE (run_git H [''add'', ''-A''] wt) (
     bindE (git H [''diff'', ''--cached'', ''--quiet''] wt) (\<lambda>(code, _, _).
     if code = 0 then ret None
     else
       seqE (run_git H [''commit'', ''-m'', message] wt) (
       bindE (run_git H [''rev-parse'', ''HEAD''] wt) (\<lambda>out. ret (Some (strip out))))))"

definition diff_limit :: nat where
  "diff_limit = 8000"

definition worktree_diff :: "'x host \<Rightarrow> path \<Rightarrow> ('x, string) act" where
  "worktree_diff H wt =
     bindE (attempt (run_git H [''diff'', ''HEAD~1'', ''HEAD''] wt)) (\<lambda>r. case r of
         Inl e \<Rightarrow>
           if exc_type e = ''WorktreeError'' then ret (''(no diff available: '' @ exc_text e @ '')'') else raise e
       | Inr diff \<Rightarrow>
           if diff = [] then ret ''(most recent commit introduced no diff)''
           else if length diff > diff_limit
           then ret (take diff_limit diff @ nl @ ''... (truncated, '' @ nat_str (length diff - diff_limit) @ '' more characters)'')
           else ret diff)"

definition current_head :: "'x host \<Rightarrow> path \<Rightarrow> ('x, string) act" where
  "current_head H wt = bindE (run_git H [''rev-parse'', ''HEAD''] wt) (\<lambda>out. ret (strip out))"

definition merge_branch :: "'x host \<Rightarrow> path \<Rightarrow> string \<Rightarrow> string \<Rightarrow> ('x, unit) act" where
  "merge_branch H wt branch message =
     bindE (git H [''merge'', ''--no-ff'', branch, ''-m'', message] wt) (\<lambda>(code, _, err).
     if code \<noteq> 0 then
       seqE (git H [''merge'', ''--abort''] wt)
         (throw ''WorktreeError'' (''merging '' @ branch @ '' conflicted: '' @ strip err))
     else ret ())"

text \<open>\<open>remove_tree\<close> stands for rmtree with ignore_errors, which does nothing where there is no directory.\<close>

definition remove_worktree :: "'x host \<Rightarrow> path \<Rightarrow> string \<Rightarrow> ('x, unit) act" where
  "remove_worktree H repo_root run_id =
     (let p = worktree_path repo_root run_id in
      seqE (git H [''worktree'', ''remove'', ''--force'', as_posix p] repo_root) (
      seqE (remove_tree H p) (
      seqE (git H [''branch'', ''-D'', branch_name run_id] repo_root) (ret ()))))"

section \<open>Scratch directories (isolation/scratch.py)\<close>

definition scratch_path :: "path \<Rightarrow> string \<Rightarrow> path" where
  "scratch_path repo_root run_id = sub_path (sub_path repo_root ''cache/sandbox'') run_id"

definition create_scratch_dir :: "'x host \<Rightarrow> path \<Rightarrow> string \<Rightarrow> ('x, path) act" where
  "create_scratch_dir H repo_root run_id =
     (let p = scratch_path repo_root run_id in seqE (make_dir H p) (ret p))"

definition remove_scratch_dir :: "'x host \<Rightarrow> path \<Rightarrow> string \<Rightarrow> ('x, unit) act" where
  "remove_scratch_dir H repo_root run_id = remove_tree H (scratch_path repo_root run_id)"

section \<open>The .env file (envfile.py)\<close>

definition env_line :: "string \<Rightarrow> (string \<times> string) list \<Rightarrow> (string \<times> string) list" where
  "env_line line values =
     (let s = strip line in
      if s = [] \<or> hd s = CHR ''#'' \<or> CHR ''='' \<notin> set s then values
      else let (k, v) = partition_at (CHR ''='') s in AList.update (strip k) (strip v) values)"

definition parse_env :: "string \<Rightarrow> (string \<times> string) list" where
  "parse_env text = fold env_line (splitlines text) []"

definition get_env_value :: "'x files \<Rightarrow> path \<Rightarrow> string \<Rightarrow> ('x, string) act" where
  "get_env_value F p key =
     bindE (read_text F p) (\<lambda>text. case map_of (parse_env text) key of
         None \<Rightarrow> throw ''KeyError'' (str_repr (key @ '' not found in '' @ as_posix p))
       | Some v \<Rightarrow> ret v)"

definition env_path :: "path \<Rightarrow> path" where
  "env_path repo_root = sub_path repo_root ''.env''"

text \<open>
  set_env_value rewrites the first line that begins with the key, or adds one.  What it writes is the
  text that \<open>set_env_text\<close> gives.
\<close>

fun set_env_lines :: "string \<Rightarrow> string \<Rightarrow> string list \<Rightarrow> string list" where
  "set_env_lines key v [] = [key @ ''='' @ v]"
| "set_env_lines key v (l # ls) =
     (if starts_with (key @ ''='') (strip l) then (key @ ''='' @ v) # ls else l # set_env_lines key v ls)"

definition set_env_text :: "string \<Rightarrow> string \<Rightarrow> string \<Rightarrow> string" where
  "set_env_text key v text = join nl (set_env_lines key v (splitlines text)) @ nl"

definition set_env_value :: "'x files \<Rightarrow> 'x host \<Rightarrow> path \<Rightarrow> string \<Rightarrow> string \<Rightarrow> ('x, unit) act" where
  "set_env_value F H p key v = bindE (read_text F p) (\<lambda>text. write_text H p (set_env_text key v text))"

section \<open>Agents (adapters/base.py)\<close>

datatype agent_status = AG_COMPLETED | AG_NEEDS_INPUT | AG_BLOCKED | AG_FAILED | AG_LIMIT_EXCEEDED | AG_CANCELED

definition agent_status_value :: "agent_status \<Rightarrow> string" where
  "agent_status_value s = (case s of AG_COMPLETED \<Rightarrow> ''COMPLETED'' | AG_NEEDS_INPUT \<Rightarrow> ''NEEDS_INPUT'' | AG_BLOCKED \<Rightarrow> ''BLOCKED''
     | AG_FAILED \<Rightarrow> ''FAILED'' | AG_LIMIT_EXCEEDED \<Rightarrow> ''LIMIT_EXCEEDED'' | AG_CANCELED \<Rightarrow> ''CANCELED'')"

record invocation =
  iv_objective :: string
  iv_inputs :: obj
  iv_root :: path
  iv_capabilities :: "string list"
  iv_skills :: "string list"
  iv_constraints :: obj
  iv_contract :: string
  iv_trace :: obj

definition AgentInvocation :: "string \<Rightarrow> obj \<Rightarrow> path \<Rightarrow> obj \<Rightarrow> invocation" where
  "AgentInvocation objective inputs root_dir cs =
     \<lparr>iv_objective = objective, iv_inputs = inputs, iv_root = root_dir, iv_capabilities = [], iv_skills = [],
      iv_constraints = cs, iv_contract = [], iv_trace = []\<rparr>"

record agent_result =
  ar_status :: agent_status
  ar_output :: obj
  ar_candidates :: "string list"
  ar_findings :: "json list"
  ar_usage :: json
  ar_reason :: string

type_synonym 'x adapter = "invocation \<Rightarrow> 'x \<Rightarrow> agent_result res \<times> 'x"

end
