(* ===== verification/Awf_Agent.thy ===== *)
theory Awf_Agent
  imports Awf_Isolation Awf_Secrets
begin

text \<open>
  An agent node as a durable Step (engine/agent_step.py): authorization and approval of the agent's
  action, the prompt built from instructions, persona, skills and memory, the MCP configuration with
  its secrets, the model profile, the adapter call and the commit of the worktree.
\<close>

section \<open>What a call is given\<close>

record 'x agent_env =
  ag_machine :: "'x machine"
  ag_files :: "'x files"
  ag_host :: "'x host"
  ag_memory :: "'x memory_env"
  ag_cipher :: "'x cipher"

text \<open>The keyword arguments of run_agent_step.\<close>

record 'x agent_call =
  ac_step :: string
  ac_run :: string
  ac_worktree :: path
  ac_invocation :: invocation
  ac_adapter :: "'x adapter"
  ac_message :: string
  ac_capability :: "capability option"
  ac_allowlist :: "string list option"
  ac_role :: "string option"
  ac_actor :: string
  ac_voice :: "string option"
  ac_instructions :: string
  ac_mcp :: "string list"
  ac_skills :: "skill_ref list"
  ac_persona :: "string option"
  ac_model_profile :: "string option"
  ac_repo :: "path option"

definition agent_error :: "string \<Rightarrow> string \<Rightarrow> ('w, 'a) act" where
  "agent_error msg cls = throw_class ''AgentStepError'' msg cls"

definition guarded_mcp_adapters :: "string list" where
  "guarded_mcp_adapters = [''copilot'']"

definition max_result_text :: nat where
  "max_result_text = 8192"

definition status_failure_class :: "agent_status \<Rightarrow> string" where
  "status_failure_class s = (case s of AG_FAILED \<Rightarrow> ''TOOL_ERROR'' | AG_LIMIT_EXCEEDED \<Rightarrow> ''TIMEOUT'' | _ \<Rightarrow> ''INTERNAL'')"

section \<open>Authorization\<close>

definition build_agent_action :: "'x agent_env \<Rightarrow> 'x agent_call \<Rightarrow> capability \<Rightarrow> machine_action" where
  "build_agent_action G c cap =
     \<lparr>ma_kind = ''agent_node'', ma_run = ac_run c, ma_step = ac_step c, ma_node = JStr (ac_step c),
      ma_operation = operation (effects cap), ma_capability = cap_ref cap, ma_risk = risk_class cap,
      ma_approval = approval cap,
      ma_target = [(''adapter'', JStr (ac_actor c)),
        (''objective_digest'', JStr (content_digest (ag_machine G) (iv_objective (ac_invocation c)))),
        (''role'', jopt (ac_role c))],
      ma_body = None\<rparr>"

definition approval_status :: "'x machine \<Rightarrow> machine_action \<Rightarrow> string \<Rightarrow> ('x, json option) op" where
  "approval_status M a actor =
     bindE (find_approval (\<lambda>p. a_step p = ma_step a)) (\<lambda>row. case row of
         None \<Rightarrow> ret None
       | Some p \<Rightarrow>
           if a_digest p \<noteq> action_digest M a
             then agent_error ''approved action digest does not match current agent action'' ''POLICY_DENIED''
           else if a_status p = Pending then ret (Some (waiting (a_id p)))
           else if a_status p = Rejected then
             seqE (machine_action_event M a ''machine_action_denied'' actor (Some (a_id p)))
               (agent_error (''approval '' @ a_id p @ '' was rejected'') ''APPROVAL_REJECTED'')
           else ret None)"

definition ensure_pending_agent_approval :: "'x machine \<Rightarrow> machine_action \<Rightarrow> string \<Rightarrow> ('x, json) op" where
  "ensure_pending_agent_approval M a actor =
     bindE (find_approval (\<lambda>p. a_step p = ma_step a)) (\<lambda>row. case row of
         Some p \<Rightarrow>
           if a_digest p \<noteq> action_digest M a
           then agent_error ''pending approval digest does not match current agent action'' ''POLICY_DENIED''
           else ret (waiting (a_id p))
       | None \<Rightarrow>
           bindE uuid7 (\<lambda>approval_id.
           bindE utc_now_rfc3339 (\<lambda>now.
           seqE (insert_approval (pending_approval approval_id (ma_run a) (ma_step a) (action_digest M a) now (Some (ma_risk a)))) (
           seqE (mark_waiting (ma_run a) (ma_step a) now) (
           seqE (machine_action_event M a ''machine_action_waiting_approval'' actor (Some approval_id))
             (ret (waiting approval_id)))))))"

definition call_allowlist :: "'x agent_call \<Rightarrow> capability \<Rightarrow> string list" where
  "call_allowlist c cap = (case ac_allowlist c of Some l \<Rightarrow> l | None \<Rightarrow> [cap_ref cap])"

text \<open>What follows from the Guard's decision; None goes on to the Step.\<close>

definition act_on_decision :: "'x agent_env \<Rightarrow> 'x agent_call \<Rightarrow> machine_action \<Rightarrow> decision \<Rightarrow> ('x, json option) op" where
  "act_on_decision G c a decision = (case decision of
       DENY \<Rightarrow>
         seqE (machine_action_event (ag_machine G) a ''machine_action_denied'' (ac_actor c) None) (
         seqE (step_failed (ac_step c) ''POLICY_DENIED'')
           (agent_error (''blocked by Capability Guard: '' @ decision_value decision) ''POLICY_DENIED''))
     | APPROVAL_REQUIRED \<Rightarrow>
         bindE (ensure_pending_agent_approval (ag_machine G) a (ac_actor c)) (\<lambda>v. ret (Some v))
     | ALLOW \<Rightarrow> seqE (machine_action_event (ag_machine G) a ''machine_action_allowed'' (ac_actor c) None) (ret None))"

definition authorize_new_action :: "'x agent_env \<Rightarrow> 'x agent_call \<Rightarrow> capability \<Rightarrow> machine_action \<Rightarrow> ('x, json option) op" where
  "authorize_new_action G c cap a =
     bindE (authorize cap (call_allowlist c cap) (ac_run c) (ac_actor c) (Some (ac_step c)) (ac_role c)
              [(''agent_action_digest'', JStr (action_digest (ag_machine G) a))])
       (act_on_decision G c a)"

definition authorize_agent_or_wait :: "'x agent_env \<Rightarrow> 'x agent_call \<Rightarrow> ('x, json option) op" where
  "authorize_agent_or_wait G c = (case ac_capability c of
       None \<Rightarrow> ret None
     | Some cap \<Rightarrow>
         let a = build_agent_action G c cap in
         bindE (approval_status (ag_machine G) a (ac_actor c)) (\<lambda>w1. case w1 of
             Some v \<Rightarrow> ret (Some v)
           | None \<Rightarrow>
               bindE (find_approval (\<lambda>p. a_step p = ac_step c)) (\<lambda>row. case row of
                   Some _ \<Rightarrow> ret None
                 | None \<Rightarrow> authorize_new_action G c cap a)))"

section \<open>The output of a Step\<close>

fun first_text :: "string list \<Rightarrow> obj \<Rightarrow> string option" where
  "first_text [] out = None"
| "first_text (k # ks) out = (case get k out of
       JStr s \<Rightarrow> if strip s \<noteq> [] then Some s else first_text ks out
     | _ \<Rightarrow> first_text ks out)"

definition result_text :: "'x machine \<Rightarrow> agent_result \<Rightarrow> string" where
  "result_text M r =
     (case first_text [''result_text'', ''result'', ''response'', ''text'', ''message''] (ar_output r) of
        Some s \<Rightarrow> s
      | None \<Rightarrow> if ar_output r \<noteq> [] then dumps M (sort_json (JObj (ar_output r))) else [])"

definition agent_output :: "'x agent_env \<Rightarrow> 'x agent_call \<Rightarrow> agent_result \<Rightarrow> ('x, obj) op" where
  "agent_output G c r =
     (let M = ag_machine G; text = result_text M r;
          findings_and_candidates = [(''findings'', JList (ar_findings r)),
            (''artifact_candidates'', JList (map JStr (ar_candidates r)))];
          output = [(''status'', JStr (agent_status_value (ar_status r))), (''termination_reason'', JStr (ar_reason r)),
            (''result_text'', JStr (take max_result_text text)), (''usage'', ar_usage r)] @ findings_and_candidates in
      if length text > max_result_text \<and> ac_repo c \<noteq> None then
        bindE (write_artifact (sha256 M) (store_file M) (ac_run c) (ac_step c)
                 (dumps M (sort_json (JObj ([(''result_text'', JStr text), (''output'', JObj (ar_output r)), (''usage'', ar_usage r)]
                    @ findings_and_candidates)))) ''application/json'' REPORT) (\<lambda>i.
          ret (output @ [(''output_artifact_id'', JStr i)]))
      else ret output)"

section \<open>MCP servers\<close>

definition is_trusted :: "string \<Rightarrow> string \<Rightarrow> string \<Rightarrow> string \<Rightarrow> ('x, bool) op" where
  "is_trusted kind name version source =
     (if source \<noteq> ''data'' then ret True
      else bindE (index_row kind name version) (\<lambda>row. case row of
          None \<Rightarrow> ret True
        | Some i \<Rightarrow> ret (x_trust i \<notin> {Some ''quarantined'', Some ''blocked''})))"

definition call_event :: "'x agent_call \<Rightarrow> string \<Rightarrow> json \<Rightarrow> ('x, unit) op" where
  "call_event c code payload = log_event (ac_run c) (Some (ac_step c)) code (ac_actor c) code payload"

definition mcp_ref_skipped :: "'x agent_call \<Rightarrow> string \<Rightarrow> string \<Rightarrow> string \<Rightarrow> json list \<Rightarrow> ('x, unit) op" where
  "mcp_ref_skipped c mref reason error tools =
     call_event c ''mcp_ref_skipped'' (sort_json (JObj ([(''ref'', JStr mref), (''reason'', JStr reason)]
       @ (if error = [] then [] else [(''error'', JStr error)]) @ (if tools = [] then [] else [(''tools'', JList tools)]))))"

definition skipped_tool :: "string \<Rightarrow> string \<Rightarrow> string \<times> string \<Rightarrow> json" where
  "skipped_tool tool reason extra = JObj [(''tool'', JStr tool), (''reason'', JStr reason), (fst extra, JStr (snd extra))]"

text \<open>The capability record of a tool, and the step for one tool of the loop over server.tools.\<close>

definition tool_capability :: "'x files \<Rightarrow> string \<Rightarrow> ('x, capability) op" where
  "tool_capability F tool =
     bindE (latest_version F ''capabilities'' tool) (\<lambda>version.
     bindE (resolve_registry_object F ''capabilities'' tool version) (\<lambda>(p, _). load_capability_at F p))"

type_synonym tool_lists = "string list \<times> capability list \<times> json list"

definition consider_tool :: "'x files \<Rightarrow> string \<Rightarrow> string list \<Rightarrow> string \<Rightarrow> tool_lists \<Rightarrow> ('x, tool_lists) op" where
  "consider_tool F provider_name allowed_refs tool = (\<lambda>(tools, caps, skipped).
     bindE (attempt (tool_capability F tool)) (\<lambda>r. case r of
         Inl e \<Rightarrow> ret (tools, caps, skipped @ [skipped_tool tool ''unresolvable'' (''error'', exc_text e)])
       | Inr cap \<Rightarrow>
           if cap_ref cap \<notin> set allowed_refs
             then ret (tools, caps, skipped @ [skipped_tool tool ''not_in_agent_allowlist'' (''capability_ref'', cap_ref cap)])
           else if id_type (identity cap) \<noteq> ''mcp-tool'' \<or> id_provider (identity cap) \<noteq> provider_name
             then ret (tools, caps, skipped @ [skipped_tool tool ''capability_provider_mismatch'' (''capability_ref'', cap_ref cap)])
           else ret (tools @ [tool], caps @ [cap], skipped)))"

definition allowed_mcp_tools :: "'x files \<Rightarrow> string \<Rightarrow> string list \<Rightarrow> string list \<Rightarrow> ('x, tool_lists) op" where
  "allowed_mcp_tools F provider_name tools allowed_refs =
     foldE (consider_tool F provider_name allowed_refs) tools ([], [], [])"

type_synonym server_lists = "mcp_server list \<times> json list"

definition consider_server :: "'x agent_env \<Rightarrow> 'x agent_call \<Rightarrow> string list \<Rightarrow> string \<Rightarrow> server_lists \<Rightarrow> ('x, server_lists) op" where
  "consider_server G c allowed_refs mref = (\<lambda>(servers, refs_with_digest).
     let F = ag_files G; (name, version) = partition_at (CHR ''@'') mref in
     bindE (attempt (resolve_registry_object F ''mcp'' name version)) (\<lambda>r. case r of
         Inl e \<Rightarrow> seqE (mcp_ref_skipped c mref ''unresolvable'' (exc_text e) []) (ret (servers, refs_with_digest))
       | Inr (p, source) \<Rightarrow>
           bindE (is_trusted ''mcp'' name version source) (\<lambda>trusted.
           if \<not> trusted then seqE (mcp_ref_skipped c mref ''untrusted'' [] []) (ret (servers, refs_with_digest))
           else
             bindE (load_mcp_server F p) (\<lambda>server.
             bindE (allowed_mcp_tools F (ms_name server) (ms_tools server) allowed_refs) (\<lambda>(tools, caps, skipped).
             if ms_tools server \<noteq> [] \<and> tools \<noteq> ms_tools server
             then seqE (mcp_ref_skipped c mref ''disallowed_tools'' [] skipped) (ret (servers, refs_with_digest))
             else
               bindE (outside (file_bytes F p)) (\<lambda>bytes.
               ret (servers @ [server\<lparr>ms_tools := tools\<rparr>],
                    refs_with_digest @ [JObj [(''ref'', JStr mref), (''digest'', JStr (hex_sha256 F bytes)),
                      (''tools'', JList (map JStr tools)), (''capabilities'', JList (map (\<lambda>k. JStr (cap_ref k)) caps))]])))))))"

definition resolve_mcp_servers :: "'x agent_env \<Rightarrow> 'x agent_call \<Rightarrow> string list \<Rightarrow> ('x, server_lists) op" where
  "resolve_mcp_servers G c capability_refs =
     foldE (consider_server G c capability_refs) (ac_mcp c) ([], [])"

text \<open>
  The names of the secrets the servers use.  The code collects them in a set, whose order is not
  specified; here they come in the order of the servers.
\<close>

definition secret_names :: "mcp_server list \<Rightarrow> string list result" where
  "secret_names servers =
     andThen (mapR (\<lambda>(k, v). as_text v) (concat (map (\<lambda>m. ms_env_secrets m @ ms_header_secrets m) servers)))
       (\<lambda>ns. Inr (remdups ns))"

definition resolve_secrets :: "'x agent_env \<Rightarrow> path \<Rightarrow> mcp_server list \<Rightarrow> ('x, (string \<times> string) list) op" where
  "resolve_secrets G repo_root servers =
     bindE (liftR (secret_names servers)) (\<lambda>names.
     if names = [] then ret []
     else
       bindE (outside (get_env_value (ag_files G) (env_path repo_root) ''AWF_SECRET_KEY'')) (\<lambda>value.
       bindE (liftR (encode (ag_machine G) ''ascii'' value)) (\<lambda>key.
         mapE (\<lambda>name. bindE (get_secret (ag_cipher G) name key) (\<lambda>s. ret (name, s))) names)))"

definition write_at :: "'x host \<Rightarrow> path \<Rightarrow> string \<Rightarrow> ('x, unit) op" where
  "write_at H p contents = seqE (outside (make_dir H (path_parent p))) (outside (write_text H p contents))"

definition copy_home_file :: "'x files \<Rightarrow> 'x host \<Rightarrow> path \<Rightarrow> string \<Rightarrow> ('x, unit) op" where
  "copy_home_file F H scratch_home relative =
     (let source = sub_path (home_dir H) relative; target = sub_path scratch_home relative in
      bindE (outside (is_file H source)) (\<lambda>b.
      whenE b
        (seqE (outside (make_dir H (path_parent target))) (
         bindE (outside (file_bytes F source)) (\<lambda>bytes. outside (write_bytes H target bytes))))))"

text \<open>The renderer's files: the configuration in the worktree, and a scratch home if it needs one.\<close>

definition write_rendered :: "'x agent_env \<Rightarrow> 'x agent_call \<Rightarrow> path \<Rightarrow> rendered_mcp \<Rightarrow> ('x, path option) op" where
  "write_rendered G c repo_root r =
     (let H = ag_host G in
      seqE (case rm_path r of None \<Rightarrow> ret ()
            | Some p \<Rightarrow> write_at H (sub_path (ac_worktree c) p) (dumps (ag_machine G) (rm_contents r))) (
      if rm_home_files r = [] \<and> rm_home_copies r = [] then ret None
      else
        let scratch_home = sub_path (sub_path (scratch_path repo_root (ac_run c)) ''scratch_home'') (ac_actor c) in
        seqE (forE (\<lambda>(relative, contents). write_at H (sub_path scratch_home relative) contents) (rm_home_files r)) (
        seqE (forE (copy_home_file (ag_files G) H scratch_home) (rm_home_copies r))
          (ret (Some scratch_home)))))"

definition with_mcp :: "rendered_mcp \<Rightarrow> path option \<Rightarrow> invocation \<Rightarrow> invocation" where
  "with_mcp r scratch_home iv =
     (if rm_extra_args r = [] \<and> rm_env r = [] \<and> scratch_home = None then iv
      else
        let cs = (if rm_extra_args r = [] then iv_constraints iv
                  else AList.update ''mcp_extra_args'' (JList (map JStr (rm_extra_args r))) (iv_constraints iv));
            overlay = map (\<lambda>(k, v). (k, JStr v)) (rm_env r);
            env = (case scratch_home of None \<Rightarrow> overlay | Some h \<Rightarrow> AList.update ''HOME'' (JStr (as_posix h)) overlay) in
        iv\<lparr>iv_constraints := (if env = [] then cs else AList.update ''mcp_env_overlay'' (JObj env) cs)\<rparr>)"

text \<open>RENDERERS has one entry, for copilot.\<close>

definition renderer_of :: "string \<Rightarrow> (mcp_server list \<Rightarrow> (string \<times> string) list \<Rightarrow> rendered_mcp result) option" where
  "renderer_of actor = (if actor = ''copilot'' then Some render_copilot else None)"

definition mcp_capability_refs :: "'x agent_call \<Rightarrow> string list" where
  "mcp_capability_refs c = (case ac_allowlist c of Some l \<Rightarrow> l
     | None \<Rightarrow> (case ac_capability c of Some cap \<Rightarrow> [cap_ref cap] | None \<Rightarrow> []))"

definition apply_mcp :: "'x agent_env \<Rightarrow> 'x agent_call \<Rightarrow> invocation \<Rightarrow> ('x, invocation) op" where
  "apply_mcp G c iv = (case ac_repo c of
       None \<Rightarrow> ret iv
     | Some repo_root \<Rightarrow>
         if ac_mcp c = [] then ret iv
         else if ac_actor c \<notin> set guarded_mcp_adapters then
           agent_error (''MCP refs require an adapter pre-tool Guard hook; adapter '' @ str_repr (ac_actor c)
             @ '' is not currently executable with MCP'') ''POLICY_DENIED''
         else
           bindE (resolve_mcp_servers G c (mcp_capability_refs c)) (\<lambda>(servers, refs_with_digest).
           if servers = [] then ret iv
           else
             bindE (resolve_secrets G repo_root servers) (\<lambda>plain.
             case renderer_of (ac_actor c) of
               None \<Rightarrow> ret iv
             | Some renderer \<Rightarrow>
                 bindE (liftR (renderer servers plain)) (\<lambda>rendered.
                 bindE (write_rendered G c repo_root rendered) (\<lambda>scratch_home.
                 seqE (call_event c ''mcp_rendered'' (JObj [(''servers'', JList refs_with_digest)]))
                   (ret (with_mcp rendered scratch_home iv)))))))"

section \<open>Skills, personas and model profiles\<close>

text \<open>A skill reference that passed the trust gate, its skill, its digest and its directory.\<close>

type_synonym resolved_skill = "skill_ref \<times> skill \<times> string \<times> path"

definition resolve_skill :: "'x files \<Rightarrow> skill_ref \<Rightarrow> ('x, resolved_skill list) op" where
  "resolve_skill F r =
     (let (name, version) = partition_at (CHR ''@'') (sr_ref r) in
      bindE (resolve_registry_object F ''skills'' name version) (\<lambda>(p, source).
      bindE (is_trusted ''skills'' name version source) (\<lambda>trusted.
      if \<not> trusted then ret []
      else
        bindE (load_skill F p) (\<lambda>sk.
        bindE (directory_digest F (path_parent p)) (\<lambda>digest. ret [(r, sk, digest, path_parent p)])))))"

definition resolve_skills :: "'x files \<Rightarrow> skill_ref list \<Rightarrow> ('x, resolved_skill list) op" where
  "resolve_skills F refs = bindE (mapE (resolve_skill F) refs) (\<lambda>xs. ret (concat xs))"

definition skill_share_relative_dirs :: "string list" where
  "skill_share_relative_dirs = [''.claude/skills'', ''.agents/skills'']"

definition share_skill :: "'x host \<Rightarrow> path \<Rightarrow> skill \<Rightarrow> path \<Rightarrow> ('x, unit) op" where
  "share_skill H wt sk skill_dir =
     forE (\<lambda>relative_dir.
       let target = sub_path (sub_path wt relative_dir) (sk_name sk) in
       bindE (outside (is_dir H target)) (\<lambda>there.
       seqE (whenE there (outside (delete_tree H target))) (
       seqE (outside (make_dir H (path_parent target)))
         (outside (copy_tree H skill_dir target))))) skill_share_relative_dirs"

text \<open>OSError and its subclasses that the calls under these handlers raise.\<close>

definition is_os_error :: "exc \<Rightarrow> bool" where
  "is_os_error e = (exc_type e \<in> {''OSError'', ''FileExistsError'', ''FileNotFoundError'', ''PermissionError'',
     ''NotADirectoryError'', ''IsADirectoryError''})"

definition except_os_error :: "('x, unit) op \<Rightarrow> ('x, unit) op \<Rightarrow> ('x, unit) op" where
  "except_os_error m h = catchE m (\<lambda>e. if is_os_error e then h else raise e)"

definition link_skill :: "'x files \<Rightarrow> 'x host \<Rightarrow> path \<Rightarrow> path \<Rightarrow> skill \<Rightarrow> ('x, unit) op" where
  "link_skill F H home wt sk =
     (let link = sub_path (sub_path home ''skills'') (sk_name sk);
          source = sub_path (sub_path wt ''.claude/skills'') (sk_name sk) in
      bindE (outside (file_exists F link)) (\<lambda>there.
      whenE (\<not> there)
        (except_os_error (outside (symlink H link source)) (outside (copy_tree H source link)))))"

definition codex_scratch_home :: "'x files \<Rightarrow> 'x host \<Rightarrow> path \<Rightarrow> string \<Rightarrow> string \<Rightarrow> path \<Rightarrow> skill list \<Rightarrow> ('x, path) op" where
  "codex_scratch_home F H repo_root run_id actor wt skills =
     (let home = sub_path (sub_path (scratch_path repo_root run_id) ''codex_home'') actor;
          real_auth = sub_path (home_dir H) ''.codex/auth.json''; auth_target = sub_path home ''auth.json'' in
      seqE (outside (make_dir H (sub_path home ''skills''))) (
      seqE (forE (link_skill F H home wt) skills) (
      bindE (outside (is_file H real_auth)) (\<lambda>there.
      seqE (whenE there
              (except_os_error (outside (symlink H auth_target real_auth))
                 (bindE (outside (file_bytes F real_auth)) (\<lambda>bytes.
                  seqE (outside (write_bytes H auth_target bytes)) (outside (restrict_mode H auth_target))))))
        (ret home)))))"

text \<open>An f-string's '{text}', which escapes nothing.\<close>

definition quoted :: "string \<Rightarrow> string" where
  "quoted s = CHR 0x27 # s @ [CHR 0x27]"

definition segment_if :: "string \<Rightarrow> string \<Rightarrow> bool \<Rightarrow> string \<Rightarrow> segment list result" where
  "segment_if authority content trusted text =
     (if strip text = [] then Inr [] else andThen (PromptSegment authority content trusted text) (\<lambda>s. Inr [s]))"

text \<open>The segments that come before the memory: instructions, persona, skills.\<close>

definition fixed_segments :: "string \<Rightarrow> compiled_persona option \<Rightarrow> resolved_skill list \<Rightarrow> segment list result" where
  "fixed_segments instructions persona resolved =
     andThen (segment_if ''application'' ''instruction'' True instructions) (\<lambda>s1.
     andThen (case persona of None \<Rightarrow> Inr [] | Some p \<Rightarrow> segment_if ''persona'' ''style'' True (cm_system p)) (\<lambda>s2.
     andThen (mapR (\<lambda>(r, sk, digest, dir). segment_if ''skill'' ''instruction'' False (sk_body sk)) resolved) (\<lambda>s3.
       Inr (s1 @ s2 @ concat s3))))"

definition memory_part :: "'x agent_env \<Rightarrow> 'x agent_call \<Rightarrow> invocation \<Rightarrow> ('x, segment list) op" where
  "memory_part G c iv =
     (if ac_repo c = None \<or> strip (iv_objective iv) = [] then ret []
      else
        let profile_ref = py_str (or_else (get ''memory_profile_ref'' (iv_constraints iv)) (JStr ''default@1.0.0'')) in
        catchE (retrieve_memory_context (ag_memory G) (iv_objective iv) profile_ref) (\<lambda>e.
          seqE (call_event c ''memory_retrieval_skipped''
                  (sort_json (JObj [(''profile_ref'', JStr profile_ref), (''error'', JStr (exc_text e))])))
            (ret [])))"

definition skill_envelope :: "compiled_persona option \<Rightarrow> segment list \<Rightarrow> envelope" where
  "skill_envelope persona segments =
     \<lparr>en_segments = segments, en_examples = (case persona of None \<Rightarrow> [] | Some p \<Rightarrow> cm_examples p),
      en_generation = (case persona of None \<Rightarrow> [] | Some p \<Rightarrow> cm_generation p)\<rparr>"

text \<open>The skills that are shared on disk, and for Codex its own home; the constraints after that.\<close>

definition share_skills :: "'x agent_env \<Rightarrow> 'x agent_call \<Rightarrow> path option \<Rightarrow> resolved_skill list \<Rightarrow> obj \<Rightarrow> ('x, obj) op" where
  "share_skills G c repo_root resolved cs =
     (let H = ag_host G; shared = filter (\<lambda>(r, sk, digest, dir). sr_share r) resolved in
      seqE (forE (\<lambda>(r, sk, digest, dir). share_skill H (ac_worktree c) sk dir) shared) (
      case repo_root of
        Some root_dir \<Rightarrow>
          if shared \<noteq> [] \<and> ac_actor c = ''codex'' then
            bindE (codex_scratch_home (ag_files G) H root_dir (ac_run c) (ac_actor c) (ac_worktree c)
                     (map (\<lambda>(r, sk, digest, dir). sk) shared)) (\<lambda>home.
            bindE (liftR (as_dict (get_or ''skill_env_overlay'' (JObj []) cs))) (\<lambda>overlay.
              ret (AList.update ''skill_env_overlay'' (JObj (AList.update ''CODEX_HOME'' (JStr (as_posix home)) overlay)) cs)))
          else ret cs
      | None \<Rightarrow> ret cs))"

definition skills_event :: "'x agent_call \<Rightarrow> resolved_skill list \<Rightarrow> ('x, unit) op" where
  "skills_event c resolved =
     call_event c ''skills_resolved'' (JObj [(''skills'', JList (map (\<lambda>(r, sk, digest, dir).
       JObj [(''ref'', JStr (sr_ref r)), (''digest'', JStr digest), (''shared'', JBool (sr_share r))]) resolved))])"

definition apply_skills :: "'x agent_env \<Rightarrow> 'x agent_call \<Rightarrow> compiled_persona option \<Rightarrow> invocation \<Rightarrow> ('x, invocation) op" where
  "apply_skills G c persona iv =
     bindE (if ac_repo c \<noteq> None \<and> ac_skills c \<noteq> [] then resolve_skills (ag_files G) (ac_skills c) else ret []) (\<lambda>resolved.
     bindE (liftR (fixed_segments (ac_instructions c) persona resolved)) (\<lambda>fixed.
     bindE (memory_part G c iv) (\<lambda>memory.
     bindE (liftR (segment_if ''user'' ''input'' False (iv_objective iv))) (\<lambda>user.
     let objective = render_flat (skill_envelope persona (fixed @ memory @ user)) in
     if resolved = [] then
       ret (if objective = iv_objective iv then iv else iv\<lparr>iv_objective := objective\<rparr>)
     else
       bindE (share_skills G c (ac_repo c) resolved (iv_constraints iv)) (\<lambda>cs.
       seqE (skills_event c resolved)
         (ret (iv\<lparr>iv_objective := objective, iv_skills := map (\<lambda>(r, sk, digest, dir). sr_ref r) resolved,
                  iv_constraints := cs\<rparr>)))))))"

definition with_model :: "candidate \<Rightarrow> obj \<Rightarrow> obj" where
  "with_model winner cs =
     (let cs1 = AList.update ''model_override_provider'' (JStr (provider winner))
                  (AList.update ''model_override'' (JStr (model winner)) cs) in
      case api_key_secret_name winner of
        Some (n # name) \<Rightarrow> AList.update ''api_key_secret_name'' (JStr (n # name)) cs1
      | _ \<Rightarrow> cs1)"

definition apply_model_profile :: "'x agent_env \<Rightarrow> 'x agent_call \<Rightarrow> invocation \<Rightarrow> ('x, invocation) op" where
  "apply_model_profile G c iv = (case ac_model_profile c of
       None \<Rightarrow> ret iv
     | Some mref \<Rightarrow>
         if mref = [] \<or> ac_repo c = None then ret iv
         else
           let F = ag_files G; (name, version) = partition_at (CHR ''@'') mref in
           bindE (resolve_registry_object F ''model-profiles'' name version) (\<lambda>(p, _).
           bindE (load_model_profile F p) (\<lambda>prof.
           case enabled_candidates_by_priority prof of
             [] \<Rightarrow> agent_error (''model profile '' @ quoted mref @ '' has no enabled candidates'') ''INVALID_INPUT''
           | winner # _ \<Rightarrow> ret (iv\<lparr>iv_constraints := with_model winner (iv_constraints iv)\<rparr>))))"

definition resolve_persona :: "'x agent_env \<Rightarrow> 'x agent_call \<Rightarrow> ('x, compiled_persona option) op" where
  "resolve_persona G c = (case ac_persona c of
       None \<Rightarrow> ret None
     | Some pref \<Rightarrow>
         if pref = [] \<or> ac_repo c = None then ret None
         else
           let F = ag_files G; (name, version) = partition_at (CHR ''@'') pref in
           if CHR ''@'' \<notin> set pref \<or> name = [] \<or> version = []
           then agent_error (''persona ref must be '' @ quoted ''<name>@<version>'' @ '', got '' @ str_repr pref) ''INVALID_INPUT''
           else
             bindE (resolve_registry_object F ''personas'' name version) (\<lambda>(p, _).
             bindE (load_persona F p) (\<lambda>prof.
             bindE (liftR (compile_persona prof)) (\<lambda>compiled. ret (Some compiled)))))"

section \<open>The Step\<close>

definition with_guard_context :: "'x agent_call \<Rightarrow> invocation \<Rightarrow> invocation" where
  "with_guard_context c iv = (case ac_repo c of
       None \<Rightarrow> iv
     | Some repo_root \<Rightarrow>
         iv\<lparr>iv_trace := AList.update ''awf_guard'' (JObj
           [(''repo_root'', JStr (as_posix repo_root)), (''run_id'', JStr (ac_run c)), (''step_id'', JStr (ac_step c)),
            (''actor'', JStr (ac_actor c)), (''agent_allowlist'', JList (map JStr (mcp_capability_refs c))),
            (''role'', jopt (ac_role c))]) (iv_trace iv)\<rparr>)"

definition agent_body :: "'x agent_env \<Rightarrow> 'x agent_call \<Rightarrow> obj \<Rightarrow> ('x, json) op" where
  "agent_body G c payload =
     bindE (resolve_persona G c) (\<lambda>persona.
     bindE (apply_skills G c persona (ac_invocation c)) (\<lambda>skilled.
     bindE (apply_mcp G c skilled) (\<lambda>effective.
     bindE (apply_model_profile G c effective) (\<lambda>modeled.
     bindE (outside (ac_adapter c (with_guard_context c modeled))) (\<lambda>r.
     if ar_status r \<noteq> AG_COMPLETED then
       agent_error (''adapter did not complete: status='' @ agent_status_value (ar_status r) @ '' reason='' @ str_repr (ar_reason r))
         (status_failure_class (ar_status r))
     else
       bindE (agent_output G c r) (\<lambda>output.
         ret (JObj (case ac_voice c of None \<Rightarrow> output | Some v \<Rightarrow> AList.update ''voice'' (JStr v) output))))))))"

text \<open>run_agent_step over the function that does the work and the commit of the worktree.\<close>

definition run_agent_step_with ::
  "'x agent_env \<Rightarrow> 'x agent_call \<Rightarrow> (obj \<Rightarrow> ('x, json) op) \<Rightarrow> ('x, string option) op \<Rightarrow> ('x, json) op" where
  "run_agent_step_with G c fn commit =
     bindE (find_step (ac_step c)) (\<lambda>row.
     let cached = (case row of None \<Rightarrow> False | Some s \<Rightarrow> s_status s = SUCCEEDED) in
     bindE (if cached then ret None else authorize_agent_or_wait G c) (\<lambda>wait. case wait of
         Some v \<Rightarrow> ret v
       | None \<Rightarrow>
           bindE (run_step (ac_step c) (ac_run c) fn []) (\<lambda>output.
           if cached then ret output
           else bindE commit (\<lambda>sha. ret (JObj (merge_obj (as_obj output) [(''commit_sha'', jopt sha)]))))))"

definition run_agent_step :: "'x agent_env \<Rightarrow> 'x agent_call \<Rightarrow> ('x, json) op" where
  "run_agent_step G c =
     run_agent_step_with G c (agent_body G c) (outside (commit_all_changes (ag_host G) (ac_worktree c) (ac_message c)))"

section \<open>What an agent Step keeps\<close>

lemma carries_agent_error [carry]: "carries I (agent_error m k)"
  unfolding agent_error_def by (intro carry)

lemma carries_call_event [carry]: "carries (kept w0) (call_event c k p)" "carries (kept w0) (mcp_ref_skipped c r k e ts)"
  unfolding mcp_ref_skipped_def call_event_def by (intro carry)+

lemma carries_is_trusted [carry]: "carries I (is_trusted k n v s)"
  unfolding is_trusted_def by (intro carry)

lemma carries_mcp_servers [carry]: "carries (kept w0) (resolve_mcp_servers G c refs)"
  unfolding resolve_mcp_servers_def consider_server_def allowed_mcp_tools_def consider_tool_def tool_capability_def Let_def
  by (intro carry)

lemma carries_apply_mcp [carry]: "carries (kept w0) (apply_mcp G c iv)"
  unfolding apply_mcp_def resolve_secrets_def write_rendered_def write_at_def copy_home_file_def Let_def by (intro carry)

lemma carries_share_skills [carry]: "carries (kept w0) (share_skills G c r rs cs)"
  unfolding share_skills_def share_skill_def codex_scratch_home_def link_skill_def except_os_error_def Let_def
  by (intro carry)

lemma carries_apply_skills [carry]: "carries (kept w0) (apply_skills G c p iv)"
  unfolding apply_skills_def resolve_skills_def resolve_skill_def memory_part_def skills_event_def Let_def
  by (intro carry)

lemma carries_agent_output [carry]: "carries (kept w0) (agent_output G c r)"
  unfolding agent_output_def Let_def by (intro carry)

lemma carries_agent_body [carry]: "carries (kept w0) (agent_body G c p)"
  unfolding agent_body_def resolve_persona_def apply_model_profile_def Let_def by (intro carry)

lemma carries_by_row:
  assumes "\<And>row. (row = None \<or> s_status (the row) \<noteq> SUCCEEDED \<Longrightarrow> i \<notin> s_id ` done_steps w0) \<Longrightarrow> carries (kept w0) (f row)"
  shows "carries (kept w0) (bindE (find_step i) f)"
proof (rule carriesI)
  fix w assume k: "kept w0 w"
  have "i \<notin> s_id ` done_steps w0" if "row_of i w = None \<or> s_status (the (row_of i w)) \<noteq> SUCCEEDED"
  proof
    assume "i \<in> s_id ` done_steps w0"
    then obtain s where s: "s \<in> set (steps w)" "s_id s = i" "s_status s = SUCCEEDED"
      using keptD(4) [OF k] by (auto simp: done_steps_def)
    then obtain s' where "row_of i w = Some s'" using find_None_iff_ids [of i w] by (auto simp: row_of_def step_ids_def)
    with s that row_of_in db_ok_step_unique [OF keptD(1) [OF k]] show False by fastforce
  qed
  then have "carries (kept w0) (f (row_of i w))" by (rule assms)
  then show "kept w0 (snd (bindE (find_step i) f w))"
    using k by (simp add: find_step_def carries_def row_of_def)
qed

lemma carries_authorize_agent:
  assumes "ac_step c \<notin> s_id ` done_steps w0"
  shows "carries (kept w0) (authorize_agent_or_wait G c)"
proof -
  have own: "ma_step (build_agent_action G c cap) \<notin> s_id ` done_steps w0" for cap
    using assms by (simp add: build_agent_action_def)
  show ?thesis
    unfolding authorize_agent_or_wait_def authorize_new_action_def act_on_decision_def approval_status_def
      ensure_pending_agent_approval_def Let_def
    by (intro carry carries_mark_waiting carries_step_marks assms own)
qed

lemma carries_agent_step_with:
  assumes "\<And>p. carries (kept w0) (fn p)" "carries (kept w0) commit"
  shows "carries (kept w0) (run_agent_step_with G c fn commit)"
  unfolding run_agent_step_with_def Let_def
proof (rule carries_by_row)
  fix row :: "step_row option"
  assume new: "row = None \<or> s_status (the row) \<noteq> SUCCEEDED \<Longrightarrow> ac_step c \<notin> s_id ` done_steps w0"
  show "carries (kept w0) (bindE (if case row of None \<Rightarrow> False | Some s \<Rightarrow> s_status s = SUCCEEDED then ret None
           else authorize_agent_or_wait G c) (\<lambda>wait. case wait of
         Some v \<Rightarrow> ret v
       | None \<Rightarrow> bindE (run_step (ac_step c) (ac_run c) fn []) (\<lambda>output.
           if case row of None \<Rightarrow> False | Some s \<Rightarrow> s_status s = SUCCEEDED then ret output
           else bindE commit (\<lambda>sha. ret (JObj (merge_obj (as_obj output) [(''commit_sha'', jopt sha)]))))))"
    by (intro carry carries_authorize_agent assms new) (cases row; simp)
qed

lemma carries_agent_step [carry]: "carries (kept w0) (run_agent_step G c)"
  unfolding run_agent_step_def by (intro carries_agent_step_with carry)

section \<open>Clearance\<close>

lemma bind_ret: "bindE (ret a) f = f a"
  by (simp add: bindE_def ret_def)

lemma approval_status_None:
  assumes "approval_status M a actor w = (Val None, w')"
  shows "w' = w \<and> (\<forall>p. find (\<lambda>p. a_step p = ma_step a) (approvals w) = Some p \<longrightarrow>
      a_digest p = action_digest M a \<and> a_status p \<notin> {Pending, Rejected})"
proof (cases "find (\<lambda>p. a_step p = ma_step a) (approvals w)")
  case None
  with assms show ?thesis by (simp add: approval_status_def find_approval_def ret_def)
next
  case (Some p)
  with assms show ?thesis
    by (simp add: approval_status_def find_approval_def seq_Val basic_Val agent_error_def split: if_splits)
qed

text \<open>
  What clears an agent call: it declares no capability, or the approval row of its Step is decided,
  not rejected and carries the digest of exactly this action, or there is none and the Guard allows.
\<close>

definition agent_cleared :: "'x agent_env \<Rightarrow> 'x agent_call \<Rightarrow> 'x world \<Rightarrow> bool" where
  "agent_cleared G c w = (case ac_capability c of
       None \<Rightarrow> True
     | Some cap \<Rightarrow> (case find (\<lambda>p. a_step p = ac_step c) (approvals w) of
           Some p \<Rightarrow> a_digest p = action_digest (ag_machine G) (build_agent_action G c cap) \<and> a_status p \<notin> {Pending, Rejected}
         | None \<Rightarrow> \<exists>reason. evaluate cap (call_allowlist c cap) (ac_role c) = Inr (ALLOW, reason)))"

lemma act_on_decision_None: "act_on_decision G c a d w = (Val None, w') \<Longrightarrow> d = ALLOW"
  by (cases d) (simp_all add: act_on_decision_def seq_Val bind_Val basic_Val agent_error_def)

lemma authorize_agent_None:
  assumes "authorize_agent_or_wait G c w = (Val None, w')"
  shows "agent_cleared G c w"
proof (cases "ac_capability c")
  case None
  then show ?thesis by (simp add: agent_cleared_def)
next
  case (Some cap)
  let ?a = "build_agent_action G c cap"
  have step: "ma_step ?a = ac_step c" by (simp add: build_agent_action_def)
  obtain v w1 where v: "approval_status (ag_machine G) ?a (ac_actor c) w = (Val v, w1)"
    and rest: "(case v of Some v \<Rightarrow> ret (Some v) | None \<Rightarrow> bindE (find_approval (\<lambda>p. a_step p = ac_step c))
        (\<lambda>row. case row of Some _ \<Rightarrow> ret None | None \<Rightarrow> authorize_new_action G c cap ?a)) w1 = (Val None, w')"
    using assms unfolding authorize_agent_or_wait_def Some option.case Let_def bind_Val by blast
  have none: "v = None" using rest by (cases v) (simp_all add: basic_Val)
  note st = approval_status_None [OF v [unfolded none]]
  show ?thesis
  proof (cases "find (\<lambda>p. a_step p = ac_step c) (approvals w)")
    case (Some p)
    with st step \<open>ac_capability c = Some cap\<close> show ?thesis by (simp add: agent_cleared_def)
  next
    case None
    then obtain d w2 where d: "authorize cap (call_allowlist c cap) (ac_run c) (ac_actor c) (Some (ac_step c)) (ac_role c)
             [(''agent_action_digest'', JStr (action_digest (ag_machine G) ?a))] w = (Val d, w2)"
        "act_on_decision G c ?a d w2 = (Val None, w')"
      using rest none st by (auto simp: authorize_new_action_def bind_Val find_approval_def)
    from authorize_decision [OF d(1)] act_on_decision_None [OF d(2)] None Some show ?thesis
      by (auto simp: agent_cleared_def)
  qed
qed

text \<open>
  C4. The agent is called only when cleared: if what fn and commit do makes any difference to the
  outcome of run_agent_step on a Step, then that Step had not finished, and the call was cleared: it
  declares no capability, or the approval on record for the Step is decided, not rejected and carries
  the digest of exactly this adapter, objective and role, or the Guard allows it outright.
\<close>

theorem agent_runs_only_when_cleared:
  assumes "row_of (ac_step c) w = Some row"
    and "run_agent_step_with G c fn commit w \<noteq> run_agent_step_with G c fn' commit' w"
  shows "s_status row \<noteq> SUCCEEDED \<and> agent_cleared G c w"
proof (rule ccontr)
  assume no: "\<not> ?thesis"
  have found: "find_step (ac_step c) w = (Val (Some row), w)"
    using assms(1) by (simp add: find_step_def gets_def row_of_def)
  show False
  proof (cases "s_status row = SUCCEEDED")
    case True
    have "run_step (ac_step c) (ac_run c) f [] w = loads (s_output row) w" for f
      using found True by (simp add: run_step_def bindE_def demand_def ret_def)
    with assms(2) found True show False by (simp add: run_agent_step_with_def bindE_def ret_def)
  next
    case False
    with no have "\<And>w'. authorize_agent_or_wait G c w \<noteq> (Val None, w')" using authorize_agent_None by blast
    then have "run_agent_step_with G c fn commit w = run_agent_step_with G c fn' commit' w"
      using found False
      by (auto simp: run_agent_step_with_def bindE_def Let_def split: prod.split res.split option.split)
    with assms(2) show False by simp
  qed
qed

text \<open>
  C40. The worktree is committed only for a Step on record: if the commit makes any difference, then
  run_step has returned the agent's output, and in the database the commit runs on, the Step is
  SUCCEEDED with exactly that output.
\<close>

theorem commit_only_after_success:
  assumes "run_agent_step_with G c fn commit w \<noteq> run_agent_step_with G c fn commit' w"
  shows "\<exists>out w1 s. run_agent_step_with G c fn commit w =
      bindE commit (\<lambda>sha. ret (JObj (merge_obj (as_obj out) [(''commit_sha'', jopt sha)]))) w1 \<and>
    row_of (ac_step c) w1 = Some s \<and> s_status s = SUCCEEDED \<and> s_output s = Some out"
proof -
  let ?k = "\<lambda>cm out. bindE cm (\<lambda>sha. ret (JObj (merge_obj (as_obj out) [(''commit_sha'', jopt sha)])))"
  obtain row where found: "find_step (ac_step c) w = (Val row, w)"
    by (simp add: find_step_def gets_def)
  show ?thesis
  proof (cases "case row of None \<Rightarrow> False | Some s \<Rightarrow> s_status s = SUCCEEDED")
    case True
    then have "run_agent_step_with G c fn cm w = bindE (run_step (ac_step c) (ac_run c) fn []) ret w" for cm
      using found by (simp add: run_agent_step_with_def bindE_def [of "find_step (ac_step c)"] bind_ret)
    with assms show ?thesis by simp
  next
    case False
    have eq: "run_agent_step_with G c fn cm w = bindE (authorize_agent_or_wait G c) (\<lambda>wait. case wait of
         Some v \<Rightarrow> ret v | None \<Rightarrow> bindE (run_step (ac_step c) (ac_run c) fn []) (?k cm)) w" for cm
      using found False by (simp add: run_agent_step_with_def bindE_def [of "find_step (ac_step c)"] Let_def)
    obtain w0 where w0: "authorize_agent_or_wait G c w = (Val None, w0)"
        "bindE (run_step (ac_step c) (ac_run c) fn []) (?k commit) w0 \<noteq> bindE (run_step (ac_step c) (ac_run c) fn []) (?k commit') w0"
      using assms unfolding eq by (auto simp: bindE_def [of "authorize_agent_or_wait G c"] split: prod.splits res.splits option.splits)
    then obtain out w1 where "run_step (ac_step c) (ac_run c) fn [] w0 = (Val out, w1)"
      by (auto simp: bindE_def [of "run_step (ac_step c) (ac_run c) fn []"] split: prod.splits res.splits)
    with run_step_value_stored [OF this] w0(1) show ?thesis
      unfolding eq by (auto simp: bindE_def [of "authorize_agent_or_wait G c"] bindE_def [of "run_step (ac_step c) (ac_run c) fn []"])
  qed
qed

section \<open>A call at work\<close>

definition demo_host :: "unit host" where
  "demo_host = \<lparr>git = (\<lambda>args cwd x. (Val (if take 1 args = [''diff''] then 1 else 0, ''abc123'', []), x)),
     make_dir = (\<lambda>p x. (Val (), x)), remove_tree = (\<lambda>p x. (Val (), x)), write_text = (\<lambda>p t x. (Val (), x)),
     write_bytes = (\<lambda>p t x. (Val (), x)), delete_tree = (\<lambda>p x. (Val (), x)), copy_tree = (\<lambda>p q x. (Val (), x)),
     symlink = (\<lambda>p q x. (Val (), x)), restrict_mode = (\<lambda>p x. (Val (), x)), is_dir = (\<lambda>p x. (Val False, x)),
     is_file = (\<lambda>p x. (Val False, x)), home_dir = (True, [''home''])\<rparr>"

definition demo_agent_env :: "unit agent_env" where
  "demo_agent_env = \<lparr>ag_machine = demo_machine, ag_files = demo_files, ag_host = demo_host, ag_memory = demo_memory,
     ag_cipher = \<lparr>encrypt = (\<lambda>k p x. (Val p, x)), decrypt = (\<lambda>k c. Inr c)\<rparr>\<rparr>"

definition demo_call :: "capability option \<Rightarrow> string \<Rightarrow> unit agent_call" where
  "demo_call cap answer = \<lparr>ac_step = ''run:a#1'', ac_run = ''run'', ac_worktree = (True, [''wt'']),
     ac_invocation = AgentInvocation ''fix it'' [] (True, [''wt'']) [],
     ac_adapter = (\<lambda>iv x. (Val \<lparr>ar_status = AG_COMPLETED, ar_output = [(''result'', JStr answer)], ar_candidates = [],
        ar_findings = [], ar_usage = JObj [], ar_reason = []\<rparr>, x)),
     ac_message = ''m'', ac_capability = cap, ac_allowlist = None, ac_role = None, ac_actor = ''codex'', ac_voice = None,
     ac_instructions = [], ac_mcp = [], ac_skills = [], ac_persona = None, ac_model_profile = None, ac_repo = None\<rparr>"

definition agent_capability :: "string \<Rightarrow> capability" where
  "agent_capability appr = demo_capability ''codex'' ''R1'' appr []"

abbreviation pending_step :: "unit world" where
  "pending_step \<equiv> one_run () [step_row_of ''run:a#1'' ''run'' ''a'' PENDING]"

lemma pending_row: "row_of ''run:a#1'' pending_step = Some (step_row_of ''run:a#1'' ''run'' ''a'' PENDING)"
  by (simp add: row_of_def one_run_def step_row_of_def blank_world_def)

theorem agent_runs_only_when_cleared_witness:
  "agent_cleared demo_agent_env (demo_call (Some (agent_capability ''never'')) ''done'') pending_step"
proof -
  let ?c = "demo_call (Some (agent_capability ''never'')) ''done''"
  let ?r = "\<lambda>n. run_agent_step_with demo_agent_env ?c (\<lambda>_. ret (JObj [(''n'', JInt n)])) (ret None) pending_step"
  have "fst (?r 1) = Val (JObj [(''n'', JInt 1), (''commit_sha'', JNull)])"
    "fst (?r 2) = Val (JObj [(''n'', JInt 2), (''commit_sha'', JNull)])" by code_simp+
  then have "?r 1 \<noteq> ?r 2" by auto
  moreover have "row_of (ac_step ?c) pending_step = Some (step_row_of ''run:a#1'' ''run'' ''a'' PENDING)"
    by (simp add: demo_call_def pending_row)
  ultimately show ?thesis using agent_runs_only_when_cleared by blast
qed

theorem commit_only_after_success_witness:
  "\<exists>w1 s. row_of ''run:a#1'' w1 = Some s \<and> s_status s = SUCCEEDED \<and>
     run_agent_step_with demo_agent_env (demo_call None ''done'') (\<lambda>_. ret (JObj [])) (ret (Some ''abc'')) pending_step =
       bindE (ret (Some ''abc'')) (\<lambda>sha. ret (JObj [(''commit_sha'', jopt sha)])) w1"
proof -
  let ?c = "demo_call None ''done''"
  let ?r = "\<lambda>cm. run_agent_step_with demo_agent_env ?c (\<lambda>_. ret (JObj [])) cm pending_step"
  have r: "fst (?r (ret (Some ''abc''))) = Val (JObj [(''commit_sha'', JStr ''abc'')])"
    "fst (?r (ret None)) = Val (JObj [(''commit_sha'', JNull)])" by code_simp+
  then have "?r (ret (Some ''abc'')) \<noteq> ?r (ret None)" by auto
  from commit_only_after_success [OF this] obtain out w1 s where o: "?r (ret (Some ''abc'')) =
      bindE (ret (Some ''abc'')) (\<lambda>sha. ret (JObj (merge_obj (as_obj out) [(''commit_sha'', jopt sha)]))) w1"
      "row_of (ac_step ?c) w1 = Some s" "s_status s = SUCCEEDED" by blast
  have "merge_obj (as_obj out) [(''commit_sha'', jopt (Some ''abc''))] = [(''commit_sha'', jopt (Some ''abc''))]"
    using r(1) unfolding o(1) bind_ret by (simp add: ret_def jopt_def)
  with o show ?thesis unfolding bind_ret by (auto simp: demo_call_def)
qed

text \<open>
  What an agent says is bounded on record: the result_text of the output that an agent Step
  stores has at most 8192 characters, and it is the beginning of the text the agent gave.
\<close>

theorem agent_text_bounded:
  assumes "agent_body G c p w = (Val out, w')"
  shows "\<exists>d s r. out = JObj d \<and> get ''result_text'' d = JStr s \<and> length s \<le> 8192 \<and>
    prefix s (result_text (ag_machine G) r) \<and> ar_status r = AG_COMPLETED"
proof -
  obtain r w1 d where d: "agent_output G c r w1 = (Val d, w')" "ar_status r = AG_COMPLETED"
    and out: "out = JObj (case ac_voice c of None \<Rightarrow> d | Some v \<Rightarrow> AList.update ''voice'' (JStr v) d)"
    using assms by (auto simp: agent_body_def bind_Val basic_Val agent_error_def split: if_splits)
  have "get ''result_text'' d = JStr (take max_result_text (result_text (ag_machine G) r))"
    using d(1) by (auto simp: agent_output_def Let_def bind_Val basic_Val get_def split: if_splits)
  then have "get ''result_text'' (case ac_voice c of None \<Rightarrow> d | Some v \<Rightarrow> AList.update ''voice'' (JStr v) d) =
      JStr (take max_result_text (result_text (ag_machine G) r))"
    by (cases "ac_voice c") (simp_all add: get_def update_conv)
  with out d(2) show ?thesis using take_is_prefix by (auto simp: max_result_text_def)
qed

theorem agent_text_bounded_witness:
  "\<exists>d s. fst (agent_body demo_agent_env (demo_call None ''done'') [] pending_step) = Val (JObj d) \<and>
     get ''result_text'' d = JStr s \<and> length s \<le> 8192"
proof -
  let ?r = "agent_body demo_agent_env (demo_call None ''done'') [] pending_step"
  have "case fst ?r of Val v \<Rightarrow> True | _ \<Rightarrow> False" by code_simp
  then obtain v w' where r: "?r = (Val v, w')" by (cases ?r; cases "fst ?r") auto
  from agent_text_bounded [OF this] show ?thesis unfolding r by auto
qed

text \<open>
  MCP servers only behind a Guard hook: with MCP references and an adapter that has no such hook,
  run inside a repository, the body of the Step never returns a value, and what the adapter would do
  makes no difference at all.
\<close>

theorem unguarded_mcp_never_runs:
  assumes "ac_mcp c \<noteq> []" "ac_repo c \<noteq> None" "ac_actor c \<notin> set guarded_mcp_adapters"
  shows "agent_body G c p w = agent_body G (c\<lparr>ac_adapter := a\<rparr>) p w \<and> fst (agent_body G c p w) \<noteq> Val v"
proof -
  let ?e = "''MCP refs require an adapter pre-tool Guard hook; adapter '' @ str_repr (ac_actor c)
             @ '' is not currently executable with MCP''"
  have stop: "bindE (agent_error m k) f = agent_error m k" for m k and f :: "'b \<Rightarrow> ('w, 'c) act"
    by (simp add: agent_error_def throw_class_def raise_def bindE_def)
  have mcp: "apply_mcp G (c\<lparr>ac_adapter := b\<rparr>) iv = agent_error ?e ''POLICY_DENIED''" for b iv
    using assms by (auto simp: apply_mcp_def)
  have call: "call_event (c\<lparr>ac_adapter := b\<rparr>) = call_event c" for b
    by (intro ext) (simp add: call_event_def)
  have parts: "memory_part G (c\<lparr>ac_adapter := b\<rparr>) = memory_part G c" "share_skills G (c\<lparr>ac_adapter := b\<rparr>) = share_skills G c"
    "skills_event (c\<lparr>ac_adapter := b\<rparr>) = skills_event c" for b
    by (intro ext; simp add: memory_part_def share_skills_def skills_event_def call cong: option.case_cong if_cong)+
  have same: "resolve_persona G (c\<lparr>ac_adapter := b\<rparr>) = resolve_persona G c"
    "apply_skills G (c\<lparr>ac_adapter := b\<rparr>) ps iv = apply_skills G c ps iv" for b ps iv
    by (simp_all add: resolve_persona_def apply_skills_def parts cong: option.case_cong if_cong)
  have body: "agent_body G (c\<lparr>ac_adapter := b\<rparr>) p =
      bindE (resolve_persona G c) (\<lambda>persona. bindE (apply_skills G c persona (ac_invocation c))
        (\<lambda>_. agent_error ?e ''POLICY_DENIED''))" for b
    by (simp add: agent_body_def mcp stop same)
  from body [of "ac_adapter c"] body [of a] show ?thesis
    by (simp add: bindE_def agent_error_def throw_class_def raise_def split: prod.split res.split)
qed

theorem unguarded_mcp_never_runs_witness:
  "fst (agent_body demo_agent_env (demo_call None ''done''\<lparr>ac_mcp := [''m@1''], ac_repo := Some (True, [])\<rparr>) [] pending_step)
     \<noteq> Val JNull"
  using unguarded_mcp_never_runs [of "demo_call None ''done''\<lparr>ac_mcp := [''m@1''], ac_repo := Some (True, [])\<rparr>"]
  by (simp add: demo_call_def guarded_mcp_adapters_def)

text \<open>
  A rejected agent call leaves its Step as it was: when the approval of the Step is rejected and
  carries the digest of the call, run_agent_step raises, nothing outside the database happens, and the
  row of the Step is not touched, so a Step that waited still says WAITING_APPROVAL.
\<close>

theorem rejection_leaves_step:
  assumes "row_of (ac_step c) w = Some row" "s_status row \<noteq> SUCCEEDED" "ac_capability c = Some cap"
    and "find (\<lambda>p. a_step p = ac_step c) (approvals w) = Some p" "a_status p = Rejected"
    and "a_digest p = action_digest (ag_machine G) (build_agent_action G c cap)"
  shows "\<exists>e w'. run_agent_step G c w = (Exn e, w') \<and> steps w' = steps w \<and> ext w' = ext w"
proof -
  have step: "ma_step (build_agent_action G c cap) = ac_step c" by (simp add: build_agent_action_def)
  have "\<exists>e w'. approval_status (ag_machine G) (build_agent_action G c cap) (ac_actor c) w = (Exn e, w') \<and>
      steps w' = steps w \<and> ext w' = ext w"
    using assms(4-6)
    by (simp add: approval_status_def step find_approval_def machine_action_event_def seqE_def bindE_def [of "log_event r s n a k d" for r s n a k d]
        log_event_eq agent_error_def throw_class_def raise_def)
  then obtain e w' where "authorize_agent_or_wait G c w = (Exn e, w')" "steps w' = steps w" "ext w' = ext w"
    using assms(3) by (auto simp: authorize_agent_or_wait_def Let_def bindE_def)
  moreover have "find_step (ac_step c) w = (Val (Some row), w)"
    using assms(1) by (simp add: find_step_def gets_def row_of_def)
  ultimately show ?thesis
    using assms(2) by (simp add: run_agent_step_def run_agent_step_with_def bindE_def)
qed

definition rejected_world :: "unit world" where
  "rejected_world = (one_run () [step_row_of ''run:a#1'' ''run'' ''a'' WAITING_APPROVAL])
     \<lparr>approvals := [(pending_approval ''ap'' ''run'' ''run:a#1'' (action_digest demo_machine
        (build_agent_action demo_agent_env (demo_call (Some (agent_capability ''per-run'')) ''done'') (agent_capability ''per-run'')))
        ''t0'' (Some ''R1''))\<lparr>a_status := Rejected\<rparr>]\<rparr>"

theorem rejection_leaves_step_witness:
  "\<exists>e w'. run_agent_step demo_agent_env (demo_call (Some (agent_capability ''per-run'')) ''done'') rejected_world = (Exn e, w') \<and>
     map s_status (steps w') = [WAITING_APPROVAL]"
proof -
  let ?c = "demo_call (Some (agent_capability ''per-run'')) ''done''"
  let ?p = "hd (approvals rejected_world)"
  have row: "row_of (ac_step ?c) rejected_world = Some (step_row_of ''run:a#1'' ''run'' ''a'' WAITING_APPROVAL)"
    by (simp add: row_of_def rejected_world_def one_run_def step_row_of_def blank_world_def demo_call_def)
  have status: "s_status (step_row_of ''run:a#1'' ''run'' ''a'' WAITING_APPROVAL) \<noteq> SUCCEEDED"
    by (simp add: step_row_of_def)
  have cap: "ac_capability ?c = Some (agent_capability ''per-run'')" by (simp add: demo_call_def)
  have app: "find (\<lambda>p. a_step p = ac_step ?c) (approvals rejected_world) = Some ?p" "a_status ?p = Rejected"
    and digest: "a_digest ?p = action_digest (ag_machine demo_agent_env) (build_agent_action demo_agent_env ?c (agent_capability ''per-run''))"
    by (simp_all add: rejected_world_def one_run_def pending_approval_def demo_call_def demo_agent_env_def)
  obtain e w' where "run_agent_step demo_agent_env ?c rejected_world = (Exn e, w')" "steps w' = steps rejected_world"
    using rejection_leaves_step [OF row status cap app digest] by blast
  then show ?thesis
    by (simp add: rejected_world_def one_run_def step_row_of_def)
qed

end
