(* ===== verification/Awf_Nodes.thy ===== *)
theory Awf_Nodes
  imports Awf_Agent
begin

text \<open>
  The executors of the node types: agent and activity (workflow/engine.py, workflow/activities.py),
  handoff, subworkflow, loop and map (workflow/handoff.py, subworkflow.py, loop_node.py, map_node.py).
  json.loads, a JSON-Schema check and the adapters are parameters; so are the activities that only
  read the hardware or start a local model server.
\<close>

section \<open>What the executors are given\<close>

record 'x registration =
  reg_kind :: string
  reg_fn :: "(obj \<Rightarrow> ('x, json) op) option"

record 'x node_env =
  no_agent :: "'x agent_env"
  no_adapters :: "string \<Rightarrow> 'x adapter option"
  no_activities :: "string \<Rightarrow> 'x registration option"
  no_worktree :: path
  no_repo :: "path option"
  no_input :: json
  no_json :: "string \<Rightarrow> json result"
  no_schema_error :: "json \<Rightarrow> json \<Rightarrow> string option"

text \<open>value.partition on a value that must be a str; registry[key] on a dict of adapters.\<close>

definition text_attr :: "json \<Rightarrow> string result" where
  "text_attr v = (case v of JStr s \<Rightarrow> Inr s | _ \<Rightarrow> fail ''AttributeError'' ''object has no attribute partition'')"

definition adapter_of :: "'x node_env \<Rightarrow> json \<Rightarrow> ('x adapter \<times> string) result" where
  "adapter_of N v = (case v of
       JStr s \<Rightarrow> (case no_adapters N s of Some a \<Rightarrow> Inr (a, s) | None \<Rightarrow> fail ''KeyError'' (str_repr s))
     | _ \<Rightarrow> if is_hashable v then fail ''KeyError'' (py_repr v) else fail ''TypeError'' ''unhashable type'')"

text \<open>dict(workflow_input or {})\<close>

definition input_dict :: "json \<Rightarrow> obj result" where
  "input_dict v = (if truthy v then as_dict v else Inr [])"

section \<open>The agent node\<close>

definition synthesized_capability_for_node :: "obj \<Rightarrow> string \<Rightarrow> capability result" where
  "synthesized_capability_for_node node adapter_name =
     andThen (item ''id'' node) (\<lambda>i.
       Inr \<lparr>identity = \<lparr>id_type = ''cli-adapter-action'', id_provider = adapter_name,
                        id_name = ''agent_node_'' @ py_str i, id_version = ''0.0.0''\<rparr>,
            schema_input = [], schema_output = [],
            effects = \<lparr>operation = ''update'', reversible = True, idempotent = False, external_side_effect = True\<rparr>,
            risk_class = ''R1'', approval = ''never'', constraints = []\<rparr>)"

definition resolve_node_capability :: "'x files \<Rightarrow> obj \<Rightarrow> string \<Rightarrow> ('x, capability) op" where
  "resolve_node_capability F node adapter_name =
     (if \<not> truthy (get ''capability'' node) then liftR (synthesized_capability_for_node node adapter_name)
      else
        bindE (liftR (andThen (as_dict (get ''capability'' node)) (\<lambda>d.
                 andThen (text_item ''name'' d) (\<lambda>n. andThen (text_item ''version'' d) (\<lambda>v. Inr (n, v)))))) (\<lambda>(name, version).
        bindE (resolve_registry_object F ''capabilities'' name version) (\<lambda>(p, _). load_capability_at F p)))"

definition resolve_manifest :: "'x files \<Rightarrow> obj \<Rightarrow> ('x, agent_manifest option) op" where
  "resolve_manifest F node =
     (if \<not> truthy (get ''agentRef'' node) then ret None
      else
        bindE (liftR (text_attr (get ''agentRef'' node))) (\<lambda>r.
        let (name, version) = partition_at (CHR ''@'') r in
        bindE (resolve_registry_object F ''agents'' name version) (\<lambda>(p, _).
        bindE (load_agent_manifest F p) (\<lambda>m. ret (Some m)))))"

text \<open>An optional attribute of the manifest, and "a or b" where a is a value and b such an attribute.\<close>

definition from_manifest :: "('m \<Rightarrow> 'a) \<Rightarrow> 'a \<Rightarrow> 'm option \<Rightarrow> 'a" where
  "from_manifest f dflt m = (case m of None \<Rightarrow> dflt | Some x \<Rightarrow> f x)"

definition agent_invocation :: "'x node_env \<Rightarrow> obj \<Rightarrow> invocation result" where
  "agent_invocation N node =
     andThen (text_item ''objective'' node) (\<lambda>objective.
     andThen (as_dict (get_or ''constraints'' (JObj []) node)) (\<lambda>cs.
     andThen (input_dict (no_input N)) (\<lambda>input_data.
       Inr (AgentInvocation (render_input_templates objective input_data) input_data (no_worktree N) cs))))"

definition node_role :: "obj \<Rightarrow> agent_manifest option \<Rightarrow> string option result" where
  "node_role node m =
     (if truthy (get ''role'' node) then andThen (as_text (get ''role'' node)) (\<lambda>s. Inr (Some s))
      else Inr (from_manifest am_role None m))"

definition agent_executor :: "'x node_env \<Rightarrow> string \<Rightarrow> string \<Rightarrow> obj \<Rightarrow> ('x, json) op" where
  "agent_executor N run_id step_id node =
     (let F = ag_files (no_agent N) in
      bindE (resolve_manifest F node) (\<lambda>manifest.
      let adapter_name = or_else (get ''adapter'' node) (from_manifest (\<lambda>m. JStr (am_adapter m)) JNull manifest) in
      bindE (liftR (item ''id'' node)) (\<lambda>node_id.
      if \<not> truthy adapter_name then
        engine_error (''agent node '' @ quoted (py_str node_id) @ '': no adapter - declare '' @ quoted ''adapter'' @ '' or '' @ quoted ''agentRef'')
      else
        bindE (liftR (agent_invocation N node)) (\<lambda>iv.
        bindE (liftR (adapter_of N adapter_name)) (\<lambda>(adapter, actor).
        bindE (resolve_node_capability F node actor) (\<lambda>cap.
        bindE (liftR (node_role node manifest)) (\<lambda>node_role.
          run_agent_step (no_agent N)
            \<lparr>ac_step = step_id, ac_run = run_id, ac_worktree = no_worktree N, ac_invocation = iv, ac_adapter = adapter,
             ac_message = ''workflow: '' @ py_str node_id, ac_capability = Some cap,
             ac_allowlist = from_manifest (\<lambda>m. if am_capabilities m = [] then None else Some (am_capabilities m)) None manifest,
             ac_role = node_role, ac_actor = actor, ac_voice = from_manifest am_voice None manifest,
             ac_instructions = from_manifest am_instructions [] manifest, ac_mcp = from_manifest am_mcp [] manifest,
             ac_skills = from_manifest am_skills [] manifest, ac_persona = from_manifest am_persona None manifest,
             ac_model_profile = from_manifest am_model_profile None manifest, ac_repo = no_repo N\<rparr>))))))) "

section \<open>The activity node\<close>

definition synthesized_capability_for_activity :: "string \<Rightarrow> capability" where
  "synthesized_capability_for_activity name =
     \<lparr>identity = \<lparr>id_type = ''activity'', id_provider = ''awf'', id_name = name, id_version = ''0.0.0''\<rparr>,
      schema_input = [], schema_output = [],
      effects = \<lparr>operation = ''execute'', reversible = True, idempotent = True, external_side_effect = False\<rparr>,
      risk_class = ''R1'', approval = ''never'', constraints = []\<rparr>"

definition resolve_activity_capability :: "'x files \<Rightarrow> string \<Rightarrow> ('x, capability) op" where
  "resolve_activity_capability F name =
     bindE (attempt (resolve_registry_object F ''capabilities'' name ''1.0.0'')) (\<lambda>r. case r of
         Inl e \<Rightarrow> if exc_type e = ''RegistryObjectNotFoundError'' then ret (synthesized_capability_for_activity name) else raise e
       | Inr (p, _) \<Rightarrow> load_capability_at F p)"

definition activity_args :: "'x node_env \<Rightarrow> string \<Rightarrow> string \<Rightarrow> obj \<Rightarrow> json result" where
  "activity_args N run_id step_id node =
     andThen (input_dict (no_input N)) (\<lambda>input_data.
      let args = render_input_templates_in_value (get_or ''args'' (JObj []) node) input_data in
      case no_repo N of
        None \<Rightarrow> Inr args
      | Some repo_root \<Rightarrow> andThen (as_dict args) (\<lambda>d. Inr (JObj (AList.update ''_awf''
          (JObj [(''repo_root'', JStr (as_posix repo_root)), (''run_id'', JStr run_id), (''step_id'', JStr step_id)]) d))))"

definition step_failure :: "string \<Rightarrow> string \<Rightarrow> ('w, 'a) act" where
  "step_failure msg cls = throw_class ''StepFailure'' msg cls"

text \<open>The function of a local activity: looked up, authorized, called.\<close>

definition activity_fn :: "'x node_env \<Rightarrow> string \<Rightarrow> string \<Rightarrow> obj \<Rightarrow> string \<Rightarrow> obj \<Rightarrow> obj \<Rightarrow> ('x, json) op" where
  "activity_fn N run_id step_id node name args payload =
     (case Option.bind (no_activities N name) reg_fn of
        None \<Rightarrow>
          bindE (liftR (item ''id'' node)) (\<lambda>i. throw_class ''UnknownActivityError''
            (''node '' @ quoted (py_str i) @ '': no registered activity named '' @ quoted name) ''INVALID_INPUT'')
      | Some f \<Rightarrow>
          seqE (case no_repo N of
              None \<Rightarrow> ret ()
            | Some repo_root \<Rightarrow>
                bindE (resolve_activity_capability (ag_files (no_agent N)) name) (\<lambda>cap.
                bindE (authorize cap [cap_ref cap] run_id ''awf'' (Some step_id) None []) (\<lambda>decision.
                if decision \<noteq> ALLOW
                then step_failure (''blocked by Capability Guard: '' @ decision_value decision) ''POLICY_DENIED''
                else ret ())))
            (f args))"

definition is_machine_activity :: "'x node_env \<Rightarrow> string \<Rightarrow> bool" where
  "is_machine_activity N name = (name \<in> set machine_names \<or>
     (case no_activities N name of Some r \<Rightarrow> reg_kind r = ''machine'' | None \<Rightarrow> False))"

definition activity_executor :: "'x node_env \<Rightarrow> string \<Rightarrow> string \<Rightarrow> obj \<Rightarrow> ('x, json) op" where
  "activity_executor N run_id step_id node =
     bindE (liftR (text_item ''function'' node)) (\<lambda>name.
     bindE (liftR (activity_args N run_id step_id node)) (\<lambda>args.
     if is_machine_activity N name then
       (case no_repo N of
          None \<Rightarrow> run_step step_id run_id (\<lambda>_. step_failure ''governed machine activity requires repo_root'' ''POLICY_DENIED'') []
        | Some repo_root \<Rightarrow>
            bindE (resolve_activity_capability (ag_files (no_agent N)) name) (\<lambda>cap.
              run_machine_activity ((ag_machine (no_agent N))\<lparr>worktree := no_worktree N\<rparr>) run_id step_id
                (AList.update ''args'' args node) cap))
     else
       run_step step_id run_id (activity_fn N run_id step_id node name (as_obj args)) []))"

section \<open>The resident assistant (workflow/activities.py)\<close>

definition last_n :: "nat \<Rightarrow> 'a list \<Rightarrow> 'a list" where
  "last_n n xs = drop (length xs - n) xs"

text \<open>What an entry of a session says: its summary, or the text of its content.\<close>

definition entry_text :: "entry_row \<Rightarrow> string option" where
  "entry_text y = (case y_summary y of
       Some (c # s) \<Rightarrow> Some (c # s)
     | _ \<Rightarrow> (case get ''text'' (as_obj (y_content y)) of JStr s \<Rightarrow> Some s | _ \<Rightarrow> None))"

definition entry_segments :: "entry_row \<Rightarrow> segment list result" where
  "entry_segments y = (case entry_text y of
       None \<Rightarrow> Inr []
     | Some t \<Rightarrow>
         if strip t = [] then Inr []
         else andThen (PromptSegment ''session'' ''context'' False (y_role y @ '': '' @ strip t)) (\<lambda>s. Inr [s]))"

definition session_segments :: "json \<Rightarrow> ('x, segment list) op" where
  "session_segments session_id = (case session_id of
       JStr i \<Rightarrow>
         if strip i = [] then ret []
         else
           bindE (attempt (show_session i)) (\<lambda>r. case r of
               Inl e \<Rightarrow> if exc_type e = ''SessionError'' then ret [] else raise e
             | Inr (s, ys) \<Rightarrow> liftR (andThen (mapR entry_segments (last_n 12 ys)) (\<lambda>xs. Inr (concat xs))))
     | _ \<Rightarrow> ret [])"

definition assistant_persona :: "'x files \<Rightarrow> json \<Rightarrow> ('x, compiled_persona option) op" where
  "assistant_persona F pref = (case pref of
       JStr r \<Rightarrow>
         if strip r = [] then ret None
         else
           let (name, version) = partition_at (CHR ''@'') r in
           bindE (resolve_registry_object F ''personas'' name version) (\<lambda>(p, _).
           bindE (load_persona F p) (\<lambda>prof.
           bindE (liftR (compile_persona prof)) (\<lambda>c. ret (Some c))))
     | _ \<Rightarrow> ret None)"

definition assistant_instruction :: string where
  "assistant_instruction = ''Answer the operator directly and concisely as the AWF resident mind.''"

definition context_text :: "string \<Rightarrow> obj \<Rightarrow> string option" where
  "context_text k d = (if truthy (get k d) then Some (py_str (get k d)) else None)"

definition assistant_context :: "'x gateway \<Rightarrow> string \<Rightarrow> string option \<Rightarrow> call_context" where
  "assistant_context gw run_id step_id = \<lparr>has_conn = True, secret_key = None, ctx_run = Some run_id, ctx_step = step_id,
     ctx_actor = ''assistant_reply'', ctx_allowlist = Some [llm_complete_ref]\<rparr>"

definition assistant_reply :: "'x agent_env \<Rightarrow> 'x gateway \<Rightarrow> obj \<Rightarrow> ('x, json) op" where
  "assistant_reply G gw args =
     (let objective = strip (py_str (get_or ''objective'' (JStr []) args)); ctxt = as_obj (get ''_awf'' args); F = ag_files G in
      if objective = [] then ret (JObj [(''response_text'', JStr ''I am ready. Send a request or choose a workflow to run.'')])
      else (case (context_text ''repo_root'' ctxt, context_text ''run_id'' ctxt) of
          (Some repo_root, Some run_id) \<Rightarrow>
            bindE (resolve_registry_object F ''model-profiles'' ''resident-mind'' ''1.0.0'') (\<lambda>(p, _).
            bindE (load_model_profile F p) (\<lambda>prof.
            bindE (liftR (PromptSegment ''application'' ''instruction'' True assistant_instruction)) (\<lambda>s1.
            bindE (assistant_persona F (get ''personaRef'' args)) (\<lambda>persona.
            bindE (liftR (case persona of None \<Rightarrow> Inr [] | Some c \<Rightarrow> segment_if ''persona'' ''style'' True (cm_system c))) (\<lambda>s2.
            bindE (session_segments (or_else (get ''voiceSessionId'' args) (get ''sessionId'' args))) (\<lambda>s3.
            bindE (catchE (retrieve_memory_context (ag_memory G) objective
                     (py_str (or_else (get ''memoryProfileRef'' args) (JStr ''default@1.0.0'')))) (\<lambda>_. ret [])) (\<lambda>s4.
            bindE (liftR (PromptSegment ''user'' ''input'' False objective)) (\<lambda>s5.
            let chat = render_chat (skill_envelope persona (s1 # s2 @ s3 @ s4 @ [s5])) in
            bindE (complete gw (assistant_context gw run_id (context_text ''step_id'' ctxt)) prof
                     (JList (map JObj (cp_messages chat))) (cp_generation chat)) (\<lambda>answer.
              ret (JObj [(''response_text'', answer)]))))))))))
        | _ \<Rightarrow> throw ''RuntimeError'' ''assistant_reply requires AWF run context''))"

section \<open>The handoff node\<close>

definition handoff_error :: "string \<Rightarrow> string \<Rightarrow> ('w, 'a) act" where
  "handoff_error msg cls = throw_class ''HandoffError'' msg cls"

definition status_filename :: string where
  "status_filename = ''handoff_status.json''"

definition hop_objective :: "string \<Rightarrow> json \<Rightarrow> string \<Rightarrow> string" where
  "hop_objective objective previous_summary field =
     objective @ (if truthy previous_summary then blank_line @ ''Previous hop summary: '' @ py_str previous_summary else [])
       @ blank_line @ ''When done, write a file named '' @ status_filename @ '' in the current directory containing exactly this JSON: {''
       @ CHR 0x22 # field @ CHR 0x22 # '': <true or false>, '' @ CHR 0x22 # ''summary'' @ CHR 0x22 # '': '' @ CHR 0x22 #
         ''<one-line summary of what you did>'' @ [CHR 0x22] @ ''}''"

definition hop_fn :: "'x adapter \<Rightarrow> invocation \<Rightarrow> nat \<Rightarrow> obj \<Rightarrow> ('x, json) op" where
  "hop_fn adapter iv hop payload =
     bindE (outside (adapter iv)) (\<lambda>r.
     if ar_status r \<noteq> AG_COMPLETED then
       handoff_error (''handoff hop '' @ nat_str hop @ '' did not complete: status='' @ agent_status_value (ar_status r)
         @ '' reason='' @ str_repr (ar_reason r)) ''TOOL_ERROR''
     else ret (JObj [(''status'', JStr (agent_status_value (ar_status r)))]))"

text \<open>The status file of a hop, checked against the node's payloadSchema.\<close>

definition hop_status :: "'x node_env \<Rightarrow> obj \<Rightarrow> nat \<Rightarrow> ('x, obj) op" where
  "hop_status N node hop =
     (let G = no_agent N; p = sub_path (no_worktree N) status_filename in
      bindE (outside (is_file (ag_host G) p)) (\<lambda>there.
      if \<not> there then handoff_error (''hop '' @ nat_str hop @ '': agent did not write '' @ status_filename) ''TOOL_ERROR''
      else
        bindE (outside (read_text (ag_files G) p)) (\<lambda>text.
        bindE (liftR (no_json N text)) (\<lambda>status.
        bindE (liftR (item ''payloadSchema'' node)) (\<lambda>schema.
        case no_schema_error N status schema of
          Some msg \<Rightarrow> handoff_error (''hop '' @ nat_str hop @ '': '' @ status_filename @
            '' does not match this node'' @ CHR 0x27 # ''s payloadSchema: '' @ msg) ''INVALID_INPUT''
        | None \<Rightarrow> liftR (get_attr status))))))"

definition do_hop :: "'x node_env \<Rightarrow> string \<Rightarrow> string \<Rightarrow> obj \<Rightarrow> string \<Rightarrow> json \<Rightarrow> nat \<Rightarrow> json \<Rightarrow> ('x, obj) op" where
  "do_hop N run_id step_id node node_id agent hop previous_summary =
     bindE (liftR (as_dict agent)) (\<lambda>config.
     bindE (liftR (item ''adapter'' config)) (\<lambda>v.
     bindE (liftR (adapter_of N v)) (\<lambda>(adapter, _).
     bindE (liftR (text_item ''objective'' config)) (\<lambda>objective.
     let field = py_str (get_or ''terminationField'' (JStr ''handoff_complete'') node);
         iv = AgentInvocation (hop_objective objective previous_summary field) [] (no_worktree N) [];
         hop_step_id = step_id @ '':hop'' @ nat_str hop in
     seqE (create_step hop_step_id run_id (node_id @ '':hop'' @ nat_str hop) 1) (
     seqE (run_step hop_step_id run_id (hop_fn adapter iv hop) []) (
     seqE (outside (commit_all_changes (ag_host (no_agent N)) (no_worktree N)
             (''handoff: '' @ node_id @ '' hop '' @ nat_str hop)))
       (hop_status N node hop)))))))"

text \<open>d.get(key) for a key that may be any value: json.loads gives dicts with text keys only.\<close>

definition get_field :: "json \<Rightarrow> obj \<Rightarrow> json result" where
  "get_field k d = (case k of JStr s \<Rightarrow> Inr (get s d)
     | _ \<Rightarrow> if is_hashable k then Inr JNull else fail ''TypeError'' ''unhashable type'')"

text \<open>The hops that are left; the result is whether the termination field was set, and at which hop.\<close>

primrec hops_from :: "'x node_env \<Rightarrow> string \<Rightarrow> string \<Rightarrow> obj \<Rightarrow> string \<Rightarrow> json \<Rightarrow> json \<Rightarrow> nat \<Rightarrow> nat \<Rightarrow> json \<Rightarrow> ('x, bool \<times> nat) op" where
  "hops_from N run_id step_id node node_id a b 0 used previous_summary = ret (False, used)"
| "hops_from N run_id step_id node node_id a b (Suc left) used previous_summary =
     bindE (do_hop N run_id step_id node node_id (if even used then a else b) (Suc used) previous_summary) (\<lambda>status.
     bindE (liftR (get_field (get_or ''terminationField'' (JStr ''handoff_complete'') node) status)) (\<lambda>finished.
     if truthy finished then ret (True, Suc used)
     else hops_from N run_id step_id node node_id a b left (Suc used) (get_or ''summary'' (JStr []) status)))"

definition wait_for_input :: "string \<Rightarrow> string \<Rightarrow> ('x, unit) op" where
  "wait_for_input run_id reason_code =
     seqE (set_run_status run_id RUN_WAITING_INPUT)
       (log_event run_id None ''WAITING_INPUT'' ''engine'' reason_code (JObj []))"

text \<open>range(n), for n that must be an int.\<close>

definition range_of :: "json \<Rightarrow> nat result" where
  "range_of v = (case v of JInt i \<Rightarrow> Inr (nat i) | JBool b \<Rightarrow> Inr (if b then 1 else 0)
     | _ \<Rightarrow> fail ''TypeError'' ''object cannot be interpreted as an integer'')"

definition handoff_executor :: "'x node_env \<Rightarrow> string \<Rightarrow> string \<Rightarrow> obj \<Rightarrow> ('x, json) op" where
  "handoff_executor N run_id step_id node =
     bindE (liftR (item ''initiatingAgent'' node)) (\<lambda>a.
     bindE (liftR (item ''receivingAgent'' node)) (\<lambda>b.
     bindE (liftR (andThen (item ''maxHops'' node) range_of)) (\<lambda>max_hops.
     bindE (liftR (item ''id'' node)) (\<lambda>node_id.
     bindE (hops_from N run_id step_id node (py_str node_id) a b max_hops 0 (JStr [])) (\<lambda>(completed, used).
     if completed then ret (JObj [(''completed'', JBool True), (''hops_used'', JInt (int used))])
     else
       seqE (wait_for_input run_id ''handoff_max_hops_reached'')
         (ret (JObj [(''completed'', JBool False), (''hops_used'', JInt (int used)), (''waiting_input'', JBool True)])))))))"

section \<open>Child runs: subworkflow, loop and map\<close>

text \<open>run_child: a workflow reference and an input give the child's run_id and its result.\<close>

type_synonym 'x run_child = "json \<Rightarrow> json \<Rightarrow> ('x, string \<times> obj) op"

definition child_error :: "string \<Rightarrow> string \<Rightarrow> ('w, 'a) act" where
  "child_error cls msg = throw_class cls msg ''TOOL_ERROR''"

definition succeeded :: "obj \<Rightarrow> bool" where
  "succeeded result = (get ''status'' result = JStr ''SUCCEEDED'')"

definition subworkflow_fn :: "'x run_child \<Rightarrow> obj \<Rightarrow> obj \<Rightarrow> ('x, json) op" where
  "subworkflow_fn run_child node payload =
     bindE (liftR (item ''workflowRef'' node)) (\<lambda>flow_ref.
     bindE (run_child flow_ref (get_or ''input'' (JObj []) node)) (\<lambda>(child_run_id, result).
     if \<not> succeeded result then
       child_error ''SubworkflowError'' (''child run '' @ child_run_id @ '' ('' @ py_str flow_ref @ '') did not succeed: '' @ py_repr (JObj result))
     else ret (JObj [(''child_run_id'', JStr child_run_id), (''child_status'', get ''status'' result)])))"

definition subworkflow_executor :: "'x run_child \<Rightarrow> string \<Rightarrow> string \<Rightarrow> obj \<Rightarrow> ('x, json) op" where
  "subworkflow_executor run_child run_id step_id node = run_step step_id run_id (subworkflow_fn run_child node) []"

text \<open>
  ORDER BY started_at DESC LIMIT 1: among Steps that started at the same time the code leaves the
  choice to SQLite; here it is the first row.
\<close>

definition latest_step :: "step_row list \<Rightarrow> step_row option" where
  "latest_step ss = (case ss of [] \<Rightarrow> None
     | s # r \<Rightarrow> Some (fold (\<lambda>x best. if s_started best < s_started x then x else best) r s))"

definition last_step_output :: "string \<Rightarrow> ('x, json) op" where
  "last_step_output run_id = gets (\<lambda>w.
     case latest_step (filter (\<lambda>s. s_run s = run_id \<and> s_output s \<noteq> None) (steps w)) of
       None \<Rightarrow> JObj []
     | Some s \<Rightarrow> the (s_output s))"

primrec iterate :: "'x run_child \<Rightarrow> json \<Rightarrow> json \<Rightarrow> nat \<Rightarrow> nat \<Rightarrow> json \<Rightarrow> string list \<Rightarrow> ('x, bool \<times> nat \<times> string list) op" where
  "iterate run_child flow_ref field 0 used current_input ids = ret (False, used, ids)"
| "iterate run_child flow_ref field (Suc left) used current_input ids =
     bindE (run_child flow_ref current_input) (\<lambda>(child_run_id, result).
     if \<not> succeeded result then
       child_error ''LoopNodeError'' (''loop iteration '' @ nat_str (Suc used) @ '' (child run '' @ child_run_id @ '') did not succeed: ''
         @ py_repr (JObj result))
     else
       bindE (last_step_output child_run_id) (\<lambda>last_output.
       bindE (liftR (andThen (get_attr last_output) (get_field field))) (\<lambda>again.
       if \<not> truthy again then ret (True, Suc used, ids @ [child_run_id])
       else iterate run_child flow_ref field left (Suc used) last_output (ids @ [child_run_id]))))"

definition loop_executor :: "'x run_child \<Rightarrow> string \<Rightarrow> string \<Rightarrow> obj \<Rightarrow> ('x, json) op" where
  "loop_executor run_child run_id step_id node =
     bindE (liftR (item ''maxIterations'' node)) (\<lambda>max_iterations.
     bindE (liftR (range_of max_iterations)) (\<lambda>bound.
     bindE (liftR (item ''workflowRef'' node)) (\<lambda>flow_ref.
     bindE (iterate run_child flow_ref (get_or ''conditionField'' (JStr ''continue'') node) bound 0
              (get_or ''input'' (JObj []) node) []) (\<lambda>(completed, used, ids).
     if completed then
       ret (JObj [(''completed'', JBool True), (''iterations_used'', JInt (int used)), (''child_run_ids'', JList (map JStr ids))])
     else
       seqE (wait_for_input run_id ''loop_max_iterations_reached'')
         (ret (JObj [(''completed'', JBool False), (''iterations_used'', max_iterations), (''child_run_ids'', JList (map JStr ids)),
                     (''waiting_input'', JBool True)]))))))"

subsection \<open>map\<close>

text \<open>
  run_map_item: the parent's HEAD, the index, the workflow reference and the item give the child's
  run_id and its result (the item's worktree is found from the run_id).  \<open>take_turns\<close> is the order in
  which the pool's threads get the lock that run_map_item holds all along: with it, items run one
  after the other.  A future's exception is raised once all the items have run.
\<close>

type_synonym 'x run_map_item = "string \<Rightarrow> nat \<Rightarrow> json \<Rightarrow> json \<Rightarrow> ('x, string \<times> obj) op"

type_synonym item_results = "(nat \<times> string \<times> obj) list"

definition run_sequential :: "'x run_map_item \<Rightarrow> string \<Rightarrow> json \<Rightarrow> json list \<Rightarrow> ('x, item_results) op" where
  "run_sequential run_map_item head flow_ref items =
     mapE (\<lambda>(i, x). bindE (run_map_item head i flow_ref x) (\<lambda>(child, result). ret (i, child, result)))
       (List.enumerate 0 items)"

definition first_error :: "(exc + 'a) list \<Rightarrow> exc option" where
  "first_error rs = (case filter (\<lambda>r. case r of Inl e \<Rightarrow> True | Inr a \<Rightarrow> False) rs of Inl e # _ \<Rightarrow> Some e | _ \<Rightarrow> None)"

definition run_pooled :: "(nat \<Rightarrow> 'x \<Rightarrow> nat list res \<times> 'x) \<Rightarrow> 'x run_map_item \<Rightarrow> string \<Rightarrow> json \<Rightarrow> json list \<Rightarrow> ('x, item_results) op" where
  "run_pooled take_turns run_map_item head flow_ref items =
     bindE (outside (take_turns (length items))) (\<lambda>turns.
     bindE (mapE (\<lambda>i. attempt (bindE (run_map_item head i flow_ref (items ! i)) (\<lambda>(child, result). ret (i, child, result))))
              (filter (\<lambda>i. i < length items) turns)) (\<lambda>rs.
     case first_error rs of
       Some e \<Rightarrow> raise e
     | None \<Rightarrow> ret (concat (map (\<lambda>r. case r of Inl e \<Rightarrow> [] | Inr a \<Rightarrow> [a]) rs))))"

definition map_error :: "string \<Rightarrow> string \<Rightarrow> ('w, 'a) act" where
  "map_error msg cls = throw_class ''MapNodeError'' msg cls"

text \<open>results_by_index[index], and the merge of a successful item into the parent's worktree.\<close>

definition merge_item :: "'x node_env \<Rightarrow> item_results \<Rightarrow> nat \<Rightarrow> ('x, string) op" where
  "merge_item N results i = (case map_of results i of
       None \<Rightarrow> throw ''KeyError'' (nat_str i)
     | Some (child, result) \<Rightarrow>
         if \<not> succeeded result then
           map_error (''map item '' @ nat_str i @ '' (child run '' @ child @ '') did not succeed: '' @ py_repr (JObj result)) ''TOOL_ERROR''
         else
           bindE (attempt (outside (merge_branch (ag_host (no_agent N)) (no_worktree N) (branch_name child)
                    (''map: merge item '' @ nat_str i @ '' (child run '' @ child @ '')'')))) (\<lambda>r. case r of
               Inl e \<Rightarrow> if exc_type e = ''WorktreeError''
                 then map_error (''map item '' @ nat_str i @ '': '' @ exc_text e) ''INTEGRITY_FAILURE'' else raise e
             | Inr u \<Rightarrow> ret child))"

text \<open>n > value\<close>

definition exceeds :: "nat \<Rightarrow> json \<Rightarrow> bool result" where
  "exceeds n v = (case v of
       JInt m \<Rightarrow> Inr (int n > m) | JBool b \<Rightarrow> Inr (int n > (if b then 1 else 0)) | JFloat q \<Rightarrow> Inr (of_nat n > q)
     | _ \<Rightarrow> fail ''TypeError'' ''comparison not supported'')"

definition map_fn ::
  "'x node_env \<Rightarrow> (nat \<Rightarrow> 'x \<Rightarrow> nat list res \<times> 'x) \<Rightarrow> 'x run_map_item \<Rightarrow> path \<Rightarrow> obj \<Rightarrow> obj \<Rightarrow> ('x, json) op" where
  "map_fn N take_turns run_map_item repo_root node payload =
     bindE (liftR (andThen (item ''items'' node) as_array)) (\<lambda>items.
     bindE (liftR (item ''maxItems'' node)) (\<lambda>max_items.
     bindE (liftR (item ''id'' node)) (\<lambda>node_id.
     bindE (liftR (exceeds (length items) max_items)) (\<lambda>too_many.
     if too_many then
       map_error (''node '' @ quoted (py_str node_id) @ '': '' @ nat_str (length items) @ '' items exceeds maxItems='' @ py_str max_items) ''INVALID_INPUT''
     else
       bindE (liftR (andThen (item ''maxConcurrency'' node) range_of)) (\<lambda>max_concurrency.
       bindE (liftR (item ''workflowRef'' node)) (\<lambda>flow_ref.
       bindE (outside (current_head (ag_host (no_agent N)) (no_worktree N))) (\<lambda>head.
       bindE (if max_concurrency \<le> 1 then run_sequential run_map_item head flow_ref items
              else run_pooled take_turns run_map_item head flow_ref items) (\<lambda>results.
       finallyE
         (bindE (mapE (merge_item N results) [0..<length items]) (\<lambda>ids.
            ret (JObj [(''item_count'', JInt (int (length items))), (''child_run_ids'', JList (map JStr ids))])))
         (forE (\<lambda>(i, child, result). outside (remove_worktree (ag_host (no_agent N)) repo_root child)) results)))))))))"

definition map_executor ::
  "'x node_env \<Rightarrow> (nat \<Rightarrow> 'x \<Rightarrow> nat list res \<times> 'x) \<Rightarrow> 'x run_map_item \<Rightarrow> path \<Rightarrow> string \<Rightarrow> string \<Rightarrow> obj \<Rightarrow> ('x, json) op" where
  "map_executor N take_turns run_map_item repo_root run_id step_id node =
     run_step step_id run_id (map_fn N take_turns run_map_item repo_root node) []"

section \<open>What the executors keep\<close>

lemma carries_node_resolution [carry]:
  "carries (kept w0) (resolve_node_capability F n a)" "carries (kept w0) (resolve_manifest F n)"
  "carries (kept w0) (resolve_activity_capability F name)"
  unfolding resolve_node_capability_def resolve_manifest_def resolve_activity_capability_def Let_def by (intro carry)+

lemma carries_node_errors [carry]: "carries I (step_failure m k)" "carries I (handoff_error m k)" "carries I (child_error k m)"
  "carries I (map_error m k)"
  unfolding step_failure_def handoff_error_def child_error_def map_error_def by (intro carry)+

lemma carries_agent_executor [carry]: "carries (kept w0) (agent_executor N r s n)"
  unfolding agent_executor_def Let_def by (intro carry)

text \<open>The contract of a local activity.\<close>

definition recording_activities :: "(string \<Rightarrow> 'x registration option) \<Rightarrow> bool" where
  "recording_activities A = (\<forall>name reg f args w0. A name = Some reg \<longrightarrow> reg_fn reg = Some f \<longrightarrow> carries (kept w0) (f args))"

lemma carries_activity_executor:
  assumes "recording_activities (no_activities N)"
  shows "carries (kept w0) (activity_executor N r s n)"
proof -
  have "carries (kept w0) (f args)" if "Option.bind (no_activities N name) reg_fn = Some f" for name f args
    using that assms by (cases "no_activities N name") (auto simp: recording_activities_def)
  then have "carries (kept w0) (activity_fn N r s n name args p)" for name args p
    unfolding activity_fn_def by (intro carry)
  then show ?thesis
    unfolding activity_executor_def by (intro carry)
qed

lemma carries_assistant_reply [carry]: "carries (kept w0) (assistant_reply G gw args)"
  unfolding assistant_reply_def assistant_persona_def session_segments_def Let_def by (intro carry)

lemma carries_wait_for_input [carry]: "carries (kept w0) (wait_for_input r c)"
  unfolding wait_for_input_def by (intro carry)

lemma carries_do_hop [carry]: "carries (kept w0) (do_hop N r s n i a h p)"
  unfolding do_hop_def hop_fn_def hop_status_def Let_def by (intro carry)

lemma carries_hops_from [carry]: "carries (kept w0) (hops_from N r s n i a b left used p)"
  by (induction left arbitrary: used p) (auto intro!: carry simp only: hops_from.simps)

lemma carries_handoff_executor [carry]: "carries (kept w0) (handoff_executor N r s n)"
  unfolding handoff_executor_def by (intro carry)

lemma carries_subworkflow_executor:
  assumes "\<And>f i. carries (kept w0) (child f i)"
  shows "carries (kept w0) (subworkflow_executor child r s n)"
  unfolding subworkflow_executor_def subworkflow_fn_def by (intro carry assms)

lemma carries_loop_executor:
  assumes "\<And>f i. carries (kept w0) (child f i)"
  shows "carries (kept w0) (loop_executor child r s n)"
proof -
  have "carries (kept w0) (iterate child f c left used i ids)" for f c left used i ids
    by (induction left arbitrary: used i ids)
       (auto intro!: carry assms simp only: iterate.simps last_step_output_def)
  then show ?thesis unfolding loop_executor_def by (intro carry)
qed

lemma carries_map_executor:
  assumes "\<And>h i f x. carries (kept w0) (run_item h i f x)"
  shows "carries (kept w0) (map_executor N turns run_item root_dir r s n)"
  unfolding map_executor_def map_fn_def run_sequential_def run_pooled_def merge_item_def by (intro carry assms)

end
