(* ===== verification/Awf_Improvement.thy ===== *)
theory Awf_Improvement
  imports Awf_Agent
begin

text \<open>
  Improvement proposals: the identity of a candidate diff (improvement/diff.py), the texts shown to the
  operator (improvement/summary.py), the evaluation of a candidate (eval/runner.py) and the durable
  operations (improvement/proposals.py).
\<close>

section \<open>The outside world\<close>

text \<open>
  \<open>im_dumps\<close> is json.dumps with sorted keys and no blanks, \<open>im_json\<close> is json.loads, \<open>im_python\<close> is
  sys.executable, \<open>im_partial\<close> the text a TimeoutExpired carries, \<open>im_lapse\<close> the rounded duration
  of a command, \<open>im_run\<close> is subprocess.run with its output captured.
\<close>

record 'x improve_env =
  im_files :: "'x files"
  im_host :: "'x host"
  im_machine :: "'x machine"
  im_dumps :: "json \<Rightarrow> string"
  im_json :: "string \<Rightarrow> json result"
  im_python :: string
  im_partial :: "exc \<Rightarrow> string"
  im_lapse :: "'x \<Rightarrow> rat res \<times> 'x"
  im_run :: "string list \<Rightarrow> path \<Rightarrow> rat \<Rightarrow> 'x \<Rightarrow> (int \<times> string \<times> string) res \<times> 'x"

definition artifacts_dir :: "path \<Rightarrow> path" where
  "artifacts_dir repo_root = sub_path repo_root ''data/artifacts''"

section \<open>Identity of a diff (improvement/diff.py)\<close>

definition diff_git :: "'x host \<Rightarrow> string list \<Rightarrow> path \<Rightarrow> ('x, string) act" where
  "diff_git H args cwd =
     bindE (git H args cwd) (\<lambda>(code, out, err).
     if code \<noteq> 0 then throw ''ImprovementDiffError'' (''git '' @ join '' '' args @ '' failed: '' @ strip err) else ret out)"

definition git_text :: "'x host \<Rightarrow> string list \<Rightarrow> path \<Rightarrow> ('x, string) act" where
  "git_text H args cwd = bindE (diff_git H args cwd) (\<lambda>out. ret (strip out))"

definition current_branch :: "'x host \<Rightarrow> path \<Rightarrow> ('x, string) act" where
  "current_branch H p = git_text H [''branch'', ''--show-current''] p"

definition merge_base :: "'x host \<Rightarrow> path \<Rightarrow> string \<Rightarrow> string \<Rightarrow> ('x, string) act" where
  "merge_base H repo_root target_ref candidate_ref = git_text H [''merge-base'', target_ref, candidate_ref] repo_root"

definition diff_bytes :: "'x host \<Rightarrow> path \<Rightarrow> string \<Rightarrow> string \<Rightarrow> ('x, string) act" where
  "diff_bytes H repo_root base_commit candidate_commit =
     diff_git H [''diff'', ''--binary'', base_commit, candidate_commit] repo_root"

definition diff_digest :: "'x improve_env \<Rightarrow> string \<Rightarrow> string" where
  "diff_digest I payload = ''sha256:'' @ hex_sha256 (im_files I) payload"

text \<open>A changed path with the added and deleted counts that git shows, a dash for a binary file.\<close>

type_synonym changed_path = "string \<times> string \<times> string"

definition tab :: char where
  "tab = CHR 0x09"

definition numstat_line :: "string \<Rightarrow> changed_path list result" where
  "numstat_line line =
     (if strip line = [] then Inr []
      else
        let (added, r) = partition_at tab line; (deleted, p) = partition_at tab r in
        if tab \<notin> set line \<or> tab \<notin> set r then fail ''ValueError'' ''not enough values to unpack'' else Inr [(p, added, deleted)])"

definition changed_paths :: "'x host \<Rightarrow> path \<Rightarrow> string \<Rightarrow> string \<Rightarrow> ('x, changed_path list) act" where
  "changed_paths H repo_root base_commit candidate_commit =
     bindE (git_text H [''diff'', ''--numstat'', base_commit, candidate_commit] repo_root) (\<lambda>out.
       liftR (andThen (mapR numstat_line (splitlines out)) (\<lambda>xs. Inr (concat xs))))"

definition write_patch_artifact :: "'x improve_env \<Rightarrow> string \<Rightarrow> string \<Rightarrow> string \<Rightarrow> ('x, string) op" where
  "write_patch_artifact I run_id step_id payload =
     (let digest = hex_sha256 (im_files I) payload; relative_path = take 2 digest @ ''/'' @ digest @ ''.patch'';
          target = sub_path (artifacts_dir (repo (im_files I))) relative_path in
      seqE (outside (make_dir (im_host I) (path_parent target))) (
      seqE (outside (write_bytes (im_host I) target payload))
        (insert_artifact_row run_id step_id digest relative_path ''text/x-diff'' PATCH)))"

record diff_stat =
  ds_path :: string
  ds_added :: int
  ds_deleted :: int
  ds_binary :: bool
  ds_preview :: "string list"
  ds_truncated :: bool
  ds_total :: nat

text \<open>A file's chunk of a unified diff as it is read: its path, its lines, the counts.\<close>

type_synonym chunk = "string \<times> string list \<times> nat \<times> nat \<times> bool"

definition header_path :: "string \<Rightarrow> string" where
  "header_path line = (case split_on (CHR '' '') line of
       a # b # c # d # _ \<Rightarrow> if starts_with ''b/'' d then drop 2 d else d
     | _ \<Rightarrow> ''unknown'')"

definition read_line :: "string \<Rightarrow> chunk option \<times> chunk list \<Rightarrow> chunk option \<times> chunk list" where
  "read_line line = (\<lambda>(current, chunks).
     if starts_with ''diff --git '' line then
       (Some (header_path line, [], 0, 0, False), chunks @ (case current of None \<Rightarrow> [] | Some c \<Rightarrow> [c]))
     else (case current of
         None \<Rightarrow> (None, chunks)
       | Some (p, ls, a, d, b) \<Rightarrow>
           (Some (if starts_with ''Binary files '' line \<or> starts_with ''GIT binary patch'' line then (p, ls @ [line], a, d, True)
                  else if starts_with ''+'' line \<and> \<not> starts_with ''+++'' line then (p, ls @ [line], Suc a, d, b)
                  else if starts_with ''-'' line \<and> \<not> starts_with ''---'' line then (p, ls @ [line], a, Suc d, b)
                  else (p, ls @ [line], a, d, b)), chunks)))"

definition preview_limit :: nat where
  "preview_limit = 15"

definition preview_of :: "chunk \<Rightarrow> diff_stat" where
  "preview_of = (\<lambda>(p, ls, a, d, b).
     \<lparr>ds_path = p, ds_added = int a, ds_deleted = int d, ds_binary = b, ds_preview = take preview_limit ls,
      ds_truncated = (length ls > preview_limit), ds_total = length ls\<rparr>)"

definition parse_patch_diff_previews :: "string \<Rightarrow> diff_stat list" where
  "parse_patch_diff_previews text =
     (let (current, chunks) = fold read_line (splitlines text) (None, []) in
      map preview_of (chunks @ (case current of None \<Rightarrow> [] | Some c \<Rightarrow> [c])))"

section \<open>Texts for the operator (improvement/summary.py)\<close>

definition improvement_status_str :: "improvement_status \<Rightarrow> string" where
  "improvement_status_str s = (case s of I_DRAFT \<Rightarrow> ''draft'' | READY_FOR_REVIEW \<Rightarrow> ''ready_for_review''
     | I_APPROVED \<Rightarrow> ''approved'' | I_MERGED \<Rightarrow> ''merged'' | I_REJECTED \<Rightarrow> ''rejected'' | ABANDONED \<Rightarrow> ''abandoned'')"

definition total_delta :: "diff_stat list \<Rightarrow> int" where
  "total_delta ds = sum_list (map (\<lambda>d. ds_added d + ds_deleted d) ds)"

definition derive_scope_classification :: "diff_stat list \<Rightarrow> string" where
  "derive_scope_classification ds = (if length ds \<le> 3 \<and> total_delta ds \<le> 100 then ''localized'' else ''broad'')"

definition has_text :: "string option \<Rightarrow> bool" where
  "has_text x = (x \<noteq> None \<and> x \<noteq> Some [])"

definition location_text :: "diff_stat list \<Rightarrow> string" where
  "location_text ds = (case ds of
       [] \<Rightarrow> []
     | [d] \<Rightarrow> '' in '' @ ds_path d
     | _ \<Rightarrow>
         let tops = sort (remdups (map (\<lambda>d. fst (partition_at (CHR ''/'') (ds_path d)))
                      (filter (\<lambda>d. CHR ''/'' \<in> set (ds_path d)) ds))) in
         if tops = [] then [] else '' across '' @ join '', '' (take 2 tops))"

definition generate_human_summary :: "improvement_row \<Rightarrow> diff_stat list \<Rightarrow> bool option \<Rightarrow> string" where
  "generate_human_summary r ds verdict_passed =
     (if i_status r = I_MERGED then
        ''Proposal merged into '' @ (if i_branch r = [] then ''target branch'' else i_branch r) @ ''.''
      else if i_status r = I_REJECTED then ''Proposal was rejected and closed.''
      else if i_status r = ABANDONED then ''Proposal was abandoned.''
      else
        let n = length ds;
            label = nat_str n @ (if n = 1 then '' file'' else '' files'');
            delta = ''(+'' @ int_str (sum_list (map ds_added ds)) @ '' / -'' @ int_str (sum_list (map ds_deleted ds)) @ '' lines)'';
            validation = (if verdict_passed = Some True \<or> has_text (i_verdict r) then '' Validation passed.''
                          else if verdict_passed = Some False then '' Validation failed.'' else []);
            note = (if i_summary r \<noteq> [] \<and> \<not> starts_with ''Improvement from run'' (i_summary r)
                    then '': '' @ i_summary r @ ''.'' else ''.'');
            prompt = (if i_status r = READY_FOR_REVIEW then '' Proposal is ready for review.''
                      else if i_status r = I_DRAFT then '' Proposal is in draft.'' else []) in
        strip (label @ '' changed '' @ delta @ location_text ds @ note @ validation @ prompt))"

definition verified_text :: "string option \<Rightarrow> string" where
  "verified_text v = (case v of Some (c # s) \<Rightarrow> c # s | _ \<Rightarrow> ''verified'')"

definition derive_safety_assessment :: "improvement_row \<Rightarrow> diff_stat list \<Rightarrow> bool option \<Rightarrow> string" where
  "derive_safety_assessment r ds verdict_passed =
     (if i_status r = I_MERGED then
        ''Merged safely via authorized operator approval. Target branch updated, candidate worktree cleaned up.''
      else if i_status r = I_REJECTED then ''Proposal rejected. No modifications were merged into the repository.''
      else
        let n = nat_str (length ds); lines = int_str (total_delta ds) in
        join '' '' (
          [if derive_scope_classification ds = ''localized''
           then ''Localized change ('' @ n @ (if length ds = 1 then '' file, '' else '' files, '') @ lines @ '' lines changed).''
           else ''Broad change ('' @ n @ '' files, '' @ lines @ '' lines changed).'',
           ''Isolated in worktree sandbox without modifying main branch.'',
           if verdict_passed = Some True \<or> has_text (i_verdict r)
           then ''Validation passed all gate checks (verdict: '' @ verified_text (i_verdict r) @ '').''
           else ''Awaiting verification gate pass.'']
          @ (if i_diff r = [] then [] else [''Cryptographically pinned to diff digest '' @ take 18 (i_diff r) @ ''...''])
          @ [''Protected by R2 approval gate requiring human operator authorization before merge.'']))"

record next_step =
  nx_action :: string
  nx_label :: string
  nx_command :: string
  nx_description :: string

definition derive_next_action :: "improvement_row \<Rightarrow> approval_row option \<Rightarrow> next_step" where
  "derive_next_action r ap =
     (let i = i_id r;
          by_status = (case i_status r of
              READY_FOR_REVIEW \<Rightarrow> \<lparr>nx_action = ''request_merge'', nx_label = ''Request merge approval'',
                nx_command = ''awf review request-merge '' @ i, nx_description = ''Request human merge approval for this proposal.''\<rparr>
            | I_DRAFT \<Rightarrow> \<lparr>nx_action = ''mark_ready'', nx_label = ''Mark proposal ready for review'',
                nx_command = ''awf review mark-ready '' @ i @ '' '' @ (case i_verdict r of Some (c # s) \<Rightarrow> c # s | _ \<Rightarrow> ''<verdict-id>''),
                nx_description = ''Verify validation verdict and advance proposal to ready_for_review.''\<rparr>
            | I_MERGED \<Rightarrow> \<lparr>nx_action = ''none'', nx_label = ''Proposal merged'', nx_command = [],
                nx_description = ''This improvement has been merged successfully into the target branch.''\<rparr>
            | I_REJECTED \<Rightarrow> \<lparr>nx_action = ''none'', nx_label = ''Proposal rejected'', nx_command = [],
                nx_description = ''This improvement proposal has been rejected and closed.''\<rparr>
            | _ \<Rightarrow> \<lparr>nx_action = ''review'', nx_label = ''Review proposal'', nx_command = ''awf review show '' @ i,
                nx_description = ''Inspect proposal diff and validation details.''\<rparr>) in
      case ap of
        None \<Rightarrow> by_status
      | Some a \<Rightarrow> (case a_status a of
            Pending \<Rightarrow> \<lparr>nx_action = ''approve_merge'', nx_label = ''Approve merge'', nx_command = ''awf review approve '' @ a_id a,
              nx_description = ''Approve the R2 merge gate for proposal '' @ i @ ''.''\<rparr>
          | Approved \<Rightarrow> \<lparr>nx_action = ''merge'', nx_label = ''Merge improvement'',
              nx_command = ''awf review merge '' @ i @ '' '' @ a_id a,
              nx_description = ''Execute merge into target branch and close candidate worktree.''\<rparr>
          | Rejected \<Rightarrow> \<lparr>nx_action = ''reject'', nx_label = ''Reject proposal'', nx_command = ''awf review reject '' @ i,
              nx_description = ''Merge approval was rejected. Close proposal and discard worktree.''\<rparr>
          | Expired \<Rightarrow> by_status))"

definition next_step_dict :: "next_step \<Rightarrow> json" where
  "next_step_dict n = JObj [(''action'', JStr (nx_action n)), (''label'', JStr (nx_label n)), (''command'', JStr (nx_command n)),
     (''description'', JStr (nx_description n))]"

text \<open>The dash of the code's texts, in UTF-8.\<close>

definition dash :: string where
  "dash = '' '' @ [CHR 0xE2, CHR 0x80, CHR 0x94] @ '' ''"

definition validation_status :: "improvement_row \<Rightarrow> bool option \<Rightarrow> string" where
  "validation_status r verdict_passed =
     (if verdict_passed = Some True \<or> has_text (i_verdict r) then ''PASSED''
      else if verdict_passed = Some False then ''FAILED'' else ''PENDING'')"

definition validation_narrative :: "improvement_row \<Rightarrow> bool option \<Rightarrow> string" where
  "validation_narrative r verdict_passed =
     (if validation_status r verdict_passed = ''PASSED'' then
        ''PASSED'' @ dash @ ''All deterministic verification checks and automated tests passed (verdict: '' @ verified_text (i_verdict r) @ '').''
      else if validation_status r verdict_passed = ''FAILED'' then
        ''FAILED'' @ dash @ ''Validation did not pass all checks (verdict: '' @ py_str (jopt (i_verdict r)) @ '').''
      else ''PENDING'' @ dash @ ''Awaiting verification verdict.'')"

definition proposal_review :: "improvement_row \<Rightarrow> approval_row option \<Rightarrow> diff_stat list \<Rightarrow> bool option \<Rightarrow> json" where
  "proposal_review r ap ds verdict_passed = JObj
     [(''what_changed'', JStr (generate_human_summary r ds verdict_passed)),
      (''where_changed'', JList (map JStr (filter (\<lambda>p. p \<noteq> []) (map ds_path ds)))),
      (''scope_classification'', JStr (derive_scope_classification ds)),
      (''validation_passed'', JBool (validation_status r verdict_passed = ''PASSED'')),
      (''validation_status'', JStr (validation_status r verdict_passed)),
      (''validation_narrative'', JStr (validation_narrative r verdict_passed)),
      (''verdict_artifact_id'', jopt (i_verdict r)),
      (''why_safe'', JStr (derive_safety_assessment r ds verdict_passed)),
      (''next_action'', next_step_dict (derive_next_action r ap))]"

section \<open>Evaluation of a candidate (eval/runner.py)\<close>

definition max_snippet :: nat where
  "max_snippet = 4000"

definition snippet :: "string \<Rightarrow> string" where
  "snippet s = drop (length s - max_snippet) s"

text \<open>One command: its exit code and the ends of its outputs, a timeout and any other exception as -1.\<close>

definition eval_command :: "'x improve_env \<Rightarrow> path \<Rightarrow> rat \<Rightarrow> string list \<Rightarrow> ('x, int \<times> string \<times> string) op" where
  "eval_command I wt timeout cmd =
     bindE (attempt (outside (im_run I cmd wt timeout))) (\<lambda>r. case r of
         Inr (code, out, err) \<Rightarrow> ret (code, snippet out, snippet err)
       | Inl e \<Rightarrow>
           if exc_type e = ''TimeoutExpired''
           then ret (- 1, snippet (im_partial I e), ''Command timed out after '' @ frac_str timeout @ '' seconds'')
           else ret (- 1, [], exc_text e))"

definition eval_entry :: "'x improve_env \<Rightarrow> path \<Rightarrow> rat \<Rightarrow> string list \<Rightarrow> ('x, bool \<times> json) op" where
  "eval_entry I wt timeout cmd =
     bindE (eval_command I wt timeout cmd) (\<lambda>(code, out, err).
     bindE (outside (im_lapse I)) (\<lambda>duration.
       ret (code = 0, JObj [(''command'', JList (map JStr cmd)), (''exit_code'', JInt code), (''duration_seconds'', JFloat duration),
                            (''stdout_snippet'', JStr out), (''stderr_snippet'', JStr err)])))"

definition default_commands :: "'x improve_env \<Rightarrow> string list list" where
  "default_commands I = [[im_python I, ''-m'', ''pytest'', ''backend/tests/unit'', ''-q'']]"

record evaluation =
  ev_artifact :: string
  ev_passed :: bool
  ev_payload :: json

definition run_evaluation ::
  "'x improve_env \<Rightarrow> string \<Rightarrow> string \<Rightarrow> path \<Rightarrow> string option \<Rightarrow> string list list option \<Rightarrow> rat \<Rightarrow> ('x, evaluation) op" where
  "run_evaluation I run_id step_id wt candidate_commit commands timeout =
     bindE (outside (is_dir (im_host I) wt)) (\<lambda>there.
     if \<not> there then throw ''EvalRunnerError'' (''worktree directory does not exist: '' @ as_posix wt)
     else
       bindE (case candidate_commit of Some (c # s) \<Rightarrow> ret (c # s) | _ \<Rightarrow> outside (current_head (im_host I) wt)) (\<lambda>commit.
       bindE (mapE (eval_entry I wt timeout) (case commands of Some cs \<Rightarrow> cs | None \<Rightarrow> default_commands I)) (\<lambda>rs.
       bindE utc_now_rfc3339 (\<lambda>now.
       let passed = list_all fst rs;
           payload = JObj [(''run_id'', JStr run_id), (''step_id'', JStr step_id), (''candidate_commit'', JStr commit),
             (''passed'', JBool passed), (''evaluated_at'', JStr now), (''commands'', JList (map snd rs))] in
       bindE (write_artifact (sha256 (im_machine I)) (store_file (im_machine I)) run_id step_id
                (dumps (im_machine I) (sort_json payload)) ''application/json'' TEST_RESULT) (\<lambda>i.
         ret \<lparr>ev_artifact = i, ev_passed = passed, ev_payload = payload\<rparr>)))))"

section \<open>Statements on the two tables\<close>

definition insert_improvement :: "improvement_row \<Rightarrow> ('x, unit) op" where
  "insert_improvement r = (\<lambda>w.
     if i_id r \<in> i_id ` set (improvements w) then integrity pk_failed w
     else if i_run r \<notin> run_ids w \<or> i_patch r \<notin> f_id ` set (artifacts w) then integrity fk_failed w
     else (Val (), w\<lparr>improvements := improvements w @ [r]\<rparr>))"

text \<open>UPDATE ... WHERE improvement_id = i, where the patch must be an artifact.\<close>

definition update_improvement :: "string \<Rightarrow> (improvement_row \<Rightarrow> improvement_row) \<Rightarrow> ('x, unit) op" where
  "update_improvement i f = (\<lambda>w.
     if list_all (\<lambda>r. i_id r = i \<longrightarrow> i_patch (f r) \<in> f_id ` set (artifacts w)) (improvements w)
     then (Val (), w\<lparr>improvements := map (\<lambda>r. if i_id r = i then f r else r) (improvements w)\<rparr>)
     else integrity fk_failed w)"

definition insert_improvement_event :: "improvement_event_row \<Rightarrow> ('x, unit) op" where
  "insert_improvement_event e = (\<lambda>w.
     if ie_id e \<in> ie_id ` set (improvement_events w) then integrity pk_failed w
     else if ie_improvement e \<notin> i_id ` set (improvements w) then integrity fk_failed w
     else (Val (), w\<lparr>improvement_events := improvement_events w @ [e]\<rparr>))"

section \<open>Operations (improvement/proposals.py)\<close>

definition improvement_error :: "string \<Rightarrow> ('w, 'a) act" where
  "improvement_error msg = throw ''ImprovementProposalError'' msg"

definition improvement_event :: "string \<Rightarrow> string \<Rightarrow> json \<Rightarrow> ('x, unit) op" where
  "improvement_event i ty payload =
     bindE uuid7 (\<lambda>event_id.
     bindE utc_now_rfc3339 (\<lambda>now.
       insert_improvement_event \<lparr>ie_id = event_id, ie_improvement = i, ie_type = ty, ie_time = now, ie_actor = ''awf'',
         ie_payload = sort_json payload\<rparr>))"

definition proposal_row_of :: "string \<Rightarrow> ('x, improvement_row) op" where
  "proposal_row_of i =
     bindE (gets (\<lambda>w. find (\<lambda>r. i_id r = i) (improvements w))) (\<lambda>row. case row of
         None \<Rightarrow> improvement_error (''no such improvement proposal: '' @ i)
       | Some r \<Rightarrow> ret r)"

text \<open>ORDER BY started_at DESC, step_id DESC LIMIT 1\<close>

definition latest_step_id :: "string \<Rightarrow> ('x, string) op" where
  "latest_step_id run_id =
     bindE (gets (\<lambda>w. sort_key (\<lambda>s. s_started s) (sort_key s_id (filter (\<lambda>s. s_run s = run_id) (steps w))))) (\<lambda>ss.
     if ss = [] then improvement_error (''run '' @ run_id @ '' has no steps to attach improvement artifacts'')
     else ret (s_id (last ss)))"

definition merge_step_id :: "string \<Rightarrow> string \<Rightarrow> string" where
  "merge_step_id run_id i = run_id @ '':improvement-merge:'' @ i"

definition merge_action_payload :: "improvement_row \<Rightarrow> json" where
  "merge_action_payload r = JObj
     [(''kind'', JStr ''improvement_merge''), (''improvement_id'', JStr (i_id r)), (''run_id'', JStr (i_run r)),
      (''target_branch'', JStr (i_branch r)), (''base_commit'', JStr (i_base r)), (''candidate_branch'', JStr (i_cbranch r)),
      (''candidate_commit'', JStr (i_ccommit r)), (''diff_digest'', JStr (i_diff r)), (''verdict_artifact_id'', jopt (i_verdict r)),
      (''validation_artifact_ids'', JList (map JStr (i_validation r)))]"

definition merge_action_digest :: "'x improve_env \<Rightarrow> improvement_row \<Rightarrow> string" where
  "merge_action_digest I r = ''sha256:'' @ hex_sha256 (im_files I) (im_dumps I (sort_json (merge_action_payload r)))"

text \<open>A row shown to the operator: the columns, the events, the last approval and the texts.\<close>

definition approval_dict :: "approval_row \<Rightarrow> json" where
  "approval_dict a = JObj
     [(''approval_id'', JStr (a_id a)), (''run_id'', JStr (a_run a)), (''step_id'', JStr (a_step a)),
      (''action_digest'', JStr (a_digest a)), (''status'', JStr (approval_status_str (a_status a))), (''reason'', jopt (a_reason a)),
      (''requested_at'', JStr (a_requested a)), (''decided_at'', jopt (a_decided a)), (''risk_class'', jopt (a_risk a))]"

definition improvement_event_dict :: "'x improve_env \<Rightarrow> improvement_event_row \<Rightarrow> json" where
  "improvement_event_dict I e = JObj
     [(''event_id'', JStr (ie_id e)), (''improvement_id'', JStr (ie_improvement e)), (''event_type'', JStr (ie_type e)),
      (''occurred_at'', JStr (ie_time e)), (''actor'', JStr (ie_actor e)), (''payload_json'', JStr (dumps (im_machine I) (ie_payload e)))]"

definition path_dict :: "changed_path \<Rightarrow> json" where
  "path_dict = (\<lambda>(p, added, deleted). JObj [(''path'', JStr p), (''added'', JStr added), (''deleted'', JStr deleted)])"

definition count_text :: "bool \<Rightarrow> string \<Rightarrow> int" where
  "count_text binary s = (if \<not> binary \<and> s \<noteq> [] \<and> list_all is_digit s then (case parse_int s of Some n \<Rightarrow> n | None \<Rightarrow> 0) else 0)"

definition fallback_stat :: "changed_path \<Rightarrow> diff_stat" where
  "fallback_stat = (\<lambda>(p, added, deleted).
     let binary = (added = ''-'' \<or> deleted = ''-'') in
     \<lparr>ds_path = p, ds_added = count_text binary added, ds_deleted = count_text binary deleted, ds_binary = binary,
      ds_preview = [], ds_truncated = False, ds_total = 0\<rparr>)"

definition stat_dict :: "diff_stat \<Rightarrow> json" where
  "stat_dict d = JObj [(''path'', JStr (ds_path d)), (''additions'', JInt (ds_added d)), (''deletions'', JInt (ds_deleted d)),
     (''is_binary'', JBool (ds_binary d)), (''preview_lines'', JList (map JStr (ds_preview d))), (''truncated'', JBool (ds_truncated d)),
     (''total_lines'', JInt (int (ds_total d)))]"

text \<open>The statistics from the stored patch, where it can be read, else from the recorded paths.\<close>

definition patch_stats :: "'x improve_env \<Rightarrow> improvement_row \<Rightarrow> ('x, diff_stat list) op" where
  "patch_stats I r =
     (if i_patch r = [] then ret []
      else
        bindE (gets (\<lambda>w. find (\<lambda>f. f_id f = i_patch r) (artifacts w))) (\<lambda>art. case art of
            None \<Rightarrow> ret []
          | Some f \<Rightarrow>
              let p = sub_path (artifacts_dir (repo (im_files I))) (f_path f) in
              bindE (outside (is_file (im_host I) p)) (\<lambda>there.
              if \<not> there then ret []
              else catchE (bindE (outside (read_text (im_files I) p)) (\<lambda>text. ret (parse_patch_diff_previews text))) (\<lambda>_. ret []))))"

text \<open>ORDER BY requested_at DESC LIMIT 1: the first of the latest.\<close>

definition latest_approval :: "approval_row list \<Rightarrow> approval_row option" where
  "latest_approval xs = (case xs of [] \<Rightarrow> None
     | a # r \<Rightarrow> Some (fold (\<lambda>x best. if a_requested best < a_requested x then x else best) r a))"

definition row_dict :: "improvement_row \<Rightarrow> obj" where
  "row_dict r =
     [(''improvement_id'', JStr (i_id r)), (''run_id'', JStr (i_run r)), (''target_repo'', JStr (i_repo r)),
      (''target_branch'', JStr (i_branch r)), (''base_commit'', JStr (i_base r)), (''candidate_branch'', JStr (i_cbranch r)),
      (''candidate_commit'', JStr (i_ccommit r)), (''diff_digest'', JStr (i_diff r)), (''patch_artifact_id'', JStr (i_patch r)),
      (''status'', JStr (improvement_status_str (i_status r))), (''summary'', JStr (i_summary r)),
      (''verdict_artifact_id'', jopt (i_verdict r)), (''merge_commit'', jopt (i_merge r)), (''created_at'', JStr (i_created r)),
      (''updated_at'', JStr (i_updated r)), (''decided_at'', jopt (i_decided r)), (''closed_at'', jopt (i_closed r)),
      (''changed_paths'', JList (map path_dict (i_paths r))), (''validation_artifact_ids'', JList (map JStr (i_validation r)))]"

definition serialize :: "'x improve_env \<Rightarrow> improvement_row \<Rightarrow> ('x, obj) op" where
  "serialize I r =
     bindE (gets (\<lambda>w. sort_key ie_time (sort_key ie_id (filter (\<lambda>e. ie_improvement e = i_id r) (improvement_events w))))) (\<lambda>es.
     bindE (gets (\<lambda>w. latest_approval (filter (\<lambda>a. a_step a = merge_step_id (i_run r) (i_id r)) (approvals w)))) (\<lambda>ap.
     bindE (patch_stats I r) (\<lambda>found.
     let ds = (if found = [] then map fallback_stat (i_paths r) else found) in
     ret (row_dict r @
       [(''events'', JList (map (improvement_event_dict I) es)),
        (''approval'', (case ap of None \<Rightarrow> JNull | Some a \<Rightarrow> approval_dict a)),
        (''merge_action_digest'', JStr (merge_action_digest I r)), (''diff_stats'', JList (map stat_dict ds)),
        (''scope_classification'', JStr (derive_scope_classification ds)),
        (''human_summary'', JStr (generate_human_summary r ds None)),
        (''safety_assessment'', JStr (derive_safety_assessment r ds None)),
        (''proposal_review'', proposal_review r ap ds None),
        (''next_action'', next_step_dict (derive_next_action r ap))]))))"

definition get_proposal :: "'x improve_env \<Rightarrow> string \<Rightarrow> ('x, obj) op" where
  "get_proposal I i = bindE (proposal_row_of i) (serialize I)"

definition list_proposals :: "'x improve_env \<Rightarrow> string option \<Rightarrow> string option \<Rightarrow> ('x, obj list) op" where
  "list_proposals I status run_id =
     bindE (gets (\<lambda>w. sort_key i_created (sort_key i_id (filter (\<lambda>r.
       (status = None \<or> status = Some (improvement_status_str (i_status r))) \<and> (run_id = None \<or> run_id = Some (i_run r)))
       (improvements w))))) (mapE (serialize I))"

subsection \<open>Preparing a proposal\<close>

text \<open>What prepare finds out about the candidate before it touches the database.\<close>

record candidate_diff =
  cd_target :: string
  cd_branch :: string
  cd_commit :: string
  cd_base :: string
  cd_patch :: string
  cd_paths :: "changed_path list"

definition inspect_candidate :: "'x improve_env \<Rightarrow> string \<Rightarrow> path \<Rightarrow> ('x, candidate_diff) op" where
  "inspect_candidate I run_id wt =
     (let H = im_host I; repo_root = repo (im_files I) in
      bindE (outside (current_branch H repo_root)) (\<lambda>target_branch.
      if target_branch = [] then improvement_error ''target repository is in detached HEAD state''
      else
        bindE (outside (current_branch H wt)) (\<lambda>b.
        bindE (outside (current_head H wt)) (\<lambda>candidate_commit.
        bindE (outside (merge_base H repo_root target_branch candidate_commit)) (\<lambda>base_commit.
        bindE (outside (diff_bytes H repo_root base_commit candidate_commit)) (\<lambda>patch.
        if patch = [] then improvement_error ''candidate diff is empty''
        else
          bindE (outside (changed_paths H repo_root base_commit candidate_commit)) (\<lambda>paths.
          ret \<lparr>cd_target = target_branch, cd_branch = (if b = [] then branch_name run_id else b), cd_commit = candidate_commit,
               cd_base = base_commit, cd_patch = patch, cd_paths = paths\<rparr>)))))))"

definition redrafted :: "candidate_diff \<Rightarrow> string \<Rightarrow> string \<Rightarrow> string \<Rightarrow> string \<Rightarrow> improvement_row \<Rightarrow> improvement_row" where
  "redrafted d digest patch_id summary now r =
     r\<lparr>i_branch := cd_target d, i_base := cd_base d, i_cbranch := cd_branch d, i_ccommit := cd_commit d, i_diff := digest,
       i_patch := patch_id, i_status := I_DRAFT, i_summary := summary, i_paths := cd_paths d, i_verdict := None,
       i_validation := [], i_updated := now\<rparr>"

definition new_proposal :: "string \<Rightarrow> string \<Rightarrow> candidate_diff \<Rightarrow> string \<Rightarrow> string \<Rightarrow> string \<Rightarrow> string \<Rightarrow> improvement_row" where
  "new_proposal i run_id d digest patch_id summary now =
     \<lparr>i_id = i, i_run = run_id, i_repo = ''.'', i_branch = cd_target d, i_base = cd_base d, i_cbranch = cd_branch d,
      i_ccommit = cd_commit d, i_diff = digest, i_patch = patch_id, i_status = I_DRAFT, i_summary = summary,
      i_paths = cd_paths d, i_verdict = None, i_validation = [], i_merge = None, i_created = now, i_updated = now,
      i_decided = None, i_closed = None\<rparr>"

definition patch_event :: "string \<Rightarrow> string \<Rightarrow> json" where
  "patch_event digest patch_id = JObj [(''diff_digest'', JStr digest), (''patch_artifact_id'', JStr patch_id)]"

definition store_candidate :: "'x improve_env \<Rightarrow> string \<Rightarrow> candidate_diff \<Rightarrow> string \<Rightarrow> ('x, string) op" where
  "store_candidate I run_id d summary =
     (let digest = diff_digest I (cd_patch d) in
      bindE (latest_step_id run_id) (\<lambda>step_id.
      bindE (write_patch_artifact I run_id step_id (cd_patch d)) (\<lambda>patch_id.
      bindE utc_now_rfc3339 (\<lambda>now.
      bindE (gets (\<lambda>w. find (\<lambda>r. i_run r = run_id) (improvements w))) (\<lambda>existing. case existing of
          None \<Rightarrow>
            bindE uuid7 (\<lambda>i.
            seqE (insert_improvement (new_proposal i run_id d digest patch_id summary now)) (
            seqE (improvement_event i ''created'' (patch_event digest patch_id)) (ret i)))
        | Some r \<Rightarrow>
            seqE (update_improvement (i_id r) (redrafted d digest patch_id summary now)) (
            seqE (improvement_event (i_id r) ''updated'' (patch_event digest patch_id)) (ret (i_id r))))))))"

definition run_status_str :: "run_status \<Rightarrow> string" where
  "run_status_str s = (case s of CREATED \<Rightarrow> ''CREATED'' | VALIDATING \<Rightarrow> ''VALIDATING'' | QUEUED \<Rightarrow> ''QUEUED'' | RUN_RUNNING \<Rightarrow> ''RUNNING''
     | RUN_WAITING_INPUT \<Rightarrow> ''WAITING_INPUT'' | RUN_WAITING_APPROVAL \<Rightarrow> ''WAITING_APPROVAL'' | RUN_SUCCEEDED \<Rightarrow> ''SUCCEEDED''
     | RUN_FAILED \<Rightarrow> ''FAILED'' | RUN_CANCELED \<Rightarrow> ''CANCELED'' | CANCELING \<Rightarrow> ''CANCELING'')"

definition prepare :: "'x improve_env \<Rightarrow> string \<Rightarrow> string option \<Rightarrow> ('x, obj) op" where
  "prepare I run_id summary =
     bindE (gets (\<lambda>w. find (\<lambda>r. r_id r = run_id) (runs w))) (\<lambda>run. case run of
         None \<Rightarrow> improvement_error (''no such run: '' @ run_id)
       | Some r \<Rightarrow>
           if r_status r \<noteq> RUN_SUCCEEDED
           then improvement_error (''run '' @ run_id @ '' is not SUCCEEDED (status='' @ run_status_str (r_status r) @ '')'')
           else
             let wt = worktree_path (repo (im_files I)) run_id in
             bindE (outside (is_dir (im_host I) wt)) (\<lambda>there.
             if \<not> there then improvement_error (''run '' @ run_id @ '' worktree is not available at '' @ as_posix wt)
             else
               bindE (inspect_candidate I run_id wt) (\<lambda>d.
               bindE (store_candidate I run_id d (if has_text summary then the summary else ''Improvement from run '' @ run_id))
                 (get_proposal I))))"

subsection \<open>Evidence\<close>

definition verdict_passed :: "'x improve_env \<Rightarrow> string \<Rightarrow> string \<Rightarrow> ('x, bool) op" where
  "verdict_passed I run_id artifact_id =
     bindE (gets (\<lambda>w. find (\<lambda>f. f_id f = artifact_id) (artifacts w))) (\<lambda>art. case art of
         None \<Rightarrow> improvement_error (''no such verdict artifact: '' @ artifact_id)
       | Some f \<Rightarrow>
           if f_run f \<noteq> run_id \<or> f_type f \<noteq> VERDICT
           then improvement_error (''artifact '' @ artifact_id @ '' is not this run'' @ CHR 0x27 # ''s verdict'')
           else
             bindE (outside (read_text (im_files I) (sub_path (artifacts_dir (repo (im_files I))) (f_path f)))) (\<lambda>payload.
             case im_json I payload of
               Inl e \<Rightarrow> improvement_error (''verdict artifact '' @ artifact_id @ '' is not JSON'')
             | Inr verdict \<Rightarrow> liftR (andThen (get_attr verdict) (\<lambda>d. Inr (truthy (get ''passed'' d))))))"

definition speaks_for :: "string \<Rightarrow> json \<Rightarrow> bool result" where
  "speaks_for candidate_commit v =
     andThen (get_attr v) (\<lambda>d. Inr (get ''candidate_commit'' d = JStr candidate_commit \<and> get ''passed'' d = JBool True))"

primrec any_result_passed :: "'x improve_env \<Rightarrow> string \<Rightarrow> artifact_row list \<Rightarrow> ('x, bool) op" where
  "any_result_passed I candidate_commit [] = ret False"
| "any_result_passed I candidate_commit (f # fs) =
     (let p = sub_path (artifacts_dir (repo (im_files I))) (f_path f) in
      bindE (outside (is_file (im_host I) p)) (\<lambda>there.
      if \<not> there then any_result_passed I candidate_commit fs
      else
        bindE (outside (read_text (im_files I) p)) (\<lambda>text.
        case im_json I text of
          Inl e \<Rightarrow> any_result_passed I candidate_commit fs
        | Inr v \<Rightarrow>
            bindE (liftR (speaks_for candidate_commit v)) (\<lambda>b.
            if b then ret True else any_result_passed I candidate_commit fs))))"

definition test_result_passed :: "'x improve_env \<Rightarrow> string \<Rightarrow> string \<Rightarrow> ('x, bool) op" where
  "test_result_passed I run_id candidate_commit =
     bindE (gets (\<lambda>w. rev (sort_key f_created (filter (\<lambda>f. f_run f = run_id \<and> f_type f = TEST_RESULT) (artifacts w)))))
       (any_result_passed I candidate_commit)"

definition verify_proposal :: "'x improve_env \<Rightarrow> string \<Rightarrow> string list list option \<Rightarrow> rat \<Rightarrow> ('x, obj) op" where
  "verify_proposal I i commands timeout =
     bindE (proposal_row_of i) (\<lambda>r.
     let wt = worktree_path (repo (im_files I)) (i_run r) in
     bindE (outside (is_dir (im_host I) wt)) (\<lambda>there.
     if \<not> there then improvement_error (''candidate worktree is not available at '' @ as_posix wt)
     else
       bindE (latest_step_id (i_run r)) (\<lambda>step_id.
       bindE (run_evaluation I (i_run r) step_id wt (Some (i_ccommit r)) commands timeout) (\<lambda>ev.
       seqE (improvement_event i ''evaluation_completed'' (JObj [(''artifact_id'', JStr (ev_artifact ev)), (''passed'', JBool (ev_passed ev))]))
         (ret [(''improvement_id'', JStr i), (''artifact_id'', JStr (ev_artifact ev)), (''passed'', JBool (ev_passed ev)),
               (''result'', ev_payload ev)])))))"

subsection \<open>Review, merge and rejection\<close>

definition record_ready :: "string \<Rightarrow> string \<Rightarrow> string list \<Rightarrow> ('x, unit) op" where
  "record_ready i verdict_id validation_ids =
     bindE utc_now_rfc3339 (\<lambda>now.
     seqE (update_improvement i (\<lambda>x. x\<lparr>i_status := READY_FOR_REVIEW, i_verdict := Some verdict_id,
             i_validation := validation_ids, i_updated := now\<rparr>))
       (improvement_event i ''ready_for_review'' (JObj [(''verdict_artifact_id'', JStr verdict_id),
          (''validation_artifact_ids'', JList (map JStr validation_ids))])))"

definition mark_ready :: "'x improve_env \<Rightarrow> string \<Rightarrow> string \<Rightarrow> string list \<Rightarrow> ('x, obj) op" where
  "mark_ready I i verdict_id validation_ids =
     bindE (proposal_row_of i) (\<lambda>r.
     if i_status r \<notin> {I_DRAFT, READY_FOR_REVIEW}
     then improvement_error (''proposal '' @ i @ '' cannot be marked ready from '' @ improvement_status_str (i_status r))
     else
       bindE (verdict_passed I (i_run r) verdict_id) (\<lambda>passed.
       if \<not> passed then improvement_error (''verdict artifact '' @ verdict_id @ '' did not pass'')
       else seqE (record_ready i verdict_id validation_ids) (get_proposal I i)))"

definition recheck_identities :: "'x improve_env \<Rightarrow> improvement_row \<Rightarrow> ('x, unit) op" where
  "recheck_identities I r =
     (let H = im_host I; repo_root = repo (im_files I); wt = worktree_path repo_root (i_run r) in
      bindE (outside (is_dir H wt)) (\<lambda>there.
      if \<not> there then improvement_error (''candidate worktree is not available at '' @ as_posix wt)
      else
        bindE (outside (git_text H [''rev-parse'', i_branch r] repo_root)) (\<lambda>target_head.
        if target_head \<noteq> i_base r then improvement_error ''target branch moved since proposal review''
        else
          bindE (outside (current_head H wt)) (\<lambda>commit.
          if commit \<noteq> i_ccommit r then improvement_error ''candidate commit changed since proposal review''
          else
            bindE (outside (diff_bytes H repo_root (i_base r) (i_ccommit r))) (\<lambda>patch.
            if diff_digest I patch \<noteq> i_diff r then improvement_error ''candidate diff digest changed since proposal review''
            else
              bindE (outside (git_text H [''status'', ''--porcelain''] repo_root)) (\<lambda>dirty.
              if dirty \<noteq> [] then improvement_error ''target repository has uncommitted changes''
              else ret ()))))))"

definition merge_node_id :: string where
  "merge_node_id = ''improvement.merge''"

definition create_merge_step :: "string \<Rightarrow> improvement_row \<Rightarrow> ('x, unit) op" where
  "create_merge_step step_id r =
     bindE utc_now_rfc3339 (\<lambda>now.
       insert_step \<lparr>s_id = step_id, s_run = i_run r, s_node = merge_node_id, s_attempt = 1, s_status = PENDING,
         s_input = merge_action_payload r, s_output = None, s_fclass = None, s_started = now, s_ended = None\<rparr>)"

definition merge_reply :: "'x improve_env \<Rightarrow> string \<Rightarrow> approval_row \<Rightarrow> ('x, obj) op" where
  "merge_reply I i a = bindE (get_proposal I i) (\<lambda>p. ret [(''approval'', approval_dict a), (''proposal'', JObj p)])"

definition open_merge_approval :: "'x improve_env \<Rightarrow> improvement_row \<Rightarrow> string \<Rightarrow> ('x, approval_row) op" where
  "open_merge_approval I r step_id =
     (let digest = merge_action_digest I r in
      bindE uuid7 (\<lambda>approval_id.
      bindE utc_now_rfc3339 (\<lambda>now.
      seqE (insert_approval (pending_approval approval_id (i_run r) step_id digest now (Some ''R2''))) (
      seqE (update_step step_id (\<lambda>s. s\<lparr>s_status := WAITING_APPROVAL, s_started := now\<rparr>)) (
      seqE (log_event (i_run r) (Some step_id) ''WAITING_APPROVAL'' ''awf'' ''improvement_merge_approval_requested''
              (JObj [(''approval_id'', JStr approval_id), (''improvement_id'', JStr (i_id r)), (''merge_action_digest'', JStr digest)])) (
      seqE (improvement_event (i_id r) ''merge_requested''
              (JObj [(''approval_id'', JStr approval_id), (''merge_action_digest'', JStr digest)]))
        (bindE (find_approval (\<lambda>a. a_id a = approval_id)) (demand none_type))))))))"

definition request_merge :: "'x improve_env \<Rightarrow> string \<Rightarrow> ('x, obj) op" where
  "request_merge I i =
     bindE (proposal_row_of i) (\<lambda>r.
     if i_status r \<noteq> READY_FOR_REVIEW
     then improvement_error (''proposal '' @ i @ '' is not ready_for_review (status='' @ improvement_status_str (i_status r) @ '')'')
     else
       seqE (recheck_identities I r) (
       bindE (test_result_passed I (i_run r) (i_ccommit r)) (\<lambda>tested.
       if \<not> tested then improvement_error ''cannot request merge without a passing test-result artifact''
       else
         let step_id = merge_step_id (i_run r) i in
         seqE (create_merge_step step_id r) (
         bindE (find_approval (\<lambda>a. a_step a = step_id)) (\<lambda>existing. case existing of
             Some a \<Rightarrow>
               if a_digest a \<noteq> merge_action_digest I r
               then improvement_error ''existing merge approval digest does not match current proposal''
               else merge_reply I i a
           | None \<Rightarrow> bindE (open_merge_approval I r step_id) (merge_reply I i))))))"

text \<open>What merge demands before it touches the repository.\<close>

definition merge_checks :: "'x improve_env \<Rightarrow> string \<Rightarrow> string \<Rightarrow> ('x, improvement_row) op" where
  "merge_checks I i approval_id =
     bindE (proposal_row_of i) (\<lambda>r.
     bindE (find_approval (\<lambda>a. a_id a = approval_id)) (\<lambda>ap. case ap of
         None \<Rightarrow> improvement_error (''no such approval: '' @ approval_id)
       | Some a \<Rightarrow>
           if a_step a \<noteq> merge_step_id (i_run r) i
             then improvement_error (''approval '' @ approval_id @ '' is not for improvement '' @ i)
           else if a_status a \<noteq> Approved
             then improvement_error (''approval '' @ approval_id @ '' is not approved (status='' @ approval_status_str (a_status a) @ '')'')
           else if a_digest a \<noteq> merge_action_digest I r
             then improvement_error ''approved merge action digest does not match current proposal''
           else
             seqE (recheck_identities I r) (
             bindE (test_result_passed I (i_run r) (i_ccommit r)) (\<lambda>tested.
             if \<not> tested then improvement_error ''cannot merge proposal without a passing test-result artifact''
             else ret r))))"

definition record_merge :: "improvement_row \<Rightarrow> string \<Rightarrow> string \<Rightarrow> ('x, unit) op" where
  "record_merge r approval_id merge_commit =
     bindE utc_now_rfc3339 (\<lambda>now.
     seqE (update_improvement (i_id r) (\<lambda>x. x\<lparr>i_status := I_MERGED, i_merge := Some merge_commit, i_decided := Some now,
             i_closed := Some now, i_updated := now\<rparr>)) (
     seqE (update_step (merge_step_id (i_run r) (i_id r)) (\<lambda>s. s\<lparr>s_status := SUCCEEDED,
             s_output := Some (JObj [(''merged'', JBool True), (''merge_commit'', JStr merge_commit), (''improvement_id'', JStr (i_id r))]),
             s_ended := Some now\<rparr>))
       (improvement_event (i_id r) ''merged'' (JObj [(''approval_id'', JStr approval_id), (''merge_commit'', JStr merge_commit)]))))"

text \<open>merge, over the git merge it performs.\<close>

definition merge_with :: "'x improve_env \<Rightarrow> (improvement_row \<Rightarrow> ('x, unit) op) \<Rightarrow> string \<Rightarrow> string \<Rightarrow> ('x, obj) op" where
  "merge_with I do_merge i approval_id =
     (let H = im_host I; repo_root = repo (im_files I) in
      bindE (merge_checks I i approval_id) (\<lambda>r.
      seqE (catchE (do_merge r) (\<lambda>e.
              seqE (improvement_event i ''merge_failed'' (JObj [(''error'', JStr (exc_text e))])) (improvement_error (exc_text e)))) (
      bindE (outside (git_text H [''rev-parse'', ''HEAD''] repo_root)) (\<lambda>merge_commit.
      seqE (record_merge r approval_id merge_commit) (
      seqE (outside (remove_worktree H repo_root (i_run r)))
        (get_proposal I i))))))"

definition merge :: "'x improve_env \<Rightarrow> string \<Rightarrow> string \<Rightarrow> ('x, obj) op" where
  "merge I i approval_id =
     merge_with I (\<lambda>r. outside (merge_branch (im_host I) (repo (im_files I)) (i_cbranch r) (''Merge improvement '' @ i))) i approval_id"

definition reject_proposal :: "'x improve_env \<Rightarrow> string \<Rightarrow> string option \<Rightarrow> ('x, obj) op" where
  "reject_proposal I i reason =
     bindE (proposal_row_of i) (\<lambda>r.
     if i_status r \<in> {I_MERGED, I_REJECTED, ABANDONED}
     then improvement_error (''proposal '' @ i @ '' is already closed (status='' @ improvement_status_str (i_status r) @ '')'')
     else
       bindE utc_now_rfc3339 (\<lambda>now.
       seqE (update_improvement i (\<lambda>x. x\<lparr>i_status := I_REJECTED, i_decided := Some now, i_closed := Some now, i_updated := now\<rparr>)) (
       seqE (improvement_event i ''rejected'' (JObj [(''reason'', jopt reason)])) (
       seqE (outside (remove_worktree (im_host I) (repo (im_files I)) (i_run r)))
         (get_proposal I i)))))"

section \<open>The client operations (ops/improvement.py)\<close>

definition core_op :: "('x, 'a) op \<Rightarrow> ('x, 'a) op" where
  "core_op m = catchE m (\<lambda>e. if exc_type e = ''ImprovementProposalError'' then throw ''CoreOpError'' (exc_text e) else raise e)"

datatype improvement_call =
    Prepare string "string option"
  | Show string
  | ListAll "string option" "string option"
  | MarkReady string string "string list"
  | RequestMerge string
  | Merge string string
  | Reject string "string option"
  | Verify string "string list list option" rat

fun op_improvement :: "'x improve_env \<Rightarrow> improvement_call \<Rightarrow> ('x, json) op" where
  "op_improvement I (Prepare run_id summary) = bindE (core_op (prepare I run_id summary)) (\<lambda>d. ret (JObj d))"
| "op_improvement I (Show i) = bindE (core_op (get_proposal I i)) (\<lambda>d. ret (JObj d))"
| "op_improvement I (ListAll status run_id) = bindE (list_proposals I status run_id) (\<lambda>ds. ret (JList (map JObj ds)))"
| "op_improvement I (MarkReady i verdict validation) = bindE (core_op (mark_ready I i verdict validation)) (\<lambda>d. ret (JObj d))"
| "op_improvement I (RequestMerge i) = bindE (core_op (request_merge I i)) (\<lambda>d. ret (JObj d))"
| "op_improvement I (Merge i approval_id) = bindE (core_op (merge I i approval_id)) (\<lambda>d. ret (JObj d))"
| "op_improvement I (Reject i reason) = bindE (core_op (reject_proposal I i reason)) (\<lambda>d. ret (JObj d))"
| "op_improvement I (Verify i commands timeout) = bindE (core_op (verify_proposal I i commands timeout)) (\<lambda>d. ret (JObj d))"

text \<open>What a client can make of the tables, by any sequence of calls, failing ones included.\<close>

inductive improves :: "'x improve_env \<Rightarrow> 'x world \<Rightarrow> 'x world \<Rightarrow> bool" for I where
  improves_refl: "improves I w w"
| improves_step: "improves I w w1 \<Longrightarrow> improves I w (snd (op_improvement I c w1))"

lemma carries_core_op: "carries K m \<Longrightarrow> carries K (core_op m)"
  unfolding core_op_def by (intro carry)

section \<open>What the operations keep\<close>

text \<open>
  The operations reach the database through few statements.  Whatever these statements keep, the
  operations keep: the contract is stated once, for an arbitrary condition on the database.  Only
  mark_ready makes a proposal ready for review, and only the merge operations change Steps that exist.
\<close>

definition plain_update :: "(improvement_row \<Rightarrow> improvement_row) \<Rightarrow> bool" where
  "plain_update f = (\<forall>r. i_id (f r) = i_id r \<and> i_run (f r) = i_run r \<and> i_status (f r) \<noteq> READY_FOR_REVIEW)"

locale quiet =
  fixes K :: "'x world \<Rightarrow> bool"
  assumes outer: "\<And>w x. K w \<Longrightarrow> K (w\<lparr>ext := x\<rparr>)"
    and clock: "carries K utc_now_rfc3339"
    and uuid: "carries K uuid7"
    and artifact: "\<And>f. carries K (insert_artifact f)"
    and proposal_event: "\<And>e. carries K (insert_improvement_event e)"
begin

lemma out: "carries K (outside f)"
  by (rule carriesI) (simp add: outside_def outer split: prod.split)

lemmas statements = clock uuid artifact proposal_event out

lemma error: "carries K (improvement_error m)"
  unfolding improvement_error_def by (intro carry)

lemma event: "carries K (improvement_event i t p)"
  unfolding improvement_event_def by (intro carry statements)

lemma reads: "carries K (proposal_row_of i)" "carries K (latest_step_id r)" "carries K (find_approval P)"
  unfolding proposal_row_of_def latest_step_id_def find_approval_def by (intro carry error)+

lemma shown: "carries K (serialize I x)"
  unfolding serialize_def patch_stats_def Let_def by (intro carry statements)

lemma get_proposal [carry]: "carries K (get_proposal I i)"
  unfolding get_proposal_def by (intro carry reads shown)

lemma list_proposals [carry]: "carries K (list_proposals I s r)"
  unfolding list_proposals_def by (intro carry shown)

lemma artifact_row: "carries K (insert_artifact_row r s d p m t)"
  unfolding insert_artifact_row_def by (intro carry statements)

lemma inspected: "carries K (inspect_candidate I r wt)"
  unfolding inspect_candidate_def Let_def by (intro carry statements error)

lemma evaluated [carry]: "carries K (run_evaluation I r s wt c cs t)"
  unfolding run_evaluation_def eval_entry_def eval_command_def write_artifact_def write_content_addressed_def Let_def
  by (intro carry statements artifact_row)

lemma verify_proposal [carry]: "carries K (verify_proposal I i cs t)"
  unfolding verify_proposal_def Let_def by (intro carry statements error event reads evaluated)

lemma verdict: "carries K (verdict_passed I r v)"
  unfolding verdict_passed_def Let_def by (intro carry statements error)

lemma rechecked: "carries K (recheck_identities I x)"
  unfolding recheck_identities_def Let_def by (intro carry statements error)

lemma tested: "carries K (test_result_passed I r c)"
proof -
  have "carries K (any_result_passed I c fs)" for fs
    by (induction fs) (auto intro!: carry statements simp only: any_result_passed.simps Let_def)
  then show ?thesis unfolding test_result_passed_def by (intro carry)
qed

lemma checked: "carries K (merge_checks I i a)"
  unfolding merge_checks_def by (intro carry error reads rechecked tested)

end

text \<open>A condition that proposals made or changed by other operations than mark_ready cannot break.\<close>

locale keeping = quiet +
  assumes proposal: "\<And>r. i_status r \<noteq> READY_FOR_REVIEW \<Longrightarrow> carries K (insert_improvement r)"
    and change: "\<And>i f. plain_update f \<Longrightarrow> carries K (update_improvement i f)"
begin

lemma stored: "carries K (store_candidate I r d s)"
proof -
  have "plain_update (redrafted d g p t n)" for g p t n
    by (simp add: plain_update_def redrafted_def)
  moreover have "i_status (new_proposal i r d g p t n) \<noteq> READY_FOR_REVIEW" for i g p t n
    by (simp add: new_proposal_def)
  ultimately show ?thesis
    unfolding store_candidate_def write_patch_artifact_def Let_def
    by (intro carry statements error event reads artifact_row proposal change)
qed

lemma prepare [carry]: "carries K (prepare I r s)"
  unfolding prepare_def Let_def by (intro carry statements error inspected stored get_proposal)

lemma reject [carry]: "carries K (reject_proposal I i why)"
proof -
  have "plain_update (\<lambda>x. x\<lparr>i_status := I_REJECTED, i_decided := d, i_closed := c, i_updated := u\<rparr>)" for d c u
    by (simp add: plain_update_def)
  then show ?thesis
    unfolding reject_proposal_def by (intro carry statements error event reads shown get_proposal change)
qed

end

text \<open>A condition that no change of a Step, an approval or the log can break is kept by a merge, too.\<close>

locale keeping_proposals = keeping +
  assumes step: "\<And>s. carries K (insert_step s)" and step_change: "\<And>i f. carries K (update_step i f)"
    and approval: "\<And>a. carries K (insert_approval a)" and log: "\<And>e. carries K (insert_event e)"
begin

lemmas more_statements = statements step step_change approval log

lemma logged: "carries K (log_event r s n a c d)"
  unfolding log_event_def write_event_def by (intro carry more_statements)

lemma opened: "carries K (open_merge_approval I r s)"
  unfolding open_merge_approval_def Let_def by (intro carry more_statements logged event reads)

lemma request_merge [carry]: "carries K (request_merge I i)"
  unfolding request_merge_def create_merge_step_def merge_reply_def Let_def
  by (intro carry more_statements error reads rechecked tested opened get_proposal)

lemma recorded: "carries K (record_merge r a c)"
proof -
  have "plain_update (\<lambda>x. x\<lparr>i_status := I_MERGED, i_merge := m, i_decided := d, i_closed := e, i_updated := u\<rparr>)" for m d e u
    by (simp add: plain_update_def)
  then show ?thesis unfolding record_merge_def by (intro carry more_statements event change)
qed

lemma merge [carry]: "carries K (merge I i a)"
  unfolding merge_def merge_with_def Let_def by (intro carry more_statements checked event error recorded get_proposal)

end

subsection \<open>What is on record stays there\<close>

interpretation recorded: keeping "kept w0" for w0
proof
  fix w x f e r g i assume "kept w0 w"
  then show "kept w0 (w\<lparr>ext := x\<rparr>)"
    by (rule kept_same [rotated]) (simp add: same_tables_def)
next
  show "carries (kept w0) utc_now_rfc3339" "carries (kept w0) uuid7" by (intro carry)+
  show "carries (kept w0) (insert_artifact f)" for f by (intro carry)
  show "carries (kept w0) (insert_improvement_event e)" for e
    by (rule carries_same) (simp add: insert_improvement_event_def same_tables_def)
  show "carries (kept w0) (insert_improvement r)" for r
    by (rule carries_same) (simp add: insert_improvement_def same_tables_def)
  show "carries (kept w0) (update_improvement i f)" for i f
    by (rule carries_same) (simp add: update_improvement_def same_tables_def)
qed

lemma carries_mark_ready [carry]: "carries (kept w0) (mark_ready I i v vs)"
proof -
  have "carries (kept w0) (update_improvement i f)" for i f
    by (rule carries_same) (simp add: update_improvement_def same_tables_def)
  then show ?thesis
    unfolding mark_ready_def record_ready_def
    by (intro carry recorded.reads recorded.error recorded.verdict recorded.event recorded.get_proposal)
qed

text \<open>The proposals themselves are not touched by what only reads them.\<close>

interpretation unchanged: quiet "\<lambda>w. improvements w = rs" for rs
  by unfold_locales (auto intro!: carriesI simp: utc_now_rfc3339_def uuid7_def insert_artifact_def insert_improvement_event_def
    integrity_def throw_def raise_def)

subsection \<open>A proposal is ready for review only with a verdict of its run\<close>

definition evidenced :: "'x world \<Rightarrow> bool" where
  "evidenced w = (distinct (map i_id (improvements w)) \<and>
     list_all (\<lambda>r. i_status r = READY_FOR_REVIEW \<longrightarrow>
       list_ex (\<lambda>f. i_verdict r = Some (f_id f) \<and> f_run f = i_run r \<and> f_type f = VERDICT) (artifacts w)) (improvements w))"

lemma evidenced_same:
  "evidenced w \<Longrightarrow> improvements w' = improvements w \<Longrightarrow> prefix (artifacts w) (artifacts w') \<Longrightarrow> evidenced w'"
  unfolding evidenced_def list_all_iff list_ex_iff using set_mono_prefix by fastforce

interpretation evidence: keeping_proposals evidenced
proof
  have same: "carries evidenced m" if "\<And>w. improvements (snd (m w)) = improvements w \<and> artifacts (snd (m w)) = artifacts w"
    for m
    using that evidenced_same by (fastforce intro!: carriesI)
  show "carries evidenced utc_now_rfc3339" "carries evidenced uuid7"
    by (rule same; simp add: utc_now_rfc3339_def uuid7_def)+
  show "carries evidenced (insert_improvement_event e)" for e
    by (rule same) (simp add: insert_improvement_event_def integrity_def act_defs)
  show "carries evidenced (insert_step s)" for s
    by (rule same) (simp add: insert_step_def integrity_def act_defs)
  show "carries evidenced (update_step i f)" for i f
    by (rule same) (simp add: update_step_def integrity_def act_defs)
  show "carries evidenced (insert_approval a)" for a
    by (rule same) (simp add: insert_approval_def integrity_def act_defs)
  show "carries evidenced (insert_event e)" for e
    by (rule same) (simp add: insert_event_def integrity_def act_defs)
  show "carries evidenced (insert_artifact f)" for f
    by (rule carriesI) (auto simp: insert_artifact_def integrity_def act_defs elim!: evidenced_same)
  show "carries evidenced (insert_improvement r)" if "i_status r \<noteq> READY_FOR_REVIEW" for r
    using that by (intro carriesI) (auto simp: insert_improvement_def integrity_def act_defs evidenced_def)
  show "carries evidenced (update_improvement i f)" if "plain_update f" for i f
  proof (rule carriesI)
    fix w assume "evidenced w"
    moreover have "map i_id (map (\<lambda>r. if i_id r = i then f r else r) (improvements w)) = map i_id (improvements w)"
      using that by (simp add: plain_update_def)
    ultimately show "evidenced (snd (update_improvement i f w))"
      using that by (auto simp: update_improvement_def integrity_def act_defs evidenced_def plain_update_def list_all_iff simp del: map_map)
  qed
  show "evidenced (w\<lparr>ext := x\<rparr>)" if "evidenced w" for w x
    using that by (simp add: evidenced_def)
qed

lemma verdict_passed_Val:
  assumes "verdict_passed I run v w = (Val b, w')"
  shows "list_ex (\<lambda>f. f_id f = v \<and> f_run f = run \<and> f_type f = VERDICT) (artifacts w) \<and>
    improvements w' = improvements w \<and> artifacts w' = artifacts w"
proof -
  obtain f where f: "find (\<lambda>f. f_id f = v) (artifacts w) = Some f"
    using assms by (cases "find (\<lambda>f. f_id f = v) (artifacts w)")
      (simp_all add: verdict_passed_def bind_gets improvement_error_def basic_Val)
  then have "f \<in> set (artifacts w)" "f_id f = v" by (auto simp: find_Some_iff)
  moreover from assms f have "f_run f = run \<and> f_type f = VERDICT"
    by (cases "f_run f \<noteq> run \<or> f_type f \<noteq> VERDICT")
      (simp_all add: verdict_passed_def bind_gets improvement_error_def basic_Val)
  moreover from this assms f have "improvements w' = improvements w \<and> artifacts w' = artifacts w"
    by (auto simp: verdict_passed_def bind_gets bind_Val vals improvement_error_def basic_Val split: sum.splits)
  ultimately show ?thesis by (auto simp: list_ex_iff)
qed

lemma bind_carried:
  assumes "K w" "carries K m" "\<And>a w1. m w = (Val a, w1) \<Longrightarrow> K w1 \<Longrightarrow> K (snd (f a w1))"
  shows "K (snd (bindE m f w))"
  using assms by (auto simp: bindE_def carries_def split: prod.splits res.splits)

lemma bind_carried':
  assumes "K (snd (m w))" "\<And>a. carries K (f a)"
  shows "K (snd (bindE m f w))"
  using assms by (auto simp: bindE_def carries_def split: prod.splits res.splits)

lemma evidenced_make_ready:
  assumes "evidenced w" "find (\<lambda>r. i_id r = i) (improvements w) = Some r"
    and "list_ex (\<lambda>f. f_id f = v \<and> f_run f = i_run r \<and> f_type f = VERDICT) (artifacts w)"
  shows "evidenced (snd (update_improvement i
    (\<lambda>x. x\<lparr>i_status := READY_FOR_REVIEW, i_verdict := Some v, i_validation := vs, i_updated := now\<rparr>) w))"
proof -
  have r: "r \<in> set (improvements w)" "i_id r = i" using assms(2) by (auto simp: find_Some_iff)
  have only: "x = r" if "x \<in> set (improvements w)" "i_id x = i" for x
    by (rule inj_onD [of i_id "set (improvements w)"])
      (use that r assms(1) in \<open>simp_all add: evidenced_def distinct_map\<close>)
  have ids: "map i_id (map (\<lambda>x. if i_id x = i then x\<lparr>i_status := READY_FOR_REVIEW, i_verdict := Some v,
      i_validation := vs, i_updated := now\<rparr> else x) (improvements w)) = map i_id (improvements w)"
    unfolding map_map by (rule map_cong) simp_all
  show ?thesis
  proof (cases "list_all (\<lambda>r. i_id r = i \<longrightarrow> i_patch r \<in> f_id ` set (artifacts w)) (improvements w)")
    case True
    have "list_ex (\<lambda>f. i_verdict y = Some (f_id f) \<and> f_run f = i_run y \<and> f_type f = VERDICT) (artifacts w)"
      if x: "x \<in> set (improvements w)" and y: "y = (if i_id x = i then x\<lparr>i_status := READY_FOR_REVIEW, i_verdict := Some v,
        i_validation := vs, i_updated := now\<rparr> else x)" and ready: "i_status y = READY_FOR_REVIEW" for x y
    proof (cases "i_id x = i")
      case True
      from only [OF x True] assms(3) r(2) show ?thesis unfolding y by (auto simp: list_ex_iff)
    next
      case False
      with x ready assms(1) show ?thesis unfolding y by (simp add: evidenced_def list_all_iff)
    qed
    then have "list_all (\<lambda>r. i_status r = READY_FOR_REVIEW \<longrightarrow>
       list_ex (\<lambda>f. i_verdict r = Some (f_id f) \<and> f_run f = i_run r \<and> f_type f = VERDICT) (artifacts w))
       (map (\<lambda>x. if i_id x = i then x\<lparr>i_status := READY_FOR_REVIEW, i_verdict := Some v, i_validation := vs, i_updated := now\<rparr>
        else x) (improvements w))"
      unfolding list_all_iff set_map by blast
    moreover have "distinct (map i_id (improvements w))" using assms(1) by (simp add: evidenced_def)
    ultimately have "evidenced (w\<lparr>improvements := map (\<lambda>x. if i_id x = i then x\<lparr>i_status := READY_FOR_REVIEW, i_verdict := Some v,
        i_validation := vs, i_updated := now\<rparr> else x) (improvements w)\<rparr>)"
      unfolding evidenced_def by (simp add: ids del: map_map list.pred_map)
    with True show ?thesis by (simp add: update_improvement_def)
  next
    case False
    with assms(1) show ?thesis by (simp add: update_improvement_def integrity_def throw_def raise_def)
  qed
qed

lemma evidenced_record_ready:
  assumes "evidenced w" "find (\<lambda>r. i_id r = i) (improvements w) = Some r"
    and "list_ex (\<lambda>f. f_id f = v \<and> f_run f = i_run r \<and> f_type f = VERDICT) (artifacts w)"
  shows "evidenced (snd (record_ready i v vs w))"
  unfolding record_ready_def
proof (rule bind_carried [OF assms(1) evidence.clock])
  fix now w1 assume now: "utc_now_rfc3339 w = (Val now, w1)" and w1: "evidenced w1"
  have "artifacts w1 = artifacts w" "improvements w1 = improvements w"
    using now by (auto simp: utc_now_rfc3339_def)
  with assms(2,3) have "find (\<lambda>r. i_id r = i) (improvements w1) = Some r"
    "list_ex (\<lambda>f. f_id f = v \<and> f_run f = i_run r \<and> f_type f = VERDICT) (artifacts w1)" by simp_all
  from evidenced_make_ready [OF w1 this] show "evidenced (snd (seqE (update_improvement i (\<lambda>x. x\<lparr>i_status := READY_FOR_REVIEW,
      i_verdict := Some v, i_validation := vs, i_updated := now\<rparr>)) (improvement_event i ''ready_for_review'' (JObj
      [(''verdict_artifact_id'', JStr v), (''validation_artifact_ids'', JList (map JStr vs))])) w1))"
    unfolding seqE_def by (rule bind_carried') (rule evidence.event)
qed

lemma evidenced_mark_ready:
  fixes I :: "'x improve_env"
  shows "carries evidenced (mark_ready I i v vs)"
proof (rule carriesI)
  fix w :: "'x world" assume ev: "evidenced w"
  have main: "evidenced (snd (bindE (verdict_passed I (i_run r) v) (\<lambda>passed.
       if \<not> passed then improvement_error m else seqE (record_ready i v vs) (get_proposal I i)) w1))"
    if row: "find (\<lambda>r. i_id r = i) (improvements w1) = Some r" and w1: "evidenced w1" for r m w1
  proof (rule bind_carried [OF w1 evidence.verdict])
    fix b w2 assume "verdict_passed I (i_run r) v w1 = (Val b, w2)" and w2: "evidenced w2"
    from verdict_passed_Val [OF this(1)] row
    have "find (\<lambda>r. i_id r = i) (improvements w2) = Some r"
      "list_ex (\<lambda>f. f_id f = v \<and> f_run f = i_run r \<and> f_type f = VERDICT) (artifacts w2)" by simp_all
    from evidenced_record_ready [OF w2 this] have "evidenced (snd (seqE (record_ready i v vs) (get_proposal I i) w2))"
      unfolding seqE_def by (rule bind_carried') (rule evidence.get_proposal)
    then show "evidenced (snd ((if \<not> b then improvement_error m else seqE (record_ready i v vs) (get_proposal I i)) w2))"
      using carriesD [OF evidence.error w2, of m] by (cases b) simp_all
  qed
  show "evidenced (snd (mark_ready I i v vs w))"
    unfolding mark_ready_def
  proof (rule bind_carried [OF ev evidence.reads(1)])
    fix r w1 assume r: "proposal_row_of i w = (Val r, w1)" and w1: "evidenced w1"
    have row: "find (\<lambda>r. i_id r = i) (improvements w1) = Some r"
      using r by (auto simp: proposal_row_of_def bind_gets improvement_error_def basic_Val split: option.splits)
    show "evidenced (snd ((if i_status r \<notin> {I_DRAFT, READY_FOR_REVIEW}
        then improvement_error (''proposal '' @ i @ '' cannot be marked ready from '' @ improvement_status_str (i_status r))
        else bindE (verdict_passed I (i_run r) v) (\<lambda>passed.
          if \<not> passed then improvement_error (''verdict artifact '' @ v @ '' did not pass'')
          else seqE (record_ready i v vs) (get_proposal I i))) w1))"
    proof (cases "i_status r \<notin> {I_DRAFT, READY_FOR_REVIEW}")
      case True
      show ?thesis unfolding if_P [OF True] by (rule carriesD [OF evidence.error w1])
    next
      case False
      show ?thesis unfolding if_not_P [OF False] by (rule main [OF row w1])
    qed
  qed
qed

lemma evidenced_op: "carries evidenced (op_improvement I c)"
  by (cases c) (simp_all only: op_improvement.simps, (intro carry carries_core_op evidenced_mark_ready)+)

text \<open>
  C13. No review without a verdict: whatever sequence of the client operations is run from tables
  without proposals, every proposal that is ready for review names an artifact of type VERDICT which
  belongs to the Run of the proposal.
\<close>

theorem review_needs_verdict:
  assumes "improves I w0 w" "improvements w0 = []" "r \<in> set (improvements w)" "i_status r = READY_FOR_REVIEW"
  shows "\<exists>f \<in> set (artifacts w). i_verdict r = Some (f_id f) \<and> f_run f = i_run r \<and> f_type f = VERDICT"
proof -
  have "evidenced w" using assms(1,2)
    by (induction rule: improves.induct) (simp add: evidenced_def, blast intro: carriesD [OF evidenced_op])
  with assms(3,4) show ?thesis by (auto simp: evidenced_def list_all_iff list_ex_iff)
qed

section \<open>A merge is what was approved\<close>

lemma recheck_identities_Val:
  assumes "recheck_identities I r w = (Val u, w')"
  shows "\<exists>x1 x2. fst (git_text (im_host I) [''rev-parse'', i_branch r] (repo (im_files I)) x1) = Val (i_base r) \<and>
    fst (current_head (im_host I) (worktree_path (repo (im_files I)) (i_run r)) x2) = Val (i_ccommit r)"
proof -
  let ?H = "im_host I" let ?root = "repo (im_files I)" let ?wt = "worktree_path ?root (i_run r)"
  have err: "improvement_error m v \<noteq> (Val u, w')" for m v by (simp add: improvement_error_def basic_Val)
  obtain b w1 where 1: "(if \<not> b then improvement_error (''candidate worktree is not available at '' @ as_posix ?wt) else
      bindE (outside (git_text ?H [''rev-parse'', i_branch r] ?root)) (\<lambda>target_head.
        if target_head \<noteq> i_base r then improvement_error ''target branch moved since proposal review''
        else bindE (outside (current_head ?H ?wt)) (\<lambda>commit.
          if commit \<noteq> i_ccommit r then improvement_error ''candidate commit changed since proposal review''
          else bindE (outside (diff_bytes ?H ?root (i_base r) (i_ccommit r))) (\<lambda>patch.
            if diff_digest I patch \<noteq> i_diff r then improvement_error ''candidate diff digest changed since proposal review''
            else bindE (outside (git_text ?H [''status'', ''--porcelain''] ?root)) (\<lambda>dirty.
              if dirty \<noteq> [] then improvement_error ''target repository has uncommitted changes'' else ret ()))))) w1 = (Val u, w')"
    using assms unfolding recheck_identities_def Let_def bind_Val by blast
  then obtain t w2 where 2: "outside (git_text ?H [''rev-parse'', i_branch r] ?root) w1 = (Val t, w2)"
      "(if t \<noteq> i_base r then improvement_error ''target branch moved since proposal review''
        else bindE (outside (current_head ?H ?wt)) (\<lambda>commit.
          if commit \<noteq> i_ccommit r then improvement_error ''candidate commit changed since proposal review''
          else bindE (outside (diff_bytes ?H ?root (i_base r) (i_ccommit r))) (\<lambda>patch.
            if diff_digest I patch \<noteq> i_diff r then improvement_error ''candidate diff digest changed since proposal review''
            else bindE (outside (git_text ?H [''status'', ''--porcelain''] ?root)) (\<lambda>dirty.
              if dirty \<noteq> [] then improvement_error ''target repository has uncommitted changes'' else ret ())))) w2 = (Val u, w')"
    using err by (cases b) (simp_all add: bind_Val, blast)
  then have t: "t = i_base r" using err by (cases "t = i_base r") simp_all
  obtain k w3 where 3: "outside (current_head ?H ?wt) w2 = (Val k, w3)"
      "(if k \<noteq> i_ccommit r then improvement_error ''candidate commit changed since proposal review''
          else bindE (outside (diff_bytes ?H ?root (i_base r) (i_ccommit r))) (\<lambda>patch.
            if diff_digest I patch \<noteq> i_diff r then improvement_error ''candidate diff digest changed since proposal review''
            else bindE (outside (git_text ?H [''status'', ''--porcelain''] ?root)) (\<lambda>dirty.
              if dirty \<noteq> [] then improvement_error ''target repository has uncommitted changes'' else ret ()))) w3 = (Val u, w')"
    using 2(2) t by (simp add: bind_Val) blast
  then have "k = i_ccommit r" using err by (cases "k = i_ccommit r") simp_all
  with 2(1) 3(1) t show ?thesis unfolding outside_Val by (metis fst_conv)
qed

lemma bind_proposal_row:
  "find (\<lambda>r. i_id r = i) (improvements w) = Some r \<Longrightarrow> bindE (proposal_row_of i) f w = f r w"
  by (simp add: proposal_row_of_def bindE_def gets_def ret_def)

lemma merge_guards:
  assumes "(case A of None \<Rightarrow> improvement_error m0
    | Some a \<Rightarrow> if a_step a \<noteq> s then improvement_error (m1 a) else if a_status a \<noteq> Approved then improvement_error (m2 a)
        else if a_digest a \<noteq> d then improvement_error m3
        else seqE g (bindE t (\<lambda>tested. if \<not> tested then improvement_error m4 else ret r0))) w = (Val r, w')"
  obtains a u w1 where "A = Some a" "a_step a = s" "a_status a = Approved" "a_digest a = d" "g w = (Val u, w1)" "r = r0"
  using assms that
  by (auto simp: improvement_error_def basic_Val seq_Val bind_Val split: option.splits if_splits)

lemma merge_checks_Val:
  assumes "merge_checks I i ap w = (Val r, w')"
  shows "find (\<lambda>r. i_id r = i) (improvements w) = Some r \<and>
    (\<exists>a. find (\<lambda>a. a_id a = ap) (approvals w) = Some a \<and> a_step a = merge_step_id (i_run r) i \<and> a_status a = Approved \<and>
       a_digest a = merge_action_digest I r) \<and> (\<exists>w1 u w2. recheck_identities I r w1 = (Val u, w2))"
proof -
  obtain r0 where r0: "find (\<lambda>r. i_id r = i) (improvements w) = Some r0"
    using assms by (cases "find (\<lambda>r. i_id r = i) (improvements w)")
      (simp_all add: merge_checks_def proposal_row_of_def bind_Val basic_Val improvement_error_def)
  have rest: "(case find (\<lambda>a. a_id a = ap) (approvals w) of
      None \<Rightarrow> improvement_error (''no such approval: '' @ ap)
    | Some a \<Rightarrow>
        if a_step a \<noteq> merge_step_id (i_run r0) i then improvement_error (''approval '' @ ap @ '' is not for improvement '' @ i)
        else if a_status a \<noteq> Approved
          then improvement_error (''approval '' @ ap @ '' is not approved (status='' @ approval_status_str (a_status a) @ '')'')
        else if a_digest a \<noteq> merge_action_digest I r0
          then improvement_error ''approved merge action digest does not match current proposal''
        else seqE (recheck_identities I r0) (
          bindE (test_result_passed I (i_run r0) (i_ccommit r0)) (\<lambda>tested.
          if \<not> tested then improvement_error ''cannot merge proposal without a passing test-result artifact'' else ret r0)))
      w = (Val r, w')"
    using assms unfolding merge_checks_def bind_proposal_row [of i w, OF r0] find_approval_def bind_gets .
  then obtain a u w1 where "find (\<lambda>a. a_id a = ap) (approvals w) = Some a" "a_step a = merge_step_id (i_run r0) i"
      "a_status a = Approved" "a_digest a = merge_action_digest I r0" "recheck_identities I r0 w = (Val u, w1)" "r = r0"
    by (rule merge_guards)
  with r0 show ?thesis by blast
qed



section \<open>An example\<close>

definition demo_git :: "string list \<Rightarrow> path \<Rightarrow> unit \<Rightarrow> (int \<times> string \<times> string) res \<times> unit" where
  "demo_git args cwd x = (Val (0, (if ''--numstat'' \<in> set args \<or> args = [''status'', ''--porcelain''] then [] else ''abc''), []), x)"

definition demo_improve :: "unit improve_env" where
  "demo_improve = \<lparr>im_files = demo_files, im_host = demo_host\<lparr>git := demo_git, is_dir := (\<lambda>p x. (Val True, x)), is_file := (\<lambda>p x. (Val True, x))\<rparr>,
     im_machine = demo_machine, im_dumps = (\<lambda>j. ''json''),
     im_json = (\<lambda>s. Inr (JObj [(''candidate_commit'', JStr ''abc''), (''passed'', JBool True)])), im_python = ''python'',
     im_partial = exc_text, im_lapse = (\<lambda>x. (Val 0, x)), im_run = (\<lambda>c p t x. (Val (0, [], []), x))\<rparr>"

definition demo_verdict :: artifact_row where
  "demo_verdict = \<lparr>f_id = ''v'', f_run = ''run'', f_step = ''run:a#1'', f_sha = ''d'', f_path = ''d.json'', f_media = ''application/json'',
     f_type = VERDICT, f_complete = True, f_created = ''t''\<rparr>"

definition demo_proposal :: "improvement_status \<Rightarrow> improvement_row" where
  "demo_proposal st = (new_proposal ''i'' ''run'' \<lparr>cd_target = ''abc'', cd_branch = ''abc'', cd_commit = ''abc'', cd_base = ''abc'',
     cd_patch = ''abc'', cd_paths = []\<rparr> ''sha256:abc'' ''v'' ''better'' ''t'')\<lparr>i_status := st, i_verdict := Some ''v''\<rparr>"

definition finished_world :: "improvement_row list \<Rightarrow> unit world" where
  "finished_world rs = (one_run () [step_row_of ''run:a#1'' ''run'' ''a'' SUCCEEDED])
     \<lparr>runs := [run_row_of ''run'' RUN_SUCCEEDED], artifacts := [demo_verdict], improvements := rs\<rparr>"

theorem review_needs_verdict_witness:
  "\<exists>w r. improves demo_improve (finished_world []) w \<and> r \<in> set (improvements w) \<and> i_status r = READY_FOR_REVIEW \<and>
     (\<exists>f \<in> set (artifacts w). i_verdict r = Some (f_id f) \<and> f_run f = i_run r \<and> f_type f = VERDICT)"
proof -
  let ?w = "snd (op_improvement demo_improve (MarkReady ''id-1'' ''v'' [])
    (snd (op_improvement demo_improve (Prepare ''run'' None) (finished_world []))))"
  have run: "improves demo_improve (finished_world []) ?w" by (intro improves_step improves_refl)
  have "map i_status (improvements ?w) = [READY_FOR_REVIEW]" by code_simp
  then obtain r where r: "r \<in> set (improvements ?w)" "i_status r = READY_FOR_REVIEW"
    by (cases "improvements ?w") auto
  have "improvements (finished_world []) = []" by (simp add: finished_world_def)
  from review_needs_verdict [OF run this r] run r show ?thesis by blast
qed

definition approved_world :: "unit world" where
  "approved_world = (finished_world [demo_proposal READY_FOR_REVIEW])
     \<lparr>approvals := [(pending_approval ''ap'' ''run'' (merge_step_id ''run'' ''i'')
        (merge_action_digest demo_improve (demo_proposal READY_FOR_REVIEW)) ''t'' (Some ''R2''))\<lparr>a_status := Approved\<rparr>],
      artifacts := [demo_verdict, demo_verdict\<lparr>f_id := ''tr'', f_type := TEST_RESULT\<rparr>]\<rparr>"


lemma unchanged_Val:
  assumes "m v = (Val a, v')" "\<And>rs. carries (\<lambda>w. improvements w = rs) m"
  shows "improvements v' = improvements v"
  using carriesD [OF assms(2), of v] assms(1) by simp

lemma prepare_Val:
  assumes "prepare I run s w = (Val d, w')"
  obtains c m i w1 w2 where "improvements w1 = improvements w" "store_candidate I run c m w1 = (Val i, w2)"
    "get_proposal I i w2 = (Val d, w')"
proof -
  obtain r where r: "find (\<lambda>r. r_id r = run) (runs w) = Some r" "r_status r = RUN_SUCCEEDED"
    using assms by (auto simp: prepare_def improvement_error_def basic_Val split: option.splits if_splits)
  let ?wt = "worktree_path (repo (im_files I)) run"
  have "bindE (outside (is_dir (im_host I) ?wt)) (\<lambda>there.
     if \<not> there then improvement_error (''run '' @ run @ '' worktree is not available at '' @ as_posix ?wt)
     else bindE (inspect_candidate I run ?wt) (\<lambda>d.
       bindE (store_candidate I run d (if has_text s then the s else ''Improvement from run '' @ run)) (get_proposal I))) w = (Val d, w')"
    using assms r by (simp add: prepare_def Let_def)
  then obtain there w0 where "outside (is_dir (im_host I) ?wt) w = (Val there, w0)"
    and rest: "(if \<not> there then improvement_error (''run '' @ run @ '' worktree is not available at '' @ as_posix ?wt)
     else bindE (inspect_candidate I run ?wt) (\<lambda>d.
       bindE (store_candidate I run d (if has_text s then the s else ''Improvement from run '' @ run)) (get_proposal I))) w0 = (Val d, w')"
    unfolding bind_Val by blast
  then have w0: "improvements w0 = improvements w" by (auto simp: outside_Val)
  from rest have "bindE (inspect_candidate I run ?wt) (\<lambda>d.
       bindE (store_candidate I run d (if has_text s then the s else ''Improvement from run '' @ run)) (get_proposal I)) w0 = (Val d, w')"
    by (cases there) (simp_all add: improvement_error_def basic_Val)
  then obtain c w1 i w2 where c: "inspect_candidate I run ?wt w0 = (Val c, w1)"
      "store_candidate I run c (if has_text s then the s else ''Improvement from run '' @ run) w1 = (Val i, w2)"
      "get_proposal I i w2 = (Val d, w')"
    unfolding bind_Val by blast
  from unchanged_Val [OF c(1) unchanged.inspected] w0 that c(2,3) show ?thesis by simp
qed

lemma store_candidate_Val:
  assumes "store_candidate I run c m w = (Val i, w')" "find (\<lambda>r. i_run r = run) (improvements w) = Some r"
  shows "\<exists>g p n. improvements w' = map (\<lambda>x. if i_id x = i_id r then redrafted c g p m n x else x) (improvements w)"
proof -
  let ?g = "diff_digest I (cd_patch c)"
  let ?last = "\<lambda>p n ex. case ex of
      None \<Rightarrow> bindE uuid7 (\<lambda>i. seqE (insert_improvement (new_proposal i run c ?g p m n)) (
              seqE (improvement_event i ''created'' (patch_event ?g p)) (ret i)))
    | Some r \<Rightarrow> seqE (update_improvement (i_id r) (redrafted c ?g p m n)) (
              seqE (improvement_event (i_id r) ''updated'' (patch_event ?g p)) (ret (i_id r)))"
  obtain st w1 p w2 n w3 where st: "latest_step_id run w = (Val st, w1)" "write_patch_artifact I run st (cd_patch c) w1 = (Val p, w2)"
      "utc_now_rfc3339 w2 = (Val n, w3)" and last: "?last p n (find (\<lambda>r. i_run r = run) (improvements w3)) w3 = (Val i, w')"
    using assms(1) unfolding store_candidate_def Let_def bind_Val basic_Val by blast
  have wp: "\<And>rs. carries (\<lambda>w. improvements w = rs) (write_patch_artifact I run st (cd_patch c))"
    unfolding write_patch_artifact_def Let_def by (intro carry unchanged.statements unchanged.artifact_row)
  have "improvements w2 = improvements w1"
    by (rule unchanged_Val [where m = "write_patch_artifact I run st (cd_patch c)"]) (rule st(2), rule wp)
  with unchanged_Val [OF st(1) unchanged.reads(2)] unchanged_Val [OF st(3) unchanged.clock]
  have same: "improvements w3 = improvements w" by simp
  with assms(2) last have "seqE (update_improvement (i_id r) (redrafted c ?g p m n)) (
      seqE (improvement_event (i_id r) ''updated'' (patch_event ?g p)) (ret (i_id r))) w3 = (Val i, w')" by simp
  then obtain u w4 v where u: "update_improvement (i_id r) (redrafted c ?g p m n) w3 = (Val u, w4)"
      "improvement_event (i_id r) ''updated'' (patch_event ?g p) w4 = (Val v, w')"
    unfolding seq_Val basic_Val by blast
  from u(1) have "improvements w4 = map (\<lambda>x. if i_id x = i_id r then redrafted c ?g p m n x else x) (improvements w3)"
    by (auto simp: update_improvement_def integrity_def basic_Val split: if_splits)
  with unchanged_Val [OF u(2) unchanged.event] same show ?thesis by auto
qed

text \<open>
  A new candidate reopens the proposal of its Run whatever became of it: when prepare returns and the
  Run had a proposal, that proposal is a draft again, without verdict and validation, while the merge
  commit and the time it was closed at are still those of the earlier decision.
\<close>

theorem prepare_reopens:
  assumes "prepare I run s w = (Val d, w')" "find (\<lambda>r. i_run r = run) (improvements w) = Some r"
  shows "\<exists>r'. r' \<in> set (improvements w') \<and> i_id r' = i_id r \<and> i_status r' = I_DRAFT \<and> i_verdict r' = None \<and>
    i_merge r' = i_merge r \<and> i_closed r' = i_closed r \<and> i_decided r' = i_decided r"
proof -
  have mem: "r \<in> set (improvements w)" using assms(2) by (auto simp: find_Some_iff)
  obtain c m i w1 w2 where w1: "improvements w1 = improvements w"
    and st: "store_candidate I run c m w1 = (Val i, w2)" and last: "get_proposal I i w2 = (Val d, w')"
    by (rule prepare_Val [OF assms(1)])
  obtain g p n where "improvements w2 = map (\<lambda>x. if i_id x = i_id r then redrafted c g p m n x else x) (improvements w)"
    using store_candidate_Val [OF st, unfolded w1, OF assms(2)] by (elim exE) (rule that)
  moreover have "improvements w' = improvements w2"
    using unchanged_Val [OF last unchanged.get_proposal] .
  ultimately have "redrafted c g p m n r \<in> set (improvements w')" using mem by force
  then show ?thesis by (intro exI [of _ "redrafted c g p m n r"]) (simp add: redrafted_def)
qed

theorem prepare_reopens_witness:
  "\<exists>r'. r' \<in> set (improvements (snd (prepare demo_improve ''run'' None (finished_world [demo_proposal I_MERGED])))) \<and>
     i_status r' = I_DRAFT"
proof -
  let ?r = "prepare demo_improve ''run'' None (finished_world [demo_proposal I_MERGED])"
  have "case fst ?r of Val v \<Rightarrow> True | _ \<Rightarrow> False" by code_simp
  then obtain d w' where r: "?r = (Val d, w')" by (cases ?r; cases "fst ?r") auto
  have "find (\<lambda>r. i_run r = ''run'') (improvements (finished_world [demo_proposal I_MERGED])) = Some (demo_proposal I_MERGED)"
    by (simp add: finished_world_def demo_proposal_def new_proposal_def)
  from prepare_reopens [OF r this] show ?thesis unfolding r by auto
qed

end
