(* ===== verification/Awf_Runs.thy ===== *)
theory Awf_Runs
  imports Awf_Nodes Awf_Improvement
begin

text \<open>
  Runs as a whole: the activities of the registry that reads the hardware, the executors of a workflow
  with its gates and its child runs (ops/run_execution.py), and the operations that start, resume and
  describe runs (ops/run.py).  A worker thread is an operation of its own, and a child run may nest only
  as deep as the interpreter allows, which is a parameter.
\<close>

section \<open>What a run is given\<close>

text \<open>
  \<open>ru_hardware\<close> resolves the hardware profile, \<open>ru_llm\<close> ensures the local model server and gives the
  events it records, \<open>ru_listing\<close> lists a scratch directory, \<open>ru_shlex\<close> is shlex.split, \<open>ru_schema\<close>
  and \<open>ru_brief\<close> are a JSON-Schema error in full and in one line, \<open>ru_turns\<close> is the order in which a
  pool's threads take the lock.
\<close>

record 'x run_env =
  ru_improve :: "'x improve_env"
  ru_memory :: "'x memory_env"
  ru_cipher :: "'x cipher"
  ru_adapters :: "string \<Rightarrow> 'x adapter option"
  ru_gateway :: "'x gateway"
  ru_hardware :: "'x \<Rightarrow> (string \<times> json) res \<times> 'x"
  ru_gpu :: "'x \<Rightarrow> rat option res \<times> 'x"
  ru_llm :: "'x \<Rightarrow> ((string \<times> json) list \<times> json result) res \<times> 'x"
  ru_listing :: "path \<Rightarrow> 'x \<Rightarrow> (string \<times> string) list option res \<times> 'x"
  ru_shlex :: "string \<Rightarrow> string list result"
  ru_schema :: "json \<Rightarrow> json \<Rightarrow> string option"
  ru_brief :: "json \<Rightarrow> json \<Rightarrow> string option"
  ru_turns :: "nat \<Rightarrow> 'x \<Rightarrow> nat list res \<times> 'x"
  ru_uniform :: "rat \<Rightarrow> rat \<Rightarrow> 'x \<Rightarrow> rat res \<times> 'x"
  ru_sleep :: "rat \<Rightarrow> 'x \<Rightarrow> unit res \<times> 'x"
  ru_fuel :: nat

definition ru_files :: "'x run_env \<Rightarrow> 'x files" where "ru_files R = im_files (ru_improve R)"

definition ru_host :: "'x run_env \<Rightarrow> 'x host" where "ru_host R = im_host (ru_improve R)"

definition ru_machine :: "'x run_env \<Rightarrow> 'x machine" where "ru_machine R = im_machine (ru_improve R)"

definition ru_repo :: "'x run_env \<Rightarrow> path" where "ru_repo R = repo (ru_files R)"

definition ru_agent :: "'x run_env \<Rightarrow> 'x agent_env" where
  "ru_agent R = \<lparr>ag_machine = ru_machine R, ag_files = ru_files R, ag_host = ru_host R, ag_memory = ru_memory R, ag_cipher = ru_cipher R\<rparr>"

definition json_hash :: "'x run_env \<Rightarrow> json \<Rightarrow> string" where
  "json_hash R v = sha256 (ru_machine R) (dumps (ru_machine R) (sort_json v))"

section \<open>The activities (hardware/profiler.py, llm/sidecar.py, workflow/activities.py)\<close>

text \<open>Events that belong to no run are anchored to a run that is always there.\<close>

definition system_run_id :: string where "system_run_id = ''system''"

definition ensure_system_run :: "('x, unit) op" where
  "ensure_system_run =
     bindE (gets (\<lambda>w. list_ex (\<lambda>r. r_id r = system_run_id) (runs w))) (\<lambda>there.
     if there then ret ()
     else
       bindE utc_now_rfc3339 (\<lambda>now.
         insert_run \<lparr>r_id = system_run_id, r_workflow = ''system@0.0.0'', r_status = RUN_SUCCEEDED, r_input = JObj [], r_output = None,
           r_budget = JObj [], r_created = now, r_updated = now\<rparr>))"

definition run_hardware_profiler :: "'x run_env \<Rightarrow> ('x, string) op" where
  "run_hardware_profiler R =
     bindE (outside (ru_hardware R)) (\<lambda>(profile_id, payload).
     seqE ensure_system_run (
     seqE (log_event system_run_id None ''RESOLVED'' ''hardware_profiler'' ''hardware_profile_resolved'' payload)
       (ret profile_id)))"

definition record_sidecar_event :: "string \<Rightarrow> json \<Rightarrow> ('x, unit) op" where
  "record_sidecar_event reason_code payload =
     catchE
       (seqE ensure_system_run
         (log_event system_run_id None (if sublist ''started'' reason_code then ''RESOLVED'' else ''STOPPED'') ''sidecar'' reason_code payload))
       (\<lambda>_. ret ())"

definition llm_server_ensure :: "'x run_env \<Rightarrow> ('x, json) op" where
  "llm_server_ensure R =
     bindE (outside (ru_llm R)) (\<lambda>(evs, r).
       seqE (forE (\<lambda>(c, p). record_sidecar_event c p) evs) (liftR r))"

definition gpu_utilization_sample :: "'x run_env \<Rightarrow> ('x, json) op" where
  "gpu_utilization_sample R =
     bindE (outside (ru_gpu R)) (\<lambda>u. ret (JObj [(''utilization'', (case u of None \<Rightarrow> JNull | Some q \<Rightarrow> JFloat q))]))"

definition local_activity :: "(obj \<Rightarrow> ('x, json) op) \<Rightarrow> 'x registration option" where
  "local_activity f = Some \<lparr>reg_kind = ''local'', reg_fn = Some f\<rparr>"

definition activity_registry :: "'x run_env \<Rightarrow> string \<Rightarrow> 'x registration option" where
  "activity_registry R name =
     (if name = ''assistant_reply'' then local_activity (\<lambda>args. assistant_reply (ru_agent R) (ru_gateway R) args)
      else if name = ''hardware_probe'' then
        local_activity (\<lambda>_. bindE (run_hardware_profiler R) (\<lambda>p. ret (JObj [(''profile_id'', JStr p)])))
      else if name = ''gpu_utilization_sample'' then local_activity (\<lambda>_. gpu_utilization_sample R)
      else if name = ''llm_server_ensure'' then local_activity (\<lambda>_. llm_server_ensure R)
      else if name \<in> set machine_names then Some \<lparr>reg_kind = ''machine'', reg_fn = None\<rparr>
      else None)"

section \<open>Finding a workflow\<close>

definition core_error :: "string \<Rightarrow> ('w, 'a) act" where
  "core_error msg = throw ''CoreOpError'' msg"

text \<open>The rows of op_registry_list (ops/registry.py): source, name, version, and what the index says of them.\<close>

record listed =
  li_source :: string
  li_kind :: string
  li_name :: string
  li_version :: string
  li_indexed :: "(string option \<times> string) option"

definition list_name :: "'x files \<Rightarrow> registry_kind \<Rightarrow> string \<Rightarrow> path \<Rightarrow> index_row list \<Rightarrow> string \<Rightarrow> ('x, listed list) op" where
  "list_name F kind source kind_dir indexed name =
     bindE (versions_below F (join_path kind_dir (False, [name])) kind) (\<lambda>vs.
       ret (map (\<lambda>v. \<lparr>li_source = source, li_kind = k_key kind, li_name = name, li_version = v,
              li_indexed = map_option (\<lambda>x. (x_trust x, x_digest x)) (find (is_row (k_key kind) name v) indexed)\<rparr>) vs))"

definition registry_list :: "'x files \<Rightarrow> string \<Rightarrow> ('x, listed list) op" where
  "registry_list F key =
     bindE (liftR (by_key key)) (\<lambda>kind.
     bindE (gets reg_index) (\<lambda>indexed.
     bindE (mapE (\<lambda>(source, dir).
         let kind_dir = sub_path dir key in
         bindE (outside (list_dir F kind_dir)) (\<lambda>r. case r of
             None \<Rightarrow> ret []
           | Some names \<Rightarrow> bindE (mapE (list_name F kind source kind_dir indexed) (sort names)) (\<lambda>ls. ret (concat ls))))
       ((''data'', data_root F) # (if k_data_only kind then [] else [(''config'', config_root F)]))) (\<lambda>ls.
     ret (concat ls))))"

definition available_workflows_hint :: "'x files \<Rightarrow> ('x, string) op" where
  "available_workflows_hint F =
     bindE (registry_list F ''workflows'') (\<lambda>ls.
     let refs = sort (remdups (map (\<lambda>l. li_name l @ ''@'' @ li_version l) ls)) in
     ret (if refs = [] then ''No workflows are registered - publish one with `awf registry publish`.''
          else ''Available workflows: '' @ join '', '' refs))"

definition resolve_workflow :: "'x files \<Rightarrow> string \<Rightarrow> ('x, workflow) op" where
  "resolve_workflow F workflow_ref =
     (let (name, version) = partition_at (CHR ''@'') workflow_ref in
      bindE (attempt (bindE (if version = [] then latest_version F ''workflows'' name else ret version)
               (\<lambda>v. resolve_registry_object F ''workflows'' name v))) (\<lambda>r. case r of
          Inl e \<Rightarrow>
            if exc_type e = ''RegistryObjectNotFoundError'' then
              bindE (available_workflows_hint F) (\<lambda>hint. core_error (''unknown workflow '' @ str_repr workflow_ref @ ''. '' @ hint))
            else raise e
        | Inr (p, source) \<Rightarrow> load_workflow_at F p))"

section \<open>The gate of a workflow (ops/run_execution.py)\<close>

definition python_names :: "string list" where
  "python_names = [''python'', ''python.exe'', ''py'', ''python3'', ''python3.12'', ''python3.13'', ''python3.14'',
     ''backend/.venv/bin/python'', ''backend/.venv/scripts/python.exe'']"

definition is_python_command :: "string \<Rightarrow> bool" where
  "is_python_command name = (lower (map (\<lambda>c. if c = CHR 0x5C then CHR ''/'' else c) name) \<in> set python_names)"

definition repo_python_executable :: "'x host \<Rightarrow> path \<Rightarrow> ('x, string option) act" where
  "repo_python_executable H repo_root =
     (let windows = sub_path repo_root ''backend/.venv/Scripts/python.exe'';
          linux = sub_path repo_root ''backend/.venv/bin/python'' in
      bindE (is_file H windows) (\<lambda>a.
      if a then ret (Some (as_posix windows))
      else bindE (is_file H linux) (\<lambda>b. ret (if b then Some (as_posix linux) else None))))"

definition check_command_args :: "'x run_env \<Rightarrow> string \<Rightarrow> ('x, string list option) act" where
  "check_command_args R command =
     (let stripped = lower (strip command) in
      if stripped = ''true'' then ret None
      else if stripped = ''false'' then ret (Some [''__awf_false__''])
      else
        bindE (liftR (ru_shlex R command)) (\<lambda>args. case args of
            [] \<Rightarrow> ret (Some [])
          | a # r \<Rightarrow>
              if is_python_command a then
                bindE (repo_python_executable (ru_host R) (ru_repo R)) (\<lambda>selected.
                ret (Some ((case selected of None \<Rightarrow> a | Some p \<Rightarrow> p) # r)))
              else ret (Some (a # r))))"

definition check_of :: "'x run_env \<Rightarrow> path \<Rightarrow> obj \<Rightarrow> string \<Rightarrow> ('x, bool) act" where
  "check_of R wt node command =
     bindE (check_command_args R command) (\<lambda>args. case args of
         None \<Rightarrow> ret True
       | Some cmd \<Rightarrow>
           if cmd = [''__awf_false__''] then ret False
           else
             bindE (liftR (int_of (get_or ''timeoutSeconds'' (JInt 300) node))) (\<lambda>t.
             bindE (attempt (im_run (ru_improve R) cmd wt (of_int t))) (\<lambda>r. case r of
                 Inr (code, out, err) \<Rightarrow> ret (code = 0)
               | Inl e \<Rightarrow> if exc_type e = ''TimeoutExpired'' then ret False else raise e)))"

definition make_check :: "'x run_env \<Rightarrow> path \<Rightarrow> obj \<Rightarrow> ('x \<Rightarrow> bool res \<times> 'x) result" where
  "make_check R wt node =
     (let command = get ''checkCommand'' node in
      if \<not> truthy command then
        andThen (item ''id'' node) (\<lambda>i. fail ''CoreOpError'' (''gate node '' @ quoted (py_str i) @ '' has no checkCommand''))
      else Inr (case command of
          JStr s \<Rightarrow> check_of R wt node s
        | _ \<Rightarrow> throw ''AttributeError'' ''object has no attribute strip''))"

definition risk_from_node_field :: "obj \<Rightarrow> string option result" where
  "risk_from_node_field node =
     (let risk = or_else (get ''risk_class'' node) (get ''riskClass'' node) in
      if \<not> is_hashable risk then fail ''TypeError'' ''unhashable type''
      else Inr (case risk of JStr s \<Rightarrow> (if s \<in> {''R2'', ''R3''} then Some s else None) | _ \<Rightarrow> None))"

definition published_capability :: "'x files \<Rightarrow> json \<Rightarrow> json \<Rightarrow> ('x, capability option) op" where
  "published_capability F name version =
     catchE
       (bindE (liftR (andThen (as_text name) (\<lambda>n. andThen (as_text version) (\<lambda>v. Inr (n, v))))) (\<lambda>(n, v).
        bindE (resolve_registry_object F ''capabilities'' n v) (\<lambda>(p, source).
        bindE (load_capability_at F p) (\<lambda>c. ret (Some c)))))
       (\<lambda>_. ret None)"

definition capability_for_node :: "'x files \<Rightarrow> obj \<Rightarrow> ('x, capability option) op" where
  "capability_for_node F node =
     (let declared = get ''capability'' node in
      if truthy declared then
        (case declared of
           JObj d \<Rightarrow> if has_key ''name'' d \<and> has_key ''version'' d
             then published_capability F (get ''name'' d) (get ''version'' d) else ret None
         | _ \<Rightarrow> ret None)
      else if get ''type'' node = JStr ''activity'' \<and> truthy (get ''function'' node)
        then published_capability F (get ''function'' node) (JStr ''1.0.0'')
      else ret None)"

definition high_risk_reason :: "'x files \<Rightarrow> obj \<Rightarrow> ('x, string option) op" where
  "high_risk_reason F node =
     bindE (liftR (item ''id'' node)) (\<lambda>i.
     if truthy (get ''guardBypassed'' node) then ret (Some (py_str i @ '':guard_bypassed''))
     else
       bindE (liftR (risk_from_node_field node)) (\<lambda>risk. case risk of
           Some r \<Rightarrow> ret (Some (py_str i @ '':declared_'' @ r))
         | None \<Rightarrow>
             bindE (capability_for_node F node) (\<lambda>c. ret (case c of
                 None \<Rightarrow> None
               | Some cap \<Rightarrow>
                   if risk_class cap \<in> {''R2'', ''R3''} then Some (py_str i @ '':'' @ cap_ref cap @ '':'' @ risk_class cap)
                   else if approval cap = ''per-invocation'' then Some (py_str i @ '':'' @ cap_ref cap @ '':approval_per_invocation'')
                   else None))))"

text \<open>The nodes before the gate, in their order, until one is a reason.\<close>

primrec first_reason :: "'x files \<Rightarrow> json \<Rightarrow> obj list \<Rightarrow> ('x, string option) op" where
  "first_reason F gate_id [] = ret None"
| "first_reason F gate_id (n # ns) =
     (if get ''id'' n = gate_id then ret None
      else bindE (high_risk_reason F n) (\<lambda>r. case r of Some c \<Rightarrow> ret (Some c) | None \<Rightarrow> first_reason F gate_id ns))"

definition effective_gate_tier :: "'x files \<Rightarrow> workflow \<Rightarrow> obj \<Rightarrow> ('x, string \<times> string option) op" where
  "effective_gate_tier F flow node =
     bindE (liftR (item ''id'' node)) (\<lambda>i.
     let explicit_tier = get ''tier'' node in
     if explicit_tier = JStr ''high-risk'' then ret (''high-risk'', Some (py_str i @ '':explicit_high_risk''))
     else
       bindE (high_risk_reason F node) (\<lambda>own. case own of
           Some c \<Rightarrow> ret (''high-risk'', Some c)
         | None \<Rightarrow>
             bindE (first_reason F i (wf_nodes flow)) (\<lambda>earlier. ret (case earlier of
                 Some c \<Rightarrow> (''high-risk'', Some c)
               | None \<Rightarrow> (py_str (or_else explicit_tier (JStr ''default'')), None)))))"

definition resolve_named_review_profile :: "'x run_env \<Rightarrow> string \<Rightarrow> obj \<Rightarrow> ('x, model_profile option \<times> string option) op" where
  "resolve_named_review_profile R field node =
     (let F = ru_files R; review_ref = get field node in
      if \<not> truthy review_ref then ret (None, None)
      else
        bindE (liftR (text_attr review_ref)) (\<lambda>r.
        let (name, version) = partition_at (CHR ''@'') r in
        bindE (resolve_registry_object F ''model-profiles'' name version) (\<lambda>(p, source).
        bindE (load_model_profile F p) (\<lambda>profile.
        bindE (attempt (outside (get_env_value F (env_path (ru_repo R)) ''AWF_SECRET_KEY''))) (\<lambda>k. case k of
            Inr key \<Rightarrow> ret (Some profile, Some key)
          | Inl e \<Rightarrow> if exc_type e \<in> {''FileNotFoundError'', ''KeyError''} then ret (Some profile, None) else raise e)))))"

definition gpu_utilization_ceiling :: rat where
  "gpu_utilization_ceiling = 55 / 100"

definition gate_of :: "'x run_env \<Rightarrow> path \<Rightarrow> path \<Rightarrow> workflow \<Rightarrow> obj \<Rightarrow> ('x, 'x gate_env) op" where
  "gate_of R wt scratch flow node =
     bindE (effective_gate_tier (ru_files R) flow node) (\<lambda>(gate_tier, reason).
     bindE (resolve_named_review_profile R ''reviewProfile'' node) (\<lambda>(judge, judge_key).
     bindE (resolve_named_review_profile R ''adversaryReviewProfile'' node) (\<lambda>(opponent, opponent_key).
     bindE (liftR (make_check R wt node)) (\<lambda>check.
     bindE (liftR (item ''id'' node)) (\<lambda>i.
     ret \<lparr>check_fn = check, check_summary = py_str (get_or ''check'' i node), tier = gate_tier,
          sandbox_listing = Some (ru_listing R scratch), guard_bypassed = truthy (get ''guardBypassed'' node),
          review_profile = judge, adversary_profile = opponent, review_key = judge_key, adversary_key = opponent_key,
          last_commit_diff = Some (worktree_diff (ru_host R) wt), tier_reason = reason, gate_gw = ru_gateway R,
          gpu_ceiling = gpu_utilization_ceiling, gpu_sample = ru_gpu R, hash = json_hash R,
          put_file = (\<lambda>n v. store_file (ru_machine R) n (dumps (ru_machine R) v))\<rparr>)))))"

section \<open>Executors and child runs\<close>

text \<open>
  The loop over the nodes stores each gate's executor under one key, so the last gate's remains; the
  same goes for the handoff executor, which does not depend on its node.
\<close>

type_synonym 'x prepared = "'x gate_env option \<times> bool"

definition set_up_node :: "'x run_env \<Rightarrow> path \<Rightarrow> path \<Rightarrow> workflow \<Rightarrow> obj \<Rightarrow> 'x prepared \<Rightarrow> ('x, 'x prepared) op" where
  "set_up_node R wt scratch flow node = (\<lambda>(gate, handoff).
     bindE (liftR (item ''type'' node)) (\<lambda>ty.
     if ty = JStr ''gate'' then bindE (gate_of R wt scratch flow node) (\<lambda>g. ret (Some g, handoff))
     else ret (gate, handoff \<or> ty = JStr ''handoff'')))"

definition set_up :: "'x run_env \<Rightarrow> path \<Rightarrow> path \<Rightarrow> workflow \<Rightarrow> ('x, 'x prepared) op" where
  "set_up R wt scratch flow = foldE (set_up_node R wt scratch flow) (wf_nodes flow) (None, False)"

definition node_env_of :: "'x run_env \<Rightarrow> path \<Rightarrow> json \<Rightarrow> 'x node_env" where
  "node_env_of R wt input = \<lparr>no_agent = ru_agent R, no_adapters = ru_adapters R, no_activities = activity_registry R,
     no_worktree = wt, no_repo = Some (ru_repo R), no_input = input, no_json = im_json (ru_improve R), no_schema_error = ru_schema R\<rparr>"

definition node_executors ::
  "'x run_env \<Rightarrow> 'x run_child \<Rightarrow> 'x run_map_item \<Rightarrow> path \<Rightarrow> json \<Rightarrow> 'x prepared \<Rightarrow> string \<Rightarrow> 'x executor option" where
  "node_executors R run_child run_map_item wt input = (\<lambda>(gate, handoff) ty.
     let N = node_env_of R wt input in
     if ty = ''agent'' then Some (agent_executor N)
     else if ty = ''activity'' then Some (activity_executor N)
     else if ty = ''approval'' then Some (approval_executor (json_hash R))
     else if ty = ''subworkflow'' then Some (subworkflow_executor run_child)
     else if ty = ''map'' then Some (map_executor N (ru_turns R) run_map_item (ru_repo R))
     else if ty = ''loop'' then Some (loop_executor run_child)
     else if ty = ''gate'' then map_option gate_executor gate
     else if ty = ''handoff'' \<and> handoff then Some (handoff_executor N)
     else None)"

definition engine_of ::
  "'x run_env \<Rightarrow> 'x run_child \<Rightarrow> 'x run_map_item \<Rightarrow> path \<Rightarrow> json \<Rightarrow> 'x prepared \<Rightarrow> 'x engine" where
  "engine_of R run_child run_map_item wt input s =
     \<lparr>executors = node_executors R run_child run_map_item wt input s, uniform = ru_uniform R, sleep = ru_sleep R,
      output_error = (\<lambda>schema v. ru_brief R schema v)\<rparr>"

definition failed_result :: "exc \<Rightarrow> obj" where
  "failed_result e = [(''status'', JStr ''FAILED''), (''error'', JStr (exc_text e))]"

definition run_workflow_safely :: "'x engine \<Rightarrow> nat \<Rightarrow> string \<Rightarrow> workflow \<Rightarrow> ('x, obj) op" where
  "run_workflow_safely E fuel run_id flow =
     catchE (run_workflow_definition E fuel run_id flow)
       (\<lambda>e. seqE (set_run_status run_id RUN_FAILED) (ret (failed_result e)))"

text \<open>A run of a workflow in a given worktree and scratch directory, as start_child and start_item need it.\<close>

type_synonym 'x run_flow = "workflow \<Rightarrow> path \<Rightarrow> path \<Rightarrow> json \<Rightarrow> string \<Rightarrow> ('x, obj) op"

definition settle_child :: "'x run_env \<Rightarrow> 'x run_flow \<Rightarrow> workflow \<Rightarrow> path \<Rightarrow> path \<Rightarrow> json \<Rightarrow> string \<Rightarrow> ('x, string \<times> obj) op" where
  "settle_child R run_flow flow wt scratch input child =
     bindE (catchE (run_flow flow wt scratch input child)
              (\<lambda>e. seqE (set_run_status child RUN_FAILED) (ret (failed_result e)))) (\<lambda>result.
     seqE (outside (remove_scratch_dir (ru_host R) (ru_repo R) child)) (ret (child, result)))"

definition start_child :: "'x run_env \<Rightarrow> 'x run_flow \<Rightarrow> path \<Rightarrow> 'x run_child" where
  "start_child R run_flow wt flow_ref input =
     bindE (liftR (text_attr flow_ref)) (\<lambda>r.
     bindE (resolve_workflow (ru_files R) r) (\<lambda>flow.
     bindE uuid7 (\<lambda>child.
     seqE (create_run child (wf_ref flow) input) (
     bindE (outside (create_scratch_dir (ru_host R) (ru_repo R) child)) (\<lambda>scratch.
       settle_child R run_flow flow wt scratch input child)))))"

definition as_setup_error :: "nat \<Rightarrow> ('x, 'a) op \<Rightarrow> ('x, 'a) op" where
  "as_setup_error i m = catchE m (\<lambda>e.
     if exc_type e = ''OperationalError''
     then throw ''RuntimeError'' (''map item '' @ nat_str i @ '': child run setup failed: '' @ exc_text e) else raise e)"

definition start_item :: "'x run_env \<Rightarrow> 'x run_flow \<Rightarrow> 'x run_map_item" where
  "start_item R run_flow head i flow_ref x =
     (let input = JObj [(''item'', x), (''index'', JInt (int i))] in
      bindE (as_setup_error i (
        bindE (liftR (text_attr flow_ref)) (\<lambda>r.
        bindE (resolve_workflow (ru_files R) r) (\<lambda>flow.
        bindE uuid7 (\<lambda>child.
        seqE (create_run child (wf_ref flow) input) (
        bindE (outside (create_worktree (ru_host R) (ru_repo R) child head)) (\<lambda>wt.
        bindE (outside (create_scratch_dir (ru_host R) (ru_repo R) child)) (\<lambda>scratch.
        ret (flow, child, wt, scratch)))))))))
        (\<lambda>(flow, child, wt, scratch). settle_child R run_flow flow wt scratch input child))"

text \<open>Runs nest: a child is run by the same code, one level deeper in the interpreter's stack.\<close>

primrec run_flow :: "nat \<Rightarrow> 'x run_env \<Rightarrow> 'x run_flow" where
  "run_flow 0 R flow wt scratch input run_id = throw ''RecursionError'' ''maximum recursion depth exceeded''"
| "run_flow (Suc depth) R flow wt scratch input run_id =
     bindE (set_up R wt scratch flow) (\<lambda>s.
       run_workflow_safely (engine_of R (start_child R (run_flow depth R) wt) (start_item R (run_flow depth R)) wt input s)
         (ru_fuel R) run_id flow)"

section \<open>What is told of a run (ops/run.py)\<close>

definition put :: "string \<Rightarrow> json \<Rightarrow> obj \<Rightarrow> obj" where
  "put k v d = AList.update k v d"

definition detail :: "string \<Rightarrow> string \<Rightarrow> obj \<Rightarrow> string list" where
  "detail k label d = (if has_key k d then [label @ '': '' @ py_str (get k d)] else [])"

definition default_response_text :: "string \<Rightarrow> obj \<Rightarrow> string" where
  "default_response_text flow_ref result =
     (let st = get_or ''status'' (JStr ''UNKNOWN'') result in
      if st = JStr ''SUCCEEDED'' then
        let details = detail ''repairs_used'' ''repairs used'' result @ detail ''hops_used'' ''hops used'' result @
              (if truthy (get ''verdict_artifact_id'' result) then [''verdict: '' @ py_str (get ''verdict_artifact_id'' result)] else []) in
        ''Workflow '' @ flow_ref @ '' succeeded'' @ (if details = [] then [] else '' ('' @ join ''; '' details @ '')'') @ ''.''
      else if truthy (get ''error'' result) then ''Workflow '' @ flow_ref @ '' failed: '' @ py_str (get ''error'' result)
      else if truthy (get ''reason'' result) then
        ''Workflow '' @ flow_ref @ '' finished with status '' @ py_str st @ '': '' @ py_str (get ''reason'' result)
      else ''Workflow '' @ flow_ref @ '' finished with status '' @ py_str st @ ''.'')"

definition with_response_text :: "string \<Rightarrow> obj \<Rightarrow> obj" where
  "with_response_text flow_ref result =
     (let outs = as_obj (get ''outputs'' result) in
      put ''outputs'' (JObj (if is_str (get ''response_text'' outs) then outs
        else put ''response_text'' (JStr (default_response_text flow_ref result)) outs)) result)"

definition artifact_type_str :: "artifact_type \<Rightarrow> string" where
  "artifact_type_str t = (case t of CANDIDATE \<Rightarrow> ''candidate'' | PLAN \<Rightarrow> ''plan'' | PATCH \<Rightarrow> ''patch'' | REPORT \<Rightarrow> ''report''
     | TEST_RESULT \<Rightarrow> ''test-result'' | FINDING \<Rightarrow> ''finding'' | VERDICT \<Rightarrow> ''verdict'')"

definition step_status_str :: "step_status \<Rightarrow> string" where
  "step_status_str s = (case s of PENDING \<Rightarrow> ''PENDING'' | READY \<Rightarrow> ''READY'' | RUNNING \<Rightarrow> ''RUNNING''
     | WAITING_INPUT \<Rightarrow> ''WAITING_INPUT'' | WAITING_APPROVAL \<Rightarrow> ''WAITING_APPROVAL'' | RETRY_WAIT \<Rightarrow> ''RETRY_WAIT''
     | SUCCEEDED \<Rightarrow> ''SUCCEEDED'' | FAILED \<Rightarrow> ''FAILED'' | SKIPPED \<Rightarrow> ''SKIPPED'' | CANCELED \<Rightarrow> ''CANCELED'')"

definition jval :: "json option \<Rightarrow> json" where
  "jval v = (case v of None \<Rightarrow> JNull | Some j \<Rightarrow> j)"

text \<open>dict(row): a column that holds JSON text is shown as the value.\<close>

definition run_dict :: "run_row \<Rightarrow> obj" where
  "run_dict r = [(''run_id'', JStr (r_id r)), (''workflow_ref'', JStr (r_workflow r)), (''status'', JStr (run_status_str (r_status r))),
     (''input_json'', r_input r), (''output_json'', jval (r_output r)), (''budget_json'', r_budget r),
     (''created_at'', JStr (r_created r)), (''updated_at'', JStr (r_updated r))]"

definition step_dict :: "step_row \<Rightarrow> json" where
  "step_dict s = JObj [(''step_id'', JStr (s_id s)), (''run_id'', JStr (s_run s)), (''node_id'', JStr (s_node s)),
     (''attempt'', JInt (int (s_attempt s))), (''status'', JStr (step_status_str (s_status s))), (''input_json'', s_input s),
     (''output_json'', jval (s_output s)), (''failure_class'', jopt (s_fclass s)), (''started_at'', JStr (s_started s)),
     (''ended_at'', jopt (s_ended s))]"

definition response_text_from_run_record :: "run_row \<Rightarrow> string" where
  "response_text_from_run_record r =
     (let st = run_status_str (r_status r); flow_ref = r_workflow r in
      case r_output r of
        Some (JObj d) \<Rightarrow>
          let outs = as_obj (get ''outputs'' d) in
          if is_str (get ''response_text'' outs) then py_str (get ''response_text'' outs)
          else if is_str (get ''error'' d) then ''Workflow '' @ flow_ref @ '' failed: '' @ py_str (get ''error'' d)
          else if is_str (get ''reason'' d) then
            ''Workflow '' @ flow_ref @ '' finished with status '' @ st @ '': '' @ py_str (get ''reason'' d)
          else default_response_text flow_ref [(''status'', JStr st)]
      | _ \<Rightarrow> default_response_text flow_ref [(''status'', JStr st)])"

definition artifact_brief :: "artifact_row \<Rightarrow> obj" where
  "artifact_brief f = [(''artifact_id'', JStr (f_id f)), (''type'', JStr (artifact_type_str (f_type f))), (''path'', JStr (f_path f))]"

definition failure_dict :: "step_row \<Rightarrow> json" where
  "failure_dict s = JObj [(''step_id'', JStr (s_id s)), (''node_id'', JStr (s_node s)), (''failure_class'', jopt (s_fclass s)),
     (''output'', (case s_output s of Some v \<Rightarrow> v | None \<Rightarrow> JObj []))]"

definition pending_dict :: "approval_row \<Rightarrow> json" where
  "pending_dict a = JObj [(''approval_id'', JStr (a_id a)), (''risk_class'', jopt (a_risk a)), (''action_digest'', JStr (a_digest a))]"

definition evidence_types :: "artifact_type list" where
  "evidence_types = [VERDICT, FINDING, TEST_RESULT, REPORT]"

definition proposal_action :: "obj \<Rightarrow> string" where
  "proposal_action p =
     (let act = as_obj (get ''next_action'' p); cmd = get ''command'' act;
          label = py_str (or_else (get ''label'' act) (JStr ''Review proposal'')) in
      if truthy cmd then label @ '': '' @ py_str cmd else label)"

definition run_action :: "run_status \<Rightarrow> nat \<Rightarrow> bool \<Rightarrow> string" where
  "run_action st waiting_count has_evidence =
     (if waiting_count > 0 then ''Review '' @ nat_str waiting_count @ '' pending approval(s) with `awf review list`.''
      else if st = RUN_FAILED then ''Inspect the failed step and artifacts, then rerun or prepare a repair.''
      else if st \<in> {RUN_WAITING_INPUT, RUN_WAITING_APPROVAL} then ''Resume after supplying the requested operator input or approval.''
      else if st = RUN_SUCCEEDED then
        (if has_evidence then ''Review the evidence artifacts if this result will be used for follow-up work.''
         else ''No operator action required.'')
      else ''Check run status again or resume after a restart.'')"

text \<open>The proposal of the run, if there is one and it can be shown.\<close>

definition proposal_of_run :: "'x improve_env \<Rightarrow> string \<Rightarrow> ('x, obj option) op" where
  "proposal_of_run I run_id =
     catchE
       (bindE (gets (\<lambda>w. find (\<lambda>p. i_run p = run_id) (improvements w))) (\<lambda>p. case p of
            None \<Rightarrow> ret None
          | Some x \<Rightarrow> bindE (get_proposal I (i_id x)) (\<lambda>d. ret (Some d))))
       (\<lambda>_. ret None)"

definition outcome_dict :: "run_row \<Rightarrow> step_row list \<Rightarrow> artifact_row list \<Rightarrow> approval_row list \<Rightarrow> obj option \<Rightarrow> obj" where
  "outcome_dict r ss fs aps proposal =
     (let waiting_list = filter (\<lambda>a. a_status a = Pending) aps; evidence = filter (\<lambda>f. f_type f \<in> set evidence_types) fs in
      [(''run_id'', JStr (r_id r)), (''workflow_ref'', JStr (r_workflow r)), (''status'', JStr (run_status_str (r_status r))),
       (''response_text'', JStr (response_text_from_run_record r)), (''evidence'', JList (map (\<lambda>f. JObj (artifact_brief f)) evidence)),
       (''artifacts'', JList (map (\<lambda>f. JObj (artifact_brief f @ [(''complete'', JBool (f_complete f))])) fs)),
       (''failures'', JList (map failure_dict (filter (\<lambda>s. s_status s = FAILED) ss))),
       (''pending_approvals'', JList (map pending_dict waiting_list)),
       (''created_at'', JStr (r_created r)), (''updated_at'', JStr (r_updated r)),
       (''next_action'', JStr (case proposal of Some p \<Rightarrow> proposal_action p
          | None \<Rightarrow> run_action (r_status r) (length waiting_list) (evidence \<noteq> [])))] @
      (case proposal of None \<Rightarrow> [] | Some p \<Rightarrow> [(''proposal'', JObj p)]))"

definition steps_of :: "string \<Rightarrow> 'x world \<Rightarrow> step_row list" where
  "steps_of run_id w = sort_key s_started (filter (\<lambda>s. s_run s = run_id) (steps w))"

definition run_outcome :: "'x improve_env \<Rightarrow> run_row \<Rightarrow> ('x, obj) op" where
  "run_outcome I r =
     bindE (gets (steps_of (r_id r))) (\<lambda>ss.
     bindE (gets (\<lambda>w. sort_key f_created (filter (\<lambda>f. f_run f = r_id r) (artifacts w)))) (\<lambda>fs.
     bindE (gets (\<lambda>w. sort_key a_requested (filter (\<lambda>a. a_run a = r_id r) (approvals w)))) (\<lambda>aps.
     bindE (proposal_of_run I (r_id r)) (\<lambda>proposal. ret (outcome_dict r ss fs aps proposal)))))"

definition find_run :: "string \<Rightarrow> ('x, run_row option) op" where
  "find_run run_id = gets (\<lambda>w. find (\<lambda>r. r_id r = run_id) (runs w))"

definition op_run_outcome :: "'x improve_env \<Rightarrow> string \<Rightarrow> ('x, obj) op" where
  "op_run_outcome I run_id =
     bindE (find_run run_id) (\<lambda>row. case row of
         None \<Rightarrow> core_error (''no such run: '' @ run_id)
       | Some r \<Rightarrow> run_outcome I r)"

definition op_run_status :: "'x improve_env \<Rightarrow> string \<Rightarrow> ('x, obj) op" where
  "op_run_status I run_id =
     bindE (find_run run_id) (\<lambda>row. case row of
         None \<Rightarrow> core_error (''no such run: '' @ run_id)
       | Some r \<Rightarrow>
           bindE (run_outcome I r) (\<lambda>o1.
           bindE (gets (steps_of run_id)) (\<lambda>ss.
           ret (run_dict r @ [(''steps'', JList (map step_dict ss)), (''outcome'', JObj o1)]))))"

definition op_run_list :: "'x improve_env \<Rightarrow> ('x, obj list) op" where
  "op_run_list I =
     bindE (gets (\<lambda>w. sort_key r_created (runs w))) (mapE (\<lambda>r.
       bindE (run_outcome I r) (\<lambda>o1.
       ret [(''run_id'', JStr (r_id r)), (''workflow_ref'', JStr (r_workflow r)), (''status'', JStr (run_status_str (r_status r))),
            (''created_at'', JStr (r_created r)), (''updated_at'', JStr (r_updated r)), (''outcome'', JObj o1)])))"

section \<open>Starting and resuming (ops/run.py)\<close>

text \<open>
  An input whose only objective is given under that name is renamed to the one required property of the
  schema.  A required name that is no string is refused here; jsonschema refuses such a schema next.
\<close>

definition keep_extra :: "bool \<Rightarrow> obj \<Rightarrow> obj \<Rightarrow> obj \<Rightarrow> obj" where
  "keep_extra allows_extra properties input start =
     fold (\<lambda>(k, v) d. if k \<noteq> ''objective'' \<and> (allows_extra \<or> has_key k properties) then put k v d else d) input start"

definition adapt_objective_input :: "obj \<Rightarrow> json \<Rightarrow> obj result" where
  "adapt_objective_input input schema = (case map_of input ''objective'' of
       Some (JStr objective) \<Rightarrow>
         andThen (get_attr schema) (\<lambda>d.
         case get ''required'' d of
           JList [target] \<Rightarrow>
             if target = JStr ''objective'' then Inr input
             else
               (case target of
                 JStr t \<Rightarrow>
                   andThen (get_attr (get_or ''properties'' (JObj []) d)) (\<lambda>properties.
                   let target_type = (case get_or t (JObj []) properties of JObj ts \<Rightarrow> get ''type'' ts | _ \<Rightarrow> JNull) in
                   if target_type \<noteq> JNull \<and> target_type \<noteq> JStr ''string'' then Inr input
                   else Inr (keep_extra (get_or ''additionalProperties'' (JBool True) d \<noteq> JBool False) properties input
                          [(t, JStr objective)]))
               | _ \<Rightarrow> fail ''SchemaError'' (py_repr target @ '' is not of type '' @ quoted ''string''))
         | _ \<Rightarrow> Inr input)
     | _ \<Rightarrow> Inr input)"

definition retain_worktree :: "string \<Rightarrow> json \<Rightarrow> bool result" where
  "retain_worktree flow_ref input =
     (if starts_with ''self-improvement@'' flow_ref then Inr True
      else andThen (get_attr input) (\<lambda>d. Inr (get ''retainWorktreeForImprovement'' d = JBool True)))"

definition cleanup_run_workspace :: "'x run_env \<Rightarrow> string \<Rightarrow> obj \<Rightarrow> bool \<Rightarrow> ('x, unit) op" where
  "cleanup_run_workspace R run_id result retain =
     (let st = get ''status'' result in
      seqE (whenE (st = JStr ''SUCCEEDED'' \<and> \<not> retain) (outside (remove_worktree (ru_host R) (ru_repo R) run_id)))
        (whenE (st \<in> set (map JStr [''SUCCEEDED'', ''FAILED'', ''CANCELED'']))
          (outside (remove_scratch_dir (ru_host R) (ru_repo R) run_id))))"

definition record_output :: "string \<Rightarrow> obj \<Rightarrow> ('x, unit) op" where
  "record_output run_id result =
     bindE utc_now_rfc3339 (\<lambda>now. update_runs run_id (\<lambda>r. r\<lparr>r_output := Some (JObj result), r_updated := now\<rparr>))"

definition walk :: "nat \<Rightarrow> 'x run_env \<Rightarrow> string \<Rightarrow> workflow \<Rightarrow> json \<Rightarrow> path \<Rightarrow> path \<Rightarrow> ('x, obj) op" where
  "walk depth R run_id flow input wt scratch =
     bindE (set_up R wt scratch flow) (\<lambda>s.
     bindE (run_workflow_safely (engine_of R (start_child R (run_flow depth R) wt) (start_item R (run_flow depth R)) wt input s)
              (ru_fuel R) run_id flow) (\<lambda>r.
     let result = with_response_text (wf_ref flow) r in
     seqE (record_output run_id result) (ret result)))"

text \<open>After a successful self-improvement run: a proposal, ready for review if a gate gave a verdict.\<close>

definition propose :: "'x run_env \<Rightarrow> string \<Rightarrow> obj \<Rightarrow> obj \<Rightarrow> ('x, unit) op" where
  "propose R run_id input result =
     (let I = ru_improve R; objective = get ''objective'' input in
      catchE
        (bindE (if truthy objective then liftR (sql_text objective) else ret (Some (''Improvement from run '' @ run_id))) (\<lambda>summary.
         bindE (prepare I run_id summary) (\<lambda>p.
         case (get ''verdict_artifact_id'' (as_obj (get ''outputs'' result)), get ''improvement_id'' p) of
             (JStr v, JStr i) \<Rightarrow>
               if v = [] then ret () else catchE (seqE (mark_ready I i v [v]) (ret ())) (\<lambda>_. ret ())
           | _ \<Rightarrow> ret ())))
        (\<lambda>_. ret ()))"

definition execute_run :: "nat \<Rightarrow> 'x run_env \<Rightarrow> string \<Rightarrow> workflow \<Rightarrow> obj \<Rightarrow> path \<Rightarrow> path \<Rightarrow> ('x, obj) op" where
  "execute_run depth R run_id flow input wt scratch =
     bindE (walk depth R run_id flow (JObj input) wt scratch) (\<lambda>result.
     bindE (liftR (retain_worktree (wf_ref flow) (JObj input))) (\<lambda>retain.
     seqE (whenE (get ''status'' result = JStr ''SUCCEEDED'' \<and> retain) (propose R run_id input result)) (
     seqE (cleanup_run_workspace R run_id result retain) (
     bindE (op_run_outcome (ru_improve R) run_id) (\<lambda>o1.
       ret (put ''outcome'' (JObj o1) (merge_obj [(''run_id'', JStr run_id)] result)))))))"

text \<open>What op_run_start does before it executes: run_id, workflow, adapted input, worktree and scratch directory.\<close>

definition open_run :: "'x run_env \<Rightarrow> string \<Rightarrow> obj \<Rightarrow> ('x, string \<times> workflow \<times> obj \<times> path \<times> path) op" where
  "open_run R flow_ref input_data =
     bindE (resolve_workflow (ru_files R) flow_ref) (\<lambda>flow.
     bindE (liftR (adapt_objective_input input_data (wf_input_schema flow))) (\<lambda>input.
     case ru_brief R (wf_input_schema flow) (JObj input) of
       Some msg \<Rightarrow> core_error (''input does not match '' @ wf_ref flow @ CHR 0x27 # ''s inputSchema: '' @ msg)
     | None \<Rightarrow>
         bindE uuid7 (\<lambda>run_id.
         seqE (create_run run_id (wf_ref flow) (JObj input)) (
         bindE (outside (create_worktree (ru_host R) (ru_repo R) run_id ''HEAD'')) (\<lambda>wt.
         bindE (outside (create_scratch_dir (ru_host R) (ru_repo R) run_id)) (\<lambda>scratch.
           ret (run_id, flow, input, wt, scratch)))))))"

definition op_run_start :: "nat \<Rightarrow> 'x run_env \<Rightarrow> string \<Rightarrow> obj \<Rightarrow> ('x, obj) op" where
  "op_run_start depth R flow_ref input_data =
     bindE (open_run R flow_ref input_data) (\<lambda>(run_id, flow, input, wt, scratch).
       execute_run depth R run_id flow input wt scratch)"

text \<open>With async_execution: the reply, and the job that the worker thread will do.\<close>

definition background_worker :: "nat \<Rightarrow> 'x run_env \<Rightarrow> string \<Rightarrow> workflow \<Rightarrow> obj \<Rightarrow> path \<Rightarrow> path \<Rightarrow> ('x, unit) op" where
  "background_worker depth R run_id flow input wt scratch =
     catchE (seqE (execute_run depth R run_id flow input wt scratch) (ret ()))
       (\<lambda>_. catchE (set_run_status run_id RUN_FAILED) (\<lambda>_. ret ()))"

definition op_run_start_async :: "nat \<Rightarrow> 'x run_env \<Rightarrow> string \<Rightarrow> obj \<Rightarrow> ('x, obj \<times> ('x, unit) op) op" where
  "op_run_start_async depth R flow_ref input_data =
     bindE (open_run R flow_ref input_data) (\<lambda>(run_id, flow, input, wt, scratch).
     seqE (set_run_status run_id RUN_RUNNING)
       (ret ([(''run_id'', JStr run_id), (''status'', JStr ''RUNNING''), (''workflow_ref'', JStr (wf_ref flow))],
             background_worker depth R run_id flow input wt scratch)))"

definition resume_run :: "nat \<Rightarrow> 'x run_env \<Rightarrow> string \<Rightarrow> ('x, obj) op" where
  "resume_run depth R run_id =
     seqE (reset_interrupted_node_steps run_id) (
     bindE (bindE (find_run run_id) (demand none_type)) (\<lambda>r.
     bindE (resolve_workflow (ru_files R) (r_workflow r)) (\<lambda>flow.
     bindE (walk depth R run_id flow (r_input r) (worktree_path (ru_repo R) run_id) (scratch_path (ru_repo R) run_id)) (\<lambda>result.
     bindE (liftR (retain_worktree (r_workflow r) (r_input r))) (\<lambda>retain.
     seqE (cleanup_run_workspace R run_id result retain) (
     bindE (op_run_outcome (ru_improve R) run_id) (\<lambda>o1.
       ret (put ''outcome'' (JObj o1) (merge_obj [(''run_id'', JStr run_id)] result)))))))))"

definition op_run_resume :: "nat \<Rightarrow> 'x run_env \<Rightarrow> ('x, obj list) op" where
  "op_run_resume depth R = bindE scan_incomplete_runs (mapE (resume_run depth R))"

section \<open>What runs keep on record\<close>

lemma carries_core_error [carry]: "carries I (core_error m)"
  unfolding core_error_def by (rule carries_throw)

lemma carries_system_run [carry]: "carries (kept w0) ensure_system_run"
  unfolding ensure_system_run_def by (intro carry)

lemma carries_activities [carry]:
  "carries (kept w0) (run_hardware_profiler R)" "carries (kept w0) (record_sidecar_event c p)"
  "carries (kept w0) (llm_server_ensure R)" "carries (kept w0) (gpu_utilization_sample R)"
  unfolding run_hardware_profiler_def record_sidecar_event_def llm_server_ensure_def gpu_utilization_sample_def
  by (intro carry)+

lemma registry_recording: "recording_activities (activity_registry R)"
  unfolding recording_activities_def activity_registry_def local_activity_def
  by (auto split: if_splits intro!: carry)

lemma carries_registry_list [carry]: "carries (kept w0) (registry_list F k)"
  unfolding registry_list_def list_name_def Let_def by (intro carry)

lemma carries_resolve_workflow [carry]: "carries (kept w0) (resolve_workflow F r)"
  unfolding resolve_workflow_def available_workflows_hint_def Let_def by (intro carry)

lemma carries_gate_setup [carry]:
  "carries (kept w0) (capability_for_node F n)" "carries (kept w0) (high_risk_reason F n)"
  "carries (kept w0) (effective_gate_tier F flow n)" "carries (kept w0) (gate_of R wt sc flow n)"
proof -
  show cap: "carries (kept w0) (capability_for_node F n)" for n
    unfolding capability_for_node_def published_capability_def Let_def by (intro carry)
  show reason: "carries (kept w0) (high_risk_reason F n)" for F n
    unfolding high_risk_reason_def capability_for_node_def published_capability_def Let_def by (intro carry)
  have "carries (kept w0) (first_reason F i ns)" for F i ns
    by (induction ns) (auto intro!: carry reason simp only: first_reason.simps)
  then show tier: "carries (kept w0) (effective_gate_tier F flow n)" for F
    unfolding effective_gate_tier_def Let_def by (intro carry reason)
  show "carries (kept w0) (gate_of R wt sc flow n)"
    unfolding gate_of_def resolve_named_review_profile_def Let_def by (intro carry tier)
qed

lemma carries_set_up [carry]: "carries (kept w0) (set_up R wt sc flow)"
  unfolding set_up_def set_up_node_def by (intro carry)

text \<open>The executors that a workflow is given meet the contract of the engine, if the child runs do.\<close>

lemma node_executors_kept:
  assumes "\<And>f i. carries (kept w0) (child f i)" "\<And>h i f x. carries (kept w0) (run_item h i f x)"
    and "node_executors R child run_item wt input s ty = Some ex"
  shows "carries (kept w0) (ex r i n)"
proof -
  have "carries (kept w0) (activity_executor (node_env_of R wt input) r i n)"
    by (rule carries_activity_executor) (simp add: node_env_of_def registry_recording)
  moreover have "carries (kept w0) (subworkflow_executor child r i n)" "carries (kept w0) (loop_executor child r i n)"
    "carries (kept w0) (map_executor (node_env_of R wt input) (ru_turns R) run_item (ru_repo R) r i n)"
    by (rule carries_subworkflow_executor carries_loop_executor carries_map_executor, rule assms)+
  ultimately show ?thesis
    using assms(3) unfolding node_executors_def
    by (auto simp: Let_def split: prod.splits if_splits intro: carry)
qed

lemma safely_kept:
  assumes "recording_executors E"
  shows "carries (kept w0) (run_workflow_safely E fuel r flow)"
  unfolding run_workflow_safely_def by (intro carry recording_executors.run_kept [OF assms])


lemma child_kept:
  assumes "\<And>flow wt sc i r. carries (kept w0) (rf flow wt sc i r)"
  shows "carries (kept w0) (start_child R rf wt f i)" "carries (kept w0) (start_item R rf h k f x)"
proof -
  have settled: "carries (kept w0) (settle_child R rf flow wt sc i c)" for flow wt sc i c
    unfolding settle_child_def by (intro carry assms)
  show "carries (kept w0) (start_child R rf wt f i)" "carries (kept w0) (start_item R rf h k f x)"
    unfolding start_child_def start_item_def as_setup_error_def Let_def by (intro carry settled)+
qed

abbreviation nested_engine :: "nat \<Rightarrow> 'x run_env \<Rightarrow> path \<Rightarrow> json \<Rightarrow> 'x prepared \<Rightarrow> 'x engine" where
  "nested_engine depth R wt input s \<equiv>
     engine_of R (start_child R (run_flow depth R) wt) (start_item R (run_flow depth R)) wt input s"

lemma run_flow_kept: "carries (kept w0) (run_flow depth R flow wt sc i r)"
proof (induction depth arbitrary: w0 flow wt sc i r)
  case 0
  show ?case by (simp add: carries_throw)
next
  case (Suc depth)
  have "recording_executors (nested_engine depth R wt i s)" for s
    by unfold_locales (auto simp: engine_of_def intro: node_executors_kept child_kept Suc)
  then show ?case
    unfolding run_flow.simps by (intro carry safely_kept)
qed

text \<open>The engine that a run is given, at any depth, is an engine over recording executors.\<close>

interpretation nested: recording_executors "nested_engine depth R wt input s" for depth R wt input s
  by unfold_locales (auto simp: engine_of_def intro: node_executors_kept child_kept run_flow_kept)

lemma carries_walk [carry]: "carries (kept w0) (walk depth R r flow i wt sc)"
proof -
  have "carries (kept w0) (record_output r d)" for d
    unfolding record_output_def by (intro carry carries_update_runs) (simp add: run_key_def)
  then show ?thesis
    unfolding walk_def Let_def by (intro carry safely_kept nested.recording_executors_axioms)
qed

lemma carries_propose [carry]: "carries (kept w0) (propose R r i res)"
  unfolding propose_def Let_def by (intro carry)

lemma carries_outcome [carry]:
  "carries (kept w0) (run_outcome I r)" "carries (kept w0) (op_run_outcome I i)" "carries (kept w0) (op_run_status I i)"
  "carries (kept w0) (op_run_list I)"
proof -
  show out: "carries (kept w0) (run_outcome I r)" for r
    unfolding run_outcome_def proposal_of_run_def by (intro carry)
  show "carries (kept w0) (op_run_outcome I i)" "carries (kept w0) (op_run_status I i)" "carries (kept w0) (op_run_list I)"
    unfolding op_run_outcome_def op_run_status_def op_run_list_def find_run_def by (intro carry out)+
qed

lemma carries_execute_run [carry]: "carries (kept w0) (execute_run depth R r flow i wt sc)"
  unfolding execute_run_def cleanup_run_workspace_def Let_def by (intro carry)

lemma carries_start [carry]:
  "carries (kept w0) (op_run_start depth R f i)" "carries (kept w0) (background_worker depth R r flow i2 wt sc)"
proof -
  have "carries (kept w0) (open_run R f i)" unfolding open_run_def by (intro carry)
  then show "carries (kept w0) (op_run_start depth R f i)"
    unfolding op_run_start_def by (intro carry)
  show "carries (kept w0) (background_worker depth R r flow i2 wt sc)"
    unfolding background_worker_def by (intro carry)
qed

lemma carries_resume [carry]: "carries (kept w0) (resume_run depth R r)" "carries (kept w0) (op_run_resume depth R)"
proof -
  show one: "carries (kept w0) (resume_run depth R r)" for r
    unfolding resume_run_def cleanup_run_workspace_def find_run_def Let_def by (intro carry)
  show "carries (kept w0) (op_run_resume depth R)"
    unfolding op_run_resume_def scan_incomplete_runs_def by (intro carry one)
qed


section \<open>A run, seen from outside\<close>

text \<open>The run table is not touched by what happens to a proposal, and by what only reads.\<close>

lemma carries_same_runs:
  "(\<And>w. runs (snd (m w)) = runs w) \<Longrightarrow> carries (\<lambda>w. runs w = rs) m"
  by (rule carriesI) simp

interpretation runs_kept: keeping "\<lambda>w. runs w = rs" for rs
  by unfold_locales (auto intro!: carriesI simp: utc_now_rfc3339_def uuid7_def insert_artifact_def insert_improvement_event_def
    insert_improvement_def update_improvement_def integrity_def throw_def raise_def)

lemma runs_kept_mark_ready: "carries (\<lambda>w. runs w = rs) (mark_ready I i v vs)"
proof -
  have "carries (\<lambda>w. runs w = rs) (update_improvement i f)" for i f
    by (rule carries_same_runs) (simp add: update_improvement_def integrity_def throw_def raise_def)
  then show ?thesis
    unfolding mark_ready_def record_ready_def
    by (intro carry runs_kept.statements runs_kept.error runs_kept.event runs_kept.reads runs_kept.verdict runs_kept.get_proposal)
qed

lemma runs_kept_after:
  "carries (\<lambda>w. runs w = rs) (propose R r i res)" "carries (\<lambda>w. runs w = rs) (cleanup_run_workspace R r res b)"
  "carries (\<lambda>w. runs w = rs) (op_run_outcome I r)"
proof -
  show "carries (\<lambda>w. runs w = rs) (propose R r i res)"
    unfolding propose_def Let_def by (intro carry runs_kept.prepare runs_kept_mark_ready)
  show "carries (\<lambda>w. runs w = rs) (cleanup_run_workspace R r res b)"
    unfolding cleanup_run_workspace_def Let_def by (intro carry runs_kept.out)
  show "carries (\<lambda>w. runs w = rs) (op_run_outcome I r)"
    unfolding op_run_outcome_def run_outcome_def proposal_of_run_def find_run_def
    by (intro carry runs_kept.get_proposal)
qed

lemma same_runs_Val:
  assumes "m v = (Val a, v')" "\<And>rs. carries (\<lambda>w. runs w = rs) m"
  shows "runs v' = runs v"
  using carriesD [OF assms(2), of v] assms(1) by simp

lemma record_output_Val:
  assumes "record_output r d w = (Val u, w')" "r \<in> run_ids w"
  shows "\<exists>x \<in> set (runs w'). r_id x = r \<and> r_output x = Some (JObj d)"
proof -
  let ?f = "\<lambda>x. if r_id x = r then x\<lparr>r_output := Some (JObj d), r_updated := clock w (now_ix w)\<rparr> else x"
  obtain x where x: "x \<in> set (runs w)" "r_id x = r" using assms(2) by (auto simp: run_ids_def)
  have "runs w' = map ?f (runs w)"
    using assms(1) by (simp add: record_output_def utc_now_rfc3339_def bindE_def update_runs_def modify_def) auto
  with x(1) have "?f x \<in> set (runs w')" by simp
  moreover have "r_id (?f x) = r \<and> r_output (?f x) = Some (JObj d)" using x(2) by simp
  ultimately show ?thesis by blast
qed

lemma walk_Val:
  assumes "walk depth R r flow i wt sc w = (Val d, w')" "r \<in> run_ids w" "db_ok w"
  shows "\<exists>x \<in> set (runs w'). r_id x = r \<and> r_output x = Some (JObj d)"
proof -
  let ?safe = "\<lambda>s. run_workflow_safely (nested_engine depth R wt i s) (ru_fuel R) r flow"
  obtain s w1 t w2 u where s: "set_up R wt sc flow w = (Val s, w1)" "?safe s w1 = (Val t, w2)"
    and rec: "record_output r (with_response_text (wf_ref flow) t) w2 = (Val u, w')" and d: "d = with_response_text (wf_ref flow) t"
    using assms(1) unfolding walk_def Let_def bind_Val seq_Val basic_Val by blast
  have "kept w w1" using carriesD [OF carries_set_up kept_refl [OF assms(3)], of R wt sc flow] s(1) by simp
  moreover have "carries (kept w) (?safe s)"
    by (intro safely_kept nested.recording_executors_axioms)
  ultimately have "kept w w2" using carriesD [of "kept w" "?safe s" w1] s(2) by simp
  then have "r \<in> run_ids w2" using kept_run_ids assms(2) by blast
  from record_output_Val [OF rec this] d show ?thesis by simp
qed

lemma execute_run_Val:
  assumes "execute_run depth R r flow i wt sc w = (Val d, w')" "r \<in> run_ids w" "db_ok w"
  shows "\<exists>x res o1. x \<in> set (runs w') \<and> r_id x = r \<and> r_output x = Some (JObj res) \<and>
    d = put ''outcome'' (JObj o1) (merge_obj [(''run_id'', JStr r)] res)"
proof -
  let ?mid = "\<lambda>res b. whenE (get ''status'' res = JStr ''SUCCEEDED'' \<and> b) (propose R r i res)"
  obtain res w1 b w2 u w3 v w4 o1 where walk: "walk depth R r flow (JObj i) wt sc w = (Val res, w1)"
    and b: "liftR (retain_worktree (wf_ref flow) (JObj i)) w1 = (Val b, w2)"
    and u: "?mid res b w2 = (Val u, w3)" and v: "cleanup_run_workspace R r res b w3 = (Val v, w4)"
    and o1: "op_run_outcome (ru_improve R) r w4 = (Val o1, w')" and d: "d = put ''outcome'' (JObj o1) (merge_obj [(''run_id'', JStr r)] res)"
    using assms(1) unfolding execute_run_def bind_Val seq_Val basic_Val by blast
  have "w2 = w1" using b by (cases "retain_worktree (wf_ref flow) (JObj i)") (simp_all add: liftR_def basic_Val)
  moreover have mid: "\<And>rs. carries (\<lambda>w. runs w = rs) (?mid res b)" by (intro carry runs_kept_after)
  have "runs w3 = runs w2" by (rule same_runs_Val [where m = "?mid res b"]) (rule u, rule mid)
  moreover have "runs w4 = runs w3" by (rule same_runs_Val [OF v runs_kept_after(2)])
  moreover have "runs w' = runs w4" by (rule same_runs_Val [OF o1 runs_kept_after(3)])
  ultimately show ?thesis using walk_Val [OF walk assms(2,3)] d by auto
qed

lemma carries_open_run: "carries (kept w0) (open_run R f i)"
  unfolding open_run_def by (intro carry)

lemma create_run_Val:
  assumes "create_run r f i w = (Val u, w')" "db_ok w"
  shows "r \<in> run_ids w'"
proof -
  obtain n w1 v w2 where n: "utc_now_rfc3339 w = (Val n, w1)"
    and ins: "insert_run \<lparr>r_id = r, r_workflow = f, r_status = CREATED, r_input = i, r_output = None, r_budget = JObj [],
      r_created = n, r_updated = n\<rparr> w1 = (Val v, w2)"
    and ev: "log_event r None ''CREATED'' ''engine'' ''run_created'' (JObj []) w2 = (Val u, w')"
    using assms(1) unfolding create_run_def bind_Val seq_Val by blast
  from ins have "r \<in> run_ids w2" by (auto simp: insert_run_def run_ids_def integrity_def basic_Val split: if_splits)
  moreover have "db_ok w2" using carriesD [OF carries_now kept_refl [OF assms(2)]] n carriesD [OF carries_insert_run] ins
    by (metis keptD(1) snd_conv)
  then have "kept w2 w'" using carriesD [OF carries_log_event kept_refl] ev by (metis snd_conv)
  ultimately show ?thesis using kept_run_ids by blast
qed

lemma open_run_Val:
  assumes "open_run R f i w = (Val (r, flow, i', wt, sc), w')" "db_ok w"
  shows "r \<in> run_ids w' \<and> kept w w'"
proof -
  have kept: "kept w w'" using carriesD [OF carries_open_run kept_refl [OF assms(2)], of R f i] assms(1) by simp
  let ?rest = "\<lambda>fl input. bindE uuid7 (\<lambda>run_id. seqE (create_run run_id (wf_ref fl) (JObj input)) (
      bindE (outside (create_worktree (ru_host R) (ru_repo R) run_id ''HEAD'')) (\<lambda>wt.
      bindE (outside (create_scratch_dir (ru_host R) (ru_repo R) run_id)) (\<lambda>scratch. ret (run_id, fl, input, wt, scratch)))))"
  obtain fl w1 input w2 where fl: "resolve_workflow (ru_files R) f w = (Val fl, w1)"
    "liftR (adapt_objective_input i (wf_input_schema fl)) w1 = (Val input, w2)"
    and c: "(case ru_brief R (wf_input_schema fl) (JObj input) of
       Some msg \<Rightarrow> core_error (''input does not match '' @ wf_ref fl @ CHR 0x27 # ''s inputSchema: '' @ msg)
     | None \<Rightarrow> ?rest fl input) w2 = (Val (r, flow, i', wt, sc), w')"
    using assms(1) unfolding open_run_def bind_Val by blast
  have "?rest fl input w2 = (Val (r, flow, i', wt, sc), w')"
    using c by (cases "ru_brief R (wf_input_schema fl) (JObj input)") (simp_all add: core_error_def basic_Val)
  then obtain w3 u w4 w5 where u: "uuid7 w2 = (Val r, w3)" "create_run r (wf_ref fl) (JObj input) w3 = (Val u, w4)"
    and o5: "outside (create_worktree (ru_host R) (ru_repo R) r ''HEAD'') w4 = (Val wt, w5)"
    and o6: "outside (create_scratch_dir (ru_host R) (ru_repo R) r) w5 = (Val sc, w')"
    unfolding bind_Val seq_Val basic_Val by blast
  have "kept w w1" using carriesD [OF carries_resolve_workflow kept_refl [OF assms(2)], of "ru_files R" f] fl(1) by simp
  moreover have "w2 = w1"
    using fl(2) by (cases "adapt_objective_input i (wf_input_schema fl)") (simp_all add: liftR_def basic_Val)
  ultimately have "db_ok w3" using carriesD [OF carries_uuid, of w w2] u(1) by (auto dest: keptD(1))
  from create_run_Val [OF u(2) this] have "r \<in> run_ids w4" .
  then show ?thesis using o5 o6 kept by (auto simp: outside_Val run_ids_def)
qed

text \<open>
  What a client is told of a run is what is on record: when op_run_start returns, the row of the run
  named in the reply holds, as its output, the very result that the reply consists of, with the run_id
  before it and the outcome after it.
\<close>

theorem start_reply_is_recorded:
  assumes "op_run_start depth R f i w = (Val d, w')" "db_ok w"
  shows "\<exists>x res o1. x \<in> set (runs w') \<and> r_output x = Some (JObj res) \<and>
    d = put ''outcome'' (JObj o1) (merge_obj [(''run_id'', JStr (r_id x))] res)"
proof -
  obtain r flow i' wt sc w1 where "open_run R f i w = (Val (r, flow, i', wt, sc), w1)"
    and run: "execute_run depth R r flow i' wt sc w1 = (Val d, w')"
    using assms(1) unfolding op_run_start_def bind_Val by auto
  from open_run_Val [OF this(1) assms(2)] have "r \<in> run_ids w1" "db_ok w1" by (auto dest: keptD)
  from execute_run_Val [OF run this] show ?thesis by blast
qed


text \<open>An example: one published workflow of a single activity, and a host on which everything works.\<close>

definition demo_workflow_yaml :: json where
  "demo_workflow_yaml = JObj [(''apiVersion'', JStr ''awf/v1''), (''kind'', JStr ''Workflow''),
     (''metadata'', JObj [(''name'', JStr ''w''), (''version'', JStr ''1''), (''digest'', JStr ''d'')]),
     (''spec'', JObj [(''inputSchema'', JObj []), (''outputSchema'', JObj []), (''budgets'', JObj []), (''outputs'', JObj []),
        (''nodes'', JList [JObj [(''id'', JStr ''a''), (''type'', JStr ''activity''), (''function'', JStr ''gpu_utilization_sample''), (''next'', JNull)]])])]"

definition run_files :: "unit files" where
  "run_files = demo_files\<lparr>list_dir := (\<lambda>p x. (Val (if snd p = [''r'', ''data'', ''registry'', ''workflows'', ''w''] then Some [''1.yaml'']
     else None), x)), file_exists := (\<lambda>p x. (Val (take 4 (snd p) = [''r'', ''data'', ''registry'', ''workflows'']), x)),
     yaml_load := (\<lambda>s. Inr demo_workflow_yaml)\<rparr>"

definition demo_run :: "unit run_env" where
  "demo_run = \<lparr>ru_improve = demo_improve\<lparr>im_files := run_files\<rparr>, ru_memory = demo_memory, ru_cipher = ag_cipher demo_agent_env,
     ru_adapters = (\<lambda>n. None), ru_gateway = \<lparr>completion_capability = (\<lambda>n. fail ''KeyError'' []),
       litellm = (\<lambda>d x. (Val JNull, x)), keys = ag_cipher demo_agent_env\<rparr>, ru_hardware = (\<lambda>x. (Val (''cpu'', JObj []), x)),
     ru_gpu = (\<lambda>x. (Val None, x)), ru_llm = (\<lambda>x. (Val ([], Inr JNull), x)), ru_listing = (\<lambda>p x. (Val (Some []), x)),
     ru_shlex = (\<lambda>s. Inr [s]), ru_schema = (\<lambda>s v. None), ru_brief = (\<lambda>s v. None), ru_turns = (\<lambda>n x. (Val [0..<n], x)),
     ru_uniform = (\<lambda>a b x. (Val a, x)), ru_sleep = (\<lambda>q x. (Val (), x)), ru_fuel = 10\<rparr>"

theorem start_reply_is_recorded_witness:
  "\<exists>d (x :: run_row) res o1. fst (op_run_start 2 demo_run ''w'' [] (blank_world ())) = Val d \<and> r_output x = Some (JObj res) \<and>
     d = put ''outcome'' (JObj o1) (merge_obj [(''run_id'', JStr (r_id x))] res)"
proof -
  let ?r = "op_run_start 2 demo_run ''w'' [] (blank_world ())"
  have "case fst ?r of Val v \<Rightarrow> True | _ \<Rightarrow> False" by code_simp
  then obtain d w' where r: "?r = (Val d, w')" by (cases ?r; cases "fst ?r") auto
  have "db_ok (blank_world () :: unit world)" by (simp add: db_ok_def blank_world_def)
  from start_reply_is_recorded [OF r this] obtain x :: run_row and res o1 where x: "r_output x = Some (JObj res)"
    "d = put ''outcome'' (JObj o1) (merge_obj [(''run_id'', JStr (r_id x))] res)" by blast
  have "fst ?r = Val d" by (simp only: r fst_conv)
  with x show ?thesis by (intro exI conjI)
qed


text \<open>
  C6. Runs only add to the record.  Starting a run, whatever its workflow and its children do, the work of
  the background thread and the resumption of all interrupted runs leave a consistent database
  consistent and keep what was on record: runs and approvals with their identity, every event, every
  artifact, every Step that had SUCCEEDED and every decision.
\<close>

theorem runs_keep_records:
  assumes "db_ok w"
  shows "kept w (snd (op_run_start depth R f i w)) \<and> kept w (snd (background_worker depth R r flow j wt sc w)) \<and>
    kept w (snd (op_run_resume depth R w))"
  by (intro conjI carriesD [OF carries_start(1)] carriesD [OF carries_start(2)] carriesD [OF carries_resume(2)] kept_refl assms)

theorem runs_keep_records_witness:
  "kept (one_run () [step_row_of ''run:a#1'' ''run'' ''a'' SUCCEEDED])
     (snd (op_run_start 2 demo_run ''w'' [] (one_run () [step_row_of ''run:a#1'' ''run'' ''a'' SUCCEEDED])))"
proof -
  have "db_ok (one_run () [step_row_of ''run:a#1'' ''run'' ''a'' SUCCEEDED])"
    by (simp add: db_ok_def one_run_def blank_world_def step_row_of_def run_row_of_def run_ids_def fclass_check_def)
  from runs_keep_records [OF this] show ?thesis by blast
qed

text \<open>
  A run that was interrupted inside a Step stops the resumption of all runs: if a Step that the reset
  of the first unfinished run wants to purge is referenced by an event, an artifact or an approval,
  op_run_resume raises IntegrityError before it looks at any other run.
\<close>

theorem resume_stops_at_interrupted_run:
  assumes "map r_id (filter (\<lambda>r. r_status r \<notin> set terminal_run_statuses) (runs w)) = r # rs"
    and "s \<in> set (steps w)" "doomed r w s" "step_referenced w (s_id s)"
  shows "fst (op_run_resume depth R w) = Exn (Exc ''IntegrityError'' fk_failed None)"
proof -
  have bad: "\<exists>s \<in> set (steps w). doomed r w s \<and> step_referenced w (s_id s)" using assms(2-4) by blast
  have "fst (reset_interrupted_node_steps r w) = Exn (Exc ''IntegrityError'' fk_failed None)"
    using reset_effect [of w r] unfolding if_P [OF bad] .
  then have "fst (resume_run depth R r w) = Exn (Exc ''IntegrityError'' fk_failed None)"
    unfolding resume_run_def seqE_def by (cases "reset_interrupted_node_steps r w") (simp add: bindE_def)
  then show ?thesis
    unfolding op_run_resume_def scan_incomplete_runs_def bind_gets assms(1)
    by (cases "resume_run depth R r w") (simp add: bindE_def)
qed

theorem resume_stops_at_interrupted_run_witness:
  "\<exists>w :: unit world. fst (op_run_resume 2 demo_run w) = Exn (Exc ''IntegrityError'' fk_failed None)"
proof -
  let ?w = "started ''run:a#1'' ''run'' (one_run () [step_row_of ''run:a#1'' ''run'' ''a'' PENDING])"
  have runs: "map r_id (filter (\<lambda>r. r_status r \<notin> set terminal_run_statuses) (runs ?w)) = [''run'']" by code_simp
  have "\<exists>s \<in> set (steps ?w). doomed ''run'' ?w s \<and> step_referenced ?w (s_id s)" by code_simp
  then obtain s where "s \<in> set (steps ?w)" "doomed ''run'' ?w s" "step_referenced ?w (s_id s)" by blast
  from resume_stops_at_interrupted_run [OF runs this] show ?thesis by blast
qed

subsection \<open>One executor for all gates\<close>

definition gate_node :: "string \<Rightarrow> string \<Rightarrow> obj" where
  "gate_node i command = [(''id'', JStr i), (''type'', JStr ''gate''), (''checkCommand'', JStr command), (''onFail'', JStr i)]"

definition two_gates :: workflow where
  "two_gates = demo_flow\<lparr>wf_nodes := [gate_node ''first'' ''true'', gate_node ''last'' ''false'']\<rparr>"

lemma set_up_gates:
  assumes "foldE (set_up_node R wt sc flow) (pre @ n # post) s w = (Val (g, h), w')" "get ''type'' n = JStr ''gate''"
    and "\<forall>m \<in> set post. get ''type'' m \<noteq> JStr ''gate''"
  shows "\<exists>w1 w2 ge. gate_of R wt sc flow n w1 = (Val ge, w2) \<and> g = Some ge"
proof -
  have item_type: "item ''type'' m = Inr t \<Longrightarrow> get ''type'' m = t" for m t
    by (auto simp: item_def get_def fail_def split: option.splits)
  have after: "g' = fst s'" if "foldE (set_up_node R wt sc flow) ms s' v = (Val (g', h'), v')"
    "\<forall>m \<in> set ms. get ''type'' m \<noteq> JStr ''gate''" for ms s' v g' h' v'
    using that
  proof (induction ms arbitrary: s' v)
    case Nil
    then show ?case by (auto simp: basic_Val)
  next
    case (Cons m ms)
    then obtain s1 v1 where m: "set_up_node R wt sc flow m s' v = (Val s1, v1)"
      and rest: "foldE (set_up_node R wt sc flow) ms s1 v1 = (Val (g', h'), v')"
      by (auto simp: bind_Val)
    have "fst s1 = fst s'"
      using m item_type [of m] Cons.prems(2)
      by (auto simp: set_up_node_def bind_Val basic_Val liftR_def split: prod.splits sum.splits if_splits)
    with Cons.IH [OF rest] Cons.prems(2) show ?case by simp
  qed
  show ?thesis
    using assms(1)
  proof (induction pre arbitrary: s w)
    case Nil
    then obtain s1 v1 where m: "set_up_node R wt sc flow n s w = (Val s1, v1)"
      and rest: "foldE (set_up_node R wt sc flow) post s1 v1 = (Val (g, h), w')"
      by (auto simp: bind_Val)
    have "\<exists>w1 w2 ge. gate_of R wt sc flow n w1 = (Val ge, w2) \<and> fst s1 = Some ge"
      using m item_type [of n] assms(2)
      by (auto simp: set_up_node_def bind_Val basic_Val liftR_def split: prod.splits sum.splits if_splits) blast
    then show ?case using after [OF rest assms(3)] by auto
  next
    case (Cons m pre)
    then show ?case by (auto simp: bind_Val)
  qed
qed

text \<open>
  One executor serves all the gates of a workflow: if n is the last gate, then every gate of the
  workflow is executed with the environment - check, tier, reviewers - that was set up for n, and the
  checkCommand of any other gate is never run.
\<close>

theorem last_gate_checks_all:
  assumes "set_up R wt sc flow w = (Val s, w')" "wf_nodes flow = pre @ n # post" "get ''type'' n = JStr ''gate''"
    and "\<forall>m \<in> set post. get ''type'' m \<noteq> JStr ''gate''"
  shows "\<exists>ge v v'. gate_of R wt sc flow n v = (Val ge, v') \<and> make_check R wt n = Inr (check_fn ge) \<and>
    node_executors R child run_item wt input s ''gate'' = Some (gate_executor ge)"
proof -
  obtain g h where s: "s = (g, h)" by (cases s)
  from assms(1,2) s have "foldE (set_up_node R wt sc flow) (pre @ n # post) (None, False) w = (Val (g, h), w')"
    by (simp add: set_up_def)
  from set_up_gates [OF this assms(3,4)] obtain w1 w2 ge where ge: "gate_of R wt sc flow n w1 = (Val ge, w2)" "g = Some ge" by blast
  have "make_check R wt n = Inr (check_fn ge)"
    using ge(1) unfolding gate_of_def
    by (auto simp: bind_Val basic_Val liftR_def split: prod.splits sum.splits)
  then show ?thesis using ge s by (auto simp: node_executors_def Let_def)
qed


theorem last_gate_checks_all_witness:
  "\<exists>s ge. fst (set_up demo_run (True, []) (True, []) two_gates (blank_world ())) = Val s \<and>
     node_executors demo_run (\<lambda>_ _. ret ([], [])) (\<lambda>_ _ _ _. ret ([], [])) (True, []) JNull s ''gate'' = Some (gate_executor ge) \<and>
     fst (check_fn ge ()) = Val False"
proof -
  let ?r = "set_up demo_run (True, []) (True, []) two_gates (blank_world ())"
  have "case fst ?r of Val v \<Rightarrow> True | _ \<Rightarrow> False" by code_simp
  then obtain s w' where r: "?r = (Val s, w')" by (cases ?r; cases "fst ?r") auto
  have nodes: "wf_nodes two_gates = [gate_node ''first'' ''true''] @ gate_node ''last'' ''false'' # []"
    "get ''type'' (gate_node ''last'' ''false'') = JStr ''gate''"
    by (simp_all add: two_gates_def gate_node_def get_def)
  obtain ge where ge: "node_executors demo_run (\<lambda>_ _. ret ([], [])) (\<lambda>_ _ _ _. ret ([], [])) (True, []) JNull s ''gate'' = Some (gate_executor ge)"
    "make_check demo_run (True, []) (gate_node ''last'' ''false'') = Inr (check_fn ge)"
    using last_gate_checks_all [OF r nodes] by fastforce
  have "case make_check demo_run (True, []) (gate_node ''last'' ''false'') of Inr f \<Rightarrow> fst (f ()) = Val False | Inl e \<Rightarrow> False"
    by code_simp
  with ge(2) have "fst (check_fn ge ()) = Val False" by simp
  moreover have "fst ?r = Val s" by (simp only: r fst_conv)
  ultimately show ?thesis using ge(1) by blast
qed

section \<open>Every run settles\<close>



section \<open>A pool is a sequence\<close>

lemma pooled_steps:
  assumes "mapE f xs w = (Val ys, w')"
  shows "mapE (\<lambda>x. attempt (f x)) xs w = (Val (map Inr ys), w')"
  using assms
proof (induction xs arbitrary: w ys)
  case (Cons x xs)
  then obtain y w1 zs where "f x w = (Val y, w1)" "mapE f xs w1 = (Val zs, w')" "ys = y # zs"
    by (auto simp: bind_Val basic_Val)
  with Cons.IH [OF this(2)] show ?case by (simp add: bindE_def attempt_def ret_def)
qed (simp add: ret_def)

text \<open>
  The pool of a map node is the plain loop: since run_map_item holds one lock all along, a pool whose
  threads take it in the order of the items does what the loop for maxConcurrency 1 does, with the
  same child runs, the same results and the same state, whenever the loop returns.
\<close>

theorem pooled_is_sequential:
  assumes "run_sequential item_fn head f items w = (Val rs, w')"
    and "\<And>x. turns (length items) x = (Val [0..<length items], x)"
  shows "run_pooled turns item_fn head f items w = (Val rs, w')"
proof -
  let ?one = "\<lambda>(i, x). bindE (item_fn head i f x) (\<lambda>(child, result). ret (i, child, result))"
  have items: "List.enumerate 0 items = map (\<lambda>i. (i, items ! i)) [0..<length items]"
    by (rule nth_equalityI) (simp_all add: nth_enumerate_eq)
  have "mapE ?one (map (\<lambda>i. (i, items ! i)) is) v = mapE (\<lambda>i. bindE (item_fn head i f (items ! i)) (\<lambda>(child, result). ret (i, child, result))) is v"
    for "is" v by (induction "is" arbitrary: v) (simp_all add: bindE_def split: prod.split res.split)
  with assms(1) have "mapE (\<lambda>i. bindE (item_fn head i f (items ! i)) (\<lambda>(child, result). ret (i, child, result)))
      [0..<length items] w = (Val rs, w')"
    by (simp add: run_sequential_def items)
  from pooled_steps [OF this] have "mapE (\<lambda>i. attempt (bindE (item_fn head i f (items ! i)) (\<lambda>(child, result). ret (i, child, result))))
      [0..<length items] w = (Val (map Inr rs), w')" .
  moreover have "outside (turns (length items)) w = (Val [0..<length items], w)"
    by (simp add: outside_def assms(2))
  moreover have "filter (\<lambda>i. i < length items) [0..<length items] = [0..<length items]" by (simp add: filter_id_conv)
  moreover have "first_error (map Inr rs) = None" by (simp add: first_error_def filter_empty_conv)
  moreover have "concat (map (\<lambda>r. case r of Inl e \<Rightarrow> [] | Inr a \<Rightarrow> [a]) (map Inr rs)) = rs"
    by (induction rs) simp_all
  ultimately show ?thesis by (simp add: run_pooled_def bindE_def ret_def)
qed

theorem pooled_is_sequential_witness:
  "\<exists>rs w'. run_pooled (\<lambda>n x. (Val [0..<n], x)) (\<lambda>h i f x. bindE uuid7 (\<lambda>u. ret (u, [(''status'', JStr ''SUCCEEDED'')])))
     ''head'' (JStr ''w@1'') [JInt 5, JInt 7] (blank_world ()) = (Val rs, w') \<and> map fst rs = [0, 1]"
proof -
  let ?item = "\<lambda>(h :: string) (i :: nat) (f :: json) (x :: json). bindE uuid7 (\<lambda>u. ret (u, [(''status'', JStr ''SUCCEEDED'')])) :: (unit, string \<times> obj) op"
  let ?s = "run_sequential ?item ''head'' (JStr ''w@1'') [JInt 5, JInt 7] (blank_world ())"
  have "case fst ?s of Val rs \<Rightarrow> map fst rs = [0, 1] | _ \<Rightarrow> False" by code_simp
  then obtain rs w' where s: "?s = (Val rs, w')" and rs: "map fst rs = [0, 1]" by (cases ?s; cases "fst ?s") auto
  have "run_pooled (\<lambda>n x. (Val [0..<n], x)) ?item ''head'' (JStr ''w@1'') [JInt 5, JInt 7] (blank_world ()) = (Val rs, w')"
    by (rule pooled_is_sequential [OF s]) simp
  with rs show ?thesis by (intro exI conjI)
qed

end
