(* ===== verification/Awf_Kinds.thy ===== *)
theory Awf_Kinds
  imports Awf_Runs
begin

text \<open>
  The remaining kinds of registry objects: voice profiles (registry/voice_profile.py), hardware voice
  manifests (registry/hardware_voice_manifest.py) and language model servers (llm/servers.py).
\<close>

section \<open>Voice profiles\<close>

record tts_candidate =
  tc_engine :: string
  tc_model :: string
  tc_voice :: string
  tc_speed :: json
  tc_style :: json
  tc_priority :: int
  tc_enabled :: bool

record voice_profile =
  vp_name :: string
  vp_version :: string
  vp_persona_ref :: string
  vp_persona :: "persona option"
  vp_candidates :: "tts_candidate list"
  vp_mode :: json
  vp_degrade :: json
  vp_local_only :: bool
  vp_max_seconds :: int

definition voice_profile_error :: "string \<Rightarrow> 'a result" where
  "voice_profile_error msg = fail ''VoiceProfileValidationError'' msg"

definition vp_ref :: "voice_profile \<Rightarrow> string" where
  "vp_ref p = vp_name p @ ''@'' @ vp_version p"

definition enabled_voices_by_priority :: "voice_profile \<Rightarrow> tts_candidate list" where
  "enabled_voices_by_priority p = sort_key tc_priority (filter tc_enabled (vp_candidates p))"

definition parse_tts_candidate :: "json \<Rightarrow> tts_candidate result" where
  "parse_tts_candidate v =
     andThen (as_dict v) (\<lambda>c.
     andThen (text_item ''engine'' c) (\<lambda>engine.
     andThen (text_item ''model'' c) (\<lambda>mdl.
     andThen (text_item ''voice_id'' c) (\<lambda>voice.
     andThen (item ''speed'' c) (\<lambda>speed.
     andThen (int_item ''priority'' c) (\<lambda>prio.
     andThen (bool_item ''enabled'' c) (\<lambda>en.
       Inr \<lparr>tc_engine = engine, tc_model = mdl, tc_voice = voice, tc_speed = speed, tc_style = get_or ''style'' (JObj []) c,
            tc_priority = prio, tc_enabled = en\<rparr>)))))))"

definition parse_voice_profile :: "(json \<Rightarrow> string option) \<Rightarrow> obj \<Rightarrow> voice_profile result" where
  "parse_voice_profile schema raw =
     (if has_key ''persona'' raw
      then voice_profile_error (''voice profile: '' @ quoted ''persona'' @ '' is replaced by '' @ quoted ''persona_ref'' @ '' (ADR-0018)'')
      else
     andThen (checked schema ''VoiceProfileValidationError'' raw) (\<lambda>_.
     andThen (dict_item ''tts'' raw) (\<lambda>tts.
     andThen (dict_item ''privacy'' raw) (\<lambda>priv.
     andThen (dict_item ''limits'' raw) (\<lambda>lim.
     andThen (andThen (item ''candidates'' tts) as_array) (\<lambda>raws.
     andThen (mapR parse_tts_candidate raws) (\<lambda>cs.
     andThen (dict_item ''fallback'' tts) (\<lambda>fb.
     andThen (bool_item ''local_only'' priv) (\<lambda>local.
     andThen (int_item ''max_seconds_per_utterance'' lim) (\<lambda>secs.
     andThen (text_item ''name'' raw) (\<lambda>name.
     andThen (text_item ''version'' raw) (\<lambda>version.
     andThen (text_item ''persona_ref'' raw) (\<lambda>persona.
       Inr \<lparr>vp_name = name, vp_version = version, vp_persona_ref = persona, vp_persona = None, vp_candidates = cs,
            vp_mode = get_or ''mode'' (JStr ''none'') fb, vp_degrade = get_or ''allow_quality_degrade'' (JBool False) fb,
            vp_local_only = local, vp_max_seconds = secs\<rparr>)))))))))))))"

text \<open>name, sep, version = ref.partition("@"), where none of the three may be empty.\<close>

definition split_ref :: "string \<Rightarrow> (string \<times> string) option" where
  "split_ref r = (case partition_at (CHR ''@'') r of (name, version) \<Rightarrow>
     if CHR ''@'' \<in> set r \<and> name \<noteq> [] \<and> version \<noteq> [] then Some (name, version) else None)"

definition ref_form :: string where
  "ref_form = quoted ''<name>@<version>''"

definition resolve_voice_persona :: "'x files \<Rightarrow> string \<Rightarrow> ('x, persona) op" where
  "resolve_voice_persona F r = (case split_ref r of
       None \<Rightarrow> liftR (voice_profile_error (''voice profile persona_ref must be '' @ ref_form @ '', got '' @ str_repr r))
     | Some (name, version) \<Rightarrow>
         bindE (resolve_registry_object F ''personas'' name version) (\<lambda>(p, source). load_persona F p))"

definition load_voice_profile :: "'x files \<Rightarrow> path \<Rightarrow> ('x, voice_profile) op" where
  "load_voice_profile F p =
     bindE (load_yaml_object F p ''voice profile'' ''VoiceProfileValidationError''
              (parse_voice_profile (schema_check F ''voice-profiles'')) (\<lambda>m. (vp_name m, vp_version m))) (\<lambda>profile.
     bindE (resolve_voice_persona F (vp_persona_ref profile)) (\<lambda>persona.
       ret (profile\<lparr>vp_persona := Some persona\<rparr>)))"

definition default_voice_profile_ref :: string where
  "default_voice_profile_ref = ''narrator@1.0.0''"

definition resolve_default_voice_id :: "'x files \<Rightarrow> ('x, string) op" where
  "resolve_default_voice_id F =
     (let (name, version) = partition_at (CHR ''@'') default_voice_profile_ref in
      bindE (resolve_registry_object F ''voice-profiles'' name version) (\<lambda>(p, source).
      bindE (load_voice_profile F p) (\<lambda>profile. case enabled_voices_by_priority profile of
          [] \<Rightarrow> liftR (voice_profile_error (''voice profile '' @ quoted default_voice_profile_ref @ '' has no enabled candidates''))
        | c # cs \<Rightarrow> ret (tc_voice c))))"

section \<open>Hardware voice manifests\<close>

record artifact_file =
  af_name :: string
  af_url :: json
  af_package :: json
  af_notes :: json

record stt_class =
  sc_runtime :: string
  sc_model :: string
  sc_local_path :: "string option"
  sc_device :: string
  sc_compute_type :: string

record voice_manifest =
  vm_name :: string
  vm_version :: string
  vm_function :: string
  vm_files :: "artifact_file list"
  vm_classes :: "(string \<times> stt_class) list"
  vm_notes :: json

definition voice_manifest_error :: "string \<Rightarrow> 'a result" where
  "voice_manifest_error msg = fail ''HardwareVoiceManifestError'' msg"

definition parse_artifact_file :: "json \<Rightarrow> artifact_file result" where
  "parse_artifact_file v =
     andThen (as_dict v) (\<lambda>d.
     andThen (text_item ''name'' d) (\<lambda>name.
     if (get ''url'' d = JNull) = (get ''package'' d = JNull)
     then voice_manifest_error (''artifact file '' @ quoted name @ '': exactly one of '' @ quoted ''url'' @ '' or '' @ quoted ''package'' @ '' is required'')
     else Inr \<lparr>af_name = name, af_url = get ''url'' d, af_package = get ''package'' d, af_notes = get ''notes'' d\<rparr>))"

definition parse_stt_class :: "string \<times> json \<Rightarrow> (string \<times> stt_class) result" where
  "parse_stt_class = (\<lambda>(name, v).
     andThen (as_dict v) (\<lambda>d.
     andThen (text_item ''model'' d) (\<lambda>mdl.
     andThen (text_item ''device'' d) (\<lambda>dev.
     andThen (text_item ''compute_type'' d) (\<lambda>ct.
       Inr (name, \<lparr>sc_runtime = py_str (get_or ''runtime'' (JStr ''faster_whisper'') d), sc_model = mdl,
         sc_local_path = (case get ''local_path'' d of JNull \<Rightarrow> None | x \<Rightarrow> Some (py_str x)), sc_device = dev,
         sc_compute_type = ct\<rparr>))))))"

definition parse_hardware_voice_manifest :: "(json \<Rightarrow> string option) \<Rightarrow> obj \<Rightarrow> voice_manifest result" where
  "parse_hardware_voice_manifest schema raw =
     andThen (checked schema ''HardwareVoiceManifestError'' raw) (\<lambda>_.
     andThen (dict_item ''metadata'' raw) (\<lambda>meta.
     andThen (dict_item ''spec'' raw) (\<lambda>spec.
     andThen (text_item ''function'' spec) (\<lambda>func.
     andThen (text_item ''name'' meta) (\<lambda>name.
     if name \<noteq> func
     then voice_manifest_error (''hardware voice manifest name '' @ quoted name @ '' does not match function '' @ quoted func)
     else
     andThen (andThen (as_array (get_or ''files'' (JList []) spec)) (mapR parse_artifact_file)) (\<lambda>files.
     andThen (andThen (as_dict (get_or ''classes'' (JObj []) spec)) (mapR parse_stt_class)) (\<lambda>classes.
     andThen (text_item ''version'' meta) (\<lambda>version.
       Inr \<lparr>vm_name = name, vm_version = version, vm_function = func, vm_files = files, vm_classes = classes,
            vm_notes = get ''notes'' spec\<rparr>))))))))"

definition load_hardware_voice_manifest :: "'x files \<Rightarrow> path \<Rightarrow> ('x, voice_manifest) op" where
  "load_hardware_voice_manifest F p =
     load_yaml_object F p ''hardware voice manifest'' ''HardwareVoiceManifestError''
       (parse_hardware_voice_manifest (schema_check F ''hardware-voice-manifests'')) (\<lambda>m. (vm_name m, vm_version m))"

definition resolve_hardware_voice_manifest_path :: "'x files \<Rightarrow> string \<Rightarrow> path" where
  "resolve_hardware_voice_manifest_path F func =
     sub_path (sub_path (sub_path (config_root F) ''hardware-voice-manifests'') func) ''1.0.0.yaml''"

text \<open>A dict of paths by file name: for a name given twice the value is the same path.\<close>

definition artifact_paths :: "'x files \<Rightarrow> string \<Rightarrow> ('x, (string \<times> path) list) op" where
  "artifact_paths F func =
     bindE (load_hardware_voice_manifest F (resolve_hardware_voice_manifest_path F func)) (\<lambda>m.
     let target = sub_path (sub_path (repo F) ''models'') func in
     ret (remdups (map (\<lambda>f. (af_name f, sub_path target (af_name f))) (vm_files m))))"

section \<open>Language model servers\<close>

definition canonical_profiles :: "string list" where
  "canonical_profiles = [''windows-x64-cpu'', ''windows-x64-gpu'', ''windows-x64-cuda'', ''windows-arm64-cpu'', ''windows-arm64-gpu'',
     ''windows-arm64-qnn'', ''linux-x64-cpu'', ''linux-x64-gpu'', ''linux-x64-cuda'', ''linux-arm64-cpu'', ''linux-arm64-gpu'',
     ''linux-arm64-qnn'']"

record llm_artifact =
  la_profile :: string
  la_url :: string
  la_archive :: string
  la_binary :: string
  la_accelerator :: string
  la_launch :: obj

record llm_server =
  ls_id :: string
  ls_managed :: bool
  ls_base_url :: string
  ls_base_path :: string
  ls_provider :: string
  ls_health :: "string list"
  ls_artifacts :: "(string \<times> llm_artifact) list"
  ls_launch :: obj
  ls_defaults :: "(string \<times> string) list"
  ls_secret :: "string option"

definition llm_server_error :: "string \<Rightarrow> 'a result" where
  "llm_server_error msg = fail ''LlmServerError'' msg"

definition rstrip_slashes :: "string \<Rightarrow> string" where
  "rstrip_slashes s = rev (dropWhile (\<lambda>c. c = CHR ''/'') (rev s))"

definition ls_api_base :: "llm_server \<Rightarrow> string" where
  "ls_api_base s = rstrip_slashes (ls_base_url s) @ ls_base_path s"

definition dict_or_default :: "json \<Rightarrow> obj result" where
  "dict_or_default v = (if truthy v then as_dict v else Inr [])"

definition canonical_list :: string where
  "canonical_list = ''('' @ join '', '' (map str_repr canonical_profiles) @ '')''"

definition parse_llm_artifact :: "string \<Rightarrow> obj \<Rightarrow> string \<times> json \<Rightarrow> (string \<times> llm_artifact) result" where
  "parse_llm_artifact ctxt server_launch = (\<lambda>(prof, v).
     if prof \<notin> set canonical_profiles
     then llm_server_error (ctxt @ '': artifact key '' @ quoted prof @ '' is not a valid canonical profile ID in '' @ canonical_list)
     else
     andThen (as_dict v) (\<lambda>d.
     andThen (dict_or_default (get ''launch'' d)) (\<lambda>launch.
     andThen (text_item ''url'' d) (\<lambda>url.
     andThen (text_item ''archive'' d) (\<lambda>archive.
     andThen (text_item ''binary'' d) (\<lambda>bin.
     andThen (text_item ''accelerator'' d) (\<lambda>accel.
       Inr (prof, \<lparr>la_profile = prof, la_url = url, la_archive = archive, la_binary = bin, la_accelerator = accel,
         la_launch = merge_obj server_launch launch\<rparr>))))))))"

definition check_default_key :: "string \<Rightarrow> string \<times> json \<Rightarrow> (string \<times> string) result" where
  "check_default_key ctxt = (\<lambda>(prof, v).
     if prof \<notin> set canonical_profiles
     then llm_server_error (ctxt @ '': model_defaults key '' @ quoted prof @ '' is not a valid canonical profile ID in '' @ canonical_list)
     else Inr (prof, py_str v))"

definition parse_llm_server :: "string \<times> json \<Rightarrow> (string \<times> llm_server) result" where
  "parse_llm_server = (\<lambda>(i, v).
     let ctxt = ''server '' @ quoted i in
     andThen (as_dict v) (\<lambda>d.
     andThen (item ''health_paths'' d) (\<lambda>health_raw.
     andThen (dict_or_default (get ''launch'' d)) (\<lambda>launch.
     andThen (andThen (dict_or_default (get ''model_defaults'' d)) (mapR (check_default_key ctxt))) (\<lambda>defaults.
     andThen (andThen (dict_or_default (get ''artifacts'' d)) (mapR (parse_llm_artifact ctxt launch))) (\<lambda>arts.
     andThen (bool_item ''managed'' d) (\<lambda>man.
     andThen (text_item ''base_url'' d) (\<lambda>url.
     andThen (text_item ''openai_base_path'' d) (\<lambda>base.
     andThen (text_item ''provider'' d) (\<lambda>prov.
     andThen (texts health_raw) (\<lambda>health.
     andThen (opt_text ''api_key_secret_name'' d) (\<lambda>secret.
       Inr (i, \<lparr>ls_id = i, ls_managed = man, ls_base_url = url, ls_base_path = base, ls_provider = prov, ls_health = health,
         ls_artifacts = arts, ls_launch = launch, ls_defaults = defaults, ls_secret = secret\<rparr>)))))))))))))"

definition parse_servers :: "(json \<Rightarrow> string option) \<Rightarrow> obj \<Rightarrow> (string \<times> (string \<times> llm_server) list) result" where
  "parse_servers schema raw =
     andThen (checked schema ''LlmServerError'' raw) (\<lambda>_.
     andThen (dict_item ''metadata'' raw) (\<lambda>meta.
     andThen (dict_item ''spec'' raw) (\<lambda>spec.
     andThen (text_item ''default_server'' spec) (\<lambda>default_id.
     andThen (dict_item ''servers'' spec) (\<lambda>raws.
     andThen (mapR parse_llm_server raws) (\<lambda>servers.
     if map_of servers default_id = None
     then llm_server_error (''default_server '' @ quoted default_id @ '' is not declared in servers mapping'')
     else andThen (item ''name'' meta) (\<lambda>name.
       if name \<noteq> JStr ''default''
       then llm_server_error (''llm servers metadata.name must be '' @ quoted ''default'')
       else Inr (default_id, servers))))))))"

definition load_servers_file :: "'x files \<Rightarrow> path \<Rightarrow> ('x, string \<times> (string \<times> llm_server) list) op" where
  "load_servers_file F p =
     bindE (outside (file_exists F p)) (\<lambda>there.
     if \<not> there then liftR (llm_server_error (''LLM servers config not found at '' @ quoted (as_posix p)))
     else
       bindE (catchE (bindE (outside (read_text F p)) (\<lambda>text. liftR (yaml_load F text)))
                (\<lambda>e. liftR (llm_server_error (''Failed to parse LLM servers YAML '' @ quoted (as_posix p) @ '': '' @ exc_text e)))) (\<lambda>v.
       liftR (case (if truthy v then v else JObj []) of
           JObj d \<Rightarrow>
             andThen (parse_servers (schema_check F ''llm-servers'') d) (\<lambda>r.
             andThen (dict_item ''metadata'' d) (\<lambda>meta.
             andThen (item ''name'' meta) (\<lambda>name. andThen (item ''version'' meta) (\<lambda>version.
             andThen (validate_registry_identity name version (path_name (path_parent p)) (path_stem p) ''llm servers'' ''LlmServerError'') (\<lambda>_.
               Inr r)))))
         | _ \<Rightarrow> llm_server_error ''LLM servers config root must be a YAML mapping'')))"

definition load_servers :: "'x files \<Rightarrow> ('x, string \<times> (string \<times> llm_server) list) op" where
  "load_servers F = load_servers_file F (sub_path (sub_path (sub_path (config_root F) ''llm-servers'') ''default'') ''1.0.0.yaml'')"

lemma carries_kinds [carry]:
  "carries (kept w0) (load_voice_profile F p)" "carries (kept w0) (resolve_voice_persona F r)"
  "carries (kept w0) (load_hardware_voice_manifest F p)" "carries (kept w0) (artifact_paths F f)"
  "carries (kept w0) (load_servers_file F p)" "carries (kept w0) (load_servers F)"
proof -
  have persona: "carries (kept w0) (load_persona F q)" for q
    unfolding load_persona_def by (intro carry)
  show persona_ref: "carries (kept w0) (resolve_voice_persona F r)" for r
    unfolding resolve_voice_persona_def by (intro carry persona)
  show "carries (kept w0) (load_voice_profile F p)"
    unfolding load_voice_profile_def by (intro carry persona_ref)
  show manifest: "carries (kept w0) (load_hardware_voice_manifest F p)" for p
    unfolding load_hardware_voice_manifest_def by (intro carry)
  show "carries (kept w0) (artifact_paths F f)"
    unfolding artifact_paths_def by (intro carry manifest)
  show loaded: "carries (kept w0) (load_servers_file F p)" for p
    unfolding load_servers_file_def by (intro carry)
  show "carries (kept w0) (load_servers F)"
    unfolding load_servers_def by (rule loaded)
qed

end
