(* ===== verification/Awf_Hardware.thy ===== *)
theory Awf_Hardware
  imports Awf_Kinds
begin

text \<open>
  The host and what it can do (hardware/): the inventory and its detectors' results, the preflight
  tokens, the readiness of each speech function and of the language model server, the canonical
  profile, and the dependency extras.  What the system, the Python packages and the processes of the
  host answer is a parameter: each detector gives the dict it gives or the exception it raises.
\<close>

section \<open>The inventory (hardware/profiler.py)\<close>

record inventory =
  v_os_name :: json
  v_os_version :: json
  v_device_class :: json
  v_arch :: json
  v_cpu_name :: json
  v_physical_cores :: json
  v_logical_cores :: json
  v_max_freq :: json
  v_memory_total :: json
  v_memory_available :: json
  v_memory_source :: json
  v_gpu_available :: json
  v_gpu_name :: json
  v_gpu_vendor :: json
  v_gpu_vram :: json
  v_gpu_vram_source :: json
  v_cuda_available :: json
  v_cuda_version :: json
  v_npu_available :: json
  v_npu_vendor :: json
  v_detector_errors :: "(string \<times> string) list"
  v_inventory_id :: string
  v_profiled_at :: string

definition unknown :: json where
  "unknown = JStr ''unknown''"

text \<open>
  HardwareInventory(**merged, ...): the fields the detectors give, and the defaults of the others; a
  detector that gives one of the last three raises TypeError (a keyword given twice).
\<close>

definition inventory_of :: "obj \<Rightarrow> (string \<times> string) list \<Rightarrow> string \<Rightarrow> string \<Rightarrow> inventory" where
  "inventory_of m errors i now =
     \<lparr>v_os_name = get_or ''os_name'' unknown m, v_os_version = get_or ''os_version'' unknown m,
      v_device_class = get_or ''device_class'' unknown m, v_arch = get_or ''arch'' unknown m, v_cpu_name = get_or ''cpu_name'' unknown m,
      v_physical_cores = get ''cpu_physical_cores'' m, v_logical_cores = get ''cpu_logical_cores'' m, v_max_freq = get ''cpu_max_freq_mhz'' m,
      v_memory_total = get ''memory_total_gb'' m, v_memory_available = get ''memory_available_gb'' m, v_memory_source = get ''memory_source'' m,
      v_gpu_available = get_or ''gpu_available'' (JBool False) m, v_gpu_name = get ''gpu_name'' m, v_gpu_vendor = get ''gpu_vendor'' m,
      v_gpu_vram = get ''gpu_vram_gb'' m, v_gpu_vram_source = get ''gpu_vram_source'' m,
      v_cuda_available = get_or ''cuda_available'' (JBool False) m, v_cuda_version = get ''cuda_version'' m,
      v_npu_available = get_or ''npu_available'' (JBool False) m, v_npu_vendor = get ''npu_vendor'' m,
      v_detector_errors = errors, v_inventory_id = i, v_profiled_at = now\<rparr>"

definition known_fields :: "string list" where
  "known_fields = [''os_name'', ''os_version'', ''device_class'', ''arch'', ''cpu_name'', ''cpu_physical_cores'', ''cpu_logical_cores'',
     ''cpu_max_freq_mhz'', ''memory_total_gb'', ''memory_available_gb'', ''memory_source'', ''gpu_available'', ''gpu_name'', ''gpu_vendor'',
     ''gpu_vram_gb'', ''gpu_vram_source'', ''cuda_available'', ''cuda_version'', ''npu_available'', ''npu_vendor'', ''detector_errors'',
     ''inventory_id'', ''profiled_at'']"

definition inventory_dict :: "inventory \<Rightarrow> obj" where
  "inventory_dict v = zip known_fields
     [v_os_name v, v_os_version v, v_device_class v, v_arch v, v_cpu_name v, v_physical_cores v, v_logical_cores v, v_max_freq v,
      v_memory_total v, v_memory_available v, v_memory_source v, v_gpu_available v, v_gpu_name v, v_gpu_vendor v, v_gpu_vram v,
      v_gpu_vram_source v, v_cuda_available v, v_cuda_version v, v_npu_available v, v_npu_vendor v,
      JObj (map (\<lambda>(n, t). (n, JStr t)) (v_detector_errors v)), JStr (v_inventory_id v), JStr (v_profiled_at v)]"

text \<open>What activate_qnn_execution_provider reports.\<close>

record qnn_activation =
  qa_registered :: bool
  qa_library :: "string option"
  qa_backend :: "string option"
  qa_error :: "string option"

text \<open>
  The host.  \<open>detectors\<close> are the six detectors by name and \<open>kept_inventory\<close>, \<open>kept_tokens\<close> the two
  caches of the process; the probes of the preflight answer without raising, as the code guards each.
  \<open>onnx_inputs\<close> builds an inference session on a model file and names its inputs.
\<close>

record 'x platform =
  pl_system :: string
  pl_machine :: string
  detectors :: "(string \<times> ('x \<Rightarrow> json res \<times> 'x)) list"
  kept_inventory :: "'x \<Rightarrow> inventory option"
  keep_inventory :: "inventory option \<Rightarrow> 'x \<Rightarrow> 'x"
  kept_tokens :: "'x \<Rightarrow> string list option"
  keep_tokens :: "string list option \<Rightarrow> 'x \<Rightarrow> 'x"
  importable :: "string \<Rightarrow> 'x \<Rightarrow> bool \<times> 'x"
  activate_qnn :: "'x \<Rightarrow> qnn_activation \<times> 'x"
  ep_device_names :: "'x \<Rightarrow> string list \<times> 'x"
  providers :: "'x \<Rightarrow> string list \<times> 'x"
  qnn_backend :: "'x \<Rightarrow> string option \<times> 'x"
  opencl_platforms :: "'x \<Rightarrow> nat \<times> 'x"
  opencl_qualcomm :: "'x \<Rightarrow> bool \<times> 'x"
  which :: "string \<Rightarrow> 'x \<Rightarrow> string option \<times> 'x"
  run_process :: "string list \<Rightarrow> nat \<Rightarrow> 'x \<Rightarrow> (int \<times> string \<times> string) res \<times> 'x"
  cuda_devices :: "'x \<Rightarrow> int \<times> 'x"
  onnx_inputs :: "path \<Rightarrow> 'x \<Rightarrow> string list res \<times> 'x"
  file_size :: "path \<Rightarrow> 'x \<Rightarrow> nat res \<times> 'x"
  json_compact :: "json \<Rightarrow> string"

definition answer :: "('x \<Rightarrow> 'a \<times> 'x) \<Rightarrow> ('x, 'a) op" where
  "answer f = outside (\<lambda>x. case f x of (a, x') \<Rightarrow> (Val a, x'))"

definition normalize_gpu_vendor :: "string \<Rightarrow> string option" where
  "normalize_gpu_vendor text =
     (let l = lower text; seen = (\<lambda>t. sublist t l) in
      if seen ''nvidia'' then Some ''nvidia''
      else if seen ''qualcomm'' \<or> seen ''adreno'' \<or> seen ''snapdragon'' then Some ''qualcomm''
      else if seen ''amd'' \<or> seen ''radeon'' \<or> seen ''rocm'' then Some ''amd''
      else if seen ''intel'' \<or> seen ''arc'' \<or> seen ''xpu'' then Some ''intel''
      else None)"

definition normalize_arch :: "string \<Rightarrow> string" where
  "normalize_arch machine =
     (let v = lower (strip machine) in
      if v \<in> {''amd64'', ''x86_64'', ''x64''} then ''x64''
      else if v \<in> {''arm64'', ''aarch64''} then ''arm64'' else ''unknown'')"

definition detect_os :: "string \<Rightarrow> string result" where
  "detect_os sys = (if sys = ''Windows'' then Inr ''windows'' else if sys = ''Linux'' then Inr ''linux''
     else fail ''HardwareProfilerError'' (''unsupported OS for the canonical profile enum: '' @ sys))"

definition detect_arch :: "string \<Rightarrow> string result" where
  "detect_arch machine = (if normalize_arch machine = ''unknown''
     then fail ''HardwareProfilerError'' (''unsupported architecture for the canonical profile enum: '' @ machine)
     else Inr (normalize_arch machine))"

definition inventory_id :: "'x files \<Rightarrow> 'x platform \<Rightarrow> obj \<Rightarrow> string" where
  "inventory_id F H given =
     ''inv-'' @ take 16 (hex_sha256 F (json_compact H (sort_json (JObj
        (filter (\<lambda>(k, v). k \<notin> {''inventory_id'', ''profiled_at'', ''detector_errors''}) given)))))"

text \<open>One detector: its exception becomes an error of the inventory, its known fields join the others.\<close>

definition run_detector ::
  "string \<times> ('x \<Rightarrow> json res \<times> 'x) \<Rightarrow> obj \<times> (string \<times> string) list \<Rightarrow> ('x, obj \<times> (string \<times> string) list) op" where
  "run_detector = (\<lambda>(name, detector) (merged, errors).
     bindE (attempt (outside detector)) (\<lambda>r. case r of
         Inl e \<Rightarrow> ret (merged, AList.update name (exc_type e @ '': '' @ exc_text e) errors)
       | Inr (JObj d) \<Rightarrow> ret (merge_obj merged (filter (\<lambda>(k, v). k \<in> set known_fields) d), errors)
       | Inr v \<Rightarrow> ret (merged, errors)))"

definition doubled_keyword :: "obj \<Rightarrow> bool" where
  "doubled_keyword m = (has_key ''detector_errors'' m \<or> has_key ''inventory_id'' m \<or> has_key ''profiled_at'' m)"

definition collect_inventory :: "'x files \<Rightarrow> 'x platform \<Rightarrow> bool \<Rightarrow> ('x, inventory) op" where
  "collect_inventory F H refresh =
     bindE (gets (\<lambda>w. kept_inventory H (ext w))) (\<lambda>kept_one.
     case (if refresh then None else kept_one) of
         Some v \<Rightarrow> ret v
       | None \<Rightarrow>
           bindE (foldE run_detector (detectors H) ([], [])) (\<lambda>(merged, errors).
           bindE utc_now_rfc3339 (\<lambda>now.
           if doubled_keyword merged then throw ''TypeError'' ''got multiple values for keyword argument''
           else
             let v = inventory_of merged errors (inventory_id F H merged) now in
             seqE (answer (\<lambda>x. ((), keep_inventory H (Some v) x))) (ret v))))"

section \<open>Preflight tokens (hardware/preflight.py)\<close>

definition import_check_modules :: "string list" where
  "import_check_modules = [''onnxruntime'', ''onnxruntime_qnn'', ''onnx_asr'', ''sherpa_onnx'', ''transformers'', ''ctranslate2'',
     ''faster_whisper'', ''kokoro_onnx'', ''openwakeword'']"

definition import_tokens :: "'x platform \<Rightarrow> ('x, string list) op" where
  "import_tokens H = mapE (\<lambda>n. bindE (answer (importable H n)) (\<lambda>b.
     ret (''import:'' @ n @ (if b then [] else '':MISSING'')))) import_check_modules"

definition vulkan_available :: "'x platform \<Rightarrow> ('x, bool) op" where
  "vulkan_available H =
     bindE (answer (which H ''vulkaninfo'')) (\<lambda>exe. case exe of
         None \<Rightarrow> ret False
       | Some cmd \<Rightarrow>
           bindE (attempt (outside (run_process H [cmd, ''--summary''] 5))) (\<lambda>r. case r of
               Inl e \<Rightarrow> ret False
             | Inr (code, out, err) \<Rightarrow>
                 let text = lower (out @ nl @ err) in
                 ret (code = 0 \<and> (sublist ''device'' text \<or> sublist ''gpu'' text))))"

definition qnn_tokens :: "qnn_activation \<Rightarrow> string list" where
  "qnn_tokens q =
     (case qa_library q of Some p \<Rightarrow> [''qnn:provider_library:'' @ p] | None \<Rightarrow> []) @
     (case qa_backend q of Some p \<Rightarrow> [''qnn:backend_path:'' @ p] | None \<Rightarrow> []) @
     (if qa_registered q then [''qnn:provider_library_registered'', ''ep:QNNExecutionProvider'']
      else (case qa_error q of Some (c # cs) \<Rightarrow> [''qnn:provider_activation_error:'' @ c # cs] | _ \<Rightarrow> []))"

definition collect_preflight_tokens :: "'x platform \<Rightarrow> inventory \<Rightarrow> bool \<Rightarrow> ('x, string list) op" where
  "collect_preflight_tokens H facts refresh =
     bindE (gets (\<lambda>w. kept_tokens H (ext w))) (\<lambda>kept_one.
     case (if refresh then None else kept_one) of
         Some ts \<Rightarrow> ret ts
       | None \<Rightarrow>
           bindE (import_tokens H) (\<lambda>imports.
           bindE (answer (activate_qnn H)) (\<lambda>q.
           bindE (answer (ep_device_names H)) (\<lambda>devs.
           bindE (answer (providers H)) (\<lambda>eps.
           bindE (answer (qnn_backend H)) (\<lambda>backend.
           bindE (bindE (if v_gpu_vendor facts = JStr ''qualcomm'' then answer (opencl_platforms H) else ret 0) (\<lambda>n.
                    if 0 < n then ret True else answer (opencl_qualcomm H))) (\<lambda>adreno.
           bindE (vulkan_available H) (\<lambda>vulkan.
           bindE (answer (cuda_devices H)) (\<lambda>count.
           let tokens = remdups (sort (imports @ qnn_tokens q @ map (\<lambda>n. ''ep_device:'' @ n) (filter (\<lambda>n. n \<noteq> []) devs) @
                 map (\<lambda>p. ''ep:'' @ p) eps @
                 [if backend = None then ''dll:QnnHtp:MISSING'' else ''dll:QnnHtp''] @
                 (if adreno then [''opencl:adreno''] else []) @ (if vulkan then [''vulkan:available''] else []) @
                 [''ct2:cuda:'' @ int_str count])) in
           seqE (answer (\<lambda>x. ((), keep_tokens H (Some tokens) x))) (ret tokens))))))))))"




section \<open>Readiness (hardware/readiness.py)\<close>

record readiness =
  rd_device :: string
  rd_ready :: bool
  rd_reason :: string

definition after_last :: "char \<Rightarrow> string \<Rightarrow> string" where
  "after_last c s = rev (takeWhile (\<lambda>x. x \<noteq> c) (rev s))"

definition ct2_cuda_count :: "string list \<Rightarrow> int" where
  "ct2_cuda_count tokens = (case find (starts_with ''ct2:cuda:'') tokens of
       None \<Rightarrow> 0
     | Some t \<Rightarrow> (case parse_int (after_last (CHR '':'') t) of Some n \<Rightarrow> n | None \<Rightarrow> 0))"

definition qnn_runtime_capable :: "string list \<Rightarrow> bool \<Rightarrow> bool" where
  "qnn_runtime_capable tokens stt_imports =
     ({''ep:QNNExecutionProvider'', ''dll:QnnHtp''} \<union>
      (if stt_imports then {''import:onnxruntime_qnn'', ''import:transformers''} else {}) \<subseteq> set tokens)"

definition qualcomm_npu :: "inventory \<Rightarrow> bool" where
  "qualcomm_npu facts = (v_npu_vendor facts = JStr ''qualcomm'' \<and> truthy (v_npu_available facts))"

definition qnn_host_capable :: "inventory \<Rightarrow> string list \<Rightarrow> bool" where
  "qnn_host_capable facts tokens = (qualcomm_npu facts \<or>
     v_os_name facts = JStr ''linux'' \<and> v_arch facts = JStr ''arm64'' \<and> qnn_runtime_capable tokens False)"

definition qnn_reason :: "inventory \<Rightarrow> string \<Rightarrow> string" where
  "qnn_reason facts rest =
     (if qualcomm_npu facts then ''npu_vendor=qualcomm''
      else ''linux arm64 QNN runtime tokens present; NPU not exposed in inventory'') @
     '', QNNExecutionProvider available, QnnHtp present'' @ rest"

definition nvidia_cuda :: "inventory \<Rightarrow> bool" where
  "nvidia_cuda facts = (v_gpu_vendor facts = JStr ''nvidia'' \<and> truthy (v_cuda_available facts))"

definition on_cpu :: "bool \<Rightarrow> string \<Rightarrow> readiness" where
  "on_cpu ok why = \<lparr>rd_device = ''cpu'', rd_ready = ok, rd_reason = why\<rparr>"

definition derive_stt_readiness :: "inventory \<Rightarrow> string list \<Rightarrow> readiness" where
  "derive_stt_readiness facts tokens =
     (let imported = (\<lambda>n. ''import:'' @ n \<in> set tokens) in
      if qnn_host_capable facts tokens \<and> qnn_runtime_capable tokens True
      then \<lparr>rd_device = ''qnn'', rd_ready = True, rd_reason = qnn_reason facts '', onnxruntime_qnn and transformers importable''\<rparr>
      else if \<not> (imported ''faster_whisper'' \<or> imported ''onnx_asr'' \<or> imported ''sherpa_onnx'')
      then on_cpu False ''no STT runtime importable''
      else if nvidia_cuda facts \<and> 0 < ct2_cuda_count tokens
      then if \<not> imported ''faster_whisper'' then on_cpu True ''CUDA STT requires faster_whisper; ONNX STT CPU ready''
           else \<lparr>rd_device = ''cuda'', rd_ready = True, rd_reason = ''gpu_vendor=nvidia, cuda_available, ct2 cuda device present''\<rparr>
      else if imported ''onnx_asr'' \<or> imported ''sherpa_onnx'' then on_cpu True ''ONNX STT runtime importable''
      else on_cpu True ''no verified CUDA device for CTranslate2'')"

definition derive_tts_readiness :: "inventory \<Rightarrow> string list \<Rightarrow> readiness" where
  "derive_tts_readiness facts tokens =
     (if ''import:kokoro_onnx'' \<notin> set tokens then on_cpu False ''kokoro_onnx not importable''
      else if nvidia_cuda facts \<and> ''ep:CUDAExecutionProvider'' \<in> set tokens
      then \<lparr>rd_device = ''cuda'', rd_ready = True, rd_reason = ''gpu_vendor=nvidia, cuda_available, CUDAExecutionProvider available''\<rparr>
      else if v_os_name facts = JStr ''windows'' \<and> truthy (v_gpu_available facts) \<and> ''ep:DmlExecutionProvider'' \<in> set tokens
      then \<lparr>rd_device = ''directml'', rd_ready = True, rd_reason = ''windows, gpu_available, DmlExecutionProvider available''\<rparr>
      else if qnn_host_capable facts tokens \<and> qnn_runtime_capable tokens False
      then \<lparr>rd_device = ''qnn'', rd_ready = True, rd_reason = qnn_reason facts []\<rparr>
      else on_cpu True ''no verified accelerator execution provider for ONNX Runtime'')"

definition shown_path_option :: "path option \<Rightarrow> string" where
  "shown_path_option p = (case p of None \<Rightarrow> ''None'' | Some q \<Rightarrow> as_posix q)"

definition names_list :: "string list \<Rightarrow> string" where
  "names_list xs = py_repr (JList (map JStr (sort xs)))"

text \<open>path is not None and path.is_file().\<close>

definition path_present :: "'x files \<Rightarrow> path option \<Rightarrow> ('x, bool) op" where
  "path_present F p = (case p of None \<Rightarrow> ret False | Some q \<Rightarrow> outside (file_exists F q))"

definition derive_vad_readiness :: "'x files \<Rightarrow> 'x platform \<Rightarrow> string list \<Rightarrow> path option \<Rightarrow> ('x, readiness) op" where
  "derive_vad_readiness F H tokens artifact =
     (let old_contract = [''input'', ''sr'', ''h'', ''c'']; new_contract = [''input'', ''sr'', ''state''] in
      if ''import:onnxruntime'' \<notin> set tokens then ret (on_cpu False ''onnxruntime not importable'')
      else bindE (path_present F artifact) (\<lambda>there. case (there, artifact) of
          (True, Some p) \<Rightarrow>
            bindE (attempt (outside (onnx_inputs H p))) (\<lambda>r. case r of
                Inl e \<Rightarrow> ret (on_cpu False (''session construction failed: '' @ exc_text e))
              | Inr names \<Rightarrow>
                  if set old_contract \<subseteq> set names \<or> set new_contract \<subseteq> set names
                  then ret (on_cpu True ''artifact present and input names match'')
                  else ret (on_cpu False (''artifact input names '' @ names_list (remdups names) @ '' do not cover '' @
                         names_list old_contract @ '' or '' @ names_list new_contract)))
        | _ \<Rightarrow> ret (on_cpu False (''artifact missing: '' @ shown_path_option artifact))))"

definition derive_wake_readiness :: "'x files \<Rightarrow> string list \<Rightarrow> (string \<times> path) list \<Rightarrow> ('x, readiness) op" where
  "derive_wake_readiness F tokens paths =
     (if ''import:openwakeword'' \<notin> set tokens then ret (on_cpu False ''openwakeword not importable'')
      else bindE (mapE (\<lambda>(n, p). bindE (outside (file_exists F p)) (\<lambda>there. ret (if there then [] else [n]))) paths) (\<lambda>found.
        let missing = concat found in
        ret (if missing \<noteq> [] then on_cpu False (''missing artifacts: '' @ names_list missing)
             else on_cpu True ''all wake artifacts present; openwakeword importable'')))"

subsection \<open>The language model server\<close>

text \<open>os_name, arch, suffix = profile_id.rsplit(''-'', 2), and the profile of the same host without an accelerator.\<close>

definition cpu_fallback_profile_id :: "string \<Rightarrow> string result" where
  "cpu_fallback_profile_id profile =
     (let parts = split_on (CHR ''-'') profile; n = length parts in
      if n < 3 then fail ''ValueError'' ''not enough values to unpack''
      else Inr (join ''-'' (take (n - 2) parts) @ ''-'' @ parts ! (n - 2) @ ''-cpu''))"

definition binary_path :: "'x files \<Rightarrow> string \<Rightarrow> llm_artifact \<Rightarrow> path" where
  "binary_path F profile a =
     sub_path (sub_path (sub_path (sub_path (repo F) ''runtimes'') ''llama.cpp'') profile) (la_binary a)"

definition artifact_binary_present :: "'x files \<Rightarrow> 'x platform \<Rightarrow> string \<Rightarrow> llm_artifact \<Rightarrow> ('x, bool) op" where
  "artifact_binary_present F H profile a =
     (let p = binary_path F profile a in
      bindE (outside (file_exists F p)) (\<lambda>there.
      if \<not> there then ret False else bindE (outside (file_size H p)) (\<lambda>n. ret (0 < n))))"

definition artifact_for :: "llm_server \<Rightarrow> string \<Rightarrow> llm_artifact option" where
  "artifact_for s profile = map_of (ls_artifacts s) profile"

definition select_managed_llm_artifact ::
  "'x files \<Rightarrow> 'x platform \<Rightarrow> llm_server \<Rightarrow> string \<Rightarrow> bool \<Rightarrow> ('x, string \<times> llm_artifact option) op" where
  "select_managed_llm_artifact F H s profile allow =
     bindE (case artifact_for s profile of None \<Rightarrow> ret False | Some a \<Rightarrow> artifact_binary_present F H profile a) (\<lambda>there.
     if there then ret (profile, artifact_for s profile)
     else if \<not> allow then ret (profile, artifact_for s profile)
     else
       bindE (liftR (cpu_fallback_profile_id profile)) (\<lambda>cpu.
       bindE (case artifact_for s cpu of None \<Rightarrow> ret False | Some a \<Rightarrow> artifact_binary_present F H cpu a) (\<lambda>cpu_there.
       if cpu_there then ret (cpu, artifact_for s cpu) else ret (profile, artifact_for s profile))))"

text \<open>A rung: the accelerator, whether the hardware and the tokens grant it, and the words for that.\<close>

type_synonym rung = "string \<times> bool \<times> bool \<times> string"

definition llm_rungs :: "inventory \<Rightarrow> string list \<Rightarrow> rung list" where
  "llm_rungs facts tokens =
     [(''gpu.cuda'', nvidia_cuda facts, ''ep:CUDAExecutionProvider'' \<in> set tokens, ''gpu_vendor=nvidia, cuda_available, ep:CUDAExecutionProvider''),
      (''npu.qnn'', qnn_host_capable facts tokens, qnn_runtime_capable tokens False, qnn_reason facts []),
      (''gpu.opencl.adreno'', v_gpu_vendor facts = JStr ''qualcomm'' \<and> truthy (v_gpu_available facts), ''opencl:adreno'' \<in> set tokens,
         ''gpu_vendor=qualcomm, gpu_available, opencl:adreno''),
      (''gpu.vulkan'', truthy (v_gpu_available facts), ''vulkan:available'' \<in> set tokens, ''gpu_available, vulkan:available''),
      (''cpu'', True, True, ''cpu floor'')]"

definition cpu_ready :: "string option \<Rightarrow> readiness" where
  "cpu_ready why = on_cpu True (case why of Some r \<Rightarrow> r | None \<Rightarrow> ''no verified accelerator artifact; running on cpu'')"

text \<open>The loop over the rungs, with the reason why a stronger one was passed over.\<close>

fun climb_rungs ::
  "'x files \<Rightarrow> 'x platform \<Rightarrow> llm_server \<Rightarrow> string \<Rightarrow> path option \<Rightarrow> rung list \<Rightarrow> string option \<Rightarrow> ('x, readiness) op" where
  "climb_rungs F H s profile mdl [] why = ret (cpu_ready why)"
| "climb_rungs F H s profile mdl ((accel, hw, tok, desc) # rs) why =
     (if \<not> (hw \<and> tok) then climb_rungs F H s profile mdl rs why
      else
        bindE (if accel = ''cpu'' then liftR (cpu_fallback_profile_id profile) else ret profile) (\<lambda>art_profile.
        case filter (\<lambda>a. la_accelerator a = accel) (case artifact_for s art_profile of None \<Rightarrow> [] | Some a \<Rightarrow> [a]) of
            [] \<Rightarrow> climb_rungs F H s profile mdl rs (if accel \<noteq> ''cpu'' \<and> why = None
                    then Some (''Degraded-accelerator-unavailable: no '' @ accel @ '' artifact declared for '' @ profile) else why)
          | a # _ \<Rightarrow>
              bindE (artifact_binary_present F H art_profile a) (\<lambda>there.
              if \<not> there then ret \<lparr>rd_device = accel, rd_ready = False,
                     rd_reason = ''Degraded-no-sidecar-binary: '' @ as_posix (binary_path F art_profile a)\<rparr>
              else bindE (path_present F mdl) (\<lambda>model_there.
              if \<not> model_there then ret \<lparr>rd_device = accel, rd_ready = False,
                     rd_reason = ''Degraded-no-local-model-artifact: '' @ shown_path_option mdl\<rparr>
              else if accel = ''cpu'' then ret (cpu_ready why)
              else ret \<lparr>rd_device = accel, rd_ready = True, rd_reason = desc @ '', '' @ accel @ '' artifact declared''\<rparr>))))"

definition derive_llm_readiness ::
  "'x files \<Rightarrow> 'x platform \<Rightarrow> inventory \<Rightarrow> string list \<Rightarrow> llm_server \<Rightarrow> string \<Rightarrow> path option \<Rightarrow> ('x, readiness) op" where
  "derive_llm_readiness F H facts tokens s profile mdl =
     (if \<not> ls_managed s then ret (on_cpu True (ls_id s @ '' is operator-run; device is the server'' @ [CHR 0x27] @ ''s own concern''))
      else climb_rungs F H s profile mdl (llm_rungs facts tokens) None)"


section \<open>Models on disk and the selected one (llm/discovery.py, llm/selector.py)\<close>

record local_model =
  lm_name :: string
  lm_files :: "path list"
  lm_primary :: path

text \<open>max(files, key=(size, str(f))).\<close>

fun greater_file :: "nat \<times> path \<Rightarrow> nat \<times> path \<Rightarrow> nat \<times> path" where
  "greater_file (n, p) (m, q) = (if n < m \<or> n = m \<and> as_posix p < as_posix q then (m, q) else (n, p))"

definition llm_models_dir :: "'x files \<Rightarrow> path" where
  "llm_models_dir F = sub_path (sub_path (repo F) ''models'') ''llm''"

definition gguf_files :: "'x files \<Rightarrow> path \<Rightarrow> string list \<Rightarrow> ('x, path list) op" where
  "gguf_files F dir names =
     bindE (mapE (\<lambda>n. bindE (outside (file_exists F (join_path dir (False, [n])))) (\<lambda>there.
        ret (if there \<and> ends_with ''.gguf'' n then [n] else []))) names) (\<lambda>found.
       ret (map (\<lambda>n. join_path dir (False, [n])) (sort (concat found))))"

definition local_model_in :: "'x files \<Rightarrow> 'x platform \<Rightarrow> string \<Rightarrow> ('x, local_model list) op" where
  "local_model_in F H name =
     (let dir = join_path (llm_models_dir F) (False, [name]) in
      bindE (outside (list_dir F dir)) (\<lambda>r. case r of
          None \<Rightarrow> ret []
        | Some names \<Rightarrow>
            bindE (gguf_files F dir names) (\<lambda>fs.
            bindE (mapE (\<lambda>f. bindE (outside (file_size H f)) (\<lambda>n. ret (n, f))) fs) (\<lambda>sized. case sized of
                [] \<Rightarrow> ret []
              | s # ss \<Rightarrow> ret [\<lparr>lm_name = name, lm_files = fs, lm_primary = snd (fold (\<lambda>a b. greater_file b a) ss s)\<rparr>]))))"

definition local_models :: "'x files \<Rightarrow> 'x platform \<Rightarrow> ('x, local_model list) op" where
  "local_models F H =
     bindE (outside (list_dir F (llm_models_dir F))) (\<lambda>r. case r of
         None \<Rightarrow> ret []
       | Some names \<Rightarrow> bindE (mapE (local_model_in F H) (sort names)) (\<lambda>ms. ret (concat ms)))"

definition first_of :: "('a \<Rightarrow> bool) list \<Rightarrow> 'a list \<Rightarrow> 'a option" where
  "first_of tests xs = (case filter (\<lambda>t. list_ex t xs) tests of [] \<Rightarrow> None | t # _ \<Rightarrow> find t xs)"

definition model_by_name :: "'x files \<Rightarrow> 'x platform \<Rightarrow> string \<Rightarrow> ('x, local_model) op" where
  "model_by_name F H name =
     bindE (local_models F H) (\<lambda>ms.
     case first_of [\<lambda>m. lm_name m = name, \<lambda>m. path_name (lm_primary m) = name, \<lambda>m. name \<in> path_name ` set (lm_files m)] ms of
         Some m \<Rightarrow> ret m
       | None \<Rightarrow>
           bindE (outside (list_dir F (sub_path (llm_models_dir F) name))) (\<lambda>r. liftR (case r of
               None \<Rightarrow> llm_server_error (''Local model '' @ quoted name @ '' not found under '' @ quoted (as_posix (llm_models_dir F)))
             | Some _ \<Rightarrow> llm_server_error (''Local model directory '' @ quoted name @ '' contains no .gguf artifacts''))))"

record selection =
  sl_server :: string
  sl_provider :: string
  sl_model :: string
  sl_api_base :: string
  sl_local_only :: bool
  sl_secret :: json

definition resident_mind :: string where "resident_mind = ''resident-mind''"

text \<open>The server a candidate without a server_id means: the first with its address, or that is not managed and of its prov.\<close>

definition inferred_server :: "'x files \<Rightarrow> string \<Rightarrow> string \<Rightarrow> ('x, string) op" where
  "inferred_server F base_url prov =
     bindE (attempt (load_servers F)) (\<lambda>r. case r of
         Inl e \<Rightarrow> ret ''llama-server''
       | Inr (_, servers) \<Rightarrow>
           (case find (\<lambda>(i, s). ls_api_base s = base_url \<or> \<not> ls_managed s \<and> ls_provider s = prov) servers of
              Some (i, _) \<Rightarrow> ret i | None \<Rightarrow> ret ''llama-server''))"

definition selection_of :: "'x files \<Rightarrow> obj \<Rightarrow> obj \<Rightarrow> ('x, selection) op" where
  "selection_of F profile cand =
     (let prov = py_str (get_or ''provider'' (JStr ''openai'') cand);
          base_url = py_str (get_or ''api_base'' (JStr []) cand) in
      bindE (liftR (dict_or_default (get ''privacy'' profile))) (\<lambda>privacy.
      let explicit = or_else (get ''server_id'' profile) (get ''server_id'' cand) in
      bindE (if truthy explicit then ret (py_str explicit) else inferred_server F base_url prov) (\<lambda>server.
        ret \<lparr>sl_server = server, sl_provider = prov, sl_model = py_str (get_or ''model'' (JStr []) cand), sl_api_base = base_url,
             sl_local_only = truthy (get_or ''local_only'' (JBool True) privacy), sl_secret = get ''api_key_secret_name'' cand\<rparr>)))"

definition current_selection :: "'x files \<Rightarrow> ('x, selection option) op" where
  "current_selection F =
     bindE (attempt (resolve_registry_object F ''model-profiles'' resident_mind ''1.0.0'')) (\<lambda>r. case r of
         Inl e \<Rightarrow> ret None
       | Inr (p, _) \<Rightarrow>
           bindE (outside (file_exists F p)) (\<lambda>there.
           if \<not> there then ret None
           else bindE (attempt (bindE (outside (read_text F p)) (\<lambda>text. liftR (yaml_load F text)))) (\<lambda>v. case v of
               Inr (JObj profile) \<Rightarrow>
                 (case get ''candidates'' profile of
                    JList (JObj cand # _) \<Rightarrow> bindE (selection_of F profile cand) (\<lambda>s. ret (Some s))
                  | _ \<Rightarrow> ret None)
             | _ \<Rightarrow> ret None)))"

section \<open>The canonical profile (hardware/profiler.py)\<close>

definition profile_suffix :: "string list \<Rightarrow> string list \<Rightarrow> string" where
  "profile_suffix devices tokens =
     (if ''qnn'' \<in> set devices then ''qnn''
      else if ''cuda'' \<in> set devices then ''cuda''
      else if ''directml'' \<in> set devices \<or> ''opencl:adreno'' \<in> set tokens then ''gpu''
      else ''cpu'')"

text \<open>The readiness of the server of the selection, or of the default one.\<close>

definition selected_llm_readiness ::
  "'x files \<Rightarrow> 'x platform \<Rightarrow> inventory \<Rightarrow> string list \<Rightarrow> string \<Rightarrow> ('x, readiness) op" where
  "selected_llm_readiness F H facts tokens profile =
     bindE (load_servers F) (\<lambda>(default_id, servers).
     bindE (current_selection F) (\<lambda>sel.
     bindE (case sel of
         Some s \<Rightarrow>
           (case map_of servers (sl_server s) of
              Some server \<Rightarrow>
                bindE (if sl_model s = [] then ret None
                       else bindE (attempt (model_by_name F H (sl_model s))) (\<lambda>r. ret (case r of Inl e \<Rightarrow> None | Inr m \<Rightarrow> Some (lm_primary m)))) (\<lambda>mdl.
                  ret (server, mdl))
            | None \<Rightarrow> bindE (demand (Exc ''KeyError'' (str_repr default_id) None) (map_of servers default_id)) (\<lambda>server. ret (server, None)))
       | None \<Rightarrow> bindE (demand (Exc ''KeyError'' (str_repr default_id) None) (map_of servers default_id)) (\<lambda>server. ret (server, None))) (\<lambda>(server, mdl).
       derive_llm_readiness F H facts tokens server profile mdl)))"

record host_profile =
  hp_inventory :: inventory
  hp_tokens :: "string list"
  hp_readiness :: "(string \<times> readiness) list"

definition resolve_hardware_profile_id :: "'x files \<Rightarrow> 'x platform \<Rightarrow> ('x, string \<times> host_profile) op" where
  "resolve_hardware_profile_id F H =
     bindE (liftR (detect_os (pl_system H))) (\<lambda>os.
     bindE (liftR (detect_arch (pl_machine H))) (\<lambda>arch.
     bindE (collect_inventory F H False) (\<lambda>facts.
     bindE (collect_preflight_tokens H facts False) (\<lambda>tokens.
     bindE (artifact_paths F ''vad'') (\<lambda>vad_paths.
     bindE (artifact_paths F ''wake'') (\<lambda>wake_paths.
     bindE (derive_vad_readiness F H tokens (map_of vad_paths ''silero_vad.onnx'')) (\<lambda>vad.
     bindE (derive_wake_readiness F tokens wake_paths) (\<lambda>wake.
     let ready = [(''stt'', derive_stt_readiness facts tokens), (''tts'', derive_tts_readiness facts tokens), (''vad'', vad), (''wake'', wake)];
         profile = os @ ''-'' @ arch @ ''-'' @ profile_suffix (map (rd_device \<circ> snd) ready) tokens in
     bindE (catchE (selected_llm_readiness F H facts tokens profile)
              (\<lambda>e. ret (on_cpu False (''llm readiness resolution failed: '' @ exc_text e)))) (\<lambda>llm.
       ret (profile, \<lparr>hp_inventory = facts, hp_tokens = tokens, hp_readiness = ready @ [(''llm'', llm)]\<rparr>))))))))))"

definition readiness_dict :: "readiness \<Rightarrow> json" where
  "readiness_dict r = JObj [(''device'', JStr (rd_device r)), (''ready'', JBool (rd_ready r)), (''reason'', JStr (rd_reason r))]"

definition profile_payload :: "string \<Rightarrow> host_profile \<Rightarrow> json" where
  "profile_payload profile p = JObj [(''profile_id'', JStr profile), (''inventory'', JObj (inventory_dict (hp_inventory p))),
     (''tokens'', JList (map JStr (hp_tokens p))), (''readiness'', JObj (map (\<lambda>(n, r). (n, readiness_dict r)) (hp_readiness p)))]"

text \<open>run_hardware_profiler, with what it recorded of the host as a parameter in the activities of a run.\<close>

definition profile_host :: "'x files \<Rightarrow> 'x platform \<Rightarrow> bool \<Rightarrow> ('x, string) op" where
  "profile_host F H refresh =
     seqE (whenE refresh (answer (\<lambda>x. ((), keep_tokens H None (keep_inventory H None x))))) (
     bindE (resolve_hardware_profile_id F H) (\<lambda>(profile, p).
     seqE ensure_system_run (
     seqE (log_event system_run_id None ''RESOLVED'' ''hardware_profiler'' ''hardware_profile_resolved'' (profile_payload profile p))
       (ret profile))))"

section \<open>Dependency extras (hardware/provisioning.py)\<close>

definition explain_ort_extra :: "inventory \<Rightarrow> string \<times> string" where
  "explain_ort_extra v =
     (if v_arch v = JStr ''x64'' \<and> nvidia_cuda v then (''hw-ort-cuda'', ''arch=x64, gpu_vendor=nvidia, cuda_available=true'')
      else if v_os_name v = JStr ''linux'' \<and> v_arch v = JStr ''arm64''
      then (if v_npu_vendor v = JStr ''qualcomm'' then (''hw-ort-qnn'', ''os_name=linux, arch=arm64, npu_vendor=qualcomm'')
            else (''hw-ort-qnn'', ''os_name=linux, arch=arm64, qnn_candidate=true''))
      else if v_os_name v = JStr ''windows'' \<and> v_arch v = JStr ''arm64'' \<and> v_npu_vendor v = JStr ''qualcomm''
      then (''hw-ort-qnn'', ''os_name=windows, arch=arm64, npu_vendor=qualcomm'')
      else if v_os_name v = JStr ''windows'' \<and> truthy (v_gpu_available v) \<and> v_gpu_vendor v \<in> {JStr ''amd'', JStr ''intel''}
      then (''hw-ort-directml'', ''os_name=windows, gpu_available=true, gpu_vendor='' @ py_str (v_gpu_vendor v))
      else (''hw-ort-cpu'', ''no accelerator condition matched - cpu floor''))"

definition resolve_required_extras :: "inventory \<Rightarrow> bool \<Rightarrow> bool \<Rightarrow> bool \<Rightarrow> string list" where
  "resolve_required_extras v speech dev gateway =
     fst (explain_ort_extra v) # (if speech then [''speech'', ''wake-word''] else []) @
     (if gateway then [''model-gateway''] else []) @ (if dev then [''dev''] else [])"


section \<open>What the host may claim\<close>

lemma carries_bool [carry]: "carries I m \<Longrightarrow> carries I n \<Longrightarrow> carries I (case b of True \<Rightarrow> m | False \<Rightarrow> n)"
  by (simp split: bool.split)

lemma carries_answer [carry]: "carries (kept w0) (answer f)"
  unfolding answer_def by (intro carry)

lemma carries_inventory [carry]: "carries (kept w0) (collect_inventory F H b)"
proof -
  have "carries (kept w0) (run_detector d s)" for d s
    unfolding run_detector_def by (cases d; cases s) (simp, intro carry)
  then show ?thesis unfolding collect_inventory_def by (intro carry)
qed

lemma carries_tokens [carry]: "carries (kept w0) (collect_preflight_tokens H v b)"
  unfolding collect_preflight_tokens_def import_tokens_def vulkan_available_def by (intro carry)

lemma carries_present [carry]: "carries (kept w0) (path_present F p)"
  "carries (kept w0) (artifact_binary_present F H i a)"
  unfolding path_present_def artifact_binary_present_def by (intro carry)+

lemma carries_rungs [carry]: "carries (kept w0) (climb_rungs F H s profile mdl rs why)"
  by (induction F H s profile mdl rs why rule: climb_rungs.induct) (simp_all only: climb_rungs.simps, (intro carry | assumption)+)

lemma carries_selection [carry]: "carries (kept w0) (current_selection F)"
proof -
  have "carries (kept w0) (selection_of F d c)" for d c
    unfolding selection_of_def inferred_server_def by (intro carry)
  then show ?thesis unfolding current_selection_def by (intro carry)
qed

lemma carries_models [carry]: "carries (kept w0) (model_by_name F H n)"
proof -
  have "carries (kept w0) (local_model_in F H m)" for m
    unfolding local_model_in_def gguf_files_def by (intro carry)
  then show ?thesis unfolding model_by_name_def local_models_def by (intro carry)
qed

lemma carries_profile [carry]: "carries (kept w0) (resolve_hardware_profile_id F H)"
  unfolding resolve_hardware_profile_id_def selected_llm_readiness_def derive_llm_readiness_def
    derive_vad_readiness_def derive_wake_readiness_def
  by (intro carry)

lemma carries_profile_host [carry]: "carries (kept w0) (profile_host F H b)"
  unfolding profile_host_def by (intro carry)

definition granted :: "inventory \<Rightarrow> string list \<Rightarrow> string \<Rightarrow> bool" where
  "granted v tokens device =
     (device = ''cpu'' \<or>
      device = ''cuda'' \<and> nvidia_cuda v \<and> (0 < ct2_cuda_count tokens \<or> ''ep:CUDAExecutionProvider'' \<in> set tokens) \<or>
      device = ''directml'' \<and> v_os_name v = JStr ''windows'' \<and> truthy (v_gpu_available v) \<and> ''ep:DmlExecutionProvider'' \<in> set tokens \<or>
      device = ''qnn'' \<and> (qualcomm_npu v \<or> v_os_name v = JStr ''linux'' \<and> v_arch v = JStr ''arm64'') \<and>
        {''ep:QNNExecutionProvider'', ''dll:QnnHtp''} \<subseteq> set tokens)"

definition sound :: "inventory \<Rightarrow> string list \<Rightarrow> readiness \<Rightarrow> bool" where
  "sound v tokens r = (granted v tokens (rd_device r) \<and> (rd_ready r \<or> rd_device r = ''cpu''))"

lemma sound_cpu: "sound v tokens (on_cpu b why)"
  by (simp add: sound_def granted_def on_cpu_def)

lemma sound_cuda:
  "nvidia_cuda v \<Longrightarrow> 0 < ct2_cuda_count tokens \<or> ''ep:CUDAExecutionProvider'' \<in> set tokens \<Longrightarrow>
   sound v tokens \<lparr>rd_device = ''cuda'', rd_ready = True, rd_reason = why\<rparr>"
  by (simp add: sound_def granted_def)

lemma sound_directml:
  "v_os_name v = JStr ''windows'' \<Longrightarrow> truthy (v_gpu_available v) \<Longrightarrow> ''ep:DmlExecutionProvider'' \<in> set tokens \<Longrightarrow>
   sound v tokens \<lparr>rd_device = ''directml'', rd_ready = True, rd_reason = why\<rparr>"
  by (simp add: sound_def granted_def)

lemma sound_qnn:
  "qnn_host_capable v tokens \<Longrightarrow> qnn_runtime_capable tokens b \<Longrightarrow>
   sound v tokens \<lparr>rd_device = ''qnn'', rd_ready = True, rd_reason = why\<rparr>"
  unfolding sound_def granted_def qnn_host_capable_def qnn_runtime_capable_def by simp

lemma sound_if: "(b \<Longrightarrow> sound v tokens r) \<Longrightarrow> (\<not> b \<Longrightarrow> sound v tokens s) \<Longrightarrow> sound v tokens (if b then r else s)"
  by simp

lemmas sound_rules = sound_if sound_cpu sound_cuda sound_directml sound_qnn

lemma speech_sound: "sound v tokens (derive_stt_readiness v tokens)" "sound v tokens (derive_tts_readiness v tokens)"
  unfolding derive_stt_readiness_def derive_tts_readiness_def Let_def
  by (intro sound_rules; blast)+


lemma climbed:
  assumes "climb_rungs F H s profile mdl rs why w = (Val r, w')" "rd_ready r" "rd_device r \<noteq> ''cpu''"
  shows "\<exists>desc p a. (rd_device r, True, True, desc) \<in> set rs \<and> map_of (ls_artifacts s) p = Some a \<and> la_accelerator a = rd_device r"
  using assms
proof (induction F H s profile mdl rs why arbitrary: w rule: climb_rungs.induct)
  case (1 F H s profile mdl why)
  then show ?case by (auto simp: cpu_ready_def on_cpu_def basic_Val)
next
  case (2 F H s profile mdl accel hw tok desc rs why)
  show ?case
  proof (cases "hw \<and> tok")
    case False
    then show ?thesis using 2 by auto
  next
    case True
    with 2(3) obtain p w1 where c: "(case filter (\<lambda>a. la_accelerator a = accel) (case artifact_for s p of None \<Rightarrow> [] | Some a \<Rightarrow> [a]) of
            [] \<Rightarrow> climb_rungs F H s profile mdl rs (if accel \<noteq> ''cpu'' \<and> why = None
                    then Some (''Degraded-accelerator-unavailable: no '' @ accel @ '' artifact declared for '' @ profile) else why)
          | a # _ \<Rightarrow>
              bindE (artifact_binary_present F H p a) (\<lambda>there.
              if \<not> there then ret \<lparr>rd_device = accel, rd_ready = False,
                     rd_reason = ''Degraded-no-sidecar-binary: '' @ as_posix (binary_path F p a)\<rparr>
              else bindE (path_present F mdl) (\<lambda>model_there.
              if \<not> model_there then ret \<lparr>rd_device = accel, rd_ready = False,
                     rd_reason = ''Degraded-no-local-model-artifact: '' @ shown_path_option mdl\<rparr>
              else if accel = ''cpu'' then ret (cpu_ready why)
              else ret \<lparr>rd_device = accel, rd_ready = True, rd_reason = desc @ '', '' @ accel @ '' artifact declared''\<rparr>))) w1 = (Val r, w')"
      unfolding climb_rungs.simps if_not_P [OF True [THEN not_not [THEN iffD2]]] bind_Val by blast
    show ?thesis
    proof (cases "filter (\<lambda>a. la_accelerator a = accel) (case artifact_for s p of None \<Rightarrow> [] | Some a \<Rightarrow> [a])")
      case Nil
      then show ?thesis using c 2(2) [OF _ Nil] True 2(4,5) by auto
    next
      case (Cons a as)
      then have a: "map_of (ls_artifacts s) p = Some a" "la_accelerator a = accel"
        by (auto simp: artifact_for_def split: option.splits if_splits)
      have "rd_device r = accel" using c Cons 2(4,5)
        by (auto simp: bind_Val basic_Val cpu_ready_def on_cpu_def split: if_splits)
      then show ?thesis using a True by auto
    qed
  qed
qed


text \<open>
  A server that is managed is ready on an accelerator only when hardware and tokens grant the rung and
  the registry declares a binary for it.
\<close>

lemma llm_accelerator_is_granted:
  assumes "derive_llm_readiness F H v tokens s profile mdl w = (Val r, w')" "rd_ready r" "rd_device r \<noteq> ''cpu''"
  shows "\<exists>desc p a. (rd_device r, True, True, desc) \<in> set (llm_rungs v tokens) \<and> map_of (ls_artifacts s) p = Some a \<and>
    la_accelerator a = rd_device r"
proof (cases "ls_managed s")
  case True
  with assms(1) have "climb_rungs F H s profile mdl (llm_rungs v tokens) None w = (Val r, w')"
    by (simp add: derive_llm_readiness_def)
  from climbed [OF this assms(2,3)] show ?thesis .
next
  case False
  with assms show ?thesis by (simp add: derive_llm_readiness_def on_cpu_def basic_Val)
qed

lemma climb_without_artifacts:
  assumes "ls_artifacts s = []" "cpu_fallback_profile_id profile = Inr c"
  shows "\<exists>why'. climb_rungs F H s profile mdl rs why w = (Val (cpu_ready why'), w)"
proof (induction rs arbitrary: why)
  case Nil
  then show ?case by (auto simp: ret_def)
next
  case (Cons g rs)
  obtain accel hw tok desc where g: "g = (accel, hw, tok, desc)" by (cases g)
  show ?case
  proof (cases "hw \<and> tok")
    case False
    then show ?thesis using Cons.IH by (simp add: g)
  next
    case True
    have "(if accel = ''cpu'' then liftR (cpu_fallback_profile_id profile) else ret profile) w =
        (Val (if accel = ''cpu'' then c else profile), w)"
      by (simp add: assms(2) liftR_def ret_def)
    then show ?thesis using True Cons.IH by (simp add: g run_bind(1) artifact_for_def assms(1))
  qed
qed

text \<open>
  A managed server for which no binary is declared at all is reported as ready on the CPU, whether
  or not there is a model: the check of the binary and of the model is made only at a rung whose
  artifact is declared.
\<close>

theorem llm_ready_without_artifact:
  assumes "ls_managed s" "ls_artifacts s = []" "cpu_fallback_profile_id profile = Inr c"
  shows "\<exists>r. derive_llm_readiness F H v tokens s profile mdl w = (Val r, w) \<and> rd_ready r \<and> rd_device r = ''cpu''"
proof -
  from climb_without_artifacts [OF assms(2,3)] obtain why
    where "climb_rungs F H s profile mdl (llm_rungs v tokens) None w = (Val (cpu_ready why), w)" by blast
  then show ?thesis using assms(1) by (simp add: derive_llm_readiness_def cpu_ready_def on_cpu_def)
qed

definition demo_platform :: "unit platform" where
  "demo_platform = \<lparr>pl_system = ''Linux'', pl_machine = ''aarch64'',
     detectors = [(''os'', \<lambda>x. (Val (JObj [(''os_name'', JStr ''linux''), (''arch'', JStr ''arm64'')]), x)),
       (''gpu'', \<lambda>x. (Val (JObj [(''gpu_available'', JBool True), (''gpu_vendor'', JStr ''nvidia'')]), x)),
       (''cuda'', \<lambda>x. (Val (JObj [(''cuda_available'', JBool True)]), x)), (''npu'', \<lambda>x. (Exn (Exc ''OSError'' ''gone'' None), x))],
     kept_inventory = (\<lambda>x. None), keep_inventory = (\<lambda>v x. x),
     kept_tokens = (\<lambda>x. Some [''ep:CUDAExecutionProvider'', ''import:kokoro_onnx'']), keep_tokens = (\<lambda>t x. x),
     importable = (\<lambda>n x. (True, x)), activate_qnn = (\<lambda>x. (\<lparr>qa_registered = False, qa_library = None, qa_backend = None, qa_error = None\<rparr>, x)),
     ep_device_names = (\<lambda>x. ([], x)), providers = (\<lambda>x. ([], x)), qnn_backend = (\<lambda>x. (None, x)), opencl_platforms = (\<lambda>x. (0, x)),
     opencl_qualcomm = (\<lambda>x. (False, x)), which = (\<lambda>n x. (None, x)), run_process = (\<lambda>c t x. (Val (0, [], []), x)),
     cuda_devices = (\<lambda>x. (0, x)), onnx_inputs = (\<lambda>p x. (Val [], x)), file_size = (\<lambda>p x. (Val 1, x)), json_compact = (\<lambda>j. ''{}'')\<rparr>"

definition demo_server :: llm_server where
  "demo_server = \<lparr>ls_id = ''llama-server'', ls_managed = True, ls_base_url = ''http://127.0.0.1:8080'', ls_base_path = ''/v1'', ls_provider = ''openai'',
     ls_health = [''/health''], ls_artifacts = [], ls_launch = [], ls_defaults = [], ls_secret = None\<rparr>"

theorem llm_ready_without_artifact_witness:
  "\<exists>r. derive_llm_readiness demo_files demo_platform (inventory_of [] [] [] []) [] demo_server ''linux-x64-cpu'' None (one_run () []) = (Val r, one_run () [])
     \<and> rd_ready r \<and> rd_device r = ''cpu''"
  by (rule llm_ready_without_artifact [where c = "''linux-x64-cpu''"]) (simp add: demo_server_def, simp add: demo_server_def, code_simp)

lemma canonical_ids:
  "\<forall>os \<in> set [''windows'', ''linux'']. \<forall>arch \<in> set [''x64'', ''arm64'']. \<forall>suffix \<in> set [''qnn'', ''cuda'', ''gpu'', ''cpu''].
     (os @ ''-'' @ arch @ ''-'' @ suffix \<in> set canonical_profiles) =
     (\<not> (arch = ''arm64'' \<and> suffix = ''cuda'') \<and> \<not> (arch = ''x64'' \<and> suffix = ''qnn''))"
  by code_simp

text \<open>
  The profile a host resolves to is its system, its architecture and the strongest device of a
  speech function; it is one of the canonical profiles exactly when that device is not CUDA on arm64
  and not QNN on x64, which nothing rules out.
\<close>

theorem profile_canonical_iff:
  assumes "resolve_hardware_profile_id F H w = (Val (profile, p), w')"
  shows "\<exists>os arch. os \<in> {''windows'', ''linux''} \<and> arch \<in> {''x64'', ''arm64''} \<and>
    (let suffix = profile_suffix (map (rd_device \<circ> snd) (butlast (hp_readiness p))) (hp_tokens p) in
     profile = os @ ''-'' @ arch @ ''-'' @ suffix \<and>
     (profile \<in> set canonical_profiles \<longleftrightarrow> \<not> (arch = ''arm64'' \<and> suffix = ''cuda'') \<and> \<not> (arch = ''x64'' \<and> suffix = ''qnn'')))"
proof -
  from assms obtain os arch where os: "detect_os (pl_system H) = Inr os" and arch: "detect_arch (pl_machine H) = Inr arch"
    and profile: "profile = os @ ''-'' @ arch @ ''-'' @ profile_suffix (map (rd_device \<circ> snd) (butlast (hp_readiness p))) (hp_tokens p)"
    unfolding resolve_hardware_profile_id_def bind_Val Let_def basic_Val liftR_Val by auto
  let ?suffix = "profile_suffix (map (rd_device \<circ> snd) (butlast (hp_readiness p))) (hp_tokens p)"
  have os': "os \<in> set [''windows'', ''linux'']" using os by (auto simp: detect_os_def fail_def split: if_splits)
  have arch': "arch \<in> set [''x64'', ''arm64'']" using arch
    by (auto simp: detect_arch_def normalize_arch_def fail_def Let_def split: if_splits)
  have suffix: "?suffix \<in> set [''qnn'', ''cuda'', ''gpu'', ''cpu'']" by (simp add: profile_suffix_def)
  note canonical_ids [THEN bspec, OF os', THEN bspec, OF arch', THEN bspec, OF suffix]
  with os' arch' profile show ?thesis unfolding Let_def by (intro exI [of _ os] exI [of _ arch]) simp
qed


definition manifest_files :: "unit files" where
  "manifest_files = demo_files\<lparr>read_text := (\<lambda>p x. (Val (path_name (path_parent p)), x)),
     yaml_load := (\<lambda>t. Inr (JObj [(''metadata'', JObj [(''name'', JStr t), (''version'', JStr ''1.0.0'')]),
       (''spec'', JObj [(''function'', JStr t)])]))\<rparr>"

theorem profile_canonical_iff_witness:
  "\<exists>p w'. resolve_hardware_profile_id manifest_files demo_platform (one_run () []) = (Val (''linux-arm64-cuda'', p), w') \<and>
   ''linux-arm64-cuda'' \<notin> set canonical_profiles"
proof -
  let ?r = "resolve_hardware_profile_id manifest_files demo_platform (one_run () [])"
  have "(case ?r of (Val (i, p), w) \<Rightarrow> i = ''linux-arm64-cuda'' | _ \<Rightarrow> False)" by code_simp
  then obtain p w where r: "?r = (Val (''linux-arm64-cuda'', p), w)" by (auto split: prod.splits res.splits)
  from profile_canonical_iff [OF r] have "''linux-arm64-cuda'' \<notin> set canonical_profiles"
    by (auto simp: Let_def canonical_profiles_def)
  with r show ?thesis by blast
qed

end
