(* ===== verification/Awf_Publish.thy ===== *)
theory Awf_Publish
  imports Awf_Hardware
begin

text \<open>
  The registry operations (ops/registry.py): validation, publication, trust and retirement of an
  object, and the invocation of a skill.  A publication writes the object below the data root and
  records it in the index; the laws of the file system it relies on are a locale, which a store of
  files by path interprets.
\<close>

text \<open>
  \<open>yaml_dump\<close> is yaml.safe_dump(..., sort_keys=False) in UTF-8, \<open>json_loads\<close> is json.loads, \<open>json_check\<close>
  the verdict of jsonschema.validate on a schema and an instance, \<open>unlink\<close> is path.unlink().
\<close>

record 'x desk =
  dk_files :: "'x files"
  dk_host :: "'x host"
  dk_gateway :: "'x gateway"
  yaml_dump :: "json \<Rightarrow> string"
  json_loads :: "string \<Rightarrow> json result"
  json_check :: "json \<Rightarrow> json \<Rightarrow> string option"
  unlink :: "path \<Rightarrow> 'x \<Rightarrow> unit res \<times> 'x"

section \<open>Kinds and digests\<close>

definition skill_md_path :: "'x desk \<Rightarrow> path \<Rightarrow> ('x, path option) op" where
  "skill_md_path D p =
     (if path_name p = ''SKILL.md'' then ret (Some p)
      else
        bindE (outside (is_dir (dk_host D) p)) (\<lambda>d.
        if \<not> d then ret None
        else bindE (outside (file_exists (dk_files D) (sub_path p ''SKILL.md''))) (\<lambda>f.
          ret (if f then Some (sub_path p ''SKILL.md'') else None))))"

definition kind_after :: "string list \<Rightarrow> string \<Rightarrow> string option" where
  "kind_after parts anchor = (case dropWhile (\<lambda>p. p \<noteq> anchor) parts of
       _ # c # _ \<Rightarrow> if c \<in> k_key ` set kinds then Some c else None
     | _ \<Rightarrow> None)"

definition kind_from_path_position :: "path \<Rightarrow> string option" where
  "kind_from_path_position p = (case kind_after (snd p) ''app_registry'' of
       Some k \<Rightarrow> Some k | None \<Rightarrow> kind_after (snd p) ''registry'')"

definition resolve_validate_publish_kind :: "path \<Rightarrow> string option \<Rightarrow> ('x, string) op" where
  "resolve_validate_publish_kind p kind = (case kind of
       Some k \<Rightarrow> ret k
     | None \<Rightarrow> (case kind_from_path_position p of
           Some k \<Rightarrow> ret k
         | None \<Rightarrow> core_error (as_posix p @ '': cannot determine registry kind from its path; pass kind explicitly'')))"

definition workflow_declared_digest :: "obj \<Rightarrow> string option result" where
  "workflow_declared_digest raw = (case get ''metadata'' raw of
       JObj meta \<Rightarrow> (case get ''digest'' meta of
           JNull \<Rightarrow> Inr None
         | JStr d \<Rightarrow> if starts_with ''sha256:'' d then Inr (Some d) else fail ''CoreOpError'' ''metadata.digest must be a sha256:<hex> string''
         | _ \<Rightarrow> fail ''CoreOpError'' ''metadata.digest must be a sha256:<hex> string'')
     | _ \<Rightarrow> Inr None)"

text \<open>raw with its metadata.digest set, as setdefault(''metadata'', {})[''digest''] = d sets it.\<close>

definition with_digest :: "string \<Rightarrow> obj \<Rightarrow> obj result" where
  "with_digest d raw =
     andThen (as_dict (get_or ''metadata'' (JObj []) raw)) (\<lambda>meta.
       Inr (AList.update ''metadata'' (JObj (AList.update ''digest'' (JStr d) meta)) raw))"

definition workflow_digest_payload :: "'x desk \<Rightarrow> obj \<Rightarrow> string result" where
  "workflow_digest_payload D raw = andThen (with_digest [] raw) (\<lambda>n. Inr (yaml_dump D (JObj n)))"

definition digest_text :: "'x desk \<Rightarrow> string \<Rightarrow> string" where
  "digest_text D content = ''sha256:'' @ hex_sha256 (dk_files D) content"

definition verify_workflow_declared_digest :: "'x desk \<Rightarrow> path \<Rightarrow> obj \<Rightarrow> unit result" where
  "verify_workflow_declared_digest D p raw =
     andThen (workflow_declared_digest raw) (\<lambda>declared. case declared of
         None \<Rightarrow> Inr ()
       | Some d \<Rightarrow>
           andThen (workflow_digest_payload D raw) (\<lambda>payload.
           if d \<noteq> digest_text D payload
           then fail ''CoreOpError'' (as_posix p @ '': metadata.digest mismatch - declared '' @ d @ '', actual '' @ digest_text D payload)
           else Inr ()))"

section \<open>Validation\<close>

definition load_mapping :: "'x desk \<Rightarrow> path \<Rightarrow> ('x, obj) op" where
  "load_mapping D p =
     bindE (outside (read_text (dk_files D) p)) (\<lambda>text.
     bindE (liftR (yaml_load (dk_files D) text)) (\<lambda>v. case v of
         JObj raw \<Rightarrow> ret raw
       | _ \<Rightarrow> core_error (as_posix p @ '': must be a YAML mapping'')))"

definition not_a_skill :: "path \<Rightarrow> ('x, 'a) op" where
  "not_a_skill p = core_error (as_posix p @ '': not a Skill (expected a SKILL.md file or its containing directory)'')"

definition ref_text :: "string \<times> string \<Rightarrow> string" where
  "ref_text = (\<lambda>(name, version). name @ ''@'' @ version)"

text \<open>The name and the version of a parsed object of a kind whose objects are YAML mappings.\<close>

definition named :: "('a \<Rightarrow> string) \<Rightarrow> ('a \<Rightarrow> string) \<Rightarrow> 'a result \<Rightarrow> (string \<times> string) result" where
  "named f g r = andThen r (\<lambda>x. Inr (f x, g x))"

definition object_names :: "'x desk \<Rightarrow> path \<Rightarrow> string \<Rightarrow> obj \<Rightarrow> (string \<times> string) result" where
  "object_names D p key raw =
     (let schema = schema_check (dk_files D) key in
      if key = ''workflows'' then
        andThen (parse_workflow schema raw) (\<lambda>w.
        andThen (verify_workflow_declared_digest D p raw) (\<lambda>_.
        andThen (as_text (wf_name w)) (\<lambda>name. andThen (as_text (wf_version w)) (\<lambda>version. Inr (name, version)))))
      else if key = ''capabilities'' then
        named (id_name \<circ> identity) (id_version \<circ> identity) (parse_capability_record schema raw)
      else if key = ''mcp'' then named ms_name ms_version (parse_mcp_server schema raw)
      else if key = ''model-profiles'' then named mp_name mp_version (parse_model_profile schema raw)
      else if key = ''personas'' then named pr_name pr_version (parse_persona schema raw)
      else if key = ''memory-profiles'' then named mf_name mf_version (parse_memory_profile schema raw)
      else if key = ''semantic-memories'' then named sm_name sm_version (parse_semantic_memory schema raw)
      else if key = ''voice-profiles'' then named vp_name vp_version (parse_voice_profile schema raw)
      else if key = ''hardware-voice-manifests'' then named vm_name vm_version (parse_hardware_voice_manifest schema raw)
      else if key = ''llm-servers'' then
        andThen (parse_servers schema raw) (\<lambda>_.
        andThen (dict_item ''metadata'' raw) (\<lambda>meta.
        andThen (text_item ''name'' meta) (\<lambda>name. andThen (text_item ''version'' meta) (\<lambda>version. Inr (name, version)))))
      else fail ''CoreOpError'' (as_posix p @ '': registry publish does not support kind '' @ quoted key))"

definition kind_labels :: "(string \<times> string) list" where
  "kind_labels = [(''workflows'', ''Workflow''), (''capabilities'', ''CapabilityRecord''), (''mcp'', ''McpServer''),
     (''model-profiles'', ''ModelProfile''), (''personas'', ''Persona''), (''memory-profiles'', ''MemoryProfile''),
     (''semantic-memories'', ''SemanticMemory''), (''voice-profiles'', ''VoiceProfile''),
     (''hardware-voice-manifests'', ''HardwareVoiceManifest''), (''llm-servers'', ''LlmServers'')]"

definition valid_reply :: "string \<Rightarrow> string \<times> string \<Rightarrow> obj \<Rightarrow> obj" where
  "valid_reply label names extra =
     [(''kind'', JStr label), (''ref'', JStr (ref_text names))] @ extra @ [(''valid'', JBool True)]"

definition op_registry_validate :: "'x desk \<Rightarrow> path \<Rightarrow> string option \<Rightarrow> ('x, obj) op" where
  "op_registry_validate D p kind =
     bindE (resolve_validate_publish_kind p kind) (\<lambda>key.
     bindE (liftR (by_key key)) (\<lambda>_.
     if key = ''skills'' then
       bindE (skill_md_path D p) (\<lambda>md. case md of
           None \<Rightarrow> not_a_skill p
         | Some q \<Rightarrow> bindE (load_skill (dk_files D) q) (\<lambda>s. ret (valid_reply ''Skill'' (sk_name s, sk_version s) [])))
     else if key = ''agents'' then
       bindE (load_agent_manifest (dk_files D) p) (\<lambda>m. ret (valid_reply ''AgentManifest'' (am_name m, am_version m) []))
     else
       bindE (load_mapping D p) (\<lambda>raw.
       bindE (liftR (object_names D p key raw)) (\<lambda>names.
       bindE (if key = ''llm-servers''
              then bindE (liftR (parse_servers (schema_check (dk_files D) key) raw)) (\<lambda>(default_id, servers).
                ret [(''default_server'', JStr default_id), (''server_count'', JInt (int (length servers)))])
              else ret []) (\<lambda>extra.
         ret (valid_reply (the (map_of kind_labels key)) names extra))))))"

section \<open>Publication\<close>

text \<open>INSERT ... ON CONFLICT DO UPDATE of a publication, which leaves source and trust_status alone.\<close>

definition publish_rows :: "string \<Rightarrow> string \<Rightarrow> string \<Rightarrow> string \<Rightarrow> string \<Rightarrow> string \<Rightarrow> index_row list \<Rightarrow> index_row list" where
  "publish_rows kind name version digest shown now xs =
     (if list_ex (is_row kind name version) xs
      then map (\<lambda>x. if is_row kind name version x then x\<lparr>x_digest := digest, x_path := shown, x_indexed := now\<rparr> else x) xs
      else xs @ [\<lparr>x_kind = kind, x_name = name, x_version = version, x_digest = digest, x_source = ''data'',
             x_path = shown, x_trust = Some ''local'', x_indexed = now\<rparr>])"

definition record_published :: "'x desk \<Rightarrow> string \<Rightarrow> string \<Rightarrow> string \<Rightarrow> string \<Rightarrow> path \<Rightarrow> ('x, obj) op" where
  "record_published D kind name version digest target =
     bindE utc_now_rfc3339 (\<lambda>now.
     seqE (modify (\<lambda>w. w\<lparr>reg_index := publish_rows kind name version digest (shown_path (dk_files D) target) now (reg_index w)\<rparr>))
       (ret [(''kind'', JStr kind), (''name'', JStr name), (''version'', JStr version), (''digest'', JStr digest),
             (''path'', JStr (as_posix target))]))"

definition publish_skill :: "'x desk \<Rightarrow> path \<Rightarrow> ('x, obj) op" where
  "publish_skill D p =
     bindE (skill_md_path D p) (\<lambda>md. case md of
         None \<Rightarrow> not_a_skill p
       | Some q \<Rightarrow>
           bindE (load_skill (dk_files D) q) (\<lambda>s.
           let skill_dir = path_parent q;
               target = path_parent (object_path (sub_path (sub_path (data_root (dk_files D)) ''skills'') (sk_name s))
                          \<lparr>k_key = ''skills'', k_layout = Directory, k_data_only = False\<rparr> (sk_version s)) in
           bindE (directory_digest (dk_files D) skill_dir) (\<lambda>digest.
           bindE (outside (is_dir (dk_host D) target)) (\<lambda>there.
           seqE (whenE there (outside (delete_tree (dk_host D) target))) (
           seqE (outside (make_dir (dk_host D) (path_parent target))) (
           seqE (outside (copy_tree (dk_host D) skill_dir target)) (
             record_published D ''skills'' (sk_name s) (sk_version s) digest target)))))))"

definition names_to_publish :: "'x desk \<Rightarrow> path \<Rightarrow> string \<Rightarrow> ('x, string \<times> string) op" where
  "names_to_publish D p key =
     (if key = ''agents'' then bindE (load_agent_manifest (dk_files D) p) (\<lambda>m. ret (am_name m, am_version m))
      else
        bindE (load_mapping D p) (\<lambda>raw.
        if key = ''voice-profiles'' then
          bindE (liftR (parse_voice_profile (schema_check (dk_files D) key) raw)) (\<lambda>v. case split_ref (vp_persona_ref v) of
              None \<Rightarrow> core_error (as_posix p @ '': voice profile persona_ref must be '' @ ref_form @ '', got '' @ str_repr (vp_persona_ref v))
            | Some (name, version) \<Rightarrow>
                seqE (resolve_registry_object (dk_files D) ''personas'' name version) (ret (vp_name v, vp_version v)))
        else liftR (object_names D p key raw)))"

definition op_registry_publish :: "'x desk \<Rightarrow> path \<Rightarrow> string \<Rightarrow> ('x, obj) op" where
  "op_registry_publish D p key =
     bindE (liftR (by_key key)) (\<lambda>kind.
     if key = ''skills'' then publish_skill D p
     else
       bindE (names_to_publish D p key) (\<lambda>(name, version).
       bindE (outside (file_bytes (dk_files D) p)) (\<lambda>payload.
       let target_dir = sub_path (sub_path (data_root (dk_files D)) key) name; target = object_path target_dir kind version in
       seqE (outside (make_dir (dk_host D) target_dir)) (
       seqE (outside (write_bytes (dk_host D) target payload)) (
         record_published D key name version (hex_sha256 (dk_files D) payload) target)))))"

section \<open>Trust\<close>

definition trust_list :: string where
  "trust_list = ''('' @ join '', '' (map str_repr trust_statuses) @ '')''"

definition op_registry_trust :: "string \<Rightarrow> string \<Rightarrow> string \<Rightarrow> string \<Rightarrow> ('x, index_row) op" where
  "op_registry_trust kind name version status =
     bindE (liftR (by_key kind)) (\<lambda>_.
     if status \<notin> set trust_statuses then core_error (''status must be one of '' @ trust_list @ '', got '' @ str_repr status)
     else
       bindE (set_trust_status kind name version status) (\<lambda>row. case row of
           Some x \<Rightarrow> ret x
         | None \<Rightarrow> core_error (kind @ ''/'' @ name @ ''@'' @ version @ '' is not indexed; run '' @ quoted ''awf registry reindex'' @ '' or publish it first'')))"

definition op_registry_retire :: "string \<Rightarrow> string \<Rightarrow> string \<Rightarrow> ('x, index_row) op" where
  "op_registry_retire kind name version = op_registry_trust kind name version ''blocked''"

section \<open>Invoking a skill\<close>

definition ref_error :: "string \<Rightarrow> string \<Rightarrow> ('x, 'a) op" where
  "ref_error what r = core_error (what @ '' ref must be '' @ ref_form @ '', got '' @ str_repr r)"

definition skill_segments :: "string \<Rightarrow> string \<Rightarrow> segment list" where
  "skill_segments body input =
     [\<lparr>sg_authority = ''application'', sg_content = ''instruction'', sg_trusted = True,
        sg_text = ''Apply the referenced AWF Skill to the operator input and return the direct result.''\<rparr>,
      \<lparr>sg_authority = ''skill'', sg_content = ''instruction'', sg_trusted = False, sg_text = body\<rparr>,
      \<lparr>sg_authority = ''user'', sg_content = ''input'', sg_trusted = False, sg_text = input\<rparr>]"

definition chat_of :: "segment list \<Rightarrow> json" where
  "chat_of segs = JList (map JObj (cp_messages (render_chat \<lparr>en_segments = segs, en_examples = [], en_generation = []\<rparr>)))"

definition op_skill_invoke :: "'x desk \<Rightarrow> string \<Rightarrow> string \<Rightarrow> string \<Rightarrow> ('x, obj) op" where
  "op_skill_invoke D r input profile_ref =
     (case (split_ref r, split_ref profile_ref) of
        (None, _) \<Rightarrow> ref_error ''skill'' r
      | (_, None) \<Rightarrow> ref_error ''profile'' profile_ref
      | (Some (name, version), Some (profile_name, profile_version)) \<Rightarrow>
          bindE (resolve_registry_object (dk_files D) ''skills'' name version) (\<lambda>(skill_path, _).
          bindE (resolve_registry_object (dk_files D) ''model-profiles'' profile_name profile_version) (\<lambda>(profile_path, _).
          bindE (load_skill (dk_files D) skill_path) (\<lambda>s.
          bindE (load_model_profile (dk_files D) profile_path) (\<lambda>profile.
          bindE (complete (dk_gateway D) \<lparr>has_conn = True, secret_key = None, ctx_run = None, ctx_step = None, ctx_actor = ''skill.invoke'',
                   ctx_allowlist = Some [llm_complete_ref]\<rparr> profile (chat_of (skill_segments (sk_body s) input)) []) (\<lambda>response.
          bindE (directory_digest (dk_files D) (path_parent skill_path)) (\<lambda>digest.
            ret [(''kind'', JStr ''skills''), (''ref'', JStr (sk_name s @ ''@'' @ sk_version s)),
                 (''profile_ref'', JStr (mp_name profile @ ''@'' @ mp_version profile)), (''digest'', JStr digest),
                 (''response_text'', response)])))))))"

lemma carries_publish [carry]:
  "carries (kept w0) (op_registry_publish D p k)" "carries (kept w0) (op_registry_validate D p kd)"
  "carries (kept w0) (op_registry_trust k n v s)" "carries (kept w0) (op_skill_invoke D r i q)"
proof -
  have error: "carries (kept w0) (core_error m)" for m
    unfolding core_error_def by (intro carry)
  have md: "carries (kept w0) (skill_md_path D q)" for q
    unfolding skill_md_path_def by (intro carry)
  have raw: "carries (kept w0) (load_mapping D q)" for q
    unfolding load_mapping_def by (intro carry error)
  have names: "carries (kept w0) (names_to_publish D q key)" for q key
    unfolding names_to_publish_def by (intro carry raw error)
  have noted: "carries (kept w0) (record_published D a b c d t)" for a b c d t
    unfolding record_published_def by (intro carry)
  show "carries (kept w0) (op_registry_publish D p k)"
    unfolding op_registry_publish_def publish_skill_def not_a_skill_def by (intro carry error md names noted)
  show "carries (kept w0) (op_registry_validate D p kd)"
    unfolding op_registry_validate_def resolve_validate_publish_kind_def not_a_skill_def by (intro carry error md raw)
  show "carries (kept w0) (op_registry_trust k n v s)"
    unfolding op_registry_trust_def by (intro carry error)
  show "carries (kept w0) (op_skill_invoke D r i q)"
    unfolding op_skill_invoke_def ref_error_def by (intro carry error)
qed


section \<open>The file system a publication relies on\<close>

text \<open>
  \<open>holds x p\<close> is the content of the regular file p.  A file that was written reads back, shows up in
  the listing of its directory, and no directory that is made touches a file.
\<close>

definition file_laws :: "'x files \<Rightarrow> 'x host \<Rightarrow> ('x \<Rightarrow> path \<Rightarrow> string option) \<Rightarrow> bool" where
  "file_laws F H holds =
     ((\<forall>p x. file_exists F p x = (Val (holds x p \<noteq> None), x)) \<and>
      (\<forall>p x b. holds x p = Some b \<longrightarrow> file_bytes F p x = (Val b, x)) \<and>
      (\<forall>d n x. holds x (fst d, snd d @ [n]) \<noteq> None \<longrightarrow> (\<exists>ns. list_dir F d x = (Val (Some ns), x) \<and> n \<in> set ns)) \<and>
      (\<forall>p x x'. make_dir H p x = (Val (), x') \<longrightarrow> holds x' = holds x) \<and>
      (\<forall>p b x x'. write_bytes H p b x = (Val (), x') \<longrightarrow> holds x' = (holds x)(p \<mapsto> b)))"

locale filing =
  fixes F :: "'x files" and H :: "'x host" and holds :: "'x \<Rightarrow> path \<Rightarrow> string option"
  assumes laws: "file_laws F H holds"
begin

lemma exists: "outside (file_exists F p) w = (Val (holds (ext w) p \<noteq> None), w)"
proof -
  have "file_exists F p (ext w) = (Val (holds (ext w) p \<noteq> None), ext w)" using laws unfolding file_laws_def by blast
  then show ?thesis by (simp add: outside_def)
qed

lemma reads: "holds (ext w) p = Some b \<Longrightarrow> outside (file_bytes F p) w = (Val b, w)"
proof -
  assume "holds (ext w) p = Some b"
  then have "file_bytes F p (ext w) = (Val b, ext w)" using laws unfolding file_laws_def by blast
  then show ?thesis by (simp add: outside_def)
qed

lemma listed:
  assumes "holds (ext w) (fst d, snd d @ [n]) \<noteq> None"
  obtains ns where "outside (list_dir F d) w = (Val (Some ns), w)" "n \<in> set ns"
proof -
  from laws assms obtain ns where "list_dir F d (ext w) = (Val (Some ns), ext w)" "n \<in> set ns"
    unfolding file_laws_def by blast
  then show thesis by (intro that [of ns]) (simp_all add: outside_def)
qed

lemma made: "outside (make_dir H p) w = (Val (), w') \<Longrightarrow> holds (ext w') = holds (ext w)"
proof -
  assume "outside (make_dir H p) w = (Val (), w')"
  then obtain x where x: "make_dir H p (ext w) = (Val (), x)" "w' = w\<lparr>ext := x\<rparr>" unfolding outside_Val by blast
  then have "holds x = holds (ext w)" using laws unfolding file_laws_def by blast
  with x(2) show ?thesis by simp
qed

lemma written: "outside (write_bytes H p b) w = (Val (), w') \<Longrightarrow> holds (ext w') = (holds (ext w))(p \<mapsto> b)"
proof -
  assume "outside (write_bytes H p b) w = (Val (), w')"
  then obtain x where x: "write_bytes H p b (ext w) = (Val (), x)" "w' = w\<lparr>ext := x\<rparr>" unfolding outside_Val by blast
  then have "holds x = (holds (ext w))(p \<mapsto> b)" using laws unfolding file_laws_def by blast
  with x(2) show ?thesis by simp
qed

text \<open>Where a file of a version is, resolution finds it and takes it for the version it is named after.\<close>

lemma digest_of:
  assumes "holds (ext w) p = Some b" "k_layout kind \<noteq> Directory"
  shows "compute_digest F p kind w = (Val (hex_sha256 F b), w)"
  using reads [OF assms(1)] assms(2) by (simp add: compute_digest_def bindE_def ret_def)

lemma verified_object:
  assumes "holds (ext w) p = Some b" "k_layout kind \<noteq> Directory"
    and "find (is_row (k_key kind) name version) (reg_index w) = Some x" "x_digest x = hex_sha256 F b" "x_trust x \<noteq> Some ''blocked''"
  shows "verify_object F p kind name version w = (Val p, w)"
  using digest_of [OF assms(1,2)] assms(3-5)
  by (simp add: verify_object_def index_row_def Let_def bindE_def gets_def ret_def)

lemma versions_listed:
  assumes there: "holds (ext w) (fst d, snd d @ [version @ ending]) \<noteq> None"
    and layout: "k_layout kind = Yaml \<and> ending = ''.yaml'' \<or> k_layout kind = Markdown \<and> ending = ''.md''"
    and stem: "name_stem (version @ ending) = version"
  obtains vs where "versions_below F d kind w = (Val vs, w)" "version \<in> set vs"
proof -
  obtain ns where ns: "outside (list_dir F d) w = (Val (Some ns), w)" "version @ ending \<in> set ns"
    using listed [OF there] by blast
  let ?vs = "sort (map name_stem (filter (ends_with ending) ns))"
  have "versions_below F d kind w = (Val ?vs, w)"
    using layout by (auto simp: versions_below_def version_names_def bindE_def ns(1) ret_def)
  moreover have "version \<in> set ?vs"
    using ns(2) stem by (auto simp: ends_with_def suffix_def image_iff intro!: bexI [of _ "version @ ending"])
  ultimately show thesis by (rule that)
qed

end


section \<open>A published object\<close>

lemma find_publish_rows:
  "\<exists>x. find (is_row k n v) (publish_rows k n v d s t xs) = Some x \<and> x_digest x = d \<and> x_path x = s \<and>
    (case find (is_row k n v) xs of
       None \<Rightarrow> x_trust x = Some ''local'' \<and> x_source x = ''data''
     | Some y \<Rightarrow> x_trust x = x_trust y \<and> x_source x = x_source y)"
proof (cases "find (is_row k n v) xs")
  case None
  then have "\<not> list_ex (is_row k n v) xs" by (auto simp: find_None_iff list_ex_iff)
  moreover have "find (is_row k n v) (xs @ [y]) = (if is_row k n v y then Some y else None)" for y
    using None by (induction xs) auto
  ultimately show ?thesis using None by (simp add: publish_rows_def is_row_def)
next
  case (Some y)
  let ?f = "\<lambda>x. if is_row k n v x then x\<lparr>x_digest := d, x_path := s, x_indexed := t\<rparr> else x"
  have "find (is_row k n v) (map ?f xs) = Some (?f y) \<and> is_row k n v y"
    using Some by (induction xs) (auto simp: is_row_def split: if_splits)
  moreover have "list_ex (is_row k n v) xs" using Some by (auto simp: find_Some_iff list_ex_iff)
  ultimately show ?thesis using Some by (simp add: publish_rows_def)
qed

lemma record_published_Val:
  "record_published D k n v d p w = (Val r, w') \<longleftrightarrow>
     r = [(''kind'', JStr k), (''name'', JStr n), (''version'', JStr v), (''digest'', JStr d), (''path'', JStr (as_posix p))] \<and>
     w' = w\<lparr>now_ix := Suc (now_ix w), reg_index := publish_rows k n v d (shown_path (dk_files D) p) (clock w (now_ix w)) (reg_index w)\<rparr>"
  by (auto simp: record_published_def utc_now_rfc3339_def bindE_def seqE_def modify_def ret_def)

text \<open>The steps of a publication that came to its end.\<close>

lemma publish_Val:
  assumes "op_registry_publish D p key w = (Val r, w')" "key \<noteq> ''skills''"
  obtains kind name version payload target w1 w2 w3 w4 where "by_key key = Inr kind" "names_to_publish D p key w = (Val (name, version), w1)"
    "outside (file_bytes (dk_files D) p) w1 = (Val payload, w2)"
    "outside (make_dir (dk_host D) (sub_path (sub_path (data_root (dk_files D)) key) name)) w2 = (Val (), w3)"
    "target = object_path (sub_path (sub_path (data_root (dk_files D)) key) name) kind version"
    "outside (write_bytes (dk_host D) target payload) w3 = (Val (), w4)"
    "record_published D key name version (hex_sha256 (dk_files D) payload) target w4 = (Val r, w')"
proof -
  from assms(1) obtain kind name version payload w1 w2 w3 w4 where "by_key key = Inr kind"
    "names_to_publish D p key w = (Val (name, version), w1)" "outside (file_bytes (dk_files D) p) w1 = (Val payload, w2)"
    "outside (make_dir (dk_host D) (sub_path (sub_path (data_root (dk_files D)) key) name)) w2 = (Val (), w3)"
    "outside (write_bytes (dk_host D) (object_path (sub_path (sub_path (data_root (dk_files D)) key) name) kind version) payload) w3 = (Val (), w4)"
    "record_published D key name version (hex_sha256 (dk_files D) payload)
       (object_path (sub_path (sub_path (data_root (dk_files D)) key) name) kind version) w4 = (Val r, w')"
    unfolding op_registry_publish_def if_not_P [OF assms(2)] Let_def bind_Val seq_Val liftR_Val case_prod_Val by auto
  then show thesis by (intro that [OF _ _ _ _ refl])
qed

lemma object_file:
  assumes "by_key key = Inr kind" "key \<noteq> ''skills''"
  shows "k_key kind = key" "k_layout kind \<noteq> Directory"
proof -
  have all: "\<forall>k \<in> set kinds. k_layout k = Directory \<longrightarrow> k_key k = ''skills''" by code_simp
  from assms(1) have f: "find (\<lambda>k. k_key k = key) kinds = Some kind"
    by (auto simp: by_key_def fail_def split: option.splits)
  then show key: "k_key kind = key" by (auto simp: find_Some_iff)
  from f have "kind \<in> set kinds" by (auto simp: find_Some_iff)
  with all key assms(2) show "k_layout kind \<noteq> Directory" by auto
qed

text \<open>A version that is one component of a path.\<close>

definition plain_version :: "string \<Rightarrow> bool" where
  "plain_version v = (v \<noteq> [] \<and> CHR ''/'' \<notin> set v)"

lemma split_plain: "c \<notin> set s \<Longrightarrow> split_on c s = [s]"
proof -
  assume "c \<notin> set s"
  then have "dropWhile (\<lambda>x. x \<noteq> c) s = []" "takeWhile (\<lambda>x. x \<noteq> c) s = s" by (auto simp: takeWhile_eq_all_conv)
  then show ?thesis unfolding split_on.simps [of c s] by (simp only: list.case)
qed

lemma sub_path_plain: "CHR ''/'' \<notin> set s \<Longrightarrow> s \<noteq> [] \<Longrightarrow> s \<noteq> ''.'' \<Longrightarrow> sub_path d s = (fst d, snd d @ [s])"
  by (auto simp: sub_path_def parse_path_def join_path_def split_plain prefix_def)

lemma name_stem_ending: "v \<noteq> [] \<Longrightarrow> name_stem (v @ ''.yaml'') = v" "v \<noteq> [] \<Longrightarrow> name_stem (v @ ''.md'') = v"
  by (simp_all add: name_stem_def Let_def)

lemma object_path_plain:
  assumes "plain_version v" "k_layout kind \<noteq> Directory"
  obtains ending where "object_path d kind v = (fst d, snd d @ [v @ ending])" "name_stem (v @ ending) = v"
    "k_layout kind = Yaml \<and> ending = ''.yaml'' \<or> k_layout kind = Markdown \<and> ending = ''.md''"
proof (cases "k_layout kind")
  case Yaml
  with assms that [of "''.yaml''"] show thesis
    by (auto simp: object_path_def plain_version_def name_stem_ending sub_path_plain)
next
  case Markdown
  with assms that [of "''.md''"] show thesis
    by (auto simp: object_path_def plain_version_def name_stem_ending sub_path_plain)
qed (use assms in simp)

context filing
begin

lemma resolves:
  assumes kind: "by_key key = Inr kind" "key \<noteq> ''skills''" and plain: "plain_version version"
    and there: "holds (ext w) (object_path (sub_path (sub_path (data_root F) key) name) kind version) = Some b"
    and row: "find (is_row key name version) (reg_index w) = Some x" "x_digest x = hex_sha256 F b" "x_trust x \<noteq> Some ''blocked''"
  shows "resolve_registry_object F key name version w =
    (Val (object_path (sub_path (sub_path (data_root F) key) name) kind version, ''data''), w)"
proof -
  let ?d = "sub_path (sub_path (data_root F) key) name"
  note k = object_file [OF kind]
  obtain ending where p: "object_path ?d kind version = (fst ?d, snd ?d @ [version @ ending])"
    and stem: "name_stem (version @ ending) = version"
    and layout: "k_layout kind = Yaml \<and> ending = ''.yaml'' \<or> k_layout kind = Markdown \<and> ending = ''.md''"
    using object_path_plain [OF plain k(2)] by blast
  obtain vs where vs: "versions_below F ?d kind w = (Val vs, w)" "version \<in> set vs"
    using versions_listed [OF _ layout stem, of w ?d] there p by auto
  have any: "list_ex (\<lambda>v. v \<noteq> []) vs" using vs(2) plain by (auto simp: list_ex_iff plain_version_def)
  have ok: "verify_object F (object_path ?d kind version) kind name version w = (Val (object_path ?d kind version), w)"
    using verified_object [OF there k(2)] row k(1) by simp
  have found: "found_in F ?d kind name version ''data'' w = (Val (object_path ?d kind version, ''data''), w)"
    by (simp add: found_in_def Let_def bindE_def exists there ok ret_def)
  have known: "liftR (by_key key) w = (Val kind, w)" by (simp add: kind(1) liftR_def ret_def)
  show ?thesis
    by (simp add: resolve_registry_object_def Let_def bindE_def known vs(1) any found)
qed

end



section \<open>Files by path\<close>

type_synonym disk = "(path \<times> string) list"

definition names_in :: "path \<Rightarrow> disk \<Rightarrow> string list" where
  "names_in d x = remdups (map (\<lambda>(p, b). snd p ! length (snd d))
     (filter (\<lambda>(p, b). is_relative_to p d \<and> length (snd d) < length (snd p)) x))"

definition missing :: "path \<Rightarrow> disk \<Rightarrow> 'a res \<times> disk" where
  "missing p x = (Exn (Exc ''FileNotFoundError'' (as_posix p) None), x)"

definition content_of :: "path \<Rightarrow> disk \<Rightarrow> string res \<times> disk" where
  "content_of p x = (case map_of x p of Some b \<Rightarrow> (Val b, x) | None \<Rightarrow> missing p x)"

definition under :: "path \<Rightarrow> disk \<Rightarrow> disk" where
  "under d x = filter (\<lambda>(p, b). is_relative_to p d) x"

definition disk_files :: "(string \<Rightarrow> json result) \<Rightarrow> disk files" where
  "disk_files yaml = \<lparr>repo = (True, [''r'']),
     list_dir = (\<lambda>d x. (Val (if names_in d x = [] then None else Some (names_in d x)), x)),
     file_exists = (\<lambda>p x. (Val (map_of x p \<noteq> None), x)), read_text = content_of, file_bytes = content_of,
     tree_files = (\<lambda>d x. (Val (map (\<lambda>(p, b). drop (length (snd d)) (snd p)) (under d x)), x)),
     yaml_load = yaml, hex_sha256 = (\<lambda>s. s), schema_check = (\<lambda>k v. None)\<rparr>"

definition moved :: "path \<Rightarrow> path \<Rightarrow> path \<Rightarrow> path" where
  "moved a b p = (fst b, snd b @ drop (length (snd a)) (snd p))"

definition disk_host :: "disk host" where
  "disk_host = \<lparr>git = (\<lambda>a p x. (Val (0, [], []), x)), make_dir = (\<lambda>p x. (Val (), x)), remove_tree = (\<lambda>p x. (Val (), filter (\<lambda>(q, b). \<not> is_relative_to q p) x)),
     write_text = (\<lambda>p b x. (Val (), AList.update p b x)), write_bytes = (\<lambda>p b x. (Val (), AList.update p b x)),
     delete_tree = (\<lambda>p x. (Val (), filter (\<lambda>(q, b). \<not> is_relative_to q p) x)),
     copy_tree = (\<lambda>a b x. if under a x = [] then missing a x else (Val (), fold (\<lambda>(p, c). AList.update (moved a b p) c) (under a x) x)),
     symlink = (\<lambda>a b x. (Val (), x)), restrict_mode = (\<lambda>p x. (Val (), x)),
     is_dir = (\<lambda>p x. (Val (names_in p x \<noteq> []), x)), is_file = (\<lambda>p x. (Val (map_of x p \<noteq> None), x)), home_dir = (True, [''h''])\<rparr>"

lemma name_in_dir: "map_of x (fst d, snd d @ [n]) \<noteq> None \<Longrightarrow> n \<in> set (names_in d x)"
  by (force simp: names_in_def is_relative_to_def dest!: map_of_SomeD)

interpretation stored: filing "disk_files yaml" disk_host "\<lambda>x. map_of (x :: disk)"
proof
  have dir: "\<exists>ns. list_dir (disk_files yaml) d x = (Val (Some ns), x) \<and> n \<in> set ns"
    if "map_of x (fst d, snd d @ [n]) \<noteq> None" for d n and x :: disk
    using name_in_dir [OF that] by (auto simp: disk_files_def)
  show "file_laws (disk_files yaml) disk_host (\<lambda>x. map_of (x :: disk))"
    unfolding file_laws_def
    by (intro conjI allI impI; (rule dir; assumption)?; simp add: disk_files_def disk_host_def content_of_def update_conv' split: option.splits)
qed



definition manifest_yaml :: "string \<Rightarrow> json result" where
  "manifest_yaml t = Inr (JObj [(''metadata'', JObj [(''name'', JStr t), (''version'', JStr ''1.0.0'')]), (''spec'', JObj [(''function'', JStr t)])])"

definition no_gateway :: "'x gateway" where
  "no_gateway = \<lparr>completion_capability = (\<lambda>near. fail ''GatewayError'' ''none''), litellm = (\<lambda>k x. (Val (JStr ''done''), x)), keys = \<lparr>encrypt = (\<lambda>k p x. (Val p, x)), decrypt = (\<lambda>k c. Inr c)\<rparr>\<rparr>"

definition demo_desk :: "(string \<Rightarrow> json result) \<Rightarrow> disk desk" where
  "demo_desk yaml = \<lparr>dk_files = disk_files yaml, dk_host = disk_host, dk_gateway = no_gateway,
     yaml_dump = (\<lambda>j. ''yaml''), json_loads = (\<lambda>s. Inr JNull), json_check = (\<lambda>s i. None), unlink = (\<lambda>p x. (Val (), x))\<rparr>"

definition draft_disk :: disk where
  "draft_disk = [((True, [''tmp'', ''vad.yaml'']), ''vad'')]"



section \<open>Trust and sources\<close>

definition same_index :: "'x world \<Rightarrow> 'x world \<Rightarrow> bool" where
  "same_index w0 w = (reg_index w = reg_index w0)"

lemma same_index_outside [carry]: "carries (same_index w0) (outside f)"
  by (rule carriesI) (auto simp: same_index_def outside_def split: prod.split)

lemma same_index_liftR [carry]: "carries (same_index w0) (liftR r)"
  by (rule carries_liftR)

lemma same_index_resolve: "carries (same_index w0) (resolve_registry_object F k n v)"
proof -
  have versions: "carries (same_index w0) (versions_below F d kind)" for d kind
  proof -
    have "carries (same_index w0) (version_names F d kind ns)" for ns
      unfolding version_names_def has_skill_md_def by (cases "k_layout kind") (simp_all, (intro carry)+)
    then show ?thesis unfolding versions_below_def by (intro carry)
  qed
  have digest: "carries (same_index w0) (compute_digest F p kind)" for p kind
    unfolding compute_digest_def directory_digest_def by (intro carry)
  show ?thesis
    unfolding resolve_registry_object_def found_in_def verify_object_def by (intro carry versions digest)
qed

lemma same_index_names: "carries (same_index w0) (names_to_publish D p key)"
  unfolding names_to_publish_def load_agent_manifest_def load_mapping_def core_error_def
  by (intro carry same_index_resolve)


definition trusted_config :: "disk world" where
  "trusted_config = (one_run draft_disk [])\<lparr>reg_index := [\<lparr>x_kind = ''hardware-voice-manifests'', x_name = ''vad'', x_version = ''1.0.0'',
     x_digest = ''shipped'', x_source = ''config'', x_path = ''config/app_registry/hardware-voice-manifests/vad/1.0.0.yaml'',
     x_trust = Some ''trusted'', x_indexed = ''t''\<rparr>]\<rparr>"


section \<open>Publishing a skill from where it is published\<close>

text \<open>
  rmtree takes away every file below a directory; after that, and after its parent was made, there is
  nothing to copy.
\<close>

definition tree_laws :: "'x host \<Rightarrow> ('x \<Rightarrow> path \<Rightarrow> string option) \<Rightarrow> bool" where
  "tree_laws H holds =
     ((\<forall>d n x. holds x (fst d, snd d @ [n]) \<noteq> None \<longrightarrow> is_dir H d x = (Val True, x)) \<and>
      (\<forall>d x. \<exists>x1 x2. delete_tree H d x = (Val (), x1) \<and> make_dir H (path_parent d) x1 = (Val (), x2) \<and>
        (\<forall>q. is_relative_to q d \<longrightarrow> holds x1 q = None) \<and> (\<forall>b. \<exists>e. copy_tree H d b x2 = (Exn e, x2))))"

locale tree_filing = filing +
  assumes trees: "tree_laws H holds"
begin

lemma copying_a_deleted_tree:
  obtains w1 w2 e where "outside (delete_tree H d) w = (Val (), w1)" "outside (make_dir H (path_parent d)) w1 = (Val (), w2)"
    "outside (copy_tree H d b) w2 = (Exn e, w2)" "\<forall>q. is_relative_to q d \<longrightarrow> holds (ext w2) q = None"
proof -
  obtain x1 x2 e where x: "delete_tree H d (ext w) = (Val (), x1)" "make_dir H (path_parent d) x1 = (Val (), x2)"
    "\<forall>q. is_relative_to q d \<longrightarrow> holds x1 q = None" "copy_tree H d b x2 = (Exn e, x2)"
    using trees unfolding tree_laws_def by metis
  from laws x(2) have "holds x2 = holds x1" unfolding file_laws_def by blast
  with x show thesis
    by (intro that [of "w\<lparr>ext := x1\<rparr>" "w\<lparr>ext := x2\<rparr>" e]) (simp_all add: outside_def)
qed

lemma directory_there: "holds (ext w) (fst d, snd d @ [n]) \<noteq> None \<Longrightarrow> outside (is_dir H d) w = (Val True, w)"
proof -
  assume "holds (ext w) (fst d, snd d @ [n]) \<noteq> None"
  then have "is_dir H d (ext w) = (Val True, ext w)" using trees unfolding tree_laws_def by blast
  then show ?thesis by (simp add: outside_def)
qed

end

text \<open>
  A skill that is published again from its own place in the data root is lost: the target
  directory, which is also the source, is deleted before it is copied, so the operation raises and
  no file of the skill is left.
\<close>

theorem republished_skill_is_lost:
  assumes "file_laws (dk_files D) (dk_host D) holds" "tree_laws (dk_host D) holds"
    and "skill_md_path D p w = (Val (Some q), w1)" "load_skill (dk_files D) q w1 = (Val s, w2)"
    and "path_parent q = path_parent (object_path (sub_path (sub_path (data_root (dk_files D)) ''skills'') (sk_name s))
           \<lparr>k_key = ''skills'', k_layout = Directory, k_data_only = False\<rparr> (sk_version s))"
    and "directory_digest (dk_files D) (path_parent q) w2 = (Val d, w3)"
    and "holds (ext w3) (fst (path_parent q), snd (path_parent q) @ [n]) \<noteq> None"
  shows "\<exists>e w'. op_registry_publish D p ''skills'' w = (Exn e, w') \<and> (\<forall>f. is_relative_to f (path_parent q) \<longrightarrow> holds (ext w') f = None)"
proof -
  have tree: "tree_filing (dk_files D) (dk_host D) holds"
    using assms(1,2) by (simp add: tree_filing_def filing_def tree_filing_axioms_def)
  obtain w4 w5 e where w: "outside (delete_tree (dk_host D) (path_parent q)) w3 = (Val (), w4)"
    "outside (make_dir (dk_host D) (path_parent (path_parent q))) w4 = (Val (), w5)"
    "outside (copy_tree (dk_host D) (path_parent q) (path_parent q)) w5 = (Exn e, w5)"
    "\<forall>f. is_relative_to f (path_parent q) \<longrightarrow> holds (ext w5) f = None"
    using tree_filing.copying_a_deleted_tree [OF tree] by blast
  have dir: "outside (is_dir (dk_host D) (path_parent q)) w3 = (Val True, w3)"
    using tree_filing.directory_there [OF tree assms(7)] .
  have "by_key ''skills'' = Inr \<lparr>k_key = ''skills'', k_layout = Directory, k_data_only = False\<rparr>" by code_simp
  then have known: "liftR (by_key ''skills'') w = (Val \<lparr>k_key = ''skills'', k_layout = Directory, k_data_only = False\<rparr>, w)"
    by (simp add: liftR_def ret_def)
  have "publish_skill D p w = (Exn e, w5)"
    by (simp add: publish_skill_def Let_def bindE_def seqE_def whenE_def assms(3,4,6) dir w(1-3) assms(5) [symmetric])
  then have "op_registry_publish D p ''skills'' w = (Exn e, w5)"
    by (simp add: op_registry_publish_def bindE_def known)
  with w(4) show ?thesis by blast
qed


interpretation stored_trees: tree_filing "disk_files yaml" disk_host "\<lambda>x. map_of (x :: disk)"
proof
  show "tree_laws disk_host (\<lambda>x. map_of (x :: disk))"
    unfolding tree_laws_def
  proof (intro conjI allI impI)
    fix d n and x :: disk assume "map_of x (fst d, snd d @ [n]) \<noteq> None"
    from name_in_dir [OF this] show "is_dir disk_host d x = (Val True, x)" by (auto simp: disk_host_def)
  next
    fix d and x :: disk
    let ?x = "filter (\<lambda>(q, b). \<not> is_relative_to q d) x"
    have gone: "map_of ?x q = None" if "is_relative_to q d" for q
      using that by (auto simp: map_of_eq_None_iff)
    have "under d ?x = []" by (auto simp: under_def filter_empty_conv)
    then show "\<exists>x1 x2. delete_tree disk_host d x = (Val (), x1) \<and> make_dir disk_host (path_parent d) x1 = (Val (), x2) \<and>
        (\<forall>q. is_relative_to q d \<longrightarrow> map_of x1 q = None) \<and> (\<forall>b. \<exists>e. copy_tree disk_host d b x2 = (Exn e, x2))"
      using gone by (intro exI [of _ ?x]) (simp add: disk_host_def missing_def)
  qed
qed

definition skill_disk :: disk where
  "skill_disk = [((True, [''r'', ''data'', ''registry'', ''skills'', ''notes'', ''1.0.0'', ''SKILL.md'']),
     ''---'' @ nl @ ''front'' @ nl @ ''---'' @ nl @ ''body'')]"

definition skill_yaml :: "string \<Rightarrow> json result" where
  "skill_yaml t = Inr (JObj [(''name'', JStr ''notes''), (''description'', JStr ''d'')])"

theorem republished_skill_is_lost_witness:
  "\<exists>e w'. op_registry_publish (demo_desk skill_yaml) (fst (hd skill_disk)) ''skills'' (one_run skill_disk []) = (Exn e, w') \<and>
     map_of (ext w') (fst (hd skill_disk)) = None"
proof -
  let ?D = "demo_desk skill_yaml" and ?q = "fst (hd skill_disk)" and ?w = "one_run skill_disk []"
  let ?s = "\<lparr>sk_name = ''notes'', sk_description = ''d'', sk_body = ''body'', sk_license = JNull, sk_compatibility = JNull,
     sk_metadata = JObj [], sk_allowed_tools = JNull, sk_version = ''1.0.0''\<rparr>"
  have laws: "file_laws (dk_files ?D) (dk_host ?D) (\<lambda>x. map_of (x :: disk))" "tree_laws (dk_host ?D) (\<lambda>x. map_of (x :: disk))"
    using stored.laws stored_trees.trees by (simp_all add: demo_desk_def)
  have files: "dk_files ?D = disk_files skill_yaml" by (simp add: demo_desk_def)
  have md: "skill_md_path ?D ?q ?w = (Val (Some ?q), ?w)" by (simp add: skill_md_path_def skill_disk_def path_name_def ret_def)
  have content: "outside (read_text (disk_files skill_yaml) ?q) ?w = (Val (snd (hd skill_disk)), ?w)"
    by (simp add: outside_def disk_files_def content_of_def skill_disk_def one_run_def blank_world_def)
  have parsed: "andThen (split_frontmatter (yaml_load (disk_files skill_yaml)) ''SKILL.md'' ''SkillValidationError'' (snd (hd skill_disk))) (\<lambda>(front, body).
       andThen (parse_skill (schema_check (disk_files skill_yaml) ''skills'') front body (path_name (path_parent ?q))) (\<lambda>s.
       let dir = path_name (path_parent (path_parent ?q)) in
       if sk_name s \<noteq> dir
       then fail ''SkillValidationError'' (''SKILL.md name '' @ str_repr (sk_name s) @ '' does not match its registry directory '' @ str_repr dir)
       else Inr s)) = Inr ?s" by code_simp
  have load: "load_skill (dk_files ?D) ?q ?w = (Val ?s, ?w)"
    unfolding files load_skill_def bindE_def content res.case prod.case parsed by (simp add: liftR_def ret_def)
  have place: "path_parent ?q = path_parent (object_path (sub_path (sub_path (data_root (dk_files ?D)) ''skills'') (sk_name ?s))
           \<lparr>k_key = ''skills'', k_layout = Directory, k_data_only = False\<rparr> (sk_version ?s))" by code_simp
  have "outside (tree_files (disk_files skill_yaml) (path_parent ?q)) ?w = (Val [[''SKILL.md'']], ?w)"
    by (simp add: outside_def disk_files_def under_def skill_disk_def path_parent_def is_relative_to_def one_run_def blank_world_def)
  moreover have "outside (file_bytes (disk_files skill_yaml) (join_path (path_parent ?q) (False, [''SKILL.md'']))) ?w = (Val (snd (hd skill_disk)), ?w)"
    by (simp add: outside_def disk_files_def content_of_def skill_disk_def path_parent_def join_path_def one_run_def blank_world_def)
  ultimately obtain d where digest: "directory_digest (dk_files ?D) (path_parent ?q) ?w = (Val d, ?w)"
    by (simp add: files directory_digest_def bindE_def ret_def)
  have there: "map_of (ext ?w) (fst (path_parent ?q), snd (path_parent ?q) @ [''SKILL.md'']) \<noteq> None"
    by (simp add: skill_disk_def path_parent_def one_run_def blank_world_def)
  from republished_skill_is_lost [OF laws md load place digest there]
  show ?thesis by (auto simp: is_relative_to_def path_parent_def skill_disk_def)
qed

end
