(* ===== verification/Awf_Authoring.thy ===== *)
theory Awf_Authoring
  imports Awf_Publish
begin

text \<open>
  Drafts of registry objects: structured completions of the gateway (gateway/client.py), the workflow
  drafts a model authors and their lifecycle (authoring/workflow.py, ops/authoring.py), proposals of
  semantic memories (memory/proposals.py), and the memory, artifact and approval operations around
  them (ops/memory.py, ops/artifact.py, ops/approval.py).
\<close>

section \<open>Structured completions (gateway/client.py)\<close>

definition response_format :: "string \<Rightarrow> json \<Rightarrow> json" where
  "response_format name schema = JObj [(''type'', JStr ''json_schema''),
     (''json_schema'', JObj [(''name'', JStr name), (''schema'', schema), (''strict'', JBool True)])]"

text \<open>What the try block makes of a completion's content.\<close>

definition structured_payload :: "'x desk \<Rightarrow> json \<Rightarrow> json \<Rightarrow> json result" where
  "structured_payload D schema content = (case content of
       JStr s \<Rightarrow>
         if strip s = [] then fail ''GatewayError'' ''structured completion returned empty content''
         else andThen (json_loads D s) (\<lambda>payload. case json_check D schema payload of
             Some msg \<Rightarrow> fail ''ValidationError'' msg
           | None \<Rightarrow> Inr payload)
     | _ \<Rightarrow> fail ''GatewayError'' ''structured completion returned empty content'')"

primrec structured_from ::
  "'x desk \<Rightarrow> call_context \<Rightarrow> model_profile \<Rightarrow> json \<Rightarrow> string \<Rightarrow> json \<Rightarrow> candidate list \<Rightarrow> string \<Rightarrow> ('x, json) op" where
  "structured_from D cc p messages name schema [] last_error = gateway_error (''all candidates failed: '' @ last_error)"
| "structured_from D cc p messages name schema (c # cs) last_error =
     (let gw = dk_gateway D in
     seqE (authorize_completion_call gw c (has_conn cc) (ctx_run cc) (ctx_step cc) (ctx_actor cc) (ctx_allowlist cc)) (
     bindE (resolve_api_key gw c (has_conn cc) (secret_key cc)) (\<lambda>api_key.
     bindE (liftR (candidate_kwargs p c api_key [])) (\<lambda>kwargs.
     let sent = AList.update ''response_format'' (response_format name schema) (AList.update ''messages'' messages kwargs) in
     bindE (attempt (bindE (outside (litellm gw sent)) (\<lambda>content. liftR (structured_payload D schema content)))) (\<lambda>r. case r of
         Inr payload \<Rightarrow> ret payload
       | Inl e \<Rightarrow> if mp_fallback_mode p \<noteq> ''ordered'' then raise e
                  else structured_from D cc p messages name schema cs (exc_text e))))))"

definition complete_structured ::
  "'x desk \<Rightarrow> call_context \<Rightarrow> model_profile \<Rightarrow> json \<Rightarrow> string \<Rightarrow> json \<Rightarrow> ('x, json) op" where
  "complete_structured D cc p messages name schema =
     (if enabled_candidates_by_priority p = [] then gateway_error ''model profile has no enabled candidates''
      else structured_from D cc p messages name schema (enabled_candidates_by_priority p) ''None'')"

section \<open>The proposal tables\<close>

definition proposal_kinds :: "string list" where
  "proposal_kinds = [''workflows'', ''semantic-memories'']"

definition insert_proposal :: "proposal_row \<Rightarrow> ('x, unit) op" where
  "insert_proposal r = (\<lambda>w.
     if p_kind r \<notin> set proposal_kinds then integrity check_failed w
     else if p_id r \<in> p_id ` set (proposals w) then integrity pk_failed w
     else modify (\<lambda>w. w\<lparr>proposals := proposals w @ [r]\<rparr>) w)"

definition proposal_event_types :: "string list" where
  "proposal_event_types = [''created'', ''updated'', ''verified'', ''published'', ''rejected'']"

definition insert_proposal_event :: "proposal_event_row \<Rightarrow> ('x, unit) op" where
  "insert_proposal_event e = (\<lambda>w.
     if pe_type e \<notin> set proposal_event_types then integrity check_failed w
     else if pe_id e \<in> pe_id ` set (proposal_events w) then integrity pk_failed w
     else if pe_proposal e \<notin> p_id ` set (proposals w) then integrity fk_failed w
     else modify (\<lambda>w. w\<lparr>proposal_events := proposal_events w @ [e]\<rparr>) w)"

definition update_proposal_row :: "string \<Rightarrow> (proposal_row \<Rightarrow> proposal_row) \<Rightarrow> ('x, unit) op" where
  "update_proposal_row i f = modify (\<lambda>w. w\<lparr>proposals := map (\<lambda>r. if p_id r = i then f r else r) (proposals w)\<rparr>)"

definition find_proposal :: "string \<Rightarrow> ('x, proposal_row option) op" where
  "find_proposal i = gets (\<lambda>w. find (\<lambda>r. p_id r = i) (proposals w))"

definition proposal_event :: "string \<Rightarrow> string \<Rightarrow> json \<Rightarrow> string \<Rightarrow> ('x, unit) op" where
  "proposal_event i type payload actor =
     bindE uuid7 (\<lambda>event_id.
     bindE utc_now_rfc3339 (\<lambda>now.
       insert_proposal_event \<lparr>pe_id = event_id, pe_proposal = i, pe_type = type, pe_time = now, pe_actor = actor,
         pe_payload = sort_json payload\<rparr>))"

section \<open>Drafts (authoring/workflow.py)\<close>

definition proposal_error :: "string \<Rightarrow> ('x, 'a) op" where
  "proposal_error msg = throw ''ProposalError'' msg"

definition default_draft_version :: string where "default_draft_version = ''0.1.0''"

definition default_author_profile :: string where "default_author_profile = ''resident-mind@1.0.0''"

definition proposals_dir :: "'x files \<Rightarrow> path" where
  "proposals_dir F = sub_path (sub_path (repo F) ''data'') ''proposals''"

definition proposal_path :: "'x files \<Rightarrow> string \<Rightarrow> string \<Rightarrow> string \<Rightarrow> path" where
  "proposal_path F i name version =
     sub_path (sub_path (sub_path (sub_path (proposals_dir F) ''workflows'') i) name) (version @ ''.yaml'')"

definition non_empty_text :: json where
  "non_empty_text = JObj [(''type'', JStr ''string''), (''minLength'', JInt 1)]"

definition workflow_authoring_schema :: json where
  "workflow_authoring_schema = JObj [(''type'', JStr ''object''), (''additionalProperties'', JBool False),
     (''required'', JList [JStr ''summary'', JStr ''workflow'']),
     (''properties'', JObj [(''summary'', non_empty_text),
        (''workflow'', JObj [(''type'', JStr ''object''), (''additionalProperties'', JBool True),
           (''required'', JList [JStr ''apiVersion'', JStr ''kind'', JStr ''metadata'', JStr ''spec'']),
           (''properties'', JObj [(''apiVersion'', JObj [(''const'', JStr ''awf/v1'')]), (''kind'', JObj [(''const'', JStr ''Workflow'')]),
              (''metadata'', JObj [(''type'', JStr ''object''), (''additionalProperties'', JBool True),
                 (''required'', JList [JStr ''name'', JStr ''version'', JStr ''digest'']),
                 (''properties'', JObj [(''name'', non_empty_text), (''version'', non_empty_text), (''digest'', non_empty_text)])]),
              (''spec'', JObj [(''type'', JStr ''object'')])])])])]"

definition set_workflow_metadata_digest :: "'x desk \<Rightarrow> obj \<Rightarrow> obj result" where
  "set_workflow_metadata_digest D raw =
     andThen (with_digest [] raw) (\<lambda>blank. with_digest (digest_text D (yaml_dump D (JObj blank))) blank)"

definition set_field :: "string \<Rightarrow> string option \<Rightarrow> obj \<Rightarrow> obj" where
  "set_field k v d = (case v of None \<Rightarrow> d | Some s \<Rightarrow> AList.update k (JStr s) d)"

text \<open>The draft, its bytes and their digest.\<close>

definition prepare_workflow :: "'x desk \<Rightarrow> json \<Rightarrow> string option \<Rightarrow> string option \<Rightarrow> (obj \<times> string \<times> string) result" where
  "prepare_workflow D v name version = (case v of
       JObj raw \<Rightarrow>
         andThen (as_dict (get_or ''metadata'' (JObj []) raw)) (\<lambda>meta.
         let meta1 = set_field ''version'' version (set_field ''name'' name meta);
             meta2 = (if has_key ''version'' meta1 then meta1 else AList.update ''version'' (JStr default_draft_version) meta1) in
         andThen (set_workflow_metadata_digest D (AList.update ''metadata'' (JObj meta2) raw)) (\<lambda>draft.
         andThen (parse_workflow (schema_check (dk_files D) ''workflows'') draft) (\<lambda>_.
         let content = yaml_dump D (JObj draft) in
           Inr (draft, content, hex_sha256 (dk_files D) content))))
     | _ \<Rightarrow> fail ''ProposalError'' ''generated workflow must be a mapping'')"

definition load_author_profile :: "'x desk \<Rightarrow> string \<Rightarrow> ('x, model_profile) op" where
  "load_author_profile D r = (case split_ref r of
       None \<Rightarrow> proposal_error (''profile must be '' @ ref_form @ '', got '' @ str_repr r)
     | Some (name, version) \<Rightarrow>
         bindE (resolve_registry_object (dk_files D) ''model-profiles'' name version) (\<lambda>(p, _). load_model_profile (dk_files D) p))"

definition workflow_kind :: registry_kind where
  "workflow_kind = \<lparr>k_key = ''workflows'', k_layout = Yaml, k_data_only = False\<rparr>"

definition context_lines :: "'x desk \<Rightarrow> string \<times> path \<Rightarrow> ('x, string list) op" where
  "context_lines D = (\<lambda>(source, root).
     let dir = sub_path root ''workflows'' in
     bindE (outside (list_dir (dk_files D) dir)) (\<lambda>r. case r of
         None \<Rightarrow> ret []
       | Some names \<Rightarrow>
           bindE (mapE (\<lambda>n. bindE (versions_below (dk_files D) (join_path dir (False, [n])) workflow_kind) (\<lambda>vs.
               let versions = join '', '' vs in
               ret (if versions = [] then [] else [''- '' @ source @ '': '' @ n @ '' ('' @ versions @ '')'']))) (sort names)) (\<lambda>ls.
             ret (concat ls))))"

definition registry_context :: "'x desk \<Rightarrow> ('x, string) op" where
  "registry_context D =
     bindE (mapE (context_lines D) [(''data'', data_root (dk_files D)), (''config'', config_root (dk_files D))]) (\<lambda>ls.
       ret (if concat ls = [] then ''- no published workflows found'' else join nl (concat ls)))"

definition trusted_segment :: "string \<Rightarrow> string \<Rightarrow> string \<Rightarrow> segment" where
  "trusted_segment authority content text = \<lparr>sg_authority = authority, sg_content = content, sg_trusted = True, sg_text = text\<rparr>"

definition some_or :: "string option \<Rightarrow> string \<Rightarrow> string" where
  "some_or x s = (case x of Some (c # cs) \<Rightarrow> c # cs | _ \<Rightarrow> s)"

text \<open>The text of the operator shows json.dumps of the requested identity, which is \<open>js\<close>.\<close>

definition authoring_segments :: "(json \<Rightarrow> string) \<Rightarrow> string \<Rightarrow> string option \<Rightarrow> string option \<Rightarrow> string \<Rightarrow> segment list" where
  "authoring_segments js objective name version context =
     [trusted_segment ''application'' ''instruction''
        (''Generate one AWF Workflow draft. Return only JSON matching the provided schema. '' @
         ''The workflow must use apiVersion awf/v1 and kind Workflow.''),
      trusted_segment ''contract'' ''contract''
        (''Workflow YAML requires metadata.name, metadata.version, metadata.digest, '' @
         ''spec.inputSchema, spec.outputSchema, spec.budgets, spec.nodes, and spec.outputs. '' @
         ''Use existing node shapes only: activity, agent, approval, gate, subworkflow, map, loop, handoff.''),
      trusted_segment ''retrieval'' ''context'' (''Published workflows:'' @ nl @ context),
      \<lparr>sg_authority = ''user'', sg_content = ''input'', sg_trusted = False,
       sg_text = ''Objective: '' @ objective @ nl @ ''Requested identity: '' @
         js (sort_json (JObj [(''name'', JStr (some_or name ''choose a concise kebab-case workflow name'')),
                              (''version'', JStr (some_or version default_draft_version))]))\<rparr>]"

text \<open>What get_proposal returns: the row, the draft and the events.\<close>

record proposal_view =
  pv_row :: proposal_row
  pv_content :: string
  pv_events :: "proposal_event_row list"

definition draft_file :: "'x desk \<Rightarrow> proposal_row \<Rightarrow> path" where
  "draft_file D r = sub_path (repo (dk_files D)) (p_path r)"

definition get_proposal :: "'x desk \<Rightarrow> string \<Rightarrow> ('x, proposal_view) op" where
  "get_proposal D i =
     bindE (find_proposal i) (\<lambda>row. case row of
         None \<Rightarrow> proposal_error (''no such proposal: '' @ i)
       | Some r \<Rightarrow>
           bindE (outside (read_text (dk_files D) (draft_file D r))) (\<lambda>content.
           bindE (gets (\<lambda>w. sort_key pe_time (sort_key pe_id (filter (\<lambda>e. pe_proposal e = i) (proposal_events w))))) (\<lambda>es.
             ret \<lparr>pv_row = r, pv_content = content, pv_events = es\<rparr>)))"

definition proposal_status_str :: "proposal_status \<Rightarrow> string" where
  "proposal_status_str s = (case s of P_DRAFT \<Rightarrow> ''draft'' | P_PUBLISHED \<Rightarrow> ''published'' | P_REJECTED \<Rightarrow> ''rejected'')"

text \<open>The proposal, which must be a draft.\<close>

definition get_draft :: "'x desk \<Rightarrow> string \<Rightarrow> ('x, proposal_view) op" where
  "get_draft D i =
     bindE (get_proposal D i) (\<lambda>v.
     if p_status (pv_row v) \<noteq> P_DRAFT
     then proposal_error (''proposal '' @ i @ '' is not draft (status='' @ proposal_status_str (p_status (pv_row v)) @ '')'')
     else ret v)"

definition draft_row :: "string \<Rightarrow> string \<Rightarrow> string \<Rightarrow> string \<Rightarrow> string \<Rightarrow> string \<Rightarrow> string \<Rightarrow> string \<Rightarrow> proposal_row" where
  "draft_row i kind name version digest shown summary now =
     \<lparr>p_id = i, p_kind = kind, p_name = name, p_version = version, p_status = P_DRAFT, p_digest = digest, p_path = shown,
      p_summary = summary, p_created = now, p_updated = now, p_decided = None, p_published = None, p_reason = None\<rparr>"

definition draft_payload :: "string \<Rightarrow> string \<Rightarrow> obj" where
  "draft_payload digest shown = [(''draft_digest'', JStr digest), (''path'', JStr shown)]"

definition workflow_names :: "'x desk \<Rightarrow> obj \<Rightarrow> (string \<times> string) result" where
  "workflow_names D draft =
     andThen (parse_workflow (schema_check (dk_files D) ''workflows'') draft) (\<lambda>w.
     andThen (as_text (wf_name w)) (\<lambda>name. andThen (as_text (wf_version w)) (\<lambda>version. Inr (name, version))))"

definition write_draft :: "'x desk \<Rightarrow> path \<Rightarrow> string \<Rightarrow> ('x, unit) op" where
  "write_draft D p content =
     seqE (outside (make_dir (dk_host D) (path_parent p))) (outside (write_bytes (dk_host D) p content))"

definition local_call :: "string \<Rightarrow> call_context" where
  "local_call actor = \<lparr>has_conn = True, secret_key = None, ctx_run = None, ctx_step = None, ctx_actor = actor, ctx_allowlist = None\<rparr>"

definition author_workflow_draft ::
  "'x desk \<Rightarrow> string \<Rightarrow> string option \<Rightarrow> string option \<Rightarrow> string \<Rightarrow> (json \<Rightarrow> string) \<Rightarrow> ('x, proposal_view) op" where
  "author_workflow_draft D objective name version profile_ref js =
     bindE (load_author_profile D profile_ref) (\<lambda>profile.
     bindE (registry_context D) (\<lambda>context.
     bindE (complete_structured D (local_call ''model-gateway'') profile (chat_of (authoring_segments js objective name version context))
              ''awf_workflow_proposal'' workflow_authoring_schema) (\<lambda>payload.
     bindE (liftR (case json_check D workflow_authoring_schema payload of
                     Some msg \<Rightarrow> fail ''ValidationError'' msg | None \<Rightarrow> as_dict payload)) (\<lambda>answer.
     bindE (liftR (item ''workflow'' answer)) (\<lambda>raw.
     bindE (liftR (prepare_workflow D raw name (Some (some_or version default_draft_version)))) (\<lambda>(draft, content, digest).
     bindE (liftR (workflow_names D draft)) (\<lambda>(wname, wversion).
     bindE uuid7 (\<lambda>i.
     let p = proposal_path (dk_files D) i wname wversion; shown = shown_path (dk_files D) p in
     seqE (write_draft D p content) (
     bindE utc_now_rfc3339 (\<lambda>now.
     bindE (liftR (text_item ''summary'' answer)) (\<lambda>summary.
     seqE (insert_proposal (draft_row i ''workflows'' wname wversion digest shown summary now)) (
     seqE (proposal_event i ''created'' (JObj (draft_payload digest shown @ [(''profile_ref'', JStr profile_ref)])) ''resident-mind'')
       (get_proposal D i)))))))))))))"

definition update_proposal :: "'x desk \<Rightarrow> string \<Rightarrow> string \<Rightarrow> string option \<Rightarrow> ('x, proposal_view) op" where
  "update_proposal D i content summary =
     bindE (get_draft D i) (\<lambda>current.
     bindE (liftR (yaml_load (dk_files D) content)) (\<lambda>raw.
     bindE (liftR (prepare_workflow D raw None None)) (\<lambda>(draft, draft_content, digest).
     bindE (liftR (workflow_names D draft)) (\<lambda>(name, version).
     let p = proposal_path (dk_files D) i name version; shown = shown_path (dk_files D) p; old = draft_file D (pv_row current) in
     seqE (write_draft D p draft_content) (
     bindE (if old \<noteq> p then outside (file_exists (dk_files D) old) else ret False) (\<lambda>stale.
     seqE (whenE stale (outside (unlink D old))) (
     bindE utc_now_rfc3339 (\<lambda>now.
     seqE (update_proposal_row i (\<lambda>r. r\<lparr>p_name := name, p_version := version, p_digest := digest, p_path := shown,
             p_summary := (case summary of Some s \<Rightarrow> s | None \<Rightarrow> p_summary (pv_row current)), p_updated := now\<rparr>)) (
     seqE (proposal_event i ''updated'' (JObj (draft_payload digest shown)) ''operator'')
       (get_proposal D i))))))))))"

definition reject_proposal :: "'x desk \<Rightarrow> string \<Rightarrow> string option \<Rightarrow> ('x, proposal_view) op" where
  "reject_proposal D i reason =
     seqE (get_draft D i) (
     bindE utc_now_rfc3339 (\<lambda>now.
     seqE (update_proposal_row i (\<lambda>r. r\<lparr>p_status := P_REJECTED, p_reason := reason, p_decided := Some now, p_updated := now\<rparr>)) (
     seqE (proposal_event i ''rejected'' (JObj [(''reason'', jopt reason)]) ''operator'')
       (get_proposal D i))))"

text \<open>One node of the draft: the capability it needs, which must resolve.\<close>

definition verify_node :: "'x desk \<Rightarrow> obj \<Rightarrow> ('x, string list) op" where
  "verify_node D node =
     (if get ''type'' node \<noteq> JStr ''activity'' \<or> \<not> truthy (get ''function'' node) then ret []
      else
        let declared = or_else (get ''capability'' node) (JObj [(''name'', get ''function'' node), (''version'', JStr ''1.0.0'')]);
            label = ''workflow proposal verifier rejected activity node '' @ py_str (get ''id'' node) @ '': '' in
        bindE (liftR (as_dict declared)) (\<lambda>cap.
        if \<not> truthy (get ''name'' cap) \<or> \<not> truthy (get ''version'' cap)
        then proposal_error (label @ ''invalid capability ref'')
        else
          bindE (catchE (bindE (liftR (andThen (text_item ''name'' cap) (\<lambda>n. andThen (text_item ''version'' cap) (\<lambda>v. Inr (n, v))))) (\<lambda>(n, v).
                   seqE (resolve_registry_object (dk_files D) ''capabilities'' n v) (ret [n @ ''@'' @ v])))
                  (\<lambda>e. proposal_error (label @ exc_text e))) ret))"

definition verification_result :: "string list \<Rightarrow> obj" where
  "verification_result caps = [(''verifier'', JStr ''deterministic-workflow-proposal''), (''status'', JStr ''passed''),
     (''checks'', JObj [(''parse_workflow'', JBool True), (''identity_matches_proposal'', JBool True),
        (''activity_capabilities'', JList (map JStr caps))])]"

definition verify_workflow_proposal :: "'x desk \<Rightarrow> string \<Rightarrow> ('x, obj) op" where
  "verify_workflow_proposal D i =
     bindE (get_draft D i) (\<lambda>current.
     bindE (liftR (yaml_load (dk_files D) (pv_content current))) (\<lambda>v. case v of
         JObj raw \<Rightarrow>
           bindE (liftR (parse_workflow (schema_check (dk_files D) ''workflows'') raw)) (\<lambda>flow.
           if wf_name flow \<noteq> JStr (p_name (pv_row current)) \<or> wf_version flow \<noteq> JStr (p_version (pv_row current))
           then proposal_error (''workflow proposal verifier rejected draft identity mismatch: '' @
                  py_str (wf_name flow) @ ''@'' @ py_str (wf_version flow) @ '' != '' @ ref_text (p_name (pv_row current), p_version (pv_row current)))
           else
             bindE (mapE (verify_node D) (wf_nodes flow)) (\<lambda>caps.
             let result = verification_result (concat caps) in
             seqE (proposal_event i ''verified'' (JObj result) ''workflow-verifier'') (ret result)))
       | _ \<Rightarrow> proposal_error ''workflow proposal verifier expected a YAML mapping''))"

definition mark_published :: "'x desk \<Rightarrow> string \<Rightarrow> string \<Rightarrow> ('x, proposal_view) op" where
  "mark_published D i digest =
     seqE (get_draft D i) (
     bindE utc_now_rfc3339 (\<lambda>now.
     seqE (update_proposal_row i (\<lambda>r. r\<lparr>p_status := P_PUBLISHED, p_published := Some digest, p_decided := Some now, p_updated := now\<rparr>)) (
     seqE (proposal_event i ''published'' (JObj [(''published_digest'', JStr digest)]) ''operator'')
       (get_proposal D i))))"

section \<open>Proposals of semantic memories (memory/proposals.py)\<close>

definition propose_semantic_memory :: "'x desk \<Rightarrow> path \<Rightarrow> string option \<Rightarrow> ('x, proposal_view) op" where
  "propose_semantic_memory D p summary =
     bindE (outside (read_text (dk_files D) p)) (\<lambda>text.
     bindE (liftR (yaml_load (dk_files D) text)) (\<lambda>v. case v of
         JObj raw \<Rightarrow>
           bindE (liftR (parse_semantic_memory (schema_check (dk_files D) ''semantic-memories'') raw)) (\<lambda>m.
           let content = yaml_dump D (JObj raw); digest = hex_sha256 (dk_files D) content in
           bindE uuid7 (\<lambda>i.
           let draft = sub_path (sub_path (sub_path (sub_path (proposals_dir (dk_files D)) ''semantic-memories'') i) (sm_name m)) (sm_version m @ ''.yaml'');
               shown = shown_path (dk_files D) draft in
           seqE (write_draft D draft content) (
           bindE utc_now_rfc3339 (\<lambda>now.
           seqE (insert_proposal (draft_row i ''semantic-memories'' (sm_name m) (sm_version m) digest shown
                   (some_or summary (''Semantic memory proposal '' @ semantic_ref m)) now)) (
           seqE (proposal_event i ''created'' (JObj (draft_payload digest shown)) ''operator'')
             (get_proposal D i))))))
       | _ \<Rightarrow> throw ''MemoryProposalError'' (as_posix p @ '': semantic memory proposal must be a YAML mapping'')))"

section \<open>The operations (ops/authoring.py)\<close>

text \<open>except ProposalError as exc: raise CoreOpError(str(exc)).\<close>

definition core_op :: "string \<Rightarrow> ('x, 'a) op \<Rightarrow> ('x, 'a) op" where
  "core_op cls m = catchE m (\<lambda>e. if exc_type e = cls then core_error (exc_text e) else raise e)"

definition op_workflow_author_draft ::
  "'x desk \<Rightarrow> string \<Rightarrow> string option \<Rightarrow> string option \<Rightarrow> string \<Rightarrow> (json \<Rightarrow> string) \<Rightarrow> ('x, proposal_view) op" where
  "op_workflow_author_draft D objective name version profile_ref js =
     core_op ''ProposalError'' (author_workflow_draft D objective name version profile_ref js)"

definition op_proposal_get :: "'x desk \<Rightarrow> string \<Rightarrow> ('x, proposal_view) op" where
  "op_proposal_get D i = core_op ''ProposalError'' (get_proposal D i)"

definition op_proposal_update :: "'x desk \<Rightarrow> string \<Rightarrow> string \<Rightarrow> string option \<Rightarrow> ('x, proposal_view) op" where
  "op_proposal_update D i content summary = core_op ''ProposalError'' (update_proposal D i content summary)"

definition op_proposal_reject :: "'x desk \<Rightarrow> string \<Rightarrow> string option \<Rightarrow> ('x, proposal_view) op" where
  "op_proposal_reject D i reason = core_op ''ProposalError'' (reject_proposal D i reason)"

record publication =
  pb_proposal :: proposal_view
  pb_published :: obj
  pb_verification :: "obj option"

text \<open>The verification, the publication and the mark of a draft whose digest is as expected.\<close>

definition publish_checked :: "'x desk \<Rightarrow> string \<Rightarrow> proposal_row \<Rightarrow> ('x, publication) op" where
  "publish_checked D i row =
     bindE (if p_kind row = ''workflows''
            then bindE (core_op ''ProposalError'' (verify_workflow_proposal D i)) (\<lambda>v. ret (Some v)) else ret None) (\<lambda>verification.
     bindE (op_registry_publish D (draft_file D row) (p_kind row)) (\<lambda>published.
     bindE (liftR (text_item ''digest'' published)) (\<lambda>published_digest.
     bindE (core_op ''ProposalError'' (mark_published D i published_digest)) (\<lambda>marked.
       ret \<lparr>pb_proposal = marked, pb_published = published, pb_verification = verification\<rparr>))))"

definition op_proposal_publish :: "'x desk \<Rightarrow> string \<Rightarrow> string \<Rightarrow> ('x, publication) op" where
  "op_proposal_publish D i digest =
     bindE (core_op ''ProposalError'' (get_proposal D i)) (\<lambda>proposal.
     let row = pv_row proposal in
     if p_status row \<noteq> P_DRAFT
     then core_error (''proposal '' @ i @ '' is not draft (status='' @ proposal_status_str (p_status row) @ '')'')
     else if p_digest row \<noteq> digest
     then core_error (''proposal '' @ i @ '' draft digest mismatch: expected '' @ p_digest row @ '', got '' @ digest)
     else
       bindE (outside (file_bytes (dk_files D) (draft_file D row))) (\<lambda>bytes.
       let actual = hex_sha256 (dk_files D) bytes in
       if actual \<noteq> digest
       then core_error (''proposal '' @ i @ '' draft file digest mismatch: expected '' @ digest @ '', actual '' @ actual)
       else publish_checked D i row))"

section \<open>Memory operations (ops/memory.py, memory/episodic.py)\<close>

definition core_split_ref :: "string \<Rightarrow> ('x, string \<times> string) op" where
  "core_split_ref r = (case split_ref r of
       Some nv \<Rightarrow> ret nv | None \<Rightarrow> core_error (''ref must be '' @ ref_form @ '', got '' @ str_repr r))"

text \<open>ValueError and its subclasses that the calls under these handlers raise.\<close>

definition value_errors :: "string list" where
  "value_errors = [''ValueError'', ''JSONDecodeError'', ''UnicodeDecodeError'', ''UnknownRegistryKindError'', ''RegistryIntegrityError'',
     ''RegistryBlockedError'', ''MemoryProfileValidationError'', ''SemanticMemoryValidationError'', ''RegistryValidationError'']"

definition core_value_op :: "('x, 'a) op \<Rightarrow> ('x, 'a) op" where
  "core_value_op m = catchE m (\<lambda>e. if exc_type e \<in> set value_errors then core_error (exc_text e) else raise e)"

record memory_answer =
  ma_semantic :: "obj list"
  ma_episodic :: "obj list"
  ma_context :: "segment list"

definition op_memory_search :: "'x memory_env \<Rightarrow> string \<Rightarrow> string \<Rightarrow> ('x, memory_answer) op" where
  "op_memory_search M query profile_ref = core_value_op (
     bindE (search_semantic_memories (me_files M) query profile_ref) (\<lambda>sem.
     bindE (search_events (md_dumps M) query None 20) (\<lambda>epi.
     bindE (retrieve_memory_context M query profile_ref) (\<lambda>ctx.
       ret \<lparr>ma_semantic = sem, ma_episodic = epi, ma_context = ctx\<rparr>))))"

definition op_memory_propose :: "'x desk \<Rightarrow> path \<Rightarrow> string option \<Rightarrow> ('x, proposal_view) op" where
  "op_memory_propose D p summary = core_op ''MemoryProposalError'' (propose_semantic_memory D p summary)"

definition op_memory_publish :: "'x desk \<Rightarrow> string \<Rightarrow> string \<Rightarrow> ('x, publication) op" where
  "op_memory_publish D i digest = op_proposal_publish D i digest"

definition op_memory_reject :: "'x desk \<Rightarrow> string \<Rightarrow> string option \<Rightarrow> ('x, proposal_view) op" where
  "op_memory_reject D i reason = op_proposal_reject D i reason"

definition op_memory_block :: "string \<Rightarrow> ('x, index_row) op" where
  "op_memory_block r = bindE (core_split_ref r) (\<lambda>(name, version). op_registry_retire ''semantic-memories'' name version)"

definition op_session_start :: "'x memory_env \<Rightarrow> string option \<Rightarrow> string option \<Rightarrow> int option \<Rightarrow> ('x, session_row \<times> entry_row list) op" where
  "op_session_start M title expires_at ttl_hours = start_session M title expires_at ttl_hours"

definition op_session_append :: "string \<Rightarrow> string \<Rightarrow> json \<Rightarrow> string option \<Rightarrow> ('x, session_row \<times> entry_row list) op" where
  "op_session_append i entry_role content summary = core_op ''SessionError'' (append_entry i entry_role content summary)"

definition op_session_show :: "string \<Rightarrow> ('x, session_row \<times> entry_row list) op" where
  "op_session_show i = core_op ''SessionError'' (show_session i)"

definition op_session_summarize :: "'x memory_env \<Rightarrow> string \<Rightarrow> string option \<Rightarrow> ('x, session_row \<times> entry_row list) op" where
  "op_session_summarize M i summary = core_op ''SessionError'' (summarize_session M i summary)"

definition op_episodic_search :: "'x memory_env \<Rightarrow> string \<Rightarrow> string option \<Rightarrow> ('x, obj list) op" where
  "op_episodic_search M query run_id = search_events (md_dumps M) query run_id 20"

record timeline =
  tl_run :: run_row
  tl_steps :: "step_row list"
  tl_approvals :: "approval_row list"
  tl_artifacts :: "artifact_row list"
  tl_events :: "event_row list"

definition artifacts_of :: "string \<Rightarrow> 'x world \<Rightarrow> artifact_row list" where
  "artifacts_of i w = sort_key f_created (filter (\<lambda>f. f_run f = i) (artifacts w))"

definition run_timeline :: "string \<Rightarrow> ('x, timeline) op" where
  "run_timeline i =
     bindE (gets (\<lambda>w. find (\<lambda>r. r_id r = i) (runs w))) (\<lambda>run. case run of
         None \<Rightarrow> throw ''ValueError'' (''no such run: '' @ i)
       | Some r \<Rightarrow> gets (\<lambda>w. \<lparr>tl_run = r, tl_steps = sort_key s_started (filter (\<lambda>s. s_run s = i) (steps w)),
             tl_approvals = sort_key a_requested (filter (\<lambda>a. a_run a = i) (approvals w)), tl_artifacts = artifacts_of i w,
             tl_events = sort_key e_time (filter (\<lambda>e. e_run e = i) (events w))\<rparr>))"

definition op_episodic_timeline :: "string \<Rightarrow> ('x, timeline) op" where
  "op_episodic_timeline i = core_value_op (run_timeline i)"

section \<open>Artifacts and approvals (ops/artifact.py, ops/approval.py)\<close>

definition op_artifact_list :: "string \<Rightarrow> ('x, artifact_row list) op" where
  "op_artifact_list run_id = gets (artifacts_of run_id)"

definition op_artifact_read :: "'x files \<Rightarrow> path \<Rightarrow> string \<Rightarrow> ('x, artifact_row \<times> string) op" where
  "op_artifact_read F store i =
     bindE (gets (\<lambda>w. find (\<lambda>f. f_id f = i) (artifacts w))) (\<lambda>row. case row of
         None \<Rightarrow> core_error (''no such artifact: '' @ i)
       | Some f \<Rightarrow> bindE (outside (read_text F (sub_path store (f_path f)))) (\<lambda>content. ret (f, content)))"

definition preview_reasons :: "string list" where
  "preview_reasons = [''machine_action_waiting_approval'', ''machine_action_allowed'', ''machine_action_denied'',
     ''machine_action_executed'', ''improvement_merge_approval_requested'']"

definition merge_preview :: "json \<Rightarrow> obj \<Rightarrow> obj \<Rightarrow> obj" where
  "merge_preview i payload proposal =
     [(''kind'', JStr ''improvement_merge''), (''improvement_id'', i)] @
     map (\<lambda>k. (k, get k proposal)) [''human_summary'', ''scope_classification'', ''safety_assessment'', ''proposal_review'', ''diff_stats'',
       ''verdict_artifact_id''] @
     [(''merge_action_digest'', get ''merge_action_digest'' payload), (''proposal'', JObj proposal)]"

text \<open>The loop over the events of a step, latest first.\<close>

primrec preview_of :: "'x improve_env \<Rightarrow> event_row list \<Rightarrow> ('x, obj option) op" where
  "preview_of I [] = ret None"
| "preview_of I (e # es) =
     bindE (liftR (as_dict (or_else (e_payload e) (JObj [])))) (\<lambda>payload.
     if truthy (get ''machine_action'' payload)
     then ret (Some [(''machine_action'', get ''machine_action'' payload), (''machine_action_digest'', get ''machine_action_digest'' payload)])
     else if truthy (get ''improvement_id'' payload)
     then
       bindE (attempt (bindE (liftR (as_text (get ''improvement_id'' payload))) (Awf_Improvement.get_proposal I))) (\<lambda>r. case r of
           Inr proposal \<Rightarrow> ret (Some (merge_preview (get ''improvement_id'' payload) payload proposal))
         | Inl x \<Rightarrow> preview_of I es)
     else preview_of I es)"

definition machine_action_preview_for_step :: "'x improve_env \<Rightarrow> string \<Rightarrow> ('x, obj option) op" where
  "machine_action_preview_for_step I step_id =
     bindE (gets (\<lambda>w. rev (sort_key e_time (filter (\<lambda>e. e_step e = Some step_id \<and> e_reason e \<in> set preview_reasons) (events w)))))
       (preview_of I)"

definition with_preview :: "'x improve_env \<Rightarrow> approval_row \<Rightarrow> ('x, approval_row \<times> obj option) op" where
  "with_preview I a = bindE (machine_action_preview_for_step I (a_step a)) (\<lambda>p. ret (a, p))"

definition op_approval_list :: "'x improve_env \<Rightarrow> string option \<Rightarrow> ('x, (approval_row \<times> obj option) list) op" where
  "op_approval_list I run_id =
     bindE (gets (\<lambda>w. sort_key a_requested (filter (\<lambda>a. a_status a = Pending \<and>
         (run_id = None \<or> run_id = Some [] \<or> run_id = Some (a_run a))) (approvals w)))) (mapE (with_preview I))"

definition op_approval_detail :: "'x improve_env \<Rightarrow> string \<Rightarrow> ('x, approval_row \<times> obj option) op" where
  "op_approval_detail I i =
     bindE (find_approval (\<lambda>a. a_id a = i)) (\<lambda>row. case row of
         None \<Rightarrow> core_error (''no such approval: '' @ i)
       | Some a \<Rightarrow> with_preview I a)"

definition op_machine_action_preview :: "'x improve_env \<Rightarrow> string \<Rightarrow> ('x, obj) op" where
  "op_machine_action_preview I i =
     bindE (op_approval_detail I i) (\<lambda>(a, p). case p of
         None \<Rightarrow> core_error (''approval '' @ i @ '' has no machine action preview'')
       | Some d \<Rightarrow> ret d)"

section \<open>What the operations keep\<close>

lemma carries_core [carry]: "carries I (core_error m)" "carries I m' \<Longrightarrow> carries I (core_op c m')" "carries I m' \<Longrightarrow> carries I (core_value_op m')"
  unfolding core_error_def core_op_def core_value_op_def by (intro carry | assumption)+

lemma carries_proposal_error [carry]: "carries I (proposal_error m)"
  unfolding proposal_error_def by (intro carry)

lemma carries_proposal_tables [carry]:
  "carries (kept w0) (insert_proposal r)" "carries (kept w0) (insert_proposal_event e)"
  "carries (kept w0) (update_proposal_row i f)" "carries (kept w0) (proposal_event i t p a)"
proof -
  show "carries (kept w0) (insert_proposal r)"
  proof (rule carriesI)
    fix w assume w: "kept w0 w"
    have "kept w0 (snd (modify (\<lambda>x. x\<lparr>proposals := proposals x @ [r]\<rparr>) w))"
      by (rule carriesD [OF carries_other_tables(2) w])
    then show "kept w0 (snd (insert_proposal r w))" using w by (simp add: insert_proposal_def integrity_def throw_def raise_def)
  qed
  show event: "carries (kept w0) (insert_proposal_event e)" for e
  proof (rule carriesI)
    fix w assume w: "kept w0 w"
    have "kept w0 (snd (modify (\<lambda>x. x\<lparr>proposal_events := proposal_events x @ [e]\<rparr>) w))"
      by (rule carriesD [OF carries_other_tables(3) w])
    then show "kept w0 (snd (insert_proposal_event e w))" using w by (simp add: insert_proposal_event_def integrity_def throw_def raise_def)
  qed
  show "carries (kept w0) (update_proposal_row i f)" unfolding update_proposal_row_def by (intro carry)
  show "carries (kept w0) (proposal_event i t p a)" unfolding proposal_event_def by (intro carry event)
qed


section \<open>Digests of drafts\<close>

text \<open>
  The digest a draft declares is the digest the publication computes: whatever a model or an
  operator wrote, prepare_workflow gives a draft whose metadata.digest the check of op_registry_publish
  accepts, together with its bytes and their own digest.
\<close>

theorem prepared_draft_verifies:
  assumes "prepare_workflow D v name version = Inr (draft, content, digest)"
  shows "verify_workflow_declared_digest D p draft = Inr () \<and> content = yaml_dump D (JObj draft) \<and> digest = hex_sha256 (dk_files D) content"
proof -
  from assms obtain raw where set: "set_workflow_metadata_digest D raw = Inr draft"
    and content: "content = yaml_dump D (JObj draft)" "digest = hex_sha256 (dk_files D) content"
    by (auto simp: prepare_workflow_def andThen_def fail_def Let_def split: json.splits sum.splits)
  from set obtain meta where meta: "as_dict (get_or ''metadata'' (JObj []) raw) = Inr meta"
    by (auto simp: set_workflow_metadata_digest_def with_digest_def andThen_def split: sum.splits)
  let ?blank = "AList.update ''metadata'' (JObj (AList.update ''digest'' (JStr []) meta)) raw"
  let ?d = "digest_text D (yaml_dump D (JObj ?blank))"
  have item: "get_or ''metadata'' (JObj []) (AList.update ''metadata'' x r) = x" "get ''metadata'' (AList.update ''metadata'' x r) = x"
    "get ''digest'' (AList.update ''digest'' x r) = x" for x r
    by (simp_all add: get_or_def get_def update_conv')
  have dict: "as_dict (JObj d) = Inr d" for d by (simp add: as_dict_def)
  have draft: "draft = AList.update ''metadata'' (JObj (AList.update ''digest'' (JStr ?d) meta)) raw"
    using set by (simp add: set_workflow_metadata_digest_def with_digest_def andThen_def meta item dict)
  have sha: "starts_with ''sha256:'' ?d" by (simp add: digest_text_def starts_with_def)
  have "verify_workflow_declared_digest D p draft = Inr ()"
    unfolding verify_workflow_declared_digest_def workflow_declared_digest_def workflow_digest_payload_def draft item
    by (simp add: with_digest_def item dict andThen_def sha)
  with content show ?thesis by simp
qed


section \<open>The lifecycle of proposals\<close>

definition same_proposals :: "'x world \<Rightarrow> 'x world \<Rightarrow> bool" where
  "same_proposals w0 w = (proposals w = proposals w0 \<and> proposal_events w = proposal_events w0)"

lemma same_basic [carry]:
  "carries (same_proposals w0) (outside f)" "carries (same_proposals w0) uuid7" "carries (same_proposals w0) utc_now_rfc3339"
  "carries (same_proposals w0) (insert_event e)" "carries (same_proposals w0) (modify (\<lambda>w. w\<lparr>reg_index := g w\<rparr>))"
  by (auto simp: carries_def same_proposals_def outside_def uuid7_def utc_now_rfc3339_def insert_event_def integrity_def throw_def raise_def
      modify_def split: prod.split)

lemma same_resolve [carry]: "carries (same_proposals w0) (resolve_registry_object F k n v)"
  "carries (same_proposals w0) (versions_below F d kind)" "carries (same_proposals w0) (directory_digest F d)"
proof -
  show versions: "carries (same_proposals w0) (versions_below F d kind)" for d kind
  proof -
    have "carries (same_proposals w0) (version_names F d kind ns)" for ns
      unfolding version_names_def has_skill_md_def by (cases "k_layout kind") (simp_all, (intro carry)+)
    then show ?thesis unfolding versions_below_def by (intro carry)
  qed
  show digest: "carries (same_proposals w0) (directory_digest F d)" for d
    unfolding directory_digest_def by (intro carry)
  have "carries (same_proposals w0) (compute_digest F p kind)" for p kind
    unfolding compute_digest_def by (intro carry digest)
  then show "carries (same_proposals w0) (resolve_registry_object F k n v)"
    unfolding resolve_registry_object_def found_in_def verify_object_def by (intro carry versions)
qed

lemma same_publish [carry]: "carries (same_proposals w0) (op_registry_publish D p k)"
  unfolding op_registry_publish_def publish_skill_def skill_md_path_def load_skill_def not_a_skill_def record_published_def
    names_to_publish_def load_agent_manifest_def load_mapping_def
  by (intro carry)

lemma same_authorize [carry]: "carries (same_proposals w0) (authorize c l r a s o1 p)"
  unfolding authorize_def log_event_def write_event_def by (intro carry)

lemma same_structured [carry]: "carries (same_proposals w0) (complete_structured D cc p ms n s)"
proof -
  have cleared: "carries (same_proposals w0) (authorize_completion_call gw c h r st a l)" for gw c h r st a l
    unfolding authorize_completion_call_def gateway_error_def by (intro carry)
  have key: "carries (same_proposals w0) (resolve_api_key gw c h k)" for gw c h k
    unfolding resolve_api_key_def get_secret_def gateway_error_def by (intro carry)
  have "carries (same_proposals w0) (structured_from D cc p ms n s cs e)" for cs e
    by (induction cs arbitrary: e)
      (simp_all only: structured_from.simps Let_def gateway_error_def, (intro carry cleared key | assumption)+)
  then show ?thesis unfolding complete_structured_def gateway_error_def by (intro carry)
qed

lemma same_profile [carry]: "carries (same_proposals w0) (load_author_profile D r)" "carries (same_proposals w0) (registry_context D)"
  "carries (same_proposals w0) (verify_node D n)" "carries (same_proposals w0) (write_draft D p c)" "carries (same_proposals w0) (get_proposal D i)"
  unfolding load_author_profile_def load_model_profile_def registry_context_def context_lines_def verify_node_def write_draft_def
    get_proposal_def find_proposal_def
  by (intro carry)+

text \<open>
  What the operations on proposals keep: no proposal and no event is dropped, and one that was
  published or rejected is as it was.
\<close>

definition settled :: "'x world \<Rightarrow> 'x world \<Rightarrow> bool" where
  "settled w0 w = (distinct (map p_id (proposals w)) \<and> prefix (map p_id (proposals w0)) (map p_id (proposals w)) \<and>
     (\<forall>r \<in> set (proposals w0). p_status r \<noteq> P_DRAFT \<longrightarrow> r \<in> set (proposals w)) \<and>
     prefix (proposal_events w0) (proposal_events w))"

definition drafting :: "string \<Rightarrow> 'x world \<Rightarrow> 'x world \<Rightarrow> bool" where
  "drafting i w0 w = (settled w0 w \<and> (\<forall>r \<in> set (proposals w). p_id r = i \<longrightarrow> p_status r = P_DRAFT))"

lemma same_carries:
  assumes "\<And>w0. carries (same_proposals w0) m" and "\<And>w w'. same_proposals w w' \<Longrightarrow> J w \<Longrightarrow> J w'"
  shows "carries J m"
proof (rule carriesI)
  fix w assume "J w"
  moreover have "same_proposals w (snd (m w))" using carriesD [OF assms(1), of w w] by (simp add: same_proposals_def)
  ultimately show "J (snd (m w))" using assms(2) by blast
qed

lemma settled_same: "(\<And>w0. carries (same_proposals w0) m) \<Longrightarrow> carries (settled w0) m"
  by (erule same_carries) (simp add: same_proposals_def settled_def)

lemma drafting_same: "(\<And>w0. carries (same_proposals w0) m) \<Longrightarrow> carries (drafting i w0) m"
  by (erule same_carries) (simp add: same_proposals_def settled_def drafting_def)

lemma settled_insert [carry]: "carries (settled w0) (insert_proposal r)"
  by (auto simp: carries_def settled_def insert_proposal_def integrity_def throw_def raise_def modify_def intro: prefix_order.trans)

lemma settled_event [carry]: "carries (settled w0) (proposal_event i t p a)" "carries (drafting i w0) (proposal_event i t p a)"
proof -
  have ids: "carries (settled w0) uuid7" "carries (settled w0) utc_now_rfc3339" "carries (drafting i w0) uuid7" "carries (drafting i w0) utc_now_rfc3339"
    by (intro settled_same drafting_same carry)+
  have ins: "carries (settled w0) (insert_proposal_event e)" "carries (drafting i w0) (insert_proposal_event e)" for e
    by (auto simp: carries_def settled_def drafting_def insert_proposal_event_def integrity_def throw_def raise_def modify_def
        intro: prefix_order.trans)
  show "carries (settled w0) (proposal_event i t p a)" "carries (drafting i w0) (proposal_event i t p a)"
    unfolding proposal_event_def by (intro carry ids ins)+
qed

text \<open>An action that starts while the proposal is a draft, and settles.\<close>

definition settles :: "string \<Rightarrow> 'x world \<Rightarrow> ('x, 'a) op \<Rightarrow> bool" where
  "settles i w0 m = (\<forall>w. drafting i w0 w \<longrightarrow> settled w0 (snd (m w)))"

named_theorems settle

lemma settles_carry: "carries (settled w0) m \<Longrightarrow> settles i w0 m"
  by (simp add: settles_def carries_def drafting_def)

lemma settles_basic [settle]: "settles i w0 (ret a)" "settles i w0 (raise e)" "settles i w0 (throw c t)" "settles i w0 (proposal_error t)"
  by (intro settles_carry carry)+

lemma settles_bind [settle]:
  assumes "carries (drafting i w0) m" "\<And>a. settles i w0 (f a)"
  shows "settles i w0 (bindE m f)"
  unfolding settles_def
proof (intro allI impI)
  fix w assume "drafting i w0 w"
  with assms(1) have "drafting i w0 (snd (m w))" by (rule carriesD)
  then show "settled w0 (snd (bindE m f w))"
    using assms(2) by (auto simp: bindE_def settles_def drafting_def split: prod.split res.split)
qed

lemma settles_seq [settle]: "carries (drafting i w0) m \<Longrightarrow> settles i w0 n \<Longrightarrow> settles i w0 (seqE m n)"
  unfolding seqE_def by (intro settle)

lemma settles_if [settle]: "(b \<Longrightarrow> settles i w0 m) \<Longrightarrow> (\<not> b \<Longrightarrow> settles i w0 n) \<Longrightarrow> settles i w0 (if b then m else n)"
  by simp

lemma settles_let [settle]: "(\<And>x. settles i w0 (f x)) \<Longrightarrow> settles i w0 (Let v f)"
  by (simp add: Let_def)

lemma settles_prod [settle]: "(\<And>a b. settles i w0 (f a b)) \<Longrightarrow> settles i w0 (case x of (a, b) \<Rightarrow> f a b)"
  by (simp split: prod.split)

lemma settled_update:
  assumes "drafting i w0 w" "\<And>r. p_id (f r) = p_id r"
  shows "settled w0 (snd (update_proposal_row i f w))"
proof -
  have ids: "map p_id (map (\<lambda>r. if p_id r = i then f r else r) (proposals w)) = map p_id (proposals w)"
    using assms(2) by simp
  have kept: "\<forall>r \<in> set (proposals w0). p_status r \<noteq> P_DRAFT \<longrightarrow> r \<in> set (map (\<lambda>r. if p_id r = i then f r else r) (proposals w))"
  proof (intro ballI impI)
    fix r assume r: "r \<in> set (proposals w0)" "p_status r \<noteq> P_DRAFT"
    have "r \<in> set (proposals w)" using assms(1) r by (auto simp: drafting_def settled_def)
    moreover from this have "p_id r \<noteq> i" using assms(1) r(2) by (auto simp: drafting_def)
    ultimately show "r \<in> set (map (\<lambda>r. if p_id r = i then f r else r) (proposals w))" by force
  qed
  have after: "proposals (snd (update_proposal_row i f w)) = map (\<lambda>r. if p_id r = i then f r else r) (proposals w)"
    "proposal_events (snd (update_proposal_row i f w)) = proposal_events w"
    by (simp_all add: update_proposal_row_def modify_def)
  show ?thesis unfolding settled_def after ids using assms(1) kept unfolding drafting_def settled_def by blast
qed

lemma settles_update [settle]:
  assumes "\<And>r. p_id (f r) = p_id r" "carries (settled w0) n"
  shows "settles i w0 (seqE (update_proposal_row i f) n)"
  unfolding settles_def
proof (intro allI impI)
  fix w assume "drafting i w0 w"
  then have "settled w0 (snd (update_proposal_row i f w))" using assms(1) by (rule settled_update)
  then show "settled w0 (snd (seqE (update_proposal_row i f) n w))"
    using assms(2) by (auto simp: seqE_def bindE_def carries_def split: prod.split res.split)
qed


lemmas settled_rules [carry] =
  same_basic [THEN settled_same] same_resolve [THEN settled_same] same_publish [THEN settled_same]
  same_structured [THEN settled_same] same_profile [THEN settled_same]

lemma get_draft_Val:
  assumes "get_draft D i w = (Val v, w1)"
  shows "find (\<lambda>r. p_id r = i) (proposals w) = Some (pv_row v)" "p_status (pv_row v) = P_DRAFT" "same_proposals w w1"
proof -
  from assms obtain w2 where got: "get_proposal D i w = (Val v, w2)" and rest: "p_status (pv_row v) = P_DRAFT" "w1 = w2"
    by (auto simp: get_draft_def bind_Val basic_Val proposal_error_def split: if_splits)
  from got show "find (\<lambda>r. p_id r = i) (proposals w) = Some (pv_row v)"
    by (auto simp: get_proposal_def find_proposal_def proposal_error_def bind_Val basic_Val outside_Val split: option.splits)
  show "p_status (pv_row v) = P_DRAFT" by fact
  show "same_proposals w w1" using carriesD [OF same_profile(5), of w w D i] got rest(2) by (simp add: same_proposals_def)
qed

lemma same_draft: "carries (same_proposals w0) (get_draft D i)"
  unfolding get_draft_def by (intro carry)

lemma draft_guard:
  assumes "\<And>v. settles i w0 (f v)"
  shows "carries (settled w0) (bindE (get_draft D i) f)"
proof (rule carriesI)
  fix w assume w: "settled w0 w"
  obtain r w1 where g: "get_draft D i w = (r, w1)" by (cases "get_draft D i w")
  have w1: "settled w0 w1" using carriesD [OF settled_same [OF same_draft] w, of D i] g by simp
  show "settled w0 (snd (bindE (get_draft D i) f w))"
  proof (cases r)
    case (Val v)
    note v = get_draft_Val [OF g [unfolded Val]]
    have row: "pv_row v \<in> set (proposals w)" "p_id (pv_row v) = i" using v(1) by (auto simp: find_Some_iff)
    have "inj_on p_id (set (proposals w))" using w by (simp add: settled_def distinct_map)
    then have "r = pv_row v" if "r \<in> set (proposals w)" "p_id r = i" for r
      using that row by (auto dest: inj_onD)
    then have "drafting i w0 w1" using w1 v(2,3) by (auto simp: drafting_def same_proposals_def)
    then show ?thesis using assms [of v] by (simp add: bindE_def g Val settles_def)
  qed (use w1 in \<open>simp_all add: bindE_def g\<close>)
qed

lemma settles_tail:
  assumes "\<And>now r. p_id (f now r) = p_id r"
  shows "settles i w0 (bindE utc_now_rfc3339 (\<lambda>now. seqE (update_proposal_row i (f now)) (seqE (proposal_event i t p a) (get_proposal D i))))"
  by (intro settles_bind settles_update assms drafting_same same_basic carries_seq settled_event settled_rules)

datatype 'x proposal_call =
    Draft string "string option" "string option" string "json \<Rightarrow> string"
  | Remember path "string option"
  | Revise string string "string option"
  | Publish string string
  | Refuse string "string option"

fun perform :: "'x desk \<Rightarrow> 'x proposal_call \<Rightarrow> ('x, unit) op" where
  "perform D (Draft objective name version profile js) = seqE (op_workflow_author_draft D objective name version profile js) (ret ())"
| "perform D (Remember p summary) = seqE (op_memory_propose D p summary) (ret ())"
| "perform D (Revise i content summary) = seqE (op_proposal_update D i content summary) (ret ())"
| "perform D (Publish i digest) = seqE (op_proposal_publish D i digest) (ret ())"
| "perform D (Refuse i reason) = seqE (op_proposal_reject D i reason) (ret ())"

lemma settled_ops:
  "carries (settled w0) (author_workflow_draft D objective name version profile js)"
  "carries (settled w0) (propose_semantic_memory D p summary)"
  "carries (settled w0) (update_proposal D i content summary)"
  "carries (settled w0) (op_proposal_publish D i digest)"
  "carries (settled w0) (reject_proposal D i reason)"
proof -
  show "carries (settled w0) (author_workflow_draft D objective name version profile js)"
    unfolding author_workflow_draft_def by (intro carry)
  show "carries (settled w0) (propose_semantic_memory D p summary)"
    unfolding propose_semantic_memory_def by (intro carry)
  show "carries (settled w0) (update_proposal D i content summary)"
    unfolding update_proposal_def
    by (rule draft_guard)
      (rule settles_tail settles_prod settles_let settles_bind [OF drafting_same] settles_seq [OF drafting_same] | (intro carry; fail) | (simp; fail))+
  show "carries (settled w0) (reject_proposal D i reason)"
    unfolding reject_proposal_def seqE_def [of "get_draft D i"] by (intro draft_guard settles_tail) simp
  have mark: "carries (settled w0) (mark_published D i d)" for d
    unfolding mark_published_def seqE_def [of "get_draft D i"] by (intro draft_guard settles_tail) simp
  have verify: "carries (settled w0) (verify_workflow_proposal D i)"
    unfolding verify_workflow_proposal_def by (intro carry settled_same [OF same_draft])
  show "carries (settled w0) (op_proposal_publish D i digest)"
    unfolding op_proposal_publish_def publish_checked_def by (intro carry mark verify)
qed


text \<open>
  C18. A decision about a proposal is final and its history complete: whatever operation is made on
  proposals, in whatever order and however it ends, none is dropped, none that was published or
  rejected is changed, and no event of any proposal is dropped or altered.
\<close>

theorem decisions_are_final:
  assumes "distinct (map p_id (proposals w))"
  shows "settled w (fold (\<lambda>c x. snd (perform D c x)) calls w)"
proof -
  have one: "carries (settled w) (perform D c)" for c
    by (cases c) (simp_all add: op_workflow_author_draft_def op_memory_propose_def op_proposal_update_def op_proposal_reject_def
        carries_seq carries_ret carries_core(2) settled_ops)
  have "settled w (fold (\<lambda>c x. snd (perform D c x)) calls x)" if "settled w x" for x
    using that by (induction calls arbitrary: x) (auto dest: carriesD [OF one])
  moreover have "settled w w" using assms by (simp add: settled_def)
  ultimately show ?thesis by blast
qed

section \<open>What is published of a proposal\<close>

lemma core_op_Val [vals]: "core_op c m w = (Val a, w') \<longleftrightarrow> m w = (Val a, w')"
  by (auto simp: core_op_def core_error_def catchE_def bind_Val attempt_Val basic_Val split: if_splits)

lemma find_updated:
  assumes "\<And>r. p_id (f r) = p_id r"
  shows "find (\<lambda>r. p_id r = i) (map (\<lambda>r. if p_id r = i then f r else r) xs) = map_option f (find (\<lambda>r. p_id r = i) xs)"
  using assms by (induction xs) auto

lemma proposal_event_Val: "proposal_event i t p a w = (Val u, w') \<Longrightarrow> proposals w' = proposals w"
  by (auto simp: proposal_event_def insert_proposal_event_def uuid7_def utc_now_rfc3339_def integrity_def bind_Val basic_Val split: if_splits)

lemma tail_Val:
  assumes "bindE utc_now_rfc3339 (\<lambda>now. seqE (update_proposal_row i (f now)) (seqE (proposal_event i t p a) (get_proposal D i))) w = (Val v, w')"
    and "find (\<lambda>r. p_id r = i) (proposals w) = Some r" "\<And>now r. p_id (f now r) = p_id r"
  shows "\<exists>now. pv_row v = f now r"
proof -
  from assms(1) obtain now w1 w2 w3 where now: "utc_now_rfc3339 w = (Val now, w1)"
    and upd: "update_proposal_row i (f now) w1 = (Val (), w2)" and ev: "proposal_event i t p a w2 = (Val (), w3)"
    and got: "get_proposal D i w3 = (Val v, w')" unfolding bind_Val seq_Val by auto
  have "proposals w3 = map (\<lambda>r. if p_id r = i then f now r else r) (proposals w)"
    using now upd proposal_event_Val [OF ev] by (auto simp: utc_now_rfc3339_def update_proposal_row_def modify_def)
  then have "find (\<lambda>r. p_id r = i) (proposals w3) = Some (f now r)" using find_updated [OF assms(3)] assms(2) by simp
  with got show ?thesis
    by (auto simp: get_proposal_def find_proposal_def proposal_error_def bind_Val basic_Val split: option.splits)
qed

lemma get_proposal_Val:
  assumes "get_proposal D i w = (Val v, w1)"
  shows "find (\<lambda>r. p_id r = i) (proposals w) = Some (pv_row v)"
  using assms by (auto simp: get_proposal_def find_proposal_def proposal_error_def bind_Val basic_Val split: option.splits)



text \<open>
  A proposal of a memory cannot be revised as one: op_proposal_update takes the new content for a
  workflow whatever the kind of the proposal is, so a revision that is accepted leaves a workflow draft,
  with its digest on record, under the kind semantic-memories.
\<close>

theorem memory_revision_is_a_workflow:
  assumes "op_proposal_update D i content summary w = (Val v, w')"
    and "find (\<lambda>r. p_id r = i) (proposals w) = Some row" "p_kind row = ''semantic-memories''"
  shows "p_kind (pv_row v) = ''semantic-memories'' \<and>
    (\<exists>raw draft bytes. yaml_load (dk_files D) content = Inr raw \<and>
       prepare_workflow D raw None None = Inr (draft, bytes, p_digest (pv_row v)))"
proof -
  from assms(1) obtain cur w1 where cur: "get_draft D i w = (Val cur, w1)"
    unfolding op_proposal_update_def core_op_Val update_proposal_def bind_Val by blast
  note c = get_draft_Val [OF cur]
  have row: "pv_row cur = row" using c(1) assms(2) by simp
  from assms(1) obtain raw draft bytes digest name version where prep: "yaml_load (dk_files D) content = Inr raw"
    "prepare_workflow D raw None None = Inr (draft, bytes, digest)" "workflow_names D draft = Inr (name, version)"
    unfolding op_proposal_update_def core_op_Val update_proposal_def bind_Val liftR_Val case_prod_Val by blast
  let ?p = "proposal_path (dk_files D) i name version"
  let ?old = "draft_file D (pv_row cur)"
  from assms(1) obtain stale w2 w3 w4 where wrote: "write_draft D ?p bytes w1 = (Val (), w2)"
    and st: "(if ?old \<noteq> ?p then outside (file_exists (dk_files D) ?old) else ret False) w2 = (Val stale, w3)"
    and un: "whenE stale (outside (unlink D ?old)) w3 = (Val (), w4)"
    and tail: "bindE utc_now_rfc3339 (\<lambda>now. seqE (update_proposal_row i (\<lambda>r. r\<lparr>p_name := name, p_version := version, p_digest := digest,
         p_path := shown_path (dk_files D) ?p, p_summary := (case summary of Some s \<Rightarrow> s | None \<Rightarrow> p_summary (pv_row cur)), p_updated := now\<rparr>))
       (seqE (proposal_event i ''updated'' (JObj (draft_payload digest (shown_path (dk_files D) ?p))) ''operator'') (get_proposal D i))) w4 = (Val v, w')"
    unfolding op_proposal_update_def core_op_Val update_proposal_def bind_Val [of "get_draft D i"] cur
    by (auto simp: bind_Val [of "liftR _"] liftR_Val prep Let_def seq_Val bind_Val [of "if _ then _ else _"])
  have "same_proposals w w4"
  proof -
    have "carries (same_proposals w) (whenE stale (outside (unlink D ?old)))"
      "carries (same_proposals w) (if ?old \<noteq> ?p then outside (file_exists (dk_files D) ?old) else ret False)" by (intro carry)+
    note s = this
    have "same_proposals w w2" using carriesD [OF same_profile(4) c(3), of D ?p bytes] wrote by simp
    from carriesD [OF s(2) this] st have "same_proposals w w3" by simp
    from carriesD [OF s(1) this] un show ?thesis by simp
  qed
  then have "find (\<lambda>r. p_id r = i) (proposals w4) = Some row" using assms(2) by (simp add: same_proposals_def)
  from tail_Val [OF tail this] obtain now where "pv_row v = row\<lparr>p_name := name, p_version := version, p_digest := digest,
     p_path := shown_path (dk_files D) ?p, p_summary := (case summary of Some s \<Rightarrow> s | None \<Rightarrow> p_summary (pv_row cur)), p_updated := now\<rparr>" by auto
  with prep assms(3) show ?thesis by simp
qed


section \<open>Witnesses\<close>

definition memory_raw :: obj where
  "memory_raw = [(''apiVersion'', JStr ''awf/v1''), (''kind'', JStr ''SemanticMemory''),
     (''metadata'', JObj [(''name'', JStr ''tea''), (''version'', JStr ''1.0.0''), (''digest'', JStr ''d'')]),
     (''spec'', JObj [(''subject'', JStr ''operator''), (''predicate'', JStr ''drinks''), (''value'', JStr ''tea''), (''memoryType'', JStr ''preference''),
        (''scope'', JStr ''global''), (''confidence'', JInt 1), (''data_classification'', JStr ''internal''),
        (''provenance'', JObj [(''sourceType'', JStr ''operator''), (''sourceRef'', JStr ''cli''), (''observedAt'', JStr ''t'')]),
        (''validity'', JObj [(''validFrom'', JStr ''t'')]), (''correction'', JObj []), (''pinned'', JBool False), (''enabled'', JBool True)])]"

definition workflow_raw :: obj where
  "workflow_raw = [(''apiVersion'', JStr ''awf/v1''), (''kind'', JStr ''Workflow''), (''metadata'', JObj [(''name'', JStr ''flow''), (''version'', JStr ''1.0.0'')]),
     (''spec'', JObj [(''inputSchema'', JObj []), (''outputSchema'', JObj []), (''budgets'', JObj []), (''nodes'', JList []), (''outputs'', JObj [])])]"

definition demo_yaml :: "string \<Rightarrow> json result" where
  "demo_yaml t = Inr (JObj (if t = ''memo'' then memory_raw else workflow_raw))"

definition memo_disk :: disk where
  "memo_disk = [((True, [''r'', ''data'', ''proposals'', ''p.yaml'']), ''memo'')]"

definition memo_row :: "string \<Rightarrow> proposal_status \<Rightarrow> proposal_row" where
  "memo_row i status = (draft_row i ''semantic-memories'' ''tea'' ''1.0.0'' ''memo'' ''data/proposals/p.yaml'' ''Tea'' ''t0'')\<lparr>p_status := status\<rparr>"

definition memo_world :: "disk world" where
  "memo_world = (one_run memo_disk [])\<lparr>proposals := [memo_row ''p'' P_DRAFT, memo_row ''q'' P_REJECTED]\<rparr>"

theorem prepared_draft_verifies_witness:
  "\<exists>draft content digest. prepare_workflow (demo_desk demo_yaml) (JObj workflow_raw) (Some ''mine'') None = Inr (draft, content, digest) \<and>
     verify_workflow_declared_digest (demo_desk demo_yaml) (True, []) draft = Inr ()"
proof -
  have "(case prepare_workflow (demo_desk demo_yaml) (JObj workflow_raw) (Some ''mine'') None of Inr r \<Rightarrow> True | _ \<Rightarrow> False)" by code_simp
  then obtain draft content digest where p: "prepare_workflow (demo_desk demo_yaml) (JObj workflow_raw) (Some ''mine'') None = Inr (draft, content, digest)"
    by (auto split: sum.splits)
  from prepared_draft_verifies [OF p] p show ?thesis by blast
qed

theorem decisions_are_final_witness:
  "memo_row ''q'' P_REJECTED \<in> set (proposals (fold (\<lambda>c x. snd (perform (demo_desk demo_yaml) c x))
     [Publish ''q'' ''memo'', Refuse ''p'' None, Revise ''q'' ''flow'' None, Publish ''p'' ''memo''] memo_world))"
proof -
  have "distinct (map p_id (proposals memo_world))" by (simp add: memo_world_def memo_row_def draft_row_def)
  from decisions_are_final [OF this] have "\<forall>r \<in> set (proposals memo_world). p_status r \<noteq> P_DRAFT \<longrightarrow>
      r \<in> set (proposals (fold (\<lambda>c x. snd (perform (demo_desk demo_yaml) c x)) [Publish ''q'' ''memo'', Refuse ''p'' None, Revise ''q'' ''flow'' None, Publish ''p'' ''memo''] memo_world))"
    unfolding settled_def by blast
  moreover have "memo_row ''q'' P_REJECTED \<in> set (proposals memo_world)" "p_status (memo_row ''q'' P_REJECTED) \<noteq> P_DRAFT"
    by (simp_all add: memo_world_def memo_row_def)
  ultimately show ?thesis by blast
qed


theorem memory_revision_is_a_workflow_witness:
  "\<exists>v w' raw draft bytes. op_proposal_update (demo_desk demo_yaml) ''p'' ''flow'' None memo_world = (Val v, w') \<and>
     p_kind (pv_row v) = ''semantic-memories'' \<and> prepare_workflow (demo_desk demo_yaml) raw None None = Inr (draft, bytes, p_digest (pv_row v))"
proof -
  let ?o = "op_proposal_update (demo_desk demo_yaml) ''p'' ''flow'' None memo_world"
  have "(case ?o of (Val v, w) \<Rightarrow> True | _ \<Rightarrow> False)" by code_simp
  then obtain v w' where o: "?o = (Val v, w')" by (auto split: prod.splits res.splits)
  have row: "find (\<lambda>r. p_id r = ''p'') (proposals memo_world) = Some (memo_row ''p'' P_DRAFT)"
    by (simp add: memo_world_def memo_row_def draft_row_def)
  have kind: "p_kind (memo_row ''p'' P_DRAFT) = ''semantic-memories''" by (simp add: memo_row_def draft_row_def)
  from memory_revision_is_a_workflow [OF o row kind] o show ?thesis by blast
qed

end
