(* ===== verification/Awf_Speech.thy ===== *)
theory Awf_Speech
  imports Awf_Runs
begin

text \<open>
  The voice session (speech/session.py): a state machine whose state is not a column but the last of
  the session's entries that claims to be one, each step mirrored in the event log; and the client
  operations on it (ops/voice.py) that need no run.
\<close>

section \<open>States, frames and transitions\<close>

definition transitions :: "((string \<times> string) \<times> string) list" where
  "transitions =
     [((''idle'', ''session.started''), ''idle''), ((''armed'', ''session.started''), ''armed''),
      ((''idle'', ''session.idle''), ''idle''), ((''armed'', ''session.idle''), ''armed''),
      ((''listening'', ''session.idle''), ''idle''), ((''recovering'', ''session.idle''), ''idle''),
      ((''idle'', ''wake.detected''), ''listening''), ((''armed'', ''wake.detected''), ''listening''),
      ((''idle'', ''vad.speech_started''), ''listening''), ((''armed'', ''vad.speech_started''), ''listening''),
      ((''listening'', ''stt.partial''), ''listening''), ((''listening'', ''vad.speech_stopped''), ''transcribing''),
      ((''transcribing'', ''stt.partial''), ''transcribing''), ((''transcribing'', ''stt.final''), ''submitting''),
      ((''submitting'', ''core.submitted''), ''submitting''), ((''submitting'', ''core.output_text''), ''speaking''),
      ((''speaking'', ''tts.audio_chunk''), ''speaking''), ((''speaking'', ''tts.done''), ''idle''),
      ((''speaking'', ''vad.speech_started''), ''listening''), ((''speaking'', ''interruption''), ''listening''),
      ((''listening'', ''interruption''), ''listening''), ((''idle'', ''error''), ''recovering''),
      ((''armed'', ''error''), ''recovering''), ((''listening'', ''error''), ''recovering''),
      ((''transcribing'', ''error''), ''recovering''), ((''submitting'', ''error''), ''recovering''),
      ((''speaking'', ''error''), ''recovering''), ((''recovering'', ''error''), ''recovering'')]"

record voice_frame =
  vf_type :: string
  vf_payload :: obj
  vf_turn :: "string option"

text \<open>The state is what an entry says, which may be any JSON value.\<close>

record voice_session =
  vs_id :: string
  vs_memory :: string
  vs_state :: json

definition voice_error :: "string \<Rightarrow> ('w, 'a) act" where
  "voice_error msg = throw ''VoiceSessionError'' msg"

definition redact_audio :: "obj \<Rightarrow> obj" where
  "redact_audio d = map (\<lambda>(k, v). (k, if k \<in> {''audio'', ''audio_bytes'', ''pcm'', ''samples''} then JStr ''<redacted>'' else v)) d"

definition next_state :: "json \<Rightarrow> string \<Rightarrow> string option result" where
  "next_state state frame_type =
     (if frame_type = ''session.closed'' then Inr (Some ''closed'')
      else if \<not> is_hashable state then fail ''TypeError'' ''unhashable type''
      else Inr (case state of JStr s \<Rightarrow> map_of transitions (s, frame_type) | _ \<Rightarrow> None))"

section \<open>Operations (speech/session.py)\<close>

definition transition_payload :: "voice_session \<Rightarrow> json \<Rightarrow> voice_frame \<Rightarrow> obj" where
  "transition_payload s prior frame =
     [(''voice_session_id'', JStr (vs_id s)), (''memory_session_id'', JStr (vs_memory s)), (''frame_type'', JStr (vf_type frame)),
      (''prior_state'', prior), (''state'', vs_state s), (''turn_id'', jopt (vf_turn frame)),
      (''payload'', JObj (redact_audio (vf_payload frame)))]"

definition record_transition :: "voice_session \<Rightarrow> json \<Rightarrow> voice_frame \<Rightarrow> ('x, unit) op" where
  "record_transition s prior frame =
     (let payload = transition_payload s prior frame in
      seqE (append_entry (vs_memory s) ''system'' (JObj ((''kind'', JStr ''voice_state'') # payload))
              (Some (vf_type frame @ '': '' @ py_str (or_else prior (JStr ''none'')) @ '' -> '' @ py_str (vs_state s)))) (
      seqE ensure_system_run (
      bindE (liftR (sql_text prior)) (\<lambda>prior_status.
        seqE (write_event system_run_id (py_str (vs_state s)) ''voice_session'' ''voice_session_frame'' None None prior_status
               (sort_json (JObj payload)))
          (ret ())))))"

definition start_voice_session :: "'x memory_env \<Rightarrow> string option \<Rightarrow> bool \<Rightarrow> ('x, voice_session) op" where
  "start_voice_session M title wake_enabled =
     bindE (start_session M (Some (case title of Some (c # t) \<Rightarrow> c # t | _ \<Rightarrow> ''Voice session'')) None (Some 72)) (\<lambda>(s, ys).
     let v = \<lparr>vs_id = n_id s, vs_memory = n_id s, vs_state = JStr (if wake_enabled then ''armed'' else ''idle'')\<rparr> in
     seqE (record_transition v JNull \<lparr>vf_type = ''session.started'', vf_payload = [(''wake_enabled'', JBool wake_enabled)], vf_turn = None\<rparr>)
       (ret v))"

text \<open>
  The rows of a session from the last one inserted to the first, until one is a state: its content must
  be a dict, and hold the key state.
\<close>

primrec state_in :: "entry_row list \<Rightarrow> json option result" where
  "state_in [] = Inr None"
| "state_in (y # ys) =
     andThen (get_attr (y_content y)) (\<lambda>d.
     if get ''kind'' d = JStr ''voice_state'' then andThen (item ''state'' d) (\<lambda>s. Inr (Some s)) else state_in ys)"

definition newest_first :: "string \<Rightarrow> 'x world \<Rightarrow> entry_row list" where
  "newest_first i w = rev (filter (\<lambda>y. y_session y = i) (entries w))"

definition current_voice_session :: "string \<Rightarrow> ('x, voice_session) op" where
  "current_voice_session i =
     bindE (gets (newest_first i)) (\<lambda>ys.
     bindE (liftR (state_in ys)) (\<lambda>r. case r of
         None \<Rightarrow> voice_error (''voice session '' @ i @ '' has no state entry'')
       | Some s \<Rightarrow> ret \<lparr>vs_id = i, vs_memory = i, vs_state = s\<rparr>))"

definition interruption_content :: "voice_frame \<Rightarrow> json" where
  "interruption_content frame =
     JObj (merge_obj [(''kind'', JStr ''voice_interruption''), (''turn_id'', jopt (vf_turn frame))] (vf_payload frame))"

definition accept_frame :: "string \<Rightarrow> voice_frame \<Rightarrow> ('x, voice_session) op" where
  "accept_frame i frame =
     bindE (current_voice_session i) (\<lambda>v.
     if vs_state v = JStr ''closed'' then voice_error (''voice session '' @ i @ '' is closed'')
     else
       bindE (liftR (next_state (vs_state v) (vf_type frame))) (\<lambda>n. case n of
           None \<Rightarrow> voice_error (''cannot accept '' @ str_repr (vf_type frame) @ '' while voice session is '' @ py_repr (vs_state v))
         | Some t \<Rightarrow>
             let next = v\<lparr>vs_state := JStr t\<rparr> in
             seqE (record_transition next (vs_state v) frame) (
             seqE (whenE (vf_type frame = ''interruption'')
                    (seqE (append_entry (vs_memory v) ''system'' (interruption_content frame) (Some ''voice interruption'')) (ret ())))
               (ret next))))"

definition append_operator_utterance :: "string \<Rightarrow> string \<Rightarrow> string option \<Rightarrow> ('x, session_row \<times> entry_row list) op" where
  "append_operator_utterance i text turn =
     append_entry i ''operator''
       (JObj [(''kind'', JStr ''voice_utterance''), (''text'', JStr text), (''turn_id'', jopt turn)]) (Some text)"

definition append_assistant_response ::
  "string \<Rightarrow> string \<Rightarrow> string \<Rightarrow> string \<Rightarrow> string option \<Rightarrow> json \<Rightarrow> ('x, session_row \<times> entry_row list) op" where
  "append_assistant_response i text profile_ref voice_id turn run_id =
     append_entry i ''assistant''
       (JObj [(''kind'', JStr ''voice_response''), (''text'', JStr text), (''voice_profile_ref'', JStr profile_ref),
              (''voice_id'', JStr voice_id), (''turn_id'', jopt turn), (''run_id'', run_id)]) (Some text)"

section \<open>Client operations (ops/voice.py)\<close>

definition voice_view :: "voice_session \<Rightarrow> obj" where
  "voice_view v = [(''voice_session_id'', JStr (vs_id v)), (''memory_session_id'', JStr (vs_memory v)), (''state'', vs_state v)]"

definition op_voice_session_start :: "'x memory_env \<Rightarrow> string option \<Rightarrow> bool \<Rightarrow> ('x, obj) op" where
  "op_voice_session_start M title wake_enabled =
     bindE (start_voice_session M title wake_enabled) (\<lambda>v. ret (voice_view v))"

definition as_core_error :: "string set \<Rightarrow> ('w, 'a) act \<Rightarrow> ('w, 'a) act" where
  "as_core_error errors m = catchE m (\<lambda>e. if exc_type e \<in> errors then core_error (exc_text e) else raise e)"

definition op_voice_session_event :: "string \<Rightarrow> string \<Rightarrow> obj \<Rightarrow> string option \<Rightarrow> ('x, obj) op" where
  "op_voice_session_event i frame_type payload turn =
     bindE (as_core_error {''VoiceSessionError''} (accept_frame i \<lparr>vf_type = frame_type, vf_payload = payload, vf_turn = turn\<rparr>))
       (\<lambda>v. ret (voice_view v))"

definition op_voice_session_close :: "string \<Rightarrow> string option \<Rightarrow> ('x, obj) op" where
  "op_voice_session_close i reason =
     op_voice_session_event i ''session.closed''
       (case reason of Some (c # t) \<Rightarrow> [(''reason'', JStr (c # t))] | _ \<Rightarrow> []) None"


section \<open>What is appended\<close>

lemma entries_stay:
  "entries (snd (show_session i w)) = entries w" "entries (snd (update_session i f w)) = entries w"
  "entries (snd (write_event a b c d e k g h w)) = entries w" "entries (snd (ensure_system_run w)) = entries w"
  by (auto simp: show_session_def expire_if_past_def find_session_def update_session_def session_error_def utc_now_rfc3339_def
      write_event_def uuid7_def insert_event_def integrity_def ensure_system_run_def insert_run_def act_defs
      split: option.split prod.split res.split)

definition appended :: "string \<Rightarrow> json \<Rightarrow> 'x world \<Rightarrow> 'x world \<Rightarrow> bool" where
  "appended i c w w' = (\<exists>e. entries w' = entries w @ [e] \<and> y_session e = i \<and> y_content e = sort_json c)"

lemma append_entry_cases:
  assumes "append_entry i r c s w = (x, w')"
  shows "appended i c w w' \<or> entries w' = entries w \<and> (\<forall>a. x \<noteq> Val a)"
proof -
  have show_: "show_session i v = (x, w') \<Longrightarrow> entries w' = entries v" for v
    using entries_stay(1) [of i v] by simp
  show ?thesis
    using assms unfolding append_entry_def find_session_def insert_entry_def update_session_def session_error_def integrity_def
    by (auto simp: appended_def utc_now_rfc3339_def uuid7_def act_defs Let_def split: option.splits if_splits dest!: show_)
qed


section \<open>Dicts that are written sorted\<close>

lemma map_of_sorted:
  assumes "distinct (map fst d)"
  shows "map_of (sort_key fst d) k = map_of (d :: obj) k"
proof -
  have "distinct (map fst (sort_key fst d))" using assms by (simp add: distinct_map)
  then have "map_of (sort_key fst d) = map_of d"
    using assms map_of_inject_set [of "sort_key fst d" d] by simp
  then show ?thesis by simp
qed

lemma map_of_values: "map_of (map (\<lambda>(k, v). (k, f v)) d) k = map_option f (map_of d k)"
  by (induction d) auto

lemma get_sort_json:
  assumes "distinct (map fst d)"
  shows "\<exists>d'. sort_json (JObj d) = JObj d' \<and> (\<forall>k. map_of d' k = map_option sort_json (map_of d k))"
proof -
  let ?d = "map (\<lambda>(k, v). (k, sort_json v)) d"
  have "distinct (map fst ?d)" using assms by (simp add: case_prod_beta' comp_def)
  then show ?thesis by (auto simp: map_of_sorted map_of_values)
qed

lemma merge_keys: "distinct (map fst a) \<Longrightarrow> distinct (map fst (merge_obj a b))"
  by (induction b arbitrary: a) (auto simp: merge_obj_def distinct_update)

lemma map_of_merge:
  "map_of (merge_obj a b) k = (case map_of (rev b) k of Some v \<Rightarrow> Some v | None \<Rightarrow> map_of a k)"
proof (induction b arbitrary: a)
  case (Cons p b)
  obtain x y where p: "p = (x, y)" by (cases p)
  have "merge_obj a (p # b) = merge_obj (AList.update x y a) b" by (simp add: merge_obj_def p)
  then show ?case using Cons.IH [of "AList.update x y a"]
    by (auto simp: p update_conv' map_add_def split: option.splits)
qed (simp add: merge_obj_def)

section \<open>The trail of states\<close>

definition state_of :: "entry_row \<Rightarrow> json option" where
  "state_of y = (case y_content y of
       JObj d \<Rightarrow> if get ''kind'' d = JStr ''voice_state'' then Some (get ''state'' d) else None | _ \<Rightarrow> None)"

definition trail :: "string \<Rightarrow> 'x world \<Rightarrow> json list" where
  "trail i w = List.map_filter state_of (filter (\<lambda>y. y_session y = i) (entries w))"

lemma map_filter_append: "List.map_filter f (xs @ ys) = List.map_filter f xs @ List.map_filter f ys"
  by (simp add: List.map_filter_def)

lemma map_filter_single: "List.map_filter f [x] = (case f x of None \<Rightarrow> [] | Some y \<Rightarrow> [y])"
  by (cases "f x") (simp_all add: List.map_filter_def)

lemma state_in_trail:
  "state_in (rev ys) = Inr r \<Longrightarrow> (case r of None \<Rightarrow> List.map_filter state_of ys = []
     | Some s \<Rightarrow> List.map_filter state_of ys \<noteq> [] \<and> last (List.map_filter state_of ys) = s)"
proof (induction ys rule: rev_induct)
  case (snoc y ys)
  from snoc.prems obtain d where d: "y_content y = JObj d"
    by (auto simp: get_attr_def fail_def split: json.splits)
  show ?case
  proof (cases "get ''kind'' d = JStr ''voice_state''")
    case True
    with snoc.prems d obtain s where s: "map_of d ''state'' = Some s" "r = Some s"
      by (cases "map_of d ''state''") (simp_all add: get_attr_def item_def fail_def)
    have "state_of y = Some s" using d True s(1) by (simp add: state_of_def get_def [of "''state''"])
    with s(2) show ?thesis by (simp add: map_filter_append map_filter_single)
  next
    case False
    then have "state_of y = None" using d by (simp add: state_of_def)
    moreover have "state_in (rev ys) = Inr r" using snoc.prems d False by (simp add: get_attr_def)
    ultimately show ?thesis using snoc.IH by (simp add: map_filter_append map_filter_single split: option.splits)
  qed
qed (simp add: List.map_filter_def)

lemma current_trail:
  assumes "current_voice_session i w = (Val v, w')"
  shows "w' = w" "vs_id v = i" "vs_memory v = i" "trail i w \<noteq> []" "last (trail i w) = vs_state v"
proof -
  from assms obtain s where s: "state_in (newest_first i w) = Inr (Some s)" "w' = w" "v = \<lparr>vs_id = i, vs_memory = i, vs_state = s\<rparr>"
    by (auto simp: current_voice_session_def bind_Val basic_Val liftR_Val voice_error_def split: option.splits)
  from state_in_trail [OF s(1) [unfolded newest_first_def]] s show "trail i w \<noteq> []" "last (trail i w) = vs_state v"
    by (simp_all add: trail_def)
  from s show "w' = w" "vs_id v = i" "vs_memory v = i" by simp_all
qed

lemma trail_appended:
  assumes "appended i c w w'"
  shows "trail j w' = trail j w @ (if j = i then
     (case sort_json c of JObj d \<Rightarrow> if get ''kind'' d = JStr ''voice_state'' then [get ''state'' d] else [] | _ \<Rightarrow> []) else [])"
proof -
  let ?new = "case sort_json c of JObj d \<Rightarrow> if get ''kind'' d = JStr ''voice_state'' then [get ''state'' d] else [] | _ \<Rightarrow> []"
  from assms obtain e where e: "entries w' = entries w @ [e]" "y_session e = i" "y_content e = sort_json c"
    unfolding appended_def by blast
  have "List.map_filter state_of [e] = ?new"
    unfolding map_filter_single state_of_def e(3) by (cases "sort_json c") (simp_all del: sort_json.simps)
  then show ?thesis using e(1,2) by (simp add: trail_def map_filter_append)
qed


section \<open>One step of the machine\<close>

text \<open>An edge leaves every state but closed: closing, or a transition of the table.\<close>

inductive edge :: "json \<Rightarrow> json \<Rightarrow> bool" where
  close: "s \<noteq> JStr ''closed'' \<Longrightarrow> edge s (JStr ''closed'')"
| step: "s \<noteq> ''closed'' \<Longrightarrow> map_of transitions (s, f) = Some t \<Longrightarrow> edge (JStr s) (JStr t)"

inductive_cases edge_from_closed: "edge (JStr ''closed'') t"

lemma closed_is_final: "\<not> edge (JStr ''closed'') t"
  by (auto elim: edge_from_closed)

definition forging :: "voice_frame \<Rightarrow> bool" where
  "forging frame = (vf_type frame = ''interruption'' \<and> has_key ''kind'' (vf_payload frame))"

lemma next_edge: "next_state s f = Inr (Some t) \<Longrightarrow> s \<noteq> JStr ''closed'' \<Longrightarrow> edge s (JStr t)"
  by (auto simp: next_state_def fail_def intro: edge.intros split: if_splits json.splits)

lemma trail_stays: "entries w' = entries w \<Longrightarrow> trail i w' = trail i w"
  by (simp add: trail_def)

lemma transition_keys: "distinct (map fst ((''kind'', JStr ''voice_state'') # transition_payload s p f))"
  by (simp add: transition_payload_def)

lemma transition_content:
  assumes "vs_state s = JStr t"
  obtains d where "sort_json (JObj ((''kind'', JStr ''voice_state'') # transition_payload s p f)) = JObj d"
    "get ''kind'' d = JStr ''voice_state''" "map_of d ''state'' = Some (JStr t)"
proof -
  from get_sort_json [OF transition_keys [of s p f]] obtain d
    where d: "sort_json (JObj ((''kind'', JStr ''voice_state'') # transition_payload s p f)) = JObj d"
      "\<And>k. map_of d k = map_option sort_json (map_of ((''kind'', JStr ''voice_state'') # transition_payload s p f) k)"
    by blast
  then have "get ''kind'' d = JStr ''voice_state''" "map_of d ''state'' = Some (JStr t)"
    using assms by (simp_all add: get_def transition_payload_def)
  with d(1) show ?thesis by (rule that)
qed

lemma interruption_keys:
  obtains d where "sort_json (interruption_content f) = JObj d"
    "\<And>k. map_of d k = map_option sort_json (case map_of (rev (vf_payload f)) k of Some v \<Rightarrow> Some v
       | None \<Rightarrow> map_of [(''kind'', JStr ''voice_interruption''), (''turn_id'', jopt (vf_turn f))] k)"
proof -
  have "distinct (map fst [(''kind'', JStr ''voice_interruption''), (''turn_id'', jopt (vf_turn f))])" by simp
  from get_sort_json [OF merge_keys [OF this]] that show ?thesis
    unfolding interruption_content_def map_of_merge by blast
qed

lemma record_transition_trail:
  assumes "record_transition s p f w = (x, w')" "vs_state s = JStr t"
  shows "trail i w' = trail i w @ (if i = vs_memory s then [JStr t] else []) \<or> trail i w' = trail i w \<and> (\<forall>a. x \<noteq> Val a)"
proof -
  let ?payload = "transition_payload s p f"
  let ?c = "JObj ((''kind'', JStr ''voice_state'') # ?payload)"
  let ?log = "seqE ensure_system_run (bindE (liftR (sql_text p)) (\<lambda>prior_status.
        seqE (write_event system_run_id (py_str (vs_state s)) ''voice_session'' ''voice_session_frame'' None None prior_status
               (sort_json (JObj ?payload))) (ret ())))"
  have log: "entries (snd (?log v)) = entries v" for v
    by (auto simp: seqE_def bindE_def liftR_def act_defs entries_stay dest: arg_cong [where f = entries] split: prod.split res.split sum.split)
       (metis entries_stay(3,4) snd_conv)+
  from assms(1) obtain x1 w1 where first: "append_entry (vs_memory s) ''system'' ?c
        (Some (vf_type f @ '': '' @ py_str (or_else p (JStr ''none'')) @ '' -> '' @ py_str (vs_state s))) w = (x1, w1)"
    and rest: "case x1 of Val a \<Rightarrow> ?log w1 = (x, w') | _ \<Rightarrow> w' = w1 \<and> (\<forall>a. x \<noteq> Val a)"
    unfolding record_transition_def Let_def seqE_def [of "append_entry _ _ _ _"] bindE_def [of "append_entry _ _ _ _"]
    by (auto split: prod.splits res.splits)
  have stay: "entries w' = entries w1" using rest log [of w1] by (auto split: res.splits)
  show ?thesis
    using append_entry_cases [OF first]
  proof
    assume a: "appended (vs_memory s) ?c w w1"
    obtain d where "sort_json ?c = JObj d" "get ''kind'' d = JStr ''voice_state''" "map_of d ''state'' = Some (JStr t)"
      using transition_content [OF assms(2)] by blast
    then show ?thesis using trail_appended [OF a, of i] trail_stays [OF stay, of i] by (simp add: get_def [of "''state''"])
  next
    assume a: "entries w1 = entries w \<and> (\<forall>a. x1 \<noteq> Val a)"
    then show ?thesis using trail_stays [OF stay, of i] trail_stays [of w1 w i] rest by (auto split: res.splits)
  qed
qed


lemma current_reads: "snd (current_voice_session i w) = w"
  by (auto simp: current_voice_session_def bindE_def liftR_def voice_error_def act_defs split: sum.split option.split)

lemma interruption_trail:
  assumes "append_entry i ''system'' (interruption_content f) s w = (x, w')" "\<not> has_key ''kind'' (vf_payload f)"
  shows "trail j w' = trail j w"
  using append_entry_cases [OF assms(1)]
proof
  assume a: "appended i (interruption_content f) w w'"
  obtain d where d: "sort_json (interruption_content f) = JObj d"
    "map_of d ''kind'' = map_option sort_json (case map_of (rev (vf_payload f)) ''kind'' of Some v \<Rightarrow> Some v
       | None \<Rightarrow> map_of [(''kind'', JStr ''voice_interruption''), (''turn_id'', jopt (vf_turn f))] ''kind'')"
    using interruption_keys [of f] by metis
  have "map_of (rev (vf_payload f)) ''kind'' = None"
    using assms(2) by (simp add: has_key_def map_of_eq_None_iff)
  with d have "get ''kind'' d \<noteq> JStr ''voice_state''" by (simp add: get_def)
  with trail_appended [OF a, of j] d(1) show ?thesis by simp
qed (blast intro: trail_stays)

lemma accept_frame_trail:
  assumes "accept_frame i f w = (x, w')" "\<not> forging f"
  shows "(\<forall>j. trail j w' = trail j w) \<and> (\<forall>v. x \<noteq> Val v) \<or>
    (\<exists>t. trail i w \<noteq> [] \<and> edge (last (trail i w)) t \<and> (\<forall>j. trail j w' = trail j w @ (if j = i then [t] else [])) \<and>
       (\<forall>v. x = Val v \<longrightarrow> vs_state v = t))"
proof (cases "current_voice_session i w")
  case (Pair c w1)
  then have w1: "w1 = w" using current_reads [of i w] by simp
  show ?thesis
  proof (cases c)
    case (Val v)
    note v = current_trail [OF Pair [unfolded Val]]
    let ?log = "\<lambda>n. seqE (whenE (vf_type f = ''interruption'')
        (seqE (append_entry (vs_memory v) ''system'' (interruption_content f) (Some ''voice interruption'')) (ret ()))) (ret n)"
    have run: "accept_frame i f w = (if vs_state v = JStr ''closed'' then voice_error (''voice session '' @ i @ '' is closed'')
     else
       bindE (liftR (next_state (vs_state v) (vf_type f))) (\<lambda>n. case n of
           None \<Rightarrow> voice_error (''cannot accept '' @ str_repr (vf_type f) @ '' while voice session is '' @ py_repr (vs_state v))
         | Some t \<Rightarrow> seqE (record_transition (v\<lparr>vs_state := JStr t\<rparr>) (vs_state v) f) (?log (v\<lparr>vs_state := JStr t\<rparr>)))) w"
      using Pair Val w1 unfolding accept_frame_def Let_def by (simp add: bindE_def)
    show ?thesis
    proof (cases "vs_state v \<noteq> JStr ''closed'' \<and> (\<exists>t. next_state (vs_state v) (vf_type f) = Inr (Some t))")
      case False
      with run assms(1) have "w' = w" "\<forall>u. x \<noteq> Val u"
        by (auto simp: voice_error_def liftR_def bindE_def act_defs split: if_splits sum.splits option.splits)
      then show ?thesis by simp
    next
      case True
      then obtain t where t: "next_state (vs_state v) (vf_type f) = Inr (Some t)" and open_: "vs_state v \<noteq> JStr ''closed''" by blast
      let ?n = "v\<lparr>vs_state := JStr t\<rparr>"
      have "accept_frame i f w = seqE (record_transition ?n (vs_state v) f) (?log ?n) w"
        using run t open_ by (simp add: liftR_def bindE_def ret_def)
      with assms(1) obtain x1 w2 where rec: "record_transition ?n (vs_state v) f w = (x1, w2)"
        and rest: "case x1 of Val a \<Rightarrow> ?log ?n w2 = (x, w') | _ \<Rightarrow> w' = w2 \<and> (\<forall>a. x \<noteq> Val a)"
        unfolding seqE_def [of "record_transition _ _ _"] bindE_def [of "record_transition _ _ _"]
        by (auto split: prod.splits res.splits)
      have after: "(\<forall>j. trail j w' = trail j w2) \<and> (\<forall>u. x = Val u \<longrightarrow> u = ?n)"
      proof (cases "vf_type f = ''interruption'' \<and> (\<exists>a. x1 = Val a)")
        case True
        obtain x3 w3 where app: "append_entry (vs_memory v) ''system'' (interruption_content f) (Some ''voice interruption'') w2 = (x3, w3)"
          by fastforce
        have "\<not> has_key ''kind'' (vf_payload f)" using assms(2) True by (simp add: forging_def)
        from interruption_trail [OF app this] rest True app show ?thesis
          by (auto simp: seqE_def bindE_def act_defs split: res.splits)
      next
        case False
        with rest show ?thesis by (auto simp: seqE_def bindE_def act_defs split: res.splits)
      qed
      have edge: "edge (last (trail i w)) (JStr t)" using next_edge [OF t open_] v(5) by simp
      have "(\<forall>j. trail j w2 = trail j w @ (if j = i then [JStr t] else [])) \<or> (\<forall>j. trail j w2 = trail j w) \<and> (\<forall>a. x1 \<noteq> Val a)"
      proof -
        have mem: "vs_memory ?n = i" "vs_state ?n = JStr t" using v(3) by simp_all
        from record_transition_trail [OF rec mem(2)] mem(1) have
          "trail j w2 = trail j w @ (if j = i then [JStr t] else []) \<or> trail j w2 = trail j w \<and> (\<forall>a. x1 \<noteq> Val a)" for j
          by metis
        then show ?thesis by (metis append_Nil2)
      qed
      then show ?thesis
      proof
        assume "\<forall>j. trail j w2 = trail j w @ (if j = i then [JStr t] else [])"
        with after edge v(4) show ?thesis by (intro disjI2 exI [of _ "JStr t"]) auto
      next
        assume "(\<forall>j. trail j w2 = trail j w) \<and> (\<forall>a. x1 \<noteq> Val a)"
        with after rest show ?thesis by (auto split: res.splits)
      qed
    qed
  qed (use assms(1) Pair w1 in \<open>auto simp: accept_frame_def bindE_def\<close>)
qed


section \<open>Whole conversations\<close>

text \<open>The worlds that voice operations lead to, when no frame forges a state and a new session's id is new.\<close>

inductive talks :: "'x memory_env \<Rightarrow> 'x world \<Rightarrow> bool" for M where
  silent: "entries w = [] \<Longrightarrow> talks M w"
| start: "talks M w \<Longrightarrow> \<forall>y \<in> set (entries w). y_session y \<noteq> uuids w (uuid_ix w) \<Longrightarrow>
    talks M (snd (start_voice_session M title wake_enabled w))"
| frame: "talks M w \<Longrightarrow> \<not> forging f \<Longrightarrow> talks M (snd (accept_frame i f w))"
| operator: "talks M w \<Longrightarrow> talks M (snd (append_operator_utterance i text turn w))"
| assistant: "talks M w \<Longrightarrow> talks M (snd (append_assistant_response i text p v turn r w))"
| summary: "talks M w \<Longrightarrow> talks M (snd (summarize_session M i s w))"

definition along :: "json list \<Rightarrow> bool" where
  "along ss = (ss = [] \<or> hd ss \<in> {JStr ''idle'', JStr ''armed''} \<and> successively edge ss)"

lemma along_snoc: "along ss \<Longrightarrow> ss \<noteq> [] \<Longrightarrow> edge (last ss) t \<Longrightarrow> along (ss @ [t])"
  by (auto simp: along_def successively_append_iff)

lemma plain_append_trail:
  assumes "get ''kind'' d = JStr k" "k \<noteq> ''voice_state''" "distinct (map fst d)"
  shows "trail j (snd (append_entry i r (JObj d) s w)) = trail j w"
proof (cases "append_entry i r (JObj d) s w")
  case (Pair x w')
  obtain d' where d': "sort_json (JObj d) = JObj d'" "map_of d' ''kind'' = map_option sort_json (map_of d ''kind'')"
    using get_sort_json [OF assms(3)] by blast
  then have "get ''kind'' d' \<noteq> JStr ''voice_state''" using assms(1,2) by (auto simp: get_def split: option.splits)
  with append_entry_cases [OF Pair] trail_appended [of i "JObj d" w w' j] d'(1) trail_stays [of w' w j] Pair show ?thesis
    by auto
qed

lemma utterance_trail:
  "trail j (snd (append_operator_utterance i text turn w)) = trail j w"
  "trail j (snd (append_assistant_response i text p v turn r w)) = trail j w"
  unfolding append_operator_utterance_def append_assistant_response_def
  by (rule plain_append_trail [where k = "''voice_utterance''"], simp_all add: get_def)
     (rule plain_append_trail [where k = "''voice_response''"], simp_all add: get_def)

lemma summary_entries: "entries (snd (summarize_session M i s w)) = entries w"
proof -
  have "carries (\<lambda>v. entries v = entries w) (show_session i)" "carries (\<lambda>v. entries v = entries w) (update_session i f)"
    "carries (\<lambda>v. entries v = entries w) utc_now_rfc3339" for i f
    by (simp_all add: carries_def entries_stay utc_now_rfc3339_def)
  then have "carries (\<lambda>v. entries v = entries w) (summarize_session M i s)"
    unfolding summarize_session_def by (intro carry)
  from carriesD [OF this refl] show ?thesis .
qed

lemma show_session_id:
  assumes "show_session i w = (Val (s, ys), w')"
  shows "n_id s = i"
proof -
  have found: "find_session i v = (Val (Some x), v') \<Longrightarrow> n_id x = i" for v v' x
    using find_Some_iff [of "\<lambda>s. n_id s = i" "sessions v" x] by (auto simp: find_session_def gets_def)
  from assms obtain row w1 w2 where "find_session i w = (Val row, w1)" and
    rest: "(case row of None \<Rightarrow> session_error (''no such session: '' @ i)
       | Some s \<Rightarrow>
           bindE utc_now_rfc3339 (\<lambda>now.
           if n_status s = S_ACTIVE \<and> past now s then
             seqE (update_session i (\<lambda>x. x\<lparr>n_status := S_EXPIRED, n_updated := now\<rparr>))
               (bindE (find_session i) (demand none_type))
           else ret s)) w1 = (Val s, w2)"
    unfolding show_session_def expire_if_past_def bind_Val basic_Val by blast
  then show ?thesis
    by (auto simp: session_error_def vals dest: found split: option.splits if_splits)
qed

lemma start_session_id:
  assumes "start_session M title ends ttl w = (x, w')"
  shows "entries w' = entries w \<and> (\<forall>s ys. x = Val (s, ys) \<longrightarrow> n_id s = uuids w (uuid_ix w))"
proof -
  have show_: "show_session i v = (x, w') \<Longrightarrow> entries w' = entries v \<and> (\<forall>s ys. x = Val (s, ys) \<longrightarrow> n_id s = i)" for i v
    using entries_stay(1) [of i v] show_session_id [of i v] by auto
  show ?thesis
    using assms unfolding start_session_def insert_session_def find_session_def integrity_def
    by (auto simp: utc_now_rfc3339_def uuid7_def outside_def act_defs Let_def split: option.splits if_splits prod.splits res.splits dest!: show_)
qed

lemma start_trail:
  assumes "\<forall>y \<in> set (entries w). y_session y \<noteq> uuids w (uuid_ix w)"
  shows "trail j (snd (start_voice_session M title wake w)) = trail j w \<or>
    trail j w = [] \<and> trail j (snd (start_voice_session M title wake w)) \<in> {[JStr ''idle''], [JStr ''armed'']}"
proof -
  let ?title = "Some (case title of Some (c # t) \<Rightarrow> c # t | _ \<Rightarrow> ''Voice session'')"
  obtain x1 w1 where first: "start_session M ?title None (Some 72) w = (x1, w1)" by fastforce
  note s = start_session_id [OF first]
  show ?thesis
  proof (cases x1)
    case (Val p)
    obtain s ys where p: "p = (s, ys)" by (cases p)
    let ?v = "\<lparr>vs_id = n_id s, vs_memory = n_id s, vs_state = JStr (if wake then ''armed'' else ''idle'')\<rparr>"
    let ?f = "\<lparr>vf_type = ''session.started'', vf_payload = [(''wake_enabled'', JBool wake)], vf_turn = None\<rparr>"
    obtain x2 w2 where rec: "record_transition ?v JNull ?f w1 = (x2, w2)" by fastforce
    have "snd (start_voice_session M title wake w) = w2"
      using first Val p rec by (auto simp: start_voice_session_def seqE_def bindE_def ret_def Let_def split: res.splits)
    moreover have "trail (n_id s) w = []"
      using s Val p assms by (auto simp: trail_def List.map_filter_def)
    ultimately show ?thesis
      using record_transition_trail [OF rec, of "if wake then ''armed'' else ''idle''" j] trail_stays [of w1 w j] s
      by (cases "j = n_id s") auto
  qed (use first s trail_stays [of w1 w j] in \<open>auto simp: start_voice_session_def bindE_def\<close>)
qed

lemma talks_along: "talks M w \<Longrightarrow> along (trail i w)"
proof (induction rule: talks.induct)
  case (silent w)
  then show ?case by (simp add: along_def trail_def List.map_filter_def)
next
  case (start w title wake)
  from start_trail [OF start.hyps(2), of i M title wake] start.IH show ?case by (auto simp: along_def)
next
  case (frame w f j)
  from accept_frame_trail [OF prod.collapse [symmetric] frame.hyps(2), of j w] frame.IH along_snoc show ?case
    by auto
next
  case (summary w j s)
  then show ?case using trail_stays [OF summary_entries, of i M j s w] by simp
qed (simp_all add: utterance_trail)


section \<open>Reading the state back\<close>

lemma record_transition_Val:
  assumes "record_transition s p f w = (Val u, w')"
  shows "appended (vs_memory s) (JObj ((''kind'', JStr ''voice_state'') # transition_payload s p f)) w w'"
proof -
  from assms obtain a w1 w2 where app: "append_entry (vs_memory s) ''system'' (JObj ((''kind'', JStr ''voice_state'') # transition_payload s p f))
        (Some (vf_type f @ '': '' @ py_str (or_else p (JStr ''none'')) @ '' -> '' @ py_str (vs_state s))) w = (Val a, w1)"
    and sys: "ensure_system_run w1 = (Val (), w2)"
    and rest: "bindE (liftR (sql_text p)) (\<lambda>prior_status.
        seqE (write_event system_run_id (py_str (vs_state s)) ''voice_session'' ''voice_session_frame'' None None prior_status
               (sort_json (JObj (transition_payload s p f)))) (ret ())) w2 = (Val u, w')"
    unfolding record_transition_def Let_def seq_Val by auto
  have "entries w2 = entries w1" using entries_stay(4) [of w1] sys by simp
  moreover from rest obtain b x where "write_event system_run_id (py_str (vs_state s)) ''voice_session'' ''voice_session_frame'' None None b
      (sort_json (JObj (transition_payload s p f))) w2 = (Val x, w')"
    unfolding bind_Val seq_Val basic_Val liftR_Val by blast
  then have "entries w' = entries w2" using entries_stay(3) by (metis snd_conv)
  moreover have "appended (vs_memory s) (JObj ((''kind'', JStr ''voice_state'') # transition_payload s p f)) w w1"
    using append_entry_cases [OF app] by simp
  ultimately show ?thesis by (simp add: appended_def)
qed

text \<open>What the reader of the state sees after an append.\<close>

lemma newest_appended:
  assumes "appended i c w w'"
  obtains e where "newest_first i w' = e # newest_first i w" "y_content e = sort_json c"
proof -
  from assms obtain e where "entries w' = entries w @ [e]" "y_session e = i" "y_content e = sort_json c"
    unfolding appended_def by blast
  then show ?thesis using that by (simp add: newest_first_def)
qed

lemma current_after_state:
  assumes "appended i (JObj ((''kind'', JStr ''voice_state'') # transition_payload s p f)) w w'" "vs_state s = JStr t"
  shows "state_in (newest_first i w') = Inr (Some (JStr t))"
proof -
  obtain e where e: "newest_first i w' = e # newest_first i w"
    "y_content e = sort_json (JObj ((''kind'', JStr ''voice_state'') # transition_payload s p f))"
    using newest_appended [OF assms(1)] .
  obtain d where "sort_json (JObj ((''kind'', JStr ''voice_state'') # transition_payload s p f)) = JObj d"
    "get ''kind'' d = JStr ''voice_state''" "map_of d ''state'' = Some (JStr t)"
    using transition_content [OF assms(2)] .
  with e show ?thesis by (simp add: get_attr_def item_def andThen_def)
qed

lemma accept_frame_Val:
  assumes "accept_frame i f w = (Val v, w')"
  obtains t w1 s p where "vs_state v = JStr t" "vs_id v = i" "vs_memory v = i" "vs_state s = JStr t"
    "appended i (JObj ((''kind'', JStr ''voice_state'') # transition_payload s p f)) w w1"
    "if vf_type f = ''interruption'' then appended i (interruption_content f) w1 w' else w' = w1"
proof -
  from assms obtain c w0 where cur: "current_voice_session i w = (Val c, w0)" and
    rest: "(if vs_state c = JStr ''closed'' then voice_error (''voice session '' @ i @ '' is closed'')
     else bindE (liftR (next_state (vs_state c) (vf_type f))) (\<lambda>n. case n of
           None \<Rightarrow> voice_error (''cannot accept '' @ str_repr (vf_type f) @ '' while voice session is '' @ py_repr (vs_state c))
         | Some t \<Rightarrow>
             let next = c\<lparr>vs_state := JStr t\<rparr> in
             seqE (record_transition next (vs_state c) f) (
             seqE (whenE (vf_type f = ''interruption'')
                    (seqE (append_entry (vs_memory c) ''system'' (interruption_content f) (Some ''voice interruption'')) (ret ())))
               (ret next)))) w0 = (Val v, w')"
    unfolding accept_frame_def bind_Val by blast
  note c = current_trail [OF cur]
  from rest obtain n where n: "(case n of
           None \<Rightarrow> voice_error (''cannot accept '' @ str_repr (vf_type f) @ '' while voice session is '' @ py_repr (vs_state c))
         | Some t \<Rightarrow>
             let next = c\<lparr>vs_state := JStr t\<rparr> in
             seqE (record_transition next (vs_state c) f) (
             seqE (whenE (vf_type f = ''interruption'')
                    (seqE (append_entry (vs_memory c) ''system'' (interruption_content f) (Some ''voice interruption'')) (ret ())))
               (ret next))) w = (Val v, w')"
    using c(1) by (auto simp: voice_error_def bind_Val liftR_Val basic_Val split: if_splits)
  then obtain t where t: "n = Some t" by (cases n) (simp_all add: voice_error_def basic_Val)
  let ?s = "c\<lparr>vs_state := JStr t\<rparr>"
  from n obtain u w1 b where rec: "record_transition ?s (vs_state c) f w = (Val u, w1)"
    and app: "whenE (vf_type f = ''interruption'')
        (seqE (append_entry (vs_memory c) ''system'' (interruption_content f) (Some ''voice interruption'')) (ret ())) w1 = (Val b, w')"
    and v: "v = ?s"
    unfolding t option.case Let_def seq_Val basic_Val by blast
  have "appended i (JObj ((''kind'', JStr ''voice_state'') # transition_payload ?s (vs_state c) f)) w w1"
    using record_transition_Val [OF rec] c(3) by simp
  moreover have "if vf_type f = ''interruption'' then appended i (interruption_content f) w1 w' else w' = w1"
    using app append_entry_cases [of i "''system''" "interruption_content f" "Some ''voice interruption''" w1] c(3)
    by (auto simp: whenE_def seq_Val basic_Val)
  ultimately show ?thesis using that [of t ?s "vs_state c" w1] v c(2,3) by simp
qed

lemma state_is_read: "state_in (newest_first i w) = Inr (Some s) \<Longrightarrow>
    current_voice_session i w = (Val \<lparr>vs_id = i, vs_memory = i, vs_state = s\<rparr>, w)"
  by (simp add: current_voice_session_def bindE_def gets_def liftR_def ret_def)

lemma accepted_is_read:
  assumes "accept_frame i f w = (Val v, w')" "\<not> forging f"
  shows "current_voice_session i w' = (Val v, w')"
proof -
  obtain t w1 s p where v: "vs_state v = JStr t" "vs_id v = i" "vs_memory v = i" "vs_state s = JStr t"
    and state: "appended i (JObj ((''kind'', JStr ''voice_state'') # transition_payload s p f)) w w1"
    and more: "if vf_type f = ''interruption'' then appended i (interruption_content f) w1 w' else w' = w1"
    using accept_frame_Val [OF assms(1)] .
  have w1: "state_in (newest_first i w1) = Inr (Some (JStr t))" using current_after_state [OF state v(4)] .
  have "state_in (newest_first i w') = Inr (Some (JStr t))"
  proof (cases "vf_type f = ''interruption''")
    case True
    with more have "appended i (interruption_content f) w1 w'" by simp
    from newest_appended [OF this] obtain e where e: "newest_first i w' = e # newest_first i w1"
      "y_content e = sort_json (interruption_content f)" .
    obtain d where d: "sort_json (interruption_content f) = JObj d"
      "map_of d ''kind'' = map_option sort_json (case map_of (rev (vf_payload f)) ''kind'' of Some v \<Rightarrow> Some v
       | None \<Rightarrow> map_of [(''kind'', JStr ''voice_interruption''), (''turn_id'', jopt (vf_turn f))] ''kind'')"
      using interruption_keys [of f] by metis
    have "map_of (rev (vf_payload f)) ''kind'' = None"
      using assms(2) True by (simp add: forging_def has_key_def map_of_eq_None_iff)
    with d(2) have "get ''kind'' d \<noteq> JStr ''voice_state''" by (simp add: get_def)
    with e d(1) w1 show ?thesis by (simp add: get_attr_def andThen_def)
  qed (use more w1 in simp)
  from state_is_read [OF this] v show ?thesis by (cases v) simp
qed


section \<open>Properties\<close>


text \<open>
  The state a frame leads to is the state that is read next: when accept_frame returns a session,
  current_voice_session returns the same one, unless the frame is an interruption with a payload of its
  own kind.
\<close>

theorem accepted_state_is_current:
  assumes "accept_frame i f w = (Val v, w')" "\<not> (vf_type f = ''interruption'' \<and> has_key ''kind'' (vf_payload f))"
  shows "current_voice_session i w' = (Val v, w')"
  by (rule accepted_is_read [OF assms(1)]) (use assms(2) in \<open>simp add: forging_def\<close>)

text \<open>
  An interruption can put a session into any state.  The payload of an interruption is unpacked over
  the kind of its entry, so a payload that calls itself a voice_state is the state that is read next,
  whatever the table says of it.
\<close>

theorem interruption_forges_state:
  assumes "accept_frame i f w = (Val v, w')" "vf_type f = ''interruption''"
    and "distinct (map fst (vf_payload f))" "get ''kind'' (vf_payload f) = JStr ''voice_state''" "get ''state'' (vf_payload f) = JStr s"
  shows "current_voice_session i w' = (Val (v\<lparr>vs_state := JStr s\<rparr>), w')"
proof -
  obtain t w1 where v: "vs_id v = i" "vs_memory v = i"
    and more: "if vf_type f = ''interruption'' then appended i (interruption_content f) w1 w' else w' = w1"
    using accept_frame_Val [OF assms(1)] by metis
  from more assms(2) have "appended i (interruption_content f) w1 w'" by simp
  from newest_appended [OF this] obtain e where e: "newest_first i w' = e # newest_first i w1"
    "y_content e = sort_json (interruption_content f)" .
  obtain d where d: "sort_json (interruption_content f) = JObj d"
    "\<And>k. map_of d k = map_option sort_json (case map_of (rev (vf_payload f)) k of Some v \<Rightarrow> Some v
       | None \<Rightarrow> map_of [(''kind'', JStr ''voice_interruption''), (''turn_id'', jopt (vf_turn f))] k)"
    using interruption_keys [of f] by metis
  have "map_of (rev (vf_payload f)) = map_of (vf_payload f)"
    using assms(3) by (simp add: map_of_inject_set rev_map [symmetric])
  with assms(4,5) d(2) have "map_of d ''kind'' = Some (JStr ''voice_state'')" "map_of d ''state'' = Some (JStr s)"
    by (simp_all add: get_def split: option.splits)
  then have "state_in (newest_first i w') = Inr (Some (JStr s))"
    using e d(1) by (simp add: get_attr_def item_def andThen_def get_def)
  from state_is_read [OF this] v show ?thesis by (cases v) simp
qed

text \<open>The audio of an interruption is stored as it comes; that of the transition it makes is not.\<close>

lemma interruption_stores_audio:
  assumes "accept_frame i f w = (Val v, w')" "vf_type f = ''interruption''"
    and "distinct (map fst (vf_payload f))" "map_of (vf_payload f) ''audio'' = Some (JStr a)"
  shows "\<exists>e d. last (entries w') = e \<and> y_content e = JObj d \<and> map_of d ''audio'' = Some (JStr a)"
proof -
  obtain w1 where "if vf_type f = ''interruption'' then appended i (interruption_content f) w1 w' else w' = w1"
    using accept_frame_Val [OF assms(1)] by metis
  then obtain e where e: "entries w' = entries w1 @ [e]" "y_content e = sort_json (interruption_content f)"
    using assms(2) by (auto simp: appended_def)
  obtain d where d: "sort_json (interruption_content f) = JObj d"
    "map_of d ''audio'' = map_option sort_json (case map_of (rev (vf_payload f)) ''audio'' of Some v \<Rightarrow> Some v
       | None \<Rightarrow> map_of [(''kind'', JStr ''voice_interruption''), (''turn_id'', jopt (vf_turn f))] ''audio'')"
    using interruption_keys [of f] by metis
  have "map_of (rev (vf_payload f)) = map_of (vf_payload f)"
    using assms(3) by (simp add: map_of_inject_set rev_map [symmetric])
  with d assms(4) have "map_of d ''audio'' = Some (JStr a)" by simp
  with e d(1) show ?thesis by simp
qed

definition frame_of :: "string \<Rightarrow> obj \<Rightarrow> voice_frame" where
  "frame_of k d = \<lparr>vf_type = k, vf_payload = d, vf_turn = None\<rparr>"

text \<open>A session that has heard its wake word.\<close>

definition woken_world :: "unit world" where
  "woken_world =
     (let w = snd (start_voice_session demo_memory None True (blank_world ())) in
      snd (accept_frame (n_id (hd (sessions w))) (frame_of ''wake.detected'' []) w))"

definition woken_id :: string where
  "woken_id = n_id (hd (sessions woken_world))"


theorem accepted_state_is_current_witness:
  "\<exists>(v :: voice_session) (w' :: unit world). current_voice_session woken_id w' = (Val v, w') \<and> vs_state v = JStr ''transcribing''"
proof -
  let ?r = "accept_frame woken_id (frame_of ''vad.speech_stopped'' []) woken_world"
  have "case fst ?r of Val v \<Rightarrow> vs_state v = JStr ''transcribing'' | _ \<Rightarrow> False" by code_simp
  then obtain v w' where r: "?r = (Val v, w')" "vs_state v = JStr ''transcribing''"
    by (cases ?r; cases "fst ?r") auto
  have "\<not> (vf_type (frame_of ''vad.speech_stopped'' []) = ''interruption'' \<and> has_key ''kind'' (vf_payload (frame_of ''vad.speech_stopped'' [])))"
    by (simp add: frame_of_def)
  from accepted_state_is_current [OF r(1) this] r(2) show ?thesis by blast
qed

theorem interruption_forges_state_witness:
  "\<exists>(v :: voice_session) (w' :: unit world). current_voice_session woken_id w' = (Val (v\<lparr>vs_state := JStr ''speaking''\<rparr>), w') \<and> vs_state v = JStr ''listening''"
proof -
  let ?f = "frame_of ''interruption'' [(''kind'', JStr ''voice_state''), (''state'', JStr ''speaking'')]"
  let ?r = "accept_frame woken_id ?f woken_world"
  have "case fst ?r of Val v \<Rightarrow> vs_state v = JStr ''listening'' | _ \<Rightarrow> False" by code_simp
  then obtain v w' where r: "?r = (Val v, w')" "vs_state v = JStr ''listening''"
    by (cases ?r; cases "fst ?r") auto
  from interruption_forges_state [OF r(1), of "''speaking''"] r(2) show ?thesis
    by (simp add: frame_of_def get_def) blast
qed

end
