(* ===== verification/Awf_Intent.thy ===== *)
theory Awf_Intent
  imports Awf_Authoring Awf_Speech
begin

text \<open>
  What an utterance is taken to mean: the patterns of the intent router and its classification
  (cognition/router.py), the dispatch to runs, drafts and memory (ops/intent.py), and the voice turn that
  is submitted as text (ops/voice.py).
\<close>

section \<open>Regular expressions as Python matches them\<close>

text \<open>
  The constructs that the patterns use: literal text, the repetition of a character class, at least so many
  times and as often as possible, sequence, ordered choice, optional parts, numbered groups and \<open>$\<close>.
  Literals and classes are matched under re.IGNORECASE, on ASCII text.
\<close>

datatype rx =
    Lit string
  | Many nat "char \<Rightarrow> bool"
  | Cat rx rx
  | Or rx rx
  | Maybe rx
  | Group nat rx
  | AtEnd

type_synonym groups = "(nat \<times> string) list"

text \<open>The matches of a prefix of s, with what is left of s, in the order in which backtracking tries them.\<close>

primrec matches :: "rx \<Rightarrow> string \<times> groups \<Rightarrow> (string \<times> groups) list" where
  "matches (Lit l) = (\<lambda>(s, g). if lower (take (length l) s) = lower l then [(drop (length l) s, g)] else [])"
| "matches (Many k P) = (\<lambda>(s, g). map (\<lambda>i. (drop i s, g)) (rev [k..<Suc (length (takeWhile P s))]))"
| "matches (Cat a b) = (\<lambda>m. concat (map (matches b) (matches a m)))"
| "matches (Or a b) = (\<lambda>m. matches a m @ matches b m)"
| "matches (Maybe a) = (\<lambda>m. matches a m @ [m])"
| "matches (Group i a) = (\<lambda>(s, g). map (\<lambda>(s', g'). (s', (i, take (length s - length s') s) # g')) (matches a (s, g)))"
| "matches AtEnd = (\<lambda>(s, g). if s = [] \<or> s = nl then [(s, g)] else [])"

text \<open>re.match: the groups of the first match.\<close>

definition re_match :: "rx \<Rightarrow> string \<Rightarrow> groups option" where
  "re_match r s = (case matches r (s, []) of [] \<Rightarrow> None | (_, g) # _ \<Rightarrow> Some g)"

text \<open>What the search looks for: r takes the text s and leaves u.\<close>

inductive spans :: "rx \<Rightarrow> string \<Rightarrow> string \<Rightarrow> bool" where
  lit: "lower t = lower l \<Longrightarrow> spans (Lit l) (t @ u) u"
| many: "k \<le> length t \<Longrightarrow> list_all P t \<Longrightarrow> spans (Many k P) (t @ u) u"
| cat: "spans a s t \<Longrightarrow> spans b t u \<Longrightarrow> spans (Cat a b) s u"
| left: "spans a s u \<Longrightarrow> spans (Or a b) s u"
| right: "spans b s u \<Longrightarrow> spans (Or a b) s u"
| taken: "spans a s u \<Longrightarrow> spans (Maybe a) s u"
| skipped: "spans (Maybe a) s s"
| group: "spans a s u \<Longrightarrow> spans (Group i a) s u"
| at_end: "s = [] \<or> s = nl \<Longrightarrow> spans AtEnd s s"

inductive_simps spans_simps:
  "spans (Lit l) s u" "spans (Many k P) s u" "spans (Cat a b) s u" "spans (Or a b) s u" "spans (Maybe a) s u"
  "spans (Group i a) s u" "spans AtEnd s u"

section \<open>The patterns\<close>

definition not_newline :: "char \<Rightarrow> bool" where "not_newline c = (c \<noteq> CHR 0x0A)"

definition ref_char :: "char \<Rightarrow> bool" where
  "ref_char c = (is_word c \<or> c \<in> {CHR ''-'', CHR ''.'', CHR ''@''})"

definition spaces :: rx where "spaces = Many 1 is_space"

definition words_of :: "string list \<Rightarrow> rx" where
  "words_of ws = (case ws of [] \<Rightarrow> Lit [] | u # us \<Rightarrow> fold (\<lambda>v r. Cat r (Cat spaces (Lit v))) us (Lit u))"

primrec any_of :: "rx \<Rightarrow> rx list \<Rightarrow> rx" where
  "any_of r [] = r"
| "any_of r (q # qs) = Or r (any_of q qs)"

definition run_pattern :: rx where
  "run_pattern =
     Cat (any_of (words_of [''run'', ''workflow''])
            [words_of [''start'', ''workflow''], words_of [''execute'', ''workflow''], Lit ''run''])
    (Cat spaces
    (Cat (Group 1 (Many 1 ref_char))
    (Cat (Maybe (Cat spaces (Cat (any_of (words_of [''with'', ''objective'']) [Lit ''objective'', Lit ''for''])
                (Cat spaces (Group 2 (Many 1 not_newline))))))
         AtEnd)))"

definition draft_pattern :: rx where
  "draft_pattern =
     Cat (any_of (words_of [''draft'', ''workflow''])
            [words_of [''create'', ''workflow''], words_of [''author'', ''workflow''], words_of [''make'', ''workflow''],
             words_of [''author'', ''draft'']])
    (Cat (Maybe (Cat spaces (Cat (Maybe (any_of (Lit ''for'') [Lit ''to'', Lit ''called'']))
                (Cat (Many 0 is_space) (Group 1 (Many 1 not_newline))))))
         AtEnd)"

definition memory_pattern :: rx where
  "memory_pattern =
     Cat (any_of (words_of [''remember'', ''that''])
            [Lit ''remember'', words_of [''note'', ''that''], words_of [''save'', ''memory''], words_of [''store'', ''memory'']])
    (Cat spaces (Cat (Group 1 (Many 1 not_newline)) AtEnd))"

section \<open>Classification (cognition/router.py)\<close>

record classified =
  cl_intent :: string
  cl_target :: "string option"
  cl_payload :: obj
  cl_confidence :: rat
  cl_source :: string
  cl_text :: string

definition canonical_intents :: "string list" where
  "canonical_intents = [''answer'', ''run_workflow'', ''draft_workflow'', ''propose_memory'']"

definition intent_router_schema :: json where
  "intent_router_schema = JObj
     [(''type'', JStr ''object''), (''additionalProperties'', JBool False),
      (''required'', JList [JStr ''intent'', JStr ''confidence'']),
      (''properties'', JObj
        [(''intent'', JObj [(''type'', JStr ''string''), (''enum'', JList (map JStr canonical_intents))]),
         (''target_ref'', JObj [(''type'', JList [JStr ''string'', JStr ''null''])]),
         (''payload'', JObj [(''type'', JStr ''object'')]),
         (''confidence'', JObj [(''type'', JStr ''number'')]),
         (''reasoning'', JObj [(''type'', JStr ''string'')])])]"

text \<open>An intent that a pattern recognised.\<close>

definition recognised :: "string \<Rightarrow> string option \<Rightarrow> obj \<Rightarrow> string \<Rightarrow> classified" where
  "recognised intent target payload trimmed = \<lparr>cl_intent = intent, cl_target = target, cl_payload = payload,
     cl_confidence = 95 / 100, cl_source = ''deterministic'', cl_text = trimmed\<rparr>"

text \<open>m.group(i).strip() if m.group(i) else v0; a group that took no part in the match is None.\<close>

definition group_or :: "nat \<Rightarrow> string \<Rightarrow> groups \<Rightarrow> string" where
  "group_or i v0 g = (case map_of g i of Some (c # t) \<Rightarrow> strip (c # t) | _ \<Rightarrow> v0)"

definition no_workflow_names :: "string list" where
  "no_workflow_names = [''through'', ''by'', ''away'', ''out'', ''over'']"

definition is_workflow_name :: "string \<Rightarrow> bool" where
  "is_workflow_name r = (\<not> list_ex (\<lambda>x. ends_with x (lower r)) [''.py'', ''.sh'', ''.md'', ''.txt''] \<and>
     lower r \<notin> set no_workflow_names)"

definition match_run :: "string \<Rightarrow> classified option" where
  "match_run trimmed = (case re_match run_pattern trimmed of
       None \<Rightarrow> None
     | Some g \<Rightarrow>
         (let r = group_or 1 [] g; objective = group_or 2 [] g in
          if is_workflow_name r
          then Some (recognised ''run_workflow'' (Some r)
                 [(''objective'', JStr (if objective = [] then ''Execute '' @ r else objective))] trimmed)
          else None))"

definition match_draft :: "string \<Rightarrow> classified option" where
  "match_draft trimmed = map_option
     (\<lambda>g. recognised ''draft_workflow'' None [(''objective'', JStr (group_or 1 trimmed g))] trimmed)
     (re_match draft_pattern trimmed)"

definition match_memory :: "string \<Rightarrow> classified option" where
  "match_memory trimmed = map_option
     (\<lambda>g. recognised ''propose_memory'' None [(''fact'', JStr (group_or 1 [] g))] trimmed)
     (re_match memory_pattern trimmed)"

definition match_deterministic_pattern :: "string \<Rightarrow> classified option" where
  "match_deterministic_pattern text =
     (let trimmed = strip text in
      case match_run trimmed of Some c \<Rightarrow> Some c
      | None \<Rightarrow> (case match_draft trimmed of Some c \<Rightarrow> Some c | None \<Rightarrow> match_memory trimmed))"

text \<open>The call f(a1, ..., an, ...) of a function that takes no more than so many positional arguments.\<close>

definition positional :: "nat \<Rightarrow> nat \<Rightarrow> string \<Rightarrow> ('w, 'a) act \<Rightarrow> ('w, 'a) act" where
  "positional takes given f body =
     (if takes < given
      then throw ''TypeError'' (f @ ''() takes '' @ nat_str takes @ '' positional arguments but '' @ nat_str given @ '' were given'')
      else body)"

definition router_segments :: "string \<Rightarrow> segment list" where
  "router_segments text =
     [\<lparr>sg_authority = ''application'', sg_content = ''instruction'', sg_trusted = True,
        sg_text = ''You are the AWF conversational intent router. Classify the user input into exactly one of four intents:'' @ nl @
          ''- '' @ quoted ''run_workflow'' @ '': if the operator asks to execute, start, or run a workflow by name or description.'' @ nl @
          ''- '' @ quoted ''draft_workflow'' @ '': if the operator asks to create, author, or design a new workflow.'' @ nl @
          ''- '' @ quoted ''propose_memory'' @ '': if the operator asks to remember, note, or save a persistent fact or preference.'' @ nl @
          ''- '' @ quoted ''answer'' @ '': for conversational questions, system queries, advice, or general chat.'' @ nl @ nl @
          ''Return a structured JSON object matching the schema.''\<rparr>,
      \<lparr>sg_authority = ''user'', sg_content = ''input'', sg_trusted = False, sg_text = text\<rparr>]"

text \<open>A field that the schema allows to be text or null.\<close>

definition nullable_text :: "json \<Rightarrow> string option result" where
  "nullable_text v = (case v of JNull \<Rightarrow> Inr None | _ \<Rightarrow> andThen (as_text v) (\<lambda>s. Inr (Some s)))"

definition read_classification :: "string \<Rightarrow> json \<Rightarrow> classified result" where
  "read_classification text v =
     andThen (as_dict v) (\<lambda>data.
     andThen (nullable_text (get ''target_ref'' data)) (\<lambda>target.
     andThen (as_dict (or_else (get ''payload'' data) (JObj []))) (\<lambda>payload.
     case py_float (get_or ''confidence'' (JFloat (8 / 10)) data) of
       None \<Rightarrow> fail ''TypeError'' ''float() argument must be a string or a real number''
     | Some confidence \<Rightarrow>
         Inr \<lparr>cl_intent = (case get ''intent'' data of JStr i \<Rightarrow> if i \<in> set canonical_intents then i else ''answer'' | _ \<Rightarrow> ''answer''),
              cl_target = target, cl_payload = payload, cl_confidence = confidence, cl_source = ''model'', cl_text = text\<rparr>)))"

text \<open>
  The call of the gateway passes the schema as a third positional argument, while complete_structured
  takes two and everything else by name.
\<close>

definition classify_with_model :: "'x desk \<Rightarrow> string \<Rightarrow> string \<Rightarrow> ('x, classified) op" where
  "classify_with_model D text profile_ref =
     (let (name, version) = partition_at (CHR ''@'') profile_ref in
      bindE (resolve_registry_object (dk_files D) ''model-profiles'' name (if version = [] then ''1.0.0'' else version)) (\<lambda>(p, _).
      bindE (load_model_profile (dk_files D) p) (\<lambda>profile.
      bindE (positional 2 3 ''complete_structured''
               (complete_structured D \<lparr>has_conn = True, secret_key = None, ctx_run = None, ctx_step = None,
                  ctx_actor = ''intent-router'', ctx_allowlist = None\<rparr> profile (chat_of (router_segments text))
                  ''intent_classification'' intent_router_schema)) (\<lambda>data.
        liftR (read_classification text data)))))"

definition fallback :: "string \<Rightarrow> classified" where
  "fallback trimmed = \<lparr>cl_intent = ''answer'', cl_target = None, cl_payload = [], cl_confidence = 5 / 10,
     cl_source = ''fallback'', cl_text = trimmed\<rparr>"

definition nothing_said :: classified where
  "nothing_said = \<lparr>cl_intent = ''answer'', cl_target = None, cl_payload = [], cl_confidence = 1,
     cl_source = ''deterministic'', cl_text = []\<rparr>"

definition resident_mind_ref :: string where "resident_mind_ref = ''resident-mind@1.0.0''"

definition classify_intent :: "'x desk \<Rightarrow> string \<Rightarrow> ('x, classified) op" where
  "classify_intent D text =
     (let trimmed = strip text in
      if trimmed = [] then ret nothing_said
      else case match_deterministic_pattern trimmed of
        Some c \<Rightarrow> ret c
      | None \<Rightarrow> catchE (classify_with_model D trimmed resident_mind_ref) (\<lambda>_. ret (fallback trimmed)))"

section \<open>Dispatch (ops/intent.py)\<close>

definition op_intent_classify :: "'x desk \<Rightarrow> string \<Rightarrow> ('x, classified) op" where
  "op_intent_classify D text = classify_intent D text"

text \<open>What the dispatch replies; a key that its intent does not have is None.\<close>

record 'x dispatched =
  dp_intent :: string
  dp_class :: classified
  dp_workflow :: "string option"
  dp_run :: "obj option"
  dp_job :: "('x, unit) op option"
  dp_draft :: "proposal_view option"
  dp_fact :: "string option"
  dp_status :: "json option"
  dp_response :: json

definition demo_ref :: string where "demo_ref = ''demo@1.0.0''"

definition default_assistant_ref :: string where "default_assistant_ref = ''assistant-default@1.0.0''"

text \<open>op_run_start, with the job of its worker thread when it is asynchronous.\<close>

definition start_run :: "nat \<Rightarrow> 'x run_env \<Rightarrow> bool \<Rightarrow> string \<Rightarrow> obj \<Rightarrow> ('x, obj \<times> ('x, unit) op option) op" where
  "start_run depth R async flow_ref input =
     (if async then bindE (op_run_start_async depth R flow_ref input) (\<lambda>(reply, job). ret (reply, Some job))
      else bindE (op_run_start depth R flow_ref input) (\<lambda>reply. ret (reply, None)))"

definition started_reply :: "classified \<Rightarrow> string \<Rightarrow> obj \<Rightarrow> ('x, unit) op option \<Rightarrow> 'x dispatched" where
  "started_reply c flow_ref reply job =
     \<lparr>dp_intent = ''run_workflow'', dp_class = c, dp_workflow = Some flow_ref, dp_run = Some reply, dp_job = job,
      dp_draft = None, dp_fact = None, dp_status = None,
      dp_response = JStr (''Started workflow '' @ flow_ref @ '' (run '' @ py_str (get ''run_id'' reply) @ '').'')\<rparr>"

definition dispatch_run :: "nat \<Rightarrow> 'x run_env \<Rightarrow> bool \<Rightarrow> classified \<Rightarrow> string \<Rightarrow> ('x, 'x dispatched) op" where
  "dispatch_run depth R async c text =
     (let flow_ref = (case cl_target c of Some (x # t) \<Rightarrow> x # t | _ \<Rightarrow> demo_ref);
          objective = get_or ''objective'' (JStr text) (cl_payload c) in
      bindE (liftR (as_dict (or_else (get ''input_data'' (cl_payload c)) (JObj [(''objective'', objective)])))) (\<lambda>input.
      bindE (start_run depth R async flow_ref input) (\<lambda>(reply, job).
        ret (started_reply c flow_ref reply job))))"

definition dispatch_draft :: "'x desk \<Rightarrow> 'x run_env \<Rightarrow> classified \<Rightarrow> string \<Rightarrow> ('x, 'x dispatched) op" where
  "dispatch_draft D R c text =
     (let objective = py_str (or_else (get ''objective'' (cl_payload c)) (JStr text)) in
      bindE (liftR (nullable_text (get ''name'' (cl_payload c)))) (\<lambda>name.
      bindE (op_workflow_author_draft D objective name None default_author_profile (md_dumps (ru_memory R))) (\<lambda>v.
        ret \<lparr>dp_intent = ''draft_workflow'', dp_class = c, dp_workflow = None, dp_run = None, dp_job = None,
             dp_draft = Some v, dp_fact = None, dp_status = None,
             dp_response = JStr (''Created workflow draft proposal '' @ p_id (pv_row v) @ '' for: '' @ objective)\<rparr>)))"

definition dispatch_memory :: "classified \<Rightarrow> string \<Rightarrow> string option \<Rightarrow> ('x, 'x dispatched) op" where
  "dispatch_memory c text session =
     (let fact = py_str (or_else (get ''fact'' (cl_payload c)) (JStr text)) in
      seqE (case session of
          Some (x # t) \<Rightarrow> seqE (append_entry (x # t) ''operator'' (JObj [(''fact'', JStr fact)]) (Some fact)) (ret ())
        | _ \<Rightarrow> ret ())
      (ret \<lparr>dp_intent = ''propose_memory'', dp_class = c, dp_workflow = None, dp_run = None, dp_job = None,
            dp_draft = None, dp_fact = Some fact, dp_status = None,
            dp_response = JStr (''Saved fact to memory: '' @ fact)\<rparr>))"

text \<open>The keys that a turn adds to its input, for an identifier that is neither None nor empty.\<close>

definition optional_key :: "string \<Rightarrow> string option \<Rightarrow> obj" where
  "optional_key k v = (case v of Some (x # t) \<Rightarrow> [(k, JStr (x # t))] | _ \<Rightarrow> [])"

definition answer_text :: "obj \<Rightarrow> json" where
  "answer_text reply =
     (let said = (case get ''outcome'' reply of JObj outcome \<Rightarrow> get_or ''response_text'' (JStr []) outcome | _ \<Rightarrow> JStr []) in
      or_else (if truthy said then said else get_or ''response_text'' (JStr []) reply)
        (JStr (''Response generated by '' @ default_assistant_ref @ '' (run '' @ py_str (get ''run_id'' reply) @ '').'')))"

definition dispatch_answer ::
  "nat \<Rightarrow> 'x run_env \<Rightarrow> bool \<Rightarrow> classified \<Rightarrow> string \<Rightarrow> string option \<Rightarrow> string option \<Rightarrow> ('x, 'x dispatched) op" where
  "dispatch_answer depth R async c text session turn =
     bindE (start_run depth R async default_assistant_ref
              ((''objective'', JStr text) # optional_key ''voiceSessionId'' session @ optional_key ''turnId'' turn)) (\<lambda>(reply, job).
       ret \<lparr>dp_intent = ''answer'', dp_class = c, dp_workflow = Some default_assistant_ref, dp_run = Some reply, dp_job = job,
            dp_draft = None, dp_fact = None, dp_status = Some (get_or ''status'' (JStr ''RUNNING'') reply),
            dp_response = answer_text reply\<rparr>)"

definition op_intent_dispatch ::
  "nat \<Rightarrow> 'x desk \<Rightarrow> 'x run_env \<Rightarrow> bool \<Rightarrow> string \<Rightarrow> string option \<Rightarrow> string option \<Rightarrow> ('x, 'x dispatched) op" where
  "op_intent_dispatch depth D R async text session turn =
     bindE (classify_intent D text) (\<lambda>c.
       if cl_intent c = ''run_workflow'' then dispatch_run depth R async c text
       else if cl_intent c = ''draft_workflow'' then dispatch_draft D R c text
       else if cl_intent c = ''propose_memory'' then dispatch_memory c text session
       else dispatch_answer depth R async c text session turn)"

section \<open>A turn submitted as text (ops/voice.py)\<close>

definition chosen_voice :: "voice_profile \<Rightarrow> tts_candidate \<Rightarrow> obj" where
  "chosen_voice profile c =
     [(''voice_profile_ref'', JStr (vp_ref profile)), (''voice_id'', JStr (tc_voice c)), (''engine'', JStr (tc_engine c)),
      (''model'', JStr (tc_model c)), (''speed'', tc_speed c), (''privacy'', JObj [(''local_only'', JBool (vp_local_only profile))]),
      (''limits'', JObj [(''max_seconds_per_utterance'', JInt (vp_max_seconds profile))])]"

definition resolve_voice_profile :: "'x files \<Rightarrow> string option \<Rightarrow> ('x, voice_profile \<times> tts_candidate) op" where
  "resolve_voice_profile F profile_ref =
     (let r = (case profile_ref of Some (x # t) \<Rightarrow> x # t | _ \<Rightarrow> default_voice_profile_ref) in
      case split_ref r of
        None \<Rightarrow> core_error (''voice profile ref must be '' @ ref_form @ '', got '' @ str_repr r)
      | Some (name, version) \<Rightarrow>
          bindE (resolve_registry_object F ''voice-profiles'' name version) (\<lambda>(p, _).
          bindE (load_voice_profile F p) (\<lambda>profile. case enabled_voices_by_priority profile of
              [] \<Rightarrow> core_error (''voice profile '' @ quoted (vp_ref profile) @ '' has no enabled TTS candidates'')
            | c # _ \<Rightarrow> ret (profile, c))))"

definition voice_response_text :: "string \<Rightarrow> obj \<Rightarrow> string" where
  "voice_response_text flow_ref reply =
     (let finished = ''Workflow '' @ flow_ref @ '' finished with status '' @ py_str (get ''status'' reply) @
        '' (run '' @ py_str (get ''run_id'' reply) @ '').'' in
      case get ''outputs'' reply of
        JObj outputs \<Rightarrow> (case get ''response_text'' outputs of JStr s \<Rightarrow> s | _ \<Rightarrow> finished)
      | _ \<Rightarrow> finished)"

definition voice_workflow :: "'x desk \<Rightarrow> string \<Rightarrow> string option \<Rightarrow> ('x, string) op" where
  "voice_workflow D text flow_ref =
     (if flow_ref = None \<or> flow_ref = Some default_assistant_ref
      then bindE (classify_intent D text) (\<lambda>c. ret
             (if cl_intent c = ''run_workflow'' then (case cl_target c of Some (x # t) \<Rightarrow> x # t | _ \<Rightarrow> default_assistant_ref)
              else default_assistant_ref))
      else ret (the flow_ref))"

text \<open>The frames that bring a session into transcribing, from the state it is in; the state that is reached.\<close>

definition listen :: "string \<Rightarrow> json \<Rightarrow> string option \<Rightarrow> ('x, json) op" where
  "listen i state turn =
     (if state \<in> {JStr ''idle'', JStr ''armed''}
      then seqE (op_voice_session_event i ''vad.speech_started'' [] turn)
             (bindE (op_voice_session_event i ''vad.speech_stopped'' [] turn) (\<lambda>v. ret (get ''state'' v)))
      else if state = JStr ''listening''
      then bindE (op_voice_session_event i ''vad.speech_stopped'' [] turn) (\<lambda>v. ret (get ''state'' v))
      else ret state)"

definition hear :: "string \<Rightarrow> string \<Rightarrow> string option \<Rightarrow> ('x, unit) op" where
  "hear i text turn =
     bindE (current_voice_session i) (\<lambda>session.
     bindE (listen i (vs_state session) turn) (\<lambda>state.
       whenE (state = JStr ''transcribing'')
         (seqE (op_voice_session_event i ''stt.final'' [(''text'', JStr text)] turn) (ret ()))))"

text \<open>What the session is told of a run that has come back: the frame, then the entry of the reply.\<close>

definition answer_turn ::
  "string \<Rightarrow> string \<Rightarrow> obj \<Rightarrow> voice_profile \<times> tts_candidate \<Rightarrow> string option \<Rightarrow> ('x, string) op" where
  "answer_turn i flow_ref reply = (\<lambda>(profile, c) turn.
     let response = voice_response_text flow_ref reply in
     bindE (liftR (item ''run_id'' reply)) (\<lambda>run_id.
     seqE (op_voice_session_event i ''core.output_text''
             [(''run_id'', run_id), (''response_text'', JStr response)] turn)
     (seqE (append_assistant_response i response (vp_ref profile) (tc_voice c) turn run_id)
       (ret response))))"

definition submit_turn ::
  "nat \<Rightarrow> 'x files \<Rightarrow> 'x run_env \<Rightarrow> string \<Rightarrow> string \<Rightarrow> string \<Rightarrow> string option \<Rightarrow> string option \<Rightarrow> ('x, obj) op" where
  "submit_turn depth F R i text flow profile_ref turn =
     bindE (resolve_voice_profile F profile_ref) (\<lambda>(profile, c).
     seqE (hear i text turn) (
     seqE (op_voice_session_event i ''core.submitted'' [(''workflow_ref'', JStr flow)] turn) (
     seqE (append_operator_utterance i text turn) (
     bindE (op_run_start depth R flow
              [(''objective'', JStr text), (''voiceSessionId'', JStr i), (''turnId'', jopt turn)]) (\<lambda>reply.
     bindE (answer_turn i flow reply (profile, c) turn) (\<lambda>response.
       ret [(''voice_session_id'', JStr i), (''state'', JStr ''speaking''), (''recognized_text'', JStr text),
            (''response_text'', JStr response), (''run'', JObj reply), (''voice'', JObj (chosen_voice profile c))]))))))"

definition op_voice_submit_text ::
  "nat \<Rightarrow> 'x desk \<Rightarrow> 'x run_env \<Rightarrow> string \<Rightarrow> string \<Rightarrow> string option \<Rightarrow> string option \<Rightarrow> string option \<Rightarrow> ('x, obj) op" where
  "op_voice_submit_text depth D R i text flow_ref profile_ref turn =
     bindE (voice_workflow D text flow_ref) (\<lambda>flow.
     if strip text = [] then core_error ''voice.submitText requires non-empty text''
     else submit_turn depth (dk_files D) R i text flow profile_ref turn)"

section \<open>The search is exact\<close>

lemma map_lower_length: "lower s = lower t \<Longrightarrow> length s = length t"
  unfolding lower_def by (metis length_map)

lemma takeWhile_bound: "i \<le> length (takeWhile P s) \<longleftrightarrow> i \<le> length s \<and> list_all P (take i s)"
proof
  assume i: "i \<le> length (takeWhile P s)"
  then have "take i s = take i (takeWhile P s)"
    by (metis min.absorb1 take_take takeWhile_eq_take)
  with i show "i \<le> length s \<and> list_all P (take i s)"
    using length_takeWhile_le [of P s] by (auto simp: list_all_iff dest!: in_set_takeD dest: set_takeWhileD)
next
  assume i: "i \<le> length s \<and> list_all P (take i s)"
  have "takeWhile P s = take i s @ takeWhile P (drop i s)"
    using i by (metis append_take_drop_id list_all_iff takeWhile_append2)
  then show "i \<le> length (takeWhile P s)" using i by simp
qed

lemma search_is_exact: "(\<exists>g'. (u, g') \<in> set (matches r (s, g))) \<longleftrightarrow> spans r s u"
proof (induction r arbitrary: s u g)
  case (Lit l)
  have "spans (Lit l) s u \<longleftrightarrow> lower (take (length l) s) = lower l \<and> u = drop (length l) s"
  proof
    assume "spans (Lit l) s u"
    then obtain t where "lower t = lower l" "s = t @ u" unfolding spans_simps by blast
    with map_lower_length [of t l] show "lower (take (length l) s) = lower l \<and> u = drop (length l) s" by simp
  qed (metis append_take_drop_id spans.lit)
  then show ?case by auto
next
  case (Many k P)
  have "spans (Many k P) s u \<longleftrightarrow> (\<exists>i. k \<le> i \<and> i \<le> length (takeWhile P s) \<and> u = drop i s)"
  proof
    assume "spans (Many k P) s u"
    then obtain t where "k \<le> length t" "list_all P t" "s = t @ u" unfolding spans_simps by blast
    then show "\<exists>i. k \<le> i \<and> i \<le> length (takeWhile P s) \<and> u = drop i s"
      unfolding takeWhile_bound by (intro exI [of _ "length t"]) simp
  next
    assume "\<exists>i. k \<le> i \<and> i \<le> length (takeWhile P s) \<and> u = drop i s"
    then obtain i where i: "k \<le> i" "i \<le> length s" "list_all P (take i s)" "u = drop i s"
      unfolding takeWhile_bound by blast
    then show "spans (Many k P) s u" unfolding spans_simps by (intro exI [of _ "take i s"]) simp
  qed
  moreover have "(\<exists>g'. (u, g') \<in> set (matches (Many k P) (s, g))) \<longleftrightarrow>
      (\<exists>i. k \<le> i \<and> i \<le> length (takeWhile P s) \<and> u = drop i s)"
    by (simp del: upt_Suc add: image_iff) auto
  ultimately show ?case by blast
next
  case (Cat a b)
  have "(\<exists>g'. (u, g') \<in> set (matches (Cat a b) (s, g))) \<longleftrightarrow>
      (\<exists>t h. (t, h) \<in> set (matches a (s, g)) \<and> (\<exists>g'. (u, g') \<in> set (matches b (t, h))))"
    by (simp add: Bex_def split_paired_Ex) blast
  then show ?case unfolding Cat.IH(2) spans_simps using Cat.IH(1) by blast
next
  case (Maybe a)
  have "(\<exists>g'. (u, g') \<in> set (matches (Maybe a) (s, g))) \<longleftrightarrow> u = s \<or> (\<exists>g'. (u, g') \<in> set (matches a (s, g)))"
    by auto
  then show ?case unfolding Maybe.IH spans_simps by blast
next
  case (Group i a)
  have "(\<exists>g'. (u, g') \<in> set (matches (Group i a) (s, g))) \<longleftrightarrow> (\<exists>g'. (u, g') \<in> set (matches a (s, g)))"
    by (force simp: image_iff)
  then show ?case unfolding Group.IH spans_simps .
next
  case (Or a b)
  have "(\<exists>g'. (u, g') \<in> set (matches (Or a b) (s, g))) \<longleftrightarrow>
      (\<exists>g'. (u, g') \<in> set (matches a (s, g))) \<or> (\<exists>g'. (u, g') \<in> set (matches b (s, g)))"
    by auto
  then show ?case unfolding Or.IH spans_simps .
qed (auto simp: spans_simps)

lemma re_match_iff: "re_match r s \<noteq> None \<longleftrightarrow> (\<exists>u. spans r s u)"
  unfolding search_is_exact [of _ r s "[]", symmetric]
  by (cases "matches r (s, [])") (auto simp: re_match_def)

section \<open>First matches\<close>

definition finds :: "rx \<Rightarrow> string \<times> groups \<Rightarrow> string \<times> groups \<Rightarrow> bool" where
  "finds r m x = (\<exists>xs. matches r m = x # xs)"

lemma re_match_finds: "finds r (s, []) (u, g) \<Longrightarrow> re_match r s = Some g"
  by (auto simp: finds_def re_match_def)

lemma matches_none: "matches r (s, g) = [] \<longleftrightarrow> (\<forall>u. \<not> spans r s u)"
  unfolding search_is_exact [of _ r s g, symmetric] by (cases "matches r (s, g)") auto

lemma finds_lit: "lower t = lower l \<Longrightarrow> finds (Lit l) (t @ u, g) (u, g)"
  by (simp add: finds_def map_lower_length [of t l, symmetric])

lemma finds_lit_end: "lower t = lower l \<Longrightarrow> finds (Lit l) (t, g) ([], g)"
  using finds_lit [of t l "[]"] by simp

lemma finds_many:
  assumes "k \<le> length (takeWhile P s)"
  shows "finds (Many k P) (s, g) (dropWhile P s, g)"
  using assms by (simp add: finds_def dropWhile_eq_drop)

lemma finds_many_all: "list_all P s \<Longrightarrow> k \<le> length s \<Longrightarrow> finds (Many k P) (s, g) ([], g)"
  using finds_many [of k P s g] by (simp add: list_all_iff takeWhile_eq_all_conv [THEN iffD2] dropWhile_eq_Nil_conv [THEN iffD2])

lemma finds_cat: "finds a m y \<Longrightarrow> finds b y x \<Longrightarrow> finds (Cat a b) m x"
  by (auto simp: finds_def)

lemma finds_left: "finds a m x \<Longrightarrow> finds (Or a b) m x"
  by (auto simp: finds_def)

lemma finds_right: "matches a m = [] \<Longrightarrow> finds b m x \<Longrightarrow> finds (Or a b) m x"
  by (auto simp: finds_def)

lemma finds_taken: "finds a m x \<Longrightarrow> finds (Maybe a) m x"
  by (auto simp: finds_def)

lemma finds_skipped: "matches a m = [] \<Longrightarrow> finds (Maybe a) m m"
  by (simp add: finds_def)

lemma finds_group: "finds a (s, g) (u, h) \<Longrightarrow> finds (Group i a) (s, g) (u, (i, take (length s - length u) s) # h)"
  by (auto simp: finds_def)

lemma finds_end: "finds AtEnd ([], g) ([], g)"
  by (simp add: finds_def)

lemma finds_backtrack:
  assumes "\<And>y. y \<in> set (matches a m) \<Longrightarrow> matches c y = []" "finds (Cat b c) m x"
  shows "finds (Cat (Or a b) c) m x"
proof -
  have "concat (map (matches c) (matches a m)) = []" using assms(1) by simp
  then show ?thesis using assms(2) by (simp add: finds_def del: concat_eq_Nil_conv)
qed

lemma ref_not_space: "ref_char c \<Longrightarrow> \<not> is_space c"
  by (auto simp: ref_char_def is_space_def is_word_def is_digit_def)

section \<open>What the patterns find\<close>

lemma spans_suffix: "spans r s u \<Longrightarrow> suffix u s"
  by (induction rule: spans.induct) (auto simp: suffix_def)

lemma not_spaces: "s = [] \<or> \<not> is_space (hd s) \<Longrightarrow> matches (Cat spaces c) (s, g) = []"
  by (cases s) (auto simp: spaces_def)

lemma takeWhile_one: "\<not> is_space (hd s) \<or> s = [] \<Longrightarrow> takeWhile is_space s = []"
  by (cases s) auto

lemma finds_space:
  assumes "s \<noteq> []" "\<not> is_space (hd s)"
  shows "finds spaces (CHR '' '' # s, g) (s, g)"
proof -
  have "is_space CHR '' ''" by (simp add: is_space_def)
  then show ?thesis using takeWhile_one [of s] assms
    by (cases s) (simp_all add: spaces_def finds_def)
qed

text \<open>The part of the run pattern after its verb, on a reference that ends the text.\<close>

definition run_rest :: rx where
  "run_rest = Cat spaces
    (Cat (Group 1 (Many 1 ref_char))
    (Cat (Maybe (Cat spaces (Cat (any_of (words_of [''with'', ''objective'']) [Lit ''objective'', Lit ''for''])
                (Cat spaces (Group 2 (Many 1 not_newline))))))
         AtEnd))"

lemma finds_run_rest:
  assumes "r \<noteq> []" "list_all ref_char r"
  shows "finds run_rest (CHR '' '' # r, []) ([], [(1, r)])"
proof -
  have "\<not> is_space (hd r)" using assms ref_not_space by (cases r) auto
  then have sp: "finds spaces (CHR '' '' # r, []) (r, [])" using assms(1) by (rule finds_space [rotated])
  have "1 \<le> length r" using assms(1) by (cases r) auto
  from finds_group [OF finds_many_all [OF assms(2) this], of 1 "[]"]
  have gr: "finds (Group 1 (Many 1 ref_char)) (r, []) ([], [(1, r)])" by simp
  have tl: "finds (Maybe (Cat spaces c)) ([], g) ([], g)" for c g
    by (rule finds_skipped, rule not_spaces) simp
  show ?thesis unfolding run_rest_def by (intro finds_cat [OF sp] finds_cat [OF gr] finds_cat [OF tl] finds_end)
qed

lemma dead_after_verb:
  assumes "list_all ref_char r" "spans v (s0 @ r) u" "length u \<le> length r"
  shows "matches run_rest (u, g) = []"
proof -
  from spans_suffix [OF assms(2)] obtain p where "s0 @ r = p @ u" by (auto simp: suffix_def)
  with assms(3) have "suffix u r" by (auto simp: append_eq_append_conv2 suffix_def)
  then have "set u \<subseteq> set r" by (auto simp: suffix_def)
  then have "u = [] \<or> \<not> is_space (hd u)" using assms(1) ref_not_space by (cases u) (auto simp: list_all_iff)
  then show ?thesis unfolding run_rest_def by (rule not_spaces)
qed

definition run_verbs :: "string list" where
  "run_verbs = [''run workflow'', ''start workflow'', ''execute workflow'', ''run'']"

lemma finds_verb:
  "finds (words_of [''run'', ''workflow'']) (''run workflow'' @ s, g) (s, g)"
  "finds (words_of [''start'', ''workflow'']) (''start workflow'' @ s, g) (s, g)"
  "finds (words_of [''execute'', ''workflow'']) (''execute workflow'' @ s, g) (s, g)"
  by (simp_all add: finds_def words_of_def spaces_def is_space_def)

lemma lower_letters:
  "lower_char CHR ''a'' = CHR ''a''" "lower_char CHR ''c'' = CHR ''c''" "lower_char CHR ''d'' = CHR ''d''"
  "lower_char CHR ''e'' = CHR ''e''" "lower_char CHR ''f'' = CHR ''f''" "lower_char CHR ''m'' = CHR ''m''"
  "lower_char CHR ''n'' = CHR ''n''" "lower_char CHR ''r'' = CHR ''r''" "lower_char CHR ''s'' = CHR ''s''"
  "lower_char CHR ''t'' = CHR ''t''"
  by (simp_all add: lower_char_def)

lemmas no_word = words_of_def lower_def lower_letters

lemma run_pattern_rest:
  "run_pattern = Cat (Or (words_of [''run'', ''workflow'']) (Or (words_of [''start'', ''workflow''])
      (Or (words_of [''execute'', ''workflow'']) (Lit ''run'')))) run_rest"
  by (simp add: run_pattern_def run_rest_def)

lemma run_spans_shorter: "spans (words_of [''run'', ''workflow'']) s u \<Longrightarrow> length u + 12 \<le> length s"
  by (auto simp: words_of_def spaces_def spans_simps dest!: map_lower_length)

lemma run_pattern_finds:
  assumes "verb \<in> set run_verbs" "r \<noteq> []" "list_all ref_char r"
  shows "re_match run_pattern (verb @ '' '' @ r) = Some [(1, r)]"
proof -
  note rest = finds_run_rest [OF assms(2,3)]
  have named: "finds run_pattern (''run workflow '' @ r, []) ([], [(1, r)])"
    unfolding run_pattern_rest using finds_cat [OF finds_left [OF finds_verb(1) [of "CHR '' '' # r" "[]"]] rest] by simp
  have started: "finds run_pattern (''start workflow '' @ r, []) ([], [(1, r)])"
  proof -
    have "finds (Or (words_of [''run'', ''workflow'']) (Or (words_of [''start'', ''workflow'']) c))
        (''start workflow'' @ CHR '' '' # r, []) (CHR '' '' # r, [])" for c
      by (rule finds_right, simp add: no_word, rule finds_left, rule finds_verb)
    from finds_cat [OF this rest] show ?thesis unfolding run_pattern_rest by simp
  qed
  have executed: "finds run_pattern (''execute workflow '' @ r, []) ([], [(1, r)])"
  proof -
    have "finds (Or (words_of [''run'', ''workflow'']) (Or (words_of [''start'', ''workflow'']) (Or (words_of [''execute'', ''workflow'']) c)))
        (''execute workflow'' @ CHR '' '' # r, []) (CHR '' '' # r, [])" for c
      by (rule finds_right, simp add: no_word, rule finds_right, simp add: no_word,
          rule finds_left, rule finds_verb)
    from finds_cat [OF this rest] show ?thesis unfolding run_pattern_rest by simp
  qed
  have bare: "finds run_pattern (''run '' @ r, []) ([], [(1, r)])"
  proof -
    have dead: "matches run_rest y = []" if "y \<in> set (matches (words_of [''run'', ''workflow'']) (''run '' @ r, []))" for y
    proof -
      obtain u g where y: "y = (u, g)" by (cases y)
      with that have sp: "spans (words_of [''run'', ''workflow'']) (''run '' @ r) u"
        using search_is_exact by blast
      from run_spans_shorter [OF sp] have "length u \<le> length r" by simp
      from dead_after_verb [OF assms(3) sp this] y show ?thesis by simp
    qed
    have "finds (Or (words_of [''start'', ''workflow'']) (Or (words_of [''execute'', ''workflow'']) (Lit ''run'')))
        (''run'' @ CHR '' '' # r, []) (CHR '' '' # r, [])"
      by (rule finds_right, simp add: no_word, rule finds_right, simp add: no_word,
          rule finds_lit, simp)
    from finds_cat [OF this rest] have "finds (Cat (Or (words_of [''start'', ''workflow''])
        (Or (words_of [''execute'', ''workflow'']) (Lit ''run''))) run_rest) (''run '' @ r, []) ([], [(1, r)])" by simp
    from finds_backtrack [OF dead this] show ?thesis unfolding run_pattern_rest .
  qed
  show ?thesis using assms(1) named started executed bare by (auto simp: run_verbs_def dest!: re_match_finds)
qed

lemma strip_asked: "verb \<in> set run_verbs \<Longrightarrow> r \<noteq> [] \<Longrightarrow> list_all ref_char r \<Longrightarrow> strip (verb @ '' '' @ r) = verb @ '' '' @ r"
  using ref_not_space [of "last r"]
  by (intro strip_fixed) (auto simp: run_verbs_def is_space_def list_all_iff)

lemma strip_ref: "r \<noteq> [] \<Longrightarrow> list_all ref_char r \<Longrightarrow> strip r = r"
  using ref_not_space by (intro strip_fixed) (auto simp: list_all_iff)

lemma asked_is_recognised:
  assumes "verb \<in> set run_verbs" "r \<noteq> []" "list_all ref_char r" "is_workflow_name r"
  shows "match_deterministic_pattern (verb @ '' '' @ r) =
    Some (recognised ''run_workflow'' (Some r) [(''objective'', JStr (''Execute '' @ r))] (verb @ '' '' @ r))"
proof -
  have "group_or 1 [] [(1, r)] = r" "group_or 2 [] [(1, r)] = []"
    using assms(2) strip_ref [OF assms(2,3)] by (cases r; simp add: group_or_def)+
  then have "match_run (verb @ '' '' @ r) =
      Some (recognised ''run_workflow'' (Some r) [(''objective'', JStr (''Execute '' @ r))] (verb @ '' '' @ r))"
    using run_pattern_finds [OF assms(1-3)] assms(4) by (simp add: match_run_def Let_def)
  then show ?thesis
    unfolding match_deterministic_pattern_def Let_def strip_asked [OF assms(1-3)] by simp
qed

lemma classify_recognised:
  assumes "match_deterministic_pattern (strip text) = Some c" "strip text \<noteq> []"
  shows "classify_intent D text = ret c"
  using assms by (simp add: classify_intent_def Let_def)

lemma classify_cases:
  assumes "classify_intent D text w = (r, w')"
  shows "(\<forall>e. r \<noteq> Exn e) \<and> (\<forall>c. r = Val c \<longrightarrow>
     c = (if strip text = [] then nothing_said
          else case match_deterministic_pattern (strip text) of Some c \<Rightarrow> c | None \<Rightarrow> fallback (strip text)))"
proof -
  have model: "classify_with_model D t p v \<noteq> (Val c, v')" for t p v c v'
    by (auto simp: classify_with_model_def positional_def bind_Val throw_def raise_def split: prod.splits)
  show ?thesis
    using assms model
    by (auto simp: classify_intent_def Let_def catchE_def attempt_def bindE_def ret_def split: if_splits option.splits res.splits prod.splits)
qed

text \<open>The run pattern does not take a text that begins with the verb create.\<close>

lemma run_dead: "match_run (''create'' @ s) = None"
proof -
  have "matches run_pattern (''create'' @ s, []) = []"
    by (simp add: run_pattern_rest no_word)
  then show ?thesis by (simp add: match_run_def re_match_def)
qed

definition connectives :: "string list" where "connectives = [''for'', ''to'', ''called'']"

lemma finds_connective:
  assumes "k \<in> set connectives"
  shows "finds (any_of (Lit ''for'') [Lit ''to'', Lit ''called'']) (k @ s, g) (s, g)"
  using assms by (auto simp: connectives_def finds_def no_word)

lemma draft_finds:
  assumes "k \<in> set connectives" "s \<noteq> []" "list_all not_newline s" "\<not> is_space (last s)"
  shows "re_match draft_pattern (''create workflow '' @ k @ s) = Some [(1, dropWhile is_space s)]"
proof -
  let ?d = "dropWhile is_space s"
  have d: "?d \<noteq> []" using assms(2,4) by (metis dropWhile_eq_Nil_conv last_in_set)
  have "set ?d \<subseteq> set s" by (meson set_dropWhileD subsetI)
  then have all: "list_all not_newline ?d" using assms(3) by (auto simp: list_all_iff)
  have "1 \<le> length ?d" using d by (cases ?d) auto
  from finds_group [OF finds_many_all [OF all this], of 1 "[]"]
  have gr: "finds (Group 1 (Many 1 not_newline)) (?d, []) ([], [(1, ?d)])" by simp
  have sp: "finds (Many 0 is_space) (s, []) (?d, [])" by (rule finds_many) simp
  have "k @ s \<noteq> []" "\<not> is_space (hd (k @ s))" using assms(1) by (auto simp: connectives_def is_space_def)
  note one = finds_space [OF this, of "[]"]
  note tail = finds_taken [OF finds_cat [OF one finds_cat [OF finds_taken [OF finds_connective [OF assms(1), of s "[]"]] finds_cat [OF sp gr]]]]
  have verb: "finds (any_of (words_of [''draft'', ''workflow''])
            [words_of [''create'', ''workflow''], words_of [''author'', ''workflow''], words_of [''make'', ''workflow''],
             words_of [''author'', ''draft'']]) (''create workflow '' @ k @ s, []) (CHR '' '' # k @ s, [])"
    by (simp add: finds_def words_of_def spaces_def is_space_def lower_def lower_letters)
  show ?thesis unfolding draft_pattern_def
    by (rule re_match_finds, rule finds_cat [OF verb], rule finds_cat [OF tail], rule finds_end)
qed

section \<open>Properties\<close>

text \<open>
  C22. What the operator asks to run is what is run: an utterance that consists of one of the verbs and the
  reference of a workflow starts exactly that workflow, with the objective to execute it, whatever the
  model gateway, the registry or the session are; the reply shows the run that op_run_start reports.
\<close>

theorem asked_workflow_runs:
  assumes "verb \<in> set run_verbs" "r \<noteq> []" "list_all ref_char r" "is_workflow_name r"
  shows "op_intent_dispatch depth D R async (verb @ '' '' @ r) session turn =
    bindE (start_run depth R async r [(''objective'', JStr (''Execute '' @ r))]) (\<lambda>(reply, job).
      ret (started_reply (recognised ''run_workflow'' (Some r) [(''objective'', JStr (''Execute '' @ r))] (verb @ '' '' @ r))
             r reply job))"
proof -
  let ?text = "verb @ '' '' @ r" and ?order = "[(''objective'', JStr (''Execute '' @ r))]"
  have t: "strip ?text = ?text" "?text \<noteq> []" using strip_asked [OF assms(1-3)] by simp_all
  have c: "classify_intent D ?text = ret (recognised ''run_workflow'' (Some r) ?order ?text)"
    by (rule classify_recognised) (use asked_is_recognised [OF assms(1-4)] t in simp_all)
  have "or_else (get ''input_data'' ?order) (JObj [(''objective'', get_or ''objective'' (JStr ?text) ?order)]) = JObj ?order"
    by (simp add: or_else_def get_def get_or_def)
  moreover obtain x y where "r = x # y" using assms(2) by (cases r) auto
  ultimately show ?thesis
    unfolding op_intent_dispatch_def c
    by (simp add: recognised_def dispatch_run_def Let_def as_dict_def liftR_def bindE_def ret_def fun_eq_iff)
qed

text \<open>
  The model never classifies anything.  The router calls complete_structured with the schema as a
  third positional argument, which the function does not take; the TypeError is swallowed with every other
  exception.  So a classification never raises, is a function of the text alone, never has the source
  model, and takes every utterance that no pattern recognises for an answer.
\<close>

theorem model_never_classifies:
  assumes "classify_intent D text w = (r, w')"
  shows "(\<forall>e. r \<noteq> Exn e) \<and> (\<forall>c. r = Val c \<longrightarrow> cl_source c \<noteq> ''model'' \<and>
    (strip text \<noteq> [] \<and> match_deterministic_pattern (strip text) = None \<longrightarrow> c = fallback (strip text)))"
proof -
  have "cl_source c \<noteq> ''model''" if "match_deterministic_pattern t = Some c" for t c
    using that by (auto simp: match_deterministic_pattern_def match_run_def match_draft_def match_memory_def recognised_def Let_def
        split: option.splits if_splits)
  then show ?thesis
    using classify_cases [OF assms] by (auto simp: nothing_said_def fallback_def split: option.splits if_splits)
qed

text \<open>
  What the operator asks to remember is forgotten: without a voice session the dispatch replies that
  the fact was saved to memory and leaves the state as it was, down to the clock: there is no proposal, no
  session entry and no event.
\<close>

theorem remembering_saves_nothing:
  assumes "match_deterministic_pattern (strip text) = Some c" "cl_intent c = ''propose_memory''" "session = None \<or> session = Some []"
  shows "\<exists>d fact. op_intent_dispatch depth D R async text session turn w = (Val d, w) \<and>
    dp_fact d = Some fact \<and> dp_response d = JStr (''Saved fact to memory: '' @ fact)"
proof -
  have "strip text \<noteq> []"
  proof
    assume "strip text = []"
    moreover have "match_deterministic_pattern [] = None" by code_simp
    ultimately show False using assms(1) by simp
  qed
  from classify_recognised [OF assms(1) this, of D] assms(2,3) show ?thesis
    by (auto simp: op_intent_dispatch_def dispatch_memory_def Let_def bindE_def ret_def seqE_def)
qed

theorem remembering_saves_nothing_witness:
  "\<exists>d fact. op_intent_dispatch 3 D R False ''Remember that the build runs on Tuesdays'' None None w = (Val d, w) \<and>
    dp_fact d = Some fact \<and> dp_response d = JStr (''Saved fact to memory: '' @ fact)"
proof -
  have h: "match_deterministic_pattern (strip ''Remember that the build runs on Tuesdays'') =
      Some (recognised ''propose_memory'' None [(''fact'', JStr ''the build runs on Tuesdays'')] ''Remember that the build runs on Tuesdays'')"
    by code_simp
  show ?thesis by (rule remembering_saves_nothing [OF h]) (simp_all add: recognised_def)
qed

text \<open>
  C94. An objective loses its first letters: in \<open>create workflow ...\<close> the words for, to and called are
  taken away without a separator after them, so a description that only begins with their letters is
  recorded without these.
\<close>

theorem draft_loses_letters:
  assumes "k \<in> set connectives" "s \<noteq> []" "list_all not_newline s" "\<not> is_space (last s)"
  shows "match_deterministic_pattern (''create workflow '' @ k @ s) =
    Some (recognised ''draft_workflow'' None [(''objective'', JStr (strip s))] (''create workflow '' @ k @ s))"
proof -
  let ?d = "dropWhile is_space s"
  have d: "?d \<noteq> []" using assms(2,4) by (metis dropWhile_eq_Nil_conv last_in_set)
  have "last ?d = last s" using d by (metis dropWhile_eq_drop last_drop drop_eq_Nil2 linorder_not_le)
  then have "strip ?d = ?d" using d hd_dropWhile [OF d] assms(4) by (intro strip_fixed) auto
  moreover have "strip s = strip ?d" by (simp add: strip_def)
  ultimately have g: "group_or 1 x [(1, ?d)] = strip s" for x using d by (cases ?d) (simp_all add: group_or_def)
  have t: "strip (''create workflow '' @ k @ s) = ''create workflow '' @ k @ s"
    using assms(2,4) by (intro strip_fixed) (simp_all add: is_space_def)
  show ?thesis
    unfolding match_deterministic_pattern_def Let_def t
    using run_dead [of "'' workflow '' @ k @ s"] draft_finds [OF assms] g by (simp add: match_draft_def)
qed

theorem draft_loses_letters_witness:
  "match_deterministic_pattern ''create workflow tokenize logs'' =
    Some (recognised ''draft_workflow'' None [(''objective'', JStr ''kenize logs'')] ''create workflow tokenize logs'')"
proof -
  have h: "''to'' \<in> set connectives" "''kenize logs'' \<noteq> []" "list_all not_newline ''kenize logs''" "\<not> is_space (last ''kenize logs'')"
    by code_simp+
  have "strip ''kenize logs'' = ''kenize logs''" by code_simp
  then show ?thesis using draft_loses_letters [OF h] by simp
qed

section \<open>The end of a turn\<close>

lemma event_Val:
  assumes "op_voice_session_event i k payload turn w = (Val d, w')"
  obtains v where "accept_frame i \<lparr>vf_type = k, vf_payload = payload, vf_turn = turn\<rparr> w = (Val v, w')"
  using assms
  by (auto simp: op_voice_session_event_def as_core_error_def bind_Val basic_Val catchE_def attempt_def core_error_def
      split: res.splits prod.splits if_splits)

lemma accepted_state:
  assumes "accept_frame i f w = (Val v, w')"
  shows "\<exists>s t. next_state s (vf_type f) = Inr (Some t) \<and> vs_state v = JStr t"
proof -
  let ?go = "\<lambda>c n. case n of
           None \<Rightarrow> voice_error (''cannot accept '' @ str_repr (vf_type f) @ '' while voice session is '' @ py_repr (vs_state c))
         | Some t \<Rightarrow>
             let next = c\<lparr>vs_state := JStr t\<rparr> in
             seqE (record_transition next (vs_state c) f) (
             seqE (whenE (vf_type f = ''interruption'')
                    (seqE (append_entry (vs_memory c) ''system'' (interruption_content f) (Some ''voice interruption'')) (ret ())))
               (ret next))"
  from assms obtain c w0 where body: "(if vs_state c = JStr ''closed'' then voice_error (''voice session '' @ i @ '' is closed'')
      else bindE (liftR (next_state (vs_state c) (vf_type f))) (?go c)) w0 = (Val v, w')"
    unfolding accept_frame_def bind_Val by blast
  then have "vs_state c \<noteq> JStr ''closed''" by (auto simp: voice_error_def basic_Val)
  with body have "bindE (liftR (next_state (vs_state c) (vf_type f))) (?go c) w0 = (Val v, w')" by (simp only: if_False)
  then obtain n where n: "next_state (vs_state c) (vf_type f) = Inr n" and rest: "?go c n w0 = (Val v, w')"
    unfolding bind_Val liftR_Val by blast
  from rest obtain t where t: "n = Some t" by (cases n) (simp_all add: voice_error_def basic_Val)
  from rest have "v = c\<lparr>vs_state := JStr t\<rparr>"
    unfolding t option.case Let_def seq_Val basic_Val by blast
  with n t show ?thesis by auto
qed

lemma output_means_speaking: "next_state s ''core.output_text'' = Inr (Some t) \<Longrightarrow> t = ''speaking''"
  by (auto simp: next_state_def fail_def transitions_def split: json.splits if_splits)

lemma accepted_reads:
  assumes "accept_frame i f w = (Val v, w')" "vf_type f \<noteq> ''interruption''"
  shows "state_in (newest_first i w') = Inr (Some (vs_state v))"
proof -
  obtain t w1 s p where v: "vs_state v = JStr t" "vs_id v = i" "vs_memory v = i" "vs_state s = JStr t"
    and state: "appended i (JObj ((''kind'', JStr ''voice_state'') # transition_payload s p f)) w w1"
    and w': "if vf_type f = ''interruption'' then appended i (interruption_content f) w1 w' else w' = w1"
    using accept_frame_Val [OF assms(1)] .
  from current_after_state [OF state v(4)] v(1) w' assms(2) show ?thesis by simp
qed

lemma answer_turn_speaking:
  assumes "answer_turn i flow reply (profile, c) turn w = (Val response, w')"
  obtains e es d where "newest_first i w' = e # es" "y_content e = JObj d"
    "get ''kind'' d = JStr ''voice_response''" "get ''text'' d = JStr response"
    "state_in (newest_first i w') = Inr (Some (JStr ''speaking''))"
proof -
  let ?said = "voice_response_text flow reply"
  from assms obtain run_id d1 w1 w2 a where
    ev: "op_voice_session_event i ''core.output_text'' [(''run_id'', run_id), (''response_text'', JStr ?said)] turn w = (Val d1, w1)"
    and app: "append_assistant_response i ?said (vp_ref profile) (tc_voice c) turn run_id w1 = (Val a, w2)"
    and r: "response = ?said" "w' = w2"
    unfolding answer_turn_def Let_def split bind_Val seq_Val basic_Val liftR_Val by blast
  obtain v where v: "accept_frame i \<lparr>vf_type = ''core.output_text'',
      vf_payload = [(''run_id'', run_id), (''response_text'', JStr ?said)], vf_turn = turn\<rparr> w = (Val v, w1)"
    using event_Val [OF ev] .
  have "vs_state v = JStr ''speaking''" using accepted_state [OF v] output_means_speaking by fastforce
  with accepted_reads [OF v] have state: "state_in (newest_first i w1) = Inr (Some (JStr ''speaking''))" by simp
  let ?c = "[(''kind'', JStr ''voice_response''), (''text'', JStr ?said), (''voice_profile_ref'', JStr (vp_ref profile)),
      (''voice_id'', JStr (tc_voice c)), (''turn_id'', jopt turn), (''run_id'', run_id)]"
  have "appended i (JObj ?c) w1 w2"
    using append_entry_cases [OF app [unfolded append_assistant_response_def]] by simp
  then obtain e where e: "newest_first i w2 = e # newest_first i w1" "y_content e = sort_json (JObj ?c)"
    by (rule newest_appended)
  obtain d where d: "sort_json (JObj ?c) = JObj d" "\<And>k. map_of d k = map_option sort_json (map_of ?c k)"
    using get_sort_json [of ?c] by auto
  then have "get ''kind'' d = JStr ''voice_response''" "get ''text'' d = JStr response"
    by (simp_all add: get_def r(1))
  with e d(1) state r(2) show ?thesis by (intro that) (simp_all add: get_attr_def andThen_def)
qed

text \<open>
  A voice turn ends as it says: when a submitted text comes back with a reply, the session is in the
  state speaking, which the reply states without asking, and the newest entry of the session is the
  response that the reply carries - whatever the run did in between.
\<close>

theorem submitted_turn_is_speaking:
  assumes "op_voice_submit_text depth D R i text flow_ref profile_ref turn w = (Val reply, w')"
  shows "current_voice_session i w' = (Val \<lparr>vs_id = i, vs_memory = i, vs_state = get ''state'' reply\<rparr>, w') \<and>
    get ''state'' reply = JStr ''speaking'' \<and>
    (\<exists>e es d. newest_first i w' = e # es \<and> y_content e = JObj d \<and> get ''kind'' d = JStr ''voice_response'' \<and>
      get ''text'' d = get ''response_text'' reply)"
proof -
  have "strip text \<noteq> []"
    using assms by (auto simp: op_voice_submit_text_def bind_Val core_error_def basic_Val split: if_splits)
  with assms obtain flow profile c run w1 response where
    turn: "answer_turn i flow run (profile, c) turn w1 = (Val response, w')"
    and reply: "reply = [(''voice_session_id'', JStr i), (''state'', JStr ''speaking''), (''recognized_text'', JStr text),
              (''response_text'', JStr response), (''run'', JObj run), (''voice'', JObj (chosen_voice profile c))]"
    unfolding op_voice_submit_text_def submit_turn_def by (simp only: if_False bind_Val seq_Val basic_Val split_paired_Ex split) blast
  from answer_turn_speaking [OF turn] obtain e es d where
    "newest_first i w' = e # es" "y_content e = JObj d" "get ''kind'' d = JStr ''voice_response''"
    "get ''text'' d = JStr response" "state_in (newest_first i w') = Inr (Some (JStr ''speaking''))" .
  moreover have "get ''state'' reply = JStr ''speaking''" "get ''response_text'' reply = JStr response"
    by (simp_all add: reply get_def)
  ultimately show ?thesis using state_is_read by fastforce
qed

text \<open>A desk with one persona and one voice profile, and a session that has just been opened.\<close>

definition voice_yaml :: json where
  "voice_yaml = JObj [(''name'', JStr ''narrator''), (''version'', JStr ''1.0.0''), (''persona_ref'', JStr ''plain@1.0.0''),
     (''tts'', JObj [(''candidates'', JList [JObj [(''engine'', JStr ''kokoro''), (''model'', JStr ''k''), (''voice_id'', JStr ''af''),
        (''speed'', JInt 1), (''priority'', JInt 1), (''enabled'', JBool True)]]), (''fallback'', JObj [])]),
     (''privacy'', JObj [(''local_only'', JBool True)]), (''limits'', JObj [(''max_seconds_per_utterance'', JInt 30)])]"

definition persona_yaml :: json where
  "persona_yaml = JObj [(''name'', JStr ''plain''), (''version'', JStr ''1.0.0''), (''display_name'', JStr ''Plain''),
     (''description'', JStr ''d''), (''locale'', JStr ''en''), (''system'', JStr ''s''),
     (''style'', JObj [(''max_words_default'', JInt 9), (''structure'', JStr ''s''), (''do'', JList []), (''avoid'', JList [])]),
     (''traits'', JObj [(''warmth'', JStr ''w''), (''assertiveness'', JStr ''a''), (''detail'', JStr ''d''), (''humor'', JStr ''h'')]),
     (''examples'', JList []), (''generation'', JObj [])]"

definition voice_desk :: "unit desk" where
  "voice_desk = \<lparr>dk_files = demo_files\<lparr>list_dir := (\<lambda>p x. (Val (Some [''1.0.0.yaml'']), x)),
       read_text := (\<lambda>p x. (Val (snd p ! 3), x)),
       yaml_load := (\<lambda>s. Inr (if s = ''voice-profiles'' then voice_yaml else persona_yaml))\<rparr>,
     dk_host = im_host demo_improve, dk_gateway = no_gateway, yaml_dump = (\<lambda>j. []), json_loads = (\<lambda>s. Inr JNull),
     json_check = (\<lambda>s i. None), unlink = (\<lambda>p x. (Val (), x))\<rparr>"

definition heard_world :: "unit world" where
  "heard_world = (blank_world ())\<lparr>
     sessions := [\<lparr>n_id = ''s'', n_title = None, n_status = S_ACTIVE, n_summary = None, n_created = ''t'', n_updated = ''t'', n_expires = None\<rparr>],
     entries := [\<lparr>y_id = ''e'', y_session = ''s'', y_role = ''system'',
        y_content = JObj [(''kind'', JStr ''voice_state''), (''state'', JStr ''submitting'')], y_summary = None, y_created = ''t''\<rparr>]\<rparr>"

definition resolved_world :: "unit world" where
  "resolved_world = snd (resolve_voice_profile (dk_files voice_desk) None heard_world)"

definition spoken_to :: "unit world" where "spoken_to = snd (hear ''s'' ''a'' None resolved_world)"

definition submitted_world :: "unit world" where
  "submitted_world = snd (op_voice_session_event ''s'' ''core.submitted'' [(''workflow_ref'', JStr ''w'')] None spoken_to)"

definition uttered_world :: "unit world" where
  "uttered_world = snd (append_operator_utterance ''s'' ''a'' None submitted_world)"

lemma steps_succeed:
  "case fst (resolve_voice_profile (dk_files voice_desk) None heard_world) of Val v \<Rightarrow> True | _ \<Rightarrow> False"
  "case fst (hear ''s'' ''a'' None resolved_world) of Val v \<Rightarrow> True | _ \<Rightarrow> False"
  "case fst (op_voice_session_event ''s'' ''core.submitted'' [(''workflow_ref'', JStr ''w'')] None spoken_to) of Val v \<Rightarrow> True | _ \<Rightarrow> False"
  "case fst (append_operator_utterance ''s'' ''a'' None submitted_world) of Val v \<Rightarrow> True | _ \<Rightarrow> False"
  by code_simp+

lemma run_is_answered:
  "case op_run_start 2 demo_run ''w'' [(''objective'', JStr ''a''), (''voiceSessionId'', JStr ''s''), (''turnId'', JNull)] uttered_world of
     (Val reply, w) \<Rightarrow> (case fst (resolve_voice_profile (dk_files voice_desk) None heard_world) of
         Val v \<Rightarrow> (case fst (answer_turn ''s'' ''w'' reply v None w) of Val r \<Rightarrow> True | _ \<Rightarrow> False) | _ \<Rightarrow> False)
   | _ \<Rightarrow> False"
  by code_simp

lemma Val_pair: "(case fst r of Val v \<Rightarrow> True | _ \<Rightarrow> False) \<Longrightarrow> \<exists>v. r = (Val v, snd r)"
  by (cases r; cases "fst r") auto

theorem submitted_turn_is_speaking_witness:
  "\<exists>w' :: unit world. current_voice_session ''s'' w' = (Val \<lparr>vs_id = ''s'', vs_memory = ''s'', vs_state = JStr ''speaking''\<rparr>, w')"
proof -
  let ?order = "[(''objective'', JStr ''a''), (''voiceSessionId'', JStr ''s''), (''turnId'', JNull)]"
  note steps = steps_succeed [THEN Val_pair, folded resolved_world_def spoken_to_def submitted_world_def uttered_world_def]
  from steps(1) obtain p c where 1: "resolve_voice_profile (dk_files voice_desk) None heard_world = (Val (p, c), resolved_world)" by auto
  from steps(2) have 2: "hear ''s'' ''a'' None resolved_world = (Val (), spoken_to)" by simp
  from steps(3) obtain d where 3:
    "op_voice_session_event ''s'' ''core.submitted'' [(''workflow_ref'', JStr ''w'')] None spoken_to = (Val d, submitted_world)" by auto
  from steps(4) obtain y where 4: "append_operator_utterance ''s'' ''a'' None submitted_world = (Val y, uttered_world)" by auto
  from run_is_answered 1 obtain reply w6 where 5: "op_run_start 2 demo_run ''w'' ?order uttered_world = (Val reply, w6)"
    and ok: "case fst (answer_turn ''s'' ''w'' reply (p, c) None w6) of Val r \<Rightarrow> True | _ \<Rightarrow> False"
    by (auto split: prod.splits res.splits)
  from Val_pair [OF ok] obtain r w7 where 6: "answer_turn ''s'' ''w'' reply (p, c) None w6 = (Val r, w7)" by metis
  have "\<exists>x. submit_turn 2 (dk_files voice_desk) demo_run ''s'' ''a'' ''w'' None None heard_world = (Val x, w7)"
    by (simp add: submit_turn_def bindE_def seqE_def 1 2 3 4 5 6 jopt_def ret_def)
  then obtain x where "op_voice_submit_text 2 voice_desk demo_run ''s'' ''a'' (Some ''w'') None None heard_world = (Val x, w7)"
    by (auto simp: op_voice_submit_text_def voice_workflow_def default_assistant_ref_def bindE_def ret_def strip_def is_space_def)
  from submitted_turn_is_speaking [OF this] show ?thesis by metis
qed

theorem asked_workflow_runs_witness:
  "op_intent_dispatch 3 voice_desk demo_run False ''start workflow code-review@1.2.0'' None None =
    bindE (start_run 3 demo_run False ''code-review@1.2.0'' [(''objective'', JStr ''Execute code-review@1.2.0'')]) (\<lambda>(reply, job).
      ret (started_reply (recognised ''run_workflow'' (Some ''code-review@1.2.0'')
             [(''objective'', JStr ''Execute code-review@1.2.0'')] ''start workflow code-review@1.2.0'')
             ''code-review@1.2.0'' reply job))"
proof -
  have h: "''start workflow'' \<in> set run_verbs" "''code-review@1.2.0'' \<noteq> []" "list_all ref_char ''code-review@1.2.0''"
    "is_workflow_name ''code-review@1.2.0''"
    by code_simp+
  show ?thesis using asked_workflow_runs [OF h, of 3 voice_desk demo_run False None None] by simp
qed

theorem model_never_classifies_witness:
  "case fst (classify_intent (demo_desk manifest_yaml) ''good morning'' trusted_config) of
     Val c \<Rightarrow> c = fallback ''good morning'' \<and> cl_source c \<noteq> ''model'' | _ \<Rightarrow> False"
proof -
  let ?r = "classify_intent (demo_desk manifest_yaml) ''good morning'' trusted_config"
  have r: "?r = (fst ?r, snd ?r)" by simp
  have "case fst ?r of Val v \<Rightarrow> True | _ \<Rightarrow> False" by code_simp
  then obtain c where c: "fst ?r = Val c" by (cases "fst ?r") auto
  have h: "strip ''good morning'' \<noteq> []" "match_deterministic_pattern (strip ''good morning'') = None"
    "strip ''good morning'' = ''good morning''"
    by code_simp+
  from model_never_classifies [OF r] c h show ?thesis by auto
qed

section \<open>What is on record stays\<close>

lemma carries_structured [carry]: "carries (kept w0) (complete_structured D cc p m n s)"
proof -
  have cleared: "carries (kept w0) (authorize_completion_call gw c h r st a l)" for gw c h r st a l
    unfolding authorize_completion_call_def gateway_error_def by (intro carry)
  have key: "carries (kept w0) (resolve_api_key gw c h k)" for gw c h k
    unfolding resolve_api_key_def get_secret_def gateway_error_def by (intro carry)
  have "carries (kept w0) (structured_from D cc p m n s cs e)" for cs e
    by (induction cs arbitrary: e)
      (simp_all only: structured_from.simps Let_def gateway_error_def, (intro carry cleared key | assumption)+)
  then show ?thesis unfolding complete_structured_def gateway_error_def by (intro carry)
qed

lemma carries_draft [carry]: "carries (kept w0) (op_workflow_author_draft D ob n v p js)"
proof -
  have parts: "carries (kept w0) (get_proposal D i)" "carries (kept w0) (write_draft D q c)"
    "carries (kept w0) (load_author_profile D r)" "carries (kept w0) (registry_context D)" for i q c r
    unfolding get_proposal_def find_proposal_def write_draft_def load_author_profile_def registry_context_def context_lines_def
    by (intro carry)+
  have "carries (kept w0) (author_workflow_draft D ob n v p js)"
    unfolding author_workflow_draft_def Let_def by (intro carry parts)
  then show ?thesis unfolding op_workflow_author_draft_def by (intro carry)
qed

lemma carries_routing [carry]: "carries (kept w0) (classify_intent D text)"
proof -
  have "carries (kept w0) (classify_with_model D t p)" for t p
    unfolding classify_with_model_def positional_def Let_def by (intro carry)
  then show ?thesis unfolding classify_intent_def Let_def by (intro carry)
qed

lemma carries_async [carry]: "carries (kept w0) (start_run depth R async f i)"
proof -
  have "carries (kept w0) (open_run R f i)" unfolding open_run_def by (intro carry)
  then have "carries (kept w0) (op_run_start_async depth R f i)" unfolding op_run_start_async_def by (intro carry)
  then show ?thesis unfolding start_run_def by (intro carry)
qed

lemma carries_dispatch: "carries (kept w0) (op_intent_dispatch depth D R async text session turn)"
  unfolding op_intent_dispatch_def dispatch_run_def dispatch_draft_def dispatch_memory_def dispatch_answer_def Let_def
  by (intro carry)

lemma carries_voice_event [carry]: "carries (kept w0) (op_voice_session_event i k p t)"
  unfolding op_voice_session_event_def as_core_error_def accept_frame_def current_voice_session_def voice_error_def
    record_transition_def Let_def
  by (intro carry)

lemma carries_submit: "carries (kept w0) (op_voice_submit_text depth D R i text f p turn)"
proof -
  have answered: "carries (kept w0) (answer_turn i flow reply v turn)" for flow reply v
    by (cases v) (simp only: answer_turn_def append_assistant_response_def Let_def split, intro carry)
  show ?thesis
    unfolding op_voice_submit_text_def voice_workflow_def submit_turn_def resolve_voice_profile_def hear_def listen_def
      append_operator_utterance_def current_voice_session_def voice_error_def Let_def
    by (intro carry answered)
qed

text \<open>
  Talking loses nothing: whatever is said or submitted, and however it is classified, the records of
  runs, events, artifacts, finished Steps and decisions that were there are there afterwards, and a
  consistent database stays consistent.
\<close>

theorem talking_keeps_records:
  assumes "db_ok w"
  shows "kept w (snd (op_intent_dispatch depth D R async text session turn w)) \<and>
    kept w (snd (op_voice_submit_text depth D R i text flow_ref profile_ref turn w))"
  by (intro conjI carriesD [OF carries_dispatch] carriesD [OF carries_submit] kept_refl assms)

theorem talking_keeps_records_witness:
  "kept heard_world (snd (op_voice_submit_text 2 voice_desk demo_run ''s'' ''a'' (Some ''w'') None None heard_world))"
proof -
  have "db_ok heard_world" by (simp add: db_ok_def heard_world_def blank_world_def)
  from talking_keeps_records [OF this, of 2 voice_desk demo_run False "''a''" None None "''s''" "Some ''w''" None] show ?thesis by blast
qed

end
