(* ===== verification/Awf_Sidecar.thy ===== *)
theory Awf_Sidecar
  imports Awf_Authoring
begin

text \<open>
  The local model server: the choice of the model that the resident mind uses and its publication
  (llm/selector.py), the command line, the life of the server process that the backend manages
  (llm/sidecar.py), and the operations around them (ops/llm.py).  Processes, sockets and clocks are
  parameters; what the module remembers in its two global variables is part of the outside state.
\<close>

section \<open>The server process: its status and the world around it\<close>

text \<open>
  The fields are what json.dumps writes and what a state file may hold, so they are JSON values; pid is
  null or a number.
\<close>

record side_status =
  ss_state :: json
  ss_server :: json
  ss_url :: json
  ss_model :: json
  ss_profile :: json
  ss_pid :: json
  ss_adopted :: bool
  ss_warnings :: "json list"
  ss_reason :: json

text \<open>The globals of the module: the process that this worker started, and the last status.\<close>

record sidecar =
  sc_process :: "int option"
  sc_current :: "side_status option"

text \<open>
  \<open>http_status\<close> is the status of urlopen(url, timeout), \<open>http_json\<close> the JSON it answers; \<open>open_log\<close> opens the log file,
  \<open>popen\<close> starts a process in a directory, detached or not, and gives its pid; \<open>poll\<close> is proc.poll(), \<open>terminate\<close>
  is terminate() with wait(timeout), \<open>kill_process\<close> is kill(), \<open>reap\<close> is wait(), \<open>signal\<close> is os.kill (0 asks
  whether the process lives); \<open>wall\<close> is time.time(), \<open>nap\<close> is time.sleep; \<open>globals\<close> and \<open>set_globals\<close> are
  the module's variables, \<open>dump\<close> and \<open>load\<close> are json.dumps(indent=2, sort_keys=True) and json.loads.
  The errors of \<open>signal\<close> that are OSErrors in Python are raised under that name.  \<open>brackets\<close> is what urlsplit
  checks of an address in brackets.
\<close>

record 'x procs =
  http_status :: "string \<Rightarrow> rat \<Rightarrow> 'x \<Rightarrow> int res \<times> 'x"
  http_json :: "string \<Rightarrow> 'x \<Rightarrow> json res \<times> 'x"
  open_log :: "path \<Rightarrow> 'x \<Rightarrow> unit res \<times> 'x"
  popen :: "string list \<Rightarrow> path \<Rightarrow> bool \<Rightarrow> 'x \<Rightarrow> int res \<times> 'x"
  poll :: "int \<Rightarrow> 'x \<Rightarrow> int option \<times> 'x"
  terminate :: "int \<Rightarrow> 'x \<Rightarrow> unit res \<times> 'x"
  kill_process :: "int \<Rightarrow> 'x \<Rightarrow> unit res \<times> 'x"
  reap :: "int \<Rightarrow> 'x \<Rightarrow> unit res \<times> 'x"
  signal :: "int \<Rightarrow> string \<Rightarrow> 'x \<Rightarrow> unit res \<times> 'x"
  wall :: "'x \<Rightarrow> rat \<times> 'x"
  nap :: "rat \<Rightarrow> 'x \<Rightarrow> unit \<times> 'x"
  globals :: "'x \<Rightarrow> sidecar"
  set_globals :: "sidecar \<Rightarrow> 'x \<Rightarrow> 'x"
  dump :: "json \<Rightarrow> string"
  load :: "string \<Rightarrow> json result"
  brackets :: "string \<Rightarrow> unit result"

section \<open>Addresses, as urllib.parse.urlparse reads them\<close>

definition is_alpha :: "char \<Rightarrow> bool" where
  "is_alpha c = (is_word c \<and> \<not> is_digit c \<and> c \<noteq> CHR ''_'')"

definition scheme_char :: "char \<Rightarrow> bool" where
  "scheme_char c = (is_alpha c \<or> is_digit c \<or> c \<in> {CHR ''+'', CHR ''-'', CHR ''.''})"

text \<open>What follows the scheme, if the text before the first colon is one.\<close>

definition after_scheme :: "string \<Rightarrow> string" where
  "after_scheme url = (case partition_at (CHR '':'') url of (s, rest) \<Rightarrow>
     if CHR '':'' \<in> set url \<and> s \<noteq> [] \<and> is_alpha (hd s) \<and> list_all scheme_char s then rest else url)"

text \<open>urlsplit drops leading blanks and control characters, and line breaks and tabs everywhere.\<close>

definition cleaned :: "string \<Rightarrow> string" where
  "cleaned url = filter (\<lambda>c. c \<notin> {CHR 0x09, CHR 0x0A, CHR 0x0D}) (dropWhile (\<lambda>c. c \<le> CHR '' '') url)"

definition netloc :: "string \<Rightarrow> string" where
  "netloc url = (let rest = after_scheme (cleaned url) in
     if starts_with ''//'' rest then takeWhile (\<lambda>c. c \<notin> {CHR ''/'', CHR ''?'', CHR ''#''}) (drop 2 rest) else [])"

text \<open>urlparse itself raises for brackets that do not match or do not hold an address.\<close>

definition urlparse :: "'x procs \<Rightarrow> string \<Rightarrow> unit result" where
  "urlparse P url =
     (let n = netloc url; opened = CHR ''['' \<in> set n; closed = CHR '']'' \<in> set n in
      if opened \<noteq> closed then fail ''ValueError'' ''Invalid IPv6 URL''
      else if opened then brackets P n
      else Inr ())"

text \<open>netloc.rpartition("@")[2].\<close>

definition after_at :: "string \<Rightarrow> string" where
  "after_at s = rev (takeWhile (\<lambda>c. c \<noteq> CHR ''@'') (rev s))"

definition host_and_port :: "string \<Rightarrow> string \<times> string" where
  "host_and_port url =
     (let info = after_at (netloc url) in
      if CHR ''['' \<in> set info
      then (let (host, rest) = partition_at (CHR '']'') (snd (partition_at (CHR ''['') info)) in (host, snd (partition_at (CHR '':'') rest)))
      else partition_at (CHR '':'') info)"

text \<open>urlparse(url).hostname or "": lower case, but for a zone after a percent sign.\<close>

definition hostname :: "string \<Rightarrow> string" where
  "hostname url = (let host = fst (host_and_port url) in
     lower (takeWhile (\<lambda>c. c \<noteq> CHR ''%'') host) @ dropWhile (\<lambda>c. c \<noteq> CHR ''%'') host)"

definition port_number :: "string \<Rightarrow> int option result" where
  "port_number p =
     (if p = [] then Inr None
      else if \<not> list_all is_digit p then fail ''ValueError'' (''Port could not be cast to integer value as '' @ str_repr p)
      else (case parse_int p of
          None \<Rightarrow> fail ''ValueError'' (''Port could not be cast to integer value as '' @ str_repr p)
        | Some n \<Rightarrow> if 65535 < n then fail ''ValueError'' ''Port out of range 0-65535'' else Inr (Some n)))"

definition port_of :: "string \<Rightarrow> int option result" where
  "port_of url = port_number (snd (host_and_port url))"

section \<open>Choosing a model (llm/selector.py)\<close>

text \<open>\<open>temp_file\<close> makes the name of a temporary file.\<close>

definition chosen_default :: "llm_server \<Rightarrow> string \<Rightarrow> string result" where
  "chosen_default s profile = (case map_of (ls_defaults s) profile of
       Some m \<Rightarrow> Inr m
     | None \<Rightarrow> andThen (cpu_fallback_profile_id profile) (\<lambda>cpu. case map_of (ls_defaults s) cpu of
           Some m \<Rightarrow> Inr m
         | None \<Rightarrow> (case ls_defaults s of [] \<Rightarrow> fail ''StopIteration'' [] | (k, m) # _ \<Rightarrow> Inr m)))"

definition model_file :: "'x files \<Rightarrow> 'x platform \<Rightarrow> string \<Rightarrow> ('x, string) op" where
  "model_file F H name = bindE (model_by_name F H name) (\<lambda>m. ret (path_name (lm_primary m)))"

definition chosen_model :: "'x files \<Rightarrow> 'x platform \<Rightarrow> llm_server \<Rightarrow> string option \<Rightarrow> ('x, string) op" where
  "chosen_model F H s asked =
     (if \<not> ls_managed s then ret (case asked of None \<Rightarrow> ''default'' | Some m \<Rightarrow> m)
      else case asked of
        Some m \<Rightarrow> model_file F H m
      | None \<Rightarrow>
          if ls_defaults s \<noteq> []
          then bindE (resolve_hardware_profile_id F H) (\<lambda>(profile, _).
                 bindE (liftR (chosen_default s profile)) (model_file F H))
          else bindE (local_models F H) (\<lambda>ms. case ms of
              [] \<Rightarrow> liftR (llm_server_error ''No local models found under models/llm/ and no --model argument supplied'')
            | m # _ \<Rightarrow> ret (path_name (lm_primary m))))"

definition is_loopback :: "string \<Rightarrow> bool" where
  "is_loopback url = (hostname url \<in> {''127.0.0.1'', ''::1'', ''localhost''})"

definition resident_candidate :: "llm_server \<Rightarrow> string \<Rightarrow> string \<Rightarrow> obj" where
  "resident_candidate s server_id model_name =
     [(''provider'', JStr (ls_provider s)), (''model'', JStr model_name), (''priority'', JInt 1), (''enabled'', JBool True),
      (''api_base'', JStr (ls_api_base s)), (''server_id'', JStr server_id)] @
     (case ls_secret s of Some (x # t) \<Rightarrow> [(''api_key_secret_name'', JStr (x # t))] | _ \<Rightarrow> [])"

definition resident_profile :: "llm_server \<Rightarrow> string \<Rightarrow> string \<Rightarrow> json" where
  "resident_profile s server_id model_name = JObj
     [(''name'', JStr resident_mind), (''version'', JStr ''1.0.0''), (''purpose'', JStr ''general-reasoning''),
      (''server_id'', JStr server_id),
      (''privacy'', JObj [(''maximum_data_class'', JStr ''internal''), (''local_only'', JBool (is_loopback (ls_base_url s)))]),
      (''candidates'', JList [JObj (resident_candidate s server_id model_name)]),
      (''fallback'', JObj [(''mode'', JStr ''none''), (''allow_quality_degrade'', JBool False)]),
      (''limits'', JObj [(''max_input_tokens_per_call'', JInt 8192), (''max_output_tokens_per_call'', JInt 1024),
        (''max_cost_usd_per_call'', JFloat 0)])]"

text \<open>The temporary file is written, published, and removed whatever the publication does.\<close>

definition publish_temporary :: "'x desk \<Rightarrow> path \<Rightarrow> json \<Rightarrow> ('x, obj) op" where
  "publish_temporary D temp profile =
     seqE (outside (write_text (dk_host D) temp (yaml_dump D profile)))
       (finallyE (op_registry_publish D temp ''model-profiles'')
          (bindE (outside (file_exists (dk_files D) temp)) (\<lambda>there. whenE there (outside (unlink D temp)))))"

definition select :: "'x desk \<Rightarrow> 'x platform \<Rightarrow> 'x procs \<Rightarrow> path \<Rightarrow> string \<Rightarrow> string option \<Rightarrow> bool \<Rightarrow> ('x, obj) op" where
  "select D H P temp server_id asked allow_remote =
     bindE (load_servers (dk_files D)) (\<lambda>(default_id, servers).
     case map_of servers server_id of
       None \<Rightarrow> liftR (llm_server_error (''Unknown server ID '' @ quoted server_id @ ''. Available: '' @
           py_repr (JList (map JStr (sort (map fst servers))))))
     | Some s \<Rightarrow>
         bindE (chosen_model (dk_files D) H s asked) (\<lambda>model_name.
         seqE (liftR (urlparse P (ls_base_url s))) (
         if \<not> is_loopback (ls_base_url s) \<and> \<not> allow_remote
         then liftR (llm_server_error (''Server base_url '' @ quoted (ls_base_url s) @ '' points to non-loopback host '' @
           quoted (hostname (ls_base_url s)) @ ''; pass --allow-remote to permit remote endpoints''))
         else
           bindE (publish_temporary D temp (resident_profile s server_id model_name)) (\<lambda>published.
             ret [(''server_id'', JStr server_id), (''model'', JStr model_name), (''profile_ref'', JStr (resident_mind @ ''@1.0.0'')),
                  (''local_only'', JBool (is_loopback (ls_base_url s))), (''publish'', JObj published)]))))"

section \<open>The server process (llm/sidecar.py)\<close>

definition recalled :: "'x procs \<Rightarrow> ('x, sidecar) op" where
  "recalled P = gets (\<lambda>w. globals P (ext w))"

definition keep :: "'x procs \<Rightarrow> (sidecar \<Rightarrow> sidecar) \<Rightarrow> ('x, unit) op" where
  "keep P f = answer (\<lambda>x. ((), set_globals P (f (globals P x)) x))"

definition set_current :: "'x procs \<Rightarrow> side_status \<Rightarrow> ('x, unit) op" where
  "set_current P s = keep P (\<lambda>g. g\<lparr>sc_current := Some s\<rparr>)"

definition set_process :: "'x procs \<Rightarrow> int option \<Rightarrow> ('x, unit) op" where
  "set_process P p = keep P (\<lambda>g. g\<lparr>sc_process := p\<rparr>)"

definition side_dict :: "side_status \<Rightarrow> json" where
  "side_dict s = JObj [(''state'', ss_state s), (''server_id'', ss_server s), (''base_url'', ss_url s), (''model_path'', ss_model s),
     (''profile_id'', ss_profile s), (''pid'', ss_pid s), (''adopted'', JBool (ss_adopted s)), (''warnings'', JList (ss_warnings s)),
     (''reason'', ss_reason s)]"

definition cache_file :: "'x files \<Rightarrow> string \<Rightarrow> path" where
  "cache_file F name = sub_path (sub_path (sub_path (repo F) ''cache'') ''llm'') name"

definition state_path :: "'x files \<Rightarrow> path" where "state_path F = cache_file F ''sidecar.json''"

definition log_path :: "'x files \<Rightarrow> path" where "log_path F = cache_file F ''sidecar.log''"

definition write_state :: "'x desk \<Rightarrow> 'x procs \<Rightarrow> side_status \<Rightarrow> ('x, unit) op" where
  "write_state D P s =
     (let p = state_path (dk_files D) in
      seqE (outside (make_dir (dk_host D) (path_parent p))) (outside (write_text (dk_host D) p (dump P (side_dict s)))))"

definition clear_state :: "'x desk \<Rightarrow> ('x, unit) op" where
  "clear_state D =
     (let p = state_path (dk_files D) in
      bindE (outside (file_exists (dk_files D) p)) (\<lambda>there. whenE there (outside (unlink D p))))"

text \<open>tuple(value) of what json.loads can give.\<close>

definition as_tuple :: "json \<Rightarrow> json list result" where
  "as_tuple v = (case v of JList l \<Rightarrow> Inr l | JStr s \<Rightarrow> Inr (map (\<lambda>c. JStr [c]) s) | JObj d \<Rightarrow> Inr (map (JStr \<circ> fst) d)
     | _ \<Rightarrow> fail ''TypeError'' ''object is not iterable'')"

definition status_of_json :: "json \<Rightarrow> side_status result" where
  "status_of_json v =
     andThen (get_attr v) (\<lambda>d.
     andThen (as_tuple (or_else (get ''warnings'' d) (JList []))) (\<lambda>ws.
     andThen (item ''state'' d) (\<lambda>st.
       Inr \<lparr>ss_state = st, ss_server = get ''server_id'' d, ss_url = get ''base_url'' d, ss_model = get ''model_path'' d,
            ss_profile = get ''profile_id'' d, ss_pid = get ''pid'' d, ss_adopted = truthy (get ''adopted'' d), ss_warnings = ws,
            ss_reason = get ''reason'' d\<rparr>)))"

definition read_state :: "'x desk \<Rightarrow> 'x procs \<Rightarrow> ('x, side_status option) op" where
  "read_state D P =
     (let p = state_path (dk_files D) in
      bindE (outside (file_exists (dk_files D) p)) (\<lambda>there.
      if \<not> there then ret None
      else catchE
        (bindE (outside (read_text (dk_files D) p)) (\<lambda>text.
         liftR (andThen (load P text) (\<lambda>v. andThen (status_of_json v) (\<lambda>s. Inr (Some s))))))
        (\<lambda>_. ret None)))"

definition pid_number :: "json \<Rightarrow> int option" where
  "pid_number pid = (case pid of JInt n \<Rightarrow> Some n | JBool b \<Rightarrow> Some (if b then 1 else 0) | _ \<Rightarrow> None)"

definition pid_alive :: "'x procs \<Rightarrow> json \<Rightarrow> ('x, bool) op" where
  "pid_alive P pid =
     (if pid = JNull then ret False
      else case pid_number pid of
        None \<Rightarrow> throw ''TypeError'' ''an integer is required''
      | Some n \<Rightarrow> catchE (seqE (outside (signal P n ''0'')) (ret True))
                    (\<lambda>e. if exc_type e = ''OSError'' then ret False else raise e))"

text \<open>The probe: the first health path that answers with a status of 200 to 299.\<close>

primrec probe_from :: "'x procs \<Rightarrow> llm_server \<Rightarrow> rat \<Rightarrow> string list \<Rightarrow> string \<Rightarrow> ('x, bool \<times> string) op" where
  "probe_from P s timeout [] reason = ret (False, reason)"
| "probe_from P s timeout (p # ps) reason =
     bindE (attempt (outside (http_status P (rstrip_slashes (ls_base_url s) @ p) timeout))) (\<lambda>r. case r of
         Inl e \<Rightarrow> probe_from P s timeout ps (p @ '' check failed: '' @ exc_text e)
       | Inr code \<Rightarrow>
           if 200 \<le> code \<and> code < 300 then ret (True, p @ '' reachable'')
           else probe_from P s timeout ps (p @ '' returned HTTP '' @ int_str code))"

definition probe :: "'x procs \<Rightarrow> llm_server \<Rightarrow> rat \<Rightarrow> ('x, bool \<times> string) op" where
  "probe P s timeout = probe_from P s timeout (ls_health s) ''No health paths declared''"

section \<open>The command line\<close>

definition turn_isolation_keys :: "string list" where
  "turn_isolation_keys = [''cache_ram_mb'', ''cache_ram'', ''parallel'', ''cont_batching'']"

definition int_keys :: "string list" where "int_keys = [''ctx_size'', ''batch_size'', ''ubatch_size'', ''main_gpu'']"

definition auto_int_keys :: "string list" where "auto_int_keys = [''threads'', ''threads_batch'']"

definition str_keys :: "string list" where
  "str_keys = [''cache_type_k'', ''cache_type_v'', ''split_mode'', ''flash_attn'', ''device'']"

definition flag_translations :: "(string \<times> string) list" where
  "flag_translations =
     [(''ctx_size'', ''--ctx-size''), (''threads'', ''--threads''), (''threads_batch'', ''--threads-batch''),
      (''batch_size'', ''--batch-size''), (''ubatch_size'', ''--ubatch-size''), (''gpu_layers'', ''--gpu-layers''),
      (''cache_type_k'', ''--cache-type-k''), (''cache_type_v'', ''--cache-type-v''), (''split_mode'', ''--split-mode''),
      (''main_gpu'', ''--main-gpu''), (''flash_attn'', ''--flash-attn''), (''device'', ''--device'')]"

definition is_int_like :: "json \<Rightarrow> bool" where
  "is_int_like v = (case v of JInt i \<Rightarrow> True | JStr s \<Rightarrow> parse_int s \<noteq> None | _ \<Rightarrow> False)"

definition flag_for :: "string \<Rightarrow> string \<Rightarrow> string + string list" where
  "flag_for key t = (case map_of flag_translations key of Some flag \<Rightarrow> Inr [flag, t] | None \<Rightarrow> Inr [])"

definition unsupported_value :: "string \<Rightarrow> json \<Rightarrow> string + string list" where
  "unsupported_value key v = Inl (''unsupported launch value: '' @ key @ ''='' @ py_repr v)"

text \<open>What one entry of the launch dict adds: arguments, or a warning.\<close>

definition launch_entry :: "string \<Rightarrow> json \<Rightarrow> string + string list" where
  "launch_entry key v =
     (if key \<in> set turn_isolation_keys then Inl (''launch key '' @ quoted key @ '' is overridden by turn isolation'')
      else if key \<in> set int_keys then (if is_int_like v then flag_for key (py_str v) else unsupported_value key v)
      else if key \<in> set auto_int_keys then
        (if v = JStr ''auto'' then flag_for key ''-1'' else if is_int_like v then flag_for key (py_str v) else unsupported_value key v)
      else if key = ''gpu_layers'' then
        (if v = JStr ''all'' then flag_for key ''all'' else if is_int_like v then flag_for key (py_str v) else unsupported_value key v)
      else if key \<in> set str_keys then (case v of JStr s \<Rightarrow> flag_for key s | _ \<Rightarrow> unsupported_value key v)
      else if key = ''warmup'' then (case v of JBool b \<Rightarrow> Inr [if b then ''--warmup'' else ''--no-warmup''] | _ \<Rightarrow> unsupported_value key v)
      else Inl (''unsupported launch key: '' @ key))"

definition isolation_flags :: "string list" where
  "isolation_flags = [''--cache-ram'', ''0'', ''--parallel'', ''1'', ''--no-cont-batching'']"

text \<open>One turn of the loop over the launch dict.\<close>

definition add_launch :: "string \<times> json \<Rightarrow> string list \<times> string list \<Rightarrow> string list \<times> string list" where
  "add_launch entry acc = (case launch_entry (fst entry) (snd entry) of
       Inl w \<Rightarrow> (fst acc, snd acc @ [w])
     | Inr args \<Rightarrow> (fst acc @ args, snd acc))"

definition build_command :: "'x procs \<Rightarrow> path \<Rightarrow> path \<Rightarrow> string \<Rightarrow> obj \<Rightarrow> (string list \<times> string list) result" where
  "build_command P binary model_path base_url launch =
     andThen (urlparse P base_url) (\<lambda>_. andThen (port_of base_url) (\<lambda>p.
       let host = (if hostname base_url = [] then ''127.0.0.1'' else hostname base_url);
           port = (case p of None \<Rightarrow> 8080 | Some n \<Rightarrow> if n = 0 then 8080 else n);
          (argv, warnings) = fold add_launch launch
            ([as_posix binary, ''--model'', as_posix model_path, ''--host'', host, ''--port'', int_str port], []) in
       Inr (argv @ isolation_flags, warnings)))"

section \<open>Start, stop and status\<close>

definition primary_text :: "local_model option \<Rightarrow> json" where
  "primary_text m = (case m of None \<Rightarrow> JNull | Some m \<Rightarrow> JStr (as_posix (lm_primary m)))"

definition profile_text :: "llm_artifact option \<Rightarrow> json" where
  "profile_text a = (case a of None \<Rightarrow> JNull | Some a \<Rightarrow> JStr (la_profile a))"

definition side_of :: "string \<Rightarrow> llm_server \<Rightarrow> llm_artifact option \<Rightarrow> local_model option \<Rightarrow> json \<Rightarrow> string list \<Rightarrow> json \<Rightarrow> side_status" where
  "side_of state s a m pid warnings reason =
     \<lparr>ss_state = JStr state, ss_server = JStr (ls_id s), ss_url = JStr (ls_base_url s), ss_model = primary_text m,
      ss_profile = profile_text a, ss_pid = pid, ss_adopted = (state = ''adopted''), ss_warnings = map JStr warnings, ss_reason = reason\<rparr>"

definition sidecar_event :: "bool \<Rightarrow> string \<Rightarrow> obj \<Rightarrow> ('x, unit) op" where
  "sidecar_event online reason payload = whenE online (record_sidecar_event reason (JObj payload))"

definition started_payload :: "side_status \<Rightarrow> string list \<Rightarrow> string \<Rightarrow> obj" where
  "started_payload st argv readiness =
     [(''server_id'', ss_server st), (''base_url'', ss_url st), (''model_path'', ss_model st), (''profile_id'', ss_profile st),
      (''adopted'', JBool (ss_adopted st)), (''pid'', ss_pid st), (''argv'', JList (map JStr argv)),
      (''warnings'', JList (ss_warnings st)), (''readiness'', JStr readiness)]"

text \<open>A status that start() returns after it has set _CURRENT_STATUS.\<close>

definition settle :: "'x procs \<Rightarrow> side_status \<Rightarrow> ('x, side_status) op" where
  "settle P st = seqE (set_current P st) (ret st)"

definition announce :: "'x desk \<Rightarrow> 'x procs \<Rightarrow> bool \<Rightarrow> side_status \<Rightarrow> string list \<Rightarrow> string \<Rightarrow> ('x, side_status) op" where
  "announce D P online st argv readiness =
     seqE (set_current P st) (
     seqE (write_state D P st) (
     seqE (sidecar_event online ''llm_server_started'' (started_payload st argv readiness))
       (ret st)))"

text \<open>What start() does when the health timeout is over.\<close>

definition give_up :: "'x procs \<Rightarrow> (string \<Rightarrow> side_status) \<Rightarrow> int \<Rightarrow> ('x, side_status) op" where
  "give_up P degraded pid =
     seqE (catchE (outside (terminate P pid)) (\<lambda>_. outside (kill_process P pid))) (
     seqE (set_process P None)
       (settle P (degraded ''Degraded-health-timeout'')))"

text \<open>The loop that polls the process and its health; \<open>running\<close> is the status of a process that answers.\<close>

primrec await_health ::
  "nat \<Rightarrow> 'x desk \<Rightarrow> 'x procs \<Rightarrow> bool \<Rightarrow> bool \<Rightarrow> llm_server \<Rightarrow> (string \<Rightarrow> side_status) \<Rightarrow> side_status \<Rightarrow> string list \<Rightarrow> int \<Rightarrow> rat \<Rightarrow> ('x, side_status) op" where
  "await_health 0 D P online detach s degraded running argv pid t0 = diverge"
| "await_health (Suc n) D P online detach s degraded running argv pid t0 =
     bindE (answer (wall P)) (\<lambda>t.
     if \<not> t - t0 < 60 then give_up P degraded pid
     else
       bindE (answer (poll P pid)) (\<lambda>rc. case rc of
           Some code \<Rightarrow>
             seqE (set_process P None) (settle P (degraded (''Process exited early with return code '' @ int_str code)))
         | None \<Rightarrow>
             bindE (probe P s 2) (\<lambda>(reachable, _).
             if reachable
             then seqE (whenE detach (set_process P None)) (announce D P online running argv ''ready'')
             else seqE (answer (nap P (1 / 2))) (await_health n D P online detach s degraded running argv pid t0))))"

definition launch_server ::
  "nat \<Rightarrow> 'x desk \<Rightarrow> 'x procs \<Rightarrow> bool \<Rightarrow> bool \<Rightarrow> llm_server \<Rightarrow> llm_artifact \<Rightarrow> local_model \<Rightarrow> path \<Rightarrow> ('x, side_status) op" where
  "launch_server fuel D P online detach s a m binary =
     bindE (liftR (build_command P binary (lm_primary m) (ls_base_url s) (la_launch a))) (\<lambda>(argv, warnings).
     let degraded = (\<lambda>reason. side_of ''degraded'' s (Some a) (Some m) JNull warnings (JStr reason)) in
     bindE (attempt
       (seqE (whenE detach (seqE (outside (make_dir (dk_host D) (path_parent (log_path (dk_files D)))))
                              (outside (open_log P (log_path (dk_files D))))))
         (outside (popen P argv (path_parent binary) detach)))) (\<lambda>r. case r of
         Inl e \<Rightarrow> settle P (degraded (''Failed to spawn process: '' @ exc_text e))
       | Inr pid \<Rightarrow>
           seqE (set_process P (Some pid)) (
           bindE (answer (wall P)) (\<lambda>t0.
             await_health fuel D P online detach s degraded (side_of ''running'' s (Some a) (Some m) (JInt pid) warnings JNull)
               argv pid t0))))"

definition start_sidecar ::
  "nat \<Rightarrow> 'x desk \<Rightarrow> 'x platform \<Rightarrow> 'x procs \<Rightarrow> bool \<Rightarrow> bool \<Rightarrow> llm_server \<Rightarrow> llm_artifact option \<Rightarrow> local_model option \<Rightarrow> ('x, side_status) op" where
  "start_sidecar fuel D H P online detach s artifact m =
     bindE (probe P s 2) (\<lambda>(reachable, _).
     if reachable
     then announce D P online
            (side_of ''adopted'' s artifact m JNull [] (JStr ''server reachable; adopted existing process'')) [] ''adopted''
     else case artifact of
       None \<Rightarrow> settle P (side_of ''degraded'' s None m JNull [] (JStr ''Degraded-no-sidecar-binary''))
     | Some a \<Rightarrow>
         let binary = binary_path (dk_files D) (la_profile a) a in
         bindE (artifact_binary_present (dk_files D) H (la_profile a) a) (\<lambda>there.
         if \<not> there
         then settle P (side_of ''degraded'' s artifact m JNull [] (JStr (''Degraded-no-sidecar-binary: '' @ as_posix binary)))
         else case m of
           None \<Rightarrow> settle P (side_of ''degraded'' s artifact None JNull [] (JStr ''Degraded-no-local-model-artifact''))
         | Some lm \<Rightarrow>
             bindE (outside (file_exists (dk_files D) (lm_primary lm))) (\<lambda>model_there.
             if \<not> model_there
             then settle P (side_of ''degraded'' s artifact m JNull [] (JStr ''Degraded-no-local-model-artifact''))
             else launch_server fuel D P online detach s a lm binary)))"

definition stopped :: "json \<Rightarrow> json \<Rightarrow> json \<Rightarrow> json \<Rightarrow> json \<Rightarrow> bool \<Rightarrow> string \<Rightarrow> side_status" where
  "stopped server url mdl profile pid adopted reason =
     \<lparr>ss_state = JStr ''stopped'', ss_server = server, ss_url = url, ss_model = mdl, ss_profile = profile, ss_pid = pid,
      ss_adopted = adopted, ss_warnings = [], ss_reason = JStr reason\<rparr>"

definition stopped_from :: "side_status option \<Rightarrow> json \<Rightarrow> bool \<Rightarrow> string \<Rightarrow> side_status" where
  "stopped_from c pid adopted reason = (case c of
       None \<Rightarrow> stopped JNull JNull JNull JNull pid adopted reason
     | Some c \<Rightarrow> stopped (ss_server c) (ss_url c) (ss_model c) (ss_profile c) pid adopted reason)"

definition stop_event :: "bool \<Rightarrow> side_status \<Rightarrow> ('x, unit) op" where
  "stop_event online st = sidecar_event online ''llm_server_stopped''
     [(''server_id'', ss_server st), (''base_url'', ss_url st), (''adopted'', JBool (ss_adopted st)), (''reason'', ss_reason st)]"

definition finish_stop :: "'x desk \<Rightarrow> 'x procs \<Rightarrow> bool \<Rightarrow> bool \<Rightarrow> side_status \<Rightarrow> ('x, side_status) op" where
  "finish_stop D P online rooted st =
     seqE (stop_event online st) (
     seqE (set_current P st) (
     seqE (whenE rooted (clear_state D))
       (ret st)))"

text \<open>Waiting for a signalled process: until the deadline, or until it is gone.\<close>

primrec await_death :: "nat \<Rightarrow> 'x procs \<Rightarrow> json \<Rightarrow> rat \<Rightarrow> ('x, unit) op" where
  "await_death 0 P pid deadline = diverge"
| "await_death (Suc n) P pid deadline =
     bindE (answer (wall P)) (\<lambda>t.
     if \<not> t < deadline then ret ()
     else bindE (pid_alive P pid) (\<lambda>alive.
       if \<not> alive then ret () else seqE (answer (nap P (1 / 10))) (await_death n P pid deadline)))"

definition kill_stored :: "nat \<Rightarrow> 'x procs \<Rightarrow> int \<Rightarrow> ('x, unit) op" where
  "kill_stored fuel P pid =
     catchE
       (seqE (outside (signal P pid ''SIGTERM'')) (
        bindE (answer (wall P)) (\<lambda>t.
        seqE (await_death fuel P (JInt pid) (t + 5)) (
        bindE (pid_alive P (JInt pid)) (\<lambda>alive. whenE alive (outside (signal P pid ''SIGKILL'')))))))
       (\<lambda>e. if exc_type e = ''OSError'' then ret () else raise e)"

text \<open>The last resort of stop(): a process that a state file names, of this worker or of another.\<close>

definition stop_stored :: "nat \<Rightarrow> 'x desk \<Rightarrow> 'x procs \<Rightarrow> ('x, side_status option) op" where
  "stop_stored fuel D P =
     bindE (read_state D P) (\<lambda>stored. case stored of
         None \<Rightarrow> ret None
       | Some s \<Rightarrow>
           if ss_pid s = JNull \<or> ss_adopted s then ret None
           else bindE (pid_alive P (ss_pid s)) (\<lambda>alive.
             case (alive, pid_number (ss_pid s)) of
               (True, Some pid) \<Rightarrow>
                 let st = stopped (ss_server s) (ss_url s) (ss_model s) (ss_profile s) (ss_pid s) False ''process stopped'' in
                 seqE (kill_stored fuel P pid) (
                 seqE (clear_state D) (
                 seqE (set_current P st)
                   (ret (Some st))))
             | _ \<Rightarrow> ret None))"

definition stop_own :: "'x desk \<Rightarrow> 'x procs \<Rightarrow> bool \<Rightarrow> bool \<Rightarrow> side_status option \<Rightarrow> int \<Rightarrow> ('x, side_status) op" where
  "stop_own D P online rooted c pid =
     seqE (catchE (outside (terminate P pid)) (\<lambda>_. seqE (outside (kill_process P pid)) (outside (reap P pid)))) (
     seqE (set_process P None)
       (finish_stop D P online rooted (stopped_from c (JInt pid) False ''process stopped'')))"

definition nothing_running :: side_status where
  "nothing_running = stopped JNull JNull JNull JNull JNull False ''no sidecar running''"

definition stop_rest :: "nat \<Rightarrow> 'x desk \<Rightarrow> 'x procs \<Rightarrow> bool \<Rightarrow> ('x, side_status) op" where
  "stop_rest fuel D P rooted =
     bindE (if rooted then stop_stored fuel D P else ret None) (\<lambda>r. case r of
         Some st \<Rightarrow> ret st
       | None \<Rightarrow> seqE (set_current P nothing_running) (seqE (whenE rooted (clear_state D)) (ret nothing_running)))"

definition stop_sidecar :: "nat \<Rightarrow> 'x desk \<Rightarrow> 'x procs \<Rightarrow> bool \<Rightarrow> bool \<Rightarrow> ('x, side_status) op" where
  "stop_sidecar fuel D P online rooted =
     bindE (recalled P) (\<lambda>g.
     case (sc_current g, sc_process g) of
       (Some c, p) \<Rightarrow>
         if ss_adopted c then finish_stop D P online rooted (stopped_from (Some c) JNull True ''adopted server left running'')
         else (case p of
             Some pid \<Rightarrow> stop_own D P online rooted (Some c) pid
           | None \<Rightarrow> stop_rest fuel D P rooted)
     | (None, Some pid) \<Rightarrow> stop_own D P online rooted None pid
     | (None, None) \<Rightarrow> stop_rest fuel D P rooted)"

text \<open>status(): what is remembered, else what the state file says if it still holds, else what answers.\<close>

definition stored_status :: "'x desk \<Rightarrow> 'x procs \<Rightarrow> llm_server option \<Rightarrow> rat \<Rightarrow> ('x, side_status option) op" where
  "stored_status D P server timeout =
     (let answers = (case server of None \<Rightarrow> ret None | Some s \<Rightarrow> bindE (probe P s timeout) (\<lambda>(ok, _). ret (Some ok))) in
      bindE (read_state D P) (\<lambda>stored. case stored of
          None \<Rightarrow> ret None
        | Some s \<Rightarrow>
            bindE (if ss_adopted s then bindE answers (\<lambda>a. ret (a = Some True))
                   else bindE (pid_alive P (ss_pid s)) (\<lambda>alive.
                     if alive then bindE answers (\<lambda>a. ret (a \<noteq> Some False)) else ret False)) (\<lambda>holds.
            if holds then ret (Some s) else seqE (clear_state D) (ret None))))"

definition sidecar_status :: "'x desk \<Rightarrow> 'x procs \<Rightarrow> llm_server option \<Rightarrow> bool \<Rightarrow> rat \<Rightarrow> ('x, side_status) op" where
  "sidecar_status D P server rooted timeout =
     bindE (recalled P) (\<lambda>g. case sc_current g of
         Some c \<Rightarrow> ret c
       | None \<Rightarrow>
           bindE (if rooted then stored_status D P server timeout else ret None) (\<lambda>r. case r of
               Some s \<Rightarrow> ret s
             | None \<Rightarrow>
                 (case server of
                    None \<Rightarrow> ret nothing_running
                  | Some s \<Rightarrow> bindE (probe P s timeout) (\<lambda>(reachable, _).
                      ret (if reachable
                           then side_of ''adopted'' s None None JNull [] (JStr ''server reachable; adopted'')
                           else nothing_running)))))"

section \<open>The operations (ops/llm.py)\<close>

definition selection_dict :: "selection option \<Rightarrow> json" where
  "selection_dict v = (case v of None \<Rightarrow> JNull | Some s \<Rightarrow> JObj
     [(''server_id'', JStr (sl_server s)), (''provider'', JStr (sl_provider s)), (''model'', JStr (sl_model s)),
      (''api_base'', JStr (sl_api_base s)), (''local_only'', JBool (sl_local_only s)), (''api_key_secret_name'', sl_secret s)])"

definition server_report ::
  "'x files \<Rightarrow> string \<Rightarrow> local_model list \<Rightarrow> string \<times> llm_server \<Rightarrow> bool \<times> string \<Rightarrow> ('x, string \<times> json) op" where
  "server_report F profile models entry health =
     (let s = snd entry; art = artifact_for s profile; binary = map_option (binary_path F profile) art in
      bindE (case binary of None \<Rightarrow> ret False | Some b \<Rightarrow> outside (file_exists F b)) (\<lambda>there.
        ret (fst entry, JObj
          [(''managed'', JBool (ls_managed s)), (''base_url'', JStr (ls_base_url s)), (''provider'', JStr (ls_provider s)),
           (''reachable'', JBool (fst health)), (''reachability_reason'', JStr (snd health)),
           (''declared_artifact'', profile_text art), (''binary_present'', JBool there),
           (''binary_path'', jopt (map_option as_posix binary)),
           (''local_models_available'', JList (if ls_managed s then map (JStr \<circ> lm_name) models else []))])))"

text \<open>The pool probes the servers at the same time; here one after the other, in the order of the results.\<close>

definition op_llm_servers :: "'x files \<Rightarrow> 'x platform \<Rightarrow> 'x procs \<Rightarrow> string option \<Rightarrow> rat \<Rightarrow> ('x, json) op" where
  "op_llm_servers F H P host timeout =
     bindE (load_servers F) (\<lambda>(default_id, servers).
     bindE (if host = None \<or> host = Some [] then bindE (resolve_hardware_profile_id F H) (\<lambda>(p, _). ret p) else ret (the host)) (\<lambda>profile.
     bindE (current_selection F) (\<lambda>sel.
     bindE (local_models F H) (\<lambda>models.
     bindE (mapE (\<lambda>(_, s). probe P s timeout) servers) (\<lambda>healths.
     bindE (mapE (\<lambda>(entry, health). server_report F profile models entry health) (zip servers healths)) (\<lambda>reports.
       ret (JObj [(''default_server'', JStr default_id), (''host_profile_id'', JStr profile),
         (''current_selection'', selection_dict sel), (''servers'', JObj reports)])))))))"

definition model_dict :: "local_model \<Rightarrow> json" where
  "model_dict m = JObj [(''name'', JStr (lm_name m)), (''primary'', JStr (as_posix (lm_primary m))),
     (''files'', JList (map (JStr \<circ> as_posix) (lm_files m)))]"

text \<open>What the tags of an ollama server add to the answer; nothing that fails here is reported but the request itself.\<close>

definition ollama_tags :: "'x files \<Rightarrow> 'x procs \<Rightarrow> ('x, obj) op" where
  "ollama_tags F P =
     catchE
       (bindE (load_servers F) (\<lambda>(_, servers). case map_of servers ''ollama'' of
            None \<Rightarrow> ret []
          | Some s \<Rightarrow> bindE (probe P s 2) (\<lambda>(reachable, _).
              if \<not> reachable then ret []
              else catchE
                (bindE (outside (http_json P (rstrip_slashes (ls_base_url s) @ ''/api/tags''))) (\<lambda>v.
                 bindE (liftR (get_attr v)) (\<lambda>d. ret [(''ollama_models'', get_or ''models'' (JList []) d)])))
                (\<lambda>e. ret [(''ollama_models_error'', JStr (exc_text e))]))))
       (\<lambda>_. ret [])"

definition op_llm_models :: "'x files \<Rightarrow> 'x platform \<Rightarrow> 'x procs \<Rightarrow> ('x, json) op" where
  "op_llm_models F H P =
     bindE (local_models F H) (\<lambda>models.
     bindE (ollama_tags F P) (\<lambda>more_keys.
       ret (JObj ((''local_models'', JList (map model_dict models)) # more_keys))))"

text \<open>The target of a download: an artifact to be built by hand gives way to the CPU one, if that can be fetched.\<close>

definition acquisition_target :: "llm_server \<Rightarrow> string \<Rightarrow> (string \<times> llm_artifact option) result" where
  "acquisition_target s profile = (case artifact_for s profile of
       Some a \<Rightarrow>
         if la_archive a \<noteq> ''manual'' then Inr (profile, Some a)
         else andThen (cpu_fallback_profile_id profile) (\<lambda>cpu. case artifact_for s cpu of
             Some c \<Rightarrow> Inr (if la_archive c \<noteq> ''manual'' then (cpu, Some c) else (profile, Some a))
           | None \<Rightarrow> Inr (profile, Some a))
     | None \<Rightarrow> Inr (profile, None))"

text \<open>
  The download (llm/discovery.py): \<open>copy_url\<close> copies what an address answers into a file, \<open>unpack\<close> unpacks an archive of
  a format into a directory, \<open>walk\<close> is os.walk without the directory names, \<open>copy_file\<close> is shutil.copy2, \<open>chmod_exec\<close>
  adds 0o755 to the mode where the system is POSIX.
\<close>

record 'x fetcher =
  copy_url :: "string \<Rightarrow> path \<Rightarrow> 'x \<Rightarrow> unit res \<times> 'x"
  unpack :: "string \<Rightarrow> path \<Rightarrow> path \<Rightarrow> 'x \<Rightarrow> unit res \<times> 'x"
  walk :: "path \<Rightarrow> 'x \<Rightarrow> (path \<times> string list) list res \<times> 'x"
  copy_file :: "path \<Rightarrow> path \<Rightarrow> 'x \<Rightarrow> unit res \<times> 'x"
  chmod_exec :: "path \<Rightarrow> 'x \<Rightarrow> unit res \<times> 'x"

definition acquired :: "string \<Rightarrow> string \<Rightarrow> path \<Rightarrow> llm_artifact \<Rightarrow> obj" where
  "acquired state profile target a =
     [(''profile_id'', JStr profile), (''status'', JStr state), (''path'', JStr (as_posix target)), (''url'', JStr (la_url a))]"

text \<open>The files beside the binary, and no directory, go to the directory of the target.\<close>

definition copy_flat :: "'x desk \<Rightarrow> 'x fetcher \<Rightarrow> path \<Rightarrow> path \<Rightarrow> ('x, unit) op" where
  "copy_flat D W source target =
     bindE (outside (list_dir (dk_files D) source)) (\<lambda>r.
     seqE (mapE (\<lambda>n. bindE (outside (is_file (dk_host D) (join_path source (False, [n])))) (\<lambda>plain.
             whenE plain (outside (copy_file W (join_path source (False, [n])) (join_path target (False, [n]))))))
           (case r of None \<Rightarrow> [] | Some names \<Rightarrow> names))
       (ret ()))"

definition install_archive :: "'x desk \<Rightarrow> 'x fetcher \<Rightarrow> string \<Rightarrow> llm_artifact \<Rightarrow> path \<Rightarrow> path \<Rightarrow> path \<Rightarrow> ('x, obj) op" where
  "install_archive D W profile a target archive scratch =
     seqE (outside (copy_url W (la_url a) archive)) (
     seqE (if la_archive a \<in> {''tar_gz'', ''zip''} then outside (unpack W (la_archive a) archive scratch)
           else liftR (llm_server_error (''Unsupported archive format '' @ quoted (la_archive a) @ '' for artifact '' @ quoted profile))) (
     bindE (outside (walk W scratch)) (\<lambda>tree.
     case find (\<lambda>(dir, names). la_binary a \<in> set names) tree of
       None \<Rightarrow> liftR (llm_server_error (''Binary '' @ quoted (la_binary a) @ '' not found inside extracted archive '' @
           quoted (path_name archive) @ '' for '' @ quoted profile))
     | Some (dir, _) \<Rightarrow>
         seqE (outside (make_dir (dk_host D) (path_parent target))) (
         seqE (copy_flat D W dir (path_parent target)) (
         bindE (outside (file_exists (dk_files D) target)) (\<lambda>there.
         seqE (whenE there (outside (chmod_exec W target)))
           (ret (acquired ''ACQUIRED'' profile target a))))))))"

definition acquire_binary :: "'x desk \<Rightarrow> 'x platform \<Rightarrow> 'x fetcher \<Rightarrow> string \<Rightarrow> llm_artifact \<Rightarrow> ('x, obj) op" where
  "acquire_binary D H W profile a =
     (let target = binary_path (dk_files D) profile a;
          cache = cache_file (dk_files D) profile;
          scratch = sub_path cache ''extract_scratch'' in
      bindE (artifact_binary_present (dk_files D) H profile a) (\<lambda>there.
      if there then ret (acquired ''PRESENT'' profile target a)
      else if la_archive a = ''manual''
      then liftR (llm_server_error (''Artifact '' @ quoted profile @ '' is declared as manual; place '' @ quoted (la_binary a) @
        '' and sibling runtime files under '' @ quoted (as_posix (path_parent target))))
      else
        seqE (outside (make_dir (dk_host D) cache)) (
        bindE (outside (is_dir (dk_host D) scratch)) (\<lambda>old.
        seqE (whenE old (outside (delete_tree (dk_host D) scratch))) (
        seqE (outside (make_dir (dk_host D) scratch))
          (finallyE (install_archive D W profile a target (sub_path cache (path_name (parse_path (la_url a)))) scratch)
            (bindE (outside (is_dir (dk_host D) scratch)) (\<lambda>left_over.
             whenE left_over (outside (remove_tree (dk_host D) scratch))))))))))"

definition op_llm_acquire :: "'x desk \<Rightarrow> 'x platform \<Rightarrow> 'x fetcher \<Rightarrow> ('x, obj) op" where
  "op_llm_acquire D H W =
     bindE (resolve_hardware_profile_id (dk_files D) H) (\<lambda>(profile, _).
     bindE (load_servers (dk_files D)) (\<lambda>(_, servers). case map_of servers ''llama-server'' of
         None \<Rightarrow> core_error ''llama-server is not declared in the llm-servers registry object''
       | Some s \<Rightarrow>
           bindE (liftR (acquisition_target s profile)) (\<lambda>(target, art). case art of
               None \<Rightarrow> core_error (''No artifact declared for canonical profile ID '' @ quoted target)
             | Some a \<Rightarrow> catchE (acquire_binary D H W target a)
                 (\<lambda>e. core_error (''Failed to acquire binary for '' @ quoted target @ '': '' @ exc_text e)))))"

definition op_llm_select :: "'x desk \<Rightarrow> 'x platform \<Rightarrow> 'x procs \<Rightarrow> path \<Rightarrow> string \<Rightarrow> string option \<Rightarrow> bool \<Rightarrow> ('x, obj) op" where
  "op_llm_select D H P temp server_id asked allow_remote =
     core_op ''LlmServerError'' (select D H P temp server_id asked allow_remote)"

text \<open>The model to serve: the selected one if it is on disk, else the first there is.\<close>

definition served_model :: "'x files \<Rightarrow> 'x platform \<Rightarrow> string \<Rightarrow> ('x, local_model option) op" where
  "served_model F H name =
     bindE (if name = [] then ret None
            else bindE (attempt (model_by_name F H name)) (\<lambda>r. case r of Inl e \<Rightarrow> ret None | Inr m \<Rightarrow> ret (Some m))) (\<lambda>m. case m of
         Some m \<Rightarrow> ret (Some m)
       | None \<Rightarrow> bindE (local_models F H) (\<lambda>ms. ret (case ms of [] \<Rightarrow> None | m # _ \<Rightarrow> Some m)))"

definition serve_start :: "nat \<Rightarrow> 'x desk \<Rightarrow> 'x platform \<Rightarrow> 'x procs \<Rightarrow> llm_server \<Rightarrow> string \<Rightarrow> ('x, side_status) op" where
  "serve_start fuel D H P s name =
     bindE (resolve_hardware_profile_id (dk_files D) H) (\<lambda>(profile, _).
     bindE (if ls_managed s
            then bindE (select_managed_llm_artifact (dk_files D) H s profile True) (\<lambda>(_, art). ret art)
            else ret None) (\<lambda>art.
     bindE (served_model (dk_files D) H name) (\<lambda>m.
       start_sidecar fuel D H P True True s art m)))"

definition op_llm_serve :: "nat \<Rightarrow> 'x desk \<Rightarrow> 'x platform \<Rightarrow> 'x procs \<Rightarrow> string \<Rightarrow> rat \<Rightarrow> ('x, json) op" where
  "op_llm_serve fuel D H P action timeout =
     bindE (load_servers (dk_files D)) (\<lambda>(default_id, servers).
     bindE (current_selection (dk_files D)) (\<lambda>sel.
     bindE (liftR (case sel of
         Some c \<Rightarrow> (case map_of servers (sl_server c) of
             Some s \<Rightarrow> Inr (s, sl_model c)
           | None \<Rightarrow> (case map_of servers default_id of Some s \<Rightarrow> Inr (s, []) | None \<Rightarrow> fail ''KeyError'' (quoted default_id)))
       | None \<Rightarrow> (case map_of servers default_id of Some s \<Rightarrow> Inr (s, []) | None \<Rightarrow> fail ''KeyError'' (quoted default_id)))) (\<lambda>(s, name).
     bindE (if action = ''stop'' then stop_sidecar fuel D P True True
            else if action = ''status'' then sidecar_status D P (Some s) True timeout
            else if action = ''start'' then serve_start fuel D H P s name
            else core_error (''Unknown serve action '' @ quoted action @ ''. Valid: start, stop, status'')) (\<lambda>st.
       ret (side_dict st)))))"

section \<open>The command line\<close>

lemma add_launch_all:
  "fold add_launch launch (argv, warnings) =
     (argv @ concat (map (\<lambda>(k, v). case launch_entry k v of Inl w \<Rightarrow> [] | Inr args \<Rightarrow> args) launch),
      warnings @ concat (map (\<lambda>(k, v). case launch_entry k v of Inl w \<Rightarrow> [w] | Inr args \<Rightarrow> []) launch))"
  by (induction launch arbitrary: argv warnings) (auto simp: add_launch_def split: sum.split)

lemma isolation_entry:
  "k \<in> set turn_isolation_keys \<Longrightarrow> launch_entry k v = Inl (''launch key '' @ quoted k @ '' is overridden by turn isolation'')"
  by (simp add: launch_entry_def Let_def)

lemma isolation_adds_nothing:
  "concat (map (\<lambda>(k, v). case launch_entry k v of Inl w \<Rightarrow> [] | Inr args \<Rightarrow> args) (filter (\<lambda>(k, v). k \<notin> set turn_isolation_keys) launch)) =
   concat (map (\<lambda>(k, v). case launch_entry k v of Inl w \<Rightarrow> [] | Inr args \<Rightarrow> args) launch)"
  by (induction launch) (auto simp: isolation_entry)

text \<open>
  Turn isolation cannot be configured away: whatever the launch dict of an artifact says, the command
  line of the model server ends with the isolation flags, it is the one of the dict without the keys
  that isolation owns, and each of these keys is reported as overridden.
\<close>

theorem isolation_is_not_configurable:
  assumes "build_command P binary model_path url launch = Inr (argv, warnings)"
  shows "(\<exists>front. argv = front @ isolation_flags) \<and>
    (\<exists>ws. build_command P binary model_path url (filter (\<lambda>(k, v). k \<notin> set turn_isolation_keys) launch) = Inr (argv, ws)) \<and>
    (\<forall>(k, v) \<in> set launch. k \<in> set turn_isolation_keys \<longrightarrow>
       ''launch key '' @ quoted k @ '' is overridden by turn isolation'' \<in> set warnings)"
proof -
  from assms obtain p where parts: "urlparse P url = Inr ()" "port_of url = Inr p"
    by (auto simp: build_command_def andThen_def split: sum.splits)
  define start where "start = [as_posix binary, ''--model'', as_posix model_path, ''--host'',
    if hostname url = [] then ''127.0.0.1'' else hostname url, ''--port'',
    int_str (case p of None \<Rightarrow> 8080 | Some n \<Rightarrow> if n = 0 then 8080 else n)]"
  have built: "build_command P binary model_path url l =
      Inr (fst (fold add_launch l (start, [])) @ isolation_flags, snd (fold add_launch l (start, [])))" for l
    by (simp add: build_command_def andThen_def Let_def parts start_def split: prod.split)
  from assms have argv: "argv = fst (fold add_launch launch (start, [])) @ isolation_flags"
    and ws: "warnings = snd (fold add_launch launch (start, []))"
    by (simp_all add: built)
  have "''launch key '' @ quoted k @ '' is overridden by turn isolation'' \<in> set warnings"
    if "(k, v) \<in> set launch" "k \<in> set turn_isolation_keys" for k v
  proof -
    from that(1) obtain l1 l2 where "launch = l1 @ (k, v) # l2" by (auto dest: split_list)
    then show ?thesis unfolding ws add_launch_all by (simp add: isolation_entry [OF that(2)])
  qed
  moreover have "\<exists>front. argv = front @ isolation_flags" unfolding argv by blast
  moreover have "\<exists>ws. build_command P binary model_path url (filter (\<lambda>(k, v). k \<notin> set turn_isolation_keys) launch) = Inr (argv, ws)"
    unfolding built argv add_launch_all fst_conv isolation_adds_nothing by blast
  ultimately show ?thesis by blast
qed

section \<open>The state file\<close>

lemma status_of_side_dict: "status_of_json (side_dict s) = Inr s"
  by (cases s) (auto simp: status_of_json_def side_dict_def get_attr_def andThen_def get_def as_tuple_def or_else_def item_def
      split: json.splits)

section \<open>A server that is said to run has answered\<close>

definition answered :: "'x procs \<Rightarrow> llm_server \<Rightarrow> rat \<Rightarrow> bool" where
  "answered P s timeout = (\<exists>p x x' code. p \<in> set (ls_health s) \<and>
     http_status P (rstrip_slashes (ls_base_url s) @ p) timeout x = (Val code, x') \<and> 200 \<le> code \<and> code < 300)"

lemma probe_answered:
  assumes "probe P s timeout w = (Val (True, why), w')" shows "answered P s timeout"
proof -
  have "\<exists>p x x' code. p \<in> set ps \<and> http_status P (rstrip_slashes (ls_base_url s) @ p) timeout x = (Val code, x') \<and> 200 \<le> code \<and> code < 300"
    if "probe_from P s timeout ps r w = (Val (True, why), w')" for ps r w
    using that
  proof (induction ps arbitrary: r w)
    case Nil then show ?case by (simp add: basic_Val)
  next
    case (Cons p ps)
    from Cons.prems obtain c w1 where c: "attempt (outside (http_status P (rstrip_slashes (ls_base_url s) @ p) timeout)) w = (Val c, w1)"
      and rest: "(case c of Inl e \<Rightarrow> probe_from P s timeout ps (p @ '' check failed: '' @ exc_text e)
         | Inr code \<Rightarrow> if 200 \<le> code \<and> code < 300 then ret (True, p @ '' reachable'')
             else probe_from P s timeout ps (p @ '' returned HTTP '' @ int_str code)) w1 = (Val (True, why), w')"
      unfolding probe_from.simps bind_Val by blast
    show ?case
    proof (cases c)
      case (Inl e)
      with rest have "probe_from P s timeout ps (p @ '' check failed: '' @ exc_text e) w1 = (Val (True, why), w')" by simp
      from Cons.IH [OF this] show ?thesis by auto
    next
      case (Inr code)
      show ?thesis
      proof (cases "200 \<le> code \<and> code < 300")
        case True
        with c Inr show ?thesis by (auto simp: attempt_Val outside_Val)
      next
        case False
        with Inr rest have "probe_from P s timeout ps (p @ '' returned HTTP '' @ int_str code) w1 = (Val (True, why), w')" by simp
        from Cons.IH [OF this] show ?thesis by auto
      qed
    qed
  qed
  then show ?thesis using assms unfolding probe_def answered_def by blast
qed

definition not_ready :: "side_status \<Rightarrow> bool" where
  "not_ready st = (ss_state st = JStr ''degraded'' \<and> ss_pid st = JNull)"

lemma side_of_degraded: "not_ready (side_of ''degraded'' s a m JNull ws r)"
  by (simp add: not_ready_def side_of_def)

lemma settle_Val: "settle P st w = (Val r, w') \<Longrightarrow> r = st"
  unfolding settle_def seq_Val basic_Val by blast

text \<open>The status was made the current one, written to the state file and recorded, as the last thing.\<close>

definition announced :: "'x desk \<Rightarrow> 'x procs \<Rightarrow> bool \<Rightarrow> side_status \<Rightarrow> 'x world \<Rightarrow> bool" where
  "announced D P online st w' = (\<exists>argv how w. announce D P online st argv how w = (Val st, w'))"

lemma announce_Val: "announce D P online st argv how w = (Val r, w') \<Longrightarrow> r = st"
  unfolding announce_def seq_Val basic_Val by blast

lemma await_health_answered:
  assumes "await_health fuel D P online detach s degraded running argv pid t0 w = (Val st, w')"
    and "\<And>r. not_ready (degraded r)"
  shows "not_ready st \<or> st = running \<and> answered P s 2 \<and> announced D P online st w'"
  using assms(1)
proof (induction fuel arbitrary: w)
  case 0 then show ?case by (simp add: basic_Val)
next
  case (Suc n)
  from Suc.prems obtain t w1 where body: "(if \<not> t - t0 < 60 then give_up P degraded pid
      else bindE (answer (poll P pid)) (\<lambda>rc. case rc of
           Some code \<Rightarrow> seqE (set_process P None) (settle P (degraded (''Process exited early with return code '' @ int_str code)))
         | None \<Rightarrow> bindE (probe P s 2) (\<lambda>(reachable, _).
             if reachable then seqE (whenE detach (set_process P None)) (announce D P online running argv ''ready'')
             else seqE (answer (nap P (1 / 2))) (await_health n D P online detach s degraded running argv pid t0)))) w1 = (Val st, w')"
    unfolding await_health.simps by (auto dest!: bind_Val [THEN iffD1])
  show ?case
  proof (cases "t - t0 < 60")
    case False
    with body have "give_up P degraded pid w1 = (Val st, w')" by simp
    then have "st = degraded ''Degraded-health-timeout''"
      unfolding give_up_def seq_Val by (auto dest: settle_Val)
    with assms(2) show ?thesis by simp
  next
    case True
    with body obtain rc w2 where rest: "(case rc of
           Some code \<Rightarrow> seqE (set_process P None) (settle P (degraded (''Process exited early with return code '' @ int_str code)))
         | None \<Rightarrow> bindE (probe P s 2) (\<lambda>(reachable, _).
             if reachable then seqE (whenE detach (set_process P None)) (announce D P online running argv ''ready'')
             else seqE (answer (nap P (1 / 2))) (await_health n D P online detach s degraded running argv pid t0))) w2 = (Val st, w')"
      unfolding if_Val bind_Val by auto
    show ?thesis
    proof (cases rc)
      case (Some code)
      with rest have "st = degraded (''Process exited early with return code '' @ int_str code)"
        by (auto simp: seq_Val dest: settle_Val)
      with assms(2) show ?thesis by simp
    next
      case None
      with rest obtain reachable why w3 where p: "probe P s 2 w2 = (Val (reachable, why), w3)"
        and last: "(if reachable then seqE (whenE detach (set_process P None)) (announce D P online running argv ''ready'')
             else seqE (answer (nap P (1 / 2))) (await_health n D P online detach s degraded running argv pid t0)) w3 = (Val st, w')"
        by (auto simp: bind_Val case_prod_Val)
      show ?thesis
      proof (cases reachable)
        case True
        with last obtain w4 where a: "announce D P online running argv ''ready'' w4 = (Val st, w')" by (auto simp: seq_Val)
        then have "st = running" by (rule announce_Val)
        with p True a show ?thesis by (auto simp: announced_def dest: probe_answered)
      next
        case False with last Suc.IH show ?thesis by (auto simp: seq_Val)
      qed
    qed
  qed
qed

lemma launch_answered:
  assumes "launch_server fuel D P online detach s a lm b w = (Val st, w')"
  shows "not_ready st \<or> (\<exists>n ws. st = side_of ''running'' s (Some a) (Some lm) (JInt n) ws JNull) \<and> answered P s 2 \<and> announced D P online st w'"
  using assms unfolding launch_server_def Let_def
  by (auto simp: bind_Val liftR_Val case_prod_Val case_sum_Val seq_Val side_of_degraded
      dest!: settle_Val await_health_answered [OF _ side_of_degraded])

lemma start_cases:
  assumes "start_sidecar fuel D H P online detach s artifact m w = (Val st, w')"
  shows "not_ready st \<or> (answered P s 2 \<and> announced D P online st w' \<and> (\<exists>why. st = side_of ''adopted'' s artifact m JNull [] why)) \<or>
    (answered P s 2 \<and> announced D P online st w' \<and> (\<exists>a lm n ws. st = side_of ''running'' s (Some a) (Some lm) (JInt n) ws JNull))"
proof -
  note degraded = side_of_degraded
  from assms obtain reachable why w1 where p: "probe P s 2 w = (Val (reachable, why), w1)"
    and rest: "(if reachable
     then announce D P online (side_of ''adopted'' s artifact m JNull [] (JStr ''server reachable; adopted existing process'')) [] ''adopted''
     else case artifact of
       None \<Rightarrow> settle P (side_of ''degraded'' s None m JNull [] (JStr ''Degraded-no-sidecar-binary''))
     | Some a \<Rightarrow>
         let binary = binary_path (dk_files D) (la_profile a) a in
         bindE (artifact_binary_present (dk_files D) H (la_profile a) a) (\<lambda>there.
         if \<not> there
         then settle P (side_of ''degraded'' s artifact m JNull [] (JStr (''Degraded-no-sidecar-binary: '' @ as_posix binary)))
         else case m of
           None \<Rightarrow> settle P (side_of ''degraded'' s artifact None JNull [] (JStr ''Degraded-no-local-model-artifact''))
         | Some lm \<Rightarrow>
             bindE (outside (file_exists (dk_files D) (lm_primary lm))) (\<lambda>model_there.
             if \<not> model_there
             then settle P (side_of ''degraded'' s artifact m JNull [] (JStr ''Degraded-no-local-model-artifact''))
             else launch_server fuel D P online detach s a lm binary))) w1 = (Val st, w')"
    unfolding start_sidecar_def by (auto dest!: bind_Val [THEN iffD1])
  show ?thesis
  proof (cases reachable)
    case True
    let ?st = "side_of ''adopted'' s artifact m JNull [] (JStr ''server reachable; adopted existing process'')"
    from True rest have a: "announce D P online ?st [] ''adopted'' w1 = (Val st, w')" by simp
    then have "st = ?st" by (rule announce_Val)
    with a have "announced D P online st w'" unfolding announced_def by blast
    with p True \<open>st = ?st\<close> show ?thesis by (auto dest: probe_answered)
  next
    case False
    show ?thesis
    proof (cases artifact)
      case None with rest False show ?thesis by (auto simp: degraded dest!: settle_Val)
    next
      case (Some a)
      have launched: ?thesis if "launch_server fuel D P online detach s a lm b w2 = (Val st, w')" for lm b w2
        using launch_answered [OF that] by blast
      from rest False Some show ?thesis
        by (auto simp: Let_def bind_Val degraded split: if_splits option.splits dest!: settle_Val dest: launched)
    qed
  qed
qed


section \<open>Starting and stopping end\<close>

text \<open>
  What is assumed of the world: every call comes back (a request has a timeout, a wait has one), the clock does
  not go back, and a nap takes at least its time.
\<close>

definition keeps_time :: "'x procs \<Rightarrow> ('x \<Rightarrow> rat) \<Rightarrow> bool" where
  "keeps_time P now =
     ((\<forall>x. now x \<le> fst (wall P x) \<and> fst (wall P x) \<le> now (snd (wall P x))) \<and>
      (\<forall>x u t. now x \<le> now (snd (http_status P u t x))) \<and> (\<forall>x p. now x \<le> now (snd (poll P p x))) \<and>
      (\<forall>x p s. now x \<le> now (snd (signal P p s x))) \<and> (\<forall>x d. now x + d \<le> now (snd (nap P d x))))"

definition comes_back :: "'x desk \<Rightarrow> 'x platform \<Rightarrow> 'x procs \<Rightarrow> bool" where
  "comes_back D H P =
     ((\<forall>x u t. fst (http_status P u t x) \<noteq> Div) \<and> (\<forall>x p. fst (open_log P p x) \<noteq> Div) \<and>
      (\<forall>x a p d. fst (popen P a p d x) \<noteq> Div) \<and> (\<forall>x p. fst (terminate P p x) \<noteq> Div) \<and>
      (\<forall>x p. fst (kill_process P p x) \<noteq> Div) \<and> (\<forall>x p. fst (reap P p x) \<noteq> Div) \<and>
      (\<forall>x p s. fst (signal P p s x) \<noteq> Div) \<and> (\<forall>x p. fst (make_dir (dk_host D) p x) \<noteq> Div) \<and>
      (\<forall>x p t. fst (write_text (dk_host D) p t x) \<noteq> Div) \<and> (\<forall>x p. fst (unlink D p x) \<noteq> Div) \<and>
      (\<forall>x p. fst (file_exists (dk_files D) p x) \<noteq> Div) \<and> (\<forall>x p. fst (read_text (dk_files D) p x) \<noteq> Div) \<and>
      (\<forall>x p. fst (file_size H p x) \<noteq> Div))"

lemma comes_backD:
  assumes "comes_back D H P"
  shows "fst (http_status P u t x) \<noteq> Div" "fst (open_log P p x) \<noteq> Div" "fst (popen P a p d x) \<noteq> Div"
    "fst (terminate P n x) \<noteq> Div" "fst (kill_process P n x) \<noteq> Div" "fst (reap P n x) \<noteq> Div" "fst (signal P n sig x) \<noteq> Div"
    "fst (make_dir (dk_host D) p x) \<noteq> Div" "fst (write_text (dk_host D) p txt x) \<noteq> Div" "fst (unlink D p x) \<noteq> Div"
    "fst (file_exists (dk_files D) p x) \<noteq> Div" "fst (read_text (dk_files D) p x) \<noteq> Div" "fst (file_size H p x) \<noteq> Div"
  using assms by (simp_all add: comes_back_def del: split_paired_All)

lemma answer_runs:
  obtains a w1 where "answer f w = (Val a, w1)"
  by (cases "f (ext w)") (simp add: answer_def outside_def)

lemma halts_answer [halt]: "halts (answer f)"
  unfolding answer_def by (intro halts_outside) (simp split: prod.split)

lemma halts_catch [halt]: "halts m \<Longrightarrow> (\<And>e. halts (h e)) \<Longrightarrow> halts (catchE m h)"
  unfolding catchE_def by (intro halt)

lemma halts_bool: "halts m \<Longrightarrow> halts n \<Longrightarrow> halts (case b of True \<Rightarrow> m | False \<Rightarrow> n)"
  by (simp split: bool.split)

lemma halts_record [halt]: "halts (sidecar_event online c d)"
proof -
  have "halts ensure_system_run" unfolding ensure_system_run_def by (intro halt)
  then show ?thesis unfolding sidecar_event_def record_sidecar_event_def log_event_def by (intro halt)
qed

lemma halts_globals [halt]: "halts (recalled P)" "halts (set_current P st)" "halts (set_process P q)" "halts (settle P st)"
  unfolding settle_def set_current_def set_process_def keep_def recalled_def by (intro halt)+

locale worker =
  fixes D :: "'x desk" and H :: "'x platform" and P :: "'x procs" and now :: "'x \<Rightarrow> rat"
  assumes answers: "comes_back D H P" and time: "keeps_time P now"
begin

lemmas out = comes_backD [OF answers, THEN halts_outside]

lemma wall_time: "now x \<le> fst (wall P x)" "fst (wall P x) \<le> now (snd (wall P x))"
  using time by (auto simp: keeps_time_def)

lemma world_time:
  "now x \<le> now (snd (http_status P u t x))" "now x \<le> now (snd (poll P n x))" "now x \<le> now (snd (signal P n sg x))"
  "now x + d \<le> now (snd (nap P d x))"
  using time by (auto simp: keeps_time_def)

text \<open>An action that does not turn the clock back.\<close>

lemma later_outside: "(\<And>x. now x \<le> now (snd (f x))) \<Longrightarrow> carries (\<lambda>w. c \<le> now (ext w)) (outside f)"
  by (rule carriesI) (simp add: outside_def split_beta Let_def, blast intro: order_trans)

lemma later_probe: "carries (\<lambda>w. c \<le> now (ext w)) (probe P s t)"
proof -
  have "carries (\<lambda>w. c \<le> now (ext w)) (probe_from P s t ps r)" for ps r
    by (induction ps arbitrary: r) (simp_all only: probe_from.simps, (intro carry later_outside world_time | assumption)+)
  then show ?thesis unfolding probe_def by blast
qed

lemma later_alive: "carries (\<lambda>w. c \<le> now (ext w)) (pid_alive P v)"
  unfolding pid_alive_def by (intro carry later_outside world_time)

lemma halts_probe: "halts (probe P s t)"
proof -
  have "halts (probe_from P s t ps r)" for ps r
    by (induction ps arbitrary: r) (simp_all only: probe_from.simps, (intro halt out | assumption)+)
  then show ?thesis unfolding probe_def by blast
qed

lemma halts_alive: "halts (pid_alive P v)"
  unfolding pid_alive_def by (intro halt out)

lemma halts_announce: "halts (announce D P online st argv r)"
  unfolding announce_def write_state_def Let_def by (intro halt out)

lemma halts_clear: "halts (clear_state D)"
  unfolding clear_state_def Let_def by (intro halt out)

lemma later_nap:
  "answer (nap P d) w = (u, w1) \<Longrightarrow> c \<le> now (ext w) \<Longrightarrow> c + d \<le> now (ext w1)"
  using world_time(4) [of "ext w" d] by (auto simp: answer_def outside_def split: prod.splits)

lemma read_clock:
  "answer (wall P) w = (Val t, w1) \<Longrightarrow> now (ext w) \<le> t \<and> t \<le> now (ext w1)"
  using wall_time [of "ext w"] by (auto simp: answer_def outside_def split: prod.splits)

lemma give_up_halts: "halts (give_up P degraded pid)"
  unfolding give_up_def by (intro halt out)

lemma await_health_halts:
  assumes "t0 + 60 \<le> now (ext w) + rat_of_nat n / 2" "n < fuel"
  shows "fst (await_health fuel D P online detach s degraded running argv pid t0 w) \<noteq> Div"
  using assms
proof (induction fuel arbitrary: w n)
  case 0 then show ?case by simp
next
  case (Suc fuel)
  obtain t w1 where wall: "answer (wall P) w = (Val t, w1)" by (rule answer_runs)
  note t = wall read_clock [OF wall, THEN conjunct1] read_clock [OF wall, THEN conjunct2]
  show ?case
  proof (cases "t - t0 < 60")
    case False
    with t(1) show ?thesis using give_up_halts by (simp add: run_bind(1) halts_def)
  next
    case True
    with Suc.prems t(2) have "n \<noteq> 0" by auto
    then obtain k where k: "n = Suc k" by (cases n) auto
    define again where "again = await_health fuel D P online detach s degraded running argv pid t0"
    have next_round: "fst (seqE (answer (nap P (1 / 2))) again w3) \<noteq> Div" if "now (ext w) \<le> now (ext w3)" for w3
    proof -
      obtain w4 where nap: "answer (nap P (1 / 2)) w3 = (Val (), w4)"
        by (metis answer_runs old.unit.exhaust)
      from later_nap [OF this that] have "now (ext w) + 1 / 2 \<le> now (ext w4)" .
      with Suc.prems k have "t0 + 60 \<le> now (ext w4) + rat_of_nat k / 2" "k < fuel" by (simp_all add: field_simps)
      from Suc.IH [OF this] show ?thesis unfolding again_def by (simp add: seqE_def bindE_def nap)
    qed
    obtain rc w2 where rc: "answer (poll P pid) w1 = (Val rc, w2)"
      by (rule answer_runs)
    have w2: "now (ext w) \<le> now (ext w2)"
      using rc t world_time(2) [of "ext w1" pid] by (auto simp: answer_def outside_def split: prod.splits)
    have checked: "fst (bindE (probe P s 2) (\<lambda>(reachable, _). if reachable
        then seqE (whenE detach (set_process P None)) (announce D P online running argv ''ready'')
        else seqE (answer (nap P (1 / 2))) again) w2) \<noteq> Div"
    proof -
      have w3: "now (ext w) \<le> now (ext w3)" if "probe P s 2 w2 = (r, w3)" for r w3
        using carriesD [OF later_probe, of "now (ext w)" w2 s 2] w2 that by simp
      have "fst (seqE (whenE detach (set_process P None)) (announce D P online running argv ''ready'') w3) \<noteq> Div" for w3
        using halts_seq [OF halts_when [OF halts_globals(3)] halts_announce] by (simp add: halts_def)
      then show ?thesis
        using halts_probe w3 next_round unfolding bindE_def halts_def by (auto split: prod.splits res.splits) (metis fst_conv)+
    qed
    have gone: "halts (seqE (set_process P None) (settle P (degraded r)))" for r by (intro halt)
    show ?thesis
      using t(1) True rc checked gone unfolding again_def halts_def
      by (simp add: run_bind(1) split: option.split)
  qed
qed

lemma launch_halts:
  assumes "121 \<le> fuel"
  shows "halts (launch_server fuel D P online detach s a lm b)"
proof -
  have waits: "halts (bindE (answer (wall P)) (\<lambda>t0. await_health fuel D P online detach s degraded running argv pid t0))"
    for degraded running argv pid
  proof (rule haltsI)
    fix w :: "'x world"
    obtain t0 w1 where wall: "answer (wall P) w = (Val t0, w1)" by (rule answer_runs)
    from read_clock [OF this] have "t0 + 60 \<le> now (ext w1) + rat_of_nat 120 / 2" by simp
    from await_health_halts [OF this, of fuel] assms wall
    show "fst (bindE (answer (wall P)) (\<lambda>t0. await_health fuel D P online detach s degraded running argv pid t0) w) \<noteq> Div"
      by (simp add: bindE_def)
  qed
  show ?thesis unfolding launch_server_def Let_def by (intro halt out waits)
qed

lemma start_halts:
  assumes "121 \<le> fuel"
  shows "halts (start_sidecar fuel D H P online detach s artifact m)"
  unfolding start_sidecar_def artifact_binary_present_def Let_def
  by (intro halt out halts_probe halts_announce launch_halts [OF assms])

lemma await_death_halts:
  assumes "deadline \<le> now (ext w) + rat_of_nat n / 10" "n < fuel"
  shows "fst (await_death fuel P v deadline w) \<noteq> Div"
  using assms
proof (induction fuel arbitrary: w n)
  case 0 then show ?case by simp
next
  case (Suc fuel)
  obtain t w1 where wall: "answer (wall P) w = (Val t, w1)" by (rule answer_runs)
  note t = read_clock [OF wall]
  show ?case
  proof (cases "t < deadline")
    case False with wall show ?thesis by (simp add: bindE_def ret_def)
  next
    case True
    with Suc.prems t have "n \<noteq> 0" by auto
    then obtain k where k: "n = Suc k" by (cases n) auto
    have next_round: "fst (seqE (answer (nap P (1 / 10))) (await_death fuel P v deadline) w2) \<noteq> Div" if "now (ext w) \<le> now (ext w2)" for w2
    proof -
      obtain w4 where nap: "answer (nap P (1 / 10)) w2 = (Val (), w4)" by (metis answer_runs old.unit.exhaust)
      from later_nap [OF this that] Suc.prems k have "deadline \<le> now (ext w4) + rat_of_nat k / 10" "k < fuel"
        by (simp_all add: field_simps)
      from Suc.IH [OF this] show ?thesis by (simp add: seqE_def bindE_def nap)
    qed
    have "now (ext w) \<le> now (ext w2)" if "pid_alive P v w1 = (r, w2)" for r w2
      using carriesD [OF later_alive, of "now (ext w)" w1 v] t that by simp
    then show ?thesis
      using wall True halts_alive [unfolded halts_def] next_round
      by (auto simp: bindE_def ret_def halts_def split: prod.splits res.splits) (metis fst_conv)+
  qed
qed

lemma kill_halts:
  assumes "51 \<le> fuel" shows "halts (kill_stored fuel P pid)"
proof -
  have waits: "halts (bindE (answer (wall P)) (\<lambda>t. seqE (await_death fuel P v (t + 5)) (bindE (pid_alive P v) f)))"
    if f: "\<And>a. halts (f a)" for v f
  proof (rule haltsI)
    fix w :: "'x world"
    obtain t w1 where wall: "answer (wall P) w = (Val t, w1)" by (rule answer_runs)
    from read_clock [OF this] have "t + 5 \<le> now (ext w1) + rat_of_nat 50 / 10" by simp
    from await_death_halts [OF this, of fuel] assms have dead: "fst (await_death fuel P v (t + 5) w1) \<noteq> Div" by simp
    have "halts (bindE (pid_alive P v) f)" by (intro halt halts_alive f)
    with dead show "fst (bindE (answer (wall P)) (\<lambda>t. seqE (await_death fuel P v (t + 5)) (bindE (pid_alive P v) f)) w) \<noteq> Div"
      by (auto simp: bindE_def seqE_def wall halts_def split: prod.splits res.splits)
  qed
  show ?thesis unfolding kill_stored_def by (intro halt out waits)
qed

lemma stop_halts:
  assumes "51 \<le> fuel" shows "halts (stop_sidecar fuel D P online rooted)"
proof -
  have stored: "halts (stop_stored fuel D P)"
    unfolding stop_stored_def read_state_def Let_def
    by (intro halt halts_bool out halts_alive kill_halts [OF assms] halts_clear)
  have finished: "halts (finish_stop D P online rooted st)" for st
    unfolding finish_stop_def stop_event_def by (intro halt halts_clear)
  have own: "halts (stop_own D P online rooted c pid)" for c pid
    unfolding stop_own_def by (intro halt out finished)
  show ?thesis unfolding stop_sidecar_def stop_rest_def
    by (intro halt own finished stored halts_clear)
qed

end


section \<open>A small world\<close>

text \<open>A clock, the requests until the server is up, the processes that live, the two globals, and files by path.\<close>

record small =
  sm_clock :: rat
  sm_wait :: nat
  sm_alive :: "int list"
  sm_globals :: sidecar
  sm_disk :: disk

definition on_disk :: "(disk \<Rightarrow> 'a \<times> disk) \<Rightarrow> small \<Rightarrow> 'a \<times> small" where
  "on_disk f x = (case f (sm_disk x) of (a, d) \<Rightarrow> (a, x\<lparr>sm_disk := d\<rparr>))"

definition gone_process :: "'a res" where "gone_process = Exn (Exc ''OSError'' ''No such process'' None)"

definition no_answer :: "'a res" where "no_answer = Exn (Exc ''OSError'' ''Connection refused'' None)"

definition running_dict :: json where
  "running_dict = JObj [(''state'', JStr ''running''), (''server_id'', JStr ''llama-server''),
     (''base_url'', JStr ''http://localhost:80''), (''model_path'', JStr ''/r/models/llm/m/m.gguf''), (''profile_id'', JStr ''linux-x64-cpu''),
     (''pid'', JInt 7), (''adopted'', JBool False), (''warnings'', JList [JStr ''launch key 'parallel' is overridden by turn isolation'']), (''reason'', JNull)]"

definition small_procs :: "small procs" where
  "small_procs = \<lparr>
     http_status = (\<lambda>u t x. if sm_alive x = [] then (no_answer, x) else if sm_wait x = 0 then (Val 200, x)
        else (no_answer, x\<lparr>sm_wait := sm_wait x - 1\<rparr>)),
     http_json = (\<lambda>u x. (no_answer, x)), open_log = (\<lambda>p x. (Val (), x)),
     popen = (\<lambda>argv p d x. (Val 7, x\<lparr>sm_alive := [7]\<rparr>)),
     poll = (\<lambda>n x. (if n \<in> set (sm_alive x) then None else Some 0, x)),
     terminate = (\<lambda>n x. (Val (), x\<lparr>sm_alive := remove1 n (sm_alive x)\<rparr>)),
     kill_process = (\<lambda>n x. (Val (), x\<lparr>sm_alive := remove1 n (sm_alive x)\<rparr>)), reap = (\<lambda>n x. (Val (), x)),
     signal = (\<lambda>n s x. if n \<notin> set (sm_alive x) then (gone_process, x) else if s = ''0'' then (Val (), x)
        else (Val (), x\<lparr>sm_alive := remove1 n (sm_alive x)\<rparr>)),
     wall = (\<lambda>x. (sm_clock x, x)), nap = (\<lambda>d x. ((), x\<lparr>sm_clock := sm_clock x + d\<rparr>)),
     globals = sm_globals, set_globals = (\<lambda>g x. x\<lparr>sm_globals := g\<rparr>),
     dump = (\<lambda>v. ''state''), load = (\<lambda>s. Inr running_dict), brackets = (\<lambda>n. Inr ())\<rparr>"

definition small_files :: "small files" where
  "small_files = \<lparr>repo = (True, [''r'']), list_dir = (\<lambda>d. on_disk (list_dir (disk_files manifest_yaml) d)),
     file_exists = (\<lambda>p. on_disk (file_exists (disk_files manifest_yaml) p)), read_text = (\<lambda>p. on_disk (content_of p)),
     file_bytes = (\<lambda>p. on_disk (content_of p)), tree_files = (\<lambda>d. on_disk (tree_files (disk_files manifest_yaml) d)),
     yaml_load = manifest_yaml, hex_sha256 = (\<lambda>s. s), schema_check = (\<lambda>k v. None)\<rparr>"

definition small_host :: "small host" where
  "small_host = \<lparr>git = (\<lambda>a p x. (Val (0, [], []), x)), make_dir = (\<lambda>p x. (Val (), x)), remove_tree = (\<lambda>p. on_disk (remove_tree disk_host p)),
     write_text = (\<lambda>p b. on_disk (write_text disk_host p b)), write_bytes = (\<lambda>p b. on_disk (write_bytes disk_host p b)),
     delete_tree = (\<lambda>p. on_disk (delete_tree disk_host p)), copy_tree = (\<lambda>a b. on_disk (copy_tree disk_host a b)),
     symlink = (\<lambda>a b x. (Val (), x)), restrict_mode = (\<lambda>p x. (Val (), x)),
     is_dir = (\<lambda>p. on_disk (is_dir disk_host p)), is_file = (\<lambda>p. on_disk (is_file disk_host p)), home_dir = (True, [''h''])\<rparr>"

definition small_desk :: "small desk" where
  "small_desk = \<lparr>dk_files = small_files, dk_host = small_host, dk_gateway = no_gateway, yaml_dump = (\<lambda>j. ''yaml''),
     json_loads = (\<lambda>s. Inr JNull), json_check = (\<lambda>s i. None),
     unlink = (\<lambda>p. on_disk (\<lambda>d. (Val (), filter (\<lambda>(q, b). q \<noteq> p) d)))\<rparr>"

definition small_platform :: "small platform" where
  "small_platform = \<lparr>pl_system = ''Linux'', pl_machine = ''x86_64'',
     detectors = [(''os'', \<lambda>x. (Val (JObj [(''os_name'', JStr ''linux''), (''arch'', JStr ''x64'')]), x))],
     kept_inventory = (\<lambda>x. None), keep_inventory = (\<lambda>v x. x), kept_tokens = (\<lambda>x. Some []), keep_tokens = (\<lambda>t x. x),
     importable = (\<lambda>n x. (True, x)), activate_qnn = (\<lambda>x. (\<lparr>qa_registered = False, qa_library = None, qa_backend = None, qa_error = None\<rparr>, x)),
     ep_device_names = (\<lambda>x. ([], x)), providers = (\<lambda>x. ([], x)), qnn_backend = (\<lambda>x. (None, x)), opencl_platforms = (\<lambda>x. (0, x)),
     opencl_qualcomm = (\<lambda>x. (False, x)), which = (\<lambda>n x. (None, x)), run_process = (\<lambda>c t x. (Val (0, [], []), x)),
     cuda_devices = (\<lambda>x. (0, x)), onnx_inputs = (\<lambda>p x. (Val [], x)), file_size = (\<lambda>p x. (Val 1, x)), json_compact = (\<lambda>j. ''{}'')\<rparr>"

definition small_artifact :: llm_artifact where
  "small_artifact = \<lparr>la_profile = ''linux-x64-cpu'', la_url = ''https://host/llama.tar.gz'', la_archive = ''tar_gz'', la_binary = ''llama-server'',
     la_accelerator = ''cpu'', la_launch = [(''ctx_size'', JInt 64), (''parallel'', JInt 8), (''threads'', JStr ''auto'')]\<rparr>"

definition small_model :: local_model where
  "small_model = \<lparr>lm_name = ''m'', lm_files = [(True, [''r'', ''models'', ''llm'', ''m'', ''m.gguf''])],
     lm_primary = (True, [''r'', ''models'', ''llm'', ''m'', ''m.gguf''])\<rparr>"

definition small_world :: "nat \<Rightarrow> small world" where
  "small_world n = one_run \<lparr>sm_clock = 0, sm_wait = n, sm_alive = [], sm_globals = \<lparr>sc_process = None, sc_current = None\<rparr>,
     sm_disk = [((True, [''r'', ''models'', ''llm'', ''m'', ''m.gguf'']), ''weights''),
                (binary_path small_files ''linux-x64-cpu'' small_artifact, ''program'')]\<rparr> []"

interpretation small: worker small_desk small_platform small_procs sm_clock
proof
  show "comes_back small_desk small_platform small_procs"
    by (simp add: comes_back_def small_desk_def small_platform_def small_procs_def small_files_def small_host_def on_disk_def
        gone_process_def no_answer_def disk_files_def disk_host_def content_of_def missing_def split: prod.split option.split)
  show "keeps_time small_procs sm_clock"
    by (simp add: keeps_time_def small_procs_def)
qed

section \<open>What another worker reads\<close>

text \<open>The laws of a file system with text files, and of the two globals of the module.\<close>

definition state_laws :: "'x desk \<Rightarrow> 'x procs \<Rightarrow> ('x \<Rightarrow> path \<Rightarrow> string option) \<Rightarrow> bool" where
  "state_laws D P holds =
     (file_laws (dk_files D) (dk_host D) holds \<and>
      (\<forall>p b x x'. write_text (dk_host D) p b x = (Val (), x') \<longrightarrow> holds x' = (holds x)(p \<mapsto> b)) \<and>
      (\<forall>p b x. holds x p = Some b \<longrightarrow> read_text (dk_files D) p x = (Val b, x)) \<and>
      (\<forall>g x. holds (set_globals P g x) = holds x \<and> globals P (set_globals P g x) = g))"

text \<open>The state as a worker finds it that has just been started.\<close>

definition new_worker :: "'x procs \<Rightarrow> 'x world \<Rightarrow> 'x world" where
  "new_worker P w = w\<lparr>ext := set_globals P \<lparr>sc_process = None, sc_current = None\<rparr> (ext w)\<rparr>"

lemma event_outside: "ext (snd (sidecar_event online c d w)) = ext w"
proof -
  have "carries (\<lambda>v. ext v = ext w) (sidecar_event online c d)"
  proof -
    have "carries (\<lambda>v. ext v = ext w) (insert_run r)" "carries (\<lambda>v. ext v = ext w) utc_now_rfc3339"
      "carries (\<lambda>v. ext v = ext w) uuid7" "carries (\<lambda>v. ext v = ext w) (insert_event e)" for r e
      by (rule carriesI, simp add: insert_run_def utc_now_rfc3339_def uuid7_def insert_event_def act_defs Let_def split: if_splits)+
    then show ?thesis
      unfolding sidecar_event_def record_sidecar_event_def ensure_system_run_def log_event_def write_event_def Let_def
      by (intro carry)
  qed
  then show ?thesis by (rule carriesD) simp
qed

locale shared_state =
  fixes D :: "'x desk" and P :: "'x procs" and holds :: "'x \<Rightarrow> path \<Rightarrow> string option"
  assumes laws: "state_laws D P holds"
begin

lemma written:
  assumes "write_state D P st w = (Val u, w')"
  shows "holds (ext w') (state_path (dk_files D)) = Some (dump P (side_dict st))"
proof -
  from assms obtain x where "write_text (dk_host D) (state_path (dk_files D)) (dump P (side_dict st)) x = (Val (), ext w')"
    unfolding write_state_def Let_def seq_Val outside_Val by auto
  moreover have "write_text (dk_host D) q b x = (Val (), x') \<Longrightarrow> holds x' = (holds x)(q \<mapsto> b)" for q b x x'
    using laws unfolding state_laws_def by blast
  ultimately have "holds (ext w') = (holds x)(state_path (dk_files D) \<mapsto> dump P (side_dict st))" by blast
  then show ?thesis by simp
qed

lemma read_back:
  assumes "holds (ext w) (state_path (dk_files D)) = Some (dump P (side_dict st))"
    and "load P (dump P (side_dict st)) = Inr (side_dict st)"
  shows "read_state D P w = (Val (Some st), w)"
proof -
  let ?p = "state_path (dk_files D)"
  have "filing (dk_files D) (dk_host D) holds"
    using laws unfolding state_laws_def by (blast intro: filing.intro)
  then have "outside (file_exists (dk_files D) ?p) w = (Val True, w)"
    using filing.exists [of "dk_files D" "dk_host D" holds ?p w] assms(1) by simp
  moreover have "outside (read_text (dk_files D) ?p) w = (Val (dump P (side_dict st)), w)"
  proof -
    have "read_text (dk_files D) ?p (ext w) = (Val (dump P (side_dict st)), ext w)"
      using laws assms(1) unfolding state_laws_def by blast
    then show ?thesis by (simp add: outside_def)
  qed
  ultimately show ?thesis
    by (simp add: read_state_def Let_def bindE_def catchE_def attempt_def liftR_def andThen_def assms(2)
        status_of_side_dict ret_def)
qed

lemma forgotten: "holds (ext (new_worker P w)) = holds (ext w)" "recalled P (new_worker P w) = (Val \<lparr>sc_process = None, sc_current = None\<rparr>, new_worker P w)"
  using laws by (auto simp: new_worker_def state_laws_def recalled_def gets_def)

lemma announced_state:
  assumes "announced D P online st w"
  shows "holds (ext w) (state_path (dk_files D)) = Some (dump P (side_dict st))"
proof -
  from assms obtain argv how w0 where "announce D P online st argv how w0 = (Val st, w)" unfolding announced_def by blast
  then obtain u w1 v w2 where "write_state D P st w1 = (Val u, w2)"
    and "sidecar_event online ''llm_server_started'' (started_payload st argv how) w2 = (Val v, w)"
    unfolding announce_def seq_Val basic_Val by blast
  with written event_outside [of online "''llm_server_started''" "started_payload st argv how" w2] show ?thesis by fastforce
qed

end

text \<open>
  The state file carries the status to other workers: after a start that was not degraded, a worker that
  has started nothing itself reports the very status that start returned - server, address, model,
  profile, process, warnings - as long as the server answers and, for one that runs, its process lives.
\<close>

theorem status_reaches_other_workers:
  assumes "state_laws D P holds" "start_sidecar fuel D H P online detach s artifact m w = (Val st, w1)"
    and "ss_state st \<noteq> JStr ''degraded''" "load P (dump P (side_dict st)) = Inr (side_dict st)"
    and "if ss_adopted st then v = new_worker P w1 else pid_alive P (ss_pid st) (new_worker P w1) = (Val True, v)"
    and "probe P s timeout v = (Val (True, why), v')"
  shows "fst (sidecar_status D P (Some s) True timeout (new_worker P w1)) = Val st"
proof -
  have world: "shared_state D P holds" using assms(1) by (rule shared_state.intro)
  from start_cases [OF assms(2)] assms(3) have a: "announced D P online st w1"
    and kinds: "(\<exists>why. st = side_of ''adopted'' s artifact m JNull [] why) \<or> (\<exists>a lm n ws. st = side_of ''running'' s (Some a) (Some lm) (JInt n) ws JNull)"
    by (auto simp: not_ready_def)
  let ?w = "new_worker P w1"
  have read: "read_state D P ?w = (Val (Some st), ?w)"
    using shared_state.read_back [OF world _ assms(4)] shared_state.announced_state [OF world a] shared_state.forgotten(1) [OF world] by simp
  note facts = sidecar_status_def stored_status_def shared_state.forgotten(2) [OF world] read Let_def bindE_def ret_def
  from kinds show ?thesis
  proof
    assume "\<exists>why. st = side_of ''adopted'' s artifact m JNull [] why"
    then have "ss_adopted st" by (auto simp: side_of_def)
    with assms(5,6) show ?thesis by (simp add: facts)
  next
    assume "\<exists>a lm n ws. st = side_of ''running'' s (Some a) (Some lm) (JInt n) ws JNull"
    then have "\<not> ss_adopted st" by (auto simp: side_of_def)
    with assms(5,6) show ?thesis by (simp add: facts)
  qed
qed

section \<open>Only the world outside changes\<close>

text \<open>The rows of every table are as they were; the clock may have been read.\<close>

definition same_rows :: "'x world \<Rightarrow> 'x world \<Rightarrow> bool" where
  "same_rows w0 w = (\<exists>n x. w = w0\<lparr>now_ix := n, ext := x\<rparr>)"

lemma same_rows_refl: "same_rows w w"
  unfolding same_rows_def by (intro exI [of _ "now_ix w"] exI [of _ "ext w"]) simp

lemma same_rows_outside [carry]: "carries (same_rows w0) (outside f)"
proof (rule carriesI)
  fix w assume "same_rows w0 w"
  then obtain n x where w: "w = w0\<lparr>now_ix := n, ext := x\<rparr>" unfolding same_rows_def by blast
  have "snd (outside f w) = w0\<lparr>now_ix := n, ext := snd (f x)\<rparr>"
    by (simp add: w outside_def Let_def split_beta)
  then show "same_rows w0 (snd (outside f w))" unfolding same_rows_def by blast
qed

lemma same_rows_now [carry]: "carries (same_rows w0) utc_now_rfc3339"
proof (rule carriesI)
  fix w assume "same_rows w0 w"
  then obtain n x where w: "w = w0\<lparr>now_ix := n, ext := x\<rparr>" unfolding same_rows_def by blast
  have "snd (utc_now_rfc3339 w) = w0\<lparr>now_ix := Suc n, ext := x\<rparr>"
    by (simp add: w utc_now_rfc3339_def act_defs)
  then show "same_rows w0 (snd (utc_now_rfc3339 w))" unfolding same_rows_def by blast
qed

lemma same_rows_answer [carry]: "carries (same_rows w0) (answer f)"
  unfolding answer_def by (rule same_rows_outside)

lemma same_rows_globals [carry]: "carries (same_rows w0) (set_current P st)" "carries (same_rows w0) (set_process P q)"
  "carries (same_rows w0) (recalled P)" "carries (same_rows w0) (clear_state D)" "carries (same_rows w0) (read_state D P)"
  "carries (same_rows w0) (pid_alive P v)"
  unfolding set_current_def set_process_def keep_def recalled_def clear_state_def read_state_def pid_alive_def Let_def by (intro carry)+

lemma same_rows_servers [carry]: "carries (same_rows w0) (load_servers F)"
  unfolding load_servers_def load_servers_file_def by (intro carry)

lemma same_rows_models [carry]: "carries (same_rows w0) (local_models F H)" "carries (same_rows w0) (model_by_name F H n)"
proof -
  have "carries (same_rows w0) (local_model_in F H m)" for m
    unfolding local_model_in_def gguf_files_def by (intro carry)
  then show models: "carries (same_rows w0) (local_models F H)" unfolding local_models_def by (intro carry)
  show "carries (same_rows w0) (model_by_name F H n)" unfolding model_by_name_def by (intro carry models)
qed

lemma same_rows_index_row: "carries (same_rows w0) (resolve_registry_object F k n v)"
proof -
  have versions: "carries (same_rows w0) (versions_below F d kind)" for d kind
  proof -
    have "carries (same_rows w0) (version_names F d kind ns)" for ns
      unfolding version_names_def has_skill_md_def by (cases "k_layout kind") (simp_all, (intro carry)+)
    then show ?thesis unfolding versions_below_def by (intro carry)
  qed
  have digest: "carries (same_rows w0) (compute_digest F p kind)" for p kind
    unfolding compute_digest_def directory_digest_def by (intro carry)
  show ?thesis
    unfolding resolve_registry_object_def found_in_def verify_object_def by (intro carry versions digest)
qed

lemma same_rows_selection [carry]: "carries (same_rows w0) (current_selection F)"
proof -
  have "carries (same_rows w0) (selection_of F d c)" for d c
    unfolding selection_of_def inferred_server_def by (intro carry)
  then show ?thesis unfolding current_selection_def by (intro carry same_rows_index_row)
qed

lemma same_rows_present [carry]: "carries (same_rows w0) (path_present F q)" "carries (same_rows w0) (artifact_binary_present F H i a)"
  unfolding path_present_def artifact_binary_present_def by (intro carry)+

lemma same_rows_profile [carry]: "carries (same_rows w0) (resolve_hardware_profile_id F H)"
proof -
  have manifest: "carries (same_rows w0) (load_hardware_voice_manifest F p)" for p
    unfolding load_hardware_voice_manifest_def load_yaml_object_def by (intro carry)
  have paths: "carries (same_rows w0) (artifact_paths F f)" for f
    unfolding artifact_paths_def by (intro carry manifest same_rows_index_row)
  have detector: "carries (same_rows w0) (run_detector d s)" for d s
    unfolding run_detector_def by (cases d; cases s) (simp, intro carry)
  have inventory: "carries (same_rows w0) (collect_inventory F H b)" for b
    unfolding collect_inventory_def by (intro carry detector)
  have tokens: "carries (same_rows w0) (collect_preflight_tokens H v b)" for v b
    unfolding collect_preflight_tokens_def import_tokens_def vulkan_available_def by (intro carry)
  have rungs: "carries (same_rows w0) (climb_rungs F H s profile mdl rs why)" for s profile mdl rs why
    by (induction F H s profile mdl rs why rule: climb_rungs.induct) (simp_all only: climb_rungs.simps, (intro carry | assumption)+)
  show ?thesis
    unfolding resolve_hardware_profile_id_def selected_llm_readiness_def derive_llm_readiness_def
      derive_vad_readiness_def derive_wake_readiness_def
    by (intro carry inventory tokens rungs paths)
qed


text \<open>
  Stopping a detached server leaves no trace: the worker that started it (or any other) finds its process
  in the state file and ends it without an event, for it holds no process of its own.
\<close>

theorem detached_stop_unrecorded:
  assumes "globals P (ext w) = \<lparr>sc_process = None, sc_current = c\<rparr>" "\<forall>s. c = Some s \<longrightarrow> \<not> ss_adopted s"
  shows "same_rows w (snd (stop_sidecar fuel D P online rooted w))"
proof -
  have death: "carries (same_rows w) (await_death n P v d)" for n v d
    by (induction n) (simp_all only: await_death.simps, (intro carry | assumption)+)
  have "carries (same_rows w) (stop_rest fuel D P rooted)"
    unfolding stop_rest_def stop_stored_def kill_stored_def Let_def by (intro carry death)
  moreover have "stop_sidecar fuel D P online rooted w = stop_rest fuel D P rooted w"
    using assms by (auto simp: stop_sidecar_def recalled_def bindE_def gets_def split: option.split)
  ultimately show ?thesis using carriesD same_rows_refl by metis
qed

section \<open>Runs in the small world\<close>

definition small_server :: llm_server where
  "small_server = demo_server\<lparr>ls_base_url := ''http://localhost:80''\<rparr>"

definition small_start :: "side_status res \<times> small world" where
  "small_start = start_sidecar 5 small_desk small_platform small_procs True True small_server (Some small_artifact) (Some small_model) (small_world 1)"

lemma small_start_runs: "case small_start of (Val st, w) \<Rightarrow>
    side_dict st = running_dict \<and> ss_state st = JStr ''running'' \<and> \<not> ss_adopted st \<and> sc_process (sm_globals (ext w)) = None \<and>
    (case pid_alive small_procs (ss_pid st) (new_worker small_procs w) of (Val b, v) \<Rightarrow>
       b \<and> (case probe small_procs small_server 2 v of (Val (up, why), v') \<Rightarrow> up | _ \<Rightarrow> False) | _ \<Rightarrow> False) | _ \<Rightarrow> False"
  by code_simp

lemma small_started:
  obtains st w v why v' where "small_start = (Val st, w)" "side_dict st = running_dict" "ss_state st = JStr ''running''" "\<not> ss_adopted st"
    "pid_alive small_procs (ss_pid st) (new_worker small_procs w) = (Val True, v)"
    "probe small_procs small_server 2 v = (Val (True, why), v')"
proof -
  obtain r w where s: "small_start = (r, w)" by (cases small_start) blast
  from small_start_runs obtain st where r: "r = Val st" unfolding s prod.case by (cases r) auto
  obtain a v where a: "pid_alive small_procs (ss_pid st) (new_worker small_procs w) = (a, v)" by fastforce
  obtain b v' where b: "probe small_procs small_server 2 v = (b, v')" by fastforce
  note facts = small_start_runs [unfolded s r prod.case res.case a]
  then obtain alive where alive: "a = Val alive" by (cases a) auto
  with facts b obtain up why where up: "b = Val (up, why)" by (cases b) auto
  from facts b show thesis
    by (intro that [OF s [unfolded r], of v why v']) (simp_all add: a alive up)
qed


theorem isolation_is_not_configurable_witness:
  "\<exists>front warnings. build_command small_procs (True, [''a'']) (True, [''b'']) ''http://localhost:80'' [(''parallel'', JInt 8)] =
     Inr (front @ isolation_flags, warnings) \<and> ''launch key 'parallel' is overridden by turn isolation'' \<in> set warnings"
proof -
  have "case build_command small_procs (True, [''a'']) (True, [''b'']) ''http://localhost:80'' [(''parallel'', JInt 8)] of
      Inr (argv, ws) \<Rightarrow> True | Inl e \<Rightarrow> False" by code_simp
  then obtain argv ws where b: "build_command small_procs (True, [''a'']) (True, [''b'']) ''http://localhost:80'' [(''parallel'', JInt 8)] = Inr (argv, ws)"
    by (auto split: sum.splits)
  have k: "''launch key '' @ quoted ''parallel'' @ '' is overridden by turn isolation'' = ''launch key 'parallel' is overridden by turn isolation''"
    "''parallel'' \<in> set turn_isolation_keys" by code_simp+
  from isolation_is_not_configurable [OF b] b k show ?thesis by auto
qed


interpretation small_state: shared_state small_desk small_procs "\<lambda>x. map_of (sm_disk x)"
proof
  have disk: "file_laws (disk_files manifest_yaml) disk_host (\<lambda>x. map_of (x :: disk))" by (rule stored.laws)
  have "file_laws small_files small_host (\<lambda>x. map_of (sm_disk x))"
    unfolding file_laws_def
  proof (intro conjI allI impI)
    fix d n and x :: small assume "map_of (sm_disk x) (fst d, snd d @ [n]) \<noteq> None"
    from name_in_dir [OF this] show "\<exists>ns. list_dir small_files d x = (Val (Some ns), x) \<and> n \<in> set ns"
      by (auto simp: small_files_def disk_files_def on_disk_def)
  qed (auto simp: small_files_def small_host_def disk_files_def disk_host_def on_disk_def content_of_def update_conv' split: option.splits)
  then show "state_laws small_desk small_procs (\<lambda>x. map_of (sm_disk x))"
    by (auto simp: state_laws_def small_desk_def small_files_def small_host_def small_procs_def disk_host_def on_disk_def content_of_def update_conv')
qed

theorem status_reaches_other_workers_witness:
  "case small_start of (Val st, w) \<Rightarrow> fst (sidecar_status small_desk small_procs (Some small_server) True 2 (new_worker small_procs w)) = Val st
   | _ \<Rightarrow> False"
proof -
  obtain st w v why v' where s: "small_start = (Val st, w)" "side_dict st = running_dict" "ss_state st = JStr ''running''" "\<not> ss_adopted st"
    and v: "pid_alive small_procs (ss_pid st) (new_worker small_procs w) = (Val True, v)" "probe small_procs small_server 2 v = (Val (True, why), v')"
    by (rule small_started)
  have "ss_state st \<noteq> JStr ''degraded''" "load small_procs (dump small_procs (side_dict st)) = Inr (side_dict st)"
    using s by (simp_all add: small_procs_def)
  moreover have "if ss_adopted st then v = new_worker small_procs w else pid_alive small_procs (ss_pid st) (new_worker small_procs w) = (Val True, v)"
    using s(4) v(1) by simp
  ultimately have "fst (sidecar_status small_desk small_procs (Some small_server) True 2 (new_worker small_procs w)) = Val st"
    using status_reaches_other_workers [OF small_state.laws s(1) [unfolded small_start_def]] v(2) by blast
  then show ?thesis unfolding s(1) prod.case res.case .
qed

definition remote_yaml :: "string \<Rightarrow> json result" where
  "remote_yaml t = Inr (JObj [(''metadata'', JObj [(''name'', JStr ''default''), (''version'', JStr ''1.0.0'')]),
     (''spec'', JObj [(''default_server'', JStr ''far''), (''servers'', JObj [(''far'', JObj [(''managed'', JBool False),
       (''base_url'', JStr ''https://far.example''), (''openai_base_path'', JStr ''/v1''), (''provider'', JStr ''openai''),
       (''health_paths'', JList [JStr ''/health''])])])])])"

definition remote_desk :: "disk desk" where "remote_desk = demo_desk remote_yaml"

definition remote_world :: "disk world" where
  "remote_world = one_run [(sub_path (sub_path (sub_path (config_root (disk_files remote_yaml)) ''llm-servers'') ''default'') ''1.0.0.yaml'', ''servers'')] []"

definition idle_platform :: "disk platform" where
  "idle_platform = \<lparr>pl_system = ''Linux'', pl_machine = ''x86_64'', detectors = [],
     kept_inventory = (\<lambda>x. None), keep_inventory = (\<lambda>v x. x), kept_tokens = (\<lambda>x. Some []), keep_tokens = (\<lambda>t x. x),
     importable = (\<lambda>n x. (True, x)), activate_qnn = (\<lambda>x. (\<lparr>qa_registered = False, qa_library = None, qa_backend = None, qa_error = None\<rparr>, x)),
     ep_device_names = (\<lambda>x. ([], x)), providers = (\<lambda>x. ([], x)), qnn_backend = (\<lambda>x. (None, x)), opencl_platforms = (\<lambda>x. (0, x)),
     opencl_qualcomm = (\<lambda>x. (False, x)), which = (\<lambda>n x. (None, x)), run_process = (\<lambda>c t x. (Val (0, [], []), x)),
     cuda_devices = (\<lambda>x. (0, x)), onnx_inputs = (\<lambda>p x. (Val [], x)), file_size = (\<lambda>p x. (Val 1, x)), json_compact = (\<lambda>j. ''{}'')\<rparr>"


definition idle_procs :: "disk procs" where
  "idle_procs = \<lparr>http_status = (\<lambda>u t x. (no_answer, x)), http_json = (\<lambda>u x. (no_answer, x)), open_log = (\<lambda>p x. (Val (), x)),
     popen = (\<lambda>argv p d x. (no_answer, x)), poll = (\<lambda>n x. (None, x)), terminate = (\<lambda>n x. (Val (), x)),
     kill_process = (\<lambda>n x. (Val (), x)), reap = (\<lambda>n x. (Val (), x)), signal = (\<lambda>n s x. (gone_process, x)),
     wall = (\<lambda>x. (0, x)), nap = (\<lambda>d x. ((), x)), globals = (\<lambda>x. \<lparr>sc_process = None, sc_current = None\<rparr>),
     set_globals = (\<lambda>g x. x), dump = (\<lambda>v. []), load = (\<lambda>s. Inr JNull), brackets = (\<lambda>n. Inr ())\<rparr>"


end
