(* ===== verification/Awf_System.thy ===== *)
theory Awf_System
  imports Awf_Sidecar
begin

text \<open>
  The system operations (ops/system.py): readiness of the host, the doctor with its checks, and secrets by
  name.  A check is the dict the code builds; the interpreter that runs and the operating system are
  parameters.
\<close>

section \<open>Checks\<close>

text \<open>
  sys.executable, sys.version_info[:2], the first word of sys.version, os.name, and Path.resolve as text.
\<close>

record 'x interpreter =
  in_executable :: string
  in_version :: "int list"
  in_version_text :: string
  in_os :: string
  in_resolve :: "string \<Rightarrow> 'x \<Rightarrow> string res \<times> 'x"

definition doctor_check :: "string \<Rightarrow> string \<Rightarrow> string \<Rightarrow> obj \<Rightarrow> string option \<Rightarrow> obj" where
  "doctor_check name status summary more_detail next_action =
     [(''name'', JStr name), (''status'', JStr status), (''summary'', JStr summary), (''detail'', JObj more_detail),
      (''next_action'', jopt next_action)]"

definition check_status :: "obj \<Rightarrow> string" where
  "check_status c = py_str (get ''status'' c)"

definition doctor_overall :: "obj list \<Rightarrow> string" where
  "doctor_overall checks =
     (if list_ex (\<lambda>c. check_status c = ''error'') checks then ''error''
      else if list_ex (\<lambda>c. check_status c = ''warn'') checks then ''warn'' else ''ok'')"

text \<open>Whether the command is there, and the first line of what it prints; five seconds at most.\<close>

definition command_version :: "'x platform \<Rightarrow> string \<Rightarrow> ('x, bool \<times> string option) op" where
  "command_version H command =
     bindE (answer (which H command)) (\<lambda>found. case found of
         None \<Rightarrow> ret (False, None)
       | Some executable \<Rightarrow>
           bindE (attempt (outside (run_process H [executable, ''--version''] 5))) (\<lambda>r. case r of
               Inl e \<Rightarrow> ret (True, Some (exc_text e))
             | Inr (code, out, err) \<Rightarrow>
                 ret (True, (case splitlines (strip (if out \<noteq> [] then out else err)) of [] \<Rightarrow> None | l # _ \<Rightarrow> Some l))))"

text \<open>repo_python_executable (pyexec.py), with its marker.\<close>

definition python_choice :: "'x host \<Rightarrow> path \<Rightarrow> ('x, (string \<times> string) option) op" where
  "python_choice T base_dir =
     (let windows = sub_path base_dir ''backend/.venv/Scripts/python.exe''; linux = sub_path base_dir ''backend/.venv/bin/python'' in
      bindE (outside (is_file T windows)) (\<lambda>a.
      if a then ret (Some (''windows-venv'', as_posix windows))
      else bindE (outside (is_file T linux)) (\<lambda>b. ret (if b then Some (''linux-venv'', as_posix linux) else None))))"

definition doctor_python :: "'x interpreter \<Rightarrow> 'x host \<Rightarrow> path \<Rightarrow> ('x, obj) op" where
  "doctor_python N T base_dir =
     bindE (python_choice T base_dir) (\<lambda>selected.
     let expected = map_option snd selected;
         more_detail = [(''executable'', JStr (in_executable N)), (''expected'', jopt expected)] in
     bindE (case expected of
         None \<Rightarrow> ret False
       | Some p \<Rightarrow> bindE (outside (in_resolve N (in_executable N))) (\<lambda>a. bindE (outside (in_resolve N p)) (\<lambda>b. ret (a = b)))) (\<lambda>in_repo.
       ret (if \<not> ([3, 12] \<le> in_version N \<and> in_version N < [3, 15])
            then doctor_check ''python'' ''error'' (''Python '' @ in_version_text N @ '' is outside the supported >=3.12,<3.15 range.'')
              more_detail (Some ''Recreate backend/.venv with Python 3.12, 3.13, or 3.14.'')
            else if \<not> in_repo
            then doctor_check ''python'' ''warn'' ''Current Python is supported but is not the repo venv interpreter.'' more_detail
              (Some ''Run commands through backend/.venv/Scripts/python.exe on Windows or backend/.venv/bin/python on Linux.'')
            else doctor_check ''python'' ''ok'' (''Using repo venv Python '' @ in_version_text N @ ''.'')
              [(''executable'', JStr (in_executable N)), (''marker'', jopt (map_option fst selected))] None)))"

text \<open>The version of Node.js as numbers: three parts at most, each of which int() accepts.\<close>

definition node_parts :: "string option \<Rightarrow> int list option" where
  "node_parts v = (case v of
       Some (c # rest) \<Rightarrow>
         if c \<noteq> CHR ''v'' then None
         else (let ps = map parse_int (take 3 (split_on (CHR ''.'') rest)) in
               if None \<in> set ps then None else Some (map the ps))
     | _ \<Rightarrow> None)"

definition node_requirement :: string where
  "node_requirement = ''Node.js 24 LTS >=24.15.0''"

definition modules_check :: "'x host \<Rightarrow> path \<Rightarrow> obj \<Rightarrow> ('x, obj) op" where
  "modules_check T modules more_detail =
     bindE (outside (is_dir T modules)) (\<lambda>there.
       ret (if \<not> there
            then doctor_check ''frontend'' ''warn'' ''Frontend dependencies are not installed.'' more_detail (Some ''Run `npm --prefix frontend install`.'')
            else doctor_check ''frontend'' ''ok'' ''Node, npm, and frontend dependencies are present.'' more_detail None))"

definition doctor_node :: "'x platform \<Rightarrow> 'x host \<Rightarrow> path \<Rightarrow> bool \<Rightarrow> ('x, obj) op" where
  "doctor_node H T base_dir with_versions =
     (let probe_command = (\<lambda>c. if with_versions then command_version H c
            else bindE (answer (which H c)) (\<lambda>f. ret (f \<noteq> None, None))) in
      bindE (probe_command ''node'') (\<lambda>(node_present, node_version).
      bindE (probe_command ''npm'') (\<lambda>(npm_present, npm_version).
      let modules = sub_path base_dir ''frontend/node_modules'';
          more_detail = [(''node'', jopt node_version), (''npm'', jopt npm_version), (''node_modules'', JStr (as_posix modules))] in
      if \<not> node_present \<or> \<not> npm_present
      then ret (doctor_check ''frontend'' ''warn'' ''Node.js or npm is not available; CLI/GUI frontends cannot run from this shell.'' more_detail
        (Some (''Install '' @ node_requirement @ '' and run `npm --prefix frontend install`.'')))
      else case node_parts node_version of
        Some ps \<Rightarrow>
          if ps < [24, 15, 0]
          then ret (doctor_check ''frontend'' ''warn'' (''Node.js '' @ the node_version @ '' is below the frontend requirement.'') more_detail
            (Some (''Install '' @ node_requirement @ '' and rerun `npm --prefix frontend install`.'')))
          else modules_check T modules more_detail
      | None \<Rightarrow> modules_check T modules more_detail)))"

definition default_objects :: "(string \<times> string) list" where
  "default_objects = [(''config/app_registry/workflows/assistant-default/1.0.0.yaml'', ''workflows''),
     (''config/app_registry/capabilities/assistant_reply/1.0.0.yaml'', ''capabilities'')]"

primrec doctor_registry_from :: "'x desk \<Rightarrow> obj list \<Rightarrow> (string \<times> string) list \<Rightarrow> ('x, obj) op" where
  "doctor_registry_from D results [] =
     ret (doctor_check ''registry'' ''ok'' ''Default assistant workflow and capability validate.'' [(''validated'', JList (map JObj results))] None)"
| "doctor_registry_from D results (t # ts) =
     (let p = sub_path (repo (dk_files D)) (fst t) in
      bindE (outside (file_exists (dk_files D) p)) (\<lambda>there.
      if \<not> there
      then ret (doctor_check ''registry'' ''error'' (''Required default registry object is missing: '' @ fst t)
        [(''path'', JStr (as_posix p)), (''kind'', JStr (snd t))] (Some ''Restore the repo-tracked default registry object.''))
      else bindE (attempt (op_registry_validate D p (Some (snd t)))) (\<lambda>r. case r of
          Inl e \<Rightarrow> ret (doctor_check ''registry'' ''error'' (''Default registry object failed validation: '' @ fst t)
            [(''path'', JStr (as_posix p)), (''kind'', JStr (snd t)), (''error'', JStr (exc_text e))]
            (Some ''Fix or restore the invalid default registry object.''))
        | Inr reply \<Rightarrow> doctor_registry_from D (results @ [reply]) ts)))"

definition doctor_registry :: "'x desk \<Rightarrow> ('x, obj) op" where
  "doctor_registry D = doctor_registry_from D [] default_objects"

definition db_path :: "path \<Rightarrow> path" where
  "db_path base_dir = sub_path base_dir ''data/awf_db/awf.db''"

definition doctor_database :: "'x files \<Rightarrow> ('x, obj) op" where
  "doctor_database F =
     (let p = db_path (repo F) in
      bindE (outside (file_exists F p)) (\<lambda>there.
        ret (if \<not> there
             then doctor_check ''database'' ''error'' ''AWF database has not been bootstrapped.'' [(''path'', JStr (as_posix p))]
               (Some ''Run `awf-setup` from the repo venv.'')
             else doctor_check ''database'' ''ok'' ''AWF database exists.'' [(''path'', JStr (as_posix p))] None)))"

definition placeholder_key :: string where "placeholder_key = ''<your-secret-key-here>''"

definition doctor_env :: "'x files \<Rightarrow> ('x, obj) op" where
  "doctor_env F =
     (let p = env_path (repo F) in
      bindE (outside (file_exists F p)) (\<lambda>there.
      if \<not> there
      then ret (doctor_check ''env'' ''error'' ''.env is missing.'' [(''path'', JStr (as_posix p))] (Some ''Run `awf-setup` to generate local secrets.''))
      else bindE (attempt (outside (get_env_value F p ''AWF_SECRET_KEY''))) (\<lambda>r. case r of
          Inl e \<Rightarrow> ret (doctor_check ''env'' ''error'' ''.env does not contain a usable AWF_SECRET_KEY.'' [(''error'', JStr (exc_text e))]
            (Some ''Regenerate .env with `awf-setup` or restore the correct local key.''))
        | Inr key \<Rightarrow>
            ret (if key = [] \<or> key = placeholder_key
                 then doctor_check ''env'' ''error'' ''.env still contains a placeholder secret key.'' []
                   (Some ''Run `awf-setup` or replace AWF_SECRET_KEY with a generated local key.'')
                 else doctor_check ''env'' ''ok'' ''.env contains a local AWF secret key.'' [] None))))"

definition doctor_paths :: "'x interpreter \<Rightarrow> 'x host \<Rightarrow> path \<Rightarrow> ('x, obj) op" where
  "doctor_paths N T base_dir =
     bindE (mapE (\<lambda>n. bindE (outside (is_dir T (sub_path base_dir n))) (\<lambda>there. ret (if there then [] else [n])))
              [''cache/temp'', ''cache/sandbox'']) (\<lambda>found.
       let gone = concat found in
       ret (if gone \<noteq> []
            then doctor_check ''local_paths'' ''warn'' ''Some local cache directories are missing.''
              [(''missing'', JList (map JStr gone)), (''platform'', JStr (in_os N))]
              (Some ''Run `awf-setup`; Windows operators should use cache/temp for temp-heavy commands.'')
            else doctor_check ''local_paths'' ''ok'' ''Local cache and sandbox paths exist.''
              [(''cache_temp'', JStr (as_posix (sub_path base_dir ''cache/temp''))),
               (''cache_sandbox'', JStr (as_posix (sub_path base_dir ''cache/sandbox''))), (''platform'', JStr (in_os N))] None))"

definition agent_commands :: "(string \<times> string) list" where
  "agent_commands = [(''codex'', ''codex''), (''claude-code'', ''claude''), (''antigravity'', ''antigravity''), (''copilot'', ''gh''), (''cline'', ''cline'')]"

definition doctor_agent_clis :: "'x platform \<Rightarrow> bool \<Rightarrow> ('x, obj) op" where
  "doctor_agent_clis H with_versions =
     bindE (mapE (\<lambda>(adapter, c).
              bindE (if with_versions then command_version H c else bindE (answer (which H c)) (\<lambda>f. ret (f \<noteq> None, None))) (\<lambda>(there, v).
                ret (adapter, there, v))) agent_commands) (\<lambda>found.
       let shown = map (\<lambda>(adapter, there, v). (adapter, JObj [(''present'', JBool there), (''version'', jopt v)])) found in
       ret (if list_ex (\<lambda>(adapter, there, v). there) found
            then doctor_check ''agent_clis'' ''ok'' ''At least one implementation agent CLI is visible.'' shown None
            else doctor_check ''agent_clis'' ''warn'' ''No implementation agent CLI is visible; first-run assistant still works.'' shown
              (Some (''Install and authenticate Codex, Claude Code, Antigravity, GitHub Copilot CLI, or Cline before running '' @
                ''implementation workflows.''))))"

definition doctor_speech :: "obj \<Rightarrow> obj result" where
  "doctor_speech readiness =
     andThen (get_attr (get_or ''readiness'' (JObj []) readiness)) (\<lambda>results.
       let speech = filter (\<lambda>(n, r). n \<in> {''stt'', ''tts'', ''vad'', ''wake''}) results in
       if speech = []
       then Inr (doctor_check ''speech'' ''warn'' ''Speech readiness is unavailable.'' readiness
         (Some ''Run `awf-speech models verify`; run `awf-speech models sync` if artifacts are missing.''))
       else andThen (mapR (\<lambda>(n, r). get_attr r) speech) (\<lambda>ds.
         Inr (if list_all (\<lambda>d. truthy (get ''ready'' d)) ds
              then doctor_check ''speech'' ''ok'' ''Speech readiness checks are ready.'' speech None
              else doctor_check ''speech'' ''warn'' ''One or more speech functions are not ready.'' speech
                (Some ''Run `awf-speech models verify`, then `awf-speech models sync` for missing artifacts.''))))"

section \<open>The operations\<close>

definition op_secret_set :: "'x files \<Rightarrow> 'x cipher \<Rightarrow> string \<Rightarrow> string \<Rightarrow> ('x, obj) op" where
  "op_secret_set F C name secret_value =
     bindE (outside (get_env_value F (env_path (repo F)) ''AWF_SECRET_KEY'')) (\<lambda>key.
     if \<not> list_all (\<lambda>c. c \<le> CHR 0x7F) key then throw ''UnicodeEncodeError'' ''ordinal not in range(128)''
     else seqE (set_secret C name secret_value key) (ret [(''name'', JStr name), (''status'', JStr ''set'')]))"

definition op_secret_list_names :: "('x, string list) op" where
  "op_secret_list_names = list_secret_names"

definition readiness_reply :: "string \<Rightarrow> host_profile \<Rightarrow> obj" where
  "readiness_reply profile p = [(''profile_id'', JStr profile), (''inventory'', JObj (inventory_dict (hp_inventory p))),
     (''tokens'', JList (map JStr (hp_tokens p))), (''readiness'', JObj (map (\<lambda>(n, r). (n, readiness_dict r)) (hp_readiness p)))]"

definition op_system_readiness :: "'x files \<Rightarrow> 'x platform \<Rightarrow> ('x, obj) op" where
  "op_system_readiness F H =
     catchE (bindE (resolve_hardware_profile_id F H) (\<lambda>(profile, p). ret (readiness_reply profile p)))
       (\<lambda>e. ret [(''profile_id'', JNull), (''inventory'', JNull), (''tokens'', JList []), (''readiness'', JObj []), (''error'', JStr (exc_text e))])"

definition first_run_command :: string where
  "first_run_command = ''awf run assistant-default@1.0.0 --objective \"check the system\"''"

definition doctor_reply :: "obj list \<Rightarrow> obj \<Rightarrow> obj" where
  "doctor_reply checks readiness =
     [(''status'', JStr (doctor_overall checks)), (''checks'', JList (map JObj checks)), (''readiness'', JObj readiness),
      (''next_actions'', JList (filter truthy (map (get ''next_action'') checks))), (''first_run_command'', JStr first_run_command)]"

definition op_system_doctor :: "'x desk \<Rightarrow> 'x platform \<Rightarrow> 'x interpreter \<Rightarrow> obj option \<Rightarrow> bool \<Rightarrow> ('x, obj) op" where
  "op_system_doctor D H N given quick =
     (let F = dk_files D; T = dk_host D; base_dir = repo F in
      bindE (case given of Some (x # d) \<Rightarrow> ret (x # d) | _ \<Rightarrow> op_system_readiness F H) (\<lambda>readiness.
      bindE (doctor_python N T base_dir) (\<lambda>c1. bindE (doctor_env F) (\<lambda>c2. bindE (doctor_database F) (\<lambda>c3.
      bindE (doctor_paths N T base_dir) (\<lambda>c4. bindE (doctor_registry D) (\<lambda>c5. bindE (doctor_node H T base_dir (\<not> quick)) (\<lambda>c6.
      bindE (doctor_agent_clis H (\<not> quick)) (\<lambda>c7. bindE (liftR (doctor_speech readiness)) (\<lambda>c8.
        ret (doctor_reply [c1, c2, c3, c4, c5, c6, c7, c8] readiness)))))))))))"

section \<open>What the doctor concludes\<close>

text \<open>A check is ok exactly when it asks for nothing.\<close>

definition plain_check :: "obj \<Rightarrow> bool" where
  "plain_check c = ((check_status c = ''ok'' \<and> get ''next_action'' c = JNull) \<or>
     (check_status c \<in> {''warn'', ''error''} \<and> truthy (get ''next_action'' c)))"

lemma plain_ok [simp]: "plain_check (doctor_check n ''ok'' s d None)"
  by (simp add: plain_check_def check_status_def doctor_check_def get_def jopt_def py_str_def)

lemma plain_warn [simp]: "a \<noteq> [] \<Longrightarrow> plain_check (doctor_check n ''warn'' s d (Some a))"
  by (simp add: plain_check_def check_status_def doctor_check_def get_def jopt_def py_str_def)

lemma plain_error [simp]: "a \<noteq> [] \<Longrightarrow> plain_check (doctor_check n ''error'' s d (Some a))"
  by (simp add: plain_check_def check_status_def doctor_check_def get_def jopt_def py_str_def)

text \<open>What holds of every value an action can return, taken apart along its structure.\<close>

definition yields :: "('a \<Rightarrow> bool) \<Rightarrow> ('w, 'a) act \<Rightarrow> bool" where
  "yields Q m = (\<forall>w a w'. m w = (Val a, w') \<longrightarrow> Q a)"

named_theorems yield

lemma yieldsD: "yields Q m \<Longrightarrow> m w = (Val a, w') \<Longrightarrow> Q a"
  unfolding yields_def by blast

lemma yields_ret [yield]: "Q a \<Longrightarrow> yields Q (ret a)"
  by (auto simp: yields_def basic_Val)

lemma yields_bind [yield]: "(\<And>a. yields Q (f a)) \<Longrightarrow> yields Q (bindE m f)"
  unfolding yields_def bind_Val by blast

lemma yields_if [yield]: "(b \<Longrightarrow> yields Q m) \<Longrightarrow> (\<not> b \<Longrightarrow> yields Q n) \<Longrightarrow> yields Q (if b then m else n)"
  by simp

lemma yields_cases [yield]:
  "(\<And>a b. x = (a, b) \<Longrightarrow> yields Q (f a b)) \<Longrightarrow> yields Q (case x of (a, b) \<Rightarrow> f a b)"
  "(\<And>a. s = Inl a \<Longrightarrow> yields Q (g a)) \<Longrightarrow> (\<And>b. s = Inr b \<Longrightarrow> yields Q (h b)) \<Longrightarrow> yields Q (case s of Inl a \<Rightarrow> g a | Inr b \<Rightarrow> h b)"
  "(p = None \<Longrightarrow> yields Q m) \<Longrightarrow> (\<And>a. p = Some a \<Longrightarrow> yields Q (k a)) \<Longrightarrow> yields Q (case p of None \<Rightarrow> m | Some a \<Rightarrow> k a)"
  by (simp_all split: prod.split sum.split option.split)

lemma yields_let [yield]: "(\<And>x. x = v \<Longrightarrow> yields Q (f x)) \<Longrightarrow> yields Q (Let v f)"
  by (simp add: Let_def)

lemma doctor_registry_plain [yield]: "yields plain_check (doctor_registry D)"
proof -
  have "yields plain_check (doctor_registry_from D rs ts)" for rs ts
    by (induction ts arbitrary: rs) (simp_all only: doctor_registry_from.simps, (intro yield | assumption | simp)+)
  then show ?thesis unfolding doctor_registry_def by blast
qed

lemma plain_if: "(b \<Longrightarrow> plain_check c) \<Longrightarrow> (\<not> b \<Longrightarrow> plain_check d) \<Longrightarrow> plain_check (if b then c else d)"
  by simp

lemma checks_plain [yield]:
  "yields plain_check (doctor_python N T p)" "yields plain_check (doctor_env F)" "yields plain_check (doctor_database F)"
  "yields plain_check (doctor_paths N T p)" "yields plain_check (modules_check T q d)" "yields plain_check (doctor_agent_clis H b)"
  unfolding doctor_python_def doctor_env_def doctor_database_def doctor_paths_def modules_check_def doctor_agent_clis_def
  by (intro yield plain_if; simp)+

lemma doctor_node_plain [yield]: "yields plain_check (doctor_node H T p b)"
  unfolding doctor_node_def by (intro yield; simp)

lemma doctor_speech_plain: "doctor_speech r = Inr c \<Longrightarrow> plain_check c"
  by (auto simp: doctor_speech_def andThen_def Let_def split: sum.splits if_splits)

lemma speech_plain: "yields plain_check (liftR (doctor_speech r))"
  by (auto simp: yields_def liftR_Val doctor_speech_plain)

lemma yields_then: "yields R m \<Longrightarrow> (\<And>a. R a \<Longrightarrow> yields Q (f a)) \<Longrightarrow> yields Q (bindE m f)"
  unfolding yields_def bind_Val by blast

lemma overall_ok: "list_all plain_check cs \<Longrightarrow> doctor_overall cs = ''ok'' \<longleftrightarrow> filter truthy (map (get ''next_action'') cs) = []"
proof -
  assume plain: "list_all plain_check cs"
  have "doctor_overall cs = ''ok'' \<longleftrightarrow> (\<forall>c \<in> set cs. check_status c \<noteq> ''error'' \<and> check_status c \<noteq> ''warn'')"
    by (auto simp: doctor_overall_def list_ex_iff)
  also have "\<dots> \<longleftrightarrow> (\<forall>c \<in> set cs. \<not> truthy (get ''next_action'' c))"
    using plain by (auto simp: list_all_iff plain_check_def)
  finally show ?thesis by (auto simp: filter_empty_conv)
qed

text \<open>
  The doctor's verdict is what its checks say: it reports ok exactly when no check asks for an action, and
  it lists an action for every check that is not ok.
\<close>

theorem doctor_asks_iff_not_ok:
  assumes "op_system_doctor D H N given quick w = (Val r, w')"
  shows "\<exists>checks asks. get ''checks'' r = JList (map JObj checks) \<and> get ''next_actions'' r = JList asks \<and> length checks = 8 \<and>
    (get ''status'' r = JStr ''ok'' \<longleftrightarrow> asks = []) \<and> (\<forall>c \<in> set checks. check_status c = ''ok'' \<or> get ''next_action'' c \<in> set asks)"
proof -
  let ?reply = "\<lambda>r. \<exists>cs readiness. r = doctor_reply cs readiness \<and> length cs = 8 \<and> list_all plain_check cs"
  have "yields ?reply (op_system_doctor D H N given quick)"
    unfolding op_system_doctor_def
    by (intro yields_let yields_bind [where m = "case_option _ _ _"] yields_then [OF checks_plain(1)] yields_then [OF checks_plain(2)]
        yields_then [OF checks_plain(3)] yields_then [OF checks_plain(4)] yields_then [OF doctor_registry_plain] yields_then [OF doctor_node_plain]
        yields_then [OF checks_plain(6)] yields_then [OF speech_plain] yields_ret exI conjI) (rule refl, simp, simp)
  from yieldsD [OF this assms] obtain cs readiness where r: "r = doctor_reply cs readiness" "length cs = 8" "list_all plain_check cs"
    by blast
  let ?asks = "filter truthy (map (get ''next_action'') cs)"
  have fields: "get ''checks'' r = JList (map JObj cs)" "get ''next_actions'' r = JList ?asks" "get ''status'' r = JStr (doctor_overall cs)"
    by (simp_all add: r(1) doctor_reply_def get_def)
  have "\<forall>c \<in> set cs. check_status c = ''ok'' \<or> get ''next_action'' c \<in> set ?asks"
    using r(3) by (auto simp: list_all_iff plain_check_def)
  with fields r(2) overall_ok [OF r(3)] show ?thesis by (intro exI [of _ cs] exI [of _ ?asks]) simp
qed

definition small_interpreter :: "small interpreter" where
  "small_interpreter = \<lparr>in_executable = ''/usr/bin/python3'', in_version = [3, 12], in_version_text = ''3.12.1'', in_os = ''posix'',
     in_resolve = (\<lambda>p x. (Val p, x))\<rparr>"

theorem doctor_asks_iff_not_ok_witness:
  "case fst (op_system_doctor small_desk small_platform small_interpreter (Some [(''readiness'', JObj [])]) True (small_world 0)) of
     Val r \<Rightarrow> get ''status'' r = JStr ''error'' \<and> get ''next_actions'' r \<noteq> JList [] | _ \<Rightarrow> False"
proof -
  let ?o = "op_system_doctor small_desk small_platform small_interpreter (Some [(''readiness'', JObj [])]) True (small_world 0)"
  have "case fst ?o of Val r \<Rightarrow> get ''status'' r = JStr ''error'' | _ \<Rightarrow> False" by code_simp
  then obtain r where r: "fst ?o = Val r" "get ''status'' r = JStr ''error''" by (cases "fst ?o") auto
  then have o: "?o = (Val r, snd ?o)" by (metis prod.collapse)
  from doctor_asks_iff_not_ok [OF o] r(2) have "get ''next_actions'' r \<noteq> JList []" by auto
  with r show ?thesis by simp
qed

end
