(* ===== verification/Awf_Control.thy ===== *)
theory Awf_Control
  imports Awf_System "HOL-Library.Product_Lexorder"
begin

text \<open>
  The control centre (ops/control.py): what needs the operator's attention, derived from runs, approvals,
  improvement proposals, readiness, the doctor and the model server; the timeline of a run; the options to
  start work; the snapshot of events.  The dicts that the code passes on are JSON objects.
\<close>

section \<open>Actions and work items\<close>

definition action_keys :: "string list" where
  "action_keys = [''description'', ''run_id'', ''approval_id'', ''improvement_id'', ''artifact_id'', ''workflow_ref'', ''registry_kind'',
     ''registry_name'', ''registry_version'']"

text \<open>_action: \<open>given\<close> holds the keyword arguments that the call gives.\<close>

definition action :: "string \<Rightarrow> json \<Rightarrow> json \<Rightarrow> obj \<Rightarrow> json" where
  "action kind label command given =
     JObj ([(''kind'', JStr kind), (''label'', label), (''command'', command)] @ map (\<lambda>k. (k, get k given)) action_keys)"

text \<open>":".join(part for part in parts if part), which only text can be part of.\<close>

definition joined :: "json list \<Rightarrow> string result" where
  "joined parts = andThen (mapR (\<lambda>v. case v of JStr s \<Rightarrow> Inr s | _ \<Rightarrow> fail ''TypeError'' ''sequence item: expected str instance'') (filter truthy parts))
     (\<lambda>ss. Inr (join '':'' ss))"

definition item_keys :: "string list" where
  "item_keys = [''run_id'', ''step_id'', ''approval_id'', ''improvement_id'', ''artifact_id'']"

definition work_item ::
  "string \<Rightarrow> string \<Rightarrow> string \<Rightarrow> int \<Rightarrow> json \<Rightarrow> json \<Rightarrow> string \<Rightarrow> obj \<Rightarrow> json \<Rightarrow> json list \<Rightarrow> obj result" where
  "work_item kind title status urgency description command source given primary secondary =
     andThen (joined (JStr kind # map (\<lambda>k. get k given) item_keys @ [JStr source])) (\<lambda>i. Inr
       ([(''item_id'', JStr i), (''kind'', JStr kind), (''title'', JStr title), (''status'', JStr status), (''priority'', JInt urgency),
         (''description'', description), (''command'', command), (''source'', JStr source)] @
        map (\<lambda>k. (k, get k given)) (item_keys @ [''created_at'']) @
        [(''primary_action'', or_else primary (action ''command'' (JStr ''Run command'') command
            ((''description'', description) # map (\<lambda>k. (k, get k given)) [''run_id'', ''approval_id'', ''improvement_id'', ''artifact_id'']))),
         (''secondary_actions'', JList secondary)]))"

definition run_label :: "obj \<Rightarrow> string" where
  "run_label run = py_str (get_or ''workflow_ref'' (JStr ''workflow'') run) @ '' ('' @ py_str (get_or ''run_id'' (JStr ''unknown'') run) @ '')''"

definition approval_title :: "obj \<Rightarrow> string" where
  "approval_title a =
     (let preview = as_obj (get ''preview'' a);
          summary = or_else (get ''human_summary'' preview) (get ''human_summary'' (as_obj (get ''proposal'' preview))) in
      if truthy summary then ''Approval required: '' @ py_str summary
      else ''Approval required for run '' @ py_str (get ''run_id'' a))"

definition open_run :: "obj \<Rightarrow> json list" where
  "open_run d = (if truthy (get ''run_id'' d)
     then [action ''run.detail'' (JStr ''Open run'') (JStr (''awf status '' @ py_str (get ''run_id'' d))) [(''run_id'', get ''run_id'' d)]] else [])"

definition approval_item :: "obj \<Rightarrow> obj result" where
  "approval_item a =
     (let command = JStr (''awf approval '' @ py_str (get ''approval_id'' a)) in
      work_item ''approval'' (approval_title a) ''blocked'' 10 (JStr ''A workflow step is waiting for an operator decision.'') command ''approvals''
        [(''run_id'', get ''run_id'' a), (''step_id'', get ''step_id'' a), (''approval_id'', get ''approval_id'' a), (''created_at'', get ''requested_at'' a)]
        (action ''approval.review'' (JStr ''Review approval'') command
          [(''description'', JStr ''Open the approval and decide from the run context.''), (''run_id'', get ''run_id'' a), (''approval_id'', get ''approval_id'' a)])
        (open_run a))"

definition active_statuses :: "string list" where
  "active_statuses = [''CREATED'', ''VALIDATING'', ''QUEUED'', ''RUNNING'', ''WAITING_INPUT'', ''WAITING_APPROVAL'', ''CANCELING'']"

text \<open>Membership in a set of strings hashes the value, which lists and dicts refuse.\<close>

definition in_texts :: "json \<Rightarrow> string list \<Rightarrow> bool result" where
  "in_texts v ss = (if is_hashable v then Inr (v \<in> set (map JStr ss)) else fail ''TypeError'' ''unhashable type'')"

definition run_times :: "obj \<Rightarrow> json" where
  "run_times d = or_else (get ''updated_at'' d) (get ''created_at'' d)"

definition run_action_item :: "obj \<Rightarrow> string \<Rightarrow> string \<Rightarrow> json" where
  "run_action_item run label description =
     action ''run.detail'' (JStr label) (JStr (''awf status '' @ py_str (get ''run_id'' run)))
       [(''description'', JStr description), (''run_id'', get ''run_id'' run)]"

definition run_item :: "obj \<Rightarrow> obj list result" where
  "run_item run =
     (let status = get ''status'' run; next = get ''next_action'' (as_obj (get ''outcome'' run));
          command = JStr (''awf status '' @ py_str (get ''run_id'' run));
          given = [(''run_id'', get ''run_id'' run), (''created_at'', run_times run)] in
      if status = JStr ''FAILED''
      then andThen (work_item ''failed_run'' (''Failed run: '' @ run_label run) ''blocked'' 20
             (or_else next (JStr ''Inspect failed steps and evidence.'')) command ''runs'' given
             (run_action_item run ''Inspect failure'' ''Open failed steps, artifacts, and recovery context.'') []) (\<lambda>i. Inr [i])
      else andThen (in_texts status active_statuses) (\<lambda>active.
        if \<not> active then Inr []
        else andThen (work_item ''active_run'' (''Run '' @ py_str status @ '': '' @ run_label run) (lower (py_str status))
             (if status \<in> {JStr ''WAITING_INPUT'', JStr ''WAITING_APPROVAL''} then 15 else 40)
             (or_else next (JStr ''Watch progress and resolve the next blocking item.'')) command ''runs'' given
             (run_action_item run ''Open run'' ''Open current step, blockers, approvals, and evidence.'') []) (\<lambda>i. Inr [i])))"

definition improvement_priority :: "json \<Rightarrow> int" where
  "improvement_priority status = (if status = JStr ''approved'' then 12 else if status = JStr ''ready_for_review'' then 25 else 35)"

definition improvement_item :: "obj \<Rightarrow> obj list result" where
  "improvement_item p =
     (let status = get ''status'' p; next = as_obj (get ''next_action'' p);
          command = or_else (get ''command'' next) (JStr (''awf review show '' @ py_str (get ''improvement_id'' p)));
          label = py_str (or_else (get ''label'' next) (JStr ''Review improvement proposal''));
          ids = [(''run_id'', get ''run_id'' p), (''improvement_id'', get ''improvement_id'' p), (''artifact_id'', get ''verdict_artifact_id'' p)] in
      andThen (in_texts status [''draft'', ''ready_for_review'', ''approved'']) (\<lambda>shown.
      if \<not> shown then Inr []
      else andThen (work_item ''improvement'' (label @ '': '' @ py_str (get ''improvement_id'' p)) (py_str status) (improvement_priority status)
             (or_else (get ''human_summary'' p) (or_else (get ''summary'' p) (JStr ''Improvement proposal needs review.''))) command ''improvements''
             ((''created_at'', run_times p) # ids)
             (action ''improvement.review'' (JStr label) command
               ((''description'', JStr ''Review proposal evidence and complete the next proposal action.'') # ids))
             (open_run p)) (\<lambda>i. Inr [i])))"

section \<open>What blocks, and the list of work\<close>

text \<open>An entry that is not a dict, or is ready, blocks nothing.\<close>

definition blocker_of :: "string \<times> json \<Rightarrow> string list" where
  "blocker_of entry = (case snd entry of
       JObj d \<Rightarrow> if truthy (get ''ready'' d) then [] else [fst entry @ '': '' @ py_str (or_else (get ''reason'' d) (JStr ''not ready''))]
     | _ \<Rightarrow> [])"

definition readiness_blockers :: "obj \<Rightarrow> string list" where
  "readiness_blockers readiness =
     (if truthy (get ''error'' readiness) then [py_str (get ''error'' readiness)]
      else concat (map blocker_of (as_obj (get ''readiness'' readiness))))"

definition llm_blocker :: "obj \<Rightarrow> string option result" where
  "llm_blocker status =
     (if truthy (get ''error'' status) then Inr (Some (py_str (get ''error'' status)))
      else let st = get ''state'' status; why = get ''reason'' status in
        if \<not> is_hashable st then fail ''TypeError'' ''unhashable type''
        else Inr (if st \<in> {JNull, JStr ''running'', JStr ''adopted''} then None
          else Some (''LLM server is '' @ py_str st @ (if truthy why then '': '' @ py_str why else []))))"

definition doctor_open :: "json \<Rightarrow> json" where
  "doctor_open what = action ''doctor.open'' (JStr ''Open doctor'') (JStr ''awf doctor'') [(''description'', what)]"

definition readiness_item :: "string \<Rightarrow> obj result" where
  "readiness_item b = work_item ''readiness'' ''Readiness is not complete'' ''blocked'' 30 (JStr b) (JStr ''awf doctor'') ''readiness'' []
     (doctor_open (JStr b)) []"

definition llm_item :: "string \<Rightarrow> obj result" where
  "llm_item b = work_item ''llm'' ''LLM runtime needs attention'' ''blocked'' 32 (JStr b) (JStr ''awf system llm serve status'') ''llm'' []
     (action ''llm.status'' (JStr ''Check LLM'') (JStr ''awf system llm serve status'') [(''description'', JStr b)])
     [action ''llm.models'' (JStr ''Load models'') (JStr ''awf system llm models'') []]"

definition doctor_item :: "obj \<Rightarrow> nat \<times> json \<Rightarrow> obj result" where
  "doctor_item doctor = (\<lambda>(index, what). work_item ''doctor'' ''Doctor check needs action''
     (py_str (get_or ''status'' (JStr ''warn'') doctor)) (34 + int index) (JStr (py_str what)) (JStr ''awf doctor'') ''doctor'' []
     (doctor_open (JStr (py_str what))) [])"

definition json_items :: "json \<Rightarrow> json list" where
  "json_items v = (case v of JList l \<Rightarrow> l | _ \<Rightarrow> [])"

text \<open>The completed runs with evidence that no other item names.\<close>

definition completed_with_evidence :: "json list \<Rightarrow> obj \<Rightarrow> bool result" where
  "completed_with_evidence open_ids run =
     (if get ''status'' run \<noteq> JStr ''SUCCEEDED'' then Inr False
      else if \<not> is_hashable (get ''run_id'' run) then fail ''TypeError'' ''unhashable type''
      else Inr (get ''run_id'' run \<notin> set open_ids \<and> is_obj (get ''outcome'' run) \<and> truthy (get ''evidence'' (as_obj (get ''outcome'' run)))))"

definition evidence_item :: "obj \<Rightarrow> obj result" where
  "evidence_item run =
     (let command = JStr (''awf status '' @ py_str (get ''run_id'' run)) in
      work_item ''completed_evidence'' (''Review completed evidence: '' @ run_label run) ''review'' 80
        (JStr (nat_str (length (json_items (get ''evidence'' (as_obj (get ''outcome'' run))))) @ '' evidence artifact(s) available for closeout.''))
        command ''artifacts'' [(''run_id'', get ''run_id'' run), (''created_at'', run_times run)]
        (run_action_item run ''Review evidence'' ''Open the completed run and inspect its artifacts.'') [])"

definition idle_item :: "obj \<Rightarrow> obj result" where
  "idle_item doctor =
     (let first = JStr (py_str (or_else (get ''first_run_command'' doctor) (JStr first_run_command))) in
      work_item ''idle'' ''System is idle'' ''ready'' 100 (JStr ''No runs, approvals, proposals, or evidence need attention.'') first ''control'' []
        (action ''workflow.start'' (JStr ''Start work'') first
          [(''description'', JStr ''Start the default assistant workflow.''), (''workflow_ref'', JStr ''assistant-default@1.0.0'')]) [])"

record sources =
  sr_runs :: "obj list"
  sr_approvals :: "obj list"
  sr_improvements :: "obj list"
  sr_verdicts :: "obj list"
  sr_readiness :: obj
  sr_doctor :: obj
  sr_llm :: obj

text \<open>The items but for the evidence of completed runs and the idle one, in the order the code appends them.\<close>

definition blocking_items :: "sources \<Rightarrow> obj list result" where
  "blocking_items s =
     andThen (mapR approval_item (sr_approvals s)) (\<lambda>a.
     andThen (mapR run_item (sr_runs s)) (\<lambda>r.
     andThen (mapR improvement_item (sr_improvements s)) (\<lambda>p.
     andThen (mapR readiness_item (readiness_blockers (sr_readiness s))) (\<lambda>b.
     andThen (llm_blocker (sr_llm s)) (\<lambda>blocker.
     andThen (mapR llm_item (case blocker of Some (c # cs) \<Rightarrow> [c # cs] | _ \<Rightarrow> [])) (\<lambda>l.
     andThen (mapR (doctor_item (sr_doctor s)) (enumerate 0 (json_items (get ''next_actions'' (sr_doctor s))))) (\<lambda>d.
       Inr (a @ concat r @ concat p @ b @ l @ d))))))))"

definition open_run_ids :: "obj list \<Rightarrow> json list" where
  "open_run_ids items = filter truthy (map (get ''run_id'') items)"

text \<open>The parts of the sort key; a time that is not text cannot be compared.\<close>

definition created_text :: "obj \<Rightarrow> string result" where
  "created_text i = (case or_else (get ''created_at'' i) (JStr []) of
     JStr s \<Rightarrow> Inr s | _ \<Rightarrow> fail ''TypeError'' ''not supported between these instances'')"

definition sort_parts :: "obj \<Rightarrow> int \<times> string \<times> string" where
  "sort_parts i = ((case get ''priority'' i of JInt n \<Rightarrow> n | _ \<Rightarrow> 0),
     (case get ''created_at'' i of JStr s \<Rightarrow> s | _ \<Rightarrow> []), (case get ''item_id'' i of JStr s \<Rightarrow> s | _ \<Rightarrow> []))"

definition derive_operator_work_items :: "sources \<Rightarrow> obj list result" where
  "derive_operator_work_items s =
     andThen (blocking_items s) (\<lambda>items.
     andThen (mapR (\<lambda>r. andThen (completed_with_evidence (open_run_ids items) r) (\<lambda>b. Inr (if b then [r] else []))) (sr_runs s)) (\<lambda>completed.
     andThen (mapR evidence_item (take 3 (concat completed))) (\<lambda>evidence.
     andThen (if items @ evidence = [] \<and> sr_verdicts s = [] then andThen (idle_item (sr_doctor s)) (\<lambda>i. Inr [i]) else Inr []) (\<lambda>idle.
     let found = items @ evidence @ idle in
     andThen (mapR created_text found) (\<lambda>times.
       Inr (sort_key sort_parts found))))))"

definition operator_next_actions :: "obj list \<Rightarrow> json list" where
  "operator_next_actions items = map (\<lambda>i. JObj
     ([(''label'', get ''title'' i), (''command'', get ''command'' i), (''description'', get ''description'' i), (''kind'', get ''kind'' i)] @
      map (\<lambda>k. (k, get k i)) [''run_id'', ''approval_id'', ''improvement_id'', ''primary_action''])) (take 5 items)"

section \<open>Options to start work\<close>

text \<open>The names the form shows: the required properties in the order of the schema's list, then the others.\<close>

definition field_names :: "obj \<Rightarrow> json list \<Rightarrow> string list" where
  "field_names props needed =
     concat (map (\<lambda>v. case v of JStr s \<Rightarrow> if has_key s props then [s] else [] | _ \<Rightarrow> []) needed) @
     map fst (filter (\<lambda>(k, v). JStr k \<notin> set needed) props)"

definition schema_field :: "obj \<Rightarrow> json list \<Rightarrow> string \<Rightarrow> json" where
  "schema_field props needed name =
     (let field = as_obj (get name props) in JObj
       [(''name'', JStr name), (''type'', or_else (get ''type'' field) (JStr ''string'')), (''required'', JBool (JStr name \<in> set needed)),
        (''enum'', (case get ''enum'' field of JList l \<Rightarrow> JList l | _ \<Rightarrow> JNull)), (''description'', get ''description'' field),
        (''default'', get ''default'' field)])"

definition input_schema_summary :: "obj \<Rightarrow> obj result" where
  "input_schema_summary schema =
     (let props = as_obj (get ''properties'' schema); needed = json_items (get ''required'' schema) in
      if \<not> list_all is_hashable needed then fail ''TypeError'' ''unhashable type''
      else Inr [(''type'', or_else (get ''type'' schema) (JStr ''object'')), (''required'', JList needed),
        (''fields'', JList (map (schema_field props needed) (field_names props needed)))])"

text \<open>op_registry_get (ops/registry.py), with what _load_registry_object and asdict make of the file.\<close>

definition registry_get_with :: "'x files \<Rightarrow> (path \<Rightarrow> ('x, json) op) \<Rightarrow> string \<Rightarrow> string \<Rightarrow> string \<Rightarrow> ('x, obj) op" where
  "registry_get_with F as_dict_of key name version =
     bindE (liftR (by_key key)) (\<lambda>kind.
     bindE (resolve_registry_object F key name version) (\<lambda>(p, source).
     bindE (index_row key name version) (\<lambda>row.
     bindE (case row of Some x \<Rightarrow> ret (x_digest x) | None \<Rightarrow> compute_digest F p kind) (\<lambda>digest.
     bindE (as_dict_of p) (\<lambda>v.
     bindE (outside (read_text F p)) (\<lambda>content.
       ret [(''kind'', JStr key), (''name'', JStr name), (''version'', JStr version), (''source'', JStr source), (''content'', JStr content),
            (''digest'', JStr digest), (''trust_status'', (case row of Some x \<Rightarrow> jopt (x_trust x) | None \<Rightarrow> JNull)), (''object'', v)]))))))"

definition workflow_dict :: "workflow \<Rightarrow> json" where
  "workflow_dict flow = JObj
     [(''api_version'', wf_api flow), (''kind'', wf_kind flow),
      (''metadata'', JObj [(''name'', wf_name flow), (''version'', wf_version flow), (''digest'', wf_digest flow)]),
      (''input_schema'', wf_input_schema flow), (''output_schema'', wf_output_schema flow), (''budgets'', wf_budgets flow),
      (''nodes'', JList (map JObj (wf_nodes flow))), (''outputs'', wf_outputs flow)]"

definition registry_get_workflow :: "'x files \<Rightarrow> string \<Rightarrow> string \<Rightarrow> ('x, obj) op" where
  "registry_get_workflow F name version =
     registry_get_with F (\<lambda>p. bindE (load_workflow_at F p) (\<lambda>flow. ret (workflow_dict flow))) ''workflows'' name version"

text \<open>The servers are loaded as a plain dict, which asdict refuses.\<close>

definition registry_get_servers :: "'x files \<Rightarrow> string \<Rightarrow> string \<Rightarrow> ('x, obj) op" where
  "registry_get_servers F name version =
     registry_get_with F (\<lambda>p. bindE (load_servers_file F p) (\<lambda>_.
       throw ''TypeError'' ''asdict() should be called on dataclass instances'')) ''llm-servers'' name version"

definition index_fields :: "listed \<Rightarrow> obj" where
  "index_fields e = [(''source'', JStr (li_source e)),
     (''trust_status'', (case li_indexed e of Some (t, _) \<Rightarrow> jopt t | None \<Rightarrow> JNull)),
     (''digest'', (case li_indexed e of Some (_, d) \<Rightarrow> JStr d | None \<Rightarrow> JNull))]"

definition unavailable_option :: "listed \<Rightarrow> exc \<Rightarrow> obj result" where
  "unavailable_option e x = andThen (input_schema_summary []) (\<lambda>summary. Inr
     ([(''workflow_ref'', JStr (li_name e @ ''@'' @ li_version e)), (''name'', JStr (li_name e)), (''version'', JStr (li_version e))] @
      index_fields e @
      [(''status'', JStr ''unavailable''), (''description'', JStr (exc_text x)), (''input_schema'', JObj []),
       (''input_schema_summary'', JObj summary),
       (''primary_action'', action ''registry.workflow.detail'' (JStr ''Inspect workflow'')
          (JStr (''awf registry get workflows '' @ li_name e @ '' '' @ li_version e))
          [(''registry_kind'', JStr ''workflows''), (''registry_name'', JStr (li_name e)), (''registry_version'', JStr (li_version e))])]))"

definition start_command :: "string \<Rightarrow> json list \<Rightarrow> string" where
  "start_command ref needed =
     (if JStr ''objective'' \<in> set needed then ''awf run '' @ ref @ '' --objective \"<objective>\"'' else ''awf run '' @ ref)"

definition ready_option :: "listed \<Rightarrow> obj \<Rightarrow> obj result" where
  "ready_option e found =
     (let object = as_obj (get ''object'' found); meta = as_obj (get ''metadata'' object); spec = as_obj (get ''spec'' object);
          schema = as_obj (or_else (get ''inputSchema'' spec) (get ''input_schema'' object));
          name = get_or ''name'' (JStr (li_name e)) meta; version = get_or ''version'' (JStr (li_version e)) meta;
          ref = py_str name @ ''@'' @ py_str version;
          known = index_fields e in
      andThen (input_schema_summary schema) (\<lambda>summary. Inr
        ([(''workflow_ref'', JStr ref), (''name'', name), (''version'', version), (''source'', get ''source'' known),
          (''trust_status'', get ''trust_status'' known),
          (''digest'', or_else (get ''digest'' known) (or_else (get ''digest'' found) (get ''digest'' meta))), (''status'', JStr ''ready''),
          (''description'', or_else (get ''summary'' meta) (JStr (''Run '' @ ref))), (''input_schema'', JObj schema),
          (''input_schema_summary'', JObj summary),
          (''primary_action'', action ''workflow.start'' (JStr ''Start workflow'') (JStr (start_command ref (json_items (get ''required'' schema))))
             [(''workflow_ref'', JStr ref), (''registry_kind'', JStr ''workflows''), (''registry_name'', JStr (py_str name)),
              (''registry_version'', JStr (py_str version))])])))"

definition start_option :: "'x files \<Rightarrow> listed \<Rightarrow> ('x, obj list) op" where
  "start_option F e =
     (if li_name e = [] \<or> li_version e = [] then ret []
      else bindE (attempt (registry_get_workflow F (li_name e) (li_version e))) (\<lambda>r.
        bindE (liftR (case r of Inl x \<Rightarrow> unavailable_option e x | Inr found \<Rightarrow> ready_option e found)) (\<lambda>o1. ret [o1])))"

definition operator_start_options :: "'x files \<Rightarrow> nat \<Rightarrow> ('x, obj list) op" where
  "operator_start_options F limit =
     bindE (registry_list F ''workflows'') (\<lambda>es. bindE (mapE (start_option F) (take limit es)) (\<lambda>os. ret (concat os)))"

section \<open>The timeline of a run and the snapshot of events\<close>

definition safe_json :: "json \<Rightarrow> json" where
  "safe_json v = JObj (as_obj v)"

definition step_entry :: "step_row \<Rightarrow> obj" where
  "step_entry s =
     [(''kind'', JStr ''step''), (''status'', JStr (step_status_str (s_status s))), (''title'', JStr (s_node s @ '' '' @ step_status_str (s_status s))),
      (''description'', or_else (jopt (s_fclass s)) (JStr (''attempt '' @ nat_str (s_attempt s)))),
      (''occurred_at'', or_else (jopt (s_ended s)) (JStr (s_started s))), (''step_id'', JStr (s_id s)), (''node_id'', JStr (s_node s)),
      (''failure_class'', jopt (s_fclass s)), (''payload'', safe_json (jval (s_output s)))]"

definition approval_entry :: "approval_row \<Rightarrow> obj" where
  "approval_entry a =
     (let status = approval_status_str (a_status a) in
      [(''kind'', JStr ''approval''), (''status'', JStr status), (''title'', JStr (''Approval '' @ status @ '': '' @ a_id a)),
       (''description'', or_else (jopt (a_reason a)) (JStr (''risk '' @ py_str (or_else (jopt (a_risk a)) (JStr ''R2''))))),
       (''occurred_at'', or_else (jopt (a_decided a)) (JStr (a_requested a))), (''step_id'', JStr (a_step a)), (''approval_id'', JStr (a_id a)),
       (''action_digest'', JStr (a_digest a))])"

definition artifact_entry :: "artifact_row \<Rightarrow> obj" where
  "artifact_entry f =
     [(''kind'', JStr ''artifact''), (''status'', JStr (if f_complete f then ''complete'' else ''incomplete'')),
      (''title'', JStr (artifact_type_str (f_type f) @ '': '' @ f_path f)), (''description'', JStr (f_media f)),
      (''occurred_at'', JStr (f_created f)), (''step_id'', JStr (f_step f)), (''artifact_id'', JStr (f_id f))]"

definition event_entry :: "event_row \<Rightarrow> obj" where
  "event_entry e =
     [(''kind'', JStr ''event''), (''status'', JStr (e_new e)), (''title'', JStr (e_reason e)), (''description'', JStr (e_actor e)),
      (''occurred_at'', JStr (e_time e)), (''step_id'', jopt (e_step e)), (''event_id'', JStr (e_id e)), (''payload'', safe_json (e_payload e))]"

text \<open>What the entries are sorted by; every entry has text for all three.\<close>

definition entry_parts :: "obj \<Rightarrow> string \<times> string \<times> string" where
  "entry_parts d = (let text = (\<lambda>k. case get k d of JStr s \<Rightarrow> s | _ \<Rightarrow> []) in (text ''occurred_at'', text ''kind'', text ''title''))"

definition timeline_entries :: "string \<Rightarrow> 'x world \<Rightarrow> obj list" where
  "timeline_entries i w =
     map step_entry (sort_key s_started (sort_key s_id (filter (\<lambda>s. s_run s = i) (steps w)))) @
     map approval_entry (sort_key a_requested (filter (\<lambda>a. a_run a = i) (approvals w))) @
     map artifact_entry (artifacts_of i w) @
     map event_entry (sort_key e_time (sort_key e_id (filter (\<lambda>e. e_run e = i) (events w))))"

definition operator_timeline :: "string \<Rightarrow> ('x, obj list) op" where
  "operator_timeline i = gets (\<lambda>w. sort_key entry_parts (timeline_entries i w))"

definition event_columns :: "(json \<Rightarrow> string) \<Rightarrow> event_row \<Rightarrow> json" where
  "event_columns dumps_of e = JObj
     [(''event_id'', JStr (e_id e)), (''run_id'', JStr (e_run e)), (''step_id'', jopt (e_step e)),
      (''attempt'', (case e_attempt e of None \<Rightarrow> JNull | Some n \<Rightarrow> JInt (int n))), (''prior_status'', jopt (e_prior e)),
      (''new_status'', JStr (e_new e)), (''occurred_at'', JStr (e_time e)), (''actor'', JStr (e_actor e)),
      (''reason_code'', JStr (e_reason e)), (''payload_json'', JStr (dumps_of (e_payload e)))]"

definition snapshot_limit :: "int \<Rightarrow> nat" where
  "snapshot_limit limit = nat (max 1 (min limit 500))"

definition snapshot_rows :: "string option \<Rightarrow> int \<Rightarrow> 'x world \<Rightarrow> event_row list" where
  "snapshot_rows run_id limit w =
     rev (take (snapshot_limit limit) (latest_first
       (filter (\<lambda>e. run_id = None \<or> run_id = Some [] \<or> run_id = Some (e_run e)) (events w))))"

definition op_events_snapshot :: "(json \<Rightarrow> string) \<Rightarrow> string option \<Rightarrow> int \<Rightarrow> ('x, json) op" where
  "op_events_snapshot dumps_of run_id limit = gets (\<lambda>w. JObj
     [(''events'', JList (map (event_columns dumps_of) (snapshot_rows run_id limit w))), (''streaming'', JBool False)])"

section \<open>The control centre\<close>

definition artifact_columns :: "artifact_row \<Rightarrow> obj" where
  "artifact_columns f =
     [(''artifact_id'', JStr (f_id f)), (''run_id'', JStr (f_run f)), (''step_id'', JStr (f_step f)), (''sha256'', JStr (f_sha f)),
      (''relative_path'', JStr (f_path f)), (''media_type'', JStr (f_media f)), (''artifact_type'', JStr (artifact_type_str (f_type f))),
      (''complete'', JInt (if f_complete f then 1 else 0)), (''created_at'', JStr (f_created f))]"

definition recent_verdict_artifacts :: "nat \<Rightarrow> ('x, obj list) op" where
  "recent_verdict_artifacts limit = gets (\<lambda>w. map artifact_columns
     (take limit (rev (sort_key f_created (filter (\<lambda>f. f_type f = VERDICT) (artifacts w))))))"

definition registry_counts :: "'x files \<Rightarrow> ('x, obj) op" where
  "registry_counts F = mapE (\<lambda>k. bindE (registry_list F (k_key k)) (\<lambda>es. ret (k_key k, JInt (int (length es))))) kinds"

definition control_error :: "exc \<Rightarrow> json" where
  "control_error e = JObj [(''error'', JStr (exc_text e))]"

definition approval_columns :: "approval_row \<times> obj option \<Rightarrow> obj" where
  "approval_columns p = as_obj (approval_dict (fst p)) @ [(''preview'', (case snd p of None \<Rightarrow> JNull | Some d \<Rightarrow> JObj d))]"

definition op_control_center_summary ::
  "nat \<Rightarrow> 'x desk \<Rightarrow> 'x platform \<Rightarrow> 'x procs \<Rightarrow> 'x interpreter \<Rightarrow> 'x improve_env \<Rightarrow> ('x, obj) op" where
  "op_control_center_summary fuel D H P N I =
     (let F = dk_files D in
      bindE (op_system_readiness F H) (\<lambda>ready.
      let host = (case get ''profile_id'' ready of JStr s \<Rightarrow> Some s | _ \<Rightarrow> None) in
      bindE (catchE (op_llm_servers F H P host (3 / 20)) (\<lambda>e. ret (control_error e))) (\<lambda>servers.
      bindE (catchE (op_llm_serve fuel D H P ''status'' (3 / 20)) (\<lambda>e. ret (control_error e))) (\<lambda>llm.
      bindE (op_system_doctor D H N (Some ready) True) (\<lambda>doctor.
      bindE (op_run_list I) (\<lambda>rs.
      bindE (op_approval_list I None) (\<lambda>as.
      bindE (list_proposals I None None) (\<lambda>ps.
      bindE (recent_verdict_artifacts 5) (\<lambda>vs.
      bindE (liftR (derive_operator_work_items \<lparr>sr_runs = rs, sr_approvals = map approval_columns as, sr_improvements = ps, sr_verdicts = vs,
               sr_readiness = ready, sr_doctor = doctor, sr_llm = as_obj llm\<rparr>)) (\<lambda>items.
      bindE (registry_counts F) (\<lambda>counts.
      bindE (operator_start_options F 12) (\<lambda>options.
        ret [(''runs'', JList (map JObj rs)), (''approvals'', JList (map (JObj \<circ> approval_columns) as)), (''improvements'', JList (map JObj ps)),
             (''recent_verdicts'', JList (map JObj vs)), (''registry_counts'', JObj counts),
             (''llm'', JObj [(''servers'', servers), (''status'', JObj (as_obj llm))]), (''readiness'', JObj ready), (''doctor'', JObj doctor),
             (''operator_work_items'', JList (map JObj items)), (''operator_next_actions'', JList (operator_next_actions items)),
             (''operator_start_options'', JList (map JObj options))]))))))))))))"

record run_detail =
  rt_run :: obj
  rt_outcome :: obj
  rt_artifacts :: "artifact_row list"
  rt_timeline :: timeline
  rt_operator :: "obj list"
  rt_items :: "obj list"
  rt_next :: "json list"
  rt_improvements :: "obj list"
  rt_verdicts :: "artifact_row list"

definition op_control_center_run_detail :: "'x improve_env \<Rightarrow> string \<Rightarrow> ('x, run_detail) op" where
  "op_control_center_run_detail I run_id =
     bindE (op_run_status I run_id) (\<lambda>status.
     bindE (case get ''outcome'' status of JObj (x # d) \<Rightarrow> ret (x # d) | _ \<Rightarrow> op_run_outcome I run_id) (\<lambda>outcome.
     bindE (op_artifact_list run_id) (\<lambda>fs.
     bindE (op_episodic_timeline run_id) (\<lambda>time.
     bindE (list_proposals I None (Some run_id)) (\<lambda>ps.
     let verdicts = filter (\<lambda>f. f_type f = VERDICT) fs in
     bindE (op_approval_list I (Some run_id)) (\<lambda>as.
     bindE (liftR (derive_operator_work_items \<lparr>sr_runs = [merge_obj status [(''outcome'', JObj outcome)]],
              sr_approvals = map approval_columns as, sr_improvements = ps, sr_verdicts = map artifact_columns verdicts,
              sr_readiness = [], sr_doctor = [], sr_llm = []\<rparr>)) (\<lambda>items.
     bindE (operator_timeline run_id) (\<lambda>entries.
       ret \<lparr>rt_run = status, rt_outcome = outcome, rt_artifacts = fs, rt_timeline = time, rt_operator = entries, rt_items = items,
            rt_next = operator_next_actions items, rt_improvements = ps, rt_verdicts = verdicts\<rparr>))))))))"

section \<open>What the operator is shown\<close>

lemma work_item_Inr:
  assumes "work_item kind title status u description command source given primary secondary = Inr i"
  shows "get ''kind'' i = JStr kind \<and> get ''priority'' i = JInt u \<and> get ''run_id'' i = get ''run_id'' given \<and>
    get ''approval_id'' i = get ''approval_id'' given"
proof -
  from assms obtain x where "i = [(''item_id'', JStr x), (''kind'', JStr kind), (''title'', JStr title), (''status'', JStr status), (''priority'', JInt u),
         (''description'', description), (''command'', command), (''source'', JStr source)] @
        map (\<lambda>k. (k, get k given)) (item_keys @ [''created_at'']) @
        [(''primary_action'', or_else primary (action ''command'' (JStr ''Run command'') command
            ((''description'', description) # map (\<lambda>k. (k, get k given)) [''run_id'', ''approval_id'', ''improvement_id'', ''artifact_id'']))),
         (''secondary_actions'', JList secondary)]"
    by (auto simp: work_item_def andThen_def split: sum.splits)
  then show ?thesis by (simp add: item_keys_def get_def)
qed

text \<open>Approvals are the only items of the highest priority.\<close>

definition ranked :: "obj \<Rightarrow> bool" where
  "ranked i = (\<exists>n. get ''priority'' i = JInt n \<and> 10 \<le> n \<and> (n = 10 \<longrightarrow> get ''kind'' i = JStr ''approval''))"

lemma approval_item_Inr:
  assumes "approval_item a = Inr i"
  shows "get ''kind'' i = JStr ''approval''" "get ''priority'' i = JInt 10" "get ''approval_id'' i = get ''approval_id'' a"
proof -
  note facts = work_item_Inr [OF assms [unfolded approval_item_def Let_def]]
  show "get ''kind'' i = JStr ''approval''" "get ''priority'' i = JInt 10" using facts by blast+
  have "get ''approval_id'' [(''run_id'', x), (''step_id'', y), (''approval_id'', z), (''created_at'', t)] = z" for x y z t
    by (simp add: get_def)
  with facts show "get ''approval_id'' i = get ''approval_id'' a" by simp
qed

lemma run_item_Inr:
  assumes "run_item r = Inr is"
  shows "list_all ranked is"
    and "get ''status'' r = JStr ''FAILED'' \<Longrightarrow> \<exists>i \<in> set is. get ''kind'' i = JStr ''failed_run'' \<and> get ''run_id'' i = get ''run_id'' r"
    and "get ''status'' r \<in> set (map JStr active_statuses) \<Longrightarrow> \<exists>i \<in> set is. get ''kind'' i = JStr ''active_run'' \<and> get ''run_id'' i = get ''run_id'' r"
proof -
  let ?st = "get ''status'' r"
  have given: "get ''run_id'' [(''run_id'', x), (''created_at'', t)] = x" for x t by (simp add: get_def)
  have failed: "JStr ''FAILED'' \<notin> set (map JStr active_statuses)" by (simp add: active_statuses_def)
  consider (failed) i where "?st = JStr ''FAILED''" "is = [i]" "get ''kind'' i = JStr ''failed_run''" "get ''priority'' i = JInt 20"
      "get ''run_id'' i = get ''run_id'' r"
    | (active) i u where "?st \<noteq> JStr ''FAILED''" "is = [i]" "get ''kind'' i = JStr ''active_run''" "get ''priority'' i = JInt u" "u = 15 \<or> u = 40"
      "get ''run_id'' i = get ''run_id'' r"
    | (none) "?st \<noteq> JStr ''FAILED''" "?st \<notin> set (map JStr active_statuses)" "is = []"
    using assms unfolding run_item_def Let_def
    by (auto simp: andThen_def in_texts_def given split: if_splits sum.splits dest!: work_item_Inr)
  then show "list_all ranked is"
    and "get ''status'' r = JStr ''FAILED'' \<Longrightarrow> \<exists>i \<in> set is. get ''kind'' i = JStr ''failed_run'' \<and> get ''run_id'' i = get ''run_id'' r"
    and "get ''status'' r \<in> set (map JStr active_statuses) \<Longrightarrow> \<exists>i \<in> set is. get ''kind'' i = JStr ''active_run'' \<and> get ''run_id'' i = get ''run_id'' r"
    using failed by (cases; auto simp: ranked_def)+
qed

lemma mapR_back: "mapR f xs = Inr ys \<Longrightarrow> y \<in> set ys \<Longrightarrow> \<exists>x \<in> set xs. f x = Inr y"
  by (induction xs arbitrary: ys) (auto simp: andThen_def split: sum.splits)

lemma work_item_ranked:
  "work_item kind title status u description command source given primary secondary = Inr i \<Longrightarrow> 10 < u \<Longrightarrow> ranked i"
  using work_item_Inr [of kind title status u description command source given primary secondary i] by (auto simp: ranked_def)

lemma other_items_ranked:
  "improvement_item p = Inr is \<Longrightarrow> list_all ranked is"
  "readiness_item b = Inr i \<Longrightarrow> ranked i" "llm_item b = Inr i \<Longrightarrow> ranked i" "doctor_item d nv = Inr i \<Longrightarrow> ranked i"
  "evidence_item r = Inr i \<Longrightarrow> ranked i" "idle_item d = Inr i \<Longrightarrow> ranked i"
  unfolding improvement_item_def readiness_item_def llm_item_def doctor_item_def evidence_item_def idle_item_def Let_def case_prod_beta
  by (auto simp: andThen_def improvement_priority_def split: if_splits sum.splits dest!: work_item_ranked)

lemma blocking_items_Inr:
  assumes "blocking_items s = Inr items"
  shows "list_all ranked items"
    and "a \<in> set (sr_approvals s) \<Longrightarrow> \<exists>i \<in> set items. approval_item a = Inr i"
    and "r \<in> set (sr_runs s) \<Longrightarrow> \<exists>is. run_item r = Inr is \<and> set is \<subseteq> set items"
proof -
  from assms obtain as rs ps bs blocker ls ds where as: "mapR approval_item (sr_approvals s) = Inr as"
    and rs: "mapR run_item (sr_runs s) = Inr rs" and ps: "mapR improvement_item (sr_improvements s) = Inr ps"
    and bs: "mapR readiness_item (readiness_blockers (sr_readiness s)) = Inr bs"
    and ls: "mapR llm_item (case blocker of Some (c # cs) \<Rightarrow> [c # cs] | _ \<Rightarrow> []) = Inr ls"
    and ds: "mapR (doctor_item (sr_doctor s)) (enumerate 0 (json_items (get ''next_actions'' (sr_doctor s)))) = Inr ds"
    and items: "items = as @ concat rs @ concat ps @ bs @ ls @ ds"
    unfolding blocking_items_def andThen_def by (auto split: sum.splits)
  have "ranked i" if "i \<in> set as" for i
    using mapR_back [OF as that] approval_item_Inr by (auto simp: ranked_def)
  moreover have "list_all ranked is" if "is \<in> set rs" for "is"
    using mapR_back [OF rs that] run_item_Inr(1) by blast
  moreover have "list_all ranked is" if "is \<in> set ps" for "is"
    using mapR_back [OF ps that] other_items_ranked(1) by blast
  moreover have "ranked i" if "i \<in> set bs \<union> set ls \<union> set ds" for i
    using that mapR_back [OF bs] mapR_back [OF ls] mapR_back [OF ds] other_items_ranked(2-4) by blast
  ultimately show "list_all ranked items" by (auto simp: items list_all_iff)
  show "\<exists>i \<in> set items. approval_item a = Inr i" if "a \<in> set (sr_approvals s)" for a
    using mapR_Inr [OF as that] by (auto simp: items)
  show "\<exists>is. run_item r = Inr is \<and> set is \<subseteq> set items" if "r \<in> set (sr_runs s)" for r
    using mapR_Inr [OF rs that] by (auto simp: items)
qed

lemma derive_Inr:
  assumes "derive_operator_work_items s = Inr shown"
  obtains items extra where "blocking_items s = Inr items" "shown = sort_key sort_parts (items @ extra)" "list_all ranked extra"
    "items @ extra = [] \<Longrightarrow> sr_verdicts s \<noteq> []"
proof -
  from assms obtain items completed evidence idle where items: "blocking_items s = Inr items"
    and evidence: "mapR evidence_item (take 3 (concat completed)) = Inr evidence"
    and idle: "(if items @ evidence = [] \<and> sr_verdicts s = [] then andThen (idle_item (sr_doctor s)) (\<lambda>i. Inr [i]) else Inr []) = Inr idle"
    and shown: "shown = sort_key sort_parts (items @ evidence @ idle)"
    unfolding derive_operator_work_items_def andThen_def [of "blocking_items s"] andThen_def [of "mapR _ _"] Let_def
    by (auto simp: andThen_def split: sum.splits)
  have "list_all ranked evidence"
    using mapR_back [OF evidence] other_items_ranked(5) by (auto simp: list_all_iff)
  moreover have "list_all ranked idle"
    using idle other_items_ranked(6) by (auto simp: andThen_def split: if_splits sum.splits)
  moreover have "items @ evidence @ idle = [] \<Longrightarrow> sr_verdicts s \<noteq> []"
    using idle by (auto simp: andThen_def split: if_splits sum.splits)
  ultimately show thesis using items shown by (intro that [of items "evidence @ idle"]) simp_all
qed

text \<open>
  C23. The list of work is complete and in order: every pending approval, every failed run and every run under
  way has its item, the items are sorted by priority, time and id, an approval that waits stands first,
  and the list is empty only when there are verdicts to look at.
\<close>

theorem operator_sees_every_blocker:
  assumes "derive_operator_work_items s = Inr items"
  shows "sorted (map sort_parts items)
    \<and> (\<forall>a \<in> set (sr_approvals s). \<exists>i \<in> set items. get ''kind'' i = JStr ''approval'' \<and> get ''approval_id'' i = get ''approval_id'' a)
    \<and> (\<forall>r \<in> set (sr_runs s). get ''status'' r = JStr ''FAILED'' \<longrightarrow>
         (\<exists>i \<in> set items. get ''kind'' i = JStr ''failed_run'' \<and> get ''run_id'' i = get ''run_id'' r))
    \<and> (\<forall>r \<in> set (sr_runs s). get ''status'' r \<in> set (map JStr active_statuses) \<longrightarrow>
         (\<exists>i \<in> set items. get ''kind'' i = JStr ''active_run'' \<and> get ''run_id'' i = get ''run_id'' r))
    \<and> (sr_approvals s \<noteq> [] \<longrightarrow> get ''kind'' (hd items) = JStr ''approval'')
    \<and> (items = [] \<longrightarrow> sr_verdicts s \<noteq> [])"
proof -
  from derive_Inr [OF assms] obtain found extra where found: "blocking_items s = Inr found"
    and shown: "items = sort_key sort_parts (found @ extra)" and extra: "list_all ranked extra"
    and none: "found @ extra = [] \<Longrightarrow> sr_verdicts s \<noteq> []" by blast
  have members: "set items = set found \<union> set extra" by (simp add: shown)
  note facts = blocking_items_Inr [OF found]
  have sorted: "sorted (map sort_parts items)" by (simp add: shown)
  have approvals: "\<exists>i \<in> set items. get ''kind'' i = JStr ''approval'' \<and> get ''priority'' i = JInt 10 \<and> get ''approval_id'' i = get ''approval_id'' a"
    if "a \<in> set (sr_approvals s)" for a
    using facts(2) [OF that] approval_item_Inr members by blast
  have first: "get ''kind'' (hd items) = JStr ''approval''" if "sr_approvals s \<noteq> []"
  proof -
    from that obtain a where "a \<in> set (sr_approvals s)" by (cases "sr_approvals s") auto
    from approvals [OF this] obtain i where i: "i \<in> set items" "get ''priority'' i = JInt 10" by blast
    then obtain h t where h: "items = h # t" by (cases items) auto
    have "ranked h" using facts(1) extra members h by (auto simp: list_all_iff)
    then obtain n where n: "get ''priority'' h = JInt n" "10 \<le> n" "n = 10 \<longrightarrow> get ''kind'' h = JStr ''approval''"
      unfolding ranked_def by blast
    have "sort_parts h \<le> sort_parts i" using sorted i(1) h by (cases "i = h") auto
    then have "n \<le> 10" using n(1) i(2) by (auto simp: sort_parts_def less_eq_prod_def split: if_splits)
    with n(2,3) h show ?thesis by simp
  qed
  have runs: "\<exists>i \<in> set items. get ''kind'' i = JStr k \<and> get ''run_id'' i = get ''run_id'' r"
    if "r \<in> set (sr_runs s)" "get ''status'' r = JStr ''FAILED'' \<and> k = ''failed_run'' \<or>
      get ''status'' r \<in> set (map JStr active_statuses) \<and> k = ''active_run''" for r k
    using facts(3) [OF that(1)] that(2) run_item_Inr(2,3) members by blast
  have "items = [] \<longrightarrow> sr_verdicts s \<noteq> []" using none shown by (metis length_0_conv length_sort)
  with sorted first approvals runs show ?thesis by blast
qed

definition desk_sources :: sources where
  "desk_sources = \<lparr>sr_runs = [[(''run_id'', JStr ''r1''), (''status'', JStr ''FAILED''), (''created_at'', JStr ''t1'')]],
     sr_approvals = [[(''approval_id'', JStr ''a1''), (''run_id'', JStr ''r2''), (''requested_at'', JStr ''t2'')]],
     sr_improvements = [], sr_verdicts = [], sr_readiness = [], sr_doctor = [], sr_llm = []\<rparr>"

lemma operator_sees_every_blocker_witness:
  "case derive_operator_work_items desk_sources of Inl _ \<Rightarrow> False
     | Inr items \<Rightarrow> sorted (map sort_parts items) \<and> get ''kind'' (hd items) = JStr ''approval''
         \<and> (\<exists>i \<in> set items. get ''kind'' i = JStr ''failed_run'' \<and> get ''run_id'' i = JStr ''r1'')"
proof (cases "derive_operator_work_items desk_sources")
  case (Inl e)
  have "\<not> isl (derive_operator_work_items desk_sources)" by code_simp
  with Inl show ?thesis by simp
next
  case (Inr items)
  have run: "hd (sr_runs desk_sources) \<in> set (sr_runs desk_sources)" "get ''status'' (hd (sr_runs desk_sources)) = JStr ''FAILED''"
    "get ''run_id'' (hd (sr_runs desk_sources)) = JStr ''r1''" "sr_approvals desk_sources \<noteq> []"
    by (simp_all add: desk_sources_def get_def)
  with operator_sees_every_blocker [OF Inr] have "\<exists>i \<in> set items. get ''kind'' i = JStr ''failed_run'' \<and> get ''run_id'' i = JStr ''r1''" by metis
  with operator_sees_every_blocker [OF Inr] run(4) Inr show ?thesis by simp
qed

section \<open>What a snapshot holds\<close>

definition matching_events :: "string option \<Rightarrow> 'x world \<Rightarrow> event_row list" where
  "matching_events run_id w = filter (\<lambda>e. run_id = None \<or> run_id = Some [] \<or> run_id = Some (e_run e)) (events w)"

lemma last_of_sorted:
  fixes f :: "'a \<Rightarrow> 'b::linorder"
  assumes "sorted (map f xs)" "x \<in> set xs" "x \<notin> set (drop n xs)" "y \<in> set (drop n xs)"
  shows "f x \<le> f y"
proof -
  have "sorted (map f (take n xs) @ map f (drop n xs))" using assms(1) by (metis append_take_drop_id map_append)
  moreover have "x \<in> set (take n xs)" using assms(2,3) by (metis append_take_drop_id Un_iff set_append)
  ultimately show ?thesis using assms(4) by (auto simp: sorted_append)
qed

lemma snapshot_drop:
  "snapshot_rows run_id limit w =
     (let es = sort_key e_time (sort_key e_id (matching_events run_id w)) in drop (length es - snapshot_limit limit) es)"
  by (simp add: snapshot_rows_def latest_first_def matching_events_def take_rev Let_def)

text \<open>
  A snapshot is the end of the history: never more than 500 events and, whatever limit is asked for, at least
  one when there is one, oldest first, all of the run asked for, and nothing left out is later than anything shown.
\<close>

theorem snapshot_is_the_latest:
  "length (snapshot_rows run_id limit w) = min (nat (max 1 (min limit 500))) (length (matching_events run_id w))
    \<and> sorted (map e_time (snapshot_rows run_id limit w))
    \<and> set (snapshot_rows run_id limit w) \<subseteq> set (matching_events run_id w)
    \<and> (\<forall>e \<in> set (matching_events run_id w) - set (snapshot_rows run_id limit w). \<forall>r \<in> set (snapshot_rows run_id limit w). e_time e \<le> e_time r)"
proof -
  let ?es = "sort_key e_time (sort_key e_id (matching_events run_id w))" and ?n = "length (matching_events run_id w) - snapshot_limit limit"
  have rows: "snapshot_rows run_id limit w = drop ?n ?es" by (simp add: snapshot_drop Let_def)
  have sorted: "sorted (map e_time ?es)" by simp
  have "length (drop ?n ?es) = min (snapshot_limit limit) (length (matching_events run_id w))" by simp
  moreover have "sorted (map e_time (drop ?n ?es))" using sorted by (metis drop_map sorted_wrt_drop)
  moreover have "set (drop ?n ?es) \<subseteq> set (matching_events run_id w)" using set_drop_subset [of ?n ?es] by simp
  moreover have "\<forall>e \<in> set (matching_events run_id w) - set (drop ?n ?es). \<forall>r \<in> set (drop ?n ?es). e_time e \<le> e_time r"
    using last_of_sorted [OF sorted] by auto
  ultimately show ?thesis unfolding rows snapshot_limit_def by blast
qed

lemma snapshot_is_the_latest_witness:
  "length (snapshot_rows (Some ''run'') 2 demo_events) = 2 \<and> length (snapshot_rows None (- 7) demo_events) = 1"
  using snapshot_is_the_latest [of "Some ''run''" 2 demo_events] snapshot_is_the_latest [of None "- 7" demo_events]
  by (simp add: matching_events_def demo_events_def)

section \<open>Server files cannot be shown\<close>

text \<open>A server file is loaded as a plain dict, so no call of op_registry_get for one returns.\<close>

lemma servers_are_never_shown: "registry_get_servers F name version w \<noteq> (Val d, w')"
  unfolding registry_get_servers_def registry_get_with_def
  by (auto simp: throw_def raise_def dest!: bind_Val [THEN iffD1])

end
