(* ===== verification/Awf_Server.thy ===== *)
theory Awf_Server
  imports Awf_Control
begin

text \<open>
  The JSON-RPC server: the manifest of its methods (protocol/methods.py), the tables generated from it
  (server/protocol_generated.py, scripts/generate_protocol.py), and the loop over the lines of standard
  input (server/stdio.py).  An argument expression of a method is a term that is evaluated on the params of
  a request.  The operations behind the methods are a parameter, a function of module, function name and
  arguments, so that what is shown holds for all of them.
\<close>

section \<open>Methods and their arguments\<close>

text \<open>
  What an argument of a handler is: repo_root, conn, artifacts_dir(repo_root), a literal, params[key],
  params.get(key, default), or bool, int or Path of one of these.
\<close>

datatype given = Repo | Connection | ArtifactsDir | Fixed json | Required string | Optional string json
  | Flag given | Number given | PathAt given

text \<open>Arguments in the order of the call, by position under the empty name and by keyword.\<close>

type_synonym arguments = "(string \<times> given) list"

record method_spec =
  ms_name :: string
  ms_handler :: string
  ms_args :: arguments
  ms_cli :: "string list"
  ms_timeout :: bool

definition spec :: "string \<Rightarrow> string \<Rightarrow> arguments \<Rightarrow> string list \<Rightarrow> bool \<Rightarrow> method_spec" where
  "spec name handler args cli timeout = \<lparr>ms_name = name, ms_handler = handler, ms_args = args, ms_cli = cli, ms_timeout = timeout\<rparr>"

definition methods_0 :: "method_spec list" where
  "methods_0 = [
     spec ''awf/run.start'' ''awf.ops.run.op_run_start''
       [([], Repo), ([], Connection), (''workflow_ref'', Required ''workflow''), (''input_data'', Optional ''input'' (JObj [])), (''async_execution'', Flag (Optional ''async'' (JBool False)))]
       [''run''] True,
     spec ''awf/run.status'' ''awf.ops.run.op_run_status''
       [([], Connection), (''run_id'', Required ''runId'')]
       [''status''] False,
     spec ''awf/run.list'' ''awf.ops.run.op_run_list''
       [([], Connection)]
       [''status''] False,
     spec ''awf/run.resume'' ''awf.ops.run.op_run_resume''
       [([], Repo), ([], Connection)]
       [''system'', ''resume''] True,
     spec ''awf/approval.list'' ''awf.ops.approval.op_approval_list''
       [([], Connection)]
       [''review'', ''list''] False,
     spec ''awf/approval.detail'' ''awf.ops.approval.op_approval_detail''
       [([], Connection), (''approval_id'', Required ''approvalId'')]
       [] False,
     spec ''awf/approval.approve'' ''awf.ops.approval.op_approval_approve''
       [([], Connection), (''approval_id'', Required ''approvalId''), (''channel'', Optional ''channel'' (JStr ''manual'')), (''risk_class'', Optional ''riskClass'' JNull)]
       [''review'', ''approve''] False,
     spec ''awf/approval.reject'' ''awf.ops.approval.op_approval_reject''
       [([], Connection), (''approval_id'', Required ''approvalId''), (''reason'', Optional ''reason'' (JStr []))]
       [''review'', ''reject''] False,
     spec ''awf/machine.actionPreview'' ''awf.ops.approval.op_machine_action_preview''
       [([], Connection), (''approval_id'', Required ''approvalId'')]
       [] False,
     spec ''awf/improvement.list'' ''awf.ops.improvement.op_improvement_list''
       [([], Connection), (''status'', Optional ''status'' JNull)]
       [''review'', ''list''] False,
     spec ''awf/improvement.get'' ''awf.ops.improvement.op_improvement_get''
       [([], Connection), (''improvement_id'', Required ''improvementId'')]
       [''review'', ''show''] False,
     spec ''awf/improvement.prepare'' ''awf.ops.improvement.op_improvement_prepare''
       [([], Repo), ([], Connection), (''run_id'', Required ''runId''), (''summary'', Optional ''summary'' JNull)]
       [''review'', ''prepare''] False,
     spec ''awf/improvement.markReady'' ''awf.ops.improvement.op_improvement_mark_ready''
       [([], Repo), ([], Connection), (''improvement_id'', Required ''improvementId''), (''verdict_artifact_id'', Required ''verdictArtifactId''), (''validation_artifact_ids'', Optional ''validationArtifactIds'' (JList []))]
       [''review'', ''mark-ready''] False,
     spec ''awf/improvement.requestMerge'' ''awf.ops.improvement.op_improvement_request_merge''
       [([], Repo), ([], Connection), (''improvement_id'', Required ''improvementId'')]
       [''review'', ''request-merge''] False,
     spec ''awf/improvement.merge'' ''awf.ops.improvement.op_improvement_merge''
       [([], Repo), ([], Connection), (''improvement_id'', Required ''improvementId''), (''approval_id'', Required ''approvalId'')]
       [''review'', ''merge''] False]"

definition methods_1 :: "method_spec list" where
  "methods_1 = [
     spec ''awf/improvement.reject'' ''awf.ops.improvement.op_improvement_reject''
       [([], Repo), ([], Connection), (''improvement_id'', Required ''improvementId''), (''reason'', Optional ''reason'' JNull)]
       [''review'', ''reject''] False,
     spec ''awf/artifact.list'' ''awf.ops.artifact.op_artifact_list''
       [([], Connection), (''run_id'', Required ''runId'')]
       [''status''] False,
     spec ''awf/artifact.read'' ''awf.ops.artifact.op_artifact_read''
       [([], Connection), (''artifact_id'', Required ''artifactId''), (''artifacts_root'', ArtifactsDir)]
       [] False,
     spec ''awf/registry.list'' ''awf.ops.registry.op_registry_list''
       [([], Repo), (''kind'', Required ''kind''), (''conn'', Connection)]
       [] False,
     spec ''awf/registry.get'' ''awf.ops.registry.op_registry_get''
       [([], Repo), ([], Connection), (''kind'', Required ''kind''), (''name'', Required ''name''), (''version'', Required ''version'')]
       [] False,
     spec ''awf/registry.validate'' ''awf.ops.registry.op_registry_validate''
       [([], PathAt (Required ''path'')), (''kind'', Optional ''kind'' JNull)]
       [''registry'', ''validate''] False,
     spec ''awf/registry.publish'' ''awf.ops.registry.op_registry_publish''
       [([], Repo), ([], Connection), (''path'', PathAt (Required ''path'')), (''kind'', Required ''kind'')]
       [''registry'', ''publish''] False,
     spec ''awf/registry.reindex'' ''awf.ops.registry.op_registry_reindex''
       [([], Repo), ([], Connection)]
       [''registry'', ''reindex''] False,
     spec ''awf/registry.retire'' ''awf.ops.registry.op_registry_retire''
       [([], Connection), (''kind'', Required ''kind''), (''name'', Required ''name''), (''version'', Required ''version'')]
       [''registry'', ''retire''] False,
     spec ''awf/registry.trust'' ''awf.ops.registry.op_registry_trust''
       [([], Connection), (''kind'', Required ''kind''), (''name'', Required ''name''), (''version'', Required ''version''), (''status'', Required ''status'')]
       [''registry'', ''trust''] False,
     spec ''awf/skill.invoke'' ''awf.ops.registry.op_skill_invoke''
       [([], Repo), ([], Connection), (''ref'', Required ''ref''), (''input_text'', Required ''input''), (''profile_ref'', Optional ''profile'' (JStr default_author_profile))]
       [] False,
     spec ''awf/workflow.authorDraft'' ''awf.ops.authoring.op_workflow_author_draft''
       [([], Repo), ([], Connection), (''objective'', Required ''objective''), (''name'', Optional ''name'' JNull), (''version'', Optional ''version'' JNull), (''profile_ref'', Optional ''profile'' (JStr default_author_profile))]
       [''review'', ''draft''] False,
     spec ''awf/proposal.get'' ''awf.ops.authoring.op_proposal_get''
       [([], Repo), ([], Connection), (''proposal_id'', Required ''proposalId'')]
       [''review'', ''show''] False,
     spec ''awf/proposal.update'' ''awf.ops.authoring.op_proposal_update''
       [([], Repo), ([], Connection), (''proposal_id'', Required ''proposalId''), (''content'', Required ''content''), (''summary'', Optional ''summary'' JNull)]
       [''review'', ''update''] False,
     spec ''awf/proposal.publish'' ''awf.ops.authoring.op_proposal_publish''
       [([], Repo), ([], Connection), (''proposal_id'', Required ''proposalId''), (''digest'', Required ''digest'')]
       [''review'', ''publish''] False]"

definition methods_2 :: "method_spec list" where
  "methods_2 = [
     spec ''awf/proposal.reject'' ''awf.ops.authoring.op_proposal_reject''
       [([], Repo), ([], Connection), (''proposal_id'', Required ''proposalId''), (''reason'', Optional ''reason'' JNull)]
       [''review'', ''reject''] False,
     spec ''awf/memory.search'' ''awf.ops.memory.op_memory_search''
       [([], Repo), ([], Connection), (''query'', Required ''query''), (''profile_ref'', Optional ''profile'' (JStr ''default@1.0.0''))]
       [''memory'', ''search''] False,
     spec ''awf/memory.get'' ''awf.ops.memory.op_memory_get''
       [([], Repo), ([], Connection), (''ref'', Required ''ref'')]
       [''memory'', ''get''] False,
     spec ''awf/memory.propose'' ''awf.ops.memory.op_memory_propose''
       [([], Repo), ([], Connection), (''path'', PathAt (Required ''path'')), (''summary'', Optional ''summary'' JNull)]
       [''memory'', ''propose''] False,
     spec ''awf/memory.publish'' ''awf.ops.memory.op_memory_publish''
       [([], Repo), ([], Connection), (''proposal_id'', Required ''proposalId''), (''digest'', Required ''digest'')]
       [''memory'', ''publish''] False,
     spec ''awf/memory.reject'' ''awf.ops.memory.op_memory_reject''
       [([], Repo), ([], Connection), (''proposal_id'', Required ''proposalId''), (''reason'', Optional ''reason'' JNull)]
       [''memory'', ''reject''] False,
     spec ''awf/memory.block'' ''awf.ops.memory.op_memory_block''
       [([], Connection), (''ref'', Required ''ref'')]
       [''memory'', ''block''] False,
     spec ''awf/session.start'' ''awf.ops.memory.op_session_start''
       [([], Connection), (''title'', Optional ''title'' JNull), (''expires_at'', Optional ''expiresAt'' JNull)]
       [''memory'', ''session-start''] False,
     spec ''awf/session.append'' ''awf.ops.memory.op_session_append''
       [([], Connection), (''session_id'', Required ''sessionId''), (''role'', Required ''role''), (''content'', Required ''content''), (''summary'', Optional ''summary'' JNull)]
       [''memory'', ''session-append''] False,
     spec ''awf/session.show'' ''awf.ops.memory.op_session_show''
       [([], Connection), (''session_id'', Required ''sessionId'')]
       [''memory'', ''session-show''] False,
     spec ''awf/session.summarize'' ''awf.ops.memory.op_session_summarize''
       [([], Connection), (''session_id'', Required ''sessionId''), (''summary'', Optional ''summary'' JNull)]
       [''memory'', ''session-summarize''] False,
     spec ''awf/voice.sessionStart'' ''awf.ops.voice.op_voice_session_start''
       [([], Connection), (''title'', Optional ''title'' JNull), (''wake_enabled'', Flag (Optional ''wakeEnabled'' (JBool False)))]
       [] False,
     spec ''awf/voice.event'' ''awf.ops.voice.op_voice_session_event''
       [([], Connection), (''voice_session_id'', Required ''voiceSessionId''), (''frame_type'', Required ''frameType''), (''payload'', Optional ''payload'' (JObj [])), (''turn_id'', Optional ''turnId'' JNull)]
       [] False,
     spec ''awf/voice.sessionClose'' ''awf.ops.voice.op_voice_session_close''
       [([], Connection), (''voice_session_id'', Required ''voiceSessionId''), (''reason'', Optional ''reason'' JNull)]
       [] False,
     spec ''awf/voice.submitText'' ''awf.ops.voice.op_voice_submit_text''
       [([], Repo), ([], Connection), (''voice_session_id'', Required ''voiceSessionId''), (''text'', Required ''text''), (''workflow_ref'', Optional ''workflowRef'' JNull), (''voice_profile_ref'', Optional ''voiceProfileRef'' JNull), (''turn_id'', Optional ''turnId'' JNull)]
       [] False]"

definition methods_3 :: "method_spec list" where
  "methods_3 = [
     spec ''awf/episodic.search'' ''awf.ops.memory.op_episodic_search''
       [([], Connection), (''query'', Required ''query''), (''run_id'', Optional ''runId'' JNull)]
       [''memory'', ''events''] False,
     spec ''awf/episodic.timeline'' ''awf.ops.memory.op_episodic_timeline''
       [([], Connection), (''run_id'', Required ''runId'')]
       [''memory'', ''timeline''] False,
     spec ''awf/secret.set'' ''awf.ops.system.op_secret_set''
       [([], Repo), ([], Connection), (''name'', Required ''name''), (''value'', Required ''value'')]
       [''system'', ''secret''] False,
     spec ''awf/secret.listNames'' ''awf.ops.system.op_secret_list_names''
       [([], Connection)]
       [''system'', ''secret''] False,
     spec ''awf/control.summary'' ''awf.ops.control.op_control_center_summary''
       [([], Repo), ([], Connection)]
       [] False,
     spec ''awf/control.runDetail'' ''awf.ops.control.op_control_center_run_detail''
       [([], Repo), ([], Connection), (''run_id'', Required ''runId'')]
       [] False,
     spec ''awf/system.readiness'' ''awf.ops.system.op_system_readiness''
       [([], Repo)]
       [''system'', ''readiness''] False,
     spec ''awf/system.doctor'' ''awf.ops.system.op_system_doctor''
       [([], Repo)]
       [''doctor''] False,
     spec ''awf/llm.servers'' ''awf.ops.llm.op_llm_servers''
       [([], Repo)]
       [''system'', ''llm'', ''servers''] False,
     spec ''awf/llm.models'' ''awf.ops.llm.op_llm_models''
       [([], Repo)]
       [''system'', ''llm'', ''models''] False,
     spec ''awf/llm.serveStatus'' ''awf.ops.llm.op_llm_serve''
       [([], Repo), ([], Connection), (''action'', Fixed (JStr ''status''))]
       [''system'', ''llm'', ''serve''] False,
     spec ''awf/events.subscribe'' ''awf.ops.control.op_events_snapshot''
       [([], Connection), (''run_id'', Optional ''runId'' JNull), (''limit'', Number (Optional ''limit'' (JInt 100)))]
       [] False,
     spec ''awf/intent.classify'' ''awf.ops.intent.op_intent_classify''
       [([], Repo), ([], Connection), (''text'', Required ''text'')]
       [] False,
     spec ''awf/intent.dispatch'' ''awf.ops.intent.op_intent_dispatch''
       [([], Repo), ([], Connection), (''text'', Required ''text''), (''voice_session_id'', Optional ''voiceSessionId'' JNull), (''turn_id'', Optional ''turnId'' JNull), (''async_execution'', Flag (Optional ''async'' (JBool False)))]
       [] True]"

definition METHODS :: "method_spec list" where
  "METHODS = methods_0 @ methods_1 @ methods_2 @ methods_3"

section \<open>The generated tables\<close>

definition handler_paths :: "(string \<times> string) list" where
  "handler_paths = [
     (''_handler_0'', ''awf.ops.run.op_run_start''),
     (''_handler_1'', ''awf.ops.run.op_run_status''),
     (''_handler_2'', ''awf.ops.run.op_run_list''),
     (''_handler_3'', ''awf.ops.run.op_run_resume''),
     (''_handler_4'', ''awf.ops.approval.op_approval_list''),
     (''_handler_5'', ''awf.ops.approval.op_approval_detail''),
     (''_handler_6'', ''awf.ops.approval.op_approval_approve''),
     (''_handler_7'', ''awf.ops.approval.op_approval_reject''),
     (''_handler_8'', ''awf.ops.approval.op_machine_action_preview''),
     (''_handler_9'', ''awf.ops.improvement.op_improvement_list''),
     (''_handler_10'', ''awf.ops.improvement.op_improvement_get''),
     (''_handler_11'', ''awf.ops.improvement.op_improvement_prepare''),
     (''_handler_12'', ''awf.ops.improvement.op_improvement_mark_ready''),
     (''_handler_13'', ''awf.ops.improvement.op_improvement_request_merge''),
     (''_handler_14'', ''awf.ops.improvement.op_improvement_merge''),
     (''_handler_15'', ''awf.ops.improvement.op_improvement_reject''),
     (''_handler_16'', ''awf.ops.artifact.op_artifact_list''),
     (''_handler_17'', ''awf.ops.artifact.op_artifact_read''),
     (''_handler_18'', ''awf.ops.registry.op_registry_list''),
     (''_handler_19'', ''awf.ops.registry.op_registry_get''),
     (''_handler_20'', ''awf.ops.registry.op_registry_validate''),
     (''_handler_21'', ''awf.ops.registry.op_registry_publish''),
     (''_handler_22'', ''awf.ops.registry.op_registry_reindex''),
     (''_handler_23'', ''awf.ops.registry.op_registry_retire''),
     (''_handler_24'', ''awf.ops.registry.op_registry_trust''),
     (''_handler_25'', ''awf.ops.registry.op_skill_invoke''),
     (''_handler_26'', ''awf.ops.authoring.op_workflow_author_draft''),
     (''_handler_27'', ''awf.ops.authoring.op_proposal_get''),
     (''_handler_28'', ''awf.ops.authoring.op_proposal_update''),
     (''_handler_29'', ''awf.ops.authoring.op_proposal_publish''),
     (''_handler_30'', ''awf.ops.authoring.op_proposal_reject''),
     (''_handler_31'', ''awf.ops.memory.op_memory_search''),
     (''_handler_32'', ''awf.ops.memory.op_memory_get''),
     (''_handler_33'', ''awf.ops.memory.op_memory_propose''),
     (''_handler_34'', ''awf.ops.memory.op_memory_publish''),
     (''_handler_35'', ''awf.ops.memory.op_memory_reject''),
     (''_handler_36'', ''awf.ops.memory.op_memory_block''),
     (''_handler_37'', ''awf.ops.memory.op_session_start''),
     (''_handler_38'', ''awf.ops.memory.op_session_append''),
     (''_handler_39'', ''awf.ops.memory.op_session_show''),
     (''_handler_40'', ''awf.ops.memory.op_session_summarize''),
     (''_handler_41'', ''awf.ops.voice.op_voice_session_start''),
     (''_handler_42'', ''awf.ops.voice.op_voice_session_event''),
     (''_handler_43'', ''awf.ops.voice.op_voice_session_close''),
     (''_handler_44'', ''awf.ops.voice.op_voice_submit_text''),
     (''_handler_45'', ''awf.ops.memory.op_episodic_search''),
     (''_handler_46'', ''awf.ops.memory.op_episodic_timeline''),
     (''_handler_47'', ''awf.ops.system.op_secret_set''),
     (''_handler_48'', ''awf.ops.system.op_secret_list_names''),
     (''_handler_49'', ''awf.ops.control.op_control_center_summary''),
     (''_handler_50'', ''awf.ops.control.op_control_center_run_detail''),
     (''_handler_51'', ''awf.ops.system.op_system_readiness''),
     (''_handler_52'', ''awf.ops.system.op_system_doctor''),
     (''_handler_53'', ''awf.ops.llm.op_llm_servers''),
     (''_handler_54'', ''awf.ops.llm.op_llm_models''),
     (''_handler_55'', ''awf.ops.llm.op_llm_serve''),
     (''_handler_56'', ''awf.ops.control.op_events_snapshot''),
     (''_handler_57'', ''awf.ops.intent.op_intent_classify''),
     (''_handler_58'', ''awf.ops.intent.op_intent_dispatch'')]"

definition generated_calls_0 :: "(string \<times> arguments) list" where
  "generated_calls_0 = [
     (''_handler_0'', [([], Repo), ([], Connection), (''workflow_ref'', Required ''workflow''), (''input_data'', Optional ''input'' (JObj [])), (''async_execution'', Flag (Optional ''async'' (JBool False)))]),
     (''_handler_1'', [([], Connection), (''run_id'', Required ''runId'')]),
     (''_handler_2'', [([], Connection)]),
     (''_handler_3'', [([], Repo), ([], Connection)]),
     (''_handler_4'', [([], Connection)]),
     (''_handler_5'', [([], Connection), (''approval_id'', Required ''approvalId'')]),
     (''_handler_6'', [([], Connection), (''approval_id'', Required ''approvalId''), (''channel'', Optional ''channel'' (JStr ''manual'')), (''risk_class'', Optional ''riskClass'' JNull)]),
     (''_handler_7'', [([], Connection), (''approval_id'', Required ''approvalId''), (''reason'', Optional ''reason'' (JStr []))]),
     (''_handler_8'', [([], Connection), (''approval_id'', Required ''approvalId'')]),
     (''_handler_9'', [([], Connection), (''status'', Optional ''status'' JNull)]),
     (''_handler_10'', [([], Connection), (''improvement_id'', Required ''improvementId'')]),
     (''_handler_11'', [([], Repo), ([], Connection), (''run_id'', Required ''runId''), (''summary'', Optional ''summary'' JNull)]),
     (''_handler_12'', [([], Repo), ([], Connection), (''improvement_id'', Required ''improvementId''), (''verdict_artifact_id'', Required ''verdictArtifactId''), (''validation_artifact_ids'', Optional ''validationArtifactIds'' (JList []))]),
     (''_handler_13'', [([], Repo), ([], Connection), (''improvement_id'', Required ''improvementId'')]),
     (''_handler_14'', [([], Repo), ([], Connection), (''improvement_id'', Required ''improvementId''), (''approval_id'', Required ''approvalId'')])]"

definition generated_calls_1 :: "(string \<times> arguments) list" where
  "generated_calls_1 = [
     (''_handler_15'', [([], Repo), ([], Connection), (''improvement_id'', Required ''improvementId''), (''reason'', Optional ''reason'' JNull)]),
     (''_handler_16'', [([], Connection), (''run_id'', Required ''runId'')]),
     (''_handler_17'', [([], Connection), (''artifact_id'', Required ''artifactId''), (''artifacts_root'', ArtifactsDir)]),
     (''_handler_18'', [([], Repo), (''kind'', Required ''kind''), (''conn'', Connection)]),
     (''_handler_19'', [([], Repo), ([], Connection), (''kind'', Required ''kind''), (''name'', Required ''name''), (''version'', Required ''version'')]),
     (''_handler_20'', [([], PathAt (Required ''path'')), (''kind'', Optional ''kind'' JNull)]),
     (''_handler_21'', [([], Repo), ([], Connection), (''path'', PathAt (Required ''path'')), (''kind'', Required ''kind'')]),
     (''_handler_22'', [([], Repo), ([], Connection)]),
     (''_handler_23'', [([], Connection), (''kind'', Required ''kind''), (''name'', Required ''name''), (''version'', Required ''version'')]),
     (''_handler_24'', [([], Connection), (''kind'', Required ''kind''), (''name'', Required ''name''), (''version'', Required ''version''), (''status'', Required ''status'')]),
     (''_handler_25'', [([], Repo), ([], Connection), (''ref'', Required ''ref''), (''input_text'', Required ''input''), (''profile_ref'', Optional ''profile'' (JStr default_author_profile))]),
     (''_handler_26'', [([], Repo), ([], Connection), (''objective'', Required ''objective''), (''name'', Optional ''name'' JNull), (''version'', Optional ''version'' JNull), (''profile_ref'', Optional ''profile'' (JStr default_author_profile))]),
     (''_handler_27'', [([], Repo), ([], Connection), (''proposal_id'', Required ''proposalId'')]),
     (''_handler_28'', [([], Repo), ([], Connection), (''proposal_id'', Required ''proposalId''), (''content'', Required ''content''), (''summary'', Optional ''summary'' JNull)]),
     (''_handler_29'', [([], Repo), ([], Connection), (''proposal_id'', Required ''proposalId''), (''digest'', Required ''digest'')])]"

definition generated_calls_2 :: "(string \<times> arguments) list" where
  "generated_calls_2 = [
     (''_handler_30'', [([], Repo), ([], Connection), (''proposal_id'', Required ''proposalId''), (''reason'', Optional ''reason'' JNull)]),
     (''_handler_31'', [([], Repo), ([], Connection), (''query'', Required ''query''), (''profile_ref'', Optional ''profile'' (JStr ''default@1.0.0''))]),
     (''_handler_32'', [([], Repo), ([], Connection), (''ref'', Required ''ref'')]),
     (''_handler_33'', [([], Repo), ([], Connection), (''path'', PathAt (Required ''path'')), (''summary'', Optional ''summary'' JNull)]),
     (''_handler_34'', [([], Repo), ([], Connection), (''proposal_id'', Required ''proposalId''), (''digest'', Required ''digest'')]),
     (''_handler_35'', [([], Repo), ([], Connection), (''proposal_id'', Required ''proposalId''), (''reason'', Optional ''reason'' JNull)]),
     (''_handler_36'', [([], Connection), (''ref'', Required ''ref'')]),
     (''_handler_37'', [([], Connection), (''title'', Optional ''title'' JNull), (''expires_at'', Optional ''expiresAt'' JNull)]),
     (''_handler_38'', [([], Connection), (''session_id'', Required ''sessionId''), (''role'', Required ''role''), (''content'', Required ''content''), (''summary'', Optional ''summary'' JNull)]),
     (''_handler_39'', [([], Connection), (''session_id'', Required ''sessionId'')]),
     (''_handler_40'', [([], Connection), (''session_id'', Required ''sessionId''), (''summary'', Optional ''summary'' JNull)]),
     (''_handler_41'', [([], Connection), (''title'', Optional ''title'' JNull), (''wake_enabled'', Flag (Optional ''wakeEnabled'' (JBool False)))]),
     (''_handler_42'', [([], Connection), (''voice_session_id'', Required ''voiceSessionId''), (''frame_type'', Required ''frameType''), (''payload'', Optional ''payload'' (JObj [])), (''turn_id'', Optional ''turnId'' JNull)]),
     (''_handler_43'', [([], Connection), (''voice_session_id'', Required ''voiceSessionId''), (''reason'', Optional ''reason'' JNull)]),
     (''_handler_44'', [([], Repo), ([], Connection), (''voice_session_id'', Required ''voiceSessionId''), (''text'', Required ''text''), (''workflow_ref'', Optional ''workflowRef'' JNull), (''voice_profile_ref'', Optional ''voiceProfileRef'' JNull), (''turn_id'', Optional ''turnId'' JNull)])]"

definition generated_calls_3 :: "(string \<times> arguments) list" where
  "generated_calls_3 = [
     (''_handler_45'', [([], Connection), (''query'', Required ''query''), (''run_id'', Optional ''runId'' JNull)]),
     (''_handler_46'', [([], Connection), (''run_id'', Required ''runId'')]),
     (''_handler_47'', [([], Repo), ([], Connection), (''name'', Required ''name''), (''value'', Required ''value'')]),
     (''_handler_48'', [([], Connection)]),
     (''_handler_49'', [([], Repo), ([], Connection)]),
     (''_handler_50'', [([], Repo), ([], Connection), (''run_id'', Required ''runId'')]),
     (''_handler_51'', [([], Repo)]),
     (''_handler_52'', [([], Repo)]),
     (''_handler_53'', [([], Repo)]),
     (''_handler_54'', [([], Repo)]),
     (''_handler_55'', [([], Repo), ([], Connection), (''action'', Fixed (JStr ''status''))]),
     (''_handler_56'', [([], Connection), (''run_id'', Optional ''runId'' JNull), (''limit'', Number (Optional ''limit'' (JInt 100)))]),
     (''_handler_57'', [([], Repo), ([], Connection), (''text'', Required ''text'')]),
     (''_handler_58'', [([], Repo), ([], Connection), (''text'', Required ''text''), (''voice_session_id'', Optional ''voiceSessionId'' JNull), (''turn_id'', Optional ''turnId'' JNull), (''async_execution'', Flag (Optional ''async'' (JBool False)))])]"

definition generated_names :: "string list" where
  "generated_names = [
     ''awf/run.start'',
     ''awf/run.status'',
     ''awf/run.list'',
     ''awf/run.resume'',
     ''awf/approval.list'',
     ''awf/approval.detail'',
     ''awf/approval.approve'',
     ''awf/approval.reject'',
     ''awf/machine.actionPreview'',
     ''awf/improvement.list'',
     ''awf/improvement.get'',
     ''awf/improvement.prepare'',
     ''awf/improvement.markReady'',
     ''awf/improvement.requestMerge'',
     ''awf/improvement.merge'',
     ''awf/improvement.reject'',
     ''awf/artifact.list'',
     ''awf/artifact.read'',
     ''awf/registry.list'',
     ''awf/registry.get'',
     ''awf/registry.validate'',
     ''awf/registry.publish'',
     ''awf/registry.reindex'',
     ''awf/registry.retire'',
     ''awf/registry.trust'',
     ''awf/skill.invoke'',
     ''awf/workflow.authorDraft'',
     ''awf/proposal.get'',
     ''awf/proposal.update'',
     ''awf/proposal.publish'',
     ''awf/proposal.reject'',
     ''awf/memory.search'',
     ''awf/memory.get'',
     ''awf/memory.propose'',
     ''awf/memory.publish'',
     ''awf/memory.reject'',
     ''awf/memory.block'',
     ''awf/session.start'',
     ''awf/session.append'',
     ''awf/session.show'',
     ''awf/session.summarize'',
     ''awf/voice.sessionStart'',
     ''awf/voice.event'',
     ''awf/voice.sessionClose'',
     ''awf/voice.submitText'',
     ''awf/episodic.search'',
     ''awf/episodic.timeline'',
     ''awf/secret.set'',
     ''awf/secret.listNames'',
     ''awf/control.summary'',
     ''awf/control.runDetail'',
     ''awf/system.readiness'',
     ''awf/system.doctor'',
     ''awf/llm.servers'',
     ''awf/llm.models'',
     ''awf/llm.serveStatus'',
     ''awf/events.subscribe'',
     ''awf/intent.classify'',
     ''awf/intent.dispatch'']"

definition dispatch_table :: "(string \<times> nat) list" where
  "dispatch_table = [
     (''awf/run.start'', 0),
     (''awf/run.status'', 1),
     (''awf/run.list'', 2),
     (''awf/run.resume'', 3),
     (''awf/approval.list'', 4),
     (''awf/approval.detail'', 5),
     (''awf/approval.approve'', 6),
     (''awf/approval.reject'', 7),
     (''awf/machine.actionPreview'', 8),
     (''awf/improvement.list'', 9),
     (''awf/improvement.get'', 10),
     (''awf/improvement.prepare'', 11),
     (''awf/improvement.markReady'', 12),
     (''awf/improvement.requestMerge'', 13),
     (''awf/improvement.merge'', 14),
     (''awf/improvement.reject'', 15),
     (''awf/artifact.list'', 16),
     (''awf/artifact.read'', 17),
     (''awf/registry.list'', 18),
     (''awf/registry.get'', 19),
     (''awf/registry.validate'', 20),
     (''awf/registry.publish'', 21),
     (''awf/registry.reindex'', 22),
     (''awf/registry.retire'', 23),
     (''awf/registry.trust'', 24),
     (''awf/skill.invoke'', 25),
     (''awf/workflow.authorDraft'', 26),
     (''awf/proposal.get'', 27),
     (''awf/proposal.update'', 28),
     (''awf/proposal.publish'', 29),
     (''awf/proposal.reject'', 30),
     (''awf/memory.search'', 31),
     (''awf/memory.get'', 32),
     (''awf/memory.propose'', 33),
     (''awf/memory.publish'', 34),
     (''awf/memory.reject'', 35),
     (''awf/memory.block'', 36),
     (''awf/session.start'', 37),
     (''awf/session.append'', 38),
     (''awf/session.show'', 39),
     (''awf/session.summarize'', 40),
     (''awf/voice.sessionStart'', 41),
     (''awf/voice.event'', 42),
     (''awf/voice.sessionClose'', 43),
     (''awf/voice.submitText'', 44),
     (''awf/episodic.search'', 45),
     (''awf/episodic.timeline'', 46),
     (''awf/secret.set'', 47),
     (''awf/secret.listNames'', 48),
     (''awf/control.summary'', 49),
     (''awf/control.runDetail'', 50),
     (''awf/system.readiness'', 51),
     (''awf/system.doctor'', 52),
     (''awf/llm.servers'', 53),
     (''awf/llm.models'', 54),
     (''awf/llm.serveStatus'', 55),
     (''awf/events.subscribe'', 56),
     (''awf/intent.classify'', 57),
     (''awf/intent.dispatch'', 58)]"

definition generated_calls :: "(string \<times> arguments) list" where
  "generated_calls = generated_calls_0 @ generated_calls_1 @ generated_calls_2 @ generated_calls_3"

text \<open>What the generator renders, up to the layout of the text.\<close>

definition handler_alias :: "nat \<Rightarrow> string" where
  "handler_alias i = ''_handler_'' @ nat_str i"

definition render_handlers :: "method_spec list \<Rightarrow> (string \<times> string) list" where
  "render_handlers ms = map (\<lambda>(i, s). (handler_alias i, ms_handler s)) (enumerate 0 ms)"

definition render_calls :: "method_spec list \<Rightarrow> (string \<times> arguments) list" where
  "render_calls ms = map (\<lambda>(i, s). (handler_alias i, ms_args s)) (enumerate 0 ms)"

definition render_names :: "method_spec list \<Rightarrow> string list" where
  "render_names ms = map ms_name ms"

definition render_table :: "method_spec list \<Rightarrow> (string \<times> nat) list" where
  "render_table ms = map (\<lambda>(i, s). (ms_name s, i)) (enumerate 0 ms)"

section \<open>Dispatch\<close>

text \<open>A value as it is passed to a handler.\<close>

datatype passed = TheRepo | TheConnection | TheArtifacts | Plain json | PathTo string

definition subscript :: "string \<Rightarrow> json \<Rightarrow> json result" where
  "subscript key v = (case v of
       JObj d \<Rightarrow> if has_key key d then Inr (get key d) else fail ''KeyError'' (str_repr key)
     | JList xs \<Rightarrow> fail ''TypeError'' ''list indices must be integers or slices, not str''
     | JStr s \<Rightarrow> fail ''TypeError'' ''string indices must be integers''
     | _ \<Rightarrow> fail ''TypeError'' ''object is not subscriptable'')"

definition plain_of :: "passed \<Rightarrow> json" where
  "plain_of v = (case v of Plain j \<Rightarrow> j | _ \<Rightarrow> JNull)"

definition path_of :: "json \<Rightarrow> passed result" where
  "path_of v = (case v of JStr s \<Rightarrow> Inr (PathTo s)
     | _ \<Rightarrow> fail ''TypeError'' ''argument should be a str or an os.PathLike object'')"

primrec given_value :: "json \<Rightarrow> given \<Rightarrow> passed result" where
  "given_value params Repo = Inr TheRepo"
| "given_value params Connection = Inr TheConnection"
| "given_value params ArtifactsDir = Inr TheArtifacts"
| "given_value params (Fixed v) = Inr (Plain v)"
| "given_value params (Required key) = andThen (subscript key params) (\<lambda>v. Inr (Plain v))"
| "given_value params (Optional key otherwise) = andThen (get_attr params) (\<lambda>d. Inr (Plain (get_or key otherwise d)))"
| "given_value params (Flag g) = andThen (given_value params g) (\<lambda>v. Inr (Plain (JBool (truthy (plain_of v)))))"
| "given_value params (Number g) = andThen (given_value params g) (\<lambda>v. andThen (int_of (plain_of v)) (\<lambda>n. Inr (Plain (JInt n))))"
| "given_value params (PathAt g) = andThen (given_value params g) (\<lambda>v. path_of (plain_of v))"

text \<open>A handler is looked up by the module and the name of its function.\<close>

type_synonym 'x handlers = "string \<Rightarrow> string \<Rightarrow> (string \<times> passed) list \<Rightarrow> ('x, json) op"

definition module_of :: "string \<Rightarrow> string" where
  "module_of dotted = rev (tl (dropWhile (\<lambda>c. c \<noteq> CHR ''.'') (rev dotted)))"

definition call_handler :: "'x handlers \<Rightarrow> string \<Rightarrow> arguments \<Rightarrow> json \<Rightarrow> ('x, json) op" where
  "call_handler H dotted args params =
     bindE (liftR (mapR (\<lambda>(name, g). andThen (given_value params g) (\<lambda>v. Inr (name, v))) args)) (\<lambda>vs.
       H (module_of dotted) (after_last (CHR ''.'') dotted) vs)"

text \<open>The functions \<open>_call_n\<close> of the generated module.\<close>

definition run_call :: "'x handlers \<Rightarrow> string \<times> arguments \<Rightarrow> json \<Rightarrow> ('x, json) op" where
  "run_call H call params =
     (case map_of handler_paths (fst call) of
        None \<Rightarrow> throw ''KeyError'' (str_repr (fst call))
      | Some dotted \<Rightarrow> call_handler H dotted (snd call) params)"

definition dispatch :: "'x handlers \<Rightarrow> json \<Rightarrow> json \<Rightarrow> ('x, json) op" where
  "dispatch H name params =
     (if \<not> is_hashable name then throw ''TypeError'' ''unhashable type''
      else case (case name of JStr s \<Rightarrow> map_of dispatch_table s | _ \<Rightarrow> None) of
          None \<Rightarrow> throw ''JsonRpcError'' (''unknown method: '' @ py_str name)
        | Some i \<Rightarrow> run_call H (generated_calls ! i) params)"

section \<open>Lines\<close>

definition METHOD_NOT_FOUND :: int where "METHOD_NOT_FOUND = - 32601"
definition PARSE_ERROR :: int where "PARSE_ERROR = - 32700"
definition INTERNAL_ERROR :: int where "INTERNAL_ERROR = - 32000"

definition error_reply :: "json \<Rightarrow> int \<Rightarrow> string \<Rightarrow> obj" where
  "error_reply i code message = [(''jsonrpc'', JStr ''2.0''), (''id'', i), (''error'', JObj [(''code'', JInt code), (''message'', JStr message)])]"

definition result_reply :: "json \<Rightarrow> json \<Rightarrow> obj" where
  "result_reply i v = [(''jsonrpc'', JStr ''2.0''), (''id'', i), (''result'', v)]"

text \<open>The except clauses; only dispatch raises JsonRpcError, always with METHOD_NOT_FOUND.\<close>

definition failure_reply :: "json \<Rightarrow> exc \<Rightarrow> obj" where
  "failure_reply i e = error_reply i (if exc_type e = ''JsonRpcError'' then METHOD_NOT_FOUND else INTERNAL_ERROR) (exc_text e)"

definition answer_request :: "'x handlers \<Rightarrow> obj \<Rightarrow> ('x, obj) op" where
  "answer_request H request =
     bindE (attempt (dispatch H (get ''method'' request) (or_else (get ''params'' request) (JObj [])))) (\<lambda>r.
       ret (case r of Inl e \<Rightarrow> failure_reply (get ''id'' request) e | Inr v \<Rightarrow> result_reply (get ''id'' request) v))"

text \<open>
  One line: what is written to the stream.  A line that is JSON but no object has no get, and the exception
  is not caught here.
\<close>

definition handle_line :: "'x handlers \<Rightarrow> (string \<Rightarrow> json result) \<Rightarrow> string \<Rightarrow> ('x, obj) op" where
  "handle_line H parse line = (case parse line of
       Inl e \<Rightarrow> if exc_type e = ''JSONDecodeError'' then ret (error_reply JNull PARSE_ERROR ''parse error'') else raise e
     | Inr v \<Rightarrow> bindE (liftR (get_attr v)) (answer_request H))"

text \<open>The loop over the lines: the replies written, and the exception that ended it, if one did.\<close>

primrec serve_stdio :: "'x handlers \<Rightarrow> (string \<Rightarrow> json result) \<Rightarrow> string list \<Rightarrow> ('x, obj list \<times> exc option) op" where
  "serve_stdio H parse [] = ret ([], None)"
| "serve_stdio H parse (line # others) =
     (if strip line = [] then serve_stdio H parse others
      else bindE (attempt (handle_line H parse (strip line))) (\<lambda>r. case r of
          Inl e \<Rightarrow> ret ([], Some e)
        | Inr reply \<Rightarrow> bindE (serve_stdio H parse others) (\<lambda>(replies, failed). ret (reply # replies, failed))))"

section \<open>The tables are what the manifest says\<close>

lemma mirror:
  "handler_paths = render_handlers METHODS" "generated_calls = render_calls METHODS"
  "generated_names = render_names METHODS" "dispatch_table = render_table METHODS"
  by code_simp+

lemma names_distinct: "distinct (map ms_name METHODS)" by code_simp

lemma aliases_distinct: "distinct (map fst (render_handlers METHODS))" by code_simp

lemma keys_enumerate: "map fst (map (\<lambda>(i, x). (f x, g i x)) (enumerate n xs)) = map f xs"
  by (induction xs arbitrary: n) auto

lemma enumerate_member: "i < length xs \<Longrightarrow> (i, xs ! i) \<in> set (enumerate 0 xs)"
  by (simp add: in_set_enumerate_eq)

lemma map_of_table: "i < length METHODS \<Longrightarrow> map_of dispatch_table (ms_name (METHODS ! i)) = Some i"
proof (rule map_of_is_SomeI)
  show "distinct (map fst dispatch_table)"
    using names_distinct unfolding mirror(4) render_table_def keys_enumerate .
  show "i < length METHODS \<Longrightarrow> (ms_name (METHODS ! i), i) \<in> set dispatch_table"
    unfolding mirror(4) render_table_def set_map by (rule image_eqI [OF _ enumerate_member]) simp_all
qed

lemma table_domain: "dom (map_of dispatch_table) = ms_name ` set METHODS"
proof -
  have "map fst dispatch_table = map ms_name METHODS" unfolding mirror(4) render_table_def keys_enumerate ..
  then show ?thesis by (metis dom_map_of_conv_image_fst list.set_map)
qed

lemma generated_call: "i < length METHODS \<Longrightarrow> generated_calls ! i = (handler_alias i, ms_args (METHODS ! i))"
  by (simp add: mirror(2) render_calls_def nth_enumerate_eq)

lemma handler_of_alias: "i < length METHODS \<Longrightarrow> map_of handler_paths (handler_alias i) = Some (ms_handler (METHODS ! i))"
proof (rule map_of_is_SomeI)
  show "distinct (map fst handler_paths)" using aliases_distinct unfolding mirror(1) .
  show "i < length METHODS \<Longrightarrow> (handler_alias i, ms_handler (METHODS ! i)) \<in> set handler_paths"
    unfolding mirror(1) render_handlers_def set_map by (rule image_eqI [OF _ enumerate_member]) simp_all
qed

text \<open>
  C25. The generated tables dispatch as the manifest says: a method of the manifest calls its handler with its
  arguments, evaluated on the params, and any other name is refused with JsonRpcError before anything is done.
\<close>

theorem dispatch_follows_manifest:
  "dispatch H (JStr name) params =
     (case find (\<lambda>s. ms_name s = name) METHODS of
        Some s \<Rightarrow> call_handler H (ms_handler s) (ms_args s) params
      | None \<Rightarrow> throw ''JsonRpcError'' (''unknown method: '' @ name))"
proof (cases "find (\<lambda>s. ms_name s = name) METHODS")
  case None
  then have "name \<notin> dom (map_of dispatch_table)" unfolding table_domain find_None_iff by blast
  with None show ?thesis by (simp add: dispatch_def is_hashable_def py_str_def domIff)
next
  case (Some s)
  then obtain i where i: "i < length METHODS" "METHODS ! i = s" "ms_name s = name" by (auto simp: find_Some_iff)
  with map_of_table [OF i(1)] generated_call [OF i(1)] handler_of_alias [OF i(1)] Some
  show ?thesis by (simp add: dispatch_def run_call_def is_hashable_def)
qed

section \<open>Every request is answered\<close>

text \<open>A line the server takes for a request: JSON that is an object, or no JSON at all.\<close>

definition framed :: "(string \<Rightarrow> json result) \<Rightarrow> string \<Rightarrow> bool" where
  "framed parse line = (case parse (strip line) of Inl e \<Rightarrow> exc_type e = ''JSONDecodeError'' | Inr v \<Rightarrow> is_obj v)"

definition id_of_line :: "(string \<Rightarrow> json result) \<Rightarrow> string \<Rightarrow> json" where
  "id_of_line parse line = (case parse (strip line) of Inl e \<Rightarrow> JNull | Inr v \<Rightarrow> get ''id'' (as_obj v))"

definition settled :: "obj \<Rightarrow> bool" where
  "settled reply = (get ''jsonrpc'' reply = JStr ''2.0'' \<and> has_key ''result'' reply \<noteq> has_key ''error'' reply)"

lemma replies_settled [simp]:
  "settled (error_reply i c t)" "settled (result_reply i v)" "settled (failure_reply i e)"
  "get ''id'' (error_reply i c t) = i" "get ''id'' (result_reply i v) = i" "get ''id'' (failure_reply i e) = i"
  by (simp_all add: settled_def failure_reply_def error_reply_def result_reply_def get_def has_key_def)

lemma answer_request_Val:
  assumes "halts (dispatch H (get ''method'' request) (or_else (get ''params'' request) (JObj [])))"
  shows "\<exists>reply w'. answer_request H request w = (Val reply, w') \<and> settled reply \<and> get ''id'' reply = get ''id'' request"
proof -
  from assms have "fst (dispatch H (get ''method'' request) (or_else (get ''params'' request) (JObj [])) w) \<noteq> Div"
    unfolding halts_def by blast
  then show ?thesis
    by (cases "dispatch H (get ''method'' request) (or_else (get ''params'' request) (JObj [])) w")
      (auto simp: answer_request_def bindE_def attempt_def ret_def split: res.splits)
qed

lemma dispatch_halts:
  assumes "\<And>m f vs. halts (H m f vs)"
  shows "halts (dispatch H name params)"
proof -
  have "halts (call_handler H d args p)" for d args p
    unfolding call_handler_def by (intro halt assms)
  then have "halts (run_call H c p)" for c p
    unfolding run_call_def by (auto intro: halt split: option.split)
  then show ?thesis unfolding dispatch_def by (auto intro: halt split: option.split)
qed

lemma handle_line_Val:
  assumes "\<And>m f vs. halts (H m f vs)" "framed parse line"
  shows "\<exists>reply w'. handle_line H parse (strip line) w = (Val reply, w') \<and> settled reply \<and> get ''id'' reply = id_of_line parse line"
proof (cases "parse (strip line)")
  case (Inl e)
  with assms(2) show ?thesis by (simp add: framed_def handle_line_def id_of_line_def ret_def)
next
  case (Inr v)
  with assms(2) obtain d where "v = JObj d" by (cases v) (auto simp: framed_def)
  with Inr answer_request_Val [of H d w, OF dispatch_halts [of H, OF assms(1)]] show ?thesis
    by (simp add: handle_line_def id_of_line_def get_attr_def liftR_def bindE_def ret_def)
qed

text \<open>
  C24. Every request gets one reply, in order: as long as the handlers come back and each line is an object or no JSON
  at all, the server reads all of its input, and its replies carry the ids of the requests, each with either
  a result or an error, whatever the handlers raise.
\<close>

theorem every_request_is_answered:
  assumes "\<And>m f vs. halts (H m f vs)" "\<And>line. line \<in> set input \<Longrightarrow> strip line \<noteq> [] \<Longrightarrow> framed parse line"
  shows "\<exists>replies w'. serve_stdio H parse input w = (Val (replies, None), w') \<and> list_all settled replies \<and>
    map (get ''id'') replies = map (id_of_line parse) (filter (\<lambda>line. strip line \<noteq> []) input)"
  using assms(2)
proof (induction input arbitrary: w)
  case Nil
  show ?case by (simp add: ret_def)
next
  case (Cons line others)
  show ?case
  proof (cases "strip line = []")
    case True
    with Cons show ?thesis by simp
  next
    case False
    with handle_line_Val [of H parse line w, OF assms(1)] Cons.prems obtain reply w1
      where h: "handle_line H parse (strip line) w = (Val reply, w1)" "settled reply" "get ''id'' reply = id_of_line parse line"
      by auto
    from Cons.IH [of w1] Cons.prems obtain rs w2
      where r: "serve_stdio H parse others w1 = (Val (rs, None), w2)" "list_all settled rs"
        "map (get ''id'') rs = map (id_of_line parse) (filter (\<lambda>line. strip line \<noteq> []) others)" by auto
    show ?thesis using False h r by (simp add: bindE_def attempt_def ret_def)
  qed
qed

text \<open>One line that is JSON but no object ends the server, and what follows it is never answered.\<close>

lemma list_line_ends_server:
  assumes "parse (strip line) = Inr (JList xs)" "strip line \<noteq> []"
  shows "serve_stdio H parse (line # others) w = (Val ([], Some (Exc ''AttributeError'' ''object has no attribute get'' None)), w)"
  using assms by (simp add: handle_line_def get_attr_def fail_def liftR_def raise_def bindE_def attempt_def ret_def)

text \<open>The server with two of its operations in place.\<close>

definition some_handlers :: "(json \<Rightarrow> string) \<Rightarrow> 'x handlers" where
  "some_handlers dumps_of m f vs =
     (let arg = (\<lambda>k. plain_of ((case map_of vs k of Some v \<Rightarrow> v | None \<Rightarrow> Plain JNull))) in
      if (m, f) = (''awf.ops.control'', ''op_events_snapshot'')
      then op_events_snapshot dumps_of (case arg ''run_id'' of JStr s \<Rightarrow> Some s | _ \<Rightarrow> None) (case arg ''limit'' of JInt n \<Rightarrow> n | _ \<Rightarrow> 100)
      else if (m, f) = (''awf.ops.system'', ''op_secret_list_names'')
      then bindE op_secret_list_names (\<lambda>ns. ret (JList (map JStr ns)))
      else throw ''AttributeError'' ''module has no such function'')"


lemma some_handlers_halt: "halts (some_handlers dumps_of m f vs)"
  unfolding some_handlers_def op_events_snapshot_def op_secret_list_names_def list_secret_names_def Let_def by (intro halt)

definition demo_parse :: "string \<Rightarrow> json result" where
  "demo_parse line =
     (if line = ''events'' then Inr (JObj [(''id'', JInt 1), (''method'', JStr ''awf/events.subscribe''), (''params'', JObj [(''limit'', JInt 2)])])
      else if line = ''guess'' then Inr (JObj [(''id'', JInt 2), (''method'', JStr ''awf/run.delete'')])
      else fail ''JSONDecodeError'' ''Expecting value'')"

lemma every_request_is_answered_witness:
  "case fst (serve_stdio (some_handlers (\<lambda>j. [])) demo_parse [''events'', '' '', ''guess'', ''noise''] demo_events) of
     Val (replies, failed) \<Rightarrow> failed = None \<and> map (get ''id'') replies = [JInt 1, JInt 2, JNull] \<and> list_all settled replies | _ \<Rightarrow> False"
proof -
  have framed: "framed demo_parse line" for line
    by (simp add: framed_def demo_parse_def fail_def)
  have ids: "map (id_of_line demo_parse) (filter (\<lambda>line. strip line \<noteq> []) [''events'', '' '', ''guess'', ''noise'']) = [JInt 1, JInt 2, JNull]"
    by code_simp
  from every_request_is_answered [of "some_handlers (\<lambda>j. [])", OF some_handlers_halt, of "[''events'', '' '', ''guess'', ''noise'']" demo_parse demo_events]
  show ?thesis using framed unfolding ids by auto
qed

lemma dispatch_follows_manifest_witness:
  "fst (dispatch (some_handlers (\<lambda>j. [])) (JStr ''awf/run.delete'') (JObj []) demo_events) = Exn (Exc ''JsonRpcError'' ''unknown method: awf/run.delete'' None)"
proof -
  have "find (\<lambda>s. ms_name s = ''awf/run.delete'') METHODS = None" by code_simp
  then show ?thesis by (simp add: dispatch_follows_manifest throw_def raise_def)
qed

end
