(* ===== verification/Awf_Cli.thy ===== *)
theory Awf_Cli
  imports Awf_Control
begin

text \<open>
  Commands of the command line that do more than call one operation: the secret commands with the key in
  .env (secrets/cli.py), the review commands that find out what an id names, and the exit codes
  (cli/main.py).  Parsing of arguments and the layout of what is printed are left out.
\<close>

section \<open>The secret commands (secrets/cli.py)\<close>

text \<open>
  \<open>ask_value\<close> is getpass.getpass, \<open>fresh_key\<close> the text of base64.urlsafe_b64encode(os.urandom(32)).
\<close>

record 'x terminal =
  ask_value :: "string \<Rightarrow> 'x \<Rightarrow> string res \<times> 'x"
  fresh_key :: "'x \<Rightarrow> string res \<times> 'x"

definition key_name :: string where "key_name = ''AWF_SECRET_KEY''"

definition load_key :: "'x files \<Rightarrow> ('x, string) op" where
  "load_key F =
     bindE (outside (get_env_value F (env_path (repo F)) key_name)) (\<lambda>key.
       if list_all (\<lambda>c. c \<le> CHR 0x7F) key then ret key else throw ''UnicodeEncodeError'' ''ordinal not in range(128)'')"

definition cmd_set :: "'x terminal \<Rightarrow> 'x files \<Rightarrow> 'x cipher \<Rightarrow> string \<Rightarrow> ('x, unit) op" where
  "cmd_set T F C name =
     bindE (outside (ask_value T (''value for '' @ quoted name @ '': ''))) (\<lambda>plaintext.
     bindE (load_key F) (\<lambda>key. set_secret C name plaintext key))"

definition cmd_list :: "('x, string list) op" where
  "cmd_list = list_secret_names"

definition cmd_rotate_key :: "'x terminal \<Rightarrow> 'x files \<Rightarrow> 'x host \<Rightarrow> 'x cipher \<Rightarrow> ('x, unit) op" where
  "cmd_rotate_key T F H C =
     bindE (outside (fresh_key T)) (\<lambda>new_key.
     bindE (load_key F) (\<lambda>old_key.
     seqE (rotate_key C old_key new_key)
       (outside (set_env_value F H (env_path (repo F)) key_name new_key))))"

section \<open>Lines of the .env file\<close>

text \<open>A character that neither ends a line nor is stripped.\<close>

definition solid :: "char \<Rightarrow> bool" where
  "solid c = (\<not> is_space c \<and> \<not> is_line_break c)"

definition unbroken :: "string \<Rightarrow> bool" where
  "unbroken l = list_all (\<lambda>c. \<not> is_line_break c) l"

lemma lines_unbroken: "unbroken acc \<Longrightarrow> l \<in> set (lines_from acc s) \<Longrightarrow> unbroken l"
  by (induction acc s rule: lines_from.induct) (auto simp: unbroken_def split: if_splits)

lemma first_line: "unbroken l \<Longrightarrow> lines_from acc (l @ CHR 0x0A # s) = (acc @ l) # lines_from [] s"
proof (induction l arbitrary: acc)
  case Nil
  show ?case by (cases s) (simp_all add: is_line_break_def)
next
  case (Cons c l)
  then have c: "\<not> is_line_break c" "c \<noteq> CHR 0x0D" by (auto simp: unbroken_def is_line_break_def)
  obtain d r where r: "l @ CHR 0x0A # s = d # r" by (cases l) auto
  have "lines_from acc ((c # l) @ CHR 0x0A # s) = lines_from (acc @ [c]) (l @ CHR 0x0A # s)" by (simp add: r c)
  with Cons show ?case by (simp add: unbroken_def)
qed

lemma join_lines: "ls \<noteq> [] \<Longrightarrow> join nl ls @ nl = concat (map (\<lambda>l. l @ nl) ls)"
proof (induction ls)
  case (Cons l ls)
  then show ?case by (cases ls) (simp_all add: join_def nl_def)
qed simp

lemma splitlines_join:
  assumes "ls \<noteq> []" "list_all unbroken ls"
  shows "splitlines (join nl ls @ nl) = ls"
proof -
  have "lines_from [] (concat (map (\<lambda>l. l @ nl) ls)) = ls"
    using assms(2) by (induction ls) (simp_all add: nl_def first_line)
  with assms(1) show ?thesis by (simp add: splitlines_def join_lines)
qed

text \<open>The entry that a line makes, if it makes one.\<close>

definition entry_of :: "string \<Rightarrow> (string \<times> string) option" where
  "entry_of line =
     (let s = strip line in
      if s = [] \<or> hd s = CHR ''#'' \<or> CHR ''='' \<notin> set s then None
      else let (k, v) = partition_at (CHR ''='') s in Some (strip k, strip v))"

lemma env_line_entry: "env_line l vs = (case entry_of l of None \<Rightarrow> vs | Some (k, v) \<Rightarrow> AList.update k v vs)"
  by (simp add: env_line_def entry_of_def Let_def split: prod.split)

lemma fold_other:
  "\<forall>l \<in> set ls. map_option fst (entry_of l) \<noteq> Some key \<Longrightarrow> map_of (fold env_line ls vs) key = map_of vs key"
  by (induction ls arbitrary: vs) (auto simp: env_line_entry update_conv' split: option.splits)

lemma entry_of_setting:
  assumes "key \<noteq> []" "hd key \<noteq> CHR ''#''" "CHR ''='' \<notin> set key" "list_all solid key" "v \<noteq> []" "list_all solid v"
  shows "entry_of (key @ ''='' @ v) = Some (key, v)"
proof -
  have ends: "\<not> is_space (hd key)" "\<not> is_space (last key)" "\<not> is_space (hd v)" "\<not> is_space (last v)"
    using assms by (auto simp: list_all_iff solid_def)
  have "strip (key @ ''='' @ v) = key @ ''='' @ v" "strip key = key" "strip v = v"
    using assms(1,5) ends by (auto intro!: strip_fixed)
  moreover have "partition_at (CHR ''='') (key @ ''='' @ v) = (key, v)"
    using assms(3) by (simp add: partition_at_def takeWhile_append dropWhile_append)
  ultimately show ?thesis using assms(1,2) by (simp add: entry_of_def)
qed

text \<open>set_env_value replaces the first line with the key, or appends one.\<close>

lemma set_env_lines_cases:
  obtains (replaced) before l after where "ls = before @ l # after" "starts_with (key @ ''='') (strip l)"
      "set_env_lines key v ls = before @ (key @ ''='' @ v) # after"
  | (appended) "set_env_lines key v ls = ls @ [key @ ''='' @ v]"
proof (induction ls arbitrary: thesis)
  case Nil
  then show ?case by simp
next
  case (Cons x xs)
  show ?case
  proof (cases "starts_with (key @ ''='') (strip x)")
    case True
    then show ?thesis by (intro Cons.prems(1) [of "[]" x xs]) simp_all
  next
    case False
    show ?thesis
    proof (rule Cons.IH)
      fix before l after
      assume "xs = before @ l # after" "starts_with (key @ ''='') (strip l)" "set_env_lines key v xs = before @ (key @ ''='' @ v) # after"
      with False show thesis by (intro Cons.prems(1) [of "x # before" l after]) simp_all
    next
      assume "set_env_lines key v xs = xs @ [key @ ''='' @ v]"
      with False show thesis by (intro Cons.prems(2)) simp
    qed
  qed
qed

text \<open>A file in which no line after the one that is rewritten sets the key again.\<close>

definition set_once :: "string \<Rightarrow> string \<Rightarrow> bool" where
  "set_once key content =
     (\<forall>before l after. splitlines content = before @ l # after \<longrightarrow> starts_with (key @ ''='') (strip l) \<longrightarrow>
        (\<forall>m \<in> set after. map_option fst (entry_of m) \<noteq> Some key))"

text \<open>
  The .env file gives back what was written: after set_env_value for a key that the file sets once, or not at
  all, the file parses to the new value for it.
\<close>

lemma env_round_trip:
  assumes "set_once key content" and key: "key \<noteq> []" "hd key \<noteq> CHR ''#''" "CHR ''='' \<notin> set key" "list_all solid key"
    and v: "v \<noteq> []" "list_all solid v"
  shows "map_of (parse_env (set_env_text key v content)) key = Some v"
proof -
  let ?new = "key @ ''='' @ v" and ?ls = "splitlines content"
  have new: "unbroken ?new" using key(4) v(2) by (auto simp: unbroken_def list_all_iff solid_def is_line_break_def)
  have old: "list_all unbroken ?ls"
    using lines_unbroken [of "[]" _ content] by (auto simp: splitlines_def list_all_iff unbroken_def)
  have found: "map_of (fold env_line (xs @ ?new # ys) []) key = Some v"
    if "\<forall>m \<in> set ys. map_option fst (entry_of m) \<noteq> Some key" for xs ys
    using fold_other [OF that] entry_of_setting [OF key v] by (simp add: env_line_entry update_conv')
  show ?thesis
  proof (cases rule: set_env_lines_cases [where ls = "?ls" and key = key and v = v])
    case (replaced before l after)
    then have "splitlines (set_env_text key v content) = before @ ?new # after"
      using old new unfolding set_env_text_def by (subst splitlines_join) (simp_all only: replaced(3), simp_all)
    moreover have "\<forall>m \<in> set after. map_option fst (entry_of m) \<noteq> Some key"
      using assms(1) replaced(1,2) unfolding set_once_def by blast
    ultimately show ?thesis using found by (simp add: parse_env_def)
  next
    case appended
    then have "splitlines (set_env_text key v content) = ?ls @ [?new]"
      using old new unfolding set_env_text_def by (subst splitlines_join) (simp_all only: appended, simp_all)
    then show ?thesis using found [of "[]" ?ls] by (simp add: parse_env_def)
  qed
qed

section \<open>Rotation and the key in .env\<close>

text \<open>
  What the command relies on outside of the database, for a reading of the text of .env: read and write are
  those of a file, neither encryption nor random bytes change it, and a fresh key is solid text in ASCII.
\<close>

definition env_laws :: "'x files \<Rightarrow> 'x host \<Rightarrow> 'x cipher \<Rightarrow> 'x terminal \<Rightarrow> ('x \<Rightarrow> string) \<Rightarrow> bool" where
  "env_laws F H C T env_text =
     ((\<forall>x. read_text F (env_path (repo F)) x = (Val (env_text x), x)) \<and>
      (\<forall>t x x'. write_text H (env_path (repo F)) t x = (Val (), x') \<longrightarrow> env_text x' = t) \<and>
      (\<forall>k p x. env_text (snd (encrypt C k p x)) = env_text x) \<and>
      (\<forall>k x x'. fresh_key T x = (Val k, x') \<longrightarrow> env_text x' = env_text x \<and> k \<noteq> [] \<and> list_all (\<lambda>c. solid c \<and> c \<le> CHR 0x7F) k))"

locale env_store =
  fixes F :: "'x files" and H :: "'x host" and C :: "'x cipher" and T :: "'x terminal" and env_text :: "'x \<Rightarrow> string"
  assumes laws: "env_laws F H C T env_text"
begin

lemma key_read: "outside (get_env_value F (env_path (repo F)) k) w =
    (case map_of (parse_env (env_text (ext w))) k of
       None \<Rightarrow> (Exn (Exc ''KeyError'' (str_repr (k @ '' not found in '' @ as_posix (env_path (repo F)))) None), w)
     | Some v \<Rightarrow> (Val v, w))"
  using laws by (simp add: env_laws_def outside_def get_env_value_def bindE_def throw_def raise_def ret_def split: option.split)

lemma loaded: "load_key F w = (Val key, w') \<longleftrightarrow>
    w' = w \<and> map_of (parse_env (env_text (ext w))) key_name = Some key \<and> list_all (\<lambda>c. c \<le> CHR 0x7F) key"
  by (auto simp: load_key_def bindE_def key_read throw_def raise_def ret_def split: option.splits)

lemma key_written:
  assumes "outside (set_env_value F H (env_path (repo F)) k v) w = (Val (), w')"
  shows "env_text (ext w') = set_env_text k v (env_text (ext w)) \<and> secrets w' = secrets w"
proof -
  from assms obtain x where x: "write_text H (env_path (repo F)) (set_env_text k v (env_text (ext w))) (ext w) = (Val (), x)" "w' = w\<lparr>ext := x\<rparr>"
    using laws by (auto simp: env_laws_def outside_Val set_env_value_def bind_Val)
  with laws show ?thesis by (auto simp: env_laws_def)
qed

lemma drawn:
  assumes "outside (fresh_key T) w = (Val k, w')"
  shows "env_text (ext w') = env_text (ext w) \<and> secrets w' = secrets w \<and> k \<noteq> [] \<and> list_all (\<lambda>c. solid c \<and> c \<le> CHR 0x7F) k"
proof -
  from assms obtain x where x: "fresh_key T (ext w) = (Val k, x)" "w' = w\<lparr>ext := x\<rparr>" by (auto simp: outside_Val)
  then have "env_text x = env_text (ext w) \<and> k \<noteq> [] \<and> list_all (\<lambda>c. solid c \<and> c \<le> CHR 0x7F) k"
    using laws unfolding env_laws_def by blast
  with x(2) show ?thesis by simp
qed

lemma sealing_keeps: "carries (\<lambda>w. env_text (ext w) = t) (outside (encrypt C k p))"
proof (rule carriesI)
  fix w :: "'x world" assume "env_text (ext w) = t"
  moreover have "env_text (snd (encrypt C k p (ext w))) = env_text (ext w)" using laws unfolding env_laws_def by blast
  ultimately show "env_text (ext (snd (outside (encrypt C k p) w))) = t" by (cases "encrypt C k p (ext w)") (simp add: outside_def)
qed

lemma rotation_keeps: "rotate_key C old new w = (Val (), w') \<Longrightarrow> env_text (ext w') = env_text (ext w)"
proof -
  have change: "carries (\<lambda>w. env_text (ext w) = t) (modify (\<lambda>w. w\<lparr>secrets := f w\<rparr>))" for t f
    by (simp add: carries_def modify_def)
  have now: "carries (\<lambda>w. env_text (ext w) = t) utc_now_rfc3339" for t
    by (simp add: carries_def utc_now_rfc3339_def)
  have "carries (\<lambda>w. env_text (ext w) = t) (rotate_key C old new)" for t
    unfolding rotate_key_def rotate_row_def by (intro carry sealing_keeps change now)
  from carriesD [OF this [of "env_text (ext w)"], of w] show "rotate_key C old new w = (Val (), w') \<Longrightarrow> env_text (ext w') = env_text (ext w)"
    by simp
qed

lemma rotated:
  assumes "cmd_rotate_key T F H C w = (Val (), w')" "set_once key_name (env_text (ext w))"
  obtains old new w1 w2 where "map_of (parse_env (env_text (ext w))) key_name = Some old" "secrets w1 = secrets w"
    "rotate_key C old new w1 = (Val (), w2)" "secrets w' = secrets w2" "load_key F w' = (Val new, w')"
proof -
  from assms(1) obtain new old w1 w1' w2 u where d: "outside (fresh_key T) w = (Val new, w1)" and l: "load_key F w1 = (Val old, w1')"
    and r': "rotate_key C old new w1' = (Val u, w2)"
    and s: "outside (set_env_value F H (env_path (repo F)) key_name new) w2 = (Val (), w')"
    unfolding cmd_rotate_key_def bind_Val seq_Val by blast
  have "w1' = w1" using l by (simp add: loaded)
  then have r: "rotate_key C old new w1 = (Val (), w2)" using r' by simp
  note new = drawn [OF d] and kept = rotation_keeps [OF r] and final = key_written [OF s]
  have "map_of (parse_env (set_env_text key_name new (env_text (ext w)))) key_name = Some new"
    using assms(2) new by (intro env_round_trip) (auto simp: key_name_def list_all_iff solid_def is_space_def is_line_break_def)
  with new kept final have "load_key F w' = (Val new, w')" by (auto simp: loaded list_all_iff)
  moreover from l new have "map_of (parse_env (env_text (ext w))) key_name = Some old" by (simp add: loaded)
  moreover from final have "secrets w' = secrets w2" by simp
  ultimately show thesis using new r that by blast
qed

end


text \<open>The contract on a world that is the text of .env, with a cipher that writes the key before the plaintext.\<close>

definition text_cipher :: "string cipher" where
  "text_cipher = \<lparr>encrypt = (\<lambda>k p x. (Val (k @ CHR ''.'' # p), x)),
     decrypt = (\<lambda>k c. if take (Suc (length k)) c = k @ ''.'' then Inr (drop (Suc (length k)) c) else fail ''InvalidToken'' [])\<rparr>"

definition env_files :: "string files" where
  "env_files = \<lparr>repo = (True, [''r'']), list_dir = (\<lambda>d x. (Val None, x)), file_exists = (\<lambda>p x. (Val True, x)), read_text = (\<lambda>p x. (Val x, x)),
     file_bytes = (\<lambda>p x. (Val x, x)), tree_files = (\<lambda>p x. (Val [], x)), yaml_load = (\<lambda>s. Inr JNull), hex_sha256 = (\<lambda>s. s), schema_check = (\<lambda>k v. None)\<rparr>"

definition env_host :: "(string \<Rightarrow> string \<Rightarrow> unit res \<times> string) \<Rightarrow> string host" where
  "env_host saves = \<lparr>git = (\<lambda>a p x. (Val (0, [], []), x)), make_dir = (\<lambda>p x. (Val (), x)), remove_tree = (\<lambda>p x. (Val (), x)),
     write_text = (\<lambda>p. saves), write_bytes = (\<lambda>p. saves), delete_tree = (\<lambda>p x. (Val (), x)), copy_tree = (\<lambda>p q x. (Val (), x)),
     symlink = (\<lambda>p q x. (Val (), x)), restrict_mode = (\<lambda>p x. (Val (), x)), is_dir = (\<lambda>p x. (Val True, x)), is_file = (\<lambda>p x. (Val True, x)), home_dir = (True, [])\<rparr>"

definition demo_terminal :: "string terminal" where
  "demo_terminal = \<lparr>ask_value = (\<lambda>t x. (Val ''value'', x)), fresh_key = (\<lambda>x. (Val ''new'', x))\<rparr>"

definition saved :: "string \<Rightarrow> string \<Rightarrow> unit res \<times> string" where
  "saved t x = (Val (), t)"

definition disk_full :: "string \<Rightarrow> string \<Rightarrow> unit res \<times> string" where
  "disk_full t x = (Exn (Exc ''OSError'' ''No space left on device'' None), x)"

interpretation demo_env: env_store env_files "env_host saved" text_cipher demo_terminal "\<lambda>x. x"
  by unfold_locales
    (simp add: env_laws_def env_files_def env_host_def text_cipher_def demo_terminal_def saved_def solid_def is_space_def is_line_break_def)

lemma text_cipher_law: "decrypts_its_tokens text_cipher"
  by (simp add: decrypts_its_tokens_def text_cipher_def)

definition sealed_world :: "string world" where
  "sealed_world = (one_run (key_name @ ''=old'' @ nl @ ''MODE=dev'' @ nl) [])\<lparr>secrets := [sealed ''a'' ''old.one'', sealed ''b'' ''old.two'']\<rparr>"

lemma sealed_once: "set_once key_name (ext sealed_world)"
proof -
  have lines: "splitlines (ext sealed_world) = [''AWF_SECRET_KEY=old'', ''MODE=dev'']" by code_simp
  have "map_option fst (entry_of ''MODE=dev'') \<noteq> Some key_name" by code_simp
  then show ?thesis unfolding set_once_def lines by (auto simp: Cons_eq_append_conv)
qed


text \<open>
  The new key is only in memory until .env is written, after the store has been re-encrypted with it: when that write
  fails, every secret is lost, because no key that opens them is kept anywhere.
\<close>

lemma failed_write_loses_secrets:
  "case cmd_rotate_key demo_terminal env_files (env_host disk_full) text_cipher sealed_world of
     (Exn e, w') \<Rightarrow> exc_type e = ''OSError'' \<and> fst (load_key env_files w') = Val ''old'' \<and>
       list_all (\<lambda>n. isl (open_secret text_cipher n ''old'' (secrets w'))) [''a'', ''b'']
   | _ \<Rightarrow> False"
  by code_simp

section \<open>Reviews (cli/main.py)\<close>

text \<open>What an id of the operator names.\<close>

datatype review_item =
    AnApproval "approval_row \<times> obj option"
  | AChange obj
  | ADraft proposal_view

definition item_kind :: "review_item \<Rightarrow> string" where
  "item_kind thing = (case thing of AnApproval a \<Rightarrow> ''approval'' | AChange d \<Rightarrow> ''change'' | ADraft v \<Rightarrow> ''draft'')"

text \<open>except CoreOpError: continue.\<close>

definition unless_core :: "('x, 'a) op \<Rightarrow> ('x, 'a) op \<Rightarrow> ('x, 'a) op" where
  "unless_core m next_one = catchE m (\<lambda>e. if exc_type e = ''CoreOpError'' then next_one else raise e)"

definition review_resolve :: "'x improve_env \<Rightarrow> 'x desk \<Rightarrow> string \<Rightarrow> ('x, review_item) op" where
  "review_resolve I D i =
     unless_core (bindE (op_approval_detail I i) (\<lambda>a. ret (AnApproval a)))
       (unless_core (bindE (op_improvement I (Show i)) (\<lambda>v. ret (AChange (as_obj v))))
         (unless_core (bindE (op_proposal_get D i) (\<lambda>v. ret (ADraft v)))
           (core_error (''no approval, change, or draft with id '' @ str_repr i @ '' - run `awf control` to see what is waiting''))))"

definition cmd_review_list :: "'x improve_env \<Rightarrow> string option \<Rightarrow> ('x, (approval_row \<times> obj option) list \<times> json) op" where
  "cmd_review_list I status =
     bindE (op_approval_list I None) (\<lambda>as. bindE (op_improvement I (ListAll status None)) (\<lambda>changes. ret (as, changes)))"

definition cmd_review_approve :: "'x improve_env \<Rightarrow> 'x desk \<Rightarrow> string \<Rightarrow> ('x, obj) op" where
  "cmd_review_approve I D i =
     bindE (review_resolve I D i) (\<lambda>thing. case thing of
         AnApproval a \<Rightarrow> op_approval_approve i ''manual'' None
       | _ \<Rightarrow> core_error (i @ '' is a '' @ item_kind thing @ '', not an approval. Use `awf review merge '' @ i @
           '' <approval-id>` for a change, or `awf review publish '' @ i @ '' --digest <digest>` for a draft.''))"

text \<open>What a rejection prints depends on what was rejected.\<close>

datatype rejection = RejectedApproval obj | RejectedChange json | RejectedDraft proposal_view

definition cmd_review_reject :: "'x improve_env \<Rightarrow> 'x desk \<Rightarrow> string \<Rightarrow> string \<Rightarrow> ('x, rejection) op" where
  "cmd_review_reject I D i reason =
     bindE (review_resolve I D i) (\<lambda>thing. case thing of
         AnApproval a \<Rightarrow> bindE (op_approval_reject i reason) (\<lambda>d. ret (RejectedApproval d))
       | AChange d \<Rightarrow> bindE (op_improvement I (Reject i (Some reason))) (\<lambda>v. ret (RejectedChange v))
       | ADraft v \<Rightarrow> bindE (op_proposal_reject D i (Some reason)) (\<lambda>v. ret (RejectedDraft v)))"

section \<open>Exit codes (cli/main.py)\<close>

text \<open>What is printed, the exit code, and for a run that was started asynchronously the job of its worker.\<close>

definition cmd_run :: "nat \<Rightarrow> 'x run_env \<Rightarrow> string \<Rightarrow> string option \<Rightarrow> obj option \<Rightarrow> bool \<Rightarrow> ('x, obj \<times> nat \<times> ('x, unit) op option) op" where
  "cmd_run depth R flow objective given async =
     (let input = (case given of Some d \<Rightarrow> d | None \<Rightarrow> (case objective of Some (c # s) \<Rightarrow> [(''objective'', JStr (c # s))] | _ \<Rightarrow> [])) in
      if async then bindE (op_run_start_async depth R flow input) (\<lambda>(r, job). ret (r, 0, Some job))
      else bindE (op_run_start depth R flow input) (\<lambda>r. ret (r, if get ''status'' r = JStr ''SUCCEEDED'' then 0 else 1, None)))"

definition cmd_readiness :: "'x files \<Rightarrow> 'x platform \<Rightarrow> ('x, obj \<times> nat) op" where
  "cmd_readiness F H = bindE (op_system_readiness F H) (\<lambda>r. ret (r, if has_key ''error'' r then 1 else 0))"

definition cmd_doctor :: "'x desk \<Rightarrow> 'x platform \<Rightarrow> 'x interpreter \<Rightarrow> ('x, obj \<times> nat) op" where
  "cmd_doctor D H N = bindE (op_system_doctor D H N None False) (\<lambda>r. ret (r, if get ''status'' r = JStr ''error'' then 1 else 0))"

text \<open>run: the exit code, and the text on standard error; with AWF_DEBUG the exception goes on.\<close>

definition cli_run :: "bool \<Rightarrow> ('x, nat) op \<Rightarrow> ('x, nat \<times> string option) op" where
  "cli_run debug command =
     catchE (bindE command (\<lambda>code. ret (code, None))) (\<lambda>e. if debug then raise e else ret (1, Some (''error: '' @ exc_text e)))"

section \<open>What a review decides\<close>

definition decided_tables :: "'x world \<Rightarrow> approval_row list \<times> improvement_row list \<times> proposal_row list" where
  "decided_tables w = (approvals w, improvements w, proposals w)"

interpretation looking: quiet "\<lambda>w. decided_tables w = t" for t
  by unfold_locales (auto intro!: carriesI simp: decided_tables_def utc_now_rfc3339_def uuid7_def insert_artifact_def insert_improvement_event_def
    integrity_def throw_def raise_def)

lemma looking_preview: "carries (\<lambda>w. decided_tables w = t) (preview_of I es)"
  by (induction es) (simp_all only: preview_of.simps, (intro carry looking.get_proposal | assumption)+)

lemma resolving_keeps: "carries (\<lambda>w. decided_tables w = t) (review_resolve I D i)"
  unfolding review_resolve_def unless_core_def op_approval_detail_def with_preview_def machine_action_preview_for_step_def find_approval_def
    op_improvement.simps Awf_Improvement.core_op_def op_proposal_get_def Awf_Authoring.core_op_def Awf_Authoring.get_proposal_def
    find_proposal_def Let_def
  by (intro carry looking.get_proposal looking.statements looking_preview)

text \<open>
  C28. awf review approve decides the approval that the id names and nothing else: when it returns, that approval was
  pending and now is approved, and no other approval, proposed change or draft differs; when it does not,
  as for the id of a change or of a draft, nothing differs at all.
\<close>

theorem approving_decides_only_that_approval:
  "case cmd_review_approve I D i w of
     (Val d, w') \<Rightarrow> \<exists>a t. approval_of i w = Some a \<and> a_status a = Pending \<and>
       decided_tables w' = (map (\<lambda>x. if a_id x = i then x\<lparr>a_status := Approved, a_reason := None, a_decided := Some t\<rparr> else x) (approvals w),
         improvements w, proposals w)
   | (_, w') \<Rightarrow> decided_tables w' = decided_tables w"
proof (cases "review_resolve I D i w")
  case (Pair found w1)
  have same: "decided_tables w1 = decided_tables w"
    using carriesD [OF resolving_keeps [of "decided_tables w" I D i], of w] Pair by simp
  then have tables: "approvals w1 = approvals w" "improvements w1 = improvements w" "proposals w1 = proposals w"
    by (simp_all add: decided_tables_def)
  have decide: "op_approval_approve i ''manual'' None = (decide_approval i Approved None :: ('a, obj) op)"
    by (simp add: op_approval_approve_def)
  show ?thesis
  proof (cases found)
    case (Val thing)
    show ?thesis
    proof (cases thing)
      case (AnApproval a)
      have run: "cmd_review_approve I D i w = decide_approval i Approved None w1"
        by (simp add: cmd_review_approve_def bindE_def Pair Val AnApproval decide)
      have of: "approval_of i w1 = approval_of i w" by (simp add: approval_of_def tables)
      show ?thesis unfolding run decide_approval_eq of
        using same by (auto simp: core_op_error_def throw_def raise_def set_approval_eq decided_tables_def tables split: option.split)
    qed (simp_all add: cmd_review_approve_def bindE_def Pair Val core_error_def throw_def raise_def same)
  qed (simp_all add: cmd_review_approve_def bindE_def Pair same)
qed

end
