(* ===== verification/Awf_Bootstrap.thy ===== *)
theory Awf_Bootstrap
  imports Awf_Workflow
begin

text \<open>
  Creation and migration of the database (db/schema.py, db/bootstrap.py, db/connection.py).  A table is its
  columns, the value lists of its CHECK constraints and its rows; indexes, keys and types are left out.
  A schema statement of Python's sqlite3 is durable at once when no transaction is open; an INSERT opens
  one, and what follows is durable with the next commit.  The statements of init_db are a list, so that a
  process that dies between two of them is a prefix of it.
\<close>

section \<open>Tables, connections and statements\<close>

record table =
  t_columns :: "string list"
  t_checks :: "(string \<times> json list) list"
  t_rows :: "obj list"

definition table_of :: "string list \<Rightarrow> (string \<times> json list) list \<Rightarrow> table" where
  "table_of cols checks = \<lparr>t_columns = cols, t_checks = checks, t_rows = []\<rparr>"

type_synonym database = "string \<Rightarrow> table option"

text \<open>
  The file, the database as this connection sees it, whether a transaction is open, and PRAGMA foreign_keys.
\<close>

record connection =
  cn_file :: database
  cn_view :: database
  cn_open :: bool
  cn_keys :: bool

definition connect :: "database \<Rightarrow> connection" where
  "connect db = \<lparr>cn_file = db, cn_view = db, cn_open = False, cn_keys = True\<rparr>"

datatype statement =
    CreateIfMissing string table
  | CreateTable string table
  | RenameTable string string
  | CopyRows string string "string list"
  | DropTable string
  | AddColumn string string
  | ForeignKeys bool
  | Commit

definition schema_change :: "(database \<Rightarrow> database) \<Rightarrow> connection \<Rightarrow> connection" where
  "schema_change f c = (if cn_open c then c\<lparr>cn_view := f (cn_view c)\<rparr> else c\<lparr>cn_view := f (cn_view c), cn_file := f (cn_view c)\<rparr>)"

text \<open>A row is let in by a CHECK with the list of values when it has one of them, or NULL.\<close>

definition allowed :: "table \<Rightarrow> obj \<Rightarrow> bool" where
  "allowed t r = list_all (\<lambda>(c, vs). get c r = JNull \<or> get c r \<in> set vs) (t_checks t)"

definition project :: "string list \<Rightarrow> obj \<Rightarrow> obj" where
  "project cols r = map (\<lambda>c. (c, get c r)) cols"

definition no_table :: "string \<Rightarrow> 'a result" where
  "no_table n = fail ''OperationalError'' (''no such table: '' @ n)"

definition table_exists :: "string \<Rightarrow> 'a result" where
  "table_exists n = fail ''OperationalError'' (''there is already another table or index with this name: '' @ n)"

fun apply_statement :: "statement \<Rightarrow> connection \<Rightarrow> connection result" where
  "apply_statement (CreateIfMissing n t) c =
     Inr (if cn_view c n = None then schema_change (\<lambda>db. db(n \<mapsto> t)) c else c)"
| "apply_statement (CreateTable n t) c =
     (if cn_view c n \<noteq> None then table_exists n else Inr (schema_change (\<lambda>db. db(n \<mapsto> t)) c))"
| "apply_statement (RenameTable a b) c =
     (case cn_view c a of
        None \<Rightarrow> no_table a
      | Some t \<Rightarrow> if cn_view c b \<noteq> None then table_exists b else Inr (schema_change (\<lambda>db. (db(a := None))(b \<mapsto> t)) c))"
| "apply_statement (CopyRows a b cols) c =
     (case (cn_view c a, cn_view c b) of
        (Some s, Some t) \<Rightarrow>
          let rows = map (project cols) (t_rows s) in
          if \<not> list_all (allowed t) rows then fail ''IntegrityError'' (''CHECK constraint failed: '' @ b)
          else Inr (c\<lparr>cn_view := (cn_view c)(b \<mapsto> t\<lparr>t_rows := t_rows t @ rows\<rparr>), cn_open := True\<rparr>)
      | (None, _) \<Rightarrow> no_table a
      | _ \<Rightarrow> no_table b)"
| "apply_statement (DropTable n) c =
     (if cn_view c n = None then no_table n else Inr (schema_change (\<lambda>db. db(n := None)) c))"
| "apply_statement (AddColumn n col) c =
     (case cn_view c n of
        None \<Rightarrow> no_table n
      | Some t \<Rightarrow> Inr (schema_change (\<lambda>db. db(n \<mapsto> t\<lparr>t_columns := t_columns t @ [col], t_rows := map (\<lambda>r. r @ [(col, JNull)]) (t_rows t)\<rparr>)) c))"
| "apply_statement (ForeignKeys on) c = Inr (if cn_open c then c else c\<lparr>cn_keys := on\<rparr>)"
| "apply_statement Commit c = Inr (c\<lparr>cn_file := cn_view c, cn_open := False\<rparr>)"

text \<open>The statements up to the first that fails: the error, and the connection then.\<close>

fun run_statements :: "statement list \<Rightarrow> connection \<Rightarrow> exc option \<times> connection" where
  "run_statements [] c = (None, c)"
| "run_statements (s # ss) c = (case apply_statement s c of Inl e \<Rightarrow> (Some e, c) | Inr c' \<Rightarrow> run_statements ss c')"

section \<open>The schema (db/schema.py)\<close>

definition ddl_tables :: "(string \<times> table) list" where
  "ddl_tables = [
     (''runs'', table_of [''run_id'', ''workflow_ref'', ''status'', ''input_json'', ''output_json'', ''budget_json'', ''created_at'',
         ''updated_at'']
       [(''status'', [JStr ''CREATED'', JStr ''VALIDATING'', JStr ''QUEUED'', JStr ''RUNNING'', JStr ''WAITING_INPUT'',
         JStr ''WAITING_APPROVAL'', JStr ''SUCCEEDED'', JStr ''FAILED'', JStr ''CANCELING'', JStr ''CANCELED''])]),
     (''steps'', table_of [''step_id'', ''run_id'', ''node_id'', ''attempt'', ''status'', ''input_json'', ''output_json'', ''failure_class'',
         ''started_at'', ''ended_at'']
       [(''status'', [JStr ''PENDING'', JStr ''READY'', JStr ''RUNNING'', JStr ''WAITING_INPUT'', JStr ''WAITING_APPROVAL'',
         JStr ''RETRY_WAIT'', JStr ''SUCCEEDED'', JStr ''FAILED'', JStr ''SKIPPED'', JStr ''CANCELED'']), (''failure_class'', [JStr ''TRANSIENT'', JStr ''TIMEOUT'', JStr ''INVALID_INPUT'', JStr ''POLICY_DENIED'', JStr ''APPROVAL_REJECTED'',
         JStr ''TOOL_ERROR'', JStr ''SANDBOX_VIOLATION'', JStr ''NONDETERMINISTIC_OUTPUT'', JStr ''INTEGRITY_FAILURE'',
         JStr ''UNKNOWN_SIDE_EFFECT'', JStr ''INTERNAL''])]),
     (''events'', table_of [''event_id'', ''run_id'', ''step_id'', ''attempt'', ''prior_status'', ''new_status'', ''occurred_at'', ''actor'',
         ''reason_code'', ''payload_json'']
       []),
     (''artifacts'', table_of [''artifact_id'', ''run_id'', ''step_id'', ''sha256'', ''relative_path'', ''media_type'', ''artifact_type'',
         ''complete'', ''created_at'']
       [(''artifact_type'', [JStr ''candidate'', JStr ''plan'', JStr ''patch'', JStr ''report'', JStr ''test-result'', JStr ''finding'',
         JStr ''verdict'']), (''complete'', [JInt 0, JInt 1])]),
     (''approvals'', table_of [''approval_id'', ''run_id'', ''step_id'', ''action_digest'', ''status'', ''reason'', ''requested_at'', ''decided_at'',
         ''risk_class'']
       [(''status'', [JStr ''pending'', JStr ''approved'', JStr ''rejected'', JStr ''expired'']), (''risk_class'', [JStr ''R0'', JStr ''R1'', JStr ''R2'', JStr ''R3''])]),
     (''secrets'', table_of [''name'', ''ciphertext'', ''created_at'', ''updated_at'']
       []),
     (''registry_index'', table_of [''kind'', ''name'', ''version'', ''digest'', ''source'', ''path'', ''trust_status'', ''indexed_at'']
       [(''source'', [JStr ''config'', JStr ''data'']), (''trust_status'', [JStr ''local'', JStr ''trusted'', JStr ''quarantined'', JStr ''blocked''])]),
     (''registry_proposals'', table_of [''proposal_id'', ''kind'', ''name'', ''version'', ''status'', ''draft_digest'', ''draft_path'', ''summary'',
         ''created_at'', ''updated_at'', ''decided_at'', ''published_digest'', ''rejection_reason'']
       [(''kind'', [JStr ''workflows'', JStr ''semantic-memories'']), (''status'', [JStr ''draft'', JStr ''published'', JStr ''rejected''])]),
     (''registry_proposal_events'', table_of [''event_id'', ''proposal_id'', ''event_type'', ''occurred_at'', ''actor'', ''payload_json'']
       [(''event_type'', [JStr ''created'', JStr ''updated'', JStr ''verified'', JStr ''published'', JStr ''rejected''])]),
     (''improvement_proposals'', table_of [''improvement_id'', ''run_id'', ''target_repo'', ''target_branch'', ''base_commit'', ''candidate_branch'',
         ''candidate_commit'', ''diff_digest'', ''patch_artifact_id'', ''status'', ''summary'', ''changed_paths_json'',
         ''verdict_artifact_id'', ''validation_artifact_ids_json'', ''merge_commit'', ''created_at'', ''updated_at'',
         ''decided_at'', ''closed_at'']
       [(''status'', [JStr ''draft'', JStr ''ready_for_review'', JStr ''approved'', JStr ''merged'', JStr ''rejected'', JStr ''abandoned''])]),
     (''improvement_proposal_events'', table_of [''event_id'', ''improvement_id'', ''event_type'', ''occurred_at'', ''actor'', ''payload_json'']
       []),
     (''active_sessions'', table_of [''session_id'', ''title'', ''status'', ''summary'', ''created_at'', ''updated_at'', ''expires_at'']
       [(''status'', [JStr ''active'', JStr ''summarized'', JStr ''expired''])]),
     (''active_session_entries'', table_of [''entry_id'', ''session_id'', ''role'', ''content_json'', ''summary'', ''created_at'']
       [(''role'', [JStr ''operator'', JStr ''assistant'', JStr ''system'', JStr ''tool''])])]"

section \<open>init_db (db/bootstrap.py)\<close>

definition column_migrations :: "(string \<times> string) list" where
  "column_migrations = [(''approvals'', ''risk_class''), (''active_sessions'', ''summary'')]"

definition columns_of :: "string \<Rightarrow> database \<Rightarrow> string list" where
  "columns_of n db = (case db n of None \<Rightarrow> [] | Some t \<Rightarrow> t_columns t)"

definition column_statements :: "database \<Rightarrow> statement list" where
  "column_statements db = concat (map (\<lambda>(n, col). if col \<in> set (columns_of n db) then [] else [AddColumn n col]) column_migrations)"

text \<open>Whether the text of the CREATE statement has the word, which a value list brings in.\<close>

definition accepts :: "string \<Rightarrow> string \<Rightarrow> database \<Rightarrow> bool" where
  "accepts n word db = (case db n of None \<Rightarrow> True | Some t \<Rightarrow> list_ex (\<lambda>(c, vs). JStr word \<in> set vs) (t_checks t))"

definition schema_of :: "string \<Rightarrow> table" where
  "schema_of n = (case map_of ddl_tables n of Some t \<Rightarrow> t | None \<Rightarrow> table_of [] [])"

definition rebuild :: "string \<Rightarrow> statement list" where
  "rebuild n = [CreateTable n (schema_of n), CopyRows (n @ ''_old'') n (t_columns (schema_of n)), DropTable (n @ ''_old'')]"

definition migrate_proposals :: "connection \<Rightarrow> statement list" where
  "migrate_proposals c =
     (if accepts ''registry_proposals'' ''semantic-memories'' (cn_view c) then []
      else let has_events = cn_view c ''registry_proposal_events'' \<noteq> None in
        [Commit, ForeignKeys False] @
        (if has_events then [RenameTable ''registry_proposal_events'' ''registry_proposal_events_old''] else []) @
        [RenameTable ''registry_proposals'' ''registry_proposals_old''] @
        rebuild ''registry_proposals'' @
        (if has_events then rebuild ''registry_proposal_events'' else []) @
        [Commit] @
        (if cn_keys c then [ForeignKeys True] else []))"

definition migrate_proposal_events :: "connection \<Rightarrow> statement list" where
  "migrate_proposal_events c =
     (if accepts ''registry_proposal_events'' ''verified'' (cn_view c) then []
      else [Commit, ForeignKeys False, RenameTable ''registry_proposal_events'' ''registry_proposal_events_old''] @
        rebuild ''registry_proposal_events'' @
        [Commit] @
        (if cn_keys c then [ForeignKeys True] else []))"

definition phases :: "(connection \<Rightarrow> statement list) list" where
  "phases = [\<lambda>c. map (\<lambda>(n, t). CreateIfMissing n t) ddl_tables, \<lambda>c. column_statements (cn_view c), migrate_proposals, migrate_proposal_events, \<lambda>c. [Commit]]"

text \<open>Each phase looks at the database that the ones before it left.\<close>

primrec planned :: "(connection \<Rightarrow> statement list) list \<Rightarrow> connection \<Rightarrow> statement list" where
  "planned [] c = []"
| "planned (p # ps) c = p c @ (case run_statements (p c) c of (None, c') \<Rightarrow> planned ps c' | (Some e, c') \<Rightarrow> [])"

text \<open>The error and the file after the connection was closed, which rolls back what is open.\<close>

definition init_db :: "database \<Rightarrow> exc option \<times> database" where
  "init_db db = (let (e, c) = run_statements (planned phases (connect db)) (connect db) in (e, cn_file c))"

text \<open>The file when the process dies after n statements.\<close>

definition init_db_interrupted :: "nat \<Rightarrow> database \<Rightarrow> database" where
  "init_db_interrupted n db = cn_file (snd (run_statements (take n (planned phases (connect db))) (connect db)))"

section \<open>What a start of the program keeps\<close>

abbreviation "PROPOSALS \<equiv> ''registry_proposals''"
abbreviation "PROPOSALS_OLD \<equiv> ''registry_proposals_old''"
abbreviation "EVENTS \<equiv> ''registry_proposal_events''"
abbreviation "EVENTS_OLD \<equiv> ''registry_proposal_events_old''"

definition resting :: "database \<Rightarrow> bool \<Rightarrow> connection" where
  "resting db keys = \<lparr>cn_file = db, cn_view = db, cn_open = False, cn_keys = keys\<rparr>"

lemma connect_resting: "connect db = resting db True"
  by (simp add: connect_def resting_def)

lemma run_append: "run_statements (xs @ ys) c = (case run_statements xs c of (None, c') \<Rightarrow> run_statements ys c' | r \<Rightarrow> r)"
  by (induction xs arbitrary: c) (auto split: sum.splits option.splits prod.splits)

lemma run_creates: "run_statements (map (\<lambda>(n, t). CreateIfMissing n t) ts) (resting db k) = (None, resting (map_of ts ++ db) k)"
proof (induction ts arbitrary: db)
  case (Cons p ts)
  obtain n t where p: "p = (n, t)" by fastforce
  have created: "apply_statement (CreateIfMissing n t) (resting db k) = Inr (resting (if db n = None then db(n \<mapsto> t) else db) k)"
    by (simp add: resting_def schema_change_def)
  have joined: "map_of ts ++ (if db n = None then db(n \<mapsto> t) else db) = map_of ((n, t) # ts) ++ db"
    by (auto simp: map_add_def split: option.splits)
  show ?case by (simp only: p list.map prod.case run_statements.simps created sum.case Cons joined)
qed simp

definition add_column :: "string \<Rightarrow> table \<Rightarrow> table" where
  "add_column col t = (if col \<in> set (t_columns t) then t
     else t\<lparr>t_columns := t_columns t @ [col], t_rows := map (\<lambda>r. r @ [(col, JNull)]) (t_rows t)\<rparr>)"

lemma run_columns:
  assumes "db ''approvals'' = Some a" "db ''active_sessions'' = Some s"
  shows "run_statements (column_statements db) (resting db k) =
    (None, resting (db(''approvals'' \<mapsto> add_column ''risk_class'' a, ''active_sessions'' \<mapsto> add_column ''summary'' s)) k)"
  using assms by (auto simp: column_statements_def column_migrations_def columns_of_def add_column_def resting_def schema_change_def fun_upd_idem)

text \<open>A table whose rows the schema of today lets in.\<close>

definition fits :: "string \<Rightarrow> database \<Rightarrow> bool" where
  "fits n db = (\<forall>t. db n = Some t \<longrightarrow>
     list_all (\<lambda>r. map fst r = t_columns (schema_of n) \<and> allowed (schema_of n) r) (t_rows t))"

lemma project_same: "map fst r = cols \<Longrightarrow> distinct cols \<Longrightarrow> project cols r = r"
proof -
  assume "map fst r = cols" "distinct cols"
  then have "map (\<lambda>p. (fst p, get (fst p) r)) r = r"
    by (intro map_idI) (auto simp: get_def)
  with \<open>map fst r = cols\<close> show ?thesis by (auto simp: project_def comp_def)
qed


lemma schema_facts:
  "t_rows (schema_of PROPOSALS) = []" "t_rows (schema_of EVENTS) = []"
  "distinct (t_columns (schema_of PROPOSALS))" "distinct (t_columns (schema_of EVENTS))"
  by code_simp+

definition renewed :: "string \<Rightarrow> table \<Rightarrow> table" where
  "renewed n t = (schema_of n)\<lparr>t_rows := t_rows t\<rparr>"

lemma copied:
  assumes "fits n db" "db n = Some t" "distinct (t_columns (schema_of n))"
  shows "map (project (t_columns (schema_of n))) (t_rows t) = t_rows t" "list_all (allowed (schema_of n)) (t_rows t)"
  using assms by (auto simp: fits_def list_all_iff intro!: map_idI project_same)

lemma run_proposals:
  assumes "db PROPOSALS = Some p" "db EVENTS = Some e" "db PROPOSALS_OLD = None" "db EVENTS_OLD = None" "fits PROPOSALS db" "fits EVENTS db"
  shows "run_statements (migrate_proposals (resting db k)) (resting db k) =
    (None, resting (if accepts PROPOSALS ''semantic-memories'' db then db
                    else db(PROPOSALS \<mapsto> renewed PROPOSALS p, EVENTS \<mapsto> renewed EVENTS e)) k)"
proof -
  note rows = copied [OF assms(5,1) schema_facts(3)] copied [OF assms(6,2) schema_facts(4)]
  have allowed: "allowed (t\<lparr>t_rows := rs\<rparr>) = allowed t" for t rs by (simp add: allowed_def fun_eq_iff)
  show ?thesis
    using assms(1-4) rows schema_facts
    by (auto simp: migrate_proposals_def rebuild_def resting_def schema_change_def renewed_def Let_def intro!: ext)
qed

lemma run_events:
  assumes "db EVENTS = Some e" "db EVENTS_OLD = None" "fits EVENTS db"
  shows "run_statements (migrate_proposal_events (resting db k)) (resting db k) =
    (None, resting (if accepts EVENTS ''verified'' db then db else db(EVENTS \<mapsto> renewed EVENTS e)) k)"
proof -
  note rows = copied [OF assms(3,1) schema_facts(4)]
  show ?thesis
    using assms(1,2) rows schema_facts
    by (auto simp: migrate_proposal_events_def rebuild_def resting_def schema_change_def renewed_def Let_def intro!: ext)
qed


section \<open>The phases together\<close>

lemma run_planned:
  "run_statements (planned (p # ps) c) c =
     (case run_statements (p c) c of (None, c') \<Rightarrow> run_statements (planned ps c') c' | r \<Rightarrow> r)"
  by (auto simp: run_append split: prod.split option.split)

lemma ddl_facts:
  "map_of ddl_tables PROPOSALS = Some (schema_of PROPOSALS)" "map_of ddl_tables EVENTS = Some (schema_of EVENTS)"
  "map_of ddl_tables ''approvals'' \<noteq> None" "map_of ddl_tables ''active_sessions'' \<noteq> None"
  "map_of ddl_tables PROPOSALS_OLD = None" "map_of ddl_tables EVENTS_OLD = None"
  by code_simp+

lemma schema_accepts:
  "list_ex (\<lambda>(c, vs). JStr ''semantic-memories'' \<in> set vs) (t_checks (schema_of PROPOSALS))"
  "list_ex (\<lambda>(c, vs). JStr ''verified'' \<in> set vs) (t_checks (schema_of EVENTS))"
  by code_simp+

text \<open>The database after the tables were created and the columns added.\<close>

definition with_tables :: "database \<Rightarrow> database" where
  "with_tables db =
     (let all = map_of ddl_tables ++ db in
      all(''approvals'' := map_option (add_column ''risk_class'') (all ''approvals''),
          ''active_sessions'' := map_option (add_column ''summary'') (all ''active_sessions'')))"

definition migrated :: "database \<Rightarrow> database" where
  "migrated db =
     (let all = with_tables db;
          moved = (if accepts PROPOSALS ''semantic-memories'' all then all
             else all(PROPOSALS := map_option (renewed PROPOSALS) (all PROPOSALS), EVENTS := map_option (renewed EVENTS) (all EVENTS))) in
      if accepts EVENTS ''verified'' moved then moved else moved(EVENTS := map_option (renewed EVENTS) (moved EVENTS)))"

lemma with_tables_other: "n \<noteq> ''approvals'' \<Longrightarrow> n \<noteq> ''active_sessions'' \<Longrightarrow> with_tables db n = (map_of ddl_tables ++ db) n"
  by (simp add: with_tables_def Let_def)

lemma with_tables_facts:
  "with_tables db PROPOSALS = Some (case db PROPOSALS of None \<Rightarrow> schema_of PROPOSALS | Some t \<Rightarrow> t)"
  "with_tables db EVENTS = Some (case db EVENTS of None \<Rightarrow> schema_of EVENTS | Some t \<Rightarrow> t)"
  "with_tables db PROPOSALS_OLD = db PROPOSALS_OLD" "with_tables db EVENTS_OLD = db EVENTS_OLD"
  by (simp_all add: with_tables_other map_add_def ddl_facts split: option.split)

lemma fits_with_tables: "fits PROPOSALS db \<Longrightarrow> fits PROPOSALS (with_tables db)" "fits EVENTS db \<Longrightarrow> fits EVENTS (with_tables db)"
  by (auto simp: fits_def with_tables_facts schema_facts split: option.splits)

lemma added_some: "map_of ddl_tables n \<noteq> None \<Longrightarrow> \<exists>t. (map_of ddl_tables ++ db) n = Some t"
  by (cases "db n") (auto simp: map_add_def)

lemma run_first_phases:
  "run_statements (planned phases (connect db)) (connect db) =
     run_statements (planned [migrate_proposals, migrate_proposal_events, \<lambda>c. [Commit]] (resting (with_tables db) True)) (resting (with_tables db) True)"
proof -
  let ?all = "map_of ddl_tables ++ db"
  from added_some [OF ddl_facts(3), of db] obtain a where a: "?all ''approvals'' = Some a" ..
  from added_some [OF ddl_facts(4), of db] obtain s where s: "?all ''active_sessions'' = Some s" ..
  have all: "?all(''approvals'' \<mapsto> add_column ''risk_class'' a, ''active_sessions'' \<mapsto> add_column ''summary'' s) = with_tables db"
    by (simp add: with_tables_def Let_def a s)
  have view: "cn_view (resting ?all True) = ?all" by (simp add: resting_def)
  show ?thesis
    unfolding phases_def connect_resting run_planned run_creates prod.case option.case view run_columns [OF a s] all ..
qed

lemma init_db_migrated:
  assumes "db PROPOSALS_OLD = None" "db EVENTS_OLD = None" "fits PROPOSALS db" "fits EVENTS db"
  shows "init_db db = (None, migrated db)"
proof -
  let ?all = "with_tables db"
  obtain p e where p: "?all PROPOSALS = Some p" and e: "?all EVENTS = Some e" using with_tables_facts by metis
  have old: "?all PROPOSALS_OLD = None" "?all EVENTS_OLD = None" using assms by (simp_all add: with_tables_facts)
  note fit = fits_with_tables(1) [OF assms(3)] fits_with_tables(2) [OF assms(4)]
  define moved where "moved = (if accepts PROPOSALS ''semantic-memories'' ?all then ?all else ?all(PROPOSALS \<mapsto> renewed PROPOSALS p, EVENTS \<mapsto> renewed EVENTS e))"
  have "moved EVENTS \<noteq> None" by (simp add: moved_def e)
  then obtain e' where e': "moved EVENTS = Some e'" by blast
  have "moved EVENTS_OLD = None" using old by (simp add: moved_def)
  moreover have "fits EVENTS moved" using fit(2) by (auto simp: moved_def fits_def renewed_def e)
  ultimately have events: "run_statements (migrate_proposal_events (resting moved True)) (resting moved True) =
      (None, resting (if accepts EVENTS ''verified'' moved then moved else moved(EVENTS \<mapsto> renewed EVENTS e')) True)"
    using e' by (intro run_events)
  have final: "(if accepts EVENTS ''verified'' moved then moved else moved(EVENTS \<mapsto> renewed EVENTS e')) = migrated db"
  proof -
    have "moved = (if accepts PROPOSALS ''semantic-memories'' ?all then ?all
        else ?all(PROPOSALS := map_option (renewed PROPOSALS) (?all PROPOSALS), EVENTS := map_option (renewed EVENTS) (?all EVENTS)))"
      by (simp add: moved_def p e)
    then have "migrated db = (if accepts EVENTS ''verified'' moved then moved else moved(EVENTS := map_option (renewed EVENTS) (moved EVENTS)))"
      by (simp only: migrated_def Let_def)
    then show ?thesis by (simp only: e' option.map)
  qed
  have "run_statements (planned phases (connect db)) (connect db) = (None, resting (migrated db) True)"
    unfolding run_first_phases run_planned run_proposals [OF p e old fit] prod.case option.case moved_def [symmetric] events final
    by (simp add: resting_def)
  then show ?thesis by (simp add: init_db_def resting_def)
qed


lemma fits_renewed: "t_rows (renewed n t) = t_rows t" "t_checks (renewed n t) = t_checks (schema_of n)"
  by (simp_all add: renewed_def)

text \<open>A table keeps its rows when every row reads, column by column, as it did; a column that is new reads NULL.\<close>

definition same_rows :: "table \<Rightarrow> table \<Rightarrow> bool" where
  "same_rows t t' = list_all2 (\<lambda>r r'. \<forall>c. get c r' = get c r) (t_rows t) (t_rows t')"

lemma same_rows_basic: "same_rows t t" "same_rows t (renewed n t)" "same_rows t (add_column col t)"
proof -
  have "get c (r @ [(col, JNull)]) = get c r" for c and r :: obj by (auto simp: get_def split: option.splits if_splits)
  then show "same_rows t (add_column col t)" by (auto simp: same_rows_def add_column_def list_all2_map2 list_all2_same)
qed (simp_all add: same_rows_def fits_renewed list_all2_same)

lemma with_tables_rows: "db n = Some t \<Longrightarrow> \<exists>t'. with_tables db n = Some t' \<and> same_rows t t'"
  using same_rows_basic by (auto simp: with_tables_def Let_def map_add_def)

lemma renewed_rows: "same_rows t t' \<Longrightarrow> same_rows t (renewed n t')"
  by (simp add: same_rows_def fits_renewed)

lemma migrated_rows: "db n = Some t \<Longrightarrow> \<exists>t'. migrated db n = Some t' \<and> same_rows t t'"
  using with_tables_rows [of db n t] by (auto simp: migrated_def Let_def intro: renewed_rows)

lemma accepts_renewed: "accepts PROPOSALS ''semantic-memories'' (db(PROPOSALS := map_option (renewed PROPOSALS) x))"
    "accepts EVENTS ''verified'' (db(EVENTS := map_option (renewed EVENTS) x))"
  using schema_accepts by (cases x; simp add: accepts_def fits_renewed)+

lemma accepts_other: "n \<noteq> m \<Longrightarrow> accepts n word (db(m := x)) = accepts n word db"
  by (simp add: accepts_def)

lemma migrated_accepts: "accepts PROPOSALS ''semantic-memories'' (migrated db)" "accepts EVENTS ''verified'' (migrated db)"
  using accepts_renewed by (auto simp: migrated_def Let_def accepts_other fun_upd_twist)

lemma migrated_settled:
  assumes "\<And>n. map_of ddl_tables n \<noteq> None \<Longrightarrow> d n \<noteq> None" "''risk_class'' \<in> set (columns_of ''approvals'' d)"
    "''summary'' \<in> set (columns_of ''active_sessions'' d)" "accepts PROPOSALS ''semantic-memories'' d" "accepts EVENTS ''verified'' d"
  shows "migrated d = d"
proof -
  have "map_of ddl_tables ++ d = d"
  proof (rule ext)
    fix n show "(map_of ddl_tables ++ d) n = d n" using assms(1) [of n] by (cases "d n"; cases "map_of ddl_tables n") (auto simp: map_add_def)
  qed
  moreover have "map_option (add_column ''risk_class'') (d ''approvals'') = d ''approvals''"
    "map_option (add_column ''summary'') (d ''active_sessions'') = d ''active_sessions''"
    using assms(2,3) by (cases "d ''approvals''"; cases "d ''active_sessions''"; simp add: columns_of_def add_column_def)+
  ultimately have "with_tables d = d" by (simp add: with_tables_def Let_def fun_upd_idem)
  with assms(4,5) show ?thesis by (simp add: migrated_def Let_def)
qed

lemma migrated_columns:
  "''risk_class'' \<in> set (columns_of ''approvals'' (migrated db))" "''summary'' \<in> set (columns_of ''active_sessions'' (migrated db))"
proof -
  from added_some [OF ddl_facts(3), of db] obtain a where "(map_of ddl_tables ++ db) ''approvals'' = Some a" ..
  moreover from added_some [OF ddl_facts(4), of db] obtain s where "(map_of ddl_tables ++ db) ''active_sessions'' = Some s" ..
  moreover have "migrated db n = with_tables db n" if "n = ''approvals'' \<or> n = ''active_sessions''" for n
    using that by (auto simp: migrated_def Let_def)
  moreover have "with_tables db ''approvals'' = map_option (add_column ''risk_class'') ((map_of ddl_tables ++ db) ''approvals'')"
    "with_tables db ''active_sessions'' = map_option (add_column ''summary'') ((map_of ddl_tables ++ db) ''active_sessions'')"
    by (simp_all add: with_tables_def Let_def)
  ultimately show "''risk_class'' \<in> set (columns_of ''approvals'' (migrated db))" "''summary'' \<in> set (columns_of ''active_sessions'' (migrated db))"
    by (simp_all add: columns_of_def add_column_def)
qed

lemma migrated_complete: "map_of ddl_tables n \<noteq> None \<Longrightarrow> migrated db n \<noteq> None"
proof -
  assume "map_of ddl_tables n \<noteq> None"
  then have "(map_of ddl_tables ++ db) n \<noteq> None" using added_some by (metis option.distinct(1))
  then have "with_tables db n \<noteq> None" by (cases "n = ''approvals''"; cases "n = ''active_sessions''") (simp_all add: with_tables_def Let_def del: map_add_None)
  then show ?thesis by (cases "n = PROPOSALS"; cases "n = EVENTS") (simp_all add: migrated_def Let_def)
qed

lemma migrated_again: "migrated (migrated db) = migrated db"
  by (intro migrated_settled migrated_columns migrated_accepts migrated_complete)

lemma migrated_old:
  "db PROPOSALS_OLD = None \<Longrightarrow> migrated db PROPOSALS_OLD = None" "db EVENTS_OLD = None \<Longrightarrow> migrated db EVENTS_OLD = None"
  by (simp_all add: migrated_def Let_def with_tables_facts)


lemma fits_value: "d n = d' n \<or> d n = map_option (renewed n) (d' n) \<Longrightarrow> fits n d' \<Longrightarrow> fits n d"
  by (auto simp: fits_def fits_renewed)

lemma renewed_renewed: "map_option (renewed n) (map_option (renewed n) x) = map_option (renewed n) x"
  by (cases x) (simp_all add: renewed_def)

lemma migrated_fits:
  assumes "fits PROPOSALS db" "fits EVENTS db"
  shows "fits PROPOSALS (migrated db)" "fits EVENTS (migrated db)"
proof -
  have "migrated db n = with_tables db n \<or> migrated db n = map_option (renewed n) (with_tables db n)" if "n = PROPOSALS \<or> n = EVENTS" for n
    using that by (auto simp only: migrated_def Let_def renewed_renewed fun_upd_apply split: if_split)
  then show "fits PROPOSALS (migrated db)" "fits EVENTS (migrated db)"
    using fits_value [OF _ fits_with_tables(1) [OF assms(1)]] fits_value [OF _ fits_with_tables(2) [OF assms(2)]] by blast+
qed

section \<open>Starting, and starting again\<close>


text \<open>
  A process that dies within the migration: after the table of the events has been renamed, and after both tables
  have, with the statements so far durable.
\<close>

definition creations :: "database \<Rightarrow> statement list" where
  "creations db = map (\<lambda>(n, t). CreateIfMissing n t) ddl_tables @ column_statements (map_of ddl_tables ++ db)"

lemma run_creations:
  "run_statements (creations db) (connect db) = (None, resting (with_tables db) True)"
  "\<exists>rest. planned phases (connect db) = creations db @ migrate_proposals (resting (with_tables db) True) @ rest"
proof -
  let ?all = "map_of ddl_tables ++ db"
  from added_some [OF ddl_facts(3), of db] obtain a where a: "?all ''approvals'' = Some a" ..
  from added_some [OF ddl_facts(4), of db] obtain s where s: "?all ''active_sessions'' = Some s" ..
  have all: "?all(''approvals'' \<mapsto> add_column ''risk_class'' a, ''active_sessions'' \<mapsto> add_column ''summary'' s) = with_tables db"
    by (simp add: with_tables_def Let_def a s)
  have view: "cn_view (resting ?all True) = ?all" by (simp add: resting_def)
  show "run_statements (creations db) (connect db) = (None, resting (with_tables db) True)"
    unfolding creations_def run_append connect_resting run_creates prod.case option.case run_columns [OF a s] all ..
  show "\<exists>rest. planned phases (connect db) = creations db @ migrate_proposals (resting (with_tables db) True) @ rest"
    unfolding phases_def planned.simps connect_resting run_creates prod.case option.case view run_columns [OF a s] all creations_def
    by simp
qed

lemma dies_within:
  assumes "k \<le> length (migrate_proposals (resting (with_tables db) True))"
  shows "init_db_interrupted (length (creations db) + k) db =
    cn_file (snd (run_statements (take k (migrate_proposals (resting (with_tables db) True))) (resting (with_tables db) True)))"
proof -
  obtain rest where "planned phases (connect db) = creations db @ migrate_proposals (resting (with_tables db) True) @ rest"
    using run_creations(2) by blast
  with assms show ?thesis by (simp add: init_db_interrupted_def run_append run_creations(1))
qed

lemma before_migration:
  assumes "\<not> accepts PROPOSALS ''semantic-memories'' db" "db PROPOSALS = Some p" "db EVENTS = Some e" "db PROPOSALS_OLD = None" "db EVENTS_OLD = None"
  shows "init_db_interrupted (length (creations db) + 3) db = (with_tables db)(EVENTS := None, EVENTS_OLD \<mapsto> e)"
    "init_db_interrupted (length (creations db) + 4) db =
      (with_tables db)(EVENTS := None, EVENTS_OLD \<mapsto> e, PROPOSALS := None, PROPOSALS_OLD \<mapsto> p)"
proof -
  have "\<not> accepts PROPOSALS ''semantic-memories'' (with_tables db)" "with_tables db PROPOSALS = Some p" "with_tables db EVENTS = Some e"
    "with_tables db PROPOSALS_OLD = None" "with_tables db EVENTS_OLD = None"
    using assms by (simp_all add: accepts_def with_tables_facts)
  then show "init_db_interrupted (length (creations db) + 3) db = (with_tables db)(EVENTS := None, EVENTS_OLD \<mapsto> e)"
    "init_db_interrupted (length (creations db) + 4) db =
      (with_tables db)(EVENTS := None, EVENTS_OLD \<mapsto> e, PROPOSALS := None, PROPOSALS_OLD \<mapsto> p)"
    by (subst dies_within; simp add: migrate_proposals_def rebuild_def resting_def schema_change_def Let_def eval_nat_numeral)+
qed


text \<open>
  A process that dies within the migration leaves a database that either no start gets past, or that every start
  takes for a new one, with the proposals out of reach under the old name.
\<close>

lemma death_within_migration:
  assumes "\<not> accepts PROPOSALS ''semantic-memories'' db" "db PROPOSALS = Some p" "db EVENTS = Some e" "db PROPOSALS_OLD = None" "db EVENTS_OLD = None"
  shows "\<exists>n x. fst (init_db (init_db_interrupted n db)) = Some x \<and> exc_type x = ''OperationalError''"
    "\<exists>n db'. init_db (init_db_interrupted n db) = (None, db') \<and> db' PROPOSALS = Some (schema_of PROPOSALS) \<and> db' PROPOSALS_OLD = Some p"
proof -
  let ?f = "(with_tables db)(EVENTS := None, EVENTS_OLD \<mapsto> e)" and ?g = "(with_tables db)(EVENTS := None, EVENTS_OLD \<mapsto> e, PROPOSALS := None, PROPOSALS_OLD \<mapsto> p)"
  have "with_tables ?f PROPOSALS = Some p" "with_tables ?f EVENTS \<noteq> None" "with_tables ?f EVENTS_OLD = Some e"
    "\<not> accepts PROPOSALS ''semantic-memories'' (with_tables ?f)"
    using assms by (simp_all add: with_tables_facts accepts_def)
  then have "\<exists>x. fst (init_db ?f) = Some x \<and> exc_type x = ''OperationalError''"
    unfolding init_db_def run_first_phases run_planned
    by (auto simp: migrate_proposals_def resting_def table_exists_def fail_def Let_def)
  then show "\<exists>n x. fst (init_db (init_db_interrupted n db)) = Some x \<and> exc_type x = ''OperationalError''"
    using before_migration(1) [OF assms] by metis
  have there: "with_tables ?g PROPOSALS = Some (schema_of PROPOSALS)" "with_tables ?g EVENTS = Some (schema_of EVENTS)"
    "with_tables ?g PROPOSALS_OLD = Some p" by (simp_all add: with_tables_facts)
  have "accepts PROPOSALS ''semantic-memories'' (with_tables ?g)" "accepts EVENTS ''verified'' (with_tables ?g)"
    using schema_accepts by (simp_all add: accepts_def there)
  then have "init_db ?g = (None, with_tables ?g)"
    unfolding init_db_def run_first_phases run_planned
    by (simp add: migrate_proposals_def migrate_proposal_events_def resting_def)
  with there show "\<exists>n db'. init_db (init_db_interrupted n db) = (None, db') \<and> db' PROPOSALS = Some (schema_of PROPOSALS) \<and> db' PROPOSALS_OLD = Some p"
    using before_migration(2) [OF assms] by metis
qed

text \<open>A database of before the migrations, with a proposal and its first event.\<close>

definition legacy_proposal :: obj where
  "legacy_proposal = map (\<lambda>c. (c, if c = ''kind'' then JStr ''workflows'' else if c = ''status'' then JStr ''draft'' else JStr c))
     (t_columns (schema_of PROPOSALS))"

definition legacy_event :: obj where
  "legacy_event = map (\<lambda>c. (c, if c = ''event_type'' then JStr ''created'' else JStr c)) (t_columns (schema_of EVENTS))"

definition legacy_db :: database where
  "legacy_db = [PROPOSALS \<mapsto> (schema_of PROPOSALS)\<lparr>t_checks := [(''kind'', [JStr ''workflows''])], t_rows := [legacy_proposal]\<rparr>,
     EVENTS \<mapsto> (schema_of EVENTS)\<lparr>t_checks := [(''event_type'', [JStr ''created''])], t_rows := [legacy_event]\<rparr>]"


end
