(* ===== verification/Spec2Isabelle.thy ===== *)
theory Spec2Isabelle
  imports Awf_Engine Awf_Intent Awf_Server Awf_Cli Awf_Bootstrap
begin

text \<open>
  A model of the AWF backend (src/backend/src/awf): a local workflow engine that drives coding agents,
  machine activities and language models, keeps every step of a run in a SQLite database, and puts what
  they do under a Capability Guard, approvals by an operator and review gates.

  \<^bold>\<open>How the program is modelled.\<close>  The state is one record, \<^typ>\<open>'x world\<close> (Awf_Store): a list of rows
  for each table of db/schema.py, the readings that the clock and uuid7 will give, and a component of any
  type for what is outside the database - files, git, agents, the network.  An operation is a function from
  a world to a result and a world (Awf_Action); the result is a value, an exception with its class, its text
  and its failure_class, or \<^const>\<open>Div\<close> for a run that never ends.  What an operation wrote before it raised
  stays written, as each statement of the code is committed before the next.  Statements raise what SQLite
  raises: primary keys, foreign keys, CHECK constraints.  JSON values are the datatype \<^typ>\<open>json\<close>; a dict is
  an association list in insertion order; parsers and checks that use no state give \<^typ>\<open>exc + 'a\<close>.
  Libraries and external programs (YAML, jsonschema, SHA-256, Fernet, litellm, git, subprocesses, adapters)
  are functions in the records of parameters that the operations take.

  \<^bold>\<open>Parts.\<close>
  \<^item> Awf_Prelude, Awf_Action: JSON, Python's text functions; actions, loops, and the two judgements the
    proofs are built on, \<open>carries I m\<close> (m keeps the invariant I however it ends) and \<open>halts m\<close>.
  \<^item> Awf_Store (db/schema.py), Awf_Run (events/, engine/, artifacts.py): the tables, durable steps, recovery
    and artifacts.  \<open>kept w0 w\<close> is what every operation keeps: consistency, the identity of runs and
    approvals, the log, the artifacts, finished steps and decisions.
  \<^item> Awf_Workflow (workflow/definition.py, nodes.py, io_schema.py): workflow definitions.
  \<^item> Awf_Guard (guard/, registry/capability_record.py), Awf_Gateway (gateway/client.py), Awf_Gates (gates/),
    Awf_Approval (approval_policy.py, workflow/approval.py, ops/approval.py): what may be done, and who says so.
  \<^item> Awf_Engine (workflow/engine.py): the interpreter.  It takes its turns from fuel; with success edges that
    make progress and a repair budget of m, a rank bound B makes any fuel above (m + 1) * (B + 2) enough, which
    is the theorem of its termination.
  \<^item> Awf_Machine (machine/): governed file, command and network activities.
  \<^item> Awf_Registry, Awf_Prompt, Awf_Memory (registry/, cognition/, mcp/, memory/): the versioned objects, what
    a model is told, what it remembers.
  \<^item> Awf_Secrets (secrets/store.py), Awf_Isolation (isolation/, envfile.py): the rest of a step's surroundings.
  \<^item> Awf_Agent (engine/agent_step.py), Awf_Nodes (the executors of workflow/): the steps themselves.
  \<^item> Awf_Improvement (improvement/, eval/): proposals from a candidate branch to its merge.
  \<^item> Awf_Runs (ops/run_execution.py, ops/run.py): executors put together, child runs, start and resume.
    Child runs nest to a depth that is a parameter; below it Python's RecursionError is raised.  The worker
    thread of an asynchronous start is an operation of its own; map items run in an order a parameter gives,
    one at a time, as their lock enforces.
  \<^item> Awf_Speech (speech/session.py): the voice session as a state machine over the session store.
  \<^item> Awf_Kinds (registry/voice_profile.py, registry/hardware_voice_manifest.py, llm/servers.py): three more kinds
    of registry objects.  Awf_Hardware (hardware/, llm/): what a host is taken to be - inventory, preflight
    tokens, readiness, the canonical profile - and the choice of a model server.
  \<^item> Awf_Publish (ops/registry.py), Awf_Authoring (authoring/, memory/proposals.py, ops/authoring.py,
    ops/memory.py, ops/artifact.py, ops/approval.py): registry objects from a model's or an operator's draft
    through verification and publication to the trust decision, and the operations around them.
  \<^item> Awf_Intent (cognition/router.py, ops/intent.py, ops/voice.py): what an utterance is taken for, with the
    search of Python's re as a function that enumerates matches in the order of backtracking, proved to find
    what the expression means; the dispatch to runs, drafts and memory; the voice turn.
  \<^item> Awf_Sidecar (llm/sidecar.py, llm/selector.py, llm/discovery.py, ops/llm.py): the local model server as a
    process - its command line, start, health, stop, the state file shared by workers - and the selection and
    download of what it serves.  Its two loops take fuel; 121 turns exceed the 60 seconds of the one and 51 the
    5 seconds of the other.
  \<^item> Awf_System (ops/system.py, pyexec.py), Awf_Control (ops/control.py): the checks of the doctor; what the
    operator is shown - the list of work derived from everything else, the timeline of a run, the snapshot of
    events, the options to start work.  op_registry_get is there for workflows and server files.
  \<^item> Awf_Server (protocol/methods.py, server/): the manifest of the JSON-RPC methods, the tables generated from
    it, dispatch, and the loop over the lines of standard input; the operations are a parameter of it.
  \<^item> Awf_Cli (secrets/cli.py, cli/main.py): rotation with the key in .env, the review commands, exit codes.
  \<^item> Awf_Bootstrap (db/schema.py, db/bootstrap.py): creation and migration of the database as a list of statements
    with the transactions of sqlite3, and what a process that dies within it leaves.

  \<^bold>\<open>Interfaces.\<close>  The locales recording_executors (Awf_Engine: what the engine asks of node executors),
  quiet, keeping and keeping_proposals (Awf_Improvement: what a state has to offer for the operations on
  proposals to keep it), filing and tree_filing (Awf_Publish: what the file system has to keep for a publication
  to be read back), worker and shared_state (Awf_Sidecar: a world whose calls come back and whose clock runs, and
  the file by which workers share a status) are interpreted on the model's own operations in the theories that provide them.

  \<^bold>\<open>Properties\<close> are the theorems with a number in the text before them.  They state durability and
  recovery of steps, the refinement of the Guard's policy, that nothing runs without clearance, that decisions
  about approvals, drafts and trust are final, that a merge is the merge that was approved, that records are only added to, that runs
  end and settle, round trips, bounds, and - where the code does something else than it says - what it does.

  \<^bold>\<open>Not modelled.\<close>  The parser of arguments and the printing of the command line, setup, the
  probes of the hardware (their outcomes are parameters), the speech engines: input and output, or numerical
  libraries.  Two connections to the database are one database: writes of concurrent threads interleave
  between operations, not within them.  Floats are exact fractions; infinities and nan are left out.
\<close>

end
